(* ===== verification/Prelude.thy ===== *)
theory Prelude
  imports Main "HOL-Library.Word" "HOL-Library.Monad_Syntax"
begin

text \<open>
  Shared vocabulary of the development: the machine types the Go code uses, the
  identifiers that travel between the components, results with an error branch,
  and the generic list, map and sequence facts that more than one component needs.
\<close>

section \<open>Types\<close>

type_synonym byte = "8 word"
type_synonym u32 = "32 word"
type_synonym uid = string
type_synonym rid = string
type_synonym sid = string
type_synonym mid = string
type_synonym node = string

text \<open>Times and durations are Go's \<open>int64\<close> counts; the model keeps them as integers
  (no operation of the modelled code comes near the ends of the 64-bit range).\<close>

type_synonym time = int

text \<open>A Go slice that the code compares with \<open>nil\<close>: \<open>None\<close> is \<open>nil\<close>, \<open>Some xs\<close>
  a slice that is not \<open>nil\<close> (empty or not).\<close>

type_synonym 'a slice = "'a list option"

section \<open>Collections of rules\<close>

named_theorems frame \<open>fields an operation leaves as they are\<close>
named_theorems inv_intro \<open>operations that keep an invariant\<close>

section \<open>Order-preserving removal of duplicates\<close>

text \<open>
  The code keeps a \<open>seen\<close> map next to an output slice in many places: an element is
  skipped when it was seen before, otherwise it is recorded and appended.
\<close>

fun dedup_seen :: "'a set \<Rightarrow> 'a list \<Rightarrow> 'a list" where
  "dedup_seen seen [] = []"
| "dedup_seen seen (x # xs) =
     (if x \<in> seen then dedup_seen seen xs else x # dedup_seen (insert x seen) xs)"

lemma set_dedup_seen [simp]: "set (dedup_seen seen xs) = set xs - seen"
  by (induction seen xs rule: dedup_seen.induct) auto

lemma distinct_dedup_seen [simp]: "distinct (dedup_seen seen xs)"
  by (induction seen xs rule: dedup_seen.induct) auto

lemma dedup_seen_id: "distinct xs \<Longrightarrow> set xs \<inter> seen = {} \<Longrightarrow> dedup_seen seen xs = xs"
  by (induction seen xs rule: dedup_seen.induct) auto

lemma dedup_seen_idem [simp]: "dedup_seen {} (dedup_seen {} xs) = dedup_seen {} xs"
  by (rule dedup_seen_id) auto

lemma length_dedup_seen: "length (dedup_seen seen xs) \<le> length xs"
  by (induction seen xs rule: dedup_seen.induct) auto

section \<open>Cutting a list into batches\<close>

function batches :: "nat \<Rightarrow> 'a list \<Rightarrow> 'a list list" where
  "batches n xs = (if xs = [] \<or> n = 0 then [] else take n xs # batches n (drop n xs))"
  by pat_completeness auto

termination
  by (relation "measure (\<lambda>(n, xs). length xs)") (auto simp: neq_Nil_conv)

declare batches.simps [simp del]

lemma batches_Nil [simp]: "batches n [] = []"
  by (simp add: batches.simps)

lemma batches_spec:
  "0 < n \<Longrightarrow> concat (batches n xs) = xs \<and> (\<forall>b \<in> set (batches n xs). b \<noteq> [] \<and> length b \<le> n)"
proof (induction n xs rule: batches.induct)
  case (1 n xs)
  then show ?case by (cases "xs = []") (simp_all add: batches.simps [of n xs])
qed

section \<open>Text\<close>

text \<open>
  Strings are the bytes of their UTF-8 encoding. \<open>TrimSpace\<close> follows \<open>strings.TrimSpace\<close>
  on the ASCII white space; \<open>RuneCount\<close> counts the bytes that start a code point, which
  is \<open>utf8.RuneCountInString\<close> for the valid UTF-8 that the JSON decoder hands on.
\<close>

definition is_space :: "char \<Rightarrow> bool" where
  "is_space c \<longleftrightarrow> (let n = (of_char c :: nat) in n = 32 \<or> (9 \<le> n \<and> n \<le> 13))"

definition TrimSpace :: "string \<Rightarrow> string" where
  "TrimSpace s = rev (dropWhile is_space (rev (dropWhile is_space s)))"

definition RuneCount :: "string \<Rightarrow> nat" where
  "RuneCount s = length (filter (\<lambda>c. let n = (of_char c :: nat) in n < 128 \<or> 192 \<le> n) s)"

lemma TrimSpace_Nil [simp]: "TrimSpace [] = []"
  by (simp add: TrimSpace_def)

lemma dropWhile_rev_dropWhile:
  "dropWhile P xs = xs \<Longrightarrow> dropWhile P (rev (dropWhile P (rev xs))) = rev (dropWhile P (rev xs))"
proof (cases "rev (dropWhile P (rev xs))")
  case (Cons y ys)
  assume fix_xs: "dropWhile P xs = xs"
  obtain zs where "rev xs = zs @ dropWhile P (rev xs)" by (metis takeWhile_dropWhile_id)
  then have "xs = rev (dropWhile P (rev xs)) @ rev zs" by (metis rev_append rev_rev_ident)
  with Cons have "xs = y # ys @ rev zs" by simp
  with fix_xs have "\<not> P y" by (metis dropWhile_eq_Cons_conv)
  with Cons show ?thesis by simp
next
  case Nil
  then show ?thesis by (metis dropWhile.simps(1))
qed

lemma TrimSpace_idem [simp]: "TrimSpace (TrimSpace s) = TrimSpace s"
proof -
  let ?t = "dropWhile is_space s"
  have "dropWhile is_space ?t = ?t" by simp
  from dropWhile_rev_dropWhile [OF this] show ?thesis by (simp add: TrimSpace_def)
qed

section \<open>Two-branch results\<close>

text \<open>A Go function that ends in \<open>return \<dots>, err\<close>: \<open>Inl\<close> is the error.\<close>

abbreviation is_ok :: "'e + 'a \<Rightarrow> bool" where "is_ok r \<equiv> (case r of Inl _ \<Rightarrow> False | Inr _ \<Rightarrow> True)"

end
