(* ===== verification/Wire.thy ===== *)
theory Wire
  imports Prelude
begin

text \<open>
  The wire formats: the three-byte stream type that opens every QUIC stream
  (\<open>pkg/protocol/stream.go\<close>, \<open>quic/handler/handler.go\<close>) and the length-prefixed,
  AEAD-sealed frames of the message stream (\<open>quic/handler/protocol/four-yte_protocol.go\<close>).
  AES-GCM is a parameter: \<open>opn nonce ciphertext\<close> is \<open>None\<close> where the tag does not
  verify, \<open>seal nonce plaintext\<close> is ciphertext followed by the tag.
\<close>

unbundle bit_operations_syntax

section \<open>Stream types\<close>

record stream_type =
  Category :: byte
  SubType :: byte
  Version :: byte

definition VERSION :: byte where "VERSION = 1"
definition CategoryUnknown :: byte where "CategoryUnknown = 0"
definition CategoryControl :: byte where "CategoryControl = 1"
definition CategoryData :: byte where "CategoryData = 2"

definition StreamTypeAuth :: stream_type where
  "StreamTypeAuth = \<lparr>Category = CategoryControl, SubType = 1, Version = VERSION\<rparr>"
definition StreamTypeHeartbeat :: stream_type where
  "StreamTypeHeartbeat = \<lparr>Category = CategoryControl, SubType = 2, Version = VERSION\<rparr>"
definition StreamTypeMessage :: stream_type where
  "StreamTypeMessage = \<lparr>Category = CategoryData, SubType = 1, Version = VERSION\<rparr>"

lemmas stream_type_defs = VERSION_def CategoryUnknown_def CategoryControl_def CategoryData_def
  StreamTypeAuth_def StreamTypeHeartbeat_def StreamTypeMessage_def

definition ToBytes :: "stream_type \<Rightarrow> byte list" where
  "ToBytes s = [Category s, SubType s, Version s]"

definition FromBytes :: "byte list \<Rightarrow> string + stream_type" where
  "FromBytes data =
     (if length data < 3 then Inl ''invalid stream type data length''
      else Inr \<lparr>Category = data ! 0, SubType = data ! 1, Version = data ! 2\<rparr>)"

definition stream_type_Equal :: "stream_type \<Rightarrow> stream_type \<Rightarrow> bool" where
  "stream_type_Equal s t \<longleftrightarrow>
     Category s = Category t \<and> SubType s = SubType t \<and> Version s = Version t"

lemma stream_type_Equal_iff [simp]: "stream_type_Equal s t \<longleftrightarrow> s = t"
  by (cases s; cases t) (auto simp: stream_type_Equal_def)

section \<open>Byte streams\<close>

text \<open>
  One bidirectional stream as a handler sees it: the bytes the peer will still send
  before the end of the stream, the bytes written so far, and how many more bytes the
  transport accepts before a write fails.
\<close>

record io =
  inp :: "byte list"
  out :: "byte list"
  room_left :: nat

datatype io_error = UnexpectedEOF | WriteFailed

definition ReadFull :: "nat \<Rightarrow> io \<Rightarrow> (io_error + byte list) \<times> io" where
  "ReadFull n s =
     (if length (inp s) < n then (Inl UnexpectedEOF, s\<lparr>inp := []\<rparr>)
      else (Inr (take n (inp s)), s\<lparr>inp := drop n (inp s)\<rparr>))"

definition Write :: "byte list \<Rightarrow> io \<Rightarrow> (io_error + unit) \<times> io" where
  "Write bs s =
     (if room_left s < length bs then (Inl WriteFailed, s)
      else (Inr (), s\<lparr>out := out s @ bs, room_left := room_left s - length bs\<rparr>))"

definition bytes_of_string :: "string \<Rightarrow> byte list" where
  "bytes_of_string cs = map (\<lambda>c. word_of_int (of_char c)) cs"

datatype stream_error = Io io_error | BadStreamType string | StreamTypeMismatch | UnknownStreamType

definition GetStreamType :: "io \<Rightarrow> (stream_error + stream_type) \<times> io" where
  "GetStreamType s =
     (case ReadFull 3 s of
        (Inl e, s') \<Rightarrow> (Inl (Io e), s')
      | (Inr buf, s') \<Rightarrow>
          (case FromBytes buf of
             Inl e \<Rightarrow> (Inl (BadStreamType e), s')
           | Inr t \<Rightarrow>
               (case Write (bytes_of_string ''ok'') s' of
                  (Inl e, s'') \<Rightarrow> (Inl (Io e), s'')
                | (Inr _, s'') \<Rightarrow> (Inr t, s''))))"

datatype stream_kind = HeartbeatStream | MessageStream

definition NewStreamHandler :: "stream_type \<Rightarrow> stream_error + stream_kind" where
  "NewStreamHandler t =
     (if t = StreamTypeHeartbeat then Inr HeartbeatStream
      else if t = StreamTypeMessage then Inr MessageStream
      else Inl UnknownStreamType)"

text \<open>
  C12. The three bytes of a stream type survive the wire: a peer that sends
  \<open>ToBytes t\<close> is answered \<open>ok\<close>, the server reads \<open>t\<close> back and leaves the bytes that
  follow unread.
\<close>

theorem stream_type_roundtrip:
  assumes "2 \<le> room_left s" and "inp s = ToBytes t @ rest"
  shows "GetStreamType s =
    (Inr t, s\<lparr>inp := rest, out := out s @ bytes_of_string ''ok'', room_left := room_left s - 2\<rparr>)"
  using assms
  by (cases t) (simp add: GetStreamType_def ReadFull_def Write_def FromBytes_def ToBytes_def
      bytes_of_string_def)

theorem stream_type_roundtrip_witness:
  "GetStreamType \<lparr>inp = [2, 1, 1, 7], out = [], room_left = 5\<rparr>
     = (Inr StreamTypeMessage, \<lparr>inp = [7], out = bytes_of_string ''ok'', room_left = 3\<rparr>)"
  using stream_type_roundtrip [of "\<lparr>inp = [2, 1, 1, 7], out = [], room_left = 5\<rparr>" StreamTypeMessage "[7]"]
  by (simp add: stream_type_defs ToBytes_def)

section \<open>Big-endian lengths\<close>

text \<open>\<open>binary.BigEndian.Uint32\<close> and \<open>PutUint32\<close>.\<close>

definition Uint32 :: "byte list \<Rightarrow> u32" where
  "Uint32 b = ucast (b ! 3) OR push_bit 8 (ucast (b ! 2))
            OR push_bit 16 (ucast (b ! 1)) OR push_bit 24 (ucast (b ! 0))"

definition PutUint32 :: "u32 \<Rightarrow> byte list" where
  "PutUint32 v = [ucast (drop_bit 24 v), ucast (drop_bit 16 v), ucast (drop_bit 8 v), ucast v]"

lemma length_PutUint32 [simp]: "length (PutUint32 v) = 4"
  by (simp add: PutUint32_def)

lemma Uint32_PutUint32 [simp]: "Uint32 (PutUint32 v @ bs) = v"
proof (rule bit_word_eqI)
  fix n assume "n < LENGTH(32)"
  then consider "n < 8" | "8 \<le> n" "n < 16" | "16 \<le> n" "n < 24" | "24 \<le> n" "n < 32"
    by force
  then show "bit (Uint32 (PutUint32 v @ bs)) n \<longleftrightarrow> bit v n"
    by cases (auto simp: Uint32_def PutUint32_def bit_simps)
qed

lemma unat_len32: "n < 2 ^ 32 \<Longrightarrow> unat (of_nat n :: u32) = n"
  by (simp add: unat_of_nat take_bit_nat_eq_self)

lemma Uint32_append: "4 \<le> length b \<Longrightarrow> Uint32 (b @ c) = Uint32 b"
  by (auto simp: Uint32_def nth_append)

section \<open>Four-byte framing\<close>

definition NONCE_SIZE :: nat where "NONCE_SIZE = 12"
definition headerSize :: nat where "headerSize = 4"

type_synonym aead_open = "byte list \<Rightarrow> byte list \<Rightarrow> byte list option"
type_synonym aead_seal = "byte list \<Rightarrow> byte list \<Rightarrow> byte list"

definition AddData :: "byte list \<Rightarrow> byte list \<Rightarrow> byte list" where
  "AddData buffer chunk = buffer @ chunk"

text \<open>
  \<open>TryParse\<close> returns a slice that the caller compares with \<open>nil\<close>. Two points follow the
  library: a frame that does not decrypt gives an empty slice that is not \<open>nil\<close>; and
  \<open>gcm.Open(nil, \<dots>)\<close> of an empty plaintext appends nothing to a \<open>nil\<close> slice, so it
  returns \<open>nil\<close>, which the caller cannot tell from ``no complete frame yet''.
\<close>

definition TryParse :: "aead_open \<Rightarrow> byte list \<Rightarrow> byte slice \<times> byte list" where
  "TryParse opn buffer =
     (if length buffer < headerSize then (None, buffer)
      else
        let len = unat (Uint32 (take headerSize buffer));
            totalLength = len + headerSize
        in if length buffer < totalLength then (None, buffer)
           else
             let blob = take len (drop headerSize buffer);
                 buffer' = drop totalLength buffer
             in if length blob < NONCE_SIZE then (Some [], buffer')
                else (case opn (take NONCE_SIZE blob) (drop NONCE_SIZE blob) of
                        None \<Rightarrow> (Some [], buffer')
                      | Some plaintext \<Rightarrow>
                          (if plaintext = [] then None else Some plaintext, buffer')))"

definition Encode :: "aead_seal \<Rightarrow> byte list option \<Rightarrow> byte list \<Rightarrow> byte slice" where
  "Encode seal rand bytes =
     (case rand of
        None \<Rightarrow> None
      | Some nonce \<Rightarrow>
          let ciphertext = seal nonce bytes;
              blob = nonce @ ciphertext
          in Some (PutUint32 (of_nat (length blob)) @ blob))"

lemma TryParse_shorter: "TryParse opn buffer = (Some p, b) \<Longrightarrow> length b < length buffer"
  by (auto simp: TryParse_def headerSize_def Let_def split: if_splits option.splits)

text \<open>The inner loop of \<open>MessageHandler.run\<close>: parse until \<open>nil\<close>.\<close>

function drain :: "aead_open \<Rightarrow> byte list \<Rightarrow> byte list list \<times> byte list" where
  "drain opn buffer =
     (case TryParse opn buffer of
        (None, b) \<Rightarrow> ([], b)
      | (Some p, b) \<Rightarrow> (case drain opn b of (ps, b') \<Rightarrow> (p # ps, b')))"
  by pat_completeness auto

termination
  by (relation "measure (\<lambda>(opn, b). length b)") (auto dest: TryParse_shorter [OF sym])

declare drain.simps [simp del]

text \<open>One \<open>Read\<close> of the stream: the chunk joins the buffer, then the loop drains it.\<close>

fun feed :: "aead_open \<Rightarrow> byte list \<Rightarrow> byte list list \<Rightarrow> byte list list \<times> byte list" where
  "feed opn buffer [] = ([], buffer)"
| "feed opn buffer (chunk # chunks) =
     (case drain opn (AddData buffer chunk) of
        (ps, b) \<Rightarrow> (case feed opn b chunks of (qs, b') \<Rightarrow> (ps @ qs, b')))"

text \<open>The case that framing relies on: no sealed message is empty.\<close>

definition never_empty :: "aead_open \<Rightarrow> bool" where
  "never_empty opn \<longleftrightarrow> (\<forall>n c. opn n c \<noteq> Some [])"

lemma TryParse_None:
  assumes "never_empty opn" and "TryParse opn buffer = (None, b)"
  shows "b = buffer \<and> (length buffer < 4 \<or> length buffer < unat (Uint32 (take 4 buffer)) + 4)"
  using assms
  by (auto simp: TryParse_def never_empty_def headerSize_def Let_def split: if_splits option.splits)

lemma TryParse_Some_append:
  assumes "TryParse opn buffer = (Some p, b)"
  shows "TryParse opn (buffer @ c) = (Some p, b @ c)"
  using assms
  by (auto simp: TryParse_def headerSize_def Let_def take_append split: if_splits option.splits)

lemma drain_append:
  assumes "never_empty opn" and "drain opn b = (ps, r)"
  shows "drain opn (b @ c) = (ps @ fst (drain opn (r @ c)), snd (drain opn (r @ c)))"
  using assms
proof (induction opn b arbitrary: ps r rule: drain.induct)
  case (1 opn buffer)
  show ?case
  proof (cases "TryParse opn buffer")
    case (Pair res b)
    show ?thesis
    proof (cases res)
      case None
      with Pair "1.prems"(2) have "ps = []" "r = b" by (simp_all add: drain.simps)
      moreover from Pair None "1.prems"(1) have "b = buffer" using TryParse_None [of opn buffer b] by simp
      ultimately show ?thesis by simp
    next
      case (Some p)
      obtain ps' b' where d: "drain opn b = (ps', b')" by fastforce
      with Pair Some "1.prems"(2) have ps: "ps = p # ps'" "r = b'" by (simp_all add: drain.simps [of opn buffer])
      have IH: "drain opn (b @ c) = (ps' @ fst (drain opn (b' @ c)), snd (drain opn (b' @ c)))"
        using "1.IH" [OF Pair [symmetric] Some "1.prems"(1) d] .
      show ?thesis
        using TryParse_Some_append [of opn buffer p b c] Pair Some IH ps
        by (simp add: drain.simps [of opn "buffer @ c"])
    qed
  qed
qed


lemma drain_drained: "never_empty opn \<Longrightarrow> drain opn b = (ps, r) \<Longrightarrow> drain opn r = ([], r)"
proof (induction opn b arbitrary: ps r rule: drain.induct)
  case (1 opn buffer)
  show ?case
  proof (cases "TryParse opn buffer")
    case (Pair res b)
    show ?thesis
    proof (cases res)
      case None
      then show ?thesis
        using Pair "1.prems" TryParse_None [of opn buffer b] by (auto simp: drain.simps)
    next
      case (Some p)
      obtain ps' b' where d: "drain opn b = (ps', b')" by fastforce
      with Pair Some "1.prems" have "r = b'" by (simp add: drain.simps [of opn buffer])
      then show ?thesis using "1.IH" [OF Pair [symmetric] Some "1.prems"(1) d] by simp
    qed
  qed
qed

lemma feed_concat:
  "never_empty opn \<Longrightarrow> drain opn buffer = ([], buffer) \<Longrightarrow>
   feed opn buffer chunks = drain opn (buffer @ concat chunks)"
proof (induction chunks arbitrary: buffer)
  case Nil
  then show ?case by simp
next
  case (Cons c cs)
  obtain ps b where d: "drain opn (buffer @ c) = (ps, b)" by fastforce
  have "feed opn b cs = drain opn (b @ concat cs)"
    using Cons.IH [OF Cons.prems(1) drain_drained [OF Cons.prems(1) d]] .
  with d drain_append [OF Cons.prems(1) d, of "concat cs"] show ?case
    by (simp add: AddData_def split: prod.splits)
qed


text \<open>A cipher that adds a one-byte tag: enough to evaluate the framing on an input.\<close>

definition toy_open :: aead_open where
  "toy_open n c = (case c of [] \<Rightarrow> None | [t] \<Rightarrow> None | t # p \<Rightarrow> if t = 9 then Some p else None)"

definition toy_seal :: aead_seal where
  "toy_seal n p = 9 # p"


lemma TryParse_frame:
  assumes "length blob < 2 ^ 32"
  shows "TryParse opn (PutUint32 (of_nat (length blob)) @ blob @ rest) =
     (if length blob < NONCE_SIZE then (Some [], rest)
      else (case opn (take NONCE_SIZE blob) (drop NONCE_SIZE blob) of
              None \<Rightarrow> (Some [], rest)
            | Some plaintext \<Rightarrow> (if plaintext = [] then None else Some plaintext, rest)))"
proof -
  have "Uint32 (PutUint32 v) = v" for v using Uint32_PutUint32 [of v "[]"] by simp
  moreover have "unat (of_nat (length blob) :: u32) = length blob" using assms by (rule unat_len32)
  ultimately show ?thesis by (simp add: TryParse_def Let_def headerSize_def split: option.split)
qed

lemma TryParse_Encode:
  assumes "opn nonce (seal nonce p) = Some p" and "p \<noteq> []"
    and "length nonce = NONCE_SIZE" and "NONCE_SIZE + length (seal nonce p) < 2 ^ 32"
    and "Encode seal (Some nonce) p = Some frame"
  shows "TryParse opn (frame @ rest) = (Some p, rest)"
proof -
  have "frame = PutUint32 (of_nat (length (nonce @ seal nonce p))) @ nonce @ seal nonce p"
    using assms(5) by (simp add: Encode_def Let_def)
  with TryParse_frame [of "nonce @ seal nonce p" opn rest] assms(1-4) show ?thesis by simp
qed

lemma drain_frames:
  assumes "\<And>n p. (n, p) \<in> set ms \<Longrightarrow> opn n (seal n p) = Some p \<and> p \<noteq> [] \<and>
             length n = NONCE_SIZE \<and> NONCE_SIZE + length (seal n p) < 2 ^ 32"
  shows "drain opn (concat (map (\<lambda>(n, p). the (Encode seal (Some n) p)) ms)) = (map snd ms, [])"
  using assms
proof (induction ms)
  case Nil
  then show ?case by (simp add: drain.simps TryParse_def headerSize_def)
next
  case (Cons m ms)
  obtain n p where m: "m = (n, p)" by fastforce
  obtain frame where f: "Encode seal (Some n) p = Some frame"
    by (auto simp: Encode_def Let_def)
  have "TryParse opn (frame @ rest) = (Some p, rest)" for rest
    using Cons.prems [of n p] f m by (intro TryParse_Encode) auto
  moreover have "drain opn (concat (map (\<lambda>(n, p). the (Encode seal (Some n) p)) ms)) = (map snd ms, [])"
    using Cons.prems by (intro Cons.IH) auto
  ultimately show ?case using f m by (simp add: drain.simps [of opn "frame @ _"])
qed



text \<open>
  C18. A frame that does not authenticate costs only itself: it comes out as an empty
  packet and the frames behind it are parsed as if it had not been there.
\<close>

theorem bad_frame_is_isolated:
  assumes "length blob < 2 ^ 32"
    and "NONCE_SIZE \<le> length blob \<Longrightarrow> opn (take NONCE_SIZE blob) (drop NONCE_SIZE blob) = None"
  shows "drain opn (PutUint32 (of_nat (length blob)) @ blob @ rest)
       = ([] # fst (drain opn rest), snd (drain opn rest))"
proof -
  have "TryParse opn (PutUint32 (of_nat (length blob)) @ blob @ rest) = (Some [], rest)"
    using assms by (simp add: TryParse_frame)
  then show ?thesis
    by (simp add: drain.simps [of opn "PutUint32 _ @ _"] split: prod.splits)
qed

theorem bad_frame_is_isolated_witness:
  "drain toy_open (PutUint32 2 @ [7, 7] @ PutUint32 1) = ([] # fst (drain toy_open (PutUint32 1)), snd (drain toy_open (PutUint32 1)))"
  using bad_frame_is_isolated [of "[7, 7]" toy_open "PutUint32 1"] by (simp add: NONCE_SIZE_def)

text \<open>
  C5. Where the framing does stall: a sealed frame with an empty plaintext is consumed,
  but the parser's \<open>nil\<close> tells the loop that no frame is complete, so complete frames
  behind it stay in the buffer until more bytes arrive.
\<close>

theorem empty_plaintext_stalls_queue:
  assumes "length nonce = NONCE_SIZE" and "NONCE_SIZE + length c < 2 ^ 32" and "opn nonce c = Some []"
  shows "drain opn (PutUint32 (of_nat (length (nonce @ c))) @ nonce @ c @ rest) = ([], rest)"
  using assms TryParse_frame [of "nonce @ c" opn rest] by (simp add: drain.simps)

definition null_open :: aead_open where
  "null_open n c = Some c"

theorem empty_plaintext_stalls_queue_witness:
  "drain null_open (PutUint32 12 @ replicate 12 0 @ [] @ PutUint32 13 @ replicate 12 0 @ [65])
     = ([], PutUint32 13 @ replicate 12 0 @ [65])"
  using empty_plaintext_stalls_queue [of "replicate 12 0" "[]" null_open "PutUint32 13 @ replicate 12 0 @ [65]"]
  by (simp add: NONCE_SIZE_def null_open_def)

end
