(* ===== verification/EventBus.thy ===== *)
theory EventBus
  imports Prelude
begin

text \<open>
  The in-process publish/subscribe bus of \<open>event/bus.go\<close>: named topics with a list of
  handlers each, a process-wide default bus, and the typed wrappers \<open>Subscribe\<close> and
  \<open>Publish\<close>. A handler acts on a state \<open>'s\<close>; the payload type \<open>any\<close> is \<open>'p\<close>, and a
  type assertion \<open>v.(T)\<close> is a partial cast.
\<close>

type_synonym ('p, 's) handler = "'p \<Rightarrow> 's \<Rightarrow> 's"

record ('p, 's) Bus =
  subscribers :: "string \<rightharpoonup> ('p, 's) handler list"

definition NewBus :: "('p, 's) Bus" where
  "NewBus = \<lparr>subscribers = Map.empty\<rparr>"

definition bus_subscribe :: "string \<Rightarrow> ('p, 's) handler \<Rightarrow> ('p, 's) Bus \<Rightarrow> ('p, 's) Bus" where
  "bus_subscribe name h b =
     b\<lparr>subscribers := (subscribers b)(name \<mapsto>
        (case subscribers b name of None \<Rightarrow> [] | Some hs \<Rightarrow> hs) @ [h])\<rparr>"

definition bus_publish :: "string \<Rightarrow> 'p \<Rightarrow> ('p, 's) Bus \<Rightarrow> 's \<Rightarrow> 's" where
  "bus_publish name payload b s =
     (case subscribers b name of
        None \<Rightarrow> s
      | Some hs \<Rightarrow> if length hs = 0 then s else fold (\<lambda>h. h payload) hs s)"

text \<open>The default bus is a global that must be set before it is used.\<close>

datatype bus_panic = DefaultBusNil

definition InitDefaultBus :: "('p, 's) Bus option \<Rightarrow> ('p, 's) Bus option" where
  "InitDefaultBus d = (case d of None \<Rightarrow> Some NewBus | Some b \<Rightarrow> Some b)"

definition SetDefaultBus :: "('p, 's) Bus option \<Rightarrow> ('p, 's) Bus option \<Rightarrow> ('p, 's) Bus option" where
  "SetDefaultBus b d = b"

definition DefaultBus :: "('p, 's) Bus option \<Rightarrow> bus_panic + ('p, 's) Bus" where
  "DefaultBus d = (case d of None \<Rightarrow> Inl DefaultBusNil | Some b \<Rightarrow> Inr b)"

definition bus_Subscribe ::
  "('p \<Rightarrow> 't option) \<Rightarrow> string \<Rightarrow> ('t, 's) handler \<Rightarrow> ('p, 's) Bus option \<Rightarrow> bus_panic + ('p, 's) Bus option" where
  "bus_Subscribe assert_type name h d =
     (case DefaultBus d of
        Inl e \<Rightarrow> Inl e
      | Inr bus \<Rightarrow> Inr (Some (bus_subscribe name
          (\<lambda>v s. case assert_type v of Some payload \<Rightarrow> h payload s | None \<Rightarrow> s) bus)))"

definition bus_Publish ::
  "('t \<Rightarrow> 'p) \<Rightarrow> string \<Rightarrow> 't \<Rightarrow> ('p, 's) Bus option \<Rightarrow> 's \<Rightarrow> bus_panic + 's" where
  "bus_Publish inject name payload d s =
     (case DefaultBus d of
        Inl e \<Rightarrow> Inl e
      | Inr bus \<Rightarrow> Inr (bus_publish name (inject payload) bus s))"

lemma subscribers_fold:
  "subscribers (fold (\<lambda>(n, h). bus_subscribe n h) subs b) name =
     (if subscribers b name = None \<and> filter (\<lambda>(n, h). n = name) subs = [] then None
      else Some ((case subscribers b name of None \<Rightarrow> [] | Some hs \<Rightarrow> hs)
                 @ map snd (filter (\<lambda>(n, h). n = name) subs)))"
  by (induction subs arbitrary: b) (auto simp: bus_subscribe_def split: option.splits)

lemma bus_publish_fold:
  "bus_publish name p (fold (\<lambda>(n, h). bus_subscribe n h) subs NewBus) s
     = fold (\<lambda>h. h p) (map snd (filter (\<lambda>(n, h). n = name) subs)) s"
  by (simp add: bus_publish_def subscribers_fold NewBus_def)

text \<open>
  Publishing runs exactly the handlers subscribed to that topic, each once, in the
  order they subscribed, and none of another topic; a handler subscribed for another
  payload type is skipped.
\<close>

theorem publish_runs_topic_handlers:
  fixes inject :: "'t \<Rightarrow> 'p" and assert_type :: "'p \<Rightarrow> 't option"
  assumes "\<And>t. assert_type (inject t) = Some t"
  shows "bus_Publish inject name payload
      (Some (fold (\<lambda>(n, h). bus_subscribe n
               (\<lambda>v s. case assert_type v of Some q \<Rightarrow> h q s | None \<Rightarrow> s)) subs NewBus)) s
    = Inr (fold (\<lambda>h. h payload) (map snd (filter (\<lambda>(n, h). n = name) subs)) s)"
proof -
  let ?w = "\<lambda>h v s. case assert_type v of Some q \<Rightarrow> h q s | None \<Rightarrow> s"
  have "fold (\<lambda>(n, h). bus_subscribe n (?w h)) subs b
        = fold (\<lambda>(n, h). bus_subscribe n h) (map (\<lambda>(n, h). (n, ?w h)) subs) b" for b
    by (induction subs arbitrary: b) auto
  moreover have "fold (\<lambda>h. h (inject payload))
        (map snd (filter (\<lambda>(n, h). n = name) (map (\<lambda>(n, h). (n, ?w h)) subs))) s
      = fold (\<lambda>h. h payload) (map snd (filter (\<lambda>(n, h). n = name) subs)) s"
    using assms by (induction subs arbitrary: s) auto
  ultimately show ?thesis
    by (simp add: bus_Publish_def DefaultBus_def bus_publish_fold)
qed

theorem publish_runs_topic_handlers_witness:
  "bus_Publish (\<lambda>n::nat. n) ''a'' 7
     (Some (fold (\<lambda>(n, h). bus_subscribe n (\<lambda>v s. case Some v of Some q \<Rightarrow> h q s | None \<Rightarrow> s))
        [(''a'', \<lambda>q s. q # s), (''b'', \<lambda>q s. 0 # s), (''a'', \<lambda>q s. (q + 1) # s)] NewBus)) []
   = Inr [8, 7]"
  using publish_runs_topic_handlers [of Some "\<lambda>n::nat. n" "''a''" 7
      "[(''a'', \<lambda>q s. q # s), (''b'', \<lambda>q s. 0 # s), (''a'', \<lambda>q s. (q + 1) # s)]" "[]"]
  by simp

end
