(* ===== verification/Heartbeat.thy ===== *)
theory Heartbeat
  imports Prelude "HOL-Library.Multiset"
begin

text \<open>
  The heartbeat manager of \<open>quic/heartbeat/manager.go\<close>: a map from client keys to
  entries, and a binary min-heap of pointers to the same entries ordered by the time of
  the last heartbeat. The entries are shared by the map and the heap and mutated in
  place (\<open>lastHbTime\<close>, \<open>index\<close>), so they live in a store indexed by pointers. The
  library functions \<open>heap.Push\<close>, \<open>Pop\<close>, \<open>Remove\<close> and \<open>Fix\<close> of \<open>container/heap\<close> are
  modelled with their sift loops.
\<close>

section \<open>State\<close>

type_synonym ptr = nat

record heartbeatEntry =
  clientID :: string
  lastHbTime :: time
  index :: int

text \<open>What the heap operations see: the store and the slice of pointers.\<close>

type_synonym heapst = "(ptr \<Rightarrow> heartbeatEntry) \<times> ptr list"

record Manager =
  hb_store :: "ptr \<Rightarrow> heartbeatEntry"
  hb_next :: ptr
  hb_entries :: "string \<rightharpoonup> ptr"
  hb_heap :: "ptr list"
  hb_timeout :: time
  hb_interval :: time
  hb_batchSize :: nat

definition NewManager :: "time \<Rightarrow> time \<Rightarrow> Manager" where
  "NewManager timeout interval =
     \<lparr>hb_store = (\<lambda>_. \<lparr>clientID = '''', lastHbTime = 0, index = 0\<rparr>), hb_next = 0,
      hb_entries = Map.empty, hb_heap = [], hb_timeout = timeout, hb_interval = interval,
      hb_batchSize = 100\<rparr>"

section \<open>The heap interface and container/heap\<close>

definition heap_Less :: "heapst \<Rightarrow> nat \<Rightarrow> nat \<Rightarrow> bool" where
  "heap_Less s i j \<longleftrightarrow> lastHbTime (fst s (snd s ! i)) < lastHbTime (fst s (snd s ! j))"

definition set_index :: "ptr \<Rightarrow> int \<Rightarrow> (ptr \<Rightarrow> heartbeatEntry) \<Rightarrow> ptr \<Rightarrow> heartbeatEntry" where
  "set_index p i st = st(p := (st p)\<lparr>index := i\<rparr>)"

definition heap_Swap :: "nat \<Rightarrow> nat \<Rightarrow> heapst \<Rightarrow> heapst" where
  "heap_Swap i j s =
     (let h = (snd s)[i := snd s ! j, j := snd s ! i]
      in (set_index (h ! j) (int j) (set_index (h ! i) (int i) (fst s)), h))"

definition heap_iPush :: "ptr \<Rightarrow> heapst \<Rightarrow> heapst" where
  "heap_iPush p s = (set_index p (int (length (snd s))) (fst s), snd s @ [p])"

text \<open>The callers pop a heap that has an element; on an empty slice Go would panic.\<close>

definition heap_iPop :: "heapst \<Rightarrow> ptr \<times> heapst" where
  "heap_iPop s = (last (snd s), (set_index (last (snd s)) (- 1) (fst s), butlast (snd s)))"

function heap_up :: "heapst \<Rightarrow> nat \<Rightarrow> heapst" where
  "heap_up s j =
     (let i = (j - 1) div 2
      in if i = j \<or> \<not> heap_Less s j i then s else heap_up (heap_Swap i j s) i)"
  by pat_completeness auto
termination
  by (relation "measure (\<lambda>(s, j). j)") auto

function heap_down :: "heapst \<Rightarrow> nat \<Rightarrow> nat \<Rightarrow> heapst \<times> nat" where
  "heap_down s i n =
     (let j1 = 2 * i + 1
      in if j1 \<ge> n then (s, i)
         else let j2 = j1 + 1;
                  j = (if j2 < n \<and> heap_Less s j2 j1 then j2 else j1)
              in if \<not> heap_Less s j i then (s, i) else heap_down (heap_Swap i j s) j n)"
  by pat_completeness auto
termination
  by (relation "measure (\<lambda>(s, i, n). n - i)") (auto simp: Let_def split: if_splits)

declare heap_up.simps [simp del] heap_down.simps [simp del]

text \<open>\<open>if !down(h, i, n) { up(h, i) }\<close>, where \<open>down\<close> answers whether it moved.\<close>

definition heap_sift :: "heapst \<Rightarrow> nat \<Rightarrow> nat \<Rightarrow> heapst" where
  "heap_sift s i n = (case heap_down s i n of (s', i') \<Rightarrow> if i < i' then s' else heap_up s' i)"

definition heap_Push :: "ptr \<Rightarrow> heapst \<Rightarrow> heapst" where
  "heap_Push p s = (let s' = heap_iPush p s in heap_up s' (length (snd s') - 1))"

definition heap_Pop :: "heapst \<Rightarrow> ptr \<times> heapst" where
  "heap_Pop s =
     (let n = length (snd s) - 1
      in heap_iPop (fst (heap_down (heap_Swap 0 n s) 0 n)))"

definition heap_Remove :: "nat \<Rightarrow> heapst \<Rightarrow> ptr \<times> heapst" where
  "heap_Remove i s =
     (let n = length (snd s) - 1
      in heap_iPop (if n \<noteq> i then heap_sift (heap_Swap i n s) i n else s))"

definition heap_Fix :: "nat \<Rightarrow> heapst \<Rightarrow> heapst" where
  "heap_Fix i s = heap_sift s i (length (snd s))"

section \<open>Manager operations\<close>

definition heapst_of :: "Manager \<Rightarrow> heapst" where
  "heapst_of m = (hb_store m, hb_heap m)"

definition with_heapst :: "heapst \<Rightarrow> Manager \<Rightarrow> Manager" where
  "with_heapst s m = m\<lparr>hb_store := fst s, hb_heap := snd s\<rparr>"

definition UpdateHeartbeat :: "string \<Rightarrow> time \<Rightarrow> Manager \<Rightarrow> Manager" where
  "UpdateHeartbeat k now m =
     (case hb_entries m k of
        Some p \<Rightarrow>
          let st = (hb_store m)(p := (hb_store m p)\<lparr>lastHbTime := now\<rparr>)
          in with_heapst (heap_Fix (nat (index (st p))) (st, hb_heap m)) m
      | None \<Rightarrow>
          let p = hb_next m;
              st = (hb_store m)(p := \<lparr>clientID = k, lastHbTime = now, index = 0\<rparr>)
          in with_heapst (heap_Push p (st, hb_heap m))
               (m\<lparr>hb_next := Suc p, hb_entries := (hb_entries m)(k \<mapsto> p)\<rparr>))"

definition RemoveClient :: "string \<Rightarrow> Manager \<Rightarrow> Manager" where
  "RemoveClient k m =
     (case hb_entries m k of
        None \<Rightarrow> m
      | Some p \<Rightarrow>
          (with_heapst (snd (heap_Remove (nat (index (hb_store m p))) (heapst_of m))) m)
            \<lparr>hb_entries := (hb_entries m)(k := None)\<rparr>)"

definition GetLastHeartbeat :: "string \<Rightarrow> Manager \<Rightarrow> time option" where
  "GetLastHeartbeat k m =
     (case hb_entries m k of None \<Rightarrow> None | Some p \<Rightarrow> Some (lastHbTime (hb_store m p)))"

definition pop_oldest :: "Manager \<Rightarrow> Manager" where
  "pop_oldest m =
     (let p = hb_heap m ! 0
      in (with_heapst (snd (heap_Pop (heapst_of m))) m)
           \<lparr>hb_entries := (hb_entries m)(clientID (hb_store m p) := None)\<rparr>)"

text \<open>
  The loop of \<open>checkTimeouts\<close>: \<open>fuel\<close> bounds the rounds by the length of the heap, which
  each round shortens (a lemma below shows that the bound is never reached early).
\<close>

fun check_loop :: "nat \<Rightarrow> time \<Rightarrow> Manager \<Rightarrow> string list \<Rightarrow> Manager \<times> string list" where
  "check_loop 0 now m timeoutClients = (m, timeoutClients)"
| "check_loop (Suc fuel) now m timeoutClients =
     (if \<not> (length (hb_heap m) > 0 \<and> length timeoutClients < hb_batchSize m)
      then (m, timeoutClients)
      else
        let entry = hb_store m (hb_heap m ! 0)
        in if lastHbTime entry > now - hb_timeout m then (m, timeoutClients)
           else if now - lastHbTime entry > hb_timeout m
           then check_loop fuel now (pop_oldest m) (timeoutClients @ [clientID entry])
           else (with_heapst (heap_Fix 0 (heapst_of m)) m, timeoutClients))"

definition checkTimeouts :: "time \<Rightarrow> Manager \<Rightarrow> Manager \<times> string list" where
  "checkTimeouts now m =
     (if length (hb_heap m) = 0 then (m, [])
      else check_loop (length (hb_heap m)) now m [])"

definition GetStats :: "Manager \<Rightarrow> nat \<times> time option" where
  "GetStats m = (card (dom (hb_entries m)),
     if length (hb_heap m) > 0 then Some (lastHbTime (hb_store m (hb_heap m ! 0))) else None)"

fun count_before :: "time \<Rightarrow> heartbeatEntry list \<Rightarrow> nat" where
  "count_before t [] = 0"
| "count_before t (e # es) = (if lastHbTime e < t then Suc (count_before t es) else 0)"

definition GetTimeoutCount :: "time \<Rightarrow> time \<Rightarrow> Manager \<Rightarrow> nat" where
  "GetTimeoutCount warningThreshold now m =
     count_before (now - warningThreshold) (map (hb_store m) (hb_heap m))"

section \<open>Sifting\<close>

abbreviation parent :: "nat \<Rightarrow> nat" where "parent i \<equiv> (i - 1) div 2"

definition hk :: "heapst \<Rightarrow> nat \<Rightarrow> time" where
  "hk s i = lastHbTime (fst s (snd s ! i))"

definition heap_on :: "nat \<Rightarrow> heapst \<Rightarrow> bool" where
  "heap_on n s \<longleftrightarrow> (\<forall>i. 0 < i \<longrightarrow> i < n \<longrightarrow> hk s (parent i) \<le> hk s i)"

definition idx_ok :: "heapst \<Rightarrow> bool" where
  "idx_ok s \<longleftrightarrow> (\<forall>i < length (snd s). index (fst s (snd s ! i)) = int i)"

text \<open>
  What the sift loops on the first \<open>n\<close> cells may do: permute those cells and rewrite the
  \<open>index\<close> fields; times, names and everything outside the heap stay.
\<close>

definition perm_step :: "nat \<Rightarrow> heapst \<Rightarrow> heapst \<Rightarrow> bool" where
  "perm_step n s s' \<longleftrightarrow>
     length (snd s') = length (snd s) \<and> mset (snd s') = mset (snd s) \<and>
     (\<forall>k \<ge> n. k < length (snd s) \<longrightarrow> snd s' ! k = snd s ! k) \<and>
     (\<forall>p. lastHbTime (fst s' p) = lastHbTime (fst s p) \<and> clientID (fst s' p) = clientID (fst s p)) \<and>
     (\<forall>p. p \<notin> set (snd s) \<longrightarrow> fst s' p = fst s p) \<and>
     (distinct (snd s) \<longrightarrow> idx_ok s \<longrightarrow> idx_ok s')"

lemma perm_step_refl [simp]: "perm_step n s s"
  by (simp add: perm_step_def)

lemma perm_step_trans [trans]: "perm_step n s s' \<Longrightarrow> perm_step n s' s'' \<Longrightarrow> perm_step n s s''"
  unfolding perm_step_def by (metis mset_eq_setD mset_eq_imp_distinct_iff)

lemma perm_step_length: "perm_step n s s' \<Longrightarrow> length (snd s') = length (snd s)"
  by (simp add: perm_step_def)

lemma perm_step_set: "perm_step n s s' \<Longrightarrow> set (snd s') = set (snd s)"
  unfolding perm_step_def by (metis mset_eq_setD)

lemma perm_step_distinct: "perm_step n s s' \<Longrightarrow> distinct (snd s') = distinct (snd s)"
  unfolding perm_step_def by (metis mset_eq_imp_distinct_iff)

lemma swap_keys: "lastHbTime (fst (heap_Swap i j s) p) = lastHbTime (fst s p)"
  "clientID (fst (heap_Swap i j s) p) = clientID (fst s p)"
  by (auto simp: heap_Swap_def set_index_def Let_def)

lemma swap_snd: "snd (heap_Swap i j s) = (snd s)[i := snd s ! j, j := snd s ! i]"
  by (simp add: heap_Swap_def Let_def)

lemma hk_swap:
  "i < length (snd s) \<Longrightarrow> j < length (snd s) \<Longrightarrow>
   hk (heap_Swap i j s) k = (if k = i then hk s j else if k = j then hk s i else hk s k)"
  by (auto simp: hk_def swap_keys swap_snd nth_list_update)

lemma idx_ok_swap:
  assumes "i < length (snd s)" "j < length (snd s)" "distinct (snd s)" "idx_ok s"
  shows "idx_ok (heap_Swap i j s)"
proof -
  let ?h = "(snd s)[i := snd s ! j, j := snd s ! i]"
  have d: "distinct ?h" using assms by (simp add: distinct_swap)
  have hi: "?h ! i = snd s ! j" and hj: "?h ! j = snd s ! i"
    using assms by (auto simp: nth_list_update)
  have "index (fst (heap_Swap i j s) (?h ! k)) = int k" if k: "k < length ?h" for k
  proof -
    consider "k = j" | "k = i" "k \<noteq> j" | "k \<noteq> i" "k \<noteq> j" by blast
    then show ?thesis
    proof cases
      case 1
      then show ?thesis by (simp add: heap_Swap_def set_index_def Let_def)
    next
      case 2
      then have "?h ! i \<noteq> ?h ! j" using d assms by (simp add: nth_eq_iff_index_eq del: nth_list_update)
      with 2 show ?thesis by (simp add: heap_Swap_def set_index_def Let_def del: nth_list_update)
    next
      case 3
      with k have kk: "?h ! k = snd s ! k" by simp
      with 3 k assms have "snd s ! k \<noteq> ?h ! i" "snd s ! k \<noteq> ?h ! j"
        unfolding hi hj by (simp_all add: nth_eq_iff_index_eq)
      then show ?thesis using k kk assms
        by (simp add: heap_Swap_def set_index_def Let_def idx_ok_def del: nth_list_update)
    qed
  qed
  then show ?thesis by (simp add: idx_ok_def swap_snd)
qed

lemma perm_step_swap:
  assumes "i < n" "j < n" "n \<le> length (snd s)"
  shows "perm_step n s (heap_Swap i j s)"
proof -
  have "mset ((snd s)[i := snd s ! j, j := snd s ! i]) = mset (snd s)"
    using assms by (intro mset_swap) auto
  moreover have "fst (heap_Swap i j s) p = fst s p" if "p \<notin> set (snd s)" for p
    using that assms by (auto simp: heap_Swap_def set_index_def Let_def nth_list_update)
  ultimately show ?thesis
    using assms idx_ok_swap [of i s j] by (auto simp: perm_step_def swap_keys swap_snd nth_list_update)
qed

definition up_inv :: "nat \<Rightarrow> nat \<Rightarrow> heapst \<Rightarrow> bool" where
  "up_inv n j s \<longleftrightarrow>
     (\<forall>i. 0 < i \<longrightarrow> i < n \<longrightarrow> i \<noteq> j \<longrightarrow> hk s (parent i) \<le> hk s i) \<and>
     (\<forall>i. 0 < i \<longrightarrow> i < n \<longrightarrow> parent i = j \<longrightarrow> 0 < j \<longrightarrow> hk s (parent j) \<le> hk s i)"

definition down_inv :: "nat \<Rightarrow> nat \<Rightarrow> heapst \<Rightarrow> bool" where
  "down_inv n i s \<longleftrightarrow>
     (\<forall>k. 0 < k \<longrightarrow> k < n \<longrightarrow> parent k \<noteq> i \<longrightarrow> hk s (parent k) \<le> hk s k) \<and>
     (\<forall>k. 0 < k \<longrightarrow> k < n \<longrightarrow> parent k = i \<longrightarrow> 0 < i \<longrightarrow> hk s (parent i) \<le> hk s k)"

lemma heap_up_correct:
  "j < n \<Longrightarrow> n \<le> length (snd s) \<Longrightarrow> up_inv n j s \<Longrightarrow>
   heap_on n (heap_up s j) \<and> perm_step n s (heap_up s j)"
proof (induction s j rule: heap_up.induct)
  case (1 s j)
  let ?i = "parent j"
  show ?case
  proof (cases "?i = j \<or> \<not> heap_Less s j ?i")
    case True
    then have "heap_on n s"
      using "1.prems" by (auto simp: heap_on_def up_inv_def heap_Less_def hk_def)
        (metis diff_0_eq_0 div_0 not_less)+
    with True show ?thesis by (simp add: heap_up.simps)
  next
    case False
    then have j: "0 < j" "?i < j" by auto
    let ?s = "heap_Swap ?i j s"
    have lt: "hk s j < hk s ?i" using False by (simp add: heap_Less_def hk_def)
    have hks: "hk ?s k = (if k = ?i then hk s j else if k = j then hk s ?i else hk s k)" for k
      using "1.prems" j by (intro hk_swap) auto
    have A: "hk s (parent i) \<le> hk s i" if "0 < i" "i < n" "i \<noteq> j" for i
      using "1.prems"(3) that unfolding up_inv_def by blast
    have B: "hk s ?i \<le> hk s i" if "0 < i" "i < n" "parent i = j" for i
      using "1.prems"(3) that j(1) unfolding up_inv_def by blast
    have inv: "up_inv n ?i ?s"
      unfolding up_inv_def
    proof (intro conjI allI impI)
      fix k assume k: "0 < k" "k < n" "k \<noteq> ?i"
      consider "k = j" | "k \<noteq> j" "parent k = ?i" | "k \<noteq> j" "parent k = j"
        | "k \<noteq> j" "parent k \<noteq> ?i" "parent k \<noteq> j" by blast
      then show "hk ?s (parent k) \<le> hk ?s k"
      proof cases
        case 1
        then show ?thesis using lt k(3) unfolding hks by simp
      next
        case 2
        then show ?thesis using A [OF k(1,2)] lt k(3) unfolding hks by simp
      next
        case 3
        then show ?thesis using B [OF k(1,2)] k(3) j unfolding hks by simp
      next
        case 4
        then show ?thesis using A [OF k(1,2)] k(3) unfolding hks by simp
      qed
    next
      fix k assume k: "0 < k" "k < n" "parent k = ?i" "0 < ?i"
      have "hk s (parent ?i) \<le> hk s ?i"
        using A [of ?i] k(4) j "1.prems"(1) by linarith
      moreover have "hk s ?i \<le> hk s k" if "k \<noteq> j"
        using A [OF k(1,2) that] k(3) by simp
      moreover have "parent ?i \<noteq> ?i" "parent ?i \<noteq> j" "k \<noteq> ?i" using k j by linarith+
      ultimately show "hk ?s (parent ?i) \<le> hk ?s k"
        unfolding hks by auto
    qed
    have "heap_on n (heap_up ?s ?i) \<and> perm_step n ?s (heap_up ?s ?i)"
      using "1.IH" [OF refl False] j "1.prems" inv by (simp add: swap_snd)
    moreover have "perm_step n s ?s"
      using j "1.prems" by (intro perm_step_swap) auto
    ultimately show ?thesis using False
      by (auto simp: heap_up.simps [of s j] Let_def intro: perm_step_trans)
  qed
qed

lemma child_cases: "0 < k \<Longrightarrow> parent k = i \<longleftrightarrow> k = 2 * i + 1 \<or> k = 2 * i + 2"
  by presburger

definition pick_child :: "heapst \<Rightarrow> nat \<Rightarrow> nat \<Rightarrow> nat" where
  "pick_child s i n =
     (if 2 * i + 2 < n \<and> heap_Less s (2 * i + 2) (2 * i + 1) then 2 * i + 2 else 2 * i + 1)"

lemma heap_down_unfold:
  "heap_down s i n =
     (if 2 * i + 1 < n \<and> heap_Less s (pick_child s i n) i
      then heap_down (heap_Swap i (pick_child s i n) s) (pick_child s i n) n else (s, i))"
  by (subst heap_down.simps) (simp add: Let_def pick_child_def not_le)

lemma pick_child_bounds:
  "i < pick_child s i n" "2 * i + 1 < n \<Longrightarrow> pick_child s i n < n" "parent (pick_child s i n) = i"
  by (auto simp: pick_child_def)

lemma pick_child_least:
  assumes "0 < k" "k < n" "parent k = i"
  shows "hk s (pick_child s i n) \<le> hk s k"
proof -
  have "k = 2 * i + 1 \<or> k = 2 * i + 2" by (rule child_cases [OF assms(1), THEN iffD1, OF assms(3)])
  then show ?thesis using assms(2) by (auto simp: pick_child_def heap_Less_def hk_def)
qed

lemma heap_down_correct:
  "n \<le> length (snd s) \<Longrightarrow> down_inv n i s \<Longrightarrow>
   heap_on n (fst (heap_down s i n)) \<and> perm_step n s (fst (heap_down s i n))"
proof (induction "n - i" arbitrary: s i rule: less_induct)
  case less
  let ?j = "pick_child s i n"
  show ?case
  proof (cases "2 * i + 1 < n \<and> heap_Less s ?j i")
    case False
    have "heap_on n s"
      unfolding heap_on_def
    proof (intro allI impI)
      fix k assume k: "0 < k" "k < n"
      show "hk s (parent k) \<le> hk s k"
      proof (cases "parent k = i")
        case True
        have "k = 2 * i + 1 \<or> k = 2 * i + 2" by (rule child_cases [OF k(1), THEN iffD1, OF True])
        then have "2 * i + 1 < n" using k by linarith
        then have "hk s i \<le> hk s ?j" using False by (simp add: heap_Less_def hk_def)
        then show ?thesis using pick_child_least [OF k True, of s] True by simp
      next
        case False
        then show ?thesis using less.prems(2) k unfolding down_inv_def by blast
      qed
    qed
    moreover have "heap_down s i n = (s, i)" using False by (subst heap_down_unfold) auto
    ultimately show ?thesis by simp
  next
    case True
    let ?s = "heap_Swap i ?j s"
    have jn: "?j < n" "i < ?j" "parent ?j = i"
      using True pick_child_bounds [where s = s and i = i and n = n] by blast+
    have lt: "hk s ?j < hk s i" using True by (simp add: heap_Less_def hk_def)
    have hks: "hk ?s k = (if k = i then hk s ?j else if k = ?j then hk s i else hk s k)" for k
      using less.prems jn by (intro hk_swap) auto
    note least = pick_child_least [of _ n i s]
    have A: "hk s (parent k) \<le> hk s k" if "0 < k" "k < n" "parent k \<noteq> i" for k
      using less.prems(2) that unfolding down_inv_def by blast
    have B: "hk s (parent i) \<le> hk s k" if "0 < k" "k < n" "parent k = i" "0 < i" for k
      using less.prems(2) that unfolding down_inv_def by blast
    have inv: "down_inv n ?j ?s"
      unfolding down_inv_def
    proof (intro conjI allI impI)
      fix k assume k: "0 < k" "k < n" "parent k \<noteq> ?j"
      consider "k = i" | "k \<noteq> i" "parent k = i" | "k \<noteq> i" "parent k \<noteq> i" by blast
      then show "hk ?s (parent k) \<le> hk ?s k"
      proof cases
        case 1
        then have "parent k \<noteq> i" using k by linarith
        moreover have "hk s (parent k) \<le> hk s ?j"
          using B [of ?j] 1 k jn by simp
        ultimately show ?thesis using 1 k(3) unfolding hks by simp
      next
        case 2
        then show ?thesis using least [OF k(1,2)] lt unfolding hks by simp
      next
        case 3
        then have "k \<noteq> ?j" using jn(3) by auto
        then show ?thesis using A [OF k(1,2) 3(2)] 3 k(3) unfolding hks by simp
      qed
    next
      fix k assume k: "0 < k" "k < n" "parent k = ?j" "0 < ?j"
      have "k \<noteq> i" "k \<noteq> ?j" "parent k \<noteq> i" using k jn(2) by linarith+
      moreover from this have "hk s ?j \<le> hk s k" using A [OF k(1,2)] k(3) by simp
      ultimately show "hk ?s (parent ?j) \<le> hk ?s k" using jn(3) unfolding hks by simp
    qed
    have rec: "heap_on n (fst (heap_down ?s ?j n)) \<and> perm_step n ?s (fst (heap_down ?s ?j n))"
      using less.hyps [of ?j ?s] jn less.prems(1) inv by (simp add: swap_snd)
    have "perm_step n s ?s"
      using jn less.prems by (intro perm_step_swap) auto
    then have "perm_step n s (fst (heap_down ?s ?j n))" using rec perm_step_trans by blast
    moreover have "heap_down s i n = heap_down ?s ?j n"
      using True by (subst heap_down_unfold) simp
    ultimately show ?thesis using rec by simp
  qed
qed

text \<open>
  A heap whose cell \<open>i\<close> has just been given another time: every other pair is in order,
  and the parent of \<open>i\<close> is below its children. Sifting restores the heap.
\<close>

definition off_at :: "nat \<Rightarrow> nat \<Rightarrow> heapst \<Rightarrow> bool" where
  "off_at n i s \<longleftrightarrow>
     (\<forall>k. 0 < k \<longrightarrow> k < n \<longrightarrow> k \<noteq> i \<longrightarrow> parent k \<noteq> i \<longrightarrow> hk s (parent k) \<le> hk s k) \<and>
     (\<forall>k. 0 < k \<longrightarrow> k < n \<longrightarrow> parent k = i \<longrightarrow> 0 < i \<longrightarrow> hk s (parent i) \<le> hk s k)"

lemma heap_up_id:
  assumes "heap_on n s" "j < n"
  shows "heap_up s j = s"
proof (cases "j = 0")
  case True
  then show ?thesis by (subst heap_up.simps) simp
next
  case False
  then have "\<not> heap_Less s j (parent j)"
    using assms by (simp add: heap_on_def heap_Less_def hk_def not_less)
  then show ?thesis by (subst heap_up.simps) simp
qed

lemma heap_down_ge: "i \<le> snd (heap_down s i n)"
proof (induction "n - i" arbitrary: s i rule: less_induct)
  case less
  let ?j = "pick_child s i n"
  show ?case
  proof (cases "2 * i + 1 < n \<and> heap_Less s ?j i")
    case True
    then have "?j \<le> snd (heap_down (heap_Swap i ?j s) ?j n)"
      using pick_child_bounds [where s = s and i = i and n = n] by (intro less.hyps) linarith
    then show ?thesis using True pick_child_bounds(1) [where s = s and i = i and n = n]
      by (subst heap_down_unfold) simp
  qed (subst heap_down_unfold, auto)
qed

lemma heap_sift_correct:
  assumes "i < n" "n \<le> length (snd s)" "off_at n i s"
  shows "heap_on n (heap_sift s i n) \<and> perm_step n s (heap_sift s i n)"
proof (cases "i = 0 \<or> hk s (parent i) \<le> hk s i")
  case True
  have "down_inv n i s"
    unfolding down_inv_def
  proof (intro conjI allI impI)
    fix k assume "0 < k" "k < n" "parent k \<noteq> i"
    then show "hk s (parent k) \<le> hk s k"
      using True assms(3) unfolding off_at_def by (cases "k = i") auto
  next
    fix k assume "0 < k" "k < n" "parent k = i" "0 < i"
    then show "hk s (parent i) \<le> hk s k" using assms(3) unfolding off_at_def by blast
  qed
  note d = heap_down_correct [OF assms(2) this]
  then show ?thesis using assms(1) heap_up_id [of n _ "snd (heap_down s i n)"] heap_down_ge [of i s n]
    by (auto simp: heap_sift_def split: prod.splits)
next
  case False
  have lt: "hk s i < hk s k" if "0 < k" "k < n" "parent k = i" for k
  proof -
    have "hk s (parent i) \<le> hk s k" using assms(3) that False unfolding off_at_def by auto
    with False show ?thesis by linarith
  qed
  have "\<not> (2 * i + 1 < n \<and> heap_Less s (pick_child s i n) i)"
    using lt [of "pick_child s i n"] pick_child_bounds [where s = s and i = i and n = n] by (auto simp: heap_Less_def hk_def)
  then have "heap_down s i n = (s, i)" by (subst heap_down_unfold) auto
  moreover have "up_inv n i s"
    unfolding up_inv_def
  proof (intro conjI allI impI)
    fix k assume k: "0 < k" "k < n" "k \<noteq> i"
    then show "hk s (parent k) \<le> hk s k"
      using lt [OF k(1,2)] assms(3) unfolding off_at_def by (cases "parent k = i") auto
  next
    fix k assume "0 < k" "k < n" "parent k = i" "0 < i"
    then show "hk s (parent i) \<le> hk s k" using assms(3) unfolding off_at_def by blast
  qed
  ultimately show ?thesis
    using heap_up_correct [OF assms(1,2)] by (simp add: heap_sift_def)
qed

section \<open>The library functions keep the heap\<close>

definition hs_ok :: "heapst \<Rightarrow> bool" where
  "hs_ok s \<longleftrightarrow> distinct (snd s) \<and> idx_ok s \<and> heap_on (length (snd s)) s"

definition same_keys :: "heapst \<Rightarrow> heapst \<Rightarrow> bool" where
  "same_keys s s' \<longleftrightarrow>
     (\<forall>q. lastHbTime (fst s' q) = lastHbTime (fst s q) \<and> clientID (fst s' q) = clientID (fst s q))"

lemma perm_step_idx: "perm_step n s s' \<Longrightarrow> distinct (snd s) \<Longrightarrow> idx_ok s \<Longrightarrow> idx_ok s'"
  unfolding perm_step_def by blast

lemma perm_step_keys: "perm_step n s s' \<Longrightarrow> same_keys s s'"
  unfolding perm_step_def same_keys_def by blast

lemma perm_step_nth: "perm_step n s s' \<Longrightarrow> n \<le> k \<Longrightarrow> k < length (snd s) \<Longrightarrow> snd s' ! k = snd s ! k"
  unfolding perm_step_def by blast

lemma perm_step_ok:
  assumes "perm_step n s s'" "n = length (snd s)" "heap_on n s'" "distinct (snd s)" "idx_ok s"
  shows "hs_ok s' \<and> set (snd s') = set (snd s) \<and> same_keys s s'"
  using perm_step_set [OF assms(1)] perm_step_distinct [OF assms(1)] perm_step_length [OF assms(1)]
    perm_step_idx [OF assms(1)] perm_step_keys [OF assms(1)] assms(2-5)
  unfolding hs_ok_def by simp

lemma same_keys_trans: "same_keys s s' \<Longrightarrow> same_keys s' s'' \<Longrightarrow> same_keys s s''"
  unfolding same_keys_def by simp

lemma heap_Fix_ok:
  assumes "i < length (snd s)" "off_at (length (snd s)) i s" "distinct (snd s)" "idx_ok s"
  shows "hs_ok (heap_Fix i s) \<and> set (snd (heap_Fix i s)) = set (snd s) \<and> same_keys s (heap_Fix i s)"
  using heap_sift_correct [OF assms(1) order_refl assms(2)] assms(3,4)
  unfolding heap_Fix_def by (intro perm_step_ok) auto

lemma heap_Push_ok:
  assumes "hs_ok s" "p \<notin> set (snd s)"
  shows "hs_ok (heap_Push p s) \<and> set (snd (heap_Push p s)) = insert p (set (snd s)) \<and>
         same_keys s (heap_Push p s)"
proof -
  let ?n = "length (snd s)"
  let ?s = "heap_iPush p s"
  have hks: "hk ?s i = hk s i" if "i < ?n" for i
    using that by (simp add: hk_def heap_iPush_def set_index_def nth_append)
  have inv: "up_inv (Suc ?n) ?n ?s"
    unfolding up_inv_def
  proof (intro conjI allI impI)
    fix i assume i: "0 < i" "i < Suc ?n" "i \<noteq> ?n"
    then have "parent i < ?n" "i < ?n" by linarith+
    then show "hk ?s (parent i) \<le> hk ?s i"
      using assms(1) i by (simp add: hks hs_ok_def heap_on_def)
  next
    fix i assume "0 < i" "i < Suc ?n" "parent i = ?n" "0 < ?n"
    then show "hk ?s (parent ?n) \<le> hk ?s i" by linarith
  qed
  have keys: "same_keys s ?s"
    by (simp add: same_keys_def heap_iPush_def set_index_def)
  have len: "length (snd ?s) = Suc ?n" "snd ?s = snd s @ [p]" by (simp_all add: heap_iPush_def)
  have idx: "idx_ok ?s"
    using assms by (auto simp: idx_ok_def heap_iPush_def set_index_def nth_append hs_ok_def less_Suc_eq)
  have "heap_on (Suc ?n) (heap_up ?s ?n) \<and> perm_step (Suc ?n) ?s (heap_up ?s ?n)"
    using inv len by (intro heap_up_correct) auto
  then have "hs_ok (heap_up ?s ?n) \<and> set (snd (heap_up ?s ?n)) = set (snd ?s) \<and> same_keys ?s (heap_up ?s ?n)"
    using assms len idx by (intro perm_step_ok [of "Suc ?n"]) (auto simp: hs_ok_def)
  moreover have "heap_Push p s = heap_up ?s ?n" using len by (simp add: heap_Push_def Let_def)
  ultimately show ?thesis using keys len by (auto simp: same_keys_def)
qed

lemma heap_iPop_ok:
  assumes "length (snd s) = Suc n" "heap_on n s" "distinct (snd s)" "idx_ok s"
  shows "hs_ok (snd (heap_iPop s)) \<and> set (snd (snd (heap_iPop s))) = set (snd s) - {last (snd s)} \<and>
         same_keys s (snd (heap_iPop s)) \<and> fst (heap_iPop s) = snd s ! n"
proof -
  let ?s = "snd (heap_iPop s)"
  have snds: "snd s = butlast (snd s) @ [last (snd s)]" using assms(1) by (cases "snd s") auto
  have l: "last (snd s) = snd s ! n" using assms(1) by (cases "snd s" rule: rev_cases) auto
  have nths: "snd ?s ! i = snd s ! i" if "i < n" for i
    using that assms(1) by (simp add: heap_iPop_def nth_butlast)
  have len: "length (snd ?s) = n" using assms(1) by (simp add: heap_iPop_def)
  have keys: "same_keys s ?s" by (simp add: same_keys_def heap_iPop_def set_index_def)
  have "heap_on n ?s"
    using assms(2) nths keys unfolding heap_on_def hk_def same_keys_def
    by (metis diff_le_self div_le_dividend le_less_trans less_imp_diff_less)
  moreover have "idx_ok ?s"
    unfolding idx_ok_def
  proof (intro allI impI)
    fix i assume i: "i < length (snd ?s)"
    then have "snd ?s ! i \<noteq> last (snd s)"
      using assms(1,3) len l nths by (simp add: nth_eq_iff_index_eq)
    then have "fst ?s (snd ?s ! i) = fst s (snd ?s ! i)"
      by (simp add: heap_iPop_def set_index_def)
    then show "index (fst ?s (snd ?s ! i)) = int i"
      using i len nths assms(1,4) by (simp add: idx_ok_def)
  qed
  moreover have "distinct (snd ?s)" using assms(3) by (simp add: heap_iPop_def distinct_butlast)
  moreover have "set (snd ?s) = set (snd s) - {last (snd s)}"
  proof -
    have "distinct (butlast (snd s) @ [last (snd s)])" using assms(3) snds by simp
    moreover have "set (snd s) = insert (last (snd s)) (set (butlast (snd s)))"
      using arg_cong [OF snds, of set] by simp
    ultimately show ?thesis by (auto simp: heap_iPop_def)
  qed
  ultimately show ?thesis using keys len l by (simp add: hs_ok_def heap_iPop_def)
qed

lemma swap_last_inv:
  assumes "hs_ok s" "i < n" "length (snd s) = Suc n"
  shows "off_at n i (heap_Swap i n s) \<and> (i = 0 \<longrightarrow> down_inv n 0 (heap_Swap i n s)) \<and>
         perm_step (Suc n) s (heap_Swap i n s) \<and> snd (heap_Swap i n s) ! n = snd s ! i"
proof -
  let ?s = "heap_Swap i n s"
  have hks: "hk ?s k = hk s k" if "k \<noteq> i" "k < n" for k
    using that assms by (simp add: hk_swap)
  have ord: "hk s (parent k) \<le> hk s k" if "0 < k" "k < Suc n" for k
    using assms that by (auto simp: hs_ok_def heap_on_def)
  have pk: "parent k < n" if "k < n" for k using that by linarith
  have off: "off_at n i ?s"
    unfolding off_at_def
  proof (intro conjI allI impI)
    fix k assume "0 < k" "k < n" "k \<noteq> i" "parent k \<noteq> i"
    then show "hk ?s (parent k) \<le> hk ?s k" using ord pk by (simp add: hks)
  next
    fix k assume k: "0 < k" "k < n" "parent k = i" "0 < i"
    then have "k \<noteq> i" "parent i \<noteq> i" "parent i < n" using assms(2) by linarith+
    then show "hk ?s (parent i) \<le> hk ?s k"
      using ord [OF k(1)] ord [OF k(4)] k assms(2) by (simp add: hks)
  qed
  moreover have "down_inv n 0 ?s" if "i = 0"
    using off that unfolding off_at_def down_inv_def by auto
  moreover have "perm_step (Suc n) s ?s" using assms by (intro perm_step_swap) auto
  ultimately show ?thesis using assms by (simp add: swap_snd)
qed

lemma pop_after_sift:
  assumes "hs_ok s" "i < n" "length (snd s) = Suc n"
    and "heap_on n s'" "perm_step n (heap_Swap i n s) s'"
  shows "hs_ok (snd (heap_iPop s')) \<and> set (snd (snd (heap_iPop s'))) = set (snd s) - {snd s ! i} \<and>
         same_keys s (snd (heap_iPop s')) \<and> fst (heap_iPop s') = snd s ! i"
proof -
  let ?s = "heap_Swap i n s"
  note sw = swap_last_inv [OF assms(1-3)]
  have len: "length (snd ?s) = Suc n" "length (snd s') = Suc n"
    using assms(3) perm_step_length [OF assms(5)] by (simp_all add: swap_snd)
  have p: "perm_step (Suc n) s ?s" using sw by blast
  have h: "distinct (snd s)" "idx_ok s" using assms(1) by (simp_all add: hs_ok_def)
  have d: "distinct (snd s')" "idx_ok s'" "set (snd s') = set (snd s)" "same_keys s s'"
    using h perm_step_distinct [OF p] perm_step_distinct [OF assms(5)] perm_step_set [OF p]
      perm_step_set [OF assms(5)] perm_step_idx [OF p] perm_step_idx [OF assms(5)]
      same_keys_trans [OF perm_step_keys [OF p] perm_step_keys [OF assms(5)]] by simp_all
  have nth: "snd s' ! n = snd s ! i"
    using perm_step_nth [OF assms(5), of n] sw len by simp
  have "last (snd s') = snd s ! i"
    using len nth by (cases "snd s'" rule: rev_cases) auto
  with heap_iPop_ok [OF len(2) assms(4) d(1,2)] nth d(3) same_keys_trans [OF d(4)] show ?thesis
    by simp
qed

lemma heap_Remove_ok:
  assumes "hs_ok s" "i < length (snd s)"
  shows "hs_ok (snd (heap_Remove i s)) \<and> set (snd (snd (heap_Remove i s))) = set (snd s) - {snd s ! i} \<and>
         same_keys s (snd (heap_Remove i s)) \<and> fst (heap_Remove i s) = snd s ! i"
proof (cases "i = length (snd s) - 1")
  case True
  then have len: "length (snd s) = Suc i" using assms(2) by simp
  have "heap_on i s" using assms(1) len by (auto simp: hs_ok_def heap_on_def)
  then have "hs_ok (snd (heap_iPop s)) \<and> set (snd (snd (heap_iPop s))) = set (snd s) - {last (snd s)} \<and>
      same_keys s (snd (heap_iPop s)) \<and> fst (heap_iPop s) = snd s ! i"
    using assms(1) by (intro heap_iPop_ok [OF len]) (auto simp: hs_ok_def)
  moreover have "last (snd s) = snd s ! i" using len by (cases "snd s" rule: rev_cases) auto
  ultimately show ?thesis using True by (simp add: heap_Remove_def Let_def)
next
  case False
  let ?n = "length (snd s) - 1"
  have n: "i < ?n" "length (snd s) = Suc ?n" using False assms(2) by linarith+
  have "heap_on ?n (heap_sift (heap_Swap i ?n s) i ?n) \<and>
        perm_step ?n (heap_Swap i ?n s) (heap_sift (heap_Swap i ?n s) i ?n)"
    using swap_last_inv [OF assms(1) n] n by (intro heap_sift_correct) (auto simp: swap_snd)
  with pop_after_sift [OF assms(1) n, of "heap_sift (heap_Swap i ?n s) i ?n"] n
  show ?thesis by (simp add: heap_Remove_def Let_def)
qed

lemma heap_Pop_ok:
  assumes "hs_ok s" "0 < length (snd s)"
  shows "hs_ok (snd (heap_Pop s)) \<and> set (snd (snd (heap_Pop s))) = set (snd s) - {snd s ! 0} \<and>
         same_keys s (snd (heap_Pop s)) \<and> fst (heap_Pop s) = snd s ! 0"
proof (cases "length (snd s) = 1")
  case True
  then obtain p where p: "snd s = [p]" by (auto simp: length_Suc_conv)
  have "perm_step 1 s (heap_Swap 0 0 s)" using True by (intro perm_step_swap) auto
  then have "idx_ok (heap_Swap 0 0 s)" "snd (heap_Swap 0 0 s) = [p]" "same_keys s (heap_Swap 0 0 s)"
    using assms(1) p by (auto simp: perm_step_def hs_ok_def swap_snd same_keys_def)
  moreover have "heap_down (heap_Swap 0 0 s) 0 0 = (heap_Swap 0 0 s, 0)"
    by (subst heap_down_unfold) simp
  ultimately show ?thesis
    using heap_iPop_ok [of "heap_Swap 0 0 s" 0] p by (auto simp: heap_Pop_def heap_on_def same_keys_def)
next
  case False
  let ?n = "length (snd s) - 1"
  let ?d = "fst (heap_down (heap_Swap 0 ?n s) 0 ?n)"
  have n: "0 < ?n" "length (snd s) = Suc ?n" using False assms(2) by linarith+
  have "heap_on ?n ?d \<and> perm_step ?n (heap_Swap 0 ?n s) ?d"
    using swap_last_inv [OF assms(1) n] n by (intro heap_down_correct) (auto simp: swap_snd)
  with pop_after_sift [OF assms(1) n, of ?d] show ?thesis by (simp add: heap_Pop_def Let_def)
qed

section \<open>The manager's invariant\<close>

text \<open>
  The map and the heap hold the same entries, each once; an entry is filed under its own
  name, knows its cell, and the cells are in heap order.
\<close>

definition hb_inv :: "Manager \<Rightarrow> bool" where
  "hb_inv m \<longleftrightarrow>
     distinct (hb_heap m) \<and> ran (hb_entries m) = set (hb_heap m) \<and>
     (\<forall>k p. hb_entries m k = Some p \<longrightarrow> clientID (hb_store m p) = k) \<and>
     (\<forall>p \<in> set (hb_heap m). p < hb_next m) \<and>
     idx_ok (heapst_of m) \<and> heap_on (length (hb_heap m)) (heapst_of m)"

lemma NewManager_inv [inv_intro]: "hb_inv (NewManager timeout interval)"
  by (simp add: hb_inv_def NewManager_def idx_ok_def heap_on_def heapst_of_def)


lemma hb_inv_hs: "hb_inv m \<Longrightarrow> hs_ok (heapst_of m)"
  by (simp add: hb_inv_def hs_ok_def heapst_of_def)

lemma hb_inv_entry: "hb_inv m \<Longrightarrow> p \<in> set (hb_heap m) \<Longrightarrow> hb_entries m (clientID (hb_store m p)) = Some p"
proof -
  assume inv: "hb_inv m" and p: "p \<in> set (hb_heap m)"
  then have "p \<in> ran (hb_entries m)" by (simp add: hb_inv_def)
  then obtain k where k: "hb_entries m k = Some p" by (auto simp: ran_def)
  with inv show ?thesis by (simp add: hb_inv_def)
qed

lemma hb_inv_cell:
  assumes "hb_inv m" "hb_entries m k = Some p"
  obtains i where "i < length (hb_heap m)" "hb_heap m ! i = p" "index (hb_store m p) = int i"
proof -
  have "p \<in> set (hb_heap m)" using assms by (metis hb_inv_def ranI)
  then obtain i where i: "i < length (hb_heap m)" "hb_heap m ! i = p" by (meson in_set_conv_nth)
  moreover have "index (hb_store m (hb_heap m ! i)) = int i"
    using i(1) assms(1) by (simp add: hb_inv_def idx_ok_def heapst_of_def)
  ultimately show thesis using that by simp
qed

lemma entries_inj: "hb_inv m \<Longrightarrow> hb_entries m k = Some p \<Longrightarrow> hb_entries m k' = Some p \<Longrightarrow> k = k'"
  by (metis hb_inv_def)

lemma with_heapst_frame [frame, simp]:
  "hb_entries (with_heapst s m) = hb_entries m" "hb_next (with_heapst s m) = hb_next m"
  "hb_timeout (with_heapst s m) = hb_timeout m" "hb_batchSize (with_heapst s m) = hb_batchSize m"
  "hb_store (with_heapst s m) = fst s" "hb_heap (with_heapst s m) = snd s"
  by (simp_all add: with_heapst_def)

lemma heapst_of_with [simp]: "heapst_of (with_heapst s m) = s"
  "heapst_of (m\<lparr>hb_entries := e\<rparr>) = heapst_of m" "heapst_of (m\<lparr>hb_next := n\<rparr>) = heapst_of m"
  by (simp_all add: heapst_of_def with_heapst_def)

text \<open>Rebuilding the invariant from what a heap operation guarantees.\<close>

lemma hb_invI:
  assumes "hs_ok (heapst_of m)" "ran (hb_entries m) = set (hb_heap m)"
    and "\<And>k p. hb_entries m k = Some p \<Longrightarrow> clientID (hb_store m p) = k"
    and "\<And>p. p \<in> set (hb_heap m) \<Longrightarrow> p < hb_next m"
  shows "hb_inv m"
  using assms by (auto simp: hb_inv_def hs_ok_def heapst_of_def)

lemma ran_remove:
  assumes "hb_inv m" "hb_entries m k = Some p"
  shows "ran ((hb_entries m)(k := None)) = set (hb_heap m) - {p}"
proof -
  have "ran (hb_entries m) = set (hb_heap m)" using assms(1) by (simp add: hb_inv_def)
  moreover have "ran ((hb_entries m)(k := None)) = ran (hb_entries m) - {p}"
  proof (rule set_eqI)
    fix q
    have "q \<in> ran ((hb_entries m)(k := None)) \<longleftrightarrow> (\<exists>j. j \<noteq> k \<and> hb_entries m j = Some q)"
      by (auto simp: ran_def)
    also have "\<dots> \<longleftrightarrow> (\<exists>j. hb_entries m j = Some q) \<and> q \<noteq> p"
      using assms(2) entries_inj [OF assms(1,2)] by (metis option.inject)
    finally show "q \<in> ran ((hb_entries m)(k := None)) \<longleftrightarrow> q \<in> ran (hb_entries m) - {p}"
      by (simp add: ran_def)
  qed
  ultimately show ?thesis by simp
qed

lemma off_at_touch:
  assumes "hs_ok (st, h)" "i < length h"
  shows "off_at (length h) i (st(h ! i := (st (h ! i))\<lparr>lastHbTime := now\<rparr>), h)"
proof -
  let ?s = "(st(h ! i := (st (h ! i))\<lparr>lastHbTime := now\<rparr>), h)"
  have hks: "hk ?s k = hk (st, h) k" if "k \<noteq> i" "k < length h" for k
    using that assms by (auto simp: hk_def hs_ok_def nth_eq_iff_index_eq)
  have ord: "hk (st, h) (parent k) \<le> hk (st, h) k" if "0 < k" "k < length h" for k
    using assms that by (auto simp: hs_ok_def heap_on_def)
  show ?thesis
    unfolding off_at_def
  proof (intro conjI allI impI)
    fix k assume k: "0 < k" "k < length h" "k \<noteq> i" "parent k \<noteq> i"
    have "parent k < length h" using k(2) by linarith
    then show "hk ?s (parent k) \<le> hk ?s k" using ord [OF k(1,2)] hks [OF k(4)] hks [OF k(3,2)] by simp
  next
    fix k assume k: "0 < k" "k < length h" "parent k = i" "0 < i"
    then have n: "k \<noteq> i" "parent i \<noteq> i" "parent i < length h" by linarith+
    have "hk (st, h) (parent i) \<le> hk (st, h) k"
      using ord [OF k(1,2)] ord [OF k(4) assms(2)] k(3) by simp
    then show "hk ?s (parent i) \<le> hk ?s k" using hks [OF n(2,3)] hks [OF n(1) k(2)] by simp
  qed
qed

lemma UpdateHeartbeat_correct:
  assumes "hb_inv m"
  shows "hb_inv (UpdateHeartbeat k now m) \<and>
    GetLastHeartbeat k' (UpdateHeartbeat k now m) = (if k' = k then Some now else GetLastHeartbeat k' m)"
proof (cases "hb_entries m k")
  case (Some p)
  then obtain i where i: "i < length (hb_heap m)" "hb_heap m ! i = p" "index (hb_store m p) = int i"
    using hb_inv_cell [OF assms] by blast
  let ?st = "(hb_store m)(p := (hb_store m p)\<lparr>lastHbTime := now\<rparr>)"
  let ?s = "(?st, hb_heap m)"
  have ok: "hs_ok (hb_store m, hb_heap m)" using hb_inv_hs [OF assms] by (simp add: heapst_of_def)
  have idx: "idx_ok ?s" using ok by (auto simp: hs_ok_def idx_ok_def)
  have sift: "hs_ok (heap_Fix i ?s) \<and> set (snd (heap_Fix i ?s)) = set (hb_heap m) \<and> same_keys ?s (heap_Fix i ?s)"
    using heap_Fix_ok [of i ?s] off_at_touch [OF ok i(1), of now] i idx ok by (simp add: hs_ok_def)
  have upd: "UpdateHeartbeat k now m = with_heapst (heap_Fix i ?s) m"
    using Some i by (simp add: UpdateHeartbeat_def Let_def)
  have "hb_inv (UpdateHeartbeat k now m)"
    unfolding upd using sift assms by (intro hb_invI) (auto simp: hb_inv_def same_keys_def)
  moreover have "GetLastHeartbeat k' (UpdateHeartbeat k now m)
      = (if k' = k then Some now else GetLastHeartbeat k' m)"
  proof (cases "k' = k")
    case True
    then show ?thesis unfolding upd using sift Some by (simp add: GetLastHeartbeat_def same_keys_def)
  next
    case False
    then have "hb_entries m k' \<noteq> Some p" using entries_inj [OF assms Some, of k'] by auto
    then show ?thesis unfolding upd using sift False
      by (auto simp: GetLastHeartbeat_def same_keys_def split: option.split)
  qed
  ultimately show ?thesis by blast
next
  case None
  let ?p = "hb_next m"
  let ?st = "(hb_store m)(?p := \<lparr>clientID = k, lastHbTime = now, index = 0\<rparr>)"
  let ?s = "(?st, hb_heap m)"
  let ?m = "m\<lparr>hb_next := Suc ?p, hb_entries := (hb_entries m)(k \<mapsto> ?p)\<rparr>"
  have lt: "q < ?p" if "q \<in> set (hb_heap m)" for q using assms that by (simp add: hb_inv_def)
  then have fresh: "?p \<notin> set (hb_heap m)" by auto
  then have nth: "hb_heap m ! i \<noteq> ?p" if "i < length (hb_heap m)" for i using that nth_mem by metis
  have "hs_ok (hb_store m, hb_heap m)" using hb_inv_hs [OF assms] by (simp add: heapst_of_def)
  moreover have "heap_on n ?s \<longleftrightarrow> heap_on n (hb_store m, hb_heap m)" if "n \<le> length (hb_heap m)" for n
    using nth that by (auto simp: heap_on_def hk_def)
  ultimately have "hs_ok ?s" using nth by (auto simp: hs_ok_def idx_ok_def)
  then have push: "hs_ok (heap_Push ?p ?s) \<and> set (snd (heap_Push ?p ?s)) = insert ?p (set (hb_heap m)) \<and>
      same_keys ?s (heap_Push ?p ?s)"
    using heap_Push_ok [of ?s ?p] fresh by simp
  have upd: "UpdateHeartbeat k now m = with_heapst (heap_Push ?p ?s) ?m"
    using None by (simp add: UpdateHeartbeat_def Let_def)
  have old: "q \<noteq> ?p" if "hb_entries m j = Some q" for j q
    using that assms fresh by (metis hb_inv_def ranI)
  have "hb_inv (UpdateHeartbeat k now m)"
    unfolding upd
  proof (intro hb_invI)
    show "ran (hb_entries (with_heapst (heap_Push ?p ?s) ?m)) = set (hb_heap (with_heapst (heap_Push ?p ?s) ?m))"
      using push None assms by (simp add: hb_inv_def)
    fix j q assume "hb_entries (with_heapst (heap_Push ?p ?s) ?m) j = Some q"
    then show "clientID (hb_store (with_heapst (heap_Push ?p ?s) ?m) q) = j"
      using push old assms by (auto simp: same_keys_def hb_inv_def split: if_splits)
  qed (use push lt in \<open>auto simp: less_SucI\<close>)
  moreover have "GetLastHeartbeat k' (UpdateHeartbeat k now m)
      = (if k' = k then Some now else GetLastHeartbeat k' m)"
    unfolding upd using push old by (auto simp: GetLastHeartbeat_def same_keys_def split: option.splits)
  ultimately show ?thesis by blast
qed

lemma RemoveClient_correct:
  assumes "hb_inv m"
  shows "hb_inv (RemoveClient k m) \<and>
    GetLastHeartbeat k' (RemoveClient k m) = (if k' = k then None else GetLastHeartbeat k' m)"
proof (cases "hb_entries m k")
  case None
  then show ?thesis using assms by (auto simp: RemoveClient_def GetLastHeartbeat_def)
next
  case (Some p)
  then obtain i where i: "i < length (hb_heap m)" "hb_heap m ! i = p" "index (hb_store m p) = int i"
    using hb_inv_cell [OF assms] by blast
  let ?s = "snd (heap_Remove i (heapst_of m))"
  have rem: "hs_ok ?s \<and> set (snd ?s) = set (hb_heap m) - {p} \<and> same_keys (heapst_of m) ?s"
    using heap_Remove_ok [OF hb_inv_hs [OF assms], of i] i by (simp add: heapst_of_def)
  have r: "RemoveClient k m = (with_heapst ?s m)\<lparr>hb_entries := (hb_entries m)(k := None)\<rparr>"
    using Some i by (simp add: RemoveClient_def)
  have "hb_inv (RemoveClient k m)"
    unfolding r using rem assms ran_remove [OF assms Some]
    by (intro hb_invI) (auto simp: hb_inv_def same_keys_def heapst_of_def split: if_splits)
  moreover have "GetLastHeartbeat k' (RemoveClient k m) = (if k' = k then None else GetLastHeartbeat k' m)"
    unfolding r using rem by (auto simp: GetLastHeartbeat_def same_keys_def heapst_of_def split: option.splits)
  ultimately show ?thesis by blast
qed

lemma pop_oldest_correct:
  assumes "hb_inv m" "0 < length (hb_heap m)"
  shows "hb_inv (pop_oldest m) \<and> length (hb_heap (pop_oldest m)) = length (hb_heap m) - 1 \<and>
    GetLastHeartbeat k' (pop_oldest m) =
      (if k' = clientID (hb_store m (hb_heap m ! 0)) then None else GetLastHeartbeat k' m)"
proof -
  let ?p = "hb_heap m ! 0" and ?k = "clientID (hb_store m (hb_heap m ! 0))"
  let ?s = "snd (heap_Pop (heapst_of m))"
  have e: "hb_entries m ?k = Some ?p" using assms by (intro hb_inv_entry) auto
  have pop: "hs_ok ?s \<and> set (snd ?s) = set (hb_heap m) - {?p} \<and> same_keys (heapst_of m) ?s"
    using heap_Pop_ok [OF hb_inv_hs [OF assms(1)]] assms(2) by (simp add: heapst_of_def)
  have r: "pop_oldest m = (with_heapst ?s m)\<lparr>hb_entries := (hb_entries m)(?k := None)\<rparr>"
    by (simp add: pop_oldest_def Let_def)
  have "hb_inv (pop_oldest m)"
    unfolding r using pop assms ran_remove [OF assms(1) e]
    by (intro hb_invI) (auto simp: hb_inv_def same_keys_def heapst_of_def split: if_splits)
  moreover have "length (hb_heap (pop_oldest m)) = length (hb_heap m) - 1"
  proof -
    have "length (snd ?s) = card (set (hb_heap m) - {?p})"
      using pop by (metis distinct_card hs_ok_def)
    then show ?thesis using assms unfolding r by (simp add: distinct_card hb_inv_def)
  qed
  moreover have "GetLastHeartbeat k' (pop_oldest m) = (if k' = ?k then None else GetLastHeartbeat k' m)"
    unfolding r using pop by (auto simp: GetLastHeartbeat_def same_keys_def heapst_of_def split: option.splits)
  ultimately show ?thesis by blast
qed


section \<open>The contract of the table of heartbeats\<close>

text \<open>What the server relies on: a table of last-heartbeat times by client key.\<close>

locale heartbeat_table =
  fixes inv :: "'m \<Rightarrow> bool"
    and upd :: "string \<Rightarrow> time \<Rightarrow> 'm \<Rightarrow> 'm"
    and del :: "string \<Rightarrow> 'm \<Rightarrow> 'm"
    and get :: "string \<Rightarrow> 'm \<Rightarrow> time option"
  assumes inv_upd: "inv m \<Longrightarrow> inv (upd k t m)"
    and inv_del: "inv m \<Longrightarrow> inv (del k m)"
    and get_upd: "inv m \<Longrightarrow> get k' (upd k t m) = (if k' = k then Some t else get k' m)"
    and get_del: "inv m \<Longrightarrow> get k' (del k m) = (if k' = k then None else get k' m)"
begin

lemma inv_del_list: "inv m \<Longrightarrow> inv (fold del ks m)"
  by (induction ks arbitrary: m) (auto simp: inv_del)

lemma get_del_list: "inv m \<Longrightarrow> get k (fold del ks m) = (if k \<in> set ks then None else get k m)"
  by (induction ks arbitrary: m) (auto simp: inv_del get_del)

lemma get_rekey:
  "inv m \<Longrightarrow> get k' (upd k t (fold del ks m)) =
     (if k' = k then Some t else if k' \<in> set ks then None else get k' m)"
  by (simp add: get_upd inv_del_list get_del_list)

end

interpretation hb: heartbeat_table hb_inv UpdateHeartbeat RemoveClient GetLastHeartbeat
  by unfold_locales (simp_all add: UpdateHeartbeat_correct RemoveClient_correct)

section \<open>Timeout sweep\<close>

definition expired :: "time \<Rightarrow> Manager \<Rightarrow> string \<Rightarrow> bool" where
  "expired now m k \<longleftrightarrow> (case GetLastHeartbeat k m of None \<Rightarrow> False | Some t \<Rightarrow> now - t > hb_timeout m)"

lemma expired_iff: "expired now m k \<longleftrightarrow> (\<exists>t. GetLastHeartbeat k m = Some t \<and> now - t > hb_timeout m)"
  by (auto simp: expired_def split: option.splits)

lemma heap_root_least:
  assumes "heap_on n s" "i < n"
  shows "hk s 0 \<le> hk s i"
  using assms(2)
proof (induction i rule: less_induct)
  case (less i)
  show ?case
  proof (cases "i = 0")
    case False
    then have "parent i < i" "parent i < n" using less.prems by linarith+
    then have "hk s 0 \<le> hk s (parent i)" by (rule less.IH)
    also have "\<dots> \<le> hk s i" using assms(1) False less.prems by (simp add: heap_on_def)
    finally show ?thesis .
  qed simp
qed

lemma oldest_first:
  assumes "hb_inv m" "GetLastHeartbeat k m = Some t"
  shows "0 < length (hb_heap m)" "lastHbTime (hb_store m (hb_heap m ! 0)) \<le> t"
proof -
  obtain p where p: "hb_entries m k = Some p" "t = lastHbTime (hb_store m p)"
    using assms(2) by (auto simp: GetLastHeartbeat_def split: option.splits)
  obtain i where i: "i < length (hb_heap m)" "hb_heap m ! i = p"
    using hb_inv_cell [OF assms(1) p(1)] by blast
  then show "0 < length (hb_heap m)" by linarith
  have "hk (heapst_of m) 0 \<le> hk (heapst_of m) i"
    using assms(1) i(1) by (intro heap_root_least) (auto simp: hb_inv_def)
  then show "lastHbTime (hb_store m (hb_heap m ! 0)) \<le> t"
    using i p by (simp add: hk_def heapst_of_def)
qed

lemma root_lookup:
  assumes "hb_inv m" "0 < length (hb_heap m)"
  shows "GetLastHeartbeat (clientID (hb_store m (hb_heap m ! 0))) m
       = Some (lastHbTime (hb_store m (hb_heap m ! 0)))"
  using hb_inv_entry [OF assms(1), of "hb_heap m ! 0"] assms(2) by (simp add: GetLastHeartbeat_def)

lemma pop_oldest_frame [frame]:
  "hb_timeout (pop_oldest m) = hb_timeout m" "hb_batchSize (pop_oldest m) = hb_batchSize m"
  by (simp_all add: pop_oldest_def Let_def)

lemma refix_root:
  assumes "hb_inv m" "0 < length (hb_heap m)"
  shows "hb_inv (with_heapst (heap_Fix 0 (heapst_of m)) m) \<and>
         GetLastHeartbeat k (with_heapst (heap_Fix 0 (heapst_of m)) m) = GetLastHeartbeat k m"
proof -
  have "off_at (length (hb_heap m)) 0 (heapst_of m)"
    using hb_inv_hs [OF assms(1)] by (auto simp: off_at_def hs_ok_def heap_on_def heapst_of_def)
  then have f: "hs_ok (heap_Fix 0 (heapst_of m)) \<and> set (snd (heap_Fix 0 (heapst_of m))) = set (hb_heap m)
      \<and> same_keys (heapst_of m) (heap_Fix 0 (heapst_of m))"
    using heap_Fix_ok [of 0 "heapst_of m"] hb_inv_hs [OF assms(1)] assms(2)
    by (simp add: heapst_of_def hs_ok_def)
  then have "hb_inv (with_heapst (heap_Fix 0 (heapst_of m)) m)"
    using assms(1) by (intro hb_invI) (auto simp: hb_inv_def same_keys_def heapst_of_def)
  then show ?thesis
    using f by (auto simp: GetLastHeartbeat_def same_keys_def heapst_of_def split: option.split)
qed

text \<open>What one sweep has collected, relative to the table \<open>m\<close> it started from.\<close>

definition swept :: "time \<Rightarrow> Manager \<Rightarrow> Manager \<Rightarrow> string list \<Rightarrow> bool" where
  "swept now m m' ks \<longleftrightarrow>
     distinct ks \<and> (\<forall>k \<in> set ks. expired now m k) \<and>
     (\<forall>k. GetLastHeartbeat k m' = (if k \<in> set ks then None else GetLastHeartbeat k m)) \<and>
     sorted (map (\<lambda>k. the (GetLastHeartbeat k m)) ks) \<and>
     (\<forall>k \<in> set ks. \<forall>k' t. GetLastHeartbeat k' m' = Some t \<longrightarrow> the (GetLastHeartbeat k m) \<le> t)"

lemma swept_Cons:
  assumes "hb_inv m" "0 < length (hb_heap m)"
    and "expired now m (clientID (hb_store m (hb_heap m ! 0)))"
    and "swept now (pop_oldest m) m' ks"
  shows "swept now m m' (clientID (hb_store m (hb_heap m ! 0)) # ks)"
proof -
  let ?k = "clientID (hb_store m (hb_heap m ! 0))"
  note pop = pop_oldest_correct [OF assms(1,2)]
  have get: "GetLastHeartbeat k (pop_oldest m) = (if k = ?k then None else GetLastHeartbeat k m)" for k
    using pop by blast
  have notin: "?k \<notin> set ks"
    using assms(4) get [of ?k] by (auto simp: swept_def expired_def)
  then have same: "GetLastHeartbeat k (pop_oldest m) = GetLastHeartbeat k m" if "k \<in> set ks" for k
    using get that by auto
  have le: "the (GetLastHeartbeat ?k m) \<le> t" if "GetLastHeartbeat k m = Some t" for k t
    using oldest_first [OF assms(1) that] root_lookup [OF assms(1,2)] by simp
  have some: "\<exists>t. GetLastHeartbeat k m = Some t" if "k \<in> set ks" for k
    using assms(4) that same by (force simp: swept_def expired_def split: option.splits)
  have "map (\<lambda>k. the (GetLastHeartbeat k (pop_oldest m))) ks = map (\<lambda>k. the (GetLastHeartbeat k m)) ks"
    using same by simp
  then have srt: "sorted (map (\<lambda>k. the (GetLastHeartbeat k m)) ks)"
    using assms(4) by (metis swept_def)
  have "the (GetLastHeartbeat ?k m) \<le> the (GetLastHeartbeat k m)" if "k \<in> set ks" for k
    using some [OF that] le by auto
  with srt have "sorted (map (\<lambda>k. the (GetLastHeartbeat k m)) (?k # ks))" by simp
  moreover have "\<forall>k \<in> set ks. expired now m k"
    using assms(4) same by (simp add: swept_def expired_iff pop_oldest_frame)
  moreover have m': "GetLastHeartbeat k m' = (if k \<in> set (?k # ks) then None else GetLastHeartbeat k m)" for k
    using assms(4) get by (simp add: swept_def)
  moreover have "the (GetLastHeartbeat j m) \<le> t"
    if "j \<in> set (?k # ks)" "GetLastHeartbeat k' m' = Some t" for j k' t
  proof (cases "j = ?k")
    case True
    have "GetLastHeartbeat k' m = Some t" using that(2) m' by (auto split: if_splits)
    then show ?thesis using le True by blast
  next
    case False
    then have "j \<in> set ks" using that(1) by simp
    then show ?thesis using assms(4) that(2) same by (auto simp: swept_def)
  qed
  ultimately show ?thesis using assms(3,4) notin unfolding swept_def by simp
qed

lemma check_loop_spec:
  assumes "hb_inv m" "length (hb_heap m) \<le> fuel"
  shows "\<exists>m' ks. check_loop fuel now m acc = (m', acc @ ks) \<and> hb_inv m' \<and> swept now m m' ks \<and>
     hb_timeout m' = hb_timeout m \<and> hb_batchSize m' = hb_batchSize m \<and>
     (length acc \<le> hb_batchSize m \<longrightarrow> length (acc @ ks) \<le> hb_batchSize m) \<and>
     (length (acc @ ks) < hb_batchSize m \<longrightarrow> (\<forall>k. \<not> expired now m' k))"
  using assms
proof (induction fuel arbitrary: m acc)
  case 0
  then have "\<not> expired now m k" for k
    using oldest_first(1) [OF "0.prems"(1), of k] by (auto simp: expired_def split: option.splits)
  then show ?case using "0.prems" by (auto simp: swept_def)
next
  case (Suc fuel)
  let ?e = "hb_store m (hb_heap m ! 0)"
  have none: "\<not> expired now m k"
    if "lastHbTime ?e \<ge> now - hb_timeout m \<or> length (hb_heap m) = 0" for k
    using that oldest_first [OF Suc.prems(1), of k] by (force simp: expired_def split: option.splits)
  consider (stop) "\<not> (length (hb_heap m) > 0 \<and> length acc < hb_batchSize m)"
    | (fresh) "length (hb_heap m) > 0" "length acc < hb_batchSize m" "lastHbTime ?e > now - hb_timeout m"
    | (pop) "length (hb_heap m) > 0" "length acc < hb_batchSize m" "now - lastHbTime ?e > hb_timeout m"
    | (edge) "length (hb_heap m) > 0" "length acc < hb_batchSize m" "lastHbTime ?e = now - hb_timeout m"
    by linarith
  then show ?case
  proof cases
    case stop
    then show ?thesis using none Suc.prems by (auto simp: swept_def)
  next
    case fresh
    then show ?thesis using none Suc.prems by (auto simp: swept_def Let_def)
  next
    case pop
    let ?m = "pop_oldest m" and ?k = "clientID ?e"
    note po = pop_oldest_correct [OF Suc.prems(1) pop(1)]
    have "\<exists>m' ks. check_loop fuel now ?m (acc @ [?k]) = (m', (acc @ [?k]) @ ks) \<and> hb_inv m' \<and> swept now ?m m' ks \<and>
       hb_timeout m' = hb_timeout ?m \<and> hb_batchSize m' = hb_batchSize ?m \<and>
       (length (acc @ [?k]) \<le> hb_batchSize ?m \<longrightarrow> length ((acc @ [?k]) @ ks) \<le> hb_batchSize ?m) \<and>
       (length ((acc @ [?k]) @ ks) < hb_batchSize ?m \<longrightarrow> (\<forall>k. \<not> expired now m' k))"
      using po Suc.prems(2) by (intro Suc.IH) auto
    then obtain m' ks where r: "check_loop fuel now ?m (acc @ [?k]) = (m', acc @ ?k # ks)" "hb_inv m'"
      "swept now ?m m' ks" "hb_timeout m' = hb_timeout m" "hb_batchSize m' = hb_batchSize m"
      "length (acc @ ?k # ks) \<le> hb_batchSize m"
      "length (acc @ ?k # ks) < hb_batchSize m \<longrightarrow> (\<forall>k. \<not> expired now m' k)"
      using pop(2) by (auto simp: pop_oldest_frame)
    have "expired now m ?k"
      using root_lookup [OF Suc.prems(1) pop(1)] pop(3) by (simp add: expired_def)
    then have "swept now m m' (?k # ks)" using r(3) by (intro swept_Cons [OF Suc.prems(1) pop(1)])
    moreover have "check_loop (Suc fuel) now m acc = (m', acc @ ?k # ks)"
      using pop r(1) by (simp add: Let_def)
    ultimately show ?thesis using r by blast
  next
    case edge
    let ?m = "with_heapst (heap_Fix 0 (heapst_of m)) m"
    note rf = refix_root [OF Suc.prems(1) edge(1)]
    have "check_loop (Suc fuel) now m acc = (?m, acc @ [])" using edge by (simp add: Let_def)
    moreover have "swept now m ?m []" using rf by (simp add: swept_def)
    moreover have "\<not> expired now ?m k" for k using none [of k] edge(3) rf
      by (simp add: expired_def split: option.splits)
    ultimately show ?thesis using rf edge(2) by (metis append_Nil2 less_imp_le with_heapst_frame(3,4))
  qed
qed

lemma checkTimeouts_spec:
  assumes "hb_inv m" "checkTimeouts now m = (m', ks)"
  shows "hb_inv m' \<and> swept now m m' ks \<and> hb_timeout m' = hb_timeout m \<and> hb_batchSize m' = hb_batchSize m \<and>
     length ks \<le> hb_batchSize m \<and> (length ks < hb_batchSize m \<longrightarrow> (\<forall>k. \<not> expired now m' k))"
proof (cases "length (hb_heap m) = 0")
  case True
  then have "\<not> expired now m k" for k
    using oldest_first(1) [OF assms(1), of k] by (auto simp: expired_def split: option.splits)
  then show ?thesis using True assms by (auto simp: checkTimeouts_def swept_def)
next
  case False
  then show ?thesis using check_loop_spec [OF assms(1) order_refl, of now "[]"] assms(2)
    by (auto simp: checkTimeouts_def)
qed


section \<open>Runs of the manager\<close>

datatype hb_op = Beat string time | Drop string | Sweep time

fun hb_exec :: "Manager \<Rightarrow> hb_op list \<Rightarrow> Manager" where
  "hb_exec m [] = m"
| "hb_exec m (Beat k now # ops) = hb_exec (UpdateHeartbeat k now m) ops"
| "hb_exec m (Drop k # ops) = hb_exec (RemoveClient k m) ops"
| "hb_exec m (Sweep now # ops) = hb_exec (fst (checkTimeouts now m)) ops"

lemma checkTimeouts_inv: "hb_inv m \<Longrightarrow> hb_inv (fst (checkTimeouts now m))"
  by (metis checkTimeouts_spec prod.collapse)

lemma hb_exec_inv: "hb_inv m \<Longrightarrow> hb_inv (hb_exec m ops)"
  by (induction m ops rule: hb_exec.induct)
    (simp_all add: hb.inv_upd hb.inv_del checkTimeouts_inv)

lemma UpdateHeartbeat_cfg [frame]:
  "hb_timeout (UpdateHeartbeat k now m) = hb_timeout m" "hb_batchSize (UpdateHeartbeat k now m) = hb_batchSize m"
  by (simp_all add: UpdateHeartbeat_def Let_def split: option.split)

lemma RemoveClient_cfg [frame]:
  "hb_timeout (RemoveClient k m) = hb_timeout m" "hb_batchSize (RemoveClient k m) = hb_batchSize m"
  by (simp_all add: RemoveClient_def split: option.split)

lemma hb_exec_cfg:
  "hb_inv m \<Longrightarrow> hb_timeout (hb_exec m ops) = hb_timeout m \<and> hb_batchSize (hb_exec m ops) = hb_batchSize m"
proof (induction m ops rule: hb_exec.induct)
  case (4 m now ops)
  obtain m' ks where c: "checkTimeouts now m = (m', ks)" by fastforce
  with checkTimeouts_spec [OF "4.prems" c] 4 show ?case by simp
qed (simp_all add: hb.inv_upd hb.inv_del UpdateHeartbeat_cfg RemoveClient_cfg)

text \<open>
  C5. After any run of heartbeats, removals and timeout sweeps from a new manager, the
  map and the heap hold the same entries, each once, every entry is filed under its own
  client and knows its heap cell, and the heap is in heap order.
\<close>

theorem heartbeat_manager_invariant: "hb_inv (hb_exec (NewManager timeout interval) ops)"
  by (intro hb_exec_inv NewManager_inv)

text \<open>
  C19. Seen from outside, the map-and-heap manager is a plain table: after any run, a
  heartbeat sets the client's time to now and a removal clears it, and neither touches
  another client.
\<close>

theorem heartbeat_manager_refines_table:
  "let m = hb_exec (NewManager timeout interval) ops
   in GetLastHeartbeat k' (UpdateHeartbeat k now m) = (if k' = k then Some now else GetLastHeartbeat k' m)
    \<and> GetLastHeartbeat k' (RemoveClient k m) = (if k' = k then None else GetLastHeartbeat k' m)"
  by (simp add: Let_def hb.get_upd hb.get_del hb_exec_inv NewManager_inv)

lemma NewManager_cfg: "hb_timeout (NewManager t i) = t" "hb_batchSize (NewManager t i) = 100"
  by (simp_all add: NewManager_def)

text \<open>
  C20. A timeout sweep reports each client at most once, only clients whose last heartbeat
  is more than the timeout ago, oldest first and at most a hundred; exactly the reported
  clients leave the table; and when fewer than a hundred are reported, no client that is
  overdue is left.
\<close>

theorem timeout_sweep_correct:
  assumes "m = hb_exec (NewManager timeout interval) ops" and "checkTimeouts now m = (m', ks)"
  shows "distinct ks \<and> length ks \<le> 100 \<and>
     (\<forall>k \<in> set ks. \<exists>t. GetLastHeartbeat k m = Some t \<and> now - t > timeout) \<and>
     sorted (map (\<lambda>k. the (GetLastHeartbeat k m)) ks) \<and>
     (\<forall>k. GetLastHeartbeat k m' = (if k \<in> set ks then None else GetLastHeartbeat k m)) \<and>
     (length ks < 100 \<longrightarrow> (\<forall>k t. GetLastHeartbeat k m' = Some t \<longrightarrow> now - t \<le> timeout))"
proof -
  have inv: "hb_inv m" unfolding assms(1) by (intro hb_exec_inv NewManager_inv)
  have cfg: "hb_timeout m = timeout" "hb_batchSize m = 100"
    using hb_exec_cfg [OF NewManager_inv] by (simp_all add: assms(1) NewManager_cfg)
  have s: "swept now m m' ks" "hb_timeout m' = timeout" "length ks \<le> 100"
    "length ks < 100 \<longrightarrow> (\<forall>k. \<not> expired now m' k)"
    using checkTimeouts_spec [OF inv assms(2)] cfg by auto
  have "\<exists>t. GetLastHeartbeat k m = Some t \<and> now - t > timeout" if "k \<in> set ks" for k
  proof -
    have "expired now m k" using s(1) that by (simp add: swept_def)
    then show ?thesis using cfg by (auto simp: expired_def split: option.splits)
  qed
  moreover have "now - t \<le> timeout" if "length ks < 100" "GetLastHeartbeat k m' = Some t" for k t
  proof -
    have "\<not> expired now m' k" using s(4) that(1) by blast
    then show ?thesis using s(2) that(2) by (simp add: expired_def)
  qed
  ultimately show ?thesis using s(1,3) by (auto simp: swept_def)
qed

text \<open>Two clients, one of them overdue at time 40.\<close>

definition hb_demo :: Manager where
  "hb_demo = hb_exec (NewManager 15 5) [Beat ''b'' 30, Beat ''a'' 10]"

theorem timeout_sweep_correct_witness:
  "snd (checkTimeouts 40 hb_demo) = [''a''] \<and> distinct (snd (checkTimeouts 40 hb_demo))
   \<and> GetLastHeartbeat ''a'' (fst (checkTimeouts 40 hb_demo)) = None
   \<and> GetLastHeartbeat ''b'' (fst (checkTimeouts 40 hb_demo)) = GetLastHeartbeat ''b'' hb_demo"
proof -
  have "snd (checkTimeouts 40 hb_demo) = [''a'']" by code_simp
  moreover obtain m' ks where c: "checkTimeouts 40 hb_demo = (m', ks)" by fastforce
  ultimately show ?thesis
    using timeout_sweep_correct [of hb_demo 15 5 "[Beat ''b'' 30, Beat ''a'' 10]" 40 m' ks] c
    by (auto simp: hb_demo_def)
qed

section \<open>The monitoring count\<close>

lemma count_before_le: "count_before t es \<le> length (filter (\<lambda>e. lastHbTime e < t) es)"
  by (induction es) auto

text \<open>
  The count of clients about to time out stops at the first heap cell that is recent
  enough, as if the heap were sorted: it never over-counts, and it under-counts in a
  state that three ordinary heartbeats produce (two of three clients are overdue, one is
  reported).
\<close>

theorem timeout_count_undercounts:
  "GetTimeoutCount w now m \<le> length (filter (\<lambda>p. lastHbTime (hb_store m p) < now - w) (hb_heap m))
   \<and> (let m3 = hb_exec (NewManager 100 5) [Beat ''a'' 0, Beat ''b'' 20, Beat ''c'' 1]
      in GetTimeoutCount 10 20 m3 = 1
       \<and> length (filter (\<lambda>p. lastHbTime (hb_store m3 p) < 20 - 10) (hb_heap m3)) = 2)"
proof
  show "GetTimeoutCount w now m \<le> length (filter (\<lambda>p. lastHbTime (hb_store m p) < now - w) (hb_heap m))"
    using count_before_le [of "now - w" "map (hb_store m) (hb_heap m)"]
    by (simp add: GetTimeoutCount_def filter_map comp_def)
  show "let m3 = hb_exec (NewManager 100 5) [Beat ''a'' 0, Beat ''b'' 20, Beat ''c'' 1]
      in GetTimeoutCount 10 20 m3 = 1
       \<and> length (filter (\<lambda>p. lastHbTime (hb_store m3 p) < 20 - 10) (hb_heap m3)) = 2"
    by code_simp
qed

end
