(* ===== verification/UserStatus.thy ===== *)
theory UserStatus
  imports Prelude Complex_Main
begin

text \<open>
  Login sessions, the current status of users, device sessions and the online history
  (\<open>db/query/user_session.go\<close>). The current status lives twice: as a row of the database
  and as an entry of Redis that every read prefers. A call to a store may fail; which
  calls fail is part of the environment, so every error branch of the code is a branch
  of the model. Times are milliseconds.
\<close>

section \<open>Rows\<close>

record device_info =
  di_Platform :: string
  di_DeviceType :: string
  di_DeviceModel :: string
  di_OSVersion :: string
  di_AppVersion :: string
  di_Timezone :: string
  di_ISP :: string

record location_info =
  loc_IP :: string
  loc_Country :: string
  loc_City :: string
  loc_Timezone :: string

record user_session =
  s_Sid :: sid
  s_Uid :: uid
  s_DeviceId :: string
  s_DeviceFinger :: string
  s_Platform :: string
  s_LoginTime :: time
  s_LogoutTime :: time
  s_LastActivity :: time
  s_IsActive :: bool
  s_IsExpired :: bool
  s_LoginIP :: string
  s_UserAgent :: string
  s_ClientVersion :: string
  s_Notification :: bool
  s_ExpiresAt :: time
  s_Reason :: string

record user_status =
  st_Uid :: uid
  st_IsOnline :: bool
  st_CurrentStatus :: string
  st_LastOnline :: time
  st_LastLogin :: time
  st_LastLogout :: time
  st_LastHeartbeat :: time
  st_CustomState :: string
  st_CurrentSessionId :: sid
  st_WebsocketId :: string
  st_DeviceInfo :: device_info
  st_ConcurrentDevices :: int
  st_TotalOnlineToday :: int
  st_IP :: string

record meta_info =
  m_FirstSeen :: time
  m_LoginCount :: int
  m_TotalOnline :: int
  m_AvgDuration :: rat
  m_LastLocation :: location_info

record device_session =
  d_DeviceFinger :: string
  d_CurrentSid :: sid
  d_Platform :: string
  d_DeviceName :: string
  d_LastLogin :: time
  d_LastLogout :: time
  d_TotalSessions :: int
  d_IsTrusted :: bool
  d_IsBlocked :: bool
  d_MetaInfo :: meta_info

record online_history =
  h_Sid :: sid
  h_Uid :: uid
  h_EventType :: string
  h_EventSubtype :: string
  h_StatusBefore :: string
  h_StatusAfter :: string
  h_Reason :: string
  h_EventTime :: time
  h_DeviceInfo :: device_info
  h_ISP :: string
  h_LocationInfo :: location_info

text \<open>The tables and Redis keys of this module. \<open>sessions\<close> is keyed by its unique index.\<close>

record user_store =
  sessions :: "sid \<rightharpoonup> user_session"
  statuses :: "uid \<rightharpoonup> user_status"
  status_cache :: "uid \<rightharpoonup> user_status"
  room_online :: "rid \<Rightarrow> uid set"
  dev_sessions :: "uid \<times> string \<rightharpoonup> device_session"
  history :: "online_history list"

datatype user_call =
    GetStatusRedis | SetStatusRedis | FindStatus | InsertStatus | UpdateStatus
  | PluckRoomIds | RoomOnlineSet rid
  | InsertSession | FindSession | UpdateSession
  | FindDevice | InsertDevice | UpdateDevice | InsertHistory

record user_env =
  u_now :: time
  u_fails :: "user_call \<Rightarrow> bool"
  u_rids :: "uid \<Rightarrow> rid list"

definition empty_device :: device_info where
  "empty_device = \<lparr>di_Platform = [], di_DeviceType = [], di_DeviceModel = [], di_OSVersion = [],
     di_AppVersion = [], di_Timezone = [], di_ISP = []\<rparr>"

datatype qerror = StoreError | RecordNotFound | PresenceRequiresOnline | StatusTooLong | CustomTooLong

section \<open>Sessions\<close>

text \<open>\<open>newsid\<close> is the identifier that the row's creation hook generates.\<close>

definition CreateUserSession ::
  "user_env \<Rightarrow> sid \<Rightarrow> uid \<Rightarrow> string \<Rightarrow> string \<Rightarrow> string \<Rightarrow> string \<Rightarrow> string \<Rightarrow> string \<times> bool \<Rightarrow> user_store
   \<Rightarrow> (qerror + user_session) \<times> user_store" where
  "CreateUserSession e newsid uid deviceId deviceFinger platform loginIP userAgent sessionData s =
     (let now = u_now e;
          session = \<lparr>s_Sid = newsid, s_Uid = uid, s_DeviceId = deviceId, s_DeviceFinger = deviceFinger,
            s_Platform = platform, s_LoginTime = now, s_LogoutTime = 0, s_LastActivity = now,
            s_IsActive = True, s_IsExpired = False, s_LoginIP = loginIP, s_UserAgent = userAgent,
            s_ClientVersion = fst sessionData, s_Notification = snd sessionData,
            s_ExpiresAt = 0, s_Reason = []\<rparr>
      in if u_fails e InsertSession \<or> sessions s newsid \<noteq> None then (Inl StoreError, s)
         else (Inr session, s\<lparr>sessions := (sessions s)(newsid \<mapsto> session)\<rparr>))"

definition UpdateUserSessionLogout ::
  "user_env \<Rightarrow> sid \<Rightarrow> string \<Rightarrow> user_store \<Rightarrow> (qerror + unit) \<times> user_store" where
  "UpdateUserSessionLogout e sid reason s =
     (if u_fails e UpdateSession then (Inl StoreError, s)
      else (Inr (), s\<lparr>sessions := (sessions s)(sid := map_option (\<lambda>r.
              r\<lparr>s_LogoutTime := u_now e, s_IsActive := False, s_IsExpired := True, s_Reason := reason\<rparr>)
              (sessions s sid))\<rparr>))"

definition GetUserSessionBySid :: "user_env \<Rightarrow> sid \<Rightarrow> user_store \<Rightarrow> qerror + user_session" where
  "GetUserSessionBySid e sid s =
     (if u_fails e FindSession then Inl StoreError
      else case sessions s sid of None \<Rightarrow> Inl RecordNotFound | Some r \<Rightarrow> Inr r)"

definition TouchUserSessionActivity ::
  "user_env \<Rightarrow> sid \<Rightarrow> user_store \<Rightarrow> (qerror + unit) \<times> user_store" where
  "TouchUserSessionActivity e sid s =
     (if u_fails e UpdateSession then (Inl StoreError, s)
      else case sessions s sid of
        None \<Rightarrow> (Inl RecordNotFound, s)
      | Some r \<Rightarrow> if s_IsActive r \<and> \<not> s_IsExpired r
          then (Inr (), s\<lparr>sessions := (sessions s)(sid \<mapsto> r\<lparr>s_LastActivity := u_now e\<rparr>)\<rparr>)
          else (Inl RecordNotFound, s))"

definition ValidateActiveUserSession :: "user_env \<Rightarrow> uid \<Rightarrow> sid \<Rightarrow> user_store \<Rightarrow> qerror + bool" where
  "ValidateActiveUserSession e uid sid s =
     (case GetUserSessionBySid e sid s of
        Inl RecordNotFound \<Rightarrow> Inr False
      | Inl err \<Rightarrow> Inl err
      | Inr session \<Rightarrow>
          if s_Uid session \<noteq> uid then Inr False
          else if \<not> s_IsActive session \<or> s_IsExpired session then Inr False
          else if s_ExpiresAt session > 0 \<and> u_now e > s_ExpiresAt session then Inr False
          else Inr True)"

section \<open>The current status\<close>

definition cache_status :: "user_env \<Rightarrow> uid \<Rightarrow> user_status \<Rightarrow> user_store \<Rightarrow> user_store" where
  "cache_status e uid st s =
     (if u_fails e SetStatusRedis then s else s\<lparr>status_cache := (status_cache s)(uid \<mapsto> st)\<rparr>)"

definition update_status_row :: "uid \<Rightarrow> (user_status \<Rightarrow> user_status) \<Rightarrow> user_store \<Rightarrow> user_store" where
  "update_status_row uid f s = s\<lparr>statuses := (statuses s)(uid := map_option f (statuses s uid))\<rparr>"

definition default_status :: "uid \<Rightarrow> user_status" where
  "default_status uid = \<lparr>st_Uid = uid, st_IsOnline = True, st_CurrentStatus = ''offline'',
     st_LastOnline = 0, st_LastLogin = 0, st_LastLogout = 0, st_LastHeartbeat = 0, st_CustomState = [],
     st_CurrentSessionId = [], st_WebsocketId = [], st_DeviceInfo = empty_device,
     st_ConcurrentDevices = 0, st_TotalOnlineToday = 0, st_IP = []\<rparr>"

text \<open>Reading past the cache; inserting a second row for a uid fails on the unique index.\<close>

definition load_status :: "user_env \<Rightarrow> uid \<Rightarrow> user_store \<Rightarrow> (qerror + user_status) \<times> user_store" where
  "load_status e uid s =
     (case (if u_fails e FindStatus then None else statuses s uid) of
        Some st \<Rightarrow> (Inr st, cache_status e uid st s)
      | None \<Rightarrow>
          if u_fails e InsertStatus \<or> statuses s uid \<noteq> None then (Inl StoreError, s)
          else let st = default_status uid in
            (Inr st, cache_status e uid st (s\<lparr>statuses := (statuses s)(uid \<mapsto> st)\<rparr>)))"

definition GetOrCreateUserCurrentStatus ::
  "user_env \<Rightarrow> uid \<Rightarrow> user_store \<Rightarrow> (qerror + user_status) \<times> user_store" where
  "GetOrCreateUserCurrentStatus e uid s =
     (case (if u_fails e GetStatusRedis then None else status_cache s uid) of
        Some st \<Rightarrow> if st_Uid st \<noteq> [] then (Inr st, s) else load_status e uid s
      | None \<Rightarrow> load_status e uid s)"

definition updateUserRoomOnlineStatus ::
  "user_env \<Rightarrow> uid \<Rightarrow> bool \<Rightarrow> user_store \<Rightarrow> (qerror + unit) \<times> user_store" where
  "updateUserRoomOnlineStatus e uid isOnline s =
     (if u_fails e PluckRoomIds then (Inl StoreError, s)
      else (Inr (), s\<lparr>room_online := (\<lambda>rid.
              if rid \<in> set (u_rids e uid) \<and> \<not> u_fails e (RoomOnlineSet rid)
              then (if isOnline then insert uid (room_online s rid) else room_online s rid - {uid})
              else room_online s rid)\<rparr>))"

definition nextDisplayStatus :: "string \<Rightarrow> string" where
  "nextDisplayStatus current =
     (let t = TrimSpace current in if t = [] \<or> t = ''offline'' then ''online'' else t)"

definition UpdateUserCurrentStatusOnline ::
  "user_env \<Rightarrow> uid \<Rightarrow> sid \<Rightarrow> string \<Rightarrow> string \<Rightarrow> device_info \<Rightarrow> user_store
   \<Rightarrow> (qerror + unit) \<times> user_store" where
  "UpdateUserCurrentStatusOnline e uid sid websocketId ip deviceInfo s =
     (case GetOrCreateUserCurrentStatus e uid s of
        (Inl err, s1) \<Rightarrow> (Inl err, s1)
      | (Inr status, s1) \<Rightarrow>
          let now = u_now e;
              next = nextDisplayStatus (st_CurrentStatus status);
              s2 = cache_status e uid
                (status\<lparr>st_IsOnline := True, st_CurrentStatus := next, st_LastOnline := now,
                   st_LastLogin := now, st_LastHeartbeat := now, st_CurrentSessionId := sid,
                   st_WebsocketId := websocketId, st_DeviceInfo := deviceInfo, st_IP := ip\<rparr>) s1
          in if u_fails e UpdateStatus then (Inl StoreError, s2)
             else
               let s3 = update_status_row uid (\<lambda>r. r\<lparr>st_IsOnline := True, st_CurrentStatus := next,
                     st_CustomState := st_CustomState status, st_LastOnline := now, st_LastLogin := now,
                     st_LastHeartbeat := now, st_CurrentSessionId := sid, st_WebsocketId := websocketId,
                     st_DeviceInfo := deviceInfo, st_IP := ip\<rparr>) s2
               in (Inr (), snd (updateUserRoomOnlineStatus e uid True s3)))"

definition UpdateUserCurrentStatusOffline ::
  "user_env \<Rightarrow> uid \<Rightarrow> string \<Rightarrow> user_store \<Rightarrow> (qerror + unit) \<times> user_store" where
  "UpdateUserCurrentStatusOffline e uid reason s =
     (case GetOrCreateUserCurrentStatus e uid s of
        (Inl err, s1) \<Rightarrow> (Inl err, s1)
      | (Inr status, s1) \<Rightarrow>
          let off = (\<lambda>r. r\<lparr>st_IsOnline := False, st_LastLogout := u_now e,
                       st_CurrentSessionId := [], st_WebsocketId := []\<rparr>);
              s2 = cache_status e uid (off status) s1
          in if u_fails e UpdateStatus then (Inl StoreError, s2)
             else (Inr (), snd (updateUserRoomOnlineStatus e uid False (update_status_row uid off s2))))"

definition UpdateUserPresenceDisplay ::
  "user_env \<Rightarrow> uid \<Rightarrow> string \<Rightarrow> string \<Rightarrow> user_store \<Rightarrow> (qerror + unit) \<times> user_store" where
  "UpdateUserPresenceDisplay e uid currentStatus customState s =
     (case GetOrCreateUserCurrentStatus e uid s of
        (Inl err, s1) \<Rightarrow> (Inl err, s1)
      | (Inr st, s1) \<Rightarrow>
          if \<not> st_IsOnline st then (Inl PresenceRequiresOnline, s1)
          else
            let cs = (let t = TrimSpace currentStatus in if t = [] then ''online'' else t);
                cust = TrimSpace customState;
                set_display = (\<lambda>r. r\<lparr>st_CurrentStatus := cs, st_CustomState := cust\<rparr>)
            in if RuneCount cs > 32 then (Inl StatusTooLong, s1)
               else if RuneCount cust > 10 then (Inl CustomTooLong, s1)
               else let s2 = cache_status e uid (set_display st) s1
                 in if u_fails e UpdateStatus then (Inl StoreError, s2)
                    else (Inr (), update_status_row uid set_display s2))"

definition UpdateUserCurrentStatusHeartbeat ::
  "user_env \<Rightarrow> uid \<Rightarrow> user_store \<Rightarrow> (qerror + unit) \<times> user_store" where
  "UpdateUserCurrentStatusHeartbeat e uid s =
     (case GetOrCreateUserCurrentStatus e uid s of
        (Inl err, s1) \<Rightarrow> (Inl err, s1)
      | (Inr status, s1) \<Rightarrow>
          let beat = (\<lambda>r. r\<lparr>st_LastHeartbeat := u_now e\<rparr>);
              s2 = cache_status e uid (beat status) s1
          in if u_fails e UpdateStatus then (Inl StoreError, s2)
             else (Inr (), update_status_row uid beat s2))"

section \<open>History and device sessions\<close>

definition CreateUserOnlineHistory ::
  "user_env \<Rightarrow> online_history \<Rightarrow> user_store \<Rightarrow> (qerror + unit) \<times> user_store" where
  "CreateUserOnlineHistory e h s =
     (if u_fails e InsertHistory then (Inl StoreError, s)
      else (Inr (), s\<lparr>history := history s @ [h\<lparr>h_EventTime := u_now e\<rparr>]\<rparr>))"

definition GetOrCreateUserDeviceSession ::
  "user_env \<Rightarrow> uid \<Rightarrow> string \<Rightarrow> string \<Rightarrow> sid \<Rightarrow> string \<Rightarrow> string \<Rightarrow> location_info \<Rightarrow> user_store
   \<Rightarrow> (qerror + unit) \<times> user_store" where
  "GetOrCreateUserDeviceSession e uid deviceId deviceFinger sid platform deviceName loc s =
     (let now = u_now e in
      case (if u_fails e FindDevice then None else dev_sessions s (uid, deviceId)) of
        None \<Rightarrow>
          if u_fails e InsertDevice \<or> dev_sessions s (uid, deviceId) \<noteq> None then (Inl StoreError, s)
          else (Inr (), s\<lparr>dev_sessions := (dev_sessions s)((uid, deviceId) \<mapsto>
            \<lparr>d_DeviceFinger = deviceFinger, d_CurrentSid = sid, d_Platform = platform,
             d_DeviceName = deviceName, d_LastLogin = now, d_LastLogout = 0, d_TotalSessions = 1,
             d_IsTrusted = False, d_IsBlocked = False,
             d_MetaInfo = \<lparr>m_FirstSeen = now, m_LoginCount = 1, m_TotalOnline = 0, m_AvgDuration = 0,
               m_LastLocation = loc\<rparr>\<rparr>)\<rparr>)
      | Some d \<Rightarrow>
          if u_fails e UpdateDevice then (Inl StoreError, s)
          else (Inr (), s\<lparr>dev_sessions := (dev_sessions s)((uid, deviceId) \<mapsto>
            d\<lparr>d_DeviceFinger := deviceFinger, d_CurrentSid := sid, d_Platform := platform,
              d_DeviceName := deviceName, d_LastLogin := now, d_TotalSessions := d_TotalSessions d + 1,
              d_MetaInfo := (d_MetaInfo d)\<lparr>m_LoginCount := m_LoginCount (d_MetaInfo d) + 1,
                m_LastLocation := loc\<rparr>\<rparr>)\<rparr>))"

definition UpdateUserDeviceSessionLogout ::
  "user_env \<Rightarrow> uid \<Rightarrow> string \<Rightarrow> int \<Rightarrow> user_store \<Rightarrow> (qerror + unit) \<times> user_store" where
  "UpdateUserDeviceSessionLogout e uid deviceId onlineDuration s =
     (case (if u_fails e FindDevice then None else dev_sessions s (uid, deviceId)) of
        None \<Rightarrow> (Inr (), s)
      | Some d \<Rightarrow>
          let mi = d_MetaInfo d;
              total = m_TotalOnline mi + onlineDuration;
              avg = (if m_LoginCount mi > 0 then of_int total / of_int (m_LoginCount mi)
                     else m_AvgDuration mi)
          in if u_fails e UpdateDevice then (Inl StoreError, s)
             else (Inr (), s\<lparr>dev_sessions := (dev_sessions s)((uid, deviceId) \<mapsto>
               d\<lparr>d_LastLogout := u_now e, d_CurrentSid := [],
                 d_MetaInfo := mi\<lparr>m_TotalOnline := total, m_AvgDuration := avg\<rparr>\<rparr>)\<rparr>))"

section \<open>Cache and table agree\<close>

definition cache_ok :: "user_store \<Rightarrow> bool" where
  "cache_ok s \<longleftrightarrow> (\<forall>uid st. status_cache s uid = Some st \<longrightarrow> statuses s uid = Some st)"

lemma cache_okD: "cache_ok s \<Longrightarrow> status_cache s uid = Some st \<Longrightarrow> statuses s uid = Some st"
  by (simp add: cache_ok_def)

lemma cache_status_frame [frame, simp]:
  "statuses (cache_status e uid st s) = statuses s"
  "sessions (cache_status e uid st s) = sessions s"
  "room_online (cache_status e uid st s) = room_online s"
  "dev_sessions (cache_status e uid st s) = dev_sessions s"
  "history (cache_status e uid st s) = history s"
  by (simp_all add: cache_status_def)

lemma update_status_row_frame [frame, simp]:
  "status_cache (update_status_row uid f s) = status_cache s"
  "sessions (update_status_row uid f s) = sessions s"
  "statuses (update_status_row uid f s) = (statuses s)(uid := map_option f (statuses s uid))"
  by (simp_all add: update_status_row_def)

lemma room_online_frame [frame, simp]:
  "statuses (snd (updateUserRoomOnlineStatus e uid b s)) = statuses s"
  "status_cache (snd (updateUserRoomOnlineStatus e uid b s)) = status_cache s"
  "sessions (snd (updateUserRoomOnlineStatus e uid b s)) = sessions s"
  by (simp_all add: updateUserRoomOnlineStatus_def)

lemma cache_ok_cong:
  "statuses s' = statuses s \<Longrightarrow> status_cache s' = status_cache s \<Longrightarrow> cache_ok s' = cache_ok s"
  by (simp add: cache_ok_def)

lemma load_status_ok:
  assumes "cache_ok s"
  shows "cache_ok (snd (load_status e uid s))"
    and "load_status e uid s = (Inr st, s') \<Longrightarrow> statuses s' uid = Some st"
    and "load_status e uid s = (r, s') \<Longrightarrow> sessions s' = sessions s"
  using assms
  by (auto simp: load_status_def cache_ok_def cache_status_def Let_def split: option.splits if_splits)

text \<open>What the reading side of the cache guarantees: the status handed out is the row.\<close>

lemma GetOrCreate_ok:
  assumes "cache_ok s" and "GetOrCreateUserCurrentStatus e uid s = (r, s')"
  shows "cache_ok s'" and "sessions s' = sessions s"
    and "r = Inr st \<Longrightarrow> statuses s' uid = Some st"
  using assms load_status_ok [OF assms(1)]
  by (auto simp: GetOrCreateUserCurrentStatus_def split: option.splits if_splits dest: cache_okD
      intro: cache_okD) (metis snd_conv)+

text \<open>The writing side: the same change goes to the cache and to the row.\<close>

lemma write_both_ok:
  assumes "cache_ok s" and "statuses s uid = Some st" and "\<not> u_fails e SetStatusRedis"
    and "st' = g st"
  shows "cache_ok (update_status_row uid g (cache_status e uid st' s))"
  using assms by (auto simp: cache_ok_def cache_status_def)

datatype status_op =
    GoOnline uid sid string string device_info | GoOffline uid string
  | Display uid string string | StatusBeat uid | ReadStatus uid

fun status_exec1 :: "status_op \<Rightarrow> user_env \<Rightarrow> user_store \<Rightarrow> user_store" where
  "status_exec1 (GoOnline uid sid ws ip di) e s = snd (UpdateUserCurrentStatusOnline e uid sid ws ip di s)"
| "status_exec1 (GoOffline uid reason) e s = snd (UpdateUserCurrentStatusOffline e uid reason s)"
| "status_exec1 (Display uid cs cust) e s = snd (UpdateUserPresenceDisplay e uid cs cust s)"
| "status_exec1 (StatusBeat uid) e s = snd (UpdateUserCurrentStatusHeartbeat e uid s)"
| "status_exec1 (ReadStatus uid) e s = snd (GetOrCreateUserCurrentStatus e uid s)"

fun status_exec :: "(status_op \<times> user_env) list \<Rightarrow> user_store \<Rightarrow> user_store" where
  "status_exec [] s = s"
| "status_exec ((op, e) # ops) s = status_exec ops (status_exec1 op e s)"

lemma status_exec1_ok:
  assumes "cache_ok s" and "\<not> u_fails e SetStatusRedis" and "\<not> u_fails e UpdateStatus"
  shows "cache_ok (status_exec1 op e s)"
proof -
  have get: "cache_ok s1 \<and> (\<forall>st. r = Inr st \<longrightarrow> statuses s1 uid = Some st)"
    if "GetOrCreateUserCurrentStatus e uid s = (r, s1)" for uid r s1
    using GetOrCreate_ok [OF assms(1) that] by blast
  show ?thesis
  proof (cases op)
    case (GoOnline uid sid ws ip di)
    obtain r s1 where "GetOrCreateUserCurrentStatus e uid s = (r, s1)" by fastforce
    with get [OF this] assms(2,3) GoOnline show ?thesis
      by (cases r) (auto simp: UpdateUserCurrentStatusOnline_def Let_def intro!: write_both_ok
          simp: cache_ok_cong [OF room_online_frame(1,2)])
  next
    case (GoOffline uid reason)
    obtain r s1 where "GetOrCreateUserCurrentStatus e uid s = (r, s1)" by fastforce
    with get [OF this] assms(2,3) GoOffline show ?thesis
      by (cases r) (auto simp: UpdateUserCurrentStatusOffline_def Let_def intro!: write_both_ok
          simp: cache_ok_cong [OF room_online_frame(1,2)])
  next
    case (Display uid cs cust)
    obtain r s1 where "GetOrCreateUserCurrentStatus e uid s = (r, s1)" by fastforce
    with get [OF this] assms(2,3) Display show ?thesis
      by (cases r) (auto simp: UpdateUserPresenceDisplay_def Let_def intro!: write_both_ok)
  next
    case (StatusBeat uid)
    obtain r s1 where "GetOrCreateUserCurrentStatus e uid s = (r, s1)" by fastforce
    with get [OF this] assms(2,3) StatusBeat show ?thesis
      by (cases r) (auto simp: UpdateUserCurrentStatusHeartbeat_def Let_def intro!: write_both_ok)
  next
    case (ReadStatus uid)
    obtain r s1 where "GetOrCreateUserCurrentStatus e uid s = (r, s1)" by fastforce
    with get [OF this] ReadStatus show ?thesis by simp
  qed
qed

definition empty_users :: user_store where
  "empty_users = \<lparr>sessions = Map.empty, statuses = Map.empty, status_cache = Map.empty,
     room_online = (\<lambda>_. {}), dev_sessions = Map.empty, history = []\<rparr>"

text \<open>
  C21. As long as no write to Redis or to the status row fails, whatever else fails, every
  entry of the Redis status cache is the row of the database, after any sequence of
  connects, disconnects, display changes, heartbeats and reads, of any users.
\<close>

theorem status_cache_coherent:
  assumes "\<And>op e. (op, e) \<in> set ops \<Longrightarrow> \<not> u_fails e SetStatusRedis \<and> \<not> u_fails e UpdateStatus"
    and "status_cache (status_exec ops empty_users) uid = Some st"
  shows "statuses (status_exec ops empty_users) uid = Some st"
proof -
  have "cache_ok (status_exec ops s)"
    if "cache_ok s" "\<And>op e. (op, e) \<in> set ops \<Longrightarrow> \<not> u_fails e SetStatusRedis \<and> \<not> u_fails e UpdateStatus" for s
    using that
  proof (induction ops s rule: status_exec.induct)
    case (2 op e ops s)
    have "cache_ok (status_exec1 op e s)"
      using "2.prems"(2) [of op e] by (intro status_exec1_ok "2.prems"(1)) auto
    from "2.IH" [OF this] "2.prems"(2) show ?case by auto
  qed simp
  moreover have "cache_ok empty_users" by (simp add: cache_ok_def empty_users_def)
  ultimately show ?thesis using assms cache_okD by blast
qed

definition quiet_env :: user_env where
  "quiet_env = \<lparr>u_now = 1000, u_fails = (\<lambda>_. False), u_rids = (\<lambda>_. [''r1''])\<rparr>"

theorem status_cache_coherent_witness:
  "st_CurrentStatus (the (statuses (status_exec
      [(GoOnline ''u'' ''s'' [] ''1.2.3.4'' empty_device, quiet_env), (Display ''u'' ''busy'' [], quiet_env),
       (GoOffline ''u'' ''bye'', quiet_env)] empty_users) ''u'')) = ''busy''"
proof -
  let ?ops = "[(GoOnline ''u'' ''s'' [] ''1.2.3.4'' empty_device, quiet_env),
     (Display ''u'' ''busy'' [], quiet_env), (GoOffline ''u'' ''bye'', quiet_env)]"
  have ok: "\<And>op e. (op, e) \<in> set ?ops \<Longrightarrow> \<not> u_fails e SetStatusRedis \<and> \<not> u_fails e UpdateStatus"
    by (auto simp: quiet_env_def)
  have "map_option st_CurrentStatus (status_cache (status_exec ?ops empty_users) ''u'') = Some ''busy''"
    by code_simp
  then obtain st where st: "status_cache (status_exec ?ops empty_users) ''u'' = Some st" "st_CurrentStatus st = ''busy''"
    by blast
  from status_cache_coherent [OF ok st(1)] st(2) show ?thesis by simp
qed

section \<open>Sessions stay revoked\<close>

datatype session_op =
    Login sid uid string string string string string string bool
  | Logout sid string | Touch sid | StatusOp status_op

fun session_exec1 :: "session_op \<Rightarrow> user_env \<Rightarrow> user_store \<Rightarrow> user_store" where
  "session_exec1 (Login sid uid dev fin plat ip ua ver notif) e s =
     snd (CreateUserSession e sid uid dev fin plat ip ua (ver, notif) s)"
| "session_exec1 (Logout sid reason) e s = snd (UpdateUserSessionLogout e sid reason s)"
| "session_exec1 (Touch sid) e s = snd (TouchUserSessionActivity e sid s)"
| "session_exec1 (StatusOp op) e s = status_exec1 op e s"

fun session_exec :: "(session_op \<times> user_env) list \<Rightarrow> user_store \<Rightarrow> user_store" where
  "session_exec [] s = s"
| "session_exec ((op, e) # ops) s = session_exec ops (session_exec1 op e s)"

definition revoked :: "sid \<Rightarrow> user_store \<Rightarrow> bool" where
  "revoked sid s \<longleftrightarrow> (\<exists>r. sessions s sid = Some r \<and> \<not> s_IsActive r \<and> s_IsExpired r)"

lemma load_status_sessions [frame]: "sessions (snd (load_status e uid s)) = sessions s"
  by (auto simp: load_status_def Let_def split: option.splits)

lemma GetOrCreate_sessions [frame]: "sessions (snd (GetOrCreateUserCurrentStatus e uid s)) = sessions s"
  by (auto simp: GetOrCreateUserCurrentStatus_def load_status_sessions split: option.splits)

lemma GetOrCreate_sessions_D:
  "GetOrCreateUserCurrentStatus e uid s = (r, s') \<Longrightarrow> sessions s' = sessions s"
  using GetOrCreate_sessions [of e uid s] by simp

lemma status_exec1_sessions [frame]: "sessions (status_exec1 op e s) = sessions s"
  by (cases op)
    (auto simp: UpdateUserCurrentStatusOnline_def UpdateUserCurrentStatusOffline_def
      UpdateUserPresenceDisplay_def UpdateUserCurrentStatusHeartbeat_def Let_def GetOrCreate_sessions
      dest: GetOrCreate_sessions_D split: prod.split sum.split)

lemma revoked_step: "revoked sid s \<Longrightarrow> revoked sid (session_exec1 op e s)"
  by (cases op)
    (auto simp: revoked_def CreateUserSession_def UpdateUserSessionLogout_def
      TouchUserSessionActivity_def status_exec1_sessions Let_def split: option.splits)

lemma revoked_exec: "revoked sid s \<Longrightarrow> revoked sid (session_exec ops s)"
  by (induction ops s rule: session_exec.induct) (simp_all add: revoked_step)

lemma revoked_invalid: "revoked sid s \<Longrightarrow> ValidateActiveUserSession e uid sid s \<noteq> Inr True"
  by (auto simp: revoked_def ValidateActiveUserSession_def GetUserSessionBySid_def split: if_splits)

lemma logout_revokes:
  "UpdateUserSessionLogout e sid reason s = (Inr u, s') \<Longrightarrow> sessions s sid \<noteq> None \<Longrightarrow> revoked sid s'"
  by (auto simp: UpdateUserSessionLogout_def revoked_def split: if_splits)

text \<open>
  C16. A logged-out session never becomes valid again: after a logout that the store
  accepted, no sequence of logins, logouts, activity updates and status changes makes
  the check succeed for that sid, for any uid and at any later time.
\<close>

theorem logout_is_final:
  assumes "UpdateUserSessionLogout e sid reason s = (Inr u, s')" and "sessions s sid \<noteq> None"
  shows "ValidateActiveUserSession e' uid sid (session_exec ops s') \<noteq> Inr True"
  using revoked_invalid [OF revoked_exec [OF logout_revokes [OF assms]]] .

theorem logout_is_final_witness:
  "let s = session_exec [(Login ''s1'' ''u'' ''d'' [] [] [] [] [] True, quiet_env)] empty_users;
       s' = snd (UpdateUserSessionLogout quiet_env ''s1'' ''bye'' s)
   in ValidateActiveUserSession quiet_env ''u'' ''s1'' s = Inr True \<and>
      ValidateActiveUserSession quiet_env ''u'' ''s1'' (session_exec [(Touch ''s1'', quiet_env)] s') \<noteq> Inr True"
proof -
  let ?s = "session_exec [(Login ''s1'' ''u'' ''d'' [] [] [] [] [] True, quiet_env)] empty_users"
  have "UpdateUserSessionLogout quiet_env ''s1'' ''bye'' ?s
      = (Inr (), snd (UpdateUserSessionLogout quiet_env ''s1'' ''bye'' ?s))"
    by (simp add: UpdateUserSessionLogout_def quiet_env_def)
  moreover have "sessions ?s ''s1'' \<noteq> None"
    by (simp add: CreateUserSession_def quiet_env_def empty_users_def Let_def)
  ultimately have "ValidateActiveUserSession quiet_env ''u'' ''s1''
      (session_exec [(Touch ''s1'', quiet_env)] (snd (UpdateUserSessionLogout quiet_env ''s1'' ''bye'' ?s))) \<noteq> Inr True"
    by (rule logout_is_final)
  moreover have "ValidateActiveUserSession quiet_env ''u'' ''s1'' ?s = Inr True" by code_simp
  ultimately show ?thesis by (simp only: Let_def simp_thms)
qed

section \<open>The display status\<close>

lemma GetOrCreate_cached:
  "\<not> u_fails e GetStatusRedis \<Longrightarrow> status_cache s uid = Some st \<Longrightarrow> st_Uid st \<noteq> [] \<Longrightarrow>
   GetOrCreateUserCurrentStatus e uid s = (Inr st, s)"
  by (simp add: GetOrCreateUserCurrentStatus_def)

text \<open>
  C18. The display status a user chose survives a disconnect: going offline keeps it, and
  the next connect shows it again, unless it was empty or \<open>offline\<close>, which a connect
  turns into \<open>online\<close>. The user is online exactly in between, with the session of the
  last connect.
\<close>

theorem reconnect_restores_display_status:
  assumes "status_cache s uid = Some st" and "statuses s uid = Some st" and "st_Uid st \<noteq> []"
    and "\<And>c. \<not> u_fails e c" and "\<And>c. \<not> u_fails e' c"
  shows "\<exists>off on. status_cache (snd (UpdateUserCurrentStatusOffline e uid reason s)) uid = Some off \<and>
      \<not> st_IsOnline off \<and> st_CurrentStatus off = st_CurrentStatus st \<and> st_CurrentSessionId off = [] \<and>
      statuses (snd (UpdateUserCurrentStatusOnline e' uid sid ws ip di
          (snd (UpdateUserCurrentStatusOffline e uid reason s)))) uid = Some on \<and>
      st_IsOnline on \<and> st_CurrentSessionId on = sid \<and> st_CustomState on = st_CustomState st \<and>
      st_CurrentStatus on = nextDisplayStatus (st_CurrentStatus st)"
proof -
  define off where "off = st\<lparr>st_IsOnline := False, st_LastLogout := u_now e,
      st_CurrentSessionId := [], st_WebsocketId := []\<rparr>"
  define s' where "s' = snd (UpdateUserCurrentStatusOffline e uid reason s)"
  have s': "status_cache s' uid = Some off" "statuses s' uid = Some off"
    using assms by (simp_all add: s'_def UpdateUserCurrentStatusOffline_def GetOrCreate_cached
        Let_def cache_status_def off_def)
  have "GetOrCreateUserCurrentStatus e' uid s' = (Inr off, s')"
    using s' assms(3,5) by (intro GetOrCreate_cached) (simp_all add: off_def)
  then show ?thesis
    using s' assms(5) unfolding s'_def [symmetric]
    by (auto simp: UpdateUserCurrentStatusOnline_def Let_def cache_status_def off_def)
qed

theorem reconnect_restores_display_status_witness:
  "let s = status_exec [(GoOnline ''u'' ''s1'' [] [] empty_device, quiet_env), (Display ''u'' ''busy'' [], quiet_env)] empty_users
   in \<exists>on. statuses (snd (UpdateUserCurrentStatusOnline quiet_env ''u'' ''s2'' [] [] empty_device
          (snd (UpdateUserCurrentStatusOffline quiet_env ''u'' [] s)))) ''u'' = Some on \<and>
        st_CurrentStatus on = nextDisplayStatus ''busy''"
proof -
  let ?s = "status_exec [(GoOnline ''u'' ''s1'' [] [] empty_device, quiet_env), (Display ''u'' ''busy'' [], quiet_env)] empty_users"
  have "map_option (\<lambda>st. (st_CurrentStatus st, st_Uid st)) (status_cache ?s ''u'') = Some (''busy'', ''u'')"
    by code_simp
  then obtain st where st: "status_cache ?s ''u'' = Some st" "st_CurrentStatus st = ''busy''" "st_Uid st \<noteq> []"
    by auto
  have "cache_ok empty_users" by (simp add: cache_ok_def empty_users_def)
  then have "cache_ok ?s" by (simp add: status_exec1_ok quiet_env_def del: status_exec1.simps)
  then have "statuses ?s ''u'' = Some st" using st(1) by (rule cache_okD)
  from reconnect_restores_display_status [OF st(1) this st(3), of quiet_env quiet_env "[]" "''s2''" "[]" "[]" empty_device]
    st(2) show ?thesis by (auto simp: quiet_env_def Let_def simp del: status_exec.simps)
qed

text \<open>
  The guard ``no long connection, no display status'' does not hold for a user
  who never connected: the status row created on the first read says online, so the
  change is accepted, while the same call is refused once the user has gone offline.
\<close>

theorem display_guard_misses_new_users:
  assumes "\<And>c. \<not> u_fails e c" and "uid \<noteq> []"
  shows "(fst (UpdateUserPresenceDisplay e uid ''busy'' [] empty_users) = Inr ()) \<and>
     (fst (UpdateUserPresenceDisplay e uid ''busy'' []
           (snd (UpdateUserCurrentStatusOffline e uid reason empty_users))) = Inl PresenceRequiresOnline)"
proof (intro conjI)
  have new: "GetOrCreateUserCurrentStatus e uid empty_users = (Inr (default_status uid),
      empty_users\<lparr>statuses := [uid \<mapsto> default_status uid], status_cache := [uid \<mapsto> default_status uid]\<rparr>)"
    using assms by (simp add: GetOrCreateUserCurrentStatus_def load_status_def empty_users_def
        cache_status_def Let_def)
  have "RuneCount (TrimSpace ''busy'') \<le> 32" "TrimSpace ''busy'' \<noteq> []" "RuneCount [] \<le> 10"
    by code_simp+
  then show "fst (UpdateUserPresenceDisplay e uid ''busy'' [] empty_users) = Inr ()"
    using assms by (simp add: UpdateUserPresenceDisplay_def new Let_def default_status_def del: One_nat_def)
  have "GetOrCreateUserCurrentStatus e uid (snd (UpdateUserCurrentStatusOffline e uid reason empty_users))
      = (Inr (default_status uid\<lparr>st_IsOnline := False, st_LastLogout := u_now e\<rparr>),
         snd (UpdateUserCurrentStatusOffline e uid reason empty_users))"
    using assms by (intro GetOrCreate_cached)
      (simp_all add: UpdateUserCurrentStatusOffline_def new Let_def cache_status_def default_status_def)
  then show "fst (UpdateUserPresenceDisplay e uid ''busy'' []
      (snd (UpdateUserCurrentStatusOffline e uid reason empty_users))) = Inl PresenceRequiresOnline"
    by (simp add: UpdateUserPresenceDisplay_def)
qed

theorem display_guard_misses_new_users_witness:
  "fst (UpdateUserPresenceDisplay quiet_env ''u'' ''busy'' [] empty_users) = Inr ()"
  using display_guard_misses_new_users [of quiet_env "''u''"] by (simp add: quiet_env_def)

end
