(* ===== verification/Tokens.thy ===== *)
theory Tokens
  imports Wire UserStatus
begin

text \<open>
  Tokens and authentication: creation and validation of JWTs (\<open>jwt/jwt.go\<close>), login and
  refresh rotation (\<open>http/handler/auth/auth.go\<close>, \<open>token_issue.go\<close>), the HTTP guard
  (\<open>http/middleware/auth.go\<close>) and the authentication of a QUIC connection
  (\<open>quic/auth/authenticator.go\<close>). The JWT library, the JSON encoder, X25519 and HKDF are
  parameters. Times are nanoseconds, as \<open>time.Time\<close> and \<open>time.Duration\<close> count them.
\<close>

section \<open>Claims and configuration\<close>

definition Second :: time where "Second = 1000000000"
definition Minute :: time where "Minute = 60 * Second"
definition Hour :: time where "Hour = 60 * Minute"
definition Unix :: "time \<Rightarrow> int" where "Unix t = t div 1000000000"
definition UnixMilli :: "time \<Rightarrow> int" where "UnixMilli t = t div 1000000"

record jwt_config =
  cfg_JWTKey :: string
  cfg_AccessTokenExpire :: time
  cfg_ConnectTokenExpire :: time
  cfg_RefreshTokenExpire :: time

definition JWTKey :: "jwt_config option \<Rightarrow> string" where
  "JWTKey cfg = (case cfg of Some c \<Rightarrow> if cfg_JWTKey c \<noteq> [] then cfg_JWTKey c
       else ''eW91cl9nZW5lcmF0ZWRfc2VjcmV0X2tleV9oZXJl''
     | None \<Rightarrow> ''eW91cl9nZW5lcmF0ZWRfc2VjcmV0X2tleV9oZXJl'')"

definition AccessTokenExpire :: "jwt_config option \<Rightarrow> time" where
  "AccessTokenExpire cfg = (case cfg of
       Some c \<Rightarrow> if cfg_AccessTokenExpire c > 0 then cfg_AccessTokenExpire c else 2 * Hour
     | None \<Rightarrow> 2 * Hour)"

definition ConnectTokenExpire :: "jwt_config option \<Rightarrow> time" where
  "ConnectTokenExpire cfg = (case cfg of
       Some c \<Rightarrow> if cfg_ConnectTokenExpire c > 0 then cfg_ConnectTokenExpire c else 5 * Minute
     | None \<Rightarrow> 5 * Minute)"

definition RefreshTokenExpire :: "jwt_config option \<Rightarrow> time" where
  "RefreshTokenExpire cfg = (case cfg of
       Some c \<Rightarrow> if cfg_RefreshTokenExpire c > 0 then cfg_RefreshTokenExpire c else 7 * 24 * Hour
     | None \<Rightarrow> 7 * 24 * Hour)"

record claims =
  cl_Audience :: string
  cl_ExpiresAt :: int
  cl_IssuedAt :: int
  cl_Issuer :: string
  cl_NotBefore :: int
  cl_Id :: string
  cl_Subject :: uid
  cl_Sid :: sid

text \<open>\<open>ExpiresAt\<close> is \<open>None\<close> for the zero \<open>time.Time\<close>.\<close>

record jwt_data =
  jd_Jti :: string
  jd_Uid :: uid
  jd_Sid :: sid
  jd_Exp :: time
  jd_ExpiresAt :: "time option"

datatype jwt_error = JWTExpiresError string | JWTParseError string | EmptySid | ZeroExpiry | SignFailed

datatype token_call = FindRefresh | FindAccount | RevokeRefresh | InsertRefresh | CommitTx

record account =
  a_Uid :: uid
  a_Username :: string
  a_DbKeySeed :: string
  a_DbKeyIterations :: int

record refresh_row =
  rt_Uid :: uid
  rt_ExpiresAt :: int
  rt_Revoked :: bool

record cluster_addrs =
  ca_Quic :: "string list"
  ca_HTTP :: "string list"
  ca_OSS :: "string list"

text \<open>
  What one request sees: the clock, the JWT library (\<open>t_sign key claims\<close>, and
  \<open>t_parse key now token\<close>, the claims with the library's error and its \<open>Valid\<close> flag),
  the configuration, failing store calls, the fresh identifiers it will draw, the
  request's device fingerprint (\<open>None\<close> without \<open>X-Device-Id\<close>) and the registry's answer.
\<close>

record token_env =
  t_now :: time
  t_sign :: "string \<Rightarrow> claims \<Rightarrow> string option"
  t_parse :: "string \<Rightarrow> time \<Rightarrow> string \<Rightarrow> claims \<times> string option \<times> bool"
  t_cfg :: "jwt_config option"
  t_fails :: "token_call \<Rightarrow> bool"
  t_users :: user_env
  t_newSid :: sid
  t_accessJti :: string
  t_refreshJti :: string
  t_device :: "string option"
  t_clientIP :: string
  t_userAgent :: string
  t_cluster :: "cluster_addrs option"
  t_clusterBestEffort :: cluster_addrs

record token_store =
  refresh_rows :: "string \<rightharpoonup> refresh_row"
  accounts :: "uid \<rightharpoonup> account"
  users :: user_store

section \<open>JWT\<close>

definition generateJWT :: "token_env \<Rightarrow> jwt_data \<Rightarrow> jwt_error + string" where
  "generateJWT e data =
     (let now = t_now e;
          expiresAt = (case jd_ExpiresAt data of None \<Rightarrow> now + jd_Exp data | Some t \<Rightarrow> t);
          cl = \<lparr>cl_Audience = ''pc'', cl_ExpiresAt = Unix expiresAt, cl_IssuedAt = Unix now,
                cl_Issuer = ''server'', cl_NotBefore = Unix now, cl_Id = jd_Jti data,
                cl_Subject = jd_Uid data, cl_Sid = jd_Sid data\<rparr>
      in case t_sign e (JWTKey (t_cfg e)) cl of None \<Rightarrow> Inl SignFailed | Some t \<Rightarrow> Inr t)"

definition CreateAccessToken :: "token_env \<Rightarrow> uid \<Rightarrow> sid \<Rightarrow> jwt_error + string" where
  "CreateAccessToken e uid sid =
     (if sid = [] then Inl EmptySid
      else generateJWT e \<lparr>jd_Jti = t_accessJti e, jd_Uid = uid, jd_Sid = sid,
             jd_Exp = AccessTokenExpire (t_cfg e), jd_ExpiresAt = None\<rparr>)"

definition CreateRefreshTokenWithExpiresAt ::
  "token_env \<Rightarrow> uid \<Rightarrow> sid \<Rightarrow> time option \<Rightarrow> jwt_error + string \<times> jwt_data" where
  "CreateRefreshTokenWithExpiresAt e uid sid expiresAt =
     (if sid = [] then Inl EmptySid
      else if expiresAt = None then Inl ZeroExpiry
      else let jd = \<lparr>jd_Jti = t_refreshJti e, jd_Uid = uid, jd_Sid = sid, jd_Exp = 0, jd_ExpiresAt = expiresAt\<rparr>
        in case generateJWT e jd of Inl err \<Rightarrow> Inl err | Inr t \<Rightarrow> Inr (t, jd))"

definition CreateRefreshToken :: "token_env \<Rightarrow> uid \<Rightarrow> sid \<Rightarrow> jwt_error + string \<times> jwt_data" where
  "CreateRefreshToken e uid sid =
     (if sid = [] then Inl EmptySid
      else let jd = \<lparr>jd_Jti = t_refreshJti e, jd_Uid = uid, jd_Sid = sid, jd_Exp = 0,
                     jd_ExpiresAt = Some (t_now e + RefreshTokenExpire (t_cfg e))\<rparr>
        in case generateJWT e jd of Inl err \<Rightarrow> Inl err | Inr t \<Rightarrow> Inr (t, jd))"

definition ValidateJWT :: "token_env \<Rightarrow> string \<Rightarrow> jwt_error + claims" where
  "ValidateJWT e tok =
     (case t_parse e (JWTKey (t_cfg e)) (t_now e) tok of
        (cl, Some msg, _) \<Rightarrow>
          if Unix (t_now e) > cl_ExpiresAt cl then Inl (JWTExpiresError msg) else Inl (JWTParseError msg)
      | (cl, None, valid) \<Rightarrow> if \<not> valid then Inl (JWTParseError ''token'') else Inr cl)"

section \<open>Login and refresh\<close>

datatype auth_error =
    RefreshUnverifiable | RefreshInvalid | RefreshExpired | StoreFailure | AccountMissing
  | MissingDeviceId | SessionFailure | ClusterUnavailable | RevokeFailure | TokenFailure

definition createHttpUserSession ::
  "token_env \<Rightarrow> uid \<Rightarrow> token_store \<Rightarrow> (auth_error + sid) \<times> token_store" where
  "createHttpUserSession e uid s =
     (case t_device e of
        None \<Rightarrow> (Inl MissingDeviceId, s)
      | Some deviceId \<Rightarrow>
          (case CreateUserSession (t_users e) (t_newSid e) uid deviceId [] ''http'' (t_clientIP e)
                  (t_userAgent e) ([], False) (users s) of
             (Inl _, u) \<Rightarrow> (Inl SessionFailure, s\<lparr>users := u\<rparr>)
           | (Inr session, u) \<Rightarrow> (Inr (s_Sid session), s\<lparr>users := u\<rparr>)))"

text \<open>
  The transaction covers the refresh rows only; the session is written outside it. A
  failure after the session was created rolls the rows back and leaves the session.
\<close>

definition store_refresh ::
  "token_env \<Rightarrow> token_store \<Rightarrow> token_store \<Rightarrow> uid \<Rightarrow> jwt_data \<Rightarrow> int \<Rightarrow> 'a
   \<Rightarrow> (auth_error + 'a) \<times> token_store" where
  "store_refresh e s0 s uid data expiresAt a =
     (if t_fails e InsertRefresh \<or> refresh_rows s (jd_Jti data) \<noteq> None \<or> t_fails e CommitTx
      then (Inl StoreFailure, s\<lparr>refresh_rows := refresh_rows s0\<rparr>)
      else (Inr a, s\<lparr>refresh_rows := (refresh_rows s)(jd_Jti data \<mapsto>
              \<lparr>rt_Uid = jd_Uid data, rt_ExpiresAt = expiresAt, rt_Revoked = False\<rparr>)\<rparr>))"

definition revoke_where :: "(string \<Rightarrow> refresh_row \<Rightarrow> bool) \<Rightarrow> token_store \<Rightarrow> token_store" where
  "revoke_where P s = s\<lparr>refresh_rows := (\<lambda>j. map_option (\<lambda>r.
       if P j r then r\<lparr>rt_Revoked := True\<rparr> else r) (refresh_rows s j))\<rparr>"

definition cluster_ready :: "token_env \<Rightarrow> bool \<Rightarrow> bool" where
  "cluster_ready e required \<longleftrightarrow> \<not> required \<or> (case t_cluster e of None \<Rightarrow> False
     | Some c \<Rightarrow> ca_Quic c \<noteq> [] \<and> ca_HTTP c \<noteq> [] \<and> ca_OSS c \<noteq> [])"

definition cluster_of :: "token_env \<Rightarrow> bool \<Rightarrow> cluster_addrs" where
  "cluster_of e required = (if required then the (t_cluster e) else t_clusterBestEffort e)"

definition generateTokenInternal ::
  "token_env \<Rightarrow> uid \<Rightarrow> bool \<Rightarrow> token_store \<Rightarrow> (auth_error + string \<times> string \<times> cluster_addrs) \<times> token_store" where
  "generateTokenInternal e uid clusterRequired s =
     (if \<not> cluster_ready e clusterRequired then (Inl ClusterUnavailable, s)
      else if t_fails e RevokeRefresh then (Inl RevokeFailure, s)
      else
        (case createHttpUserSession e uid (revoke_where (\<lambda>_ r. rt_Uid r = uid) s) of
           (Inl err, s2) \<Rightarrow> (Inl err, s2\<lparr>refresh_rows := refresh_rows s\<rparr>)
         | (Inr sid, s2) \<Rightarrow>
             (case CreateAccessToken e uid sid of
                Inl _ \<Rightarrow> (Inl TokenFailure, s2\<lparr>refresh_rows := refresh_rows s\<rparr>)
              | Inr access \<Rightarrow>
                  (case CreateRefreshToken e uid sid of
                     Inl _ \<Rightarrow> (Inl TokenFailure, s2\<lparr>refresh_rows := refresh_rows s\<rparr>)
                   | Inr (refresh, data) \<Rightarrow>
                       store_refresh e s s2 uid data (UnixMilli (the (jd_ExpiresAt data)))
                         (access, refresh, cluster_of e clusterRequired)))))"

record refresh_claims =
  rc_Uid :: uid
  rc_Claims :: claims
  rc_Jti :: string
  rc_ExpiresAt :: int

definition parseValidRefreshToken :: "token_env \<Rightarrow> string \<Rightarrow> token_store \<Rightarrow> auth_error + refresh_claims" where
  "parseValidRefreshToken e tok s =
     (case ValidateJWT e tok of
        Inl _ \<Rightarrow> Inl RefreshUnverifiable
      | Inr cl \<Rightarrow>
          if t_fails e FindRefresh then Inl StoreFailure
          else (case refresh_rows s (cl_Id cl) of
             None \<Rightarrow> Inl RefreshInvalid
           | Some row \<Rightarrow>
               if rt_Revoked row then Inl RefreshInvalid
               else if UnixMilli (t_now e) > rt_ExpiresAt row then Inl RefreshExpired
               else if rt_Uid row \<noteq> cl_Subject cl then Inl RefreshInvalid
               else if t_fails e FindAccount then Inl AccountMissing
               else (case accounts s (rt_Uid row) of
                  None \<Rightarrow> Inl AccountMissing
                | Some u \<Rightarrow> if a_Uid u = [] then Inl AccountMissing
                    else Inr \<lparr>rc_Uid = a_Uid u, rc_Claims = cl, rc_Jti = cl_Id cl,
                              rc_ExpiresAt = rt_ExpiresAt row\<rparr>)))"

definition resolveSessionForRefresh ::
  "token_env \<Rightarrow> uid \<Rightarrow> claims \<Rightarrow> token_store \<Rightarrow> (auth_error + sid) \<times> token_store" where
  "resolveSessionForRefresh e uid cl s =
     (if cl_Sid cl \<noteq> [] then
        (case ValidateActiveUserSession (t_users e) uid (cl_Sid cl) (users s) of
           Inl _ \<Rightarrow> (Inl SessionFailure, s)
         | Inr ok \<Rightarrow>
             if ok then
               (case TouchUserSessionActivity (t_users e) (cl_Sid cl) (users s) of
                  (Inl _, u) \<Rightarrow> createHttpUserSession e uid (s\<lparr>users := u\<rparr>)
                | (Inr _, u) \<Rightarrow> (Inr (cl_Sid cl), s\<lparr>users := u\<rparr>))
             else createHttpUserSession e uid s)
      else createHttpUserSession e uid s)"

definition issueRotatedTokens ::
  "token_env \<Rightarrow> refresh_claims \<Rightarrow> bool \<Rightarrow> token_store
   \<Rightarrow> (auth_error + string \<times> string \<times> cluster_addrs) \<times> token_store" where
  "issueRotatedTokens e rtc clusterRequired s =
     (if \<not> cluster_ready e clusterRequired then (Inl ClusterUnavailable, s)
      else
        (case resolveSessionForRefresh e (rc_Uid rtc) (rc_Claims rtc) s of
           (Inl err, s1) \<Rightarrow> (Inl err, s1)
         | (Inr sid, s1) \<Rightarrow>
             if t_fails e RevokeRefresh then (Inl RevokeFailure, s1)
             else
               let s2 = revoke_where (\<lambda>j r. j = rc_Jti rtc \<and> \<not> rt_Revoked r) s1 in
               (case CreateAccessToken e (rc_Uid rtc) sid of
                  Inl _ \<Rightarrow> (Inl TokenFailure, s1)
                | Inr access \<Rightarrow>
                    (case CreateRefreshTokenWithExpiresAt e (rc_Uid rtc) sid
                            (Some (rc_ExpiresAt rtc * 1000000)) of
                       Inl _ \<Rightarrow> (Inl TokenFailure, s1)
                     | Inr (refresh, data) \<Rightarrow>
                         store_refresh e s1 s2 (rc_Uid rtc) data (rc_ExpiresAt rtc)
                           (access, refresh, cluster_of e clusterRequired)))))"

definition RefreshAccessToken ::
  "token_env \<Rightarrow> string \<Rightarrow> token_store \<Rightarrow> (auth_error + string \<times> string \<times> cluster_addrs) \<times> token_store" where
  "RefreshAccessToken e tok s =
     (case parseValidRefreshToken e tok s of
        Inl err \<Rightarrow> (Inl err, s)
      | Inr rtc \<Rightarrow> issueRotatedTokens e rtc False s)"

section \<open>Runs of logins and refreshes\<close>

text \<open>
  A refresh is split where other requests can come in between: reading and checking the
  token (\<open>Check\<close>), then issuing with what was read (\<open>Issue\<close>). \<open>Refresh\<close> is both at once.
\<close>

datatype token_op = LoginOp uid bool | Refresh string | Issue refresh_claims | SessionChange session_op

fun token_exec1 :: "token_op \<Rightarrow> token_env \<Rightarrow> token_store \<Rightarrow> token_store" where
  "token_exec1 (LoginOp uid req) e s = snd (generateTokenInternal e uid req s)"
| "token_exec1 (Refresh tok) e s = snd (RefreshAccessToken e tok s)"
| "token_exec1 (Issue rtc) e s = snd (issueRotatedTokens e rtc False s)"
| "token_exec1 (SessionChange op) e s = s\<lparr>users := session_exec1 op (t_users e) (users s)\<rparr>"

fun token_exec :: "(token_op \<times> token_env) list \<Rightarrow> token_store \<Rightarrow> token_store" where
  "token_exec [] s = s"
| "token_exec ((op, e) # ops) s = token_exec ops (token_exec1 op e s)"

lemma createHttpUserSession_frame [frame]:
  "createHttpUserSession e uid s = (r, s') \<Longrightarrow> refresh_rows s' = refresh_rows s \<and> accounts s' = accounts s"
  by (auto simp: createHttpUserSession_def split: option.splits prod.splits sum.splits)

lemma resolveSession_frame [frame]:
  "resolveSessionForRefresh e uid cl s = (r, s') \<Longrightarrow> refresh_rows s' = refresh_rows s \<and> accounts s' = accounts s"
  by (auto simp: resolveSessionForRefresh_def split: if_splits prod.splits sum.splits
      dest!: createHttpUserSession_frame)

lemma revoke_where_frame [frame, simp]:
  "accounts (revoke_where P s) = accounts s" "users (revoke_where P s) = users s"
  by (simp_all add: revoke_where_def)

text \<open>Every row after a step was there before, up to its revocation, or is the one new row.\<close>

definition rows_from :: "token_store \<Rightarrow> token_store \<Rightarrow> (string \<times> uid \<times> int) set \<Rightarrow> bool" where
  "rows_from s s' new \<longleftrightarrow> (\<forall>j r'. refresh_rows s' j = Some r' \<longrightarrow>
     (\<exists>r. refresh_rows s j = Some r \<and> rt_Uid r' = rt_Uid r \<and> rt_ExpiresAt r' = rt_ExpiresAt r \<and>
        (rt_Revoked r \<longrightarrow> rt_Revoked r')) \<or> ((j, rt_Uid r', rt_ExpiresAt r') \<in> new \<and> refresh_rows s j = None))"

definition rows_kept :: "token_store \<Rightarrow> token_store \<Rightarrow> bool" where
  "rows_kept s s' \<longleftrightarrow> (\<forall>j r. refresh_rows s j = Some r \<longrightarrow>
     (\<exists>r'. refresh_rows s' j = Some r' \<and> (rt_Revoked r \<longrightarrow> rt_Revoked r')))"

lemma rows_same: "refresh_rows s' = refresh_rows s \<Longrightarrow> rows_from s s' new \<and> rows_kept s s'"
  by (simp add: rows_from_def rows_kept_def)

lemma store_refresh_cases:
  assumes "store_refresh e s0 (revoke_where P s1) uid data x a = (r, s')"
    and "refresh_rows s0 = refresh_rows s" and "refresh_rows s1 = refresh_rows s"
  shows "refresh_rows s' = refresh_rows s \<and> (\<forall>b. r \<noteq> Inr b) \<or>
    refresh_rows s (jd_Jti data) = None \<and>
    (\<forall>j. refresh_rows s' j = (if j = jd_Jti data
        then Some \<lparr>rt_Uid = jd_Uid data, rt_ExpiresAt = x, rt_Revoked = False\<rparr>
        else map_option (\<lambda>r. if P j r then r\<lparr>rt_Revoked := True\<rparr> else r) (refresh_rows s j)))"
  using assms by (simp add: store_refresh_def revoke_where_def split: if_splits) auto

lemma store_refresh_rows:
  assumes "store_refresh e s0 (revoke_where P s1) uid data x a = (r, s')"
    and "refresh_rows s0 = refresh_rows s" and "refresh_rows s1 = refresh_rows s"
  shows "rows_from s s' {(jd_Jti data, jd_Uid data, x)}" and "rows_kept s s'"
    and "r = Inr b \<Longrightarrow> refresh_rows s j = Some row \<Longrightarrow> P j row \<Longrightarrow>
         \<exists>row'. refresh_rows s' j = Some row' \<and> rt_Revoked row'"
proof -
  note c = store_refresh_cases [OF assms]
  show "rows_from s s' {(jd_Jti data, jd_Uid data, x)}"
    unfolding rows_from_def
  proof (intro allI impI)
    fix j r' assume r': "refresh_rows s' j = Some r'"
    show "(\<exists>r. refresh_rows s j = Some r \<and> rt_Uid r' = rt_Uid r \<and> rt_ExpiresAt r' = rt_ExpiresAt r \<and>
        (rt_Revoked r \<longrightarrow> rt_Revoked r')) \<or>
        ((j, rt_Uid r', rt_ExpiresAt r') \<in> {(jd_Jti data, jd_Uid data, x)} \<and> refresh_rows s j = None)"
      using c
    proof (elim disjE conjE)
      assume "refresh_rows s (jd_Jti data) = None" and
        upd: "\<forall>j. refresh_rows s' j = (if j = jd_Jti data
          then Some \<lparr>rt_Uid = jd_Uid data, rt_ExpiresAt = x, rt_Revoked = False\<rparr>
          else map_option (\<lambda>r. if P j r then r\<lparr>rt_Revoked := True\<rparr> else r) (refresh_rows s j))"
      with upd [rule_format, of j] r' show ?thesis
        by (cases "refresh_rows s j") (auto split: if_splits)
    qed (use r' in simp)
  qed
  show "rows_kept s s'"
    using c by (auto simp: rows_kept_def)
  show "\<exists>row'. refresh_rows s' j = Some row' \<and> rt_Revoked row'"
    if "r = Inr b" "refresh_rows s j = Some row" "P j row"
    using c that by auto
qed

lemma login_rows:
  assumes "generateTokenInternal e uid req s = (r, s')"
  shows "rows_from s s' {(t_refreshJti e, uid, UnixMilli (t_now e + RefreshTokenExpire (t_cfg e)))} \<and> rows_kept s s'"
proof (cases "cluster_ready e req \<and> \<not> t_fails e RevokeRefresh")
  case False
  with assms show ?thesis by (auto simp: generateTokenInternal_def rows_same split: if_splits)
next
  case True
  let ?P = "\<lambda>_ r. rt_Uid r = uid"
  obtain r2 s2 where c: "createHttpUserSession e uid (revoke_where ?P s) = (r2, s2)" by fastforce
  from createHttpUserSession_frame [OF c] have f: "refresh_rows s2 = refresh_rows (revoke_where ?P s)" by simp
  then have s2: "s2 = revoke_where ?P (s2\<lparr>refresh_rows := refresh_rows s\<rparr>)"
    by (simp add: revoke_where_def)
  show ?thesis
  proof (cases "\<exists>sid access refresh data. r2 = Inr sid \<and> CreateAccessToken e uid sid = Inr access \<and>
      CreateRefreshToken e uid sid = Inr (refresh, data)")
    case False
    with assms True c have "refresh_rows s' = refresh_rows s"
      by (auto simp: generateTokenInternal_def split: sum.splits)
    then show ?thesis by (rule rows_same)
  next
    case True': True
    then obtain sid access refresh data where "r2 = Inr sid" "CreateAccessToken e uid sid = Inr access"
      and d: "CreateRefreshToken e uid sid = Inr (refresh, data)" by blast
    with assms True c have st: "store_refresh e s (revoke_where ?P (s2\<lparr>refresh_rows := refresh_rows s\<rparr>))
        uid data (UnixMilli (the (jd_ExpiresAt data))) (access, refresh, cluster_of e req) = (r, s')"
      using s2 by (simp add: generateTokenInternal_def)
    have "jd_Jti data = t_refreshJti e \<and> jd_Uid data = uid \<and>
        jd_ExpiresAt data = Some (t_now e + RefreshTokenExpire (t_cfg e))"
      using d by (auto simp: CreateRefreshToken_def Let_def split: if_splits sum.splits)
    with store_refresh_rows [OF st refl] show ?thesis by simp
  qed
qed

lemma issue_rows:
  assumes "issueRotatedTokens e rtc req s = (r, s')"
  shows "rows_from s s' {(t_refreshJti e, rc_Uid rtc, rc_ExpiresAt rtc)} \<and> rows_kept s s'"
    and "r = Inr b \<Longrightarrow> refresh_rows s (rc_Jti rtc) = Some row \<Longrightarrow>
         \<exists>row'. refresh_rows s' (rc_Jti rtc) = Some row' \<and> rt_Revoked row'"
proof -
  let ?P = "\<lambda>j r. j = rc_Jti rtc \<and> \<not> rt_Revoked r"
  obtain r1 s1 where c: "resolveSessionForRefresh e (rc_Uid rtc) (rc_Claims rtc) s = (r1, s1)" by fastforce
  from resolveSession_frame [OF c] have f: "refresh_rows s1 = refresh_rows s" by simp
  have cases: "refresh_rows s' = refresh_rows s \<and> (\<forall>b. r \<noteq> Inr b) \<or>
    (\<exists>data a. jd_Jti data = t_refreshJti e \<and> jd_Uid data = rc_Uid rtc \<and>
       store_refresh e s1 (revoke_where ?P s1) (rc_Uid rtc) data (rc_ExpiresAt rtc) a = (r, s'))"
    using assms c f
    by (auto simp: issueRotatedTokens_def Let_def CreateRefreshTokenWithExpiresAt_def
        split: if_splits sum.splits)
  show "rows_from s s' {(t_refreshJti e, rc_Uid rtc, rc_ExpiresAt rtc)} \<and> rows_kept s s'"
    using cases
  proof (elim disjE exE conjE)
    fix data a
    assume d: "jd_Jti data = t_refreshJti e" "jd_Uid data = rc_Uid rtc"
      and st: "store_refresh e s1 (revoke_where ?P s1) (rc_Uid rtc) data (rc_ExpiresAt rtc) a = (r, s')"
    from store_refresh_rows [OF st f f] d show ?thesis by simp
  qed (simp add: rows_same)
  assume "r = Inr b" and row: "refresh_rows s (rc_Jti rtc) = Some row"
  with cases obtain data a where
    st: "store_refresh e s1 (revoke_where ?P s1) (rc_Uid rtc) data (rc_ExpiresAt rtc) a = (r, s')" by blast
  show "\<exists>row'. refresh_rows s' (rc_Jti rtc) = Some row' \<and> rt_Revoked row'"
  proof (cases "rt_Revoked row")
    case True
    with store_refresh_rows(2) [OF st f f] row show ?thesis by (auto simp: rows_kept_def)
  next
    case False
    with store_refresh_rows(3) [OF st f f \<open>r = Inr b\<close> row] show ?thesis by simp
  qed
qed

lemma parse_row:
  "parseValidRefreshToken e tok s = Inr rtc \<Longrightarrow> \<exists>row. refresh_rows s (rc_Jti rtc) = Some row \<and>
     \<not> rt_Revoked row \<and> rt_ExpiresAt row = rc_ExpiresAt rtc \<and> UnixMilli (t_now e) \<le> rt_ExpiresAt row \<and>
     ValidateJWT e tok = Inr (rc_Claims rtc) \<and> rc_Jti rtc = cl_Id (rc_Claims rtc)"
  by (auto simp: parseValidRefreshToken_def split: if_splits sum.splits option.splits)

section \<open>Concurrent requests\<close>

text \<open>
  A state of the service with the refresh requests that have passed their check and not
  yet issued, and, as a ghost, the deadlines that logins have granted.
\<close>

type_synonym token_state = "token_store \<times> refresh_claims list \<times> (uid \<times> int) set"

inductive token_step :: "token_state \<Rightarrow> token_state \<Rightarrow> bool" where
  login: "generateTokenInternal e uid req s = (r, s') \<Longrightarrow> token_step (s, P, G)
     (s', P, insert (uid, UnixMilli (t_now e + RefreshTokenExpire (t_cfg e))) G)"
| check: "parseValidRefreshToken e tok s = Inr rtc \<Longrightarrow> token_step (s, P, G) (s, rtc # P, G)"
| issue: "rtc \<in> set P \<Longrightarrow> issueRotatedTokens e rtc False s = (r, s') \<Longrightarrow>
     token_step (s, P, G) (s', remove1 rtc P, G)"
| other: "token_step (s, P, G) (s\<lparr>users := session_exec1 op ue (users s)\<rparr>, P, G)"

inductive_cases token_stepE: "token_step (s, P, G) st'"

inductive token_reachable :: "token_state \<Rightarrow> bool" where
  start: "refresh_rows s = Map.empty \<Longrightarrow> (\<And>u a. accounts s u = Some a \<Longrightarrow> a_Uid a = u) \<Longrightarrow>
     token_reachable (s, [], {})"
| step: "token_reachable st \<Longrightarrow> token_step st st' \<Longrightarrow> token_reachable st'"

definition within_grants :: "token_state \<Rightarrow> bool" where
  "within_grants st \<longleftrightarrow> (case st of (s, P, G) \<Rightarrow>
     (\<forall>j row. refresh_rows s j = Some row \<longrightarrow> (rt_Uid row, rt_ExpiresAt row) \<in> G) \<and>
     (\<forall>rtc \<in> set P. (rc_Uid rtc, rc_ExpiresAt rtc) \<in> G) \<and>
     (\<forall>u a. accounts s u = Some a \<longrightarrow> a_Uid a = u))"

lemma store_refresh_accounts [frame]:
  "store_refresh e s0 s uid data x a = (r, s') \<Longrightarrow> accounts s' = accounts s"
  by (auto simp: store_refresh_def split: if_splits)

lemma generateToken_accounts [frame]: "generateTokenInternal e uid req s = (r, s') \<Longrightarrow> accounts s' = accounts s"
  by (auto simp: generateTokenInternal_def split: if_splits prod.splits sum.splits
      dest!: createHttpUserSession_frame store_refresh_accounts)

lemma issue_accounts [frame]: "issueRotatedTokens e rtc req s = (r, s') \<Longrightarrow> accounts s' = accounts s"
  by (auto simp: issueRotatedTokens_def Let_def split: if_splits prod.splits sum.splits
      dest!: resolveSession_frame store_refresh_accounts)

lemma rows_from_grants:
  "rows_from s s' new \<Longrightarrow> refresh_rows s' j = Some row \<Longrightarrow>
   (\<And>j row. refresh_rows s j = Some row \<Longrightarrow> (rt_Uid row, rt_ExpiresAt row) \<in> G) \<Longrightarrow>
   (\<And>j u x. (j, u, x) \<in> new \<Longrightarrow> (u, x) \<in> G) \<Longrightarrow> (rt_Uid row, rt_ExpiresAt row) \<in> G"
  unfolding rows_from_def by metis

lemma parse_uid:
  "parseValidRefreshToken e tok s = Inr rtc \<Longrightarrow> (\<And>u a. accounts s u = Some a \<Longrightarrow> a_Uid a = u) \<Longrightarrow>
   \<exists>row. refresh_rows s (rc_Jti rtc) = Some row \<and> rt_Uid row = rc_Uid rtc \<and> rt_ExpiresAt row = rc_ExpiresAt rtc"
  by (auto simp: parseValidRefreshToken_def split: if_splits sum.splits option.splits)

lemma within_grants_step:
  assumes "token_step st st'" and "within_grants st"
  shows "within_grants st'"
  using assms
proof (induction rule: token_step.induct)
  case (login e uid req s r s' P G)
  let ?G = "insert (uid, UnixMilli (t_now e + RefreshTokenExpire (t_cfg e))) G"
  have "(rt_Uid row, rt_ExpiresAt row) \<in> ?G" if "refresh_rows s' j = Some row" for j row
    using conjunct1 [OF login_rows [OF login.hyps]] that
    by (rule rows_from_grants) (use login.prems in \<open>auto simp: within_grants_def\<close>)
  then show ?case
    using login.prems generateToken_accounts [OF login.hyps] by (auto simp: within_grants_def)
next
  case (check e tok s rtc P G)
  then show ?case using parse_uid [OF check.hyps] by (auto simp: within_grants_def) metis
next
  case (issue rtc P e s r s' G)
  then have g: "(rc_Uid rtc, rc_ExpiresAt rtc) \<in> G"
    and rows: "\<And>j row. refresh_rows s j = Some row \<Longrightarrow> (rt_Uid row, rt_ExpiresAt row) \<in> G"
    by (auto simp: within_grants_def)
  have "(rt_Uid row, rt_ExpiresAt row) \<in> G" if "refresh_rows s' j = Some row" for j row
    using conjunct1 [OF issue_rows(1) [OF issue.hyps(2)]] that rows by (rule rows_from_grants) (use g in auto)
  then show ?case
    using issue.prems issue_accounts [OF issue.hyps(2)]
    by (auto simp: within_grants_def dest: notin_set_remove1)
qed (simp add: within_grants_def)

lemma within_grants_reachable: "token_reachable st \<Longrightarrow> within_grants st"
proof (induction rule: token_reachable.induct)
  case (start s)
  then show ?case by (auto simp: within_grants_def)
next
  case (step st st')
  then show ?case by (blast intro: within_grants_step)
qed

text \<open>
  C23. Rotating a refresh token never extends it: whatever requests run concurrently,
  every refresh token on record expires at a deadline that a login of the same user
  granted.
\<close>

theorem rotation_never_extends:
  assumes "token_reachable (s, P, G)" and "refresh_rows s j = Some row"
  shows "(rt_Uid row, rt_ExpiresAt row) \<in> G"
  using within_grants_reachable [OF assms(1)] assms(2) by (auto simp: within_grants_def)

lemma token_exec1_kept: "rows_kept s (token_exec1 op e s)"
proof (cases op)
  case (LoginOp uid req)
  then show ?thesis using login_rows [of e uid req s] by (cases "generateTokenInternal e uid req s") auto
next
  case (Issue rtc)
  then show ?thesis using issue_rows(1) [of e rtc False s] by (cases "issueRotatedTokens e rtc False s") auto
next
  case (Refresh tok)
  show ?thesis
  proof (cases "parseValidRefreshToken e tok s")
    case (Inr rtc)
    with Refresh show ?thesis using issue_rows(1) [of e rtc False s]
      by (cases "issueRotatedTokens e rtc False s") (auto simp: RefreshAccessToken_def)
  qed (use Refresh in \<open>simp add: RefreshAccessToken_def rows_same\<close>)
qed (simp add: rows_kept_def)

lemma revoked_row_exec:
  "\<exists>row. refresh_rows s j = Some row \<and> rt_Revoked row \<Longrightarrow>
   \<exists>row. refresh_rows (token_exec ops s) j = Some row \<and> rt_Revoked row"
proof (induction ops s rule: token_exec.induct)
  case (2 op e ops s)
  with token_exec1_kept [of s op e] show ?case by (force simp: rows_kept_def)
qed simp

lemma parse_rejects_revoked:
  "refresh_rows s (cl_Id cl) = Some row \<Longrightarrow> rt_Revoked row \<Longrightarrow> ValidateJWT e tok = Inr cl \<Longrightarrow>
   \<exists>err. parseValidRefreshToken e tok s = Inl err"
  by (auto simp: parseValidRefreshToken_def)

text \<open>
  C6. One after the other, a refresh token works once: after a refresh that succeeded,
  every later use of a token with the same identifier is refused, whatever logins,
  refreshes, late issues and session changes happen in between.
\<close>

theorem refresh_token_single_use:
  assumes "RefreshAccessToken e tok s = (Inr issued, s')"
    and "ValidateJWT e tok = Inr cl" and "ValidateJWT e' tok' = Inr cl'" and "cl_Id cl' = cl_Id cl"
  shows "\<exists>err. RefreshAccessToken e' tok' (token_exec ops s') = (Inl err, token_exec ops s')"
proof -
  obtain rtc where p: "parseValidRefreshToken e tok s = Inr rtc"
    and i: "issueRotatedTokens e rtc False s = (Inr issued, s')"
    using assms(1) by (auto simp: RefreshAccessToken_def split: sum.splits)
  from parse_row [OF p] assms(2) obtain row where row: "refresh_rows s (rc_Jti rtc) = Some row"
    and j: "rc_Jti rtc = cl_Id cl" by auto
  from issue_rows(2) [OF i refl row] j assms(4)
  have "\<exists>row. refresh_rows s' (cl_Id cl') = Some row \<and> rt_Revoked row" by simp
  from revoked_row_exec [OF this, of ops] parse_rejects_revoked [OF _ _ assms(3)]
  obtain err where "parseValidRefreshToken e' tok' (token_exec ops s') = Inl err" by blast
  then show ?thesis by (simp add: RefreshAccessToken_def)
qed

section \<open>A concrete run\<close>

definition demo_claims :: "string \<Rightarrow> claims" where
  "demo_claims jti = \<lparr>cl_Audience = ''pc'', cl_ExpiresAt = 604800, cl_IssuedAt = 0, cl_Issuer = ''server'',
     cl_NotBefore = 0, cl_Id = jti, cl_Subject = ''u'', cl_Sid = ''s1''\<rparr>"

text \<open>A library whose tokens are their identifiers, read back with the claims above.\<close>

definition demo_env :: "string \<Rightarrow> string \<Rightarrow> token_env" where
  "demo_env accessJti refreshJti = \<lparr>t_now = 0, t_sign = (\<lambda>_ cl. Some (cl_Id cl)),
     t_parse = (\<lambda>_ _ tok. (demo_claims tok, None, True)), t_cfg = None, t_fails = (\<lambda>_. False),
     t_users = quiet_env, t_newSid = ''s1'', t_accessJti = accessJti, t_refreshJti = refreshJti,
     t_device = Some ''d'', t_clientIP = ''10.0.0.1'', t_userAgent = ''ua'',
     t_cluster = Some \<lparr>ca_Quic = [''q''], ca_HTTP = [''h''], ca_OSS = [''o'']\<rparr>,
     t_clusterBestEffort = \<lparr>ca_Quic = [], ca_HTTP = [], ca_OSS = []\<rparr>\<rparr>"

definition demo_accounts :: token_store where
  "demo_accounts = \<lparr>refresh_rows = Map.empty, accounts = [''u'' \<mapsto> \<lparr>a_Uid = ''u'', a_Username = ''u'',
     a_DbKeySeed = ''seed'', a_DbKeyIterations = 1000\<rparr>], users = empty_users\<rparr>"

definition demo_login :: token_store where
  "demo_login = snd (generateTokenInternal (demo_env ''a1'' ''r1'') ''u'' True demo_accounts)"

theorem rotation_never_extends_witness:
  "(''u'', 604800000) \<in> {(''u'', 604800000 :: int)} \<and>
   refresh_rows demo_login ''r1'' = Some \<lparr>rt_Uid = ''u'', rt_ExpiresAt = 604800000, rt_Revoked = False\<rparr>"
proof -
  let ?row = "\<lparr>rt_Uid = ''u'', rt_ExpiresAt = 604800000, rt_Revoked = False\<rparr>"
  have grant: "UnixMilli (t_now (demo_env ''a1'' ''r1'') + RefreshTokenExpire (t_cfg (demo_env ''a1'' ''r1''))) = 604800000"
    by code_simp
  have "token_reachable (demo_accounts, [], {})"
    by (rule token_reachable.start) (auto simp: demo_accounts_def split: if_splits)
  moreover have "token_step (demo_accounts, [], {}) (demo_login, [], {(''u'', 604800000)})"
    using token_step.login [where e = "demo_env ''a1'' ''r1''" and uid = "''u''" and req = True
        and s = demo_accounts and P = "[]" and G = "{}", OF surjective_pairing] grant
    by (simp add: demo_login_def)
  ultimately have r: "token_reachable (demo_login, [], {(''u'', 604800000)})" by (rule token_reachable.step)
  have row: "refresh_rows demo_login ''r1'' = Some ?row" by code_simp
  from rotation_never_extends [OF r row] row show ?thesis by simp
qed

theorem refresh_token_single_use_witness:
  "\<exists>err. fst (RefreshAccessToken (demo_env ''a3'' ''r3'') ''r1''
     (snd (RefreshAccessToken (demo_env ''a2'' ''r2'') ''r1'' demo_login))) = Inl err"
proof -
  have 1: "fst (RefreshAccessToken (demo_env ''a2'' ''r2'') ''r1'' demo_login)
      = Inr (''a2'', ''r2'', \<lparr>ca_Quic = [], ca_HTTP = [], ca_OSS = []\<rparr>)"
    by code_simp
  have 2: "ValidateJWT (demo_env a r) ''r1'' = Inr (demo_claims ''r1'')" for a r
    by (simp add: ValidateJWT_def demo_env_def)
  obtain x s' where e: "RefreshAccessToken (demo_env ''a2'' ''r2'') ''r1'' demo_login = (x, s')" by fastforce
  with 1 have "x = Inr (''a2'', ''r2'', \<lparr>ca_Quic = [], ca_HTTP = [], ca_OSS = []\<rparr>)" by simp
  with refresh_token_single_use [OF _ 2 2 refl, of "''a2''" "''r2''" demo_login _ s' "''a3''" "''r3''" "[]"] e
  show ?thesis by auto
qed

definition live_session :: "refresh_claims \<Rightarrow> token_store \<Rightarrow> bool" where
  "live_session rtc s \<longleftrightarrow> cl_Sid (rc_Claims rtc) \<noteq> [] \<and>
     (\<exists>r. sessions (users s) (cl_Sid (rc_Claims rtc)) = Some r \<and> s_Uid r = rc_Uid rtc \<and>
        s_IsActive r \<and> \<not> s_IsExpired r \<and> s_ExpiresAt r = 0)"

definition no_faults :: "token_env \<Rightarrow> bool" where
  "no_faults e \<longleftrightarrow> (\<forall>c. \<not> t_fails e c) \<and> (\<forall>c. \<not> u_fails (t_users e) c) \<and> (\<forall>k cl. t_sign e k cl \<noteq> None)"

lemma generateJWT_ok: "no_faults e \<Longrightarrow> \<exists>t. generateJWT e data = Inr t"
  by (auto simp: no_faults_def generateJWT_def Let_def split: option.splits)

lemma resolve_live:
  assumes "no_faults e" and "live_session rtc s"
  shows "\<exists>s1. resolveSessionForRefresh e (rc_Uid rtc) (rc_Claims rtc) s = (Inr (cl_Sid (rc_Claims rtc)), s1)
    \<and> live_session rtc s1 \<and> refresh_rows s1 = refresh_rows s"
  using assms
  by (auto simp: resolveSessionForRefresh_def live_session_def no_faults_def
      ValidateActiveUserSession_def GetUserSessionBySid_def TouchUserSessionActivity_def)

lemma issue_live:
  assumes "no_faults e" and "live_session rtc s" and "refresh_rows s (t_refreshJti e) = None"
  shows "\<exists>i s'. issueRotatedTokens e rtc False s = (Inr i, s') \<and> live_session rtc s' \<and>
    refresh_rows s' = (refresh_rows (revoke_where (\<lambda>j r. j = rc_Jti rtc \<and> \<not> rt_Revoked r) s))
      (t_refreshJti e \<mapsto> \<lparr>rt_Uid = rc_Uid rtc, rt_ExpiresAt = rc_ExpiresAt rtc, rt_Revoked = False\<rparr>)"
proof -
  obtain s1 where s1: "resolveSessionForRefresh e (rc_Uid rtc) (rc_Claims rtc) s = (Inr (cl_Sid (rc_Claims rtc)), s1)"
    "live_session rtc s1" "refresh_rows s1 = refresh_rows s" using resolve_live [OF assms(1,2)] by blast
  from generateJWT_ok [OF assms(1)] obtain tok where tok: "\<And>data. generateJWT e data = Inr (tok data)" by metis
  from assms(2) have "cl_Sid (rc_Claims rtc) \<noteq> []" by (simp add: live_session_def)
  with s1 tok assms(1,3) show ?thesis
    by (auto simp: issueRotatedTokens_def cluster_ready_def CreateAccessToken_def
        CreateRefreshTokenWithExpiresAt_def Let_def store_refresh_def no_faults_def revoke_where_def
        live_session_def)
qed

text \<open>
  Two refreshes of one token that both pass the check before either has issued both
  succeed, and leave two usable tokens: the revocation does not look whether it revoked
  anything.
\<close>

theorem concurrent_refresh_doubles_token:
  assumes "no_faults e1" and "no_faults e2" and "parseValidRefreshToken e0 tok s = Inr rtc"
    and "t_refreshJti e1 \<noteq> t_refreshJti e2"
    and "refresh_rows s (t_refreshJti e1) = None" and "refresh_rows s (t_refreshJti e2) = None"
    and "live_session rtc s"
  shows "\<exists>i1 i2 s1 s2. issueRotatedTokens e1 rtc False s = (Inr i1, s1) \<and>
      issueRotatedTokens e2 rtc False s1 = (Inr i2, s2) \<and>
      (\<forall>j \<in> {t_refreshJti e1, t_refreshJti e2}. refresh_rows s2 j =
         Some \<lparr>rt_Uid = rc_Uid rtc, rt_ExpiresAt = rc_ExpiresAt rtc, rt_Revoked = False\<rparr>)"
proof -
  from issue_live [OF assms(1,7,5)] obtain i1 s1 where
    1: "issueRotatedTokens e1 rtc False s = (Inr i1, s1)" "live_session rtc s1"
       "refresh_rows s1 = (refresh_rows (revoke_where (\<lambda>j r. j = rc_Jti rtc \<and> \<not> rt_Revoked r) s))
          (t_refreshJti e1 \<mapsto> \<lparr>rt_Uid = rc_Uid rtc, rt_ExpiresAt = rc_ExpiresAt rtc, rt_Revoked = False\<rparr>)"
    by blast
  have "refresh_rows s1 (t_refreshJti e2) = None"
    using 1(3) assms(4,6) by (simp add: revoke_where_def)
  from issue_live [OF assms(2) 1(2) this] obtain i2 s2 where
    2: "issueRotatedTokens e2 rtc False s1 = (Inr i2, s2)"
       "refresh_rows s2 = (refresh_rows (revoke_where (\<lambda>j r. j = rc_Jti rtc \<and> \<not> rt_Revoked r) s1))
          (t_refreshJti e2 \<mapsto> \<lparr>rt_Uid = rc_Uid rtc, rt_ExpiresAt = rc_ExpiresAt rtc, rt_Revoked = False\<rparr>)"
    by blast
  have "rc_Jti rtc \<noteq> t_refreshJti e1"
    using parse_row [OF assms(3)] assms(5) by auto
  then have "\<forall>j \<in> {t_refreshJti e1, t_refreshJti e2}. refresh_rows s2 j =
      Some \<lparr>rt_Uid = rc_Uid rtc, rt_ExpiresAt = rc_ExpiresAt rtc, rt_Revoked = False\<rparr>"
    using 1(3) 2(2) assms(4) by (simp add: revoke_where_def)
  with 1(1) 2(1) show ?thesis by blast
qed

theorem concurrent_refresh_doubles_token_witness:
  "\<exists>i1 i2 s1 s2. \<exists>rtc. parseValidRefreshToken (demo_env ''a0'' ''r0'') ''r1'' demo_login = Inr rtc \<and>
     issueRotatedTokens (demo_env ''a2'' ''r2'') rtc False demo_login = (Inr i1, s1) \<and>
     issueRotatedTokens (demo_env ''a3'' ''r3'') rtc False s1 = (Inr i2, s2)"
proof -
  let ?rtc = "\<lparr>rc_Uid = ''u'', rc_Claims = demo_claims ''r1'', rc_Jti = ''r1'', rc_ExpiresAt = 604800000\<rparr>"
  have p: "parseValidRefreshToken (demo_env ''a0'' ''r0'') ''r1'' demo_login = Inr ?rtc" by code_simp
  have ok: "no_faults (demo_env a r)" for a r
    by (simp add: no_faults_def demo_env_def quiet_env_def)
  have fresh: "refresh_rows demo_login ''r2'' = None" "refresh_rows demo_login ''r3'' = None" by code_simp+
  have jti: "t_refreshJti (demo_env ''a2'' ''r2'') = ''r2''" "t_refreshJti (demo_env ''a3'' ''r3'') = ''r3''"
    by (simp_all add: demo_env_def)
  have "map_option (\<lambda>r. (s_Uid r, s_IsActive r, s_IsExpired r, s_ExpiresAt r))
      (sessions (users demo_login) ''s1'') = Some (''u'', True, False, 0)" by code_simp
  then have "live_session ?rtc demo_login" by (auto simp: live_session_def demo_claims_def)
  from concurrent_refresh_doubles_token [OF ok ok p _ _ _ this, of "''a2''" "''r2''" "''a3''" "''r3''"]
    fresh jti p show ?thesis by (simp add: jti) blast
qed

section \<open>Access\<close>

datatype http_outcome =
    PanicSliceBounds | Unauthorized string | PreconditionFailed | ServiceUnavailable | TokenExpires
  | Next uid sid

text \<open>
  The HTTP guard. The header drops its first seven bytes, \<open>Bearer\<close> and a blank, with
  \<open>token[7:]\<close>, which panics on a shorter header.
\<close>

definition Authorization :: "token_env \<Rightarrow> string \<Rightarrow> token_store \<Rightarrow> http_outcome" where
  "Authorization e header s =
     (if header = [] then Unauthorized ''missing''
      else if length header < 7 then PanicSliceBounds
      else
        (case ValidateJWT e (drop 7 header) of
           Inl (JWTExpiresError _) \<Rightarrow> PreconditionFailed
         | Inl _ \<Rightarrow> Unauthorized ''unparsable''
         | Inr cl \<Rightarrow>
             if cl_Sid cl = [] then Unauthorized ''no session''
             else (case ValidateActiveUserSession (t_users e) (cl_Subject cl) (cl_Sid cl) (users s) of
                Inl _ \<Rightarrow> ServiceUnavailable
              | Inr ok \<Rightarrow>
                  if \<not> ok then Unauthorized ''invalid session''
                  else if t_fails e FindAccount then TokenExpires
                  else (case accounts s (cl_Subject cl) of
                     None \<Rightarrow> TokenExpires
                   | Some u \<Rightarrow> Next (a_Uid u) (cl_Sid cl)))))"

section \<open>Authenticating a connection\<close>

datatype connect_error =
    StreamFailed stream_error | WrongStreamType | ReadFailed io_error | WriteFailedErr io_error
  | KeyFailure | TokenRejected jwt_error | NoSession | SessionServiceDown | SessionRevoked | NoUser
  | MarshalFailure

definition getUserAndSidByConnectToken ::
  "token_env \<Rightarrow> string \<Rightarrow> token_store \<Rightarrow> connect_error + account \<times> sid \<times> claims" where
  "getUserAndSidByConnectToken e tok s =
     (case ValidateJWT e tok of
        Inl err \<Rightarrow> Inl (TokenRejected err)
      | Inr cl \<Rightarrow>
          if cl_Sid cl = [] then Inl NoSession
          else (case ValidateActiveUserSession (t_users e) (cl_Subject cl) (cl_Sid cl) (users s) of
             Inl _ \<Rightarrow> Inl SessionServiceDown
           | Inr ok \<Rightarrow>
               if \<not> ok then Inl SessionRevoked
               else (case (if t_fails e FindAccount then None else accounts s (cl_Subject cl)) of
                  None \<Rightarrow> Inl NoUser
                | Some u \<Rightarrow> if a_Uid u = [] then Inl NoUser else Inr (u, cl_Sid cl, cl))))"

text \<open>
  Key agreement as the code uses it: the server's fresh key (\<open>None\<close> where generation
  fails), whether a client key is accepted and the secret shared with it, and the
  32 bytes HKDF derives from the secret. \<open>AuthBootstrapPayload\<close> is what the server
  marshals for the client.
\<close>

record crypto =
  c_server_pub :: "byte list option"
  c_accepts :: "byte list \<Rightarrow> bool"
  c_shared :: "byte list \<Rightarrow> byte list option"
  c_hkdf :: "byte list \<Rightarrow> byte list option"

record bootstrap =
  b_Version :: int
  b_DbKeySeed :: string
  b_DbKeyIterations :: int
  b_CurrentUser :: "uid \<times> user_status option"
  b_HeartbeatIntervalMs :: int
  b_HeartbeatTimeoutMs :: int
  b_TokenMinRemainingSeconds :: int
  b_TokenRefreshAheadSeconds :: int
  b_TokenTtlSafetySeconds :: int

definition HeartbeatTimeout :: time where "HeartbeatTimeout = 14 * Second"
definition HeartbeatCheckInterval :: time where "HeartbeatCheckInterval = 5 * Second"

definition clamp :: "time \<Rightarrow> time \<Rightarrow> time \<Rightarrow> time" where
  "clamp lo hi v = (if v < lo then lo else if v > hi then hi else v)"

definition TokenMinRemaining :: "jwt_config option \<Rightarrow> time" where
  "TokenMinRemaining cfg = (let ttl = AccessTokenExpire cfg in
     if ttl \<le> 0 then Second else clamp Second (30 * Second) (ttl div 5))"

definition TokenRefreshNoticeAhead :: "jwt_config option \<Rightarrow> time" where
  "TokenRefreshNoticeAhead cfg = (let ttl = AccessTokenExpire cfg in
     if ttl \<le> 0 then 2 * Second else clamp (2 * Second) (5 * Minute) (ttl div 2))"

definition TokenTtlSafety :: "jwt_config option \<Rightarrow> time" where
  "TokenTtlSafety cfg = (let ttl = AccessTokenExpire cfg in
     if ttl \<le> 0 then Second else clamp Second (5 * Second) (ttl div 10))"

definition BuildLoginUserWithStatus ::
  "user_env \<Rightarrow> account \<Rightarrow> user_store \<Rightarrow> (uid \<times> user_status option) \<times> user_store" where
  "BuildLoginUserWithStatus e u s =
     (case GetOrCreateUserCurrentStatus e (a_Uid u) s of
        (Inl _, s') \<Rightarrow> ((a_Uid u, None), s')
      | (Inr st, s') \<Rightarrow> ((a_Uid u, Some st), s'))"

record auth_result =
  ar_User :: account
  ar_Sid :: sid
  ar_DeviceInfo :: device_info
  ar_SessionKey :: "byte list"
  ar_AccessClaims :: claims

definition desktop_device :: device_info where
  "desktop_device = \<lparr>di_Platform = ''desktop'', di_DeviceType = ''desktop'', di_DeviceModel = ''Unknown'',
     di_OSVersion = ''Unknown'', di_AppVersion = ''1.0.0'', di_Timezone = ''Asia/Shanghai'', di_ISP = []\<rparr>"

definition string_of_bytes :: "byte list \<Rightarrow> string" where
  "string_of_bytes bs = map (\<lambda>b. char_of (unat b)) bs"

fun WriteAll :: "byte list list \<Rightarrow> io \<Rightarrow> (io_error + unit) \<times> io" where
  "WriteAll [] s = (Inr (), s)"
| "WriteAll (b # bs) s = (case Write b s of (Inl e, s') \<Rightarrow> (Inl e, s') | (Inr _, s') \<Rightarrow> WriteAll bs s')"

definition session_key :: "crypto \<Rightarrow> byte list \<Rightarrow> (byte list \<times> byte list) option" where
  "session_key c clientPub =
     (case c_server_pub c of None \<Rightarrow> None
      | Some pub \<Rightarrow> if \<not> c_accepts c clientPub then None
          else (case c_shared c clientPub of None \<Rightarrow> None
            | Some secret \<Rightarrow> (case c_hkdf c secret of None \<Rightarrow> None | Some k \<Rightarrow> Some (pub, k))))"

definition make_bootstrap :: "token_env \<Rightarrow> account \<Rightarrow> uid \<times> user_status option \<Rightarrow> bootstrap" where
  "make_bootstrap e u cur = \<lparr>b_Version = 1, b_DbKeySeed = a_DbKeySeed u,
     b_DbKeyIterations = a_DbKeyIterations u, b_CurrentUser = cur,
     b_HeartbeatIntervalMs = HeartbeatCheckInterval div 1000000,
     b_HeartbeatTimeoutMs = HeartbeatTimeout div 1000000,
     b_TokenMinRemainingSeconds = TokenMinRemaining (t_cfg e) div Second,
     b_TokenRefreshAheadSeconds = TokenRefreshNoticeAhead (t_cfg e) div Second,
     b_TokenTtlSafetySeconds = TokenTtlSafety (t_cfg e) div Second\<rparr>"

text \<open>After the token, the checks and the answer, in the order of the code.\<close>

definition finish_auth ::
  "token_env \<Rightarrow> (bootstrap \<Rightarrow> byte list option) \<Rightarrow> string \<Rightarrow> byte list \<times> byte list \<Rightarrow> token_store \<Rightarrow> io
   \<Rightarrow> (connect_error + auth_result) \<times> token_store \<times> io" where
  "finish_auth e marshal tok keys s st =
     (case getUserAndSidByConnectToken e tok s of
        Inl err \<Rightarrow> (Inl err, s, st)
      | Inr (user, sid, cl) \<Rightarrow>
          (case BuildLoginUserWithStatus (t_users e) user (users s) of (cur, us) \<Rightarrow>
             let s' = s\<lparr>users := us\<rparr> in
             (case marshal (make_bootstrap e user cur) of
                None \<Rightarrow> (Inl MarshalFailure, s', st)
              | Some payload \<Rightarrow>
                  (case WriteAll [bytes_of_string ''success'', PutUint32 (of_nat (length payload)),
                          payload, fst keys] st of
                     (Inl err, st') \<Rightarrow> (Inl (WriteFailedErr err), s', st')
                   | (Inr _, st') \<Rightarrow>
                       (Inr \<lparr>ar_User = user, ar_Sid = sid, ar_DeviceInfo = desktop_device,
                             ar_SessionKey = snd keys, ar_AccessClaims = cl\<rparr>, s', st')))))"

definition Authenticate ::
  "token_env \<Rightarrow> crypto \<Rightarrow> (bootstrap \<Rightarrow> byte list option) \<Rightarrow> token_store \<Rightarrow> io
   \<Rightarrow> (connect_error + auth_result) \<times> token_store \<times> io" where
  "Authenticate e c marshal s st =
     (case GetStreamType st of
        (Inl err, st1) \<Rightarrow> (Inl (StreamFailed err), s, st1)
      | (Inr streamType, st1) \<Rightarrow>
          if streamType \<noteq> StreamTypeAuth then (Inl WrongStreamType, s, st1)
          else (case ReadFull 4 st1 of
             (Inl err, st2) \<Rightarrow> (Inl (ReadFailed err), s, st2)
           | (Inr lengthBuf, st2) \<Rightarrow>
               (case ReadFull (unat (Uint32 lengthBuf)) st2 of
                  (Inl err, st3) \<Rightarrow> (Inl (ReadFailed err), s, st3)
                | (Inr tokenBuf, st3) \<Rightarrow>
                    (case ReadFull 32 st3 of
                       (Inl err, st4) \<Rightarrow> (Inl (ReadFailed err), s, st4)
                     | (Inr clientPub, st4) \<Rightarrow>
                         (case session_key c clientPub of
                            None \<Rightarrow> (Inl KeyFailure, s, st4)
                          | Some keys \<Rightarrow>
                              finish_auth e marshal (string_of_bytes tokenBuf) keys s st4)))))"

definition ReadDeviceInfoAsync :: "(byte list \<Rightarrow> device_info option) \<Rightarrow> io \<Rightarrow> (string + device_info) \<times> io" where
  "ReadDeviceInfoAsync unmarshal s =
     (case ReadFull 4 s of
        (Inl _, s1) \<Rightarrow> (Inl ''length'', s1)
      | (Inr lengthBuf, s1) \<Rightarrow>
          (case ReadFull (unat (Uint32 lengthBuf)) s1 of
             (Inl _, s2) \<Rightarrow> (Inl ''read'', s2)
           | (Inr buf, s2) \<Rightarrow> (case unmarshal buf of None \<Rightarrow> (Inl ''parse'', s2) | Some di \<Rightarrow> (Inr di, s2))))"

lemma ReadFull_Inl: "ReadFull n s = (Inl e, s') \<Longrightarrow> out s' = out s"
  by (auto simp: ReadFull_def split: if_splits)

lemma ReadFull_Inr:
  "ReadFull n s = (Inr b, s') \<Longrightarrow> b = take n (inp s) \<and> inp s' = drop n (inp s) \<and> out s' = out s"
  by (auto simp: ReadFull_def split: if_splits)

lemma Write_Inl: "Write b s = (Inl e, s') \<Longrightarrow> s' = s"
  by (auto simp: Write_def split: if_splits)

lemma Write_Inr: "Write b s = (Inr u, s') \<Longrightarrow> out s' = out s @ b \<and> inp s' = inp s"
  by (auto simp: Write_def split: if_splits)

lemma WriteAll_Inr: "WriteAll bs s = (Inr u, s') \<Longrightarrow> out s' = out s @ concat bs"
  by (induction bs s rule: WriteAll.induct) (auto split: prod.splits sum.splits dest: Write_Inr)

lemma GetStreamType_Inl: "GetStreamType s = (Inl e, s') \<Longrightarrow> out s' = out s"
  by (auto simp: GetStreamType_def split: prod.splits sum.splits
      dest!: ReadFull_Inl ReadFull_Inr Write_Inl)

lemma GetStreamType_Inr:
  "GetStreamType s = (Inr t, s') \<Longrightarrow> out s' = out s @ bytes_of_string ''ok'' \<and> inp s' = drop 3 (inp s)"
  by (auto simp: GetStreamType_def split: prod.splits sum.splits
      dest!: ReadFull_Inr Write_Inr)

lemmas io_dests = ReadFull_Inl ReadFull_Inr Write_Inl Write_Inr GetStreamType_Inl GetStreamType_Inr

text \<open>What a token must pass, as the account it stands for.\<close>

definition verified :: "token_env \<Rightarrow> string \<Rightarrow> token_store \<Rightarrow> account \<Rightarrow> claims \<Rightarrow> bool" where
  "verified e tok s u cl \<longleftrightarrow> ValidateJWT e tok = Inr cl \<and> cl_Sid cl \<noteq> [] \<and>
     ValidateActiveUserSession (t_users e) (cl_Subject cl) (cl_Sid cl) (users s) = Inr True \<and>
     accounts s (cl_Subject cl) = Some u \<and> a_Uid u \<noteq> []"

lemma getUser_verified:
  "getUserAndSidByConnectToken e tok s = Inr (u, sid, cl) \<Longrightarrow> verified e tok s u cl \<and> sid = cl_Sid cl"
  by (auto simp: getUserAndSidByConnectToken_def verified_def split: if_splits sum.splits option.splits)

lemma finish_auth_cases:
  assumes "finish_auth e marshal tok keys s st = (r, s', st')"
  shows "out st' = out st \<or> (\<exists>u cl. verified e tok s u cl)"
    and "r = Inr a \<Longrightarrow> \<exists>cl cur payload. verified e tok s (ar_User a) cl \<and> ar_Sid a = cl_Sid cl \<and>
         ar_SessionKey a = snd keys \<and> marshal (make_bootstrap e (ar_User a) cur) = Some payload \<and>
         out st' = out st @ bytes_of_string ''success'' @ PutUint32 (of_nat (length payload)) @ payload @ fst keys"
proof -
  consider (err) err where "getUserAndSidByConnectToken e tok s = Inl err"
    | (ok) u sid cl where "getUserAndSidByConnectToken e tok s = Inr (u, sid, cl)"
    by (cases "getUserAndSidByConnectToken e tok s") auto
  then show "out st' = out st \<or> (\<exists>u cl. verified e tok s u cl)"
  proof cases
    case err
    with assms show ?thesis by (simp add: finish_auth_def)
  next
    case ok
    from getUser_verified [OF ok] show ?thesis by blast
  qed
  assume "r = Inr a"
  then show "\<exists>cl cur payload. verified e tok s (ar_User a) cl \<and> ar_Sid a = cl_Sid cl \<and>
       ar_SessionKey a = snd keys \<and> marshal (make_bootstrap e (ar_User a) cur) = Some payload \<and>
       out st' = out st @ bytes_of_string ''success'' @ PutUint32 (of_nat (length payload)) @ payload @ fst keys"
    using assms
    by (simp add: finish_auth_def Let_def split: sum.splits prod.splits option.splits del: WriteAll.simps)
      (fastforce dest!: WriteAll_Inr getUser_verified)
qed

text \<open>The token the client sent: behind the stream type and its four-byte length.\<close>

definition sent_token :: "io \<Rightarrow> string" where
  "sent_token st = (let rest = drop 3 (inp st)
     in string_of_bytes (take (unat (Uint32 (take 4 rest))) (drop 4 rest)))"

text \<open>
  C22. Before the token is verified the server writes nothing but the two bytes \<open>ok\<close>: if
  the stream carries anything more, the token that the client sent validates, names a
  session that is active for its subject and an existing account. On success the output
  is exactly \<open>ok\<close>, \<open>success\<close>, the length and bytes of the bootstrap record, and the
  server's public key, and the result carries that account and session.
\<close>

theorem authentication_discloses_only_when_verified:
  assumes "Authenticate e c marshal s st = (r, s', st')"
  shows "(out st' \<in> {out st, out st @ bytes_of_string ''ok''} \<or> (\<exists>u cl. verified e (sent_token st) s u cl)) \<and>
    (\<forall>a. r = Inr a \<longrightarrow> (\<exists>cl cur payload pub. verified e (sent_token st) s (ar_User a) cl \<and>
      ar_Sid a = cl_Sid cl \<and> c_server_pub c = Some pub \<and>
      marshal (make_bootstrap e (ar_User a) cur) = Some payload \<and>
      out st' = out st @ bytes_of_string ''ok'' @ bytes_of_string ''success'' @
        PutUint32 (of_nat (length payload)) @ payload @ pub))"
proof (intro conjI allI impI)
  have main: "out st' \<in> {out st, out st @ bytes_of_string ''ok''} \<and> (\<forall>a. r \<noteq> Inr a) \<or>
    (\<exists>keys st4. finish_auth e marshal (sent_token st) keys s st4 = (r, s', st') \<and>
       out st4 = out st @ bytes_of_string ''ok'' \<and> c_server_pub c = Some (fst keys))"
    using assms
    by (auto simp: Authenticate_def sent_token_def Let_def session_key_def
        split: sum.splits prod.splits if_splits option.splits dest!: io_dests)
  then show "out st' \<in> {out st, out st @ bytes_of_string ''ok''} \<or> (\<exists>u cl. verified e (sent_token st) s u cl)"
    using finish_auth_cases(1) by fastforce
  fix a assume "r = Inr a"
  with main obtain keys st4 where f: "finish_auth e marshal (sent_token st) keys s st4 = (r, s', st')"
    and "out st4 = out st @ bytes_of_string ''ok''" "c_server_pub c = Some (fst keys)" by blast
  with finish_auth_cases(2) [OF f \<open>r = Inr a\<close>]
  show "\<exists>cl cur payload pub. verified e (sent_token st) s (ar_User a) cl \<and>
      ar_Sid a = cl_Sid cl \<and> c_server_pub c = Some pub \<and>
      marshal (make_bootstrap e (ar_User a) cur) = Some payload \<and>
      out st' = out st @ bytes_of_string ''ok'' @ bytes_of_string ''success'' @
        PutUint32 (of_nat (length payload)) @ payload @ pub"
    by auto
qed

definition demo_crypto :: crypto where
  "demo_crypto = \<lparr>c_server_pub = Some (replicate 32 7), c_accepts = (\<lambda>_. True),
     c_shared = (\<lambda>p. Some p), c_hkdf = (\<lambda>p. Some p)\<rparr>"

definition demo_stream :: io where
  "demo_stream = \<lparr>inp = [1, 1, 1, 0, 0, 0, 2, 114, 49] @ replicate 32 3, out = [], room_left = 100\<rparr>"

theorem authentication_discloses_only_when_verified_witness:
  "\<exists>a s' st'. Authenticate (demo_env ''a9'' ''r9'') demo_crypto (\<lambda>_. Some [1, 2]) demo_login demo_stream = (Inr a, s', st') \<and>
     (\<exists>cl. verified (demo_env ''a9'' ''r9'') (sent_token demo_stream) demo_login (ar_User a) cl)"
proof -
  let ?run = "Authenticate (demo_env ''a9'' ''r9'') demo_crypto (\<lambda>_. Some [1, 2]) demo_login demo_stream"
  have "(case fst ?run of Inl _ \<Rightarrow> None | Inr a \<Rightarrow> Some (ar_Sid a)) = Some ''s1''" by code_simp
  then obtain a s' st' where run: "?run = (Inr a, s', st')" by (cases ?run) (auto split: sum.splits)
  from authentication_discloses_only_when_verified [OF run] run show ?thesis by blast
qed

text \<open>
  What the code relies on from the JWT library, between the request that signs and the
  one that parses: a token parses, without error and as valid, to the claims it was
  signed with, as long as it has not expired.
\<close>

definition jwt_library :: "token_env \<Rightarrow> token_env \<Rightarrow> bool" where
  "jwt_library e e' \<longleftrightarrow> (\<forall>key cl tok. t_sign e key cl = Some tok \<longrightarrow> Unix (t_now e') \<le> cl_ExpiresAt cl \<longrightarrow>
     t_parse e' key (t_now e') tok = (cl, None, True))"

lemma login_issues:
  assumes "generateTokenInternal e uid req s = (Inr (access, refresh, ca), s')"
  defines "cl \<equiv> \<lparr>cl_Audience = ''pc'', cl_ExpiresAt = Unix (t_now e + RefreshTokenExpire (t_cfg e)),
     cl_IssuedAt = Unix (t_now e), cl_Issuer = ''server'', cl_NotBefore = Unix (t_now e),
     cl_Id = t_refreshJti e, cl_Subject = uid, cl_Sid = t_newSid e\<rparr>"
  shows "t_newSid e \<noteq> []" and "t_sign e (JWTKey (t_cfg e)) cl = Some refresh"
    and "\<exists>sess. sessions (users s') (t_newSid e) = Some sess \<and> s_Uid sess = uid \<and>
      s_IsActive sess \<and> \<not> s_IsExpired sess \<and> s_ExpiresAt sess = 0"
  using assms
  by (auto simp: generateTokenInternal_def createHttpUserSession_def CreateUserSession_def Let_def
      CreateAccessToken_def CreateRefreshToken_def generateJWT_def store_refresh_def revoke_where_def
      split: if_splits option.splits sum.splits prod.splits)

text \<open>
  Refresh and access tokens are interchangeable where access is checked: until the
  end of the refresh period, the refresh token of a login opens the HTTP guard.
\<close>

theorem refresh_token_opens_the_guard:
  assumes "generateTokenInternal e uid req s = (Inr (access, refresh, ca), s')"
    and "jwt_library e e'" and "t_cfg e' = t_cfg e"
    and "Unix (t_now e') \<le> Unix (t_now e + RefreshTokenExpire (t_cfg e))"
    and "\<And>c. \<not> u_fails (t_users e') c" and "\<not> t_fails e' FindAccount"
    and "accounts s uid = Some u" and "a_Uid u = uid"
  shows "\<exists>sid. Authorization e' (''Bearer '' @ refresh) s' = Next uid sid"
proof -
  note l = login_issues [OF assms(1)]
  obtain sess where sess: "sessions (users s') (t_newSid e) = Some sess" "s_Uid sess = uid"
    "s_IsActive sess" "\<not> s_IsExpired sess" "s_ExpiresAt sess = 0" using l(3) by blast
  obtain cl where cl: "t_sign e (JWTKey (t_cfg e)) cl = Some refresh" "cl_Subject cl = uid"
    "cl_Sid cl = t_newSid e" "cl_ExpiresAt cl = Unix (t_now e + RefreshTokenExpire (t_cfg e))"
    using l(2) by fastforce
  with assms(2-4) have "ValidateJWT e' refresh = Inr cl"
    by (simp add: ValidateJWT_def jwt_library_def)
  moreover have "ValidateActiveUserSession (t_users e') uid (t_newSid e) (users s') = Inr True"
    using sess assms(5) by (simp add: ValidateActiveUserSession_def GetUserSessionBySid_def)
  ultimately show ?thesis
    using l(1) cl assms(6-8) generateToken_accounts [OF assms(1)] by (simp add: Authorization_def)
qed

definition demo_lib :: token_env where
  "demo_lib = (demo_env ''a1'' ''r1'')\<lparr>t_sign := (\<lambda>_ cl. if cl = demo_claims ''r1'' then Some ''r1''
     else if cl = (demo_claims ''a1'')\<lparr>cl_ExpiresAt := 7200\<rparr> then Some ''a1'' else None),
     t_parse := (\<lambda>_ _ tok. (if tok = ''r1'' then demo_claims ''r1'' else (demo_claims ''a1'')\<lparr>cl_ExpiresAt := 7200\<rparr>, None, True))\<rparr>"

theorem refresh_token_opens_the_guard_witness:
  "\<exists>refresh s' sid. refresh = ''r1'' \<and> s' = snd (generateTokenInternal demo_lib ''u'' True demo_accounts) \<and>
     Authorization demo_lib (''Bearer '' @ refresh) s' = Next ''u'' sid"
proof -
  have r: "fst (generateTokenInternal demo_lib ''u'' True demo_accounts)
      = Inr (''a1'', ''r1'', \<lparr>ca_Quic = [''q''], ca_HTTP = [''h''], ca_OSS = [''o'']\<rparr>)"
    by code_simp
  obtain x s' where run: "generateTokenInternal demo_lib ''u'' True demo_accounts = (x, s')" by fastforce
  with r have run: "generateTokenInternal demo_lib ''u'' True demo_accounts
      = (Inr (''a1'', ''r1'', \<lparr>ca_Quic = [''q''], ca_HTTP = [''h''], ca_OSS = [''o'']\<rparr>), s')" by simp
  have lib: "jwt_library demo_lib demo_lib"
    by (auto simp: jwt_library_def demo_lib_def demo_claims_def split: if_splits)
  have "Unix (t_now demo_lib) \<le> Unix (t_now demo_lib + RefreshTokenExpire (t_cfg demo_lib))" by code_simp
  from refresh_token_opens_the_guard [OF run lib refl this, of "\<lparr>a_Uid = ''u'', a_Username = ''u'',
     a_DbKeySeed = ''seed'', a_DbKeyIterations = 1000\<rparr>"] run
  show ?thesis by (simp add: demo_lib_def demo_env_def demo_accounts_def quiet_env_def)
qed

end
