(* ===== verification/Paging.thy ===== *)
theory Paging
  imports Prelude
begin

text \<open>
  Keyset paging, the contract that message history and session lists share: a listing in
  a strict order, and a query that returns the first rows after the key of the last row
  the client has seen.
\<close>

locale keyset =
  fixes beyond :: "'k \<Rightarrow> 'a \<Rightarrow> bool"
    and key :: "'a \<Rightarrow> 'k"
  assumes asym: "beyond (key x) y \<Longrightarrow> \<not> beyond (key y) x"
begin

definition listing :: "'a list \<Rightarrow> bool" where
  "listing xs \<longleftrightarrow> sorted_wrt (\<lambda>x y. beyond (key x) y) xs"

definition page :: "nat \<Rightarrow> 'k \<Rightarrow> 'a list \<Rightarrow> 'a list" where
  "page n k xs = take n (filter (beyond k) xs)"

text \<open>A client that follows the pages; \<open>fuel\<close> bounds the number of requests.\<close>

fun walk :: "nat \<Rightarrow> nat \<Rightarrow> 'k \<Rightarrow> 'a list \<Rightarrow> 'a list" where
  "walk 0 n k xs = []"
| "walk (Suc fuel) n k xs =
     (let p = page n k xs in if p = [] then [] else p @ walk fuel n (key (last p)) xs)"

lemma beyond_suffix:
  assumes "listing (us @ x # vs)"
  shows "filter (beyond (key x)) (us @ x # vs) = vs"
proof -
  from assms have after: "\<And>v. v \<in> set vs \<Longrightarrow> beyond (key x) v"
    and before: "\<And>u. u \<in> set us \<Longrightarrow> beyond (key u) x"
    by (auto simp: listing_def sorted_wrt_append)
  have "\<not> beyond (key x) x" using asym by blast
  moreover have "filter (beyond (key x)) us = []"
    using before asym by (auto simp: filter_empty_conv)
  moreover have "filter (beyond (key x)) vs = vs" using after by (simp add: filter_id_conv)
  ultimately show ?thesis by simp
qed

lemma walk_suffix:
  assumes "listing (us @ vs)" and "filter (beyond k) (us @ vs) = vs" and "0 < n" and "length vs \<le> fuel"
  shows "walk fuel n k (us @ vs) = vs"
  using assms
proof (induction fuel arbitrary: us vs k)
  case 0
  then show ?case by simp
next
  case (Suc fuel)
  show ?case
  proof (cases "vs = []")
    case True
    with Suc.prems show ?thesis by (simp add: page_def)
  next
    case False
    let ?p = "take n vs"
    from False Suc.prems(3) have "?p \<noteq> []" by simp
    then obtain ps x where px: "?p = ps @ [x]" by (meson rev_exhaust)
    have vs: "vs = (ps @ [x]) @ drop n vs" using px by (metis append_take_drop_id)
    have whole: "us @ vs = (us @ ps) @ x # drop n vs" using vs by simp
    have l: "listing ((us @ ps) @ x # drop n vs)" using Suc.prems(1) unfolding whole .
    have reassoc: "(us @ ps @ [x]) @ drop n vs = (us @ ps) @ x # drop n vs" by simp
    have "walk fuel n (key x) ((us @ ps @ [x]) @ drop n vs) = drop n vs"
    proof (rule Suc.IH)
      show "listing ((us @ ps @ [x]) @ drop n vs)" unfolding reassoc by (rule l)
      show "filter (beyond (key x)) ((us @ ps @ [x]) @ drop n vs) = drop n vs"
        unfolding reassoc by (rule beyond_suffix [OF l])
      show "0 < n" by (rule Suc.prems(3))
      show "length (drop n vs) \<le> fuel" using Suc.prems(3,4) by simp
    qed
    then have "walk fuel n (key x) (us @ vs) = drop n vs" unfolding reassoc whole .
    with Suc.prems(2) px \<open>?p \<noteq> []\<close> show ?thesis
      by (simp add: page_def Let_def) (metis append.assoc append_Cons append_Nil vs)
  qed
qed

text \<open>
  The other kind of client: the query fetches one row more than a page, reports whether
  there are further rows, and the client stops when there are none.
\<close>

definition peek :: "nat \<Rightarrow> 'k \<Rightarrow> 'a list \<Rightarrow> 'a list \<times> bool" where
  "peek n k xs = (let p = page (Suc n) k xs in (take n p, n < length p))"

fun walk_ahead :: "nat \<Rightarrow> nat \<Rightarrow> 'k \<Rightarrow> 'a list \<Rightarrow> 'a list" where
  "walk_ahead 0 n k xs = []"
| "walk_ahead (Suc fuel) n k xs =
     (case peek n k xs of (p, more) \<Rightarrow> if more then p @ walk_ahead fuel n (key (last p)) xs else p)"

lemma walk_ahead_suffix:
  assumes "listing (us @ vs)" and "filter (beyond k) (us @ vs) = vs" and "0 < n" and "length vs \<le> n * fuel"
  shows "walk_ahead fuel n k (us @ vs) = vs"
  using assms
proof (induction fuel arbitrary: us vs k)
  case 0
  then show ?case by simp
next
  case (Suc fuel)
  show ?case
  proof (cases "length vs \<le> n")
    case True
    with Suc.prems show ?thesis by (simp add: peek_def page_def)
  next
    case False
    let ?p = "take n vs"
    from False Suc.prems(3) have "?p \<noteq> []" by auto
    then obtain ps x where px: "?p = ps @ [x]" by (meson rev_exhaust)
    have vs: "vs = (ps @ [x]) @ drop n vs" using px by (metis append_take_drop_id)
    have whole: "us @ vs = (us @ ps) @ x # drop n vs" using vs by simp
    have l: "listing ((us @ ps) @ x # drop n vs)" using Suc.prems(1) unfolding whole .
    have reassoc: "(us @ ps @ [x]) @ drop n vs = (us @ ps) @ x # drop n vs" by simp
    have "walk_ahead fuel n (key x) ((us @ ps @ [x]) @ drop n vs) = drop n vs"
    proof (rule Suc.IH)
      show "listing ((us @ ps @ [x]) @ drop n vs)" unfolding reassoc by (rule l)
      show "filter (beyond (key x)) ((us @ ps @ [x]) @ drop n vs) = drop n vs"
        unfolding reassoc by (rule beyond_suffix [OF l])
      show "0 < n" by (rule Suc.prems(3))
      show "length (drop n vs) \<le> n * fuel" using Suc.prems(4) by simp
    qed
    then have rest: "walk_ahead fuel n (key (last ?p)) (us @ vs) = drop n vs" unfolding px reassoc whole by simp
    have "peek n k (us @ vs) = (?p, True)"
      using False Suc.prems(2) by (simp add: peek_def page_def Let_def)
    with rest show ?thesis by simp
  qed
qed

text \<open>Following the pages from a key reads every row after it, once, in order.\<close>

lemma walk_all:
  assumes "listing xs" and "\<And>us x vs. xs = us @ x # vs \<Longrightarrow> beyond k x \<Longrightarrow> \<forall>v \<in> set vs. beyond k v"
    and "0 < n" and "length xs \<le> fuel"
  shows "walk fuel n k xs = filter (beyond k) xs"
proof -
  let ?us = "takeWhile (\<lambda>x. \<not> beyond k x) xs" and ?vs = "dropWhile (\<lambda>x. \<not> beyond k x) xs"
  have split: "xs = ?us @ ?vs" by simp
  have "filter (beyond k) ?us = []" by (auto simp: filter_empty_conv dest: set_takeWhileD)
  moreover have "filter (beyond k) ?vs = ?vs"
  proof (cases ?vs)
    case Nil
    then show ?thesis unfolding Nil by simp
  next
    case (Cons x vs)
    then have "beyond k x" by (metis dropWhile_eq_Cons_conv)
    moreover have "xs = ?us @ x # vs" using Cons split by simp
    ultimately show ?thesis unfolding Cons using assms(2) by (simp add: filter_id_conv)
  qed
  ultimately have f: "filter (beyond k) xs = ?vs" by (metis append_Nil filter_append split)
  moreover have "length ?vs \<le> fuel" using assms(4) length_dropWhile_le [of "\<lambda>x. \<not> beyond k x" xs] by linarith
  ultimately have "walk fuel n k (?us @ ?vs) = ?vs"
    using assms(1,3) by (intro walk_suffix) simp_all
  with f show ?thesis by simp
qed

end

end
