(* ===== verification/Messages.thy ===== *)
theory Messages
  imports Paging
begin

text \<open>
  The message tables and the queries over them (\<open>db/query/room_message.go\<close>,
  \<open>room_message_mention.go\<close>), the two kinds of blocking (\<open>room_block.go\<close>,
  \<open>room_user_block_user.go\<close>) and the allocation of sequence numbers
  (\<open>db/query/room.go\<close>). A table is the list of its rows in insertion order; the unique
  indexes are checked where rows are inserted. The join with upload files, which only
  decorates contents, is left out.
\<close>

section \<open>Rows\<close>

record content =
  ct_Type :: string
  ct_TypeId :: string
  ct_Content :: string
  ct_Mid :: mid
  ct_ClientCid :: string
  ct_Cid :: string
  ct_CreateTime :: time
  ct_DeleteTime :: time

record room_message =
  rm_Rid :: rid
  rm_SeqId :: int
  rm_Mid :: mid
  rm_ClientMid :: string
  rm_SenderUid :: uid
  rm_State :: int
  rm_IP :: string
  rm_WithdrawTime :: time
  rm_CreateTime :: time
  rm_DeleteTime :: time
  rm_ClientCreateTime :: time

record message_ack =
  ack_State :: int
  ack_ConfirmedTime :: time
  ack_LastTryTime :: time
  ack_RetryCount :: int
  ack_Rid :: rid
  ack_SeqId :: int
  ack_Uid :: uid
  ack_Mid :: mid
  ack_IsOffline :: bool
  ack_DeleteTime :: time

record mention =
  mn_Rid :: rid
  mn_Mid :: mid
  mn_SeqId :: int
  mn_Uid :: uid
  mn_SenderUid :: uid
  mn_IsAtAll :: bool
  mn_IsRead :: bool
  mn_ReadAt :: time
  mn_DeleteTime :: time

record room_block =
  rb_Uid :: uid
  rb_Rid :: rid
  rb_CreateTime :: time
  rb_DeleteTime :: time

record user_block =
  ub_Uid :: uid
  ub_Rid :: rid
  ub_TargetUid :: uid
  ub_CreateTime :: time
  ub_DeleteTime :: time

record message_db =
  messages :: "room_message list"
  contents :: "content list"
  acks :: "message_ack list"
  withdraw_acks :: "message_ack list"
  mentions :: "mention list"
  room_blocks :: "room_block list"
  user_blocks :: "user_block list"

text \<open>What a client is sent: a message with its contents.\<close>

record server_room_message =
  sm_SeqId :: int
  sm_Mid :: mid
  sm_Rid :: rid
  sm_SenderUid :: uid
  sm_ClientMid :: string
  sm_CreateTime :: time
  sm_Contents :: "content list"

definition empty_db :: message_db where
  "empty_db = \<lparr>messages = [], contents = [], acks = [], withdraw_acks = [], mentions = [],
     room_blocks = [], user_blocks = []\<rparr>"

section \<open>Reading messages\<close>

definition open_message :: "room_message \<Rightarrow> bool" where
  "open_message m \<longleftrightarrow> rm_State m = 1 \<and> rm_DeleteTime m = 0 \<and> rm_WithdrawTime m = 0"

definition contents_of :: "mid \<Rightarrow> message_db \<Rightarrow> content list" where
  "contents_of mid db = filter (\<lambda>c. ct_Mid c = mid \<and> ct_DeleteTime c = 0) (contents db)"

definition server_message :: "message_db \<Rightarrow> room_message \<Rightarrow> server_room_message" where
  "server_message db m = \<lparr>sm_SeqId = rm_SeqId m, sm_Mid = rm_Mid m, sm_Rid = rm_Rid m,
     sm_SenderUid = rm_SenderUid m, sm_ClientMid = rm_ClientMid m, sm_CreateTime = rm_CreateTime m,
     sm_Contents = contents_of (rm_Mid m) db\<rparr>"

definition GetDBRoomMessageByMid :: "mid \<Rightarrow> message_db \<Rightarrow> room_message option" where
  "GetDBRoomMessageByMid mid db = find (\<lambda>m. rm_Mid m = mid) (messages db)"

definition GetRoomMessageByMid :: "mid \<Rightarrow> message_db \<Rightarrow> server_room_message option" where
  "GetRoomMessageByMid mid db =
     map_option (server_message db) (find (\<lambda>m. rm_Mid m = mid \<and> open_message m) (messages db))"

definition GetRoomMessageByMidIncludeWithdraw :: "mid \<Rightarrow> message_db \<Rightarrow> server_room_message option" where
  "GetRoomMessageByMidIncludeWithdraw mid db =
     map_option (server_message db)
       (find (\<lambda>m. rm_Mid m = mid \<and> rm_State m = 1 \<and> rm_DeleteTime m = 0) (messages db))"

definition GetRoomMessageByRidSeqId :: "rid \<Rightarrow> int \<Rightarrow> message_db \<Rightarrow> room_message option" where
  "GetRoomMessageByRidSeqId rid seqId db = find (\<lambda>m. rm_Rid m = rid \<and> rm_SeqId m = seqId) (messages db)"

definition seq_desc :: "room_message list \<Rightarrow> room_message list" where
  "seq_desc ms = sort_key (\<lambda>m. - rm_SeqId m) ms"

definition room_rows :: "rid \<Rightarrow> message_db \<Rightarrow> room_message list" where
  "room_rows rid db = filter (\<lambda>m. rm_Rid m = rid \<and> open_message m) (messages db)"

definition GetRoomMessageList :: "rid \<Rightarrow> int \<Rightarrow> nat \<Rightarrow> nat \<Rightarrow> string \<Rightarrow> message_db \<Rightarrow> server_room_message list" where
  "GetRoomMessageList rid seqId limit offset direction db =
     map (server_message db) (take limit (drop offset (seq_desc (filter
       (\<lambda>m. if direction = ''backward'' then rm_SeqId m < seqId else rm_SeqId m > seqId)
       (room_rows rid db)))))"

definition HasMoreRoomMessages :: "rid \<Rightarrow> int \<Rightarrow> string \<Rightarrow> message_db \<Rightarrow> bool" where
  "HasMoreRoomMessages rid seqId direction db \<longleftrightarrow>
     0 < length (filter (\<lambda>m. if direction = ''backward'' then rm_SeqId m < seqId else rm_SeqId m > seqId)
       (room_rows rid db))"

definition GetUnreadRoomMessagesByAck :: "uid \<Rightarrow> nat \<Rightarrow> message_db \<Rightarrow> server_room_message list" where
  "GetUnreadRoomMessagesByAck uid limit db =
     map (server_message db) (take limit (seq_desc (filter (\<lambda>m. open_message m \<and>
        (\<exists>a \<in> set (acks db). ack_Mid a = rm_Mid m \<and> ack_Uid a = uid \<and> ack_State a = 0 \<and> ack_DeleteTime a = 0))
       (messages db))))"

definition GetUnreadRoomMessagesWithdrawByAck :: "uid \<Rightarrow> nat \<Rightarrow> message_db \<Rightarrow> server_room_message list" where
  "GetUnreadRoomMessagesWithdrawByAck uid limit db =
     map (server_message db) (take limit (seq_desc (filter (\<lambda>m. rm_State m = 1 \<and> rm_DeleteTime m = 0 \<and>
        (\<exists>a \<in> set (withdraw_acks db). ack_Mid a = rm_Mid m \<and> ack_Uid a = uid \<and> ack_State a = 0 \<and> ack_DeleteTime a = 0))
       (messages db))))"

definition GetRoomMessageContentByMidAndCid :: "mid \<Rightarrow> string \<Rightarrow> message_db \<Rightarrow> content option" where
  "GetRoomMessageContentByMidAndCid mid cid db =
     (if \<exists>m \<in> set (messages db). rm_Mid m = mid \<and> open_message m
      then find (\<lambda>c. ct_Mid c = mid \<and> ct_Cid c = cid \<and> ct_DeleteTime c = 0) (contents db)
      else None)"

section \<open>Reading history page by page\<close>

interpretation history: keyset "\<lambda>k m. rm_SeqId m < k" rm_SeqId
  by unfold_locales simp

text \<open>The unique index on room and sequence number.\<close>

definition seq_unique :: "message_db \<Rightarrow> bool" where
  "seq_unique db \<longleftrightarrow> distinct (map (\<lambda>m. (rm_Rid m, rm_SeqId m)) (messages db))"

lemma distinct_room_seqs:
  assumes "seq_unique db"
  shows "distinct (map rm_SeqId (room_rows rid db))"
proof -
  have "distinct (map (\<lambda>m. (rm_Rid m, rm_SeqId m)) (room_rows rid db))"
    using assms by (simp add: seq_unique_def room_rows_def distinct_map inj_on_def)
  then show ?thesis by (auto simp: distinct_map inj_on_def room_rows_def)
qed

lemma seq_desc_sorted:
  assumes "distinct (map rm_SeqId ms)"
  shows "sorted_wrt (\<lambda>x y. rm_SeqId y < rm_SeqId x) (seq_desc ms)"
proof -
  have "sorted (map (\<lambda>m. - rm_SeqId m) (seq_desc ms))" by (simp add: seq_desc_def)
  moreover have "distinct (map (\<lambda>m. - rm_SeqId m) (seq_desc ms))"
    using assms by (auto simp: seq_desc_def distinct_map inj_on_def)
  ultimately have "sorted_wrt (<) (map (\<lambda>m. - rm_SeqId m) (seq_desc ms))"
    by (simp add: strict_sorted_iff)
  then show ?thesis by (simp add: sorted_wrt_map)
qed

lemma seq_desc_filter: "seq_desc (filter P ms) = filter P (seq_desc ms)"
  by (simp add: seq_desc_def filter_sort)

text \<open>The client that scrolls back: the next request starts at the last message shown.\<close>

fun scroll_back :: "nat \<Rightarrow> nat \<Rightarrow> int \<Rightarrow> rid \<Rightarrow> message_db \<Rightarrow> server_room_message list" where
  "scroll_back 0 limit seqId rid db = []"
| "scroll_back (Suc requests) limit seqId rid db =
     (let p = GetRoomMessageList rid seqId limit 0 ''backward'' db
      in if p = [] then [] else p @ scroll_back requests limit (sm_SeqId (last p)) rid db)"

lemma page_backward:
  "GetRoomMessageList rid seqId limit 0 ''backward'' db
     = map (server_message db) (history.page limit seqId (seq_desc (room_rows rid db)))"
  by (simp add: GetRoomMessageList_def history.page_def seq_desc_filter)

lemma scroll_back_walk:
  "scroll_back requests limit seqId rid db
     = map (server_message db) (history.walk requests limit seqId (seq_desc (room_rows rid db)))"
  by (induction requests arbitrary: seqId)
    (simp_all add: page_backward Let_def last_map server_message_def)

text \<open>
  C12. Scrolling back through a room reads its history completely: from any position,
  with any page size, the pages together are the visible older messages, each once, the
  newest first; a client needs no more requests than there are messages.
\<close>

theorem scroll_back_complete:
  assumes "seq_unique db" and "0 < limit" and "length (messages db) \<le> requests"
  shows "scroll_back requests limit seqId rid db =
    map (server_message db) (filter (\<lambda>m. rm_SeqId m < seqId) (seq_desc (room_rows rid db)))"
proof -
  let ?xs = "seq_desc (room_rows rid db)"
  have sorted: "sorted_wrt (\<lambda>x y. rm_SeqId y < rm_SeqId x) ?xs"
    using seq_desc_sorted [OF distinct_room_seqs [OF assms(1)]] .
  have "history.walk requests limit seqId ?xs = filter (\<lambda>m. rm_SeqId m < seqId) ?xs"
  proof (rule history.walk_all)
    show "history.listing ?xs" using sorted by (simp add: history.listing_def)
    show "\<forall>v \<in> set vs. rm_SeqId v < seqId" if "?xs = us @ x # vs" "rm_SeqId x < seqId" for us x vs
      using sorted that by (auto simp: sorted_wrt_append)
    have "length ?xs \<le> length (messages db)" by (simp add: seq_desc_def room_rows_def)
    then show "length ?xs \<le> requests" using assms(3) by simp
  qed (rule assms(2))
  then show ?thesis by (simp add: scroll_back_walk)
qed

definition demo_message :: "int \<Rightarrow> mid \<Rightarrow> room_message" where
  "demo_message seqId mid = \<lparr>rm_Rid = ''r'', rm_SeqId = seqId, rm_Mid = mid, rm_ClientMid = ''c'' @ mid,
     rm_SenderUid = ''u'', rm_State = 1, rm_IP = [], rm_WithdrawTime = 0, rm_CreateTime = 100 * seqId,
     rm_DeleteTime = 0, rm_ClientCreateTime = 100 * seqId\<rparr>"

definition demo_db :: message_db where
  "demo_db = empty_db\<lparr>messages := [demo_message 1 ''m1'', demo_message 3 ''m3'', demo_message 2 ''m2'']\<rparr>"

theorem scroll_back_complete_witness:
  "map sm_Mid (scroll_back 3 2 4 ''r'' demo_db) = [''m3'', ''m2'', ''m1'']"
proof -
  have "seq_unique demo_db" "length (messages demo_db) \<le> 3" by code_simp+
  then have "scroll_back 3 2 4 ''r'' demo_db =
      map (server_message demo_db) (filter (\<lambda>m. rm_SeqId m < 4) (seq_desc (room_rows ''r'' demo_db)))"
    by (intro scroll_back_complete) auto
  moreover have "map sm_Mid (map (server_message demo_db) (filter (\<lambda>m. rm_SeqId m < 4)
      (seq_desc (room_rows ''r'' demo_db)))) = [''m3'', ''m2'', ''m1'']" by code_simp
  ultimately show ?thesis by (simp only:)
qed

section \<open>Blocking\<close>

definition HasUserBlockedRoom :: "uid \<Rightarrow> rid \<Rightarrow> message_db \<Rightarrow> bool" where
  "HasUserBlockedRoom uid rid db \<longleftrightarrow>
     0 < length (filter (\<lambda>b. rb_Uid b = uid \<and> rb_Rid b = rid \<and> rb_DeleteTime b = 0) (room_blocks db))"

definition HasUserBlockedRoomBatch :: "uid \<Rightarrow> rid list \<Rightarrow> message_db \<Rightarrow> rid \<rightharpoonup> bool" where
  "HasUserBlockedRoomBatch uid rids db =
     (if uid = [] \<or> rids = [] then Map.empty
      else (\<lambda>rid. if \<exists>b \<in> set (room_blocks db). rb_Uid b = uid \<and> rb_Rid b = rid \<and> rid \<in> set rids \<and> rb_DeleteTime b = 0
                  then Some True else None))"

definition GetUidsWhoBlockedRoom :: "rid \<Rightarrow> message_db \<Rightarrow> uid list" where
  "GetUidsWhoBlockedRoom rid db =
     map rb_Uid (filter (\<lambda>b. rb_Rid b = rid \<and> rb_DeleteTime b = 0) (room_blocks db))"

definition GetUserRoomBlockCreateTime :: "uid \<Rightarrow> rid \<Rightarrow> message_db \<Rightarrow> time \<times> bool" where
  "GetUserRoomBlockCreateTime uid rid db =
     (case find (\<lambda>b. rb_Uid b = uid \<and> rb_Rid b = rid \<and> rb_DeleteTime b = 0) (room_blocks db) of
        None \<Rightarrow> (0, False)
      | Some b \<Rightarrow> if rb_CreateTime b = 0 then (0, False) else (rb_CreateTime b, True))"

text \<open>An update by primary key: the first row the lookup found.\<close>

fun update_first :: "('a \<Rightarrow> bool) \<Rightarrow> ('a \<Rightarrow> 'a) \<Rightarrow> 'a list \<Rightarrow> 'a list" where
  "update_first P f [] = []"
| "update_first P f (x # xs) = (if P x then f x # xs else x # update_first P f xs)"

definition BlockRoom :: "time \<Rightarrow> uid \<Rightarrow> rid \<Rightarrow> message_db \<Rightarrow> message_db" where
  "BlockRoom now uid rid db =
     (let own = (\<lambda>b. rb_Uid b = uid \<and> rb_Rid b = rid) in
      case find own (room_blocks db) of
        Some b \<Rightarrow> if rb_DeleteTime b \<noteq> 0
          then db\<lparr>room_blocks := update_first own (\<lambda>b. b\<lparr>rb_DeleteTime := 0\<rparr>) (room_blocks db)\<rparr>
          else db
      | None \<Rightarrow> db\<lparr>room_blocks := room_blocks db @
          [\<lparr>rb_Uid = uid, rb_Rid = rid, rb_CreateTime = now, rb_DeleteTime = 0\<rparr>]\<rparr>)"

definition UnblockRoom :: "time \<Rightarrow> uid \<Rightarrow> rid \<Rightarrow> message_db \<Rightarrow> message_db" where
  "UnblockRoom now uid rid db = db\<lparr>room_blocks := map (\<lambda>b.
     if rb_Uid b = uid \<and> rb_Rid b = rid \<and> rb_DeleteTime b = 0 then b\<lparr>rb_DeleteTime := now\<rparr> else b)
     (room_blocks db)\<rparr>"

definition HasUserBlockedUserInRoom :: "uid \<Rightarrow> rid \<Rightarrow> uid \<Rightarrow> message_db \<Rightarrow> bool" where
  "HasUserBlockedUserInRoom uid rid targetUid db \<longleftrightarrow>
     0 < length (filter (\<lambda>b. ub_Uid b = uid \<and> ub_Rid b = rid \<and> ub_TargetUid b = targetUid \<and> ub_DeleteTime b = 0)
       (user_blocks db))"

definition GetUidsWhoBlockedUserInRoom :: "rid \<Rightarrow> uid \<Rightarrow> message_db \<Rightarrow> uid list" where
  "GetUidsWhoBlockedUserInRoom rid senderUid db =
     map ub_Uid (filter (\<lambda>b. ub_Rid b = rid \<and> ub_TargetUid b = senderUid \<and> ub_DeleteTime b = 0) (user_blocks db))"

definition GetBlockedTargetUidsInRoom :: "uid \<Rightarrow> rid \<Rightarrow> message_db \<Rightarrow> uid list" where
  "GetBlockedTargetUidsInRoom uid rid db =
     map ub_TargetUid (filter (\<lambda>b. ub_Uid b = uid \<and> ub_Rid b = rid \<and> ub_DeleteTime b = 0) (user_blocks db))"

definition BlockUserInRoom :: "time \<Rightarrow> uid \<Rightarrow> rid \<Rightarrow> uid \<Rightarrow> message_db \<Rightarrow> message_db" where
  "BlockUserInRoom now uid rid targetUid db =
     (let own = (\<lambda>b. ub_Uid b = uid \<and> ub_Rid b = rid \<and> ub_TargetUid b = targetUid) in
      case find own (user_blocks db) of
        Some b \<Rightarrow> if ub_DeleteTime b \<noteq> 0
          then db\<lparr>user_blocks := update_first own (\<lambda>b. b\<lparr>ub_DeleteTime := 0\<rparr>) (user_blocks db)\<rparr>
          else db
      | None \<Rightarrow> db\<lparr>user_blocks := user_blocks db @
          [\<lparr>ub_Uid = uid, ub_Rid = rid, ub_TargetUid = targetUid, ub_CreateTime = now, ub_DeleteTime = 0\<rparr>]\<rparr>)"

definition UnblockUserInRoom :: "time \<Rightarrow> uid \<Rightarrow> rid \<Rightarrow> uid \<Rightarrow> message_db \<Rightarrow> message_db" where
  "UnblockUserInRoom now uid rid targetUid db = db\<lparr>user_blocks := map (\<lambda>b.
     if ub_Uid b = uid \<and> ub_Rid b = rid \<and> ub_TargetUid b = targetUid \<and> ub_DeleteTime b = 0
     then b\<lparr>ub_DeleteTime := now\<rparr> else b) (user_blocks db)\<rparr>"

text \<open>
  The filter on what a user missed (\<open>quic/server/server.go\<close>). The loop caches both
  look-ups per room; nothing changes the tables in between, so the caches hold what the
  look-ups return.
\<close>

definition hidden_from :: "uid \<Rightarrow> message_db \<Rightarrow> server_room_message \<Rightarrow> bool" where
  "hidden_from uid db rm \<longleftrightarrow>
     (let (t, blocked) = GetUserRoomBlockCreateTime uid (sm_Rid rm) db;
          blockTime = (if blocked \<and> t > 0 then t else 0)
      in blockTime > 0 \<and> sm_CreateTime rm \<ge> blockTime) \<or>
     sm_SenderUid rm \<in> set (GetBlockedTargetUidsInRoom uid (sm_Rid rm) db)"

definition filterUnreadRoomMessagesByBlock ::
  "uid \<Rightarrow> message_db \<Rightarrow> server_room_message list \<Rightarrow> server_room_message list" where
  "filterUnreadRoomMessagesByBlock uid db ms = filter (\<lambda>rm. \<not> hidden_from uid db rm) ms"

lemma update_first_append:
  "\<forall>x \<in> set xs. \<not> P x \<Longrightarrow> update_first P f (xs @ ys) = xs @ update_first P f ys"
  by (induction xs) auto

lemma find_append: "find P (xs @ ys) = (case find P xs of None \<Rightarrow> find P ys | Some x \<Rightarrow> Some x)"
  by (induction xs) auto

lemma find_None_iff': "find P xs = None \<longleftrightarrow> (\<forall>x \<in> set xs. \<not> P x)"
  by (auto simp: find_None_iff)

text \<open>
  Blocking a room for a second time hides messages of the time in between: the row
  keeps the time of the first block, so a message that arrived while the room was not
  blocked is filtered out after the re-block, although it was visible before it.
\<close>

theorem reblock_hides_older_messages:
  assumes "\<forall>b \<in> set (room_blocks db). \<not> (rb_Uid b = uid \<and> rb_Rid b = sm_Rid rm)"
    and "0 < t1" and "t1 < t2" and "t2 < sm_CreateTime rm" and "sm_CreateTime rm < t3"
    and "\<forall>b \<in> set (user_blocks db). ub_Uid b \<noteq> uid"
  shows "(\<not> hidden_from uid (UnblockRoom t2 uid (sm_Rid rm) (BlockRoom t1 uid (sm_Rid rm) db)) rm) \<and>
     (hidden_from uid (BlockRoom t3 uid (sm_Rid rm)
           (UnblockRoom t2 uid (sm_Rid rm) (BlockRoom t1 uid (sm_Rid rm) db))) rm)"
proof (intro conjI)
  let ?own = "\<lambda>b. rb_Uid b = uid \<and> rb_Rid b = sm_Rid rm"
  let ?new = "\<lparr>rb_Uid = uid, rb_Rid = sm_Rid rm, rb_CreateTime = t1, rb_DeleteTime = t2\<rparr>"
  have none: "find ?own (room_blocks db) = None" using assms(1) by (simp add: find_None_iff')
  have keep: "map (\<lambda>b. if ?own b \<and> rb_DeleteTime b = 0 then b\<lparr>rb_DeleteTime := t2\<rparr> else b) (room_blocks db)
      = room_blocks db"
    using assms(1) by (auto intro!: map_idI)
  have un: "room_blocks (UnblockRoom t2 uid (sm_Rid rm) (BlockRoom t1 uid (sm_Rid rm) db))
      = room_blocks db @ [?new]"
    using keep none assms(1) by (simp add: UnblockRoom_def BlockRoom_def Let_def)
  have ub: "user_blocks (UnblockRoom t uid (sm_Rid rm) d) = user_blocks d"
    "user_blocks (BlockRoom t uid (sm_Rid rm) d) = user_blocks d" for t d
    by (auto simp: UnblockRoom_def BlockRoom_def Let_def split: option.split)
  have targets: "GetBlockedTargetUidsInRoom uid (sm_Rid rm) d = []" if "user_blocks d = user_blocks db" for d
    using that assms(6) by (auto simp: GetBlockedTargetUidsInRoom_def filter_empty_conv)
  have "find (\<lambda>b. ?own b \<and> rb_DeleteTime b = 0) (room_blocks db @ [?new]) = None"
    using assms(1-3) by (auto simp: find_None_iff')
  then show "\<not> hidden_from uid (UnblockRoom t2 uid (sm_Rid rm) (BlockRoom t1 uid (sm_Rid rm) db)) rm"
    using targets ub by (simp add: hidden_from_def GetUserRoomBlockCreateTime_def un)
  have up: "update_first ?own (\<lambda>b. b\<lparr>rb_DeleteTime := 0\<rparr>) (room_blocks db @ [?new])
      = room_blocks db @ [?new\<lparr>rb_DeleteTime := 0\<rparr>]"
    using assms(1) by (simp add: update_first_append)
  have "find ?own (room_blocks db @ [?new]) = Some ?new"
    using none by (simp add: find_append)
  then have re: "room_blocks (BlockRoom t3 uid (sm_Rid rm)
      (UnblockRoom t2 uid (sm_Rid rm) (BlockRoom t1 uid (sm_Rid rm) db))) = room_blocks db @ [?new\<lparr>rb_DeleteTime := 0\<rparr>]"
    using assms(2,3) un up by (simp add: BlockRoom_def [of t3] Let_def)
  have "find (\<lambda>b. ?own b \<and> rb_DeleteTime b = 0) (room_blocks db) = None"
    using assms(1) by (auto simp: find_None_iff')
  then show "hidden_from uid (BlockRoom t3 uid (sm_Rid rm)
      (UnblockRoom t2 uid (sm_Rid rm) (BlockRoom t1 uid (sm_Rid rm) db))) rm"
    using assms(2-4) by (simp add: hidden_from_def GetUserRoomBlockCreateTime_def re find_append)
qed

theorem reblock_hides_older_messages_witness:
  "\<exists>rm. \<not> hidden_from ''u'' (UnblockRoom 20 ''u'' ''r'' (BlockRoom 10 ''u'' ''r'' empty_db)) rm \<and>
     hidden_from ''u'' (BlockRoom 200 ''u'' ''r'' (UnblockRoom 20 ''u'' ''r'' (BlockRoom 10 ''u'' ''r'' empty_db))) rm"
proof -
  let ?rm = "server_message empty_db (demo_message 1 ''m1'')"
  have "sm_Rid ?rm = ''r''" "sm_CreateTime ?rm = 100" by (simp_all add: server_message_def demo_message_def)
  with reblock_hides_older_messages [of empty_db "''u''" ?rm 10 20 200] show ?thesis
    by (intro exI [of _ ?rm]) (simp add: empty_db_def)
qed

section \<open>Mentions and acknowledgements\<close>

datatype message_call =
    RoomUsersCache | InsertMention | InsertAcks | InsertWithdrawAcks | RoomBlockers | SenderBlockers
  | RedisGetSeq | MaxSeq | RedisSetSeq | RedisIncr

text \<open>\<open>members\<close> is what \<open>GetRoomUserIdsCache\<close> returns for the room, \<open>None\<close> an error.\<close>

definition CreateRoomMessageMentions ::
  "(message_call \<Rightarrow> bool) \<Rightarrow> (rid \<Rightarrow> uid list option) \<Rightarrow> rid \<Rightarrow> mid \<Rightarrow> int \<Rightarrow> uid \<Rightarrow> uid list \<Rightarrow> bool
   \<Rightarrow> message_db \<Rightarrow> (unit + unit) \<times> message_db" where
  "CreateRoomMessageMentions fails members rid mid seqId senderUid ms isAtAll db =
     (if ms = [] \<and> \<not> isAtAll then (Inr (), db)
      else
        (case (if isAtAll then members rid else Some ms) of
           None \<Rightarrow> (Inl (), db)
         | Some uids \<Rightarrow>
             let rows = map (\<lambda>u. \<lparr>mn_Rid = rid, mn_Mid = mid, mn_SeqId = seqId, mn_Uid = u,
                   mn_SenderUid = senderUid, mn_IsAtAll = isAtAll, mn_IsRead = False, mn_ReadAt = 0,
                   mn_DeleteTime = 0\<rparr>) (filter (\<lambda>u. u \<noteq> senderUid) uids)
             in if rows = [] then (Inr (), db)
                else if fails InsertMention then (Inl (), db)
                else (Inr (), db\<lparr>mentions := mentions db @ rows\<rparr>)))"

definition MarkMentionsAsRead :: "time \<Rightarrow> uid \<Rightarrow> rid \<Rightarrow> int \<Rightarrow> message_db \<Rightarrow> message_db" where
  "MarkMentionsAsRead now uid rid seqId db = db\<lparr>mentions := map (\<lambda>m.
     if mn_Uid m = uid \<and> \<not> mn_IsRead m \<and> mn_DeleteTime m = 0 \<and> mn_SeqId m \<le> seqId \<and> (rid \<noteq> [] \<longrightarrow> mn_Rid m = rid)
     then m\<lparr>mn_IsRead := True, mn_ReadAt := now\<rparr> else m) (mentions db)\<rparr>"

definition GetUnreadMentions :: "uid \<Rightarrow> int \<Rightarrow> message_db \<Rightarrow> server_room_message list" where
  "GetUnreadMentions uid limit db =
     map (server_message db) (take (if limit \<le> 0 then 50 else nat limit) (seq_desc (filter (\<lambda>m.
       open_message m \<and> (\<exists>n \<in> set (mentions db). mn_Mid n = rm_Mid m \<and> mn_Uid n = uid \<and>
         \<not> mn_IsRead n \<and> mn_DeleteTime n = 0)) (messages db))))"

definition GetMentionsByRid :: "uid \<Rightarrow> rid \<Rightarrow> int \<Rightarrow> nat \<Rightarrow> message_db \<Rightarrow> server_room_message list" where
  "GetMentionsByRid uid rid limit offset db =
     map (server_message db) (take (if limit \<le> 0 then 20 else nat limit) (drop offset (seq_desc (filter (\<lambda>m.
       rm_Rid m = rid \<and> open_message m \<and> (\<exists>n \<in> set (mentions db). mn_Mid n = rm_Mid m \<and> mn_Uid n = uid \<and>
         mn_DeleteTime n = 0)) (messages db)))))"

text \<open>A batch insert fails as a whole on the unique index of user and message.\<close>

definition ack_key :: "message_ack \<Rightarrow> uid \<times> mid" where "ack_key a = (ack_Uid a, ack_Mid a)"

definition insert_acks :: "message_ack list \<Rightarrow> message_ack list \<Rightarrow> message_ack list option" where
  "insert_acks rows table =
     (if distinct (map ack_key rows) \<and> set (map ack_key rows) \<inter> set (map ack_key table) = {}
      then Some (table @ rows) else None)"

section \<open>Sequence numbers\<close>

definition GetMaxRoomSeqId :: "rid \<Rightarrow> message_db \<Rightarrow> int" where
  "GetMaxRoomSeqId rid db =
     (let seqs = map rm_SeqId (filter (\<lambda>m. rm_Rid m = rid) (messages db))
      in if seqs = [] then 0 else Max (set seqs))"

type_synonym seq_keys = "rid \<rightharpoonup> int"

definition GetRoomSeqId ::
  "(message_call \<Rightarrow> bool) \<Rightarrow> rid \<Rightarrow> message_db \<Rightarrow> seq_keys \<Rightarrow> (unit + int) \<times> seq_keys" where
  "GetRoomSeqId fails rid db keys =
     (if fails RedisGetSeq then (Inl (), keys)
      else if keys rid = None \<and> (fails MaxSeq \<or> fails RedisSetSeq) then (Inl (), keys)
      else
        let keys' = (case keys rid of None \<Rightarrow> keys(rid \<mapsto> GetMaxRoomSeqId rid db) | Some _ \<Rightarrow> keys)
        in if fails RedisIncr then (Inl (), keys')
           else let n = the (keys' rid) + 1 in (Inr n, keys'(rid \<mapsto> n)))"

text \<open>
  The same call, one Redis or database request at a time, for one room: the key, the
  numbers of the stored rows, where each concurrent call is, and the numbers handed out.
\<close>

datatype seq_pc = Started | Missing | HaveMax int | Ready | Done int

record seq_state =
  q_key :: "int option"
  q_rows :: "int set"
  q_pc :: "nat \<Rightarrow> seq_pc"
  q_issued :: "int list"

inductive seq_step :: "seq_state \<Rightarrow> seq_state \<Rightarrow> bool" where
  get_hit: "q_pc s c = Started \<Longrightarrow> q_key s \<noteq> None \<Longrightarrow> seq_step s (s\<lparr>q_pc := (q_pc s)(c := Ready)\<rparr>)"
| get_nil: "q_pc s c = Started \<Longrightarrow> q_key s = None \<Longrightarrow> seq_step s (s\<lparr>q_pc := (q_pc s)(c := Missing)\<rparr>)"
| max_seq: "q_pc s c = Missing \<Longrightarrow> m = (if q_rows s = {} then 0 else Max (q_rows s)) \<Longrightarrow>
     seq_step s (s\<lparr>q_pc := (q_pc s)(c := HaveMax m)\<rparr>)"
| set_nx: "q_pc s c = HaveMax m \<Longrightarrow>
     seq_step s (s\<lparr>q_key := (case q_key s of None \<Rightarrow> Some m | Some k \<Rightarrow> Some k), q_pc := (q_pc s)(c := Ready)\<rparr>)"
| incr: "q_pc s c = Ready \<Longrightarrow> q_key s = Some k \<Longrightarrow>
     seq_step s (s\<lparr>q_key := Some (k + 1), q_pc := (q_pc s)(c := Done (k + 1)), q_issued := q_issued s @ [k + 1]\<rparr>)"
| store_row: "q_pc s c = Done n \<Longrightarrow> seq_step s (s\<lparr>q_rows := insert n (q_rows s)\<rparr>)"

inductive_cases seq_stepE: "seq_step s s'"

inductive seq_reachable :: "int set \<Rightarrow> seq_state \<Rightarrow> bool" for rows0 where
  start: "finite rows0 \<Longrightarrow>
     seq_reachable rows0 \<lparr>q_key = None, q_rows = rows0, q_pc = (\<lambda>_. Started), q_issued = []\<rparr>"
| step: "seq_reachable rows0 s \<Longrightarrow> seq_step s s' \<Longrightarrow> seq_reachable rows0 s'"

definition seq_base :: "int set \<Rightarrow> int" where
  "seq_base rows = (if rows = {} then 0 else Max rows)"

definition seq_inv :: "int set \<Rightarrow> seq_state \<Rightarrow> bool" where
  "seq_inv rows0 s \<longleftrightarrow>
     (q_key s = None \<longrightarrow> q_issued s = [] \<and> q_rows s = rows0 \<and> (\<forall>c. q_pc s c \<in> {Started, Missing, HaveMax (seq_base rows0)})) \<and>
     (\<forall>k. q_key s = Some k \<longrightarrow> seq_base rows0 \<le> k \<and> (\<forall>n \<in> set (q_issued s). seq_base rows0 < n \<and> n \<le> k)) \<and>
     sorted_wrt (<) (q_issued s) \<and> (\<forall>c n. q_pc s c = Done n \<longrightarrow> n \<in> set (q_issued s)) \<and>
     finite rows0"

lemma seq_inv_step:
  assumes "seq_step s s'" and "seq_inv rows0 s"
  shows "seq_inv rows0 s'"
  using assms
proof (induction rule: seq_step.induct)
  case (max_seq s c m)
  then have "q_key s = None \<Longrightarrow> m = seq_base rows0" by (auto simp: seq_inv_def seq_base_def)
  with max_seq.prems show ?case by (auto simp: seq_inv_def)
next
  case (set_nx s c m)
  show ?case
  proof (cases "q_key s")
    case None
    with set_nx.prems have "\<forall>c. q_pc s c \<in> {Started, Missing, HaveMax (seq_base rows0)}"
      unfolding seq_inv_def by blast
    then have "q_pc s c \<in> {Started, Missing, HaveMax (seq_base rows0)}" ..
    with set_nx.hyps have "m = seq_base rows0" by simp
    with None set_nx.prems show ?thesis by (auto simp: seq_inv_def)
  next
    case (Some k)
    with set_nx.prems show ?thesis by (auto simp: seq_inv_def)
  qed
next
  case (incr s c k)
  then have "seq_base rows0 \<le> k" "\<forall>n \<in> set (q_issued s). seq_base rows0 < n \<and> n \<le> k" "sorted_wrt (<) (q_issued s)"
    by (auto simp: seq_inv_def)
  with incr.prems show ?case by (fastforce simp: seq_inv_def sorted_wrt_append)
next
  case (store_row s c n)
  then have "q_key s \<noteq> None"
    unfolding seq_inv_def by (metis empty_iff empty_set)
  with store_row.prems show ?case by (auto simp: seq_inv_def)
qed (auto simp: seq_inv_def)

lemma seq_inv_reachable: "seq_reachable rows0 s \<Longrightarrow> seq_inv rows0 s"
proof (induction rule: seq_reachable.induct)
  case start
  then show ?case by (simp add: seq_inv_def)
next
  case (step s s')
  show ?case using seq_inv_step [OF step.hyps(2) step.IH] .
qed

text \<open>
  C24. Sequence numbers are never shared: however concurrent allocations interleave, and
  whatever of them is stored meanwhile, the numbers handed out are strictly increasing
  and greater than every number the room had, as long as Redis keeps the key.
\<close>

theorem sequence_numbers_fresh:
  assumes "seq_reachable rows0 s"
  shows "sorted_wrt (<) (q_issued s) \<and> (\<forall>n \<in> set (q_issued s). \<forall>r \<in> rows0. r < n)"
proof (intro conjI ballI)
  note inv = seq_inv_reachable [OF assms]
  from inv show "sorted_wrt (<) (q_issued s)" by (simp add: seq_inv_def)
  fix n r assume n: "n \<in> set (q_issued s)" and r: "r \<in> rows0"
  with inv have "r \<le> seq_base rows0" by (auto simp: seq_inv_def seq_base_def)
  moreover from n inv have "seq_base rows0 < n" by (cases "q_key s") (auto simp: seq_inv_def)
  ultimately show "r < n" by simp
qed

theorem sequence_numbers_fresh_witness:
  "\<exists>s. seq_reachable {4} s \<and> q_issued s = [5, 6] \<and> sorted_wrt (<) (q_issued s)"
proof -
  let ?s0 = "\<lparr>q_key = None, q_rows = {4}, q_pc = (\<lambda>_. Started), q_issued = []\<rparr>"
  have r0: "seq_reachable {4} ?s0" by (rule seq_reachable.start) simp
  note r1 = seq_reachable.step [OF r0 get_nil [where c = 1]]
  note r2 = seq_reachable.step [OF r1 get_nil [where c = 2]]
  note r3 = seq_reachable.step [OF r2 max_seq [where c = 1, OF _ refl]]
  note r4 = seq_reachable.step [OF r3 max_seq [where c = 2, OF _ refl]]
  note r5 = seq_reachable.step [OF r4 set_nx [where c = 1 and m = 4]]
  note r6 = seq_reachable.step [OF r5 set_nx [where c = 2 and m = 4]]
  note r7 = seq_reachable.step [OF r6 incr [where c = 1 and k = 4]]
  note r8 = seq_reachable.step [OF r7 incr [where c = 2 and k = 5]]
  have "\<exists>s. seq_reachable {4} s \<and> q_issued s = [5, 6]"
    by (rule exI, rule conjI, rule r8) (simp_all add: fun_upd_def)
  then obtain s where s: "seq_reachable {4} s" "q_issued s = [5, 6]" by blast
  from s sequence_numbers_fresh [OF s(1)] show ?thesis by blast
qed

end
