(* ===== verification/Registry.thy ===== *)
theory Registry
  imports Prelude "HOL-Library.AList"
begin

text \<open>
  The registry of live connections (\<open>quic/server/client_registry.go\<close>): one connection per
  user. Go's map is an association list with distinct keys, so that \<open>len\<close> and
  \<open>snapshotAll\<close> compute; its order stands for one of Go's iteration orders. The mutex
  makes every operation one step.
\<close>

type_synonym connid = "64 word"

text \<open>The fields of \<open>Client\<close> that identify a connection. \<open>c_conn\<close> is \<open>ConnID()\<close>, zero for a nil connection.\<close>

record client =
  c_uid :: uid
  c_sid :: sid
  c_conn :: connid

type_synonym registry = "(uid \<times> client) list"

definition newClientRegistry :: registry where "newClientRegistry = []"

definition reg_get :: "uid \<Rightarrow> registry \<Rightarrow> client option" where
  "reg_get uid r = map_of r uid"

definition reg_register :: "client \<Rightarrow> registry \<Rightarrow> registry" where
  "reg_register c r = AList.update (c_uid c) c r"

definition isCurrentConn :: "uid \<Rightarrow> sid \<Rightarrow> connid \<Rightarrow> registry \<Rightarrow> bool" where
  "isCurrentConn uid sid connID r \<longleftrightarrow>
     (if connID = 0 then False
      else case map_of r uid of
        None \<Rightarrow> False
      | Some c \<Rightarrow> if c_sid c \<noteq> sid then False else c_conn c = connID)"

definition removeIfMatch :: "uid \<Rightarrow> sid \<Rightarrow> connid \<Rightarrow> registry \<Rightarrow> client option \<times> registry" where
  "removeIfMatch uid sid connID r =
     (case map_of r uid of
        None \<Rightarrow> (None, r)
      | Some c \<Rightarrow>
          if c_sid c \<noteq> sid \<or> connID = 0 \<or> c_conn c \<noteq> connID then (None, r)
          else (Some c, AList.delete uid r))"

definition snapshotForReplace :: "uid \<Rightarrow> registry \<Rightarrow> client option" where
  "snapshotForReplace uid r = map_of r uid"

definition reg_len :: "registry \<Rightarrow> nat" where "reg_len r = length r"

definition snapshotAll :: "registry \<Rightarrow> client list" where "snapshotAll r = map snd r"

definition reg_clear :: "registry \<Rightarrow> registry" where "reg_clear r = []"

text \<open>Every client is stored under its own user, once.\<close>

definition reg_ok :: "registry \<Rightarrow> bool" where
  "reg_ok r \<longleftrightarrow> distinct (map fst r) \<and> (\<forall>uid c. map_of r uid = Some c \<longrightarrow> c_uid c = uid)"

text \<open>
  The contract the server relies on: at most one live connection per user, and removal
  only of exactly the connection that is named.
\<close>

locale live_registry =
  fixes ok :: "'r \<Rightarrow> bool"
    and look :: "uid \<Rightarrow> 'r \<Rightarrow> client option"
    and add :: "client \<Rightarrow> 'r \<Rightarrow> 'r"
    and drop_conn :: "uid \<Rightarrow> sid \<Rightarrow> connid \<Rightarrow> 'r \<Rightarrow> client option \<times> 'r"
    and current :: "uid \<Rightarrow> sid \<Rightarrow> connid \<Rightarrow> 'r \<Rightarrow> bool"
  assumes ok_add: "ok r \<Longrightarrow> ok (add c r)"
    and ok_drop: "ok r \<Longrightarrow> ok (snd (drop_conn u sid k r))"
    and look_add: "look u (add c r) = (if u = c_uid c then Some c else look u r)"
    and look_drop: "ok r \<Longrightarrow> look u' (snd (drop_conn u sid k r)) =
       (if u' = u \<and> current u sid k r then None else look u' r)"
    and drop_result: "fst (drop_conn u sid k r) = (if current u sid k r then look u r else None)"
    and current_look: "current u sid k r \<longleftrightarrow> k \<noteq> 0 \<and> (\<exists>c. look u r = Some c \<and> c_sid c = sid \<and> c_conn c = k)"
begin

lemma current_add: "current u sid k (add c r) \<longleftrightarrow>
    (if u = c_uid c then k \<noteq> 0 \<and> c_sid c = sid \<and> c_conn c = k else current u sid k r)"
  by (auto simp: current_look look_add)

lemma stale_after_replace:
  "k \<noteq> c_conn c \<Longrightarrow> \<not> current (c_uid c) sid k (add c r)"
  by (simp add: current_add)

lemma stale_drop_keeps:
  "ok r \<Longrightarrow> \<not> current u sid k r \<Longrightarrow> look u' (snd (drop_conn u sid k r)) = look u' r"
  by (simp add: look_drop)

lemma current_unique:
  "current u sid k r \<Longrightarrow> current u sid' k' r \<Longrightarrow> sid' = sid \<and> k' = k"
  by (auto simp: current_look)

lemma dropped_not_current: "ok r \<Longrightarrow> \<not> current u sid k (snd (drop_conn u sid k r))"
  by (auto simp: current_look look_drop)

end

interpretation lr: live_registry reg_ok reg_get reg_register removeIfMatch isCurrentConn
proof
  fix r c u u' sid k
  show "reg_ok r \<Longrightarrow> reg_ok (reg_register c r)"
    by (auto simp: reg_ok_def reg_register_def distinct_update update_conv')
  show "reg_ok r \<Longrightarrow> reg_ok (snd (removeIfMatch u sid k r))"
    by (auto simp: reg_ok_def removeIfMatch_def distinct_delete delete_conv' simp del: map_of_eq_Some_iff
        split: option.splits if_splits)
  show "reg_get u (reg_register c r) = (if u = c_uid c then Some c else reg_get u r)"
    by (simp add: reg_get_def reg_register_def update_conv')
  show "reg_ok r \<Longrightarrow> reg_get u' (snd (removeIfMatch u sid k r)) =
      (if u' = u \<and> isCurrentConn u sid k r then None else reg_get u' r)"
    by (auto simp: reg_get_def removeIfMatch_def isCurrentConn_def delete_conv' split: option.splits)
  show "fst (removeIfMatch u sid k r) = (if isCurrentConn u sid k r then reg_get u r else None)"
    by (auto simp: reg_get_def removeIfMatch_def isCurrentConn_def split: option.splits)
  show "isCurrentConn u sid k r \<longleftrightarrow> k \<noteq> 0 \<and> (\<exists>c. reg_get u r = Some c \<and> c_sid c = sid \<and> c_conn c = k)"
    by (auto simp: isCurrentConn_def reg_get_def split: option.splits)
qed

lemma snapshotForReplace_get [simp]: "snapshotForReplace uid r = reg_get uid r"
  by (simp add: snapshotForReplace_def reg_get_def)

end
