(* ===== verification/Connections.thy ===== *)
theory Connections
  imports Registry Heartbeat UserStatus Messages
begin

text \<open>
  The life of a connection on one node (\<open>quic/server/server.go\<close>): registration, the
  replacement of an older connection of the same user, heartbeat and close events,
  timeouts, going online and offline, the messages sent on those occasions, and shutdown.
  A handler is one step; the steps of \<open>handleConnect\<close> are also given one by one, for
  the interleavings of the last section. Times are milliseconds.
\<close>

section \<open>Heartbeat keys\<close>

definition hexdigit :: "nat \<Rightarrow> char" where
  "hexdigit n = ''0123456789abcdef'' ! n"

definition hexval :: "char \<Rightarrow> nat option" where
  "hexval c = (let n = (of_char c :: nat) in
     if 48 \<le> n \<and> n \<le> 57 then Some (n - 48)
     else if 97 \<le> n \<and> n \<le> 102 then Some (n - 87)
     else if 65 \<le> n \<and> n \<le> 70 then Some (n - 55) else None)"

primrec hex_pad :: "nat \<Rightarrow> nat \<Rightarrow> string" where
  "hex_pad 0 n = []"
| "hex_pad (Suc k) n = hex_pad k (n div 16) @ [hexdigit (n mod 16)]"

text \<open>\<open>%016x\<close> of a 64-bit value, and \<open>strconv.ParseUint(s, 16, 64)\<close>.\<close>

definition hex16 :: "connid \<Rightarrow> string" where "hex16 w = hex_pad 16 (unat w)"

definition ParseHex64 :: "string \<Rightarrow> connid option" where
  "ParseHex64 s =
     (if s = [] \<or> (\<exists>c \<in> set s. hexval c = None) then None
      else let n = foldl (\<lambda>a c. a * 16 + the (hexval c)) 0 s
        in if n < 2 ^ 64 then Some (of_nat n) else None)"

definition heartbeatClientKey :: "uid \<Rightarrow> sid \<Rightarrow> connid \<Rightarrow> string" where
  "heartbeatClientKey uid sid connID = uid @ ''|'' @ sid @ ''|'' @ hex16 connID"

definition legacyHeartbeatClientKey :: "uid \<Rightarrow> sid \<Rightarrow> string" where
  "legacyHeartbeatClientKey uid sid = uid @ ''|'' @ sid"

text \<open>\<open>strings.SplitN(s, "|", 3)\<close>: at most two cuts, the rest in one piece.\<close>

fun split_bar :: "nat \<Rightarrow> string \<Rightarrow> string list" where
  "split_bar 0 s = [s]"
| "split_bar (Suc cuts) s =
     (let a = takeWhile (\<lambda>c. c \<noteq> CHR ''|'') s; r = dropWhile (\<lambda>c. c \<noteq> CHR ''|'') s
      in if r = [] then [a] else a # split_bar cuts (tl r))"

definition parseHeartbeatClientKey :: "string \<Rightarrow> uid \<times> sid \<times> connid \<times> bool" where
  "parseHeartbeatClientKey clientKey =
     (let parts = split_bar 2 clientKey in
      if length parts < 2 \<or> parts ! 0 = [] \<or> parts ! 1 = [] then ([], [], 0, False)
      else if length parts = 2 then (parts ! 0, parts ! 1, 0, True)
      else (case ParseHex64 (parts ! 2) of
              None \<Rightarrow> (parts ! 0, parts ! 1, 0, True)
            | Some connID \<Rightarrow> (parts ! 0, parts ! 1, connID, True)))"

lemma hexval_hexdigit: "n < 16 \<Longrightarrow> hexval (hexdigit n) = Some n"
proof -
  have "\<forall>n \<in> {0..<16}. hexval (hexdigit n) = Some n" by code_simp
  then show "n < 16 \<Longrightarrow> hexval (hexdigit n) = Some n" by simp
qed

lemma hexdigit_no_bar: "n < 16 \<Longrightarrow> hexdigit n \<noteq> CHR ''|''"
proof -
  have "\<forall>n \<in> {0..<16}. hexdigit n \<noteq> CHR ''|''" by code_simp
  then show "n < 16 \<Longrightarrow> hexdigit n \<noteq> CHR ''|''" by simp
qed

lemma hex_pad_digits: "c \<in> set (hex_pad k n) \<Longrightarrow> \<exists>d < 16. c = hexdigit d"
  by (induction k arbitrary: n) (auto intro: exI [of _ "_ mod 16"])

lemma hex_pad_value: "foldl (\<lambda>a c. a * 16 + the (hexval c)) 0 (hex_pad k n) = n mod 16 ^ k"
proof (induction k arbitrary: n)
  case (Suc k)
  have "n mod 16 ^ Suc k = (n div 16) mod 16 ^ k * 16 + n mod 16"
    using mod_mult2_eq [of n 16 "16 ^ k"] by (simp add: mult.commute)
  then show ?case using Suc by (simp add: hexval_hexdigit)
qed simp

lemma length_hex16 [simp]: "length (hex16 w) = 16"
proof -
  have "length (hex_pad k n) = k" for k n by (induction k arbitrary: n) simp_all
  then show ?thesis by (simp add: hex16_def)
qed

lemma ParseHex64_hex16 [simp]: "ParseHex64 (hex16 w) = Some w"
proof -
  have "\<not> (\<exists>c \<in> set (hex16 w). hexval c = None)"
    by (auto simp: hex16_def hexval_hexdigit dest!: hex_pad_digits)
  moreover have "hex16 w \<noteq> []" using length_hex16 [of w] by (metis length_0_conv zero_neq_numeral)
  moreover have lt: "unat w < 2 ^ LENGTH(64)" by (rule unsigned_less)
  then have "foldl (\<lambda>a c. a * 16 + the (hexval c)) 0 (hex16 w) = unat w"
    by (simp add: hex16_def hex_pad_value)
  moreover have "unat w < 2 ^ 64" using lt by simp
  ultimately show ?thesis by (simp add: ParseHex64_def Let_def)
qed

lemma bar_free_takeWhile: "CHR ''|'' \<notin> set s \<Longrightarrow> takeWhile (\<lambda>c. c \<noteq> CHR ''|'') (s @ CHR ''|'' # t) = s"
  by (induction s) auto

lemma bar_free_all: "CHR ''|'' \<notin> set s \<Longrightarrow> takeWhile (\<lambda>c. c \<noteq> CHR ''|'') s = s \<and> dropWhile (\<lambda>c. c \<noteq> CHR ''|'') s = []"
  by (induction s) auto

lemma bar_free_dropWhile: "CHR ''|'' \<notin> set s \<Longrightarrow> dropWhile (\<lambda>c. c \<noteq> CHR ''|'') (s @ CHR ''|'' # t) = CHR ''|'' # t"
  by (induction s) auto

definition plain_id :: "string \<Rightarrow> bool" where
  "plain_id x \<longleftrightarrow> x \<noteq> [] \<and> CHR ''|'' \<notin> set x"

lemma plain_idD: "plain_id x \<Longrightarrow> x \<noteq> []" "plain_id x \<Longrightarrow> CHR ''|'' \<notin> set x"
  by (simp_all add: plain_id_def)

lemma key_parse:
  "plain_id uid \<Longrightarrow> plain_id sid \<Longrightarrow>
   parseHeartbeatClientKey (heartbeatClientKey uid sid connID) = (uid, sid, connID, True)"
  by (simp add: parseHeartbeatClientKey_def heartbeatClientKey_def numeral_2_eq_2 Let_def
      bar_free_takeWhile bar_free_dropWhile plain_idD)

lemma legacy_parse:
  "plain_id uid \<Longrightarrow> plain_id sid \<Longrightarrow>
   parseHeartbeatClientKey (legacyHeartbeatClientKey uid sid) = (uid, sid, 0, True)"
  by (simp add: parseHeartbeatClientKey_def legacyHeartbeatClientKey_def numeral_2_eq_2 Let_def
      bar_free_takeWhile bar_free_dropWhile bar_free_all plain_idD)

lemma key_inject:
  assumes "plain_id uid" and "plain_id sid" and "plain_id uid'" and "plain_id sid'"
    and "heartbeatClientKey uid sid k = heartbeatClientKey uid' sid' k'"
  shows "uid = uid' \<and> sid = sid' \<and> k = k'"
proof -
  have "parseHeartbeatClientKey (heartbeatClientKey uid sid k) = parseHeartbeatClientKey (heartbeatClientKey uid' sid' k')"
    by (rule arg_cong [OF assms(5)])
  then show ?thesis by (simp only: key_parse [OF assms(1,2)] key_parse [OF assms(3,4)] prod.inject simp_thms)
qed

lemma key_not_legacy:
  assumes "plain_id uid" and "plain_id sid" and "plain_id uid'" and "plain_id sid'" and "k \<noteq> 0"
  shows "heartbeatClientKey uid sid k \<noteq> legacyHeartbeatClientKey uid' sid'"
proof
  assume "heartbeatClientKey uid sid k = legacyHeartbeatClientKey uid' sid'"
  then have "parseHeartbeatClientKey (heartbeatClientKey uid sid k) = parseHeartbeatClientKey (legacyHeartbeatClientKey uid' sid')"
    by (rule arg_cong)
  with assms(5) show False by (simp only: key_parse [OF assms(1,2)] legacy_parse [OF assms(3,4)] prod.inject simp_thms)
qed

text \<open>
  The key under which a connection's heartbeats are kept names it completely: for
  identifiers that are not empty and have no bar, what the timeout handler parses is the
  user, the session and the connection the key was built from, so distinct connections
  have distinct keys. A key of the old format parses with connection zero.
\<close>

theorem heartbeat_key_roundtrip:
  assumes "plain_id uid" and "plain_id sid"
  shows "parseHeartbeatClientKey (heartbeatClientKey uid sid connID) = (uid, sid, connID, True) \<and>
     parseHeartbeatClientKey (legacyHeartbeatClientKey uid sid) = (uid, sid, 0, True)"
  using key_parse [OF assms] legacy_parse [OF assms] by blast

theorem heartbeat_key_roundtrip_witness:
  "parseHeartbeatClientKey (heartbeatClientKey ''u1'' ''s1'' 255) = (''u1'', ''s1'', 255, True)"
  using heartbeat_key_roundtrip [of "''u1''" "''s1''" 255] by (simp add: plain_id_def)

section \<open>Server state\<close>

text \<open>What the server sends, by the fields the receiver acts on.\<close>

datatype server_push =
    ForceOffline string
  | UserInfo uid
  | UserStatusSync uid bool string time time string
  | RoomUserPresenceSync uid bool time time
  | RoomMessageBatch "server_room_message list"
  | RoomMessageWithdrawBatch "server_room_message list"
  | RoomMessagePush server_room_message
  | RoomMessageWithdrawPush server_room_message
  | FileStatusUpdatePush string string string

text \<open>
  \<open>srv_closed\<close> and \<open>srv_sent\<close> are what the peers see: the connections closed by the
  server with the reason given, and the messages written to each connection.
\<close>

record server =
  srv_reg :: registry
  srv_hb :: Manager
  srv_presence :: "uid \<rightharpoonup> node"
  srv_users :: user_store
  srv_messages :: message_db
  srv_closed :: "(connid \<times> string) list"
  srv_sent :: "(connid \<times> server_push) list"
  srv_media_offline :: "uid list"
  srv_isp_cache :: "string \<rightharpoonup> string \<times> time"
  srv_subscribed :: bool
  srv_shutdown :: bool

text \<open>
  The environment of one event: the clock, this node, failing store and Redis calls,
  which connections accept a message (an open message stream that takes the frame), the
  peer addresses, friend groups (each friend with its online flag, \<open>None\<close> without a
  status), members of rooms and users sharing a room (\<open>None\<close> for an error), and the
  answers of the geographic and provider look-ups.
\<close>

record srv_env =
  e_now :: time
  e_node :: node
  e_users :: user_env
  e_presence_fails :: bool
  e_can_send :: "connid \<Rightarrow> bool"
  e_ip :: "connid \<Rightarrow> string"
  e_device :: "connid \<Rightarrow> device_info"
  e_friend_groups :: "uid \<Rightarrow> (uid \<times> bool option) list list option"
  e_members :: "rid \<Rightarrow> uid list option"
  e_share :: "uid \<Rightarrow> uid list option"
  e_profile :: "uid \<Rightarrow> bool"
  e_locate :: "string \<Rightarrow> location_info"
  e_is_local :: "string \<Rightarrow> bool"
  e_isp_api :: "string \<Rightarrow> (string \<times> string \<times> string) option"
  e_finger :: string

definition GetClientByUid :: "uid \<Rightarrow> server \<Rightarrow> client option" where
  "GetClientByUid uid s = reg_get uid (srv_reg s)"

definition SendServerMessage :: "srv_env \<Rightarrow> client \<Rightarrow> server_push \<Rightarrow> server \<Rightarrow> bool \<times> server" where
  "SendServerMessage e c msg s =
     (if e_can_send e (c_conn c) then (True, s\<lparr>srv_sent := srv_sent s @ [(c_conn c, msg)]\<rparr>) else (False, s))"

definition deliver_all :: "srv_env \<Rightarrow> server_push \<Rightarrow> uid list \<Rightarrow> server \<Rightarrow> server" where
  "deliver_all e msg uids s = fold (\<lambda>uid s. case GetClientByUid uid s of None \<Rightarrow> s
     | Some c \<Rightarrow> snd (SendServerMessage e c msg s)) uids s"

definition CloseWithError :: "connid \<Rightarrow> string \<Rightarrow> server \<Rightarrow> server" where
  "CloseWithError k reason s = s\<lparr>srv_closed := srv_closed s @ [(k, reason)]\<rparr>"

section \<open>Presence and heartbeats\<close>

definition presence_register :: "srv_env \<Rightarrow> uid \<Rightarrow> server \<Rightarrow> server" where
  "presence_register e uid s =
     (if uid = [] \<or> e_node e = [] \<or> e_presence_fails e then s
      else s\<lparr>srv_presence := (srv_presence s)(uid \<mapsto> e_node e)\<rparr>)"

definition presence_unregister :: "srv_env \<Rightarrow> uid \<Rightarrow> server \<Rightarrow> server" where
  "presence_unregister e uid s =
     (if uid = [] \<or> e_presence_fails e then s else s\<lparr>srv_presence := (srv_presence s)(uid := None)\<rparr>)"

definition removeHeartbeatKeys :: "uid \<Rightarrow> sid \<Rightarrow> connid \<Rightarrow> server \<Rightarrow> server" where
  "removeHeartbeatKeys uid sid connID s =
     (if uid = [] \<or> sid = [] then s
      else s\<lparr>srv_hb := fold RemoveClient
        ((if connID \<noteq> 0 then [heartbeatClientKey uid sid connID] else []) @ [legacyHeartbeatClientKey uid sid])
        (srv_hb s)\<rparr>)"

definition onHeartbeatUpdate :: "srv_env \<Rightarrow> uid \<Rightarrow> sid \<Rightarrow> connid \<Rightarrow> server \<Rightarrow> server" where
  "onHeartbeatUpdate e uid sid connID s =
     (if uid = [] \<or> sid = [] then s
      else
        let connID' = (if connID = 0 then
                (case reg_get uid (srv_reg s) of
                   Some c \<Rightarrow> if c_sid c = sid then c_conn c else connID
                 | None \<Rightarrow> connID) else connID);
            s1 = s\<lparr>srv_hb := UpdateHeartbeat (heartbeatClientKey uid sid connID') (e_now e) (srv_hb s)\<rparr>;
            s2 = s1\<lparr>srv_users := snd (UpdateUserCurrentStatusHeartbeat (e_users e) uid (srv_users s1))\<rparr>
        in presence_register e uid s2)"

section \<open>Broadcasts\<close>

definition buildFriendVisibleUserStatusSyncPayload :: "uid \<Rightarrow> user_status \<Rightarrow> server_push" where
  "buildFriendVisibleUserStatusSyncPayload uid st =
     UserStatusSync uid (st_IsOnline st) (st_CurrentStatus st) (st_LastOnline st) (st_LastLogin st) (st_CustomState st)"

definition buildRoomUserPresenceSyncPayload :: "uid \<Rightarrow> user_status \<Rightarrow> server_push" where
  "buildRoomUserPresenceSyncPayload uid st =
     RoomUserPresenceSync uid (st_IsOnline st) (st_LastOnline st) (st_LastLogin st)"

definition with_status :: "srv_env \<Rightarrow> uid \<Rightarrow> (user_status \<Rightarrow> server \<Rightarrow> server) \<Rightarrow> server \<Rightarrow> server" where
  "with_status e uid f s =
     (case GetOrCreateUserCurrentStatus (e_users e) uid (srv_users s) of
        (Inl _, u) \<Rightarrow> s\<lparr>srv_users := u\<rparr>
      | (Inr st, u) \<Rightarrow> f st (s\<lparr>srv_users := u\<rparr>))"

definition online_friends :: "uid \<Rightarrow> (uid \<times> bool option) list list \<Rightarrow> uid list" where
  "online_friends uid groups =
     dedup_seen {} (map fst (filter (\<lambda>(f, online). f \<noteq> uid \<and> online = Some True) (concat groups)))"

definition broadcastFriendUserStatusSync :: "srv_env \<Rightarrow> uid \<Rightarrow> server \<Rightarrow> server" where
  "broadcastFriendUserStatusSync e uid s = with_status e uid (\<lambda>st s1.
     let payload = buildFriendVisibleUserStatusSyncPayload uid st;
         s2 = deliver_all e payload [uid] s1
     in case e_friend_groups e uid of
          None \<Rightarrow> s2
        | Some groups \<Rightarrow> deliver_all e payload (online_friends uid groups) s2) s"

definition room_receivers :: "srv_env \<Rightarrow> uid \<Rightarrow> rid list \<Rightarrow> server \<Rightarrow> uid list" where
  "room_receivers e uid rids s =
     dedup_seen {} (filter (\<lambda>r. r \<noteq> uid \<and> GetClientByUid r s \<noteq> None)
       (concat (map (\<lambda>rid. if rid = [] then [] else case e_members e rid of None \<Rightarrow> [] | Some us \<Rightarrow> us) rids)))"

definition broadcastRoomUserPresenceSync :: "srv_env \<Rightarrow> uid \<Rightarrow> server \<Rightarrow> server" where
  "broadcastRoomUserPresenceSync e uid s = with_status e uid (\<lambda>st s1.
     if u_fails (e_users e) PluckRoomIds \<or> u_rids (e_users e) uid = [] then s1
     else deliver_all e (buildRoomUserPresenceSyncPayload uid st)
            (room_receivers e uid (u_rids (e_users e) uid) s1) s1) s"

definition deliverRoomMembersPresenceSnapshotToClient :: "srv_env \<Rightarrow> uid \<Rightarrow> server \<Rightarrow> server" where
  "deliverRoomMembersPresenceSnapshotToClient e viewerUid s =
     (case GetClientByUid viewerUid s of
        None \<Rightarrow> s
      | Some rc \<Rightarrow>
          (case e_share e viewerUid of
             None \<Rightarrow> s
           | Some memberUids \<Rightarrow>
               fold (\<lambda>m. with_status e m (\<lambda>st s1.
                   snd (SendServerMessage e rc (buildRoomUserPresenceSyncPayload m st) s1))) memberUids s))"

definition sendUserInfoToClient :: "srv_env \<Rightarrow> uid \<Rightarrow> server \<Rightarrow> server" where
  "sendUserInfoToClient e uid s =
     (case GetClientByUid uid s of
        None \<Rightarrow> s
      | Some c \<Rightarrow> if \<not> e_profile e uid then s else snd (SendServerMessage e c (UserInfo uid) s))"

text \<open>The provider of an address, cached for a day; the API answers ISP, organisation, AS name.\<close>

definition ispCacheTTL :: time where "ispCacheTTL = 24 * 3600 * 1000"

definition fetch_isp :: "srv_env \<Rightarrow> string \<Rightarrow> server \<Rightarrow> (unit + string) \<times> server" where
  "fetch_isp e ip s =
     (case e_isp_api e ip of
        None \<Rightarrow> (Inl (), s)
      | Some (isp, org, asname) \<Rightarrow>
          let r = (if isp \<noteq> [] then isp else if org \<noteq> [] then org else asname)
          in (Inr r, if r \<noteq> [] then s\<lparr>srv_isp_cache := (srv_isp_cache s)(ip \<mapsto> (r, e_now e))\<rparr> else s))"

definition getISPFromIP :: "srv_env \<Rightarrow> string \<Rightarrow> server \<Rightarrow> (unit + string) \<times> server" where
  "getISPFromIP e ip s =
     (if e_is_local e ip then (Inr [], s)
      else case srv_isp_cache s ip of
        Some (isp, cacheTime) \<Rightarrow>
          if e_now e - cacheTime < ispCacheTTL then (Inr isp, s) else fetch_isp e ip s
      | None \<Rightarrow> fetch_isp e ip s)"

section \<open>Going online and offline\<close>

definition choose_isp :: "srv_env \<Rightarrow> device_info \<Rightarrow> string \<Rightarrow> server \<Rightarrow> string \<times> server" where
  "choose_isp e di queryIP s =
     (if di_ISP di \<noteq> [] then (di_ISP di, s)
      else case getISPFromIP e queryIP s of (Inl _, s') \<Rightarrow> ([], s') | (Inr r, s') \<Rightarrow> (r, s'))"

text \<open>The part of going online that the code runs in a goroutine of its own.\<close>

definition record_login ::
  "srv_env \<Rightarrow> uid \<Rightarrow> user_session \<Rightarrow> device_info \<Rightarrow> string \<Rightarrow> string \<Rightarrow> server \<Rightarrow> server" where
  "record_login e uid session di ip statusBefore s =
     (let platform = (if di_Platform di = [] then ''desktop'' else di_Platform di);
          deviceName = (if di_DeviceModel di = [] \<or> di_DeviceModel di = ''Unknown''
                        then di_Platform di @ '' '' @ di_OSVersion di else di_DeviceModel di);
          loc0 = e_locate e ip;
          loc1 = (if loc_IP loc0 = [] then loc0\<lparr>loc_IP := ip\<rparr> else loc0);
          loc = (if loc_Timezone loc1 = [] then loc1\<lparr>loc_Timezone := di_Timezone di\<rparr> else loc1);
          s1 = s\<lparr>srv_users := snd (GetOrCreateUserDeviceSession (e_users e) uid (s_DeviceId session)
                 (e_finger e) (s_Sid session) platform deviceName loc (srv_users s))\<rparr>;
          queryIP = (if loc_IP loc \<noteq> [] \<and> loc_IP loc \<noteq> ip then loc_IP loc else ip);
          (isp, s2) = choose_isp e di queryIP s1
      in s2\<lparr>srv_users := snd (CreateUserOnlineHistory (e_users e)
           \<lparr>h_Sid = s_Sid session, h_Uid = uid, h_EventType = ''login'', h_EventSubtype = ''normal'',
            h_StatusBefore = statusBefore, h_StatusAfter = ''online'', h_Reason = ''online'',
            h_EventTime = 0, h_DeviceInfo = di, h_ISP = isp, h_LocationInfo = loc\<rparr> (srv_users s2))\<rparr>)"

definition handleUserOnline :: "srv_env \<Rightarrow> uid \<Rightarrow> server \<Rightarrow> server" where
  "handleUserOnline e uid s =
     (case GetClientByUid uid s of
        None \<Rightarrow> s
      | Some c \<Rightarrow>
          if c_conn c = 0 \<or> c_sid c = [] then s
          else (case GetUserSessionBySid (e_users e) (c_sid c) (srv_users s) of
             Inl _ \<Rightarrow> s
           | Inr session \<Rightarrow> with_status e uid (\<lambda>currentStatus s1.
               let ip = e_ip e (c_conn c); di = e_device e (c_conn c) in
               case UpdateUserCurrentStatusOnline (e_users e) uid (c_sid c) [] ip di (srv_users s1) of
                 (Inl _, u) \<Rightarrow> s1\<lparr>srv_users := u\<rparr>
               | (Inr _, u) \<Rightarrow>
                   deliverRoomMembersPresenceSnapshotToClient e uid
                     (broadcastRoomUserPresenceSync e uid
                       (broadcastFriendUserStatusSync e uid
                         (record_login e uid (session\<lparr>s_Sid := c_sid c\<rparr>) di ip (st_CurrentStatus currentStatus)
                           (sendUserInfoToClient e uid (s1\<lparr>srv_users := u\<rparr>)))))) s))"

definition onlineDuration :: "srv_env \<Rightarrow> user_session \<Rightarrow> int" where
  "onlineDuration e session =
     (if s_LoginTime session > 0 then (e_now e - s_LoginTime session) div 1000 else 0)"

definition handleUserOffline :: "srv_env \<Rightarrow> uid \<Rightarrow> string \<Rightarrow> string \<Rightarrow> server \<Rightarrow> server" where
  "handleUserOffline e uid eventSubtype reason s =
     with_status e uid (\<lambda>st s1.
       if st_CurrentSessionId st = [] then s1
       else
         let found = GetUserSessionBySid (e_users e) (st_CurrentSessionId st) (srv_users s1);
             s2 = (case found of
                Inl _ \<Rightarrow> s1
              | Inr session \<Rightarrow>
                  let u1 = snd (UpdateUserSessionLogout (e_users e) (s_Sid session) reason (srv_users s1))
                  in s1\<lparr>srv_users := snd (UpdateUserDeviceSessionLogout (e_users e) (s_Uid session)
                       (s_DeviceId session) (onlineDuration e session) u1)\<rparr>)
         in case UpdateUserCurrentStatusOffline (e_users e) uid reason (srv_users s2) of
              (Inl _, u) \<Rightarrow> s2\<lparr>srv_users := u\<rparr>
            | (Inr _, u) \<Rightarrow>
                let s3 = broadcastRoomUserPresenceSync e uid
                           (broadcastFriendUserStatusSync e uid (s2\<lparr>srv_users := u\<rparr>))
                in s3\<lparr>srv_users := snd (CreateUserOnlineHistory (e_users e)
                     \<lparr>h_Sid = (case found of Inl _ \<Rightarrow> st_CurrentSessionId st | Inr session \<Rightarrow> s_Sid session),
                      h_Uid = uid, h_EventType = ''logout'', h_EventSubtype = eventSubtype,
                      h_StatusBefore = st_CurrentStatus st, h_StatusAfter = ''offline'', h_Reason = reason,
                      h_EventTime = 0, h_DeviceInfo = st_DeviceInfo st, h_ISP = [],
                      h_LocationInfo = \<lparr>loc_IP = st_IP st, loc_Country = [], loc_City = [], loc_Timezone = []\<rparr>\<rparr>
                     (srv_users s3))\<rparr>)
       (s\<lparr>srv_media_offline := srv_media_offline s @ [uid]\<rparr>)"

section \<open>Connections come and go\<close>

definition registerLiveClient :: "srv_env \<Rightarrow> client \<Rightarrow> server \<Rightarrow> server" where
  "registerLiveClient e c s =
     (let s1 = presence_register e (c_uid c) (s\<lparr>srv_reg := reg_register c (srv_reg s)\<rparr>);
          s2 = removeHeartbeatKeys (c_uid c) (c_sid c) (c_conn c) s1
      in s2\<lparr>srv_hb := UpdateHeartbeat (heartbeatClientKey (c_uid c) (c_sid c) (c_conn c)) (e_now e) (srv_hb s2)\<rparr>)"

definition unregisterLiveClient :: "srv_env \<Rightarrow> uid \<Rightarrow> sid \<Rightarrow> connid \<Rightarrow> bool \<Rightarrow> server \<Rightarrow> server" where
  "unregisterLiveClient e uid sid connID forceClose s =
     (case removeIfMatch uid sid connID (srv_reg s) of
        (None, r) \<Rightarrow> s\<lparr>srv_reg := r\<rparr>
      | (Some c, r) \<Rightarrow>
          let s1 = presence_unregister e uid (s\<lparr>srv_reg := r\<rparr>);
              s2 = (if forceClose \<and> c_conn c \<noteq> 0 then CloseWithError (c_conn c) ''heartbeat timeout'' s1 else s1)
          in removeHeartbeatKeys uid sid connID s2)"

definition onClientClose :: "srv_env \<Rightarrow> uid \<Rightarrow> sid \<Rightarrow> connid \<Rightarrow> string \<Rightarrow> server \<Rightarrow> server" where
  "onClientClose e uid sid connID reason s =
     (if uid = [] \<or> sid = [] then s
      else if \<not> isCurrentConn uid sid connID (srv_reg s) then s
      else unregisterLiveClient e uid sid connID False (handleUserOffline e uid ''normal'' reason s))"

definition onClientTimeout :: "srv_env \<Rightarrow> uid \<Rightarrow> sid \<Rightarrow> connid \<Rightarrow> server \<Rightarrow> server" where
  "onClientTimeout e uid sid connID s =
     (if uid = [] \<or> sid = [] then s
      else if \<not> isCurrentConn uid sid connID (srv_reg s) then s
      else unregisterLiveClient e uid sid connID True (handleUserOffline e uid ''timeout'' ''heartbeat timeout'' s))"

definition publishClientTimeout :: "srv_env \<Rightarrow> uid \<Rightarrow> sid \<Rightarrow> connid \<Rightarrow> server \<Rightarrow> server" where
  "publishClientTimeout e uid sid connID s =
     (if srv_subscribed s then onClientTimeout e uid sid connID s else s)"

definition handleClientTimeout :: "srv_env \<Rightarrow> string \<Rightarrow> server \<Rightarrow> server" where
  "handleClientTimeout e clientKey s =
     (case parseHeartbeatClientKey clientKey of (uid, sid, connID, ok) \<Rightarrow>
        if \<not> ok then s
        else if connID = 0 then
          (case reg_get uid (srv_reg s) of
             None \<Rightarrow> removeHeartbeatKeys uid sid 0 s
           | Some c \<Rightarrow> if c_sid c \<noteq> sid then removeHeartbeatKeys uid sid 0 s
               else publishClientTimeout e uid sid (c_conn c) s)
        else publishClientTimeout e uid sid connID s)"

text \<open>Replacing an older connection, in the order of the code: session, notice, close, registry.\<close>

definition replaced_logout :: "srv_env \<Rightarrow> client \<Rightarrow> sid \<Rightarrow> server \<Rightarrow> server" where
  "replaced_logout e old newSid s =
     (if c_sid old \<noteq> [] \<and> newSid \<noteq> [] \<and> c_sid old \<noteq> newSid
      then s\<lparr>srv_users := snd (UpdateUserSessionLogout (e_users e) (c_sid old) ''connection_replaced'' (srv_users s))\<rparr>
      else s)"

definition replaced_close :: "srv_env \<Rightarrow> client \<Rightarrow> server \<Rightarrow> server" where
  "replaced_close e old s =
     (let s1 = snd (SendServerMessage e old (ForceOffline ''replaced'') s)
      in if c_conn old \<noteq> 0 then CloseWithError (c_conn old) ''replaced'' s1 else s1)"

definition disconnectReplacedClient :: "srv_env \<Rightarrow> client \<Rightarrow> sid \<Rightarrow> server \<Rightarrow> server" where
  "disconnectReplacedClient e old newSid s =
     unregisterLiveClient e (c_uid old) (c_sid old) (c_conn old) False
       (replaced_close e old (replaced_logout e old newSid s))"

definition early_online :: "srv_env \<Rightarrow> client \<Rightarrow> server \<Rightarrow> server" where
  "early_online e c s =
     (if c_sid c \<noteq> [] then s\<lparr>srv_users := snd (UpdateUserCurrentStatusOnline (e_users e) (c_uid c) (c_sid c) []
            (e_ip e (c_conn c)) (e_device e (c_conn c)) (srv_users s))\<rparr>
      else s)"

text \<open>\<open>handleConnect\<close>: \<open>auth\<close> is the outcome of accepting and authenticating the first stream.\<close>

definition handleConnect :: "srv_env \<Rightarrow> connid \<Rightarrow> (uid \<times> sid) option \<Rightarrow> server \<Rightarrow> server" where
  "handleConnect e conn auth s =
     (case auth of
        None \<Rightarrow> CloseWithError conn ''authentication failed'' s
      | Some (uid, sid) \<Rightarrow>
          let c = \<lparr>c_uid = uid, c_sid = sid, c_conn = conn\<rparr>;
              s1 = (case snapshotForReplace uid (srv_reg s) of
                      None \<Rightarrow> s | Some old \<Rightarrow> disconnectReplacedClient e old sid s)
          in registerLiveClient e c (early_online e c s1))"

section \<open>What a client missed\<close>

definition pushUnreadMessages :: "srv_env \<Rightarrow> uid \<Rightarrow> server \<Rightarrow> server" where
  "pushUnreadMessages e uid s =
     (case GetClientByUid uid s of
        None \<Rightarrow> s
      | Some c \<Rightarrow>
          let roomMessages = GetUnreadRoomMessagesByAck uid 15 (srv_messages s);
              filtered = filterUnreadRoomMessagesByBlock uid (srv_messages s) roomMessages
          in if roomMessages = [] \<or> filtered = [] then s
             else snd (SendServerMessage e c (RoomMessageBatch (rev filtered)) s))"

definition pushUnreadWithdrawMessages :: "srv_env \<Rightarrow> uid \<Rightarrow> server \<Rightarrow> server" where
  "pushUnreadWithdrawMessages e uid s =
     (case GetClientByUid uid s of
        None \<Rightarrow> s
      | Some c \<Rightarrow>
          let roomMessages = GetUnreadRoomMessagesWithdrawByAck uid 10000 (srv_messages s)
          in if roomMessages = [] then s
             else fold (\<lambda>b s. snd (SendServerMessage e c (RoomMessageWithdrawBatch b) s))
                    (batches 50 (rev roomMessages)) s)"

definition onClientOnline :: "srv_env \<Rightarrow> uid \<Rightarrow> server \<Rightarrow> server" where
  "onClientOnline e uid s =
     pushUnreadWithdrawMessages e uid (pushUnreadMessages e uid (handleUserOnline e uid s))"

section \<open>Shutdown\<close>

definition Shutdown :: "srv_env \<Rightarrow> server \<Rightarrow> server" where
  "Shutdown e s =
     (if srv_shutdown s then s
      else
        let clients = snapshotAll (srv_reg s);
            s1 = s\<lparr>srv_shutdown := True, srv_subscribed := False, srv_reg := reg_clear (srv_reg s)\<rparr>;
            s2 = fold (\<lambda>c. handleUserOffline e (c_uid c) ''server_shutdown'' ''server shutdown'') clients s1
        in fold (\<lambda>c s. if c_conn c \<noteq> 0 then CloseWithError (c_conn c) ''server shutdown'' s else s) clients s2)"

section \<open>What the handlers leave alone\<close>

text \<open>Sending, broadcasting and status changes do not touch connections, heartbeats or flags.\<close>

definition same_core :: "server \<Rightarrow> server \<Rightarrow> bool" where
  "same_core s s' \<longleftrightarrow> srv_reg s' = srv_reg s \<and> srv_hb s' = srv_hb s \<and> srv_presence s' = srv_presence s \<and>
     srv_closed s' = srv_closed s \<and> srv_subscribed s' = srv_subscribed s \<and> srv_shutdown s' = srv_shutdown s \<and>
     srv_messages s' = srv_messages s"

lemma same_core_refl [simp]: "same_core s s"
  by (simp add: same_core_def)

lemma same_core_trans: "same_core s s' \<Longrightarrow> same_core s' s'' \<Longrightarrow> same_core s s''"
  by (simp add: same_core_def)

lemma same_core_users [simp]: "same_core s (s\<lparr>srv_users := u\<rparr>)" "same_core s (s\<lparr>srv_media_offline := m\<rparr>)"
  by (simp_all add: same_core_def)

lemma same_core_users_trans: "same_core s s' \<Longrightarrow> same_core s (s'\<lparr>srv_users := u\<rparr>)"
  by (simp add: same_core_def)

lemma same_core_fold: "(\<And>x s. same_core s (f x s)) \<Longrightarrow> same_core s (fold f xs s)"
  by (induction xs arbitrary: s) (auto intro: same_core_trans)

lemma Send_core [frame]: "same_core s (snd (SendServerMessage e c msg s))"
  by (simp add: SendServerMessage_def same_core_def)

lemma deliver_all_core [frame]: "same_core s (deliver_all e msg uids s)"
  unfolding deliver_all_def by (rule same_core_fold) (auto simp: Send_core split: option.split)

lemma with_status_core [frame]:
  "(\<And>st s1. same_core s1 (f st s1)) \<Longrightarrow> same_core s (with_status e uid f s)"
  by (auto simp: with_status_def split: prod.split sum.split intro: same_core_trans [OF same_core_users(1)])

lemma broadcastFriend_core [frame]: "same_core s (broadcastFriendUserStatusSync e uid s)"
  unfolding broadcastFriendUserStatusSync_def
  by (rule with_status_core)
    (auto simp: Let_def split: option.split intro: deliver_all_core same_core_trans [OF deliver_all_core])

lemma broadcastRoom_core [frame]: "same_core s (broadcastRoomUserPresenceSync e uid s)"
  unfolding broadcastRoomUserPresenceSync_def
  by (rule with_status_core) (auto intro: deliver_all_core)

lemma offline_body_core:
  "same_core s1 s2 \<Longrightarrow> same_core s1 (case UpdateUserCurrentStatusOffline (e_users e) uid reason (srv_users s2) of
      (Inl _, u) \<Rightarrow> s2\<lparr>srv_users := u\<rparr>
    | (Inr _, u) \<Rightarrow> let s3 = broadcastRoomUserPresenceSync e uid (broadcastFriendUserStatusSync e uid (s2\<lparr>srv_users := u\<rparr>))
        in s3\<lparr>srv_users := h s3\<rparr>)"
  by (auto simp: Let_def split: prod.split sum.split
      intro!: same_core_users_trans same_core_trans [OF _ broadcastRoom_core]
        same_core_trans [OF _ broadcastFriend_core])

lemma handleUserOffline_core [frame]: "same_core s (handleUserOffline e uid sub reason s)"
  unfolding handleUserOffline_def
proof (rule same_core_trans [OF same_core_users(2) with_status_core])
  fix st and s1 :: server
  let ?found = "GetUserSessionBySid (e_users e) (st_CurrentSessionId st) (srv_users s1)"
  let ?s2 = "case ?found of Inl _ \<Rightarrow> s1 | Inr session \<Rightarrow>
     let u1 = snd (UpdateUserSessionLogout (e_users e) (s_Sid session) reason (srv_users s1))
     in s1\<lparr>srv_users := snd (UpdateUserDeviceSessionLogout (e_users e) (s_Uid session)
          (s_DeviceId session) (onlineDuration e session) u1)\<rparr>"
  have "same_core s1 ?s2" by (auto simp: Let_def split: sum.split)
  from offline_body_core [OF this]
  show "same_core s1 (if st_CurrentSessionId st = [] then s1 else
     let found = ?found; s2 = (case found of Inl _ \<Rightarrow> s1 | Inr session \<Rightarrow>
           let u1 = snd (UpdateUserSessionLogout (e_users e) (s_Sid session) reason (srv_users s1))
           in s1\<lparr>srv_users := snd (UpdateUserDeviceSessionLogout (e_users e) (s_Uid session)
                (s_DeviceId session) (onlineDuration e session) u1)\<rparr>)
     in case UpdateUserCurrentStatusOffline (e_users e) uid reason (srv_users s2) of
          (Inl _, u) \<Rightarrow> s2\<lparr>srv_users := u\<rparr>
        | (Inr _, u) \<Rightarrow>
            let s3 = broadcastRoomUserPresenceSync e uid
                       (broadcastFriendUserStatusSync e uid (s2\<lparr>srv_users := u\<rparr>))
            in s3\<lparr>srv_users := snd (CreateUserOnlineHistory (e_users e)
                 \<lparr>h_Sid = (case found of Inl _ \<Rightarrow> st_CurrentSessionId st | Inr session \<Rightarrow> s_Sid session),
                  h_Uid = uid, h_EventType = ''logout'', h_EventSubtype = sub,
                  h_StatusBefore = st_CurrentStatus st, h_StatusAfter = ''offline'', h_Reason = reason,
                  h_EventTime = 0, h_DeviceInfo = st_DeviceInfo st, h_ISP = [],
                  h_LocationInfo = \<lparr>loc_IP = st_IP st, loc_Country = [], loc_City = [], loc_Timezone = []\<rparr>\<rparr>
                 (srv_users s3))\<rparr>)"
    by (simp add: Let_def)
qed

section \<open>Replacement and removal\<close>

lemma removeHeartbeatKeys_frame [frame, simp]:
  "srv_reg (removeHeartbeatKeys uid sid k s) = srv_reg s"
  "srv_presence (removeHeartbeatKeys uid sid k s) = srv_presence s"
  "srv_closed (removeHeartbeatKeys uid sid k s) = srv_closed s"
  "srv_subscribed (removeHeartbeatKeys uid sid k s) = srv_subscribed s"
  "srv_users (removeHeartbeatKeys uid sid k s) = srv_users s"
  by (simp_all add: removeHeartbeatKeys_def)

lemma removeHeartbeatKeys_hb:
  assumes "hb_inv (srv_hb s)"
  shows "hb_inv (srv_hb (removeHeartbeatKeys uid sid k s))"
    and "GetLastHeartbeat key (srv_hb (removeHeartbeatKeys uid sid k s)) =
      (if uid \<noteq> [] \<and> sid \<noteq> [] \<and> (k \<noteq> 0 \<and> key = heartbeatClientKey uid sid k \<or> key = legacyHeartbeatClientKey uid sid)
       then None else GetLastHeartbeat key (srv_hb s))"
  using assms by (auto simp: removeHeartbeatKeys_def hb.inv_del_list hb.get_del_list hb.inv_del hb.get_del)

lemma presence_frame [frame, simp]:
  "srv_reg (presence_register e uid s) = srv_reg s" "srv_hb (presence_register e uid s) = srv_hb s"
  "srv_closed (presence_register e uid s) = srv_closed s"
  "srv_subscribed (presence_register e uid s) = srv_subscribed s"
  "srv_users (presence_register e uid s) = srv_users s"
  "srv_reg (presence_unregister e uid s) = srv_reg s" "srv_hb (presence_unregister e uid s) = srv_hb s"
  "srv_closed (presence_unregister e uid s) = srv_closed s"
  "srv_subscribed (presence_unregister e uid s) = srv_subscribed s"
  "srv_users (presence_unregister e uid s) = srv_users s"
  by (simp_all add: presence_register_def presence_unregister_def)

lemma CloseWithError_frame [frame, simp]:
  "srv_reg (CloseWithError k r s) = srv_reg s" "srv_hb (CloseWithError k r s) = srv_hb s"
  "srv_presence (CloseWithError k r s) = srv_presence s" "srv_users (CloseWithError k r s) = srv_users s"
  "srv_subscribed (CloseWithError k r s) = srv_subscribed s"
  "srv_closed (CloseWithError k r s) = srv_closed s @ [(k, r)]"
  by (simp_all add: CloseWithError_def)

text \<open>
  The state between events: the registry is in order and so are the heartbeats; the
  identifiers of live connections are as the authenticator hands them out.
\<close>

definition srv_ok :: "server \<Rightarrow> bool" where
  "srv_ok s \<longleftrightarrow> reg_ok (srv_reg s) \<and> hb_inv (srv_hb s) \<and>
     (\<forall>u c. reg_get u (srv_reg s) = Some c \<longrightarrow> plain_id (c_uid c) \<and> plain_id (c_sid c) \<and> c_conn c \<noteq> 0)"

lemma srv_ok_core: "same_core s s' \<Longrightarrow> srv_ok s' = srv_ok s"
  by (simp add: srv_ok_def same_core_def)

lemma unregister_stale: "reg_ok (srv_reg s) \<Longrightarrow> \<not> isCurrentConn uid sid k (srv_reg s) \<Longrightarrow>
   unregisterLiveClient e uid sid k fc s = s"
  by (auto simp: unregisterLiveClient_def removeIfMatch_def isCurrentConn_def split: option.splits)

lemma unregister_current:
  fixes e :: srv_env and fc :: bool
  assumes "isCurrentConn uid sid k (srv_reg s)" and "reg_ok (srv_reg s)" and "hb_inv (srv_hb s)"
  defines "s' \<equiv> unregisterLiveClient e uid sid k fc s"
  shows "reg_ok (srv_reg s')" and "hb_inv (srv_hb s')" and "srv_users s' = srv_users s"
    and "reg_get u (srv_reg s') = (if u = uid then None else reg_get u (srv_reg s))"
    and "srv_closed s' = srv_closed s @ (if fc then [(k, ''heartbeat timeout'')] else [])"
    and "GetLastHeartbeat key (srv_hb s') =
      (if uid \<noteq> [] \<and> sid \<noteq> [] \<and> (key = heartbeatClientKey uid sid k \<or> key = legacyHeartbeatClientKey uid sid)
       then None else GetLastHeartbeat key (srv_hb s))"
    and "srv_presence s' = srv_presence (presence_unregister e uid s)"
proof -
  obtain c where c: "reg_get uid (srv_reg s) = Some c" "c_sid c = sid" "c_conn c = k" "k \<noteq> 0"
    using assms(1) by (auto simp: lr.current_look)
  then have rm: "removeIfMatch uid sid k (srv_reg s) = (Some c, AList.delete uid (srv_reg s))"
    by (simp add: removeIfMatch_def reg_get_def)
  define cut where "cut = (let s1 = presence_unregister e uid (s\<lparr>srv_reg := AList.delete uid (srv_reg s)\<rparr>)
       in if fc then CloseWithError k ''heartbeat timeout'' s1 else s1)"
  have s': "s' = removeHeartbeatKeys uid sid k cut"
    using c rm by (simp add: s'_def unregisterLiveClient_def cut_def Let_def)
  have m: "srv_reg cut = AList.delete uid (srv_reg s)" "srv_hb cut = srv_hb s" "srv_users cut = srv_users s"
    "srv_closed cut = srv_closed s @ (if fc then [(k, ''heartbeat timeout'')] else [])"
    "srv_presence cut = srv_presence (presence_unregister e uid s)"
    by (simp_all add: cut_def Let_def presence_unregister_def)
  show "reg_ok (srv_reg s')" using lr.ok_drop [OF assms(2), of uid sid k] rm m(1) s' by simp
  show "reg_get u (srv_reg s') = (if u = uid then None else reg_get u (srv_reg s))"
    using lr.look_drop [OF assms(2), of u uid sid k] rm m(1) s' assms(1) by simp
  show "hb_inv (srv_hb s')" "srv_users s' = srv_users s"
    using assms(3) m s' by (simp_all add: removeHeartbeatKeys_hb)
  show "srv_closed s' = srv_closed s @ (if fc then [(k, ''heartbeat timeout'')] else [])"
    using m s' by simp
  show "GetLastHeartbeat key (srv_hb s') =
      (if uid \<noteq> [] \<and> sid \<noteq> [] \<and> (key = heartbeatClientKey uid sid k \<or> key = legacyHeartbeatClientKey uid sid)
       then None else GetLastHeartbeat key (srv_hb s))"
    using assms(3) m c(4) s' by (simp add: removeHeartbeatKeys_hb)
  show "srv_presence s' = srv_presence (presence_unregister e uid s)"
    using s' m(5) by simp
qed

lemma replaced_frame [frame]:
  "srv_reg (replaced_close e old (replaced_logout e old newSid s)) = srv_reg s"
  "srv_hb (replaced_close e old (replaced_logout e old newSid s)) = srv_hb s"
  "srv_closed (replaced_close e old (replaced_logout e old newSid s)) =
     srv_closed s @ (if c_conn old \<noteq> 0 then [(c_conn old, ''replaced'')] else [])"
  by (simp_all add: replaced_close_def replaced_logout_def SendServerMessage_def Let_def)

lemma early_online_frame [frame, simp]:
  "srv_reg (early_online e c s) = srv_reg s" "srv_hb (early_online e c s) = srv_hb s"
  "srv_closed (early_online e c s) = srv_closed s"
  by (simp_all add: early_online_def)

lemma registerLiveClient_effect:
  assumes "hb_inv (srv_hb s)" and "reg_ok (srv_reg s)"
  shows "reg_get u (srv_reg (registerLiveClient e c s)) = (if u = c_uid c then Some c else reg_get u (srv_reg s))"
    and "reg_ok (srv_reg (registerLiveClient e c s))" and "hb_inv (srv_hb (registerLiveClient e c s))"
    and "srv_closed (registerLiveClient e c s) = srv_closed s"
    and "GetLastHeartbeat (heartbeatClientKey (c_uid c) (c_sid c) (c_conn c)) (srv_hb (registerLiveClient e c s)) = Some (e_now e)"
    and "GetLastHeartbeat key (srv_hb s) = None \<Longrightarrow> key \<noteq> heartbeatClientKey (c_uid c) (c_sid c) (c_conn c) \<Longrightarrow>
         GetLastHeartbeat key (srv_hb (registerLiveClient e c s)) = None"
  using assms
  by (simp_all add: registerLiveClient_def Let_def lr.look_add lr.ok_add hb.inv_upd hb.get_upd removeHeartbeatKeys_hb)

lemma disconnect_effect:
  fixes e :: srv_env and newSid :: sid
  assumes "srv_ok s" and "reg_get uid (srv_reg s) = Some old"
  defines "s' \<equiv> disconnectReplacedClient e old newSid s"
  shows "reg_ok (srv_reg s')" and "hb_inv (srv_hb s')"
    and "reg_get u (srv_reg s') = (if u = uid then None else reg_get u (srv_reg s))"
    and "srv_closed s' = srv_closed s @ [(c_conn old, ''replaced'')]"
    and "GetLastHeartbeat (heartbeatClientKey uid (c_sid old) (c_conn old)) (srv_hb s') = None"
proof -
  have ok: "reg_ok (srv_reg s)" "hb_inv (srv_hb s)" "plain_id (c_uid old)" "plain_id (c_sid old)" "c_conn old \<noteq> 0"
    using assms(1,2) by (auto simp: srv_ok_def)
  have uid: "c_uid old = uid" using assms(2) ok(1) by (auto simp: reg_ok_def reg_get_def)
  let ?m = "replaced_close e old (replaced_logout e old newSid s)"
  have cur: "isCurrentConn uid (c_sid old) (c_conn old) (srv_reg ?m)"
    using assms(2) ok(5) by (auto simp: lr.current_look replaced_frame)
  have m: "reg_ok (srv_reg ?m)" "hb_inv (srv_hb ?m)" using ok by (simp_all add: replaced_frame)
  have s': "s' = unregisterLiveClient e uid (c_sid old) (c_conn old) False ?m"
    using uid by (simp add: s'_def disconnectReplacedClient_def)
  note un = unregister_current [OF cur m, where e = e and fc = False, folded s']
  show "reg_ok (srv_reg s')" "hb_inv (srv_hb s')" by (rule un(1), rule un(2))
  show "reg_get u (srv_reg s') = (if u = uid then None else reg_get u (srv_reg s))"
    using un(4) by (simp add: replaced_frame)
  show "srv_closed s' = srv_closed s @ [(c_conn old, ''replaced'')]"
    using un(5) ok(5) by (simp add: replaced_frame)
  show "GetLastHeartbeat (heartbeatClientKey uid (c_sid old) (c_conn old)) (srv_hb s') = None"
    using un(6) ok(3,4) uid by (auto simp: plain_id_def)
qed

lemma onClientClose_stale: "\<not> isCurrentConn uid sid k (srv_reg s) \<Longrightarrow> onClientClose e uid sid k reason s = s"
  by (simp add: onClientClose_def)

lemma onClientTimeout_stale: "\<not> isCurrentConn uid sid k (srv_reg s) \<Longrightarrow> onClientTimeout e uid sid k s = s"
  by (simp add: onClientTimeout_def)


text \<open>
  A heartbeat that stops ends the connection: when the sweep reports the key of the
  current connection, the user is no longer registered here, the connection is closed,
  its heartbeat entry is gone and the node is no longer advertised for the user, and
  every other user's connection stays.
\<close>

theorem timeout_disconnects:
  assumes "srv_ok s" and "reg_get uid (srv_reg s) = Some c" and "srv_subscribed s" and "\<not> e_presence_fails e"
  defines "s' \<equiv> handleClientTimeout e (heartbeatClientKey uid (c_sid c) (c_conn c)) s"
  shows "(reg_get u (srv_reg s') = (if u = uid then None else reg_get u (srv_reg s))) \<and>
     (srv_closed s' = srv_closed s @ [(c_conn c, ''heartbeat timeout'')]) \<and>
     (GetLastHeartbeat (heartbeatClientKey uid (c_sid c) (c_conn c)) (srv_hb s') = None) \<and>
     (srv_presence s' uid = None)"
proof (intro conjI)
  have c: "plain_id (c_uid c)" "plain_id (c_sid c)" "c_conn c \<noteq> 0" using assms(1,2) by (auto simp: srv_ok_def)
  have uid: "c_uid c = uid" using assms(1,2) by (auto simp: srv_ok_def reg_ok_def reg_get_def)
  let ?o = "handleUserOffline e uid ''timeout'' ''heartbeat timeout'' s"
  have core: "same_core s ?o" by (rule handleUserOffline_core)
  then have o: "srv_reg ?o = srv_reg s" "srv_hb ?o = srv_hb s" "srv_closed ?o = srv_closed s"
    by (simp_all add: same_core_def)
  have cur: "isCurrentConn uid (c_sid c) (c_conn c) (srv_reg s)"
    using assms(2) c(3) by (auto simp: lr.current_look)
  have s': "s' = unregisterLiveClient e uid (c_sid c) (c_conn c) True ?o"
    using c uid cur assms(3)
    by (simp add: s'_def handleClientTimeout_def key_parse publishClientTimeout_def onClientTimeout_def plain_idD)
  have pre: "isCurrentConn uid (c_sid c) (c_conn c) (srv_reg ?o)" "reg_ok (srv_reg ?o)" "hb_inv (srv_hb ?o)"
    using cur assms(1) o by (simp_all add: srv_ok_def)
  note un = unregister_current [OF pre, where e = e and fc = True, folded s']
  show "reg_get u (srv_reg s') = (if u = uid then None else reg_get u (srv_reg s))" using un(4) o(1) by simp
  show "srv_closed s' = srv_closed s @ [(c_conn c, ''heartbeat timeout'')]" using un(5) o(3) by simp
  show "GetLastHeartbeat (heartbeatClientKey uid (c_sid c) (c_conn c)) (srv_hb s') = None"
    using un(6) c uid by (simp add: plain_idD)
  show "srv_presence s' uid = None"
    using un(7) c(1) uid assms(4) by (simp add: presence_unregister_def plain_idD)
qed

section \<open>Any sequence of events\<close>

lemma fold_core_users: "same_core s s' \<Longrightarrow> srv_ok s' = srv_ok s \<and> srv_reg s' = srv_reg s \<and> srv_closed s' = srv_closed s"
  by (simp add: srv_ok_core) (simp add: same_core_def)

lemma sendUserInfo_core [frame]: "same_core s (sendUserInfoToClient e uid s)"
  by (auto simp: sendUserInfoToClient_def Send_core split: option.split)

lemma fetch_isp_core [frame]: "same_core s (snd (fetch_isp e ip s))"
  by (auto simp: fetch_isp_def same_core_def Let_def split: option.split)

lemma getISP_core [frame]: "same_core s (snd (getISPFromIP e ip s))"
  by (auto simp: getISPFromIP_def fetch_isp_core split: option.split)

lemma choose_isp_core [frame]: "same_core s (snd (choose_isp e di ip s))"
  using getISP_core [of s e ip] by (auto simp: choose_isp_def split: prod.splits sum.splits)

lemma record_login_core [frame]: "same_core s (record_login e uid session di ip st s)"
  unfolding record_login_def Let_def case_prod_beta
  by (rule same_core_users_trans, rule same_core_trans [OF same_core_users(1) choose_isp_core])

lemma snapshot_core [frame]: "same_core s (deliverRoomMembersPresenceSnapshotToClient e uid s)"
  unfolding deliverRoomMembersPresenceSnapshotToClient_def
  by (auto split: option.split intro!: same_core_fold with_status_core Send_core)

lemma handleUserOnline_core [frame]: "same_core s (handleUserOnline e uid s)"
  unfolding handleUserOnline_def
  by (auto simp: Let_def split: option.split sum.split prod.split
      intro!: with_status_core same_core_trans [OF _ snapshot_core] same_core_trans [OF _ broadcastRoom_core]
        same_core_trans [OF _ broadcastFriend_core] same_core_trans [OF _ record_login_core]
        same_core_trans [OF _ sendUserInfo_core])

lemma pushUnread_core [frame]: "same_core s (pushUnreadMessages e uid s)"
  by (auto simp: pushUnreadMessages_def Let_def Send_core split: option.split)

lemma pushUnreadWithdraw_core [frame]: "same_core s (pushUnreadWithdrawMessages e uid s)"
  unfolding pushUnreadWithdrawMessages_def
  by (auto simp: Let_def split: option.split intro!: same_core_fold Send_core)

lemma onClientOnline_core [frame]: "same_core s (onClientOnline e uid s)"
  unfolding onClientOnline_def
  by (rule same_core_trans [OF same_core_trans [OF handleUserOnline_core pushUnread_core] pushUnreadWithdraw_core])

datatype srv_event =
    Connect connid "(uid \<times> sid) option"
  | HeartbeatEvent uid sid connid
  | CloseEvent uid sid connid string
  | ExpiredKey string
  | OnlineEvent uid
  | ShutdownEvent

fun srv_exec1 :: "srv_event \<Rightarrow> srv_env \<Rightarrow> server \<Rightarrow> server" where
  "srv_exec1 (Connect k auth) e s = handleConnect e k auth s"
| "srv_exec1 (HeartbeatEvent uid sid k) e s = onHeartbeatUpdate e uid sid k s"
| "srv_exec1 (CloseEvent uid sid k reason) e s = onClientClose e uid sid k reason s"
| "srv_exec1 (ExpiredKey key) e s = handleClientTimeout e key s"
| "srv_exec1 (OnlineEvent uid) e s = onClientOnline e uid s"
| "srv_exec1 ShutdownEvent e s = Shutdown e s"

fun srv_exec :: "(srv_event \<times> srv_env) list \<Rightarrow> server \<Rightarrow> server" where
  "srv_exec [] s = s"
| "srv_exec ((ev, e) # evs) s = srv_exec evs (srv_exec1 ev e s)"

fun event_conns :: "srv_event \<Rightarrow> connid list" where
  "event_conns (Connect k _) = [k]"
| "event_conns _ = []"

fun event_ok :: "srv_event \<Rightarrow> bool" where
  "event_ok (Connect k auth) = (k \<noteq> 0 \<and> (case auth of None \<Rightarrow> True | Some (uid, sid) \<Rightarrow> plain_id uid \<and> plain_id sid))"
| "event_ok _ = True"

text \<open>\<open>used\<close> are the connections seen so far.\<close>

definition conns_ok :: "connid set \<Rightarrow> server \<Rightarrow> bool" where
  "conns_ok used s \<longleftrightarrow> srv_ok s \<and> fst ` set (srv_closed s) \<subseteq> used \<and>
     (\<forall>u c. reg_get u (srv_reg s) = Some c \<longrightarrow> c_conn c \<in> used \<and> c_conn c \<notin> fst ` set (srv_closed s)) \<and>
     (\<forall>u c u' c'. reg_get u (srv_reg s) = Some c \<longrightarrow> reg_get u' (srv_reg s) = Some c' \<longrightarrow> c_conn c = c_conn c' \<longrightarrow> u = u')"

lemma conns_ok_core: "same_core s s' \<Longrightarrow> conns_ok used s' = conns_ok used s"
  by (simp add: conns_ok_def srv_ok_core) (simp add: same_core_def)

lemma conns_ok_D:
  assumes "conns_ok used s"
  shows "srv_ok s" and "fst ` set (srv_closed s) \<subseteq> used" and "reg_ok (srv_reg s)" and "hb_inv (srv_hb s)"
    and "reg_get u (srv_reg s) = Some c \<Longrightarrow> c_conn c \<in> used"
    and "reg_get u (srv_reg s) = Some c \<Longrightarrow> c_conn c \<notin> fst ` set (srv_closed s)"
    and "reg_get u (srv_reg s) = Some c \<Longrightarrow> reg_get u' (srv_reg s) = Some c' \<Longrightarrow> c_conn c = c_conn c' \<Longrightarrow> u = u'"
  using assms unfolding conns_ok_def srv_ok_def by blast+

lemma conns_ok_drop:
  assumes "conns_ok used s" and "isCurrentConn uid sid k (srv_reg s)"
  shows "conns_ok used (unregisterLiveClient e uid sid k fc s)"
proof -
  have ok: "reg_ok (srv_reg s)" "hb_inv (srv_hb s)" using assms(1) by (simp_all add: conns_ok_def srv_ok_def)
  obtain c where c: "reg_get uid (srv_reg s) = Some c" "c_conn c = k"
    using assms(2) by (auto simp: lr.current_look)
  note un = unregister_current [OF assms(2) ok, where e = e and fc = fc]
  let ?s' = "unregisterLiveClient e uid sid k fc s"
  note D = conns_ok_D [OF assms(1)]
  have closed: "fst ` set (srv_closed ?s') \<subseteq> insert k (fst ` set (srv_closed s))" using un(5) by auto
  have kept: "u \<noteq> uid \<and> reg_get u (srv_reg s) = Some d" if "reg_get u (srv_reg ?s') = Some d" for u d
    using un(4) [where u = u] that by (simp split: if_splits)
  show ?thesis
    unfolding conns_ok_def
  proof (intro conjI allI impI)
    show "srv_ok ?s'" using un(1,2) kept D(1) unfolding srv_ok_def by blast
    have "k \<in> used" using D(5) [OF c(1)] c(2) by simp
    with closed D(2) show "fst ` set (srv_closed ?s') \<subseteq> used" by blast
  next
    fix u d assume d: "reg_get u (srv_reg ?s') = Some d"
    from kept [OF this] have u: "u \<noteq> uid" "reg_get u (srv_reg s) = Some d" by simp_all
    from u D(5) show "c_conn d \<in> used" by simp
    have "c_conn d \<noteq> k" using D(7) [OF u(2) c(1)] c(2) u(1) by auto
    with D(6) [OF u(2)] closed show "c_conn d \<notin> fst ` set (srv_closed ?s')" by blast
  next
    fix u d u' d'
    assume "reg_get u (srv_reg ?s') = Some d" "reg_get u' (srv_reg ?s') = Some d'" "c_conn d = c_conn d'"
    with kept D(7) show "u = u'" by blast
  qed
qed

lemma conns_ok_close:
  "conns_ok used s \<Longrightarrow> conns_ok used (onClientClose e uid sid k reason s)"
  "conns_ok used s \<Longrightarrow> conns_ok used (onClientTimeout e uid sid k s)"
proof -
  assume a: "conns_ok used s"
  have o: "conns_ok used (handleUserOffline e uid sub r s)"
    "srv_reg (handleUserOffline e uid sub r s) = srv_reg s" for sub r
    using conns_ok_core [OF handleUserOffline_core] a handleUserOffline_core [of s e uid sub r]
    by (auto simp: same_core_def)
  show "conns_ok used (onClientClose e uid sid k reason s)"
    using a o by (simp add: onClientClose_def conns_ok_drop)
  show "conns_ok used (onClientTimeout e uid sid k s)"
    using a o by (simp add: onClientTimeout_def conns_ok_drop)
qed

lemma conns_ok_hb:
  "conns_ok used s \<Longrightarrow> hb_inv (srv_hb s') \<Longrightarrow> srv_reg s' = srv_reg s \<Longrightarrow> srv_closed s' = srv_closed s \<Longrightarrow> conns_ok used s'"
  by (simp add: conns_ok_def srv_ok_def)

lemma conns_ok_hbD: "conns_ok used s \<Longrightarrow> hb_inv (srv_hb s)"
  by (simp add: conns_ok_def srv_ok_def)

lemma conns_ok_timeout_key: "conns_ok used s \<Longrightarrow> conns_ok used (handleClientTimeout e key s)"
  by (auto simp: handleClientTimeout_def publishClientTimeout_def conns_ok_close split: prod.split option.split
      intro!: conns_ok_hb [of used s] removeHeartbeatKeys_hb(1) dest: conns_ok_hbD)

lemma conns_ok_register:
  assumes "conns_ok used s" and "k \<notin> used" and "k \<noteq> 0" and "plain_id uid" and "plain_id sid"
  shows "conns_ok (insert k used) (registerLiveClient e \<lparr>c_uid = uid, c_sid = sid, c_conn = k\<rparr> s)"
proof -
  let ?c = "\<lparr>c_uid = uid, c_sid = sid, c_conn = k\<rparr>"
  note D = conns_ok_D [OF assms(1)]
  have ok: "hb_inv (srv_hb s)" "reg_ok (srv_reg s)" by (rule D(4), rule D(3))
  note r = registerLiveClient_effect [OF ok, where e = e and c = ?c, simplified]
  have look: "reg_get u (srv_reg (registerLiveClient e ?c s)) = Some d \<Longrightarrow>
      u = uid \<and> d = ?c \<or> u \<noteq> uid \<and> reg_get u (srv_reg s) = Some d" for u d
    using r(1) [where u = u] by (simp split: if_splits)
  show ?thesis
    unfolding conns_ok_def
  proof (intro conjI allI impI)
    show "srv_ok (registerLiveClient e ?c s)"
      unfolding srv_ok_def
    proof (intro conjI allI impI)
      show "reg_ok (srv_reg (registerLiveClient e ?c s))" "hb_inv (srv_hb (registerLiveClient e ?c s))"
        by (rule r(2), rule r(3))
      fix u d assume "reg_get u (srv_reg (registerLiveClient e ?c s)) = Some d"
      from look [OF this] D(1) assms(3-5) show "plain_id (c_uid d)" "plain_id (c_sid d)" "c_conn d \<noteq> 0"
        unfolding srv_ok_def by auto
    qed
    show "fst ` set (srv_closed (registerLiveClient e ?c s)) \<subseteq> insert k used"
      using r(4) D(2) by auto
  next
    fix u d assume d: "reg_get u (srv_reg (registerLiveClient e ?c s)) = Some d"
    from look [OF this] have or: "c_conn d = k \<or> reg_get u (srv_reg s) = Some d" by auto
    with D(5) show "c_conn d \<in> insert k used" by blast
    have "k \<notin> fst ` set (srv_closed s)" using D(2) assms(2) by blast
    with or D(6) show "c_conn d \<notin> fst ` set (srv_closed (registerLiveClient e ?c s))"
      unfolding r(4) by blast
  next
    fix u d u' d'
    assume d: "reg_get u (srv_reg (registerLiveClient e ?c s)) = Some d"
      "reg_get u' (srv_reg (registerLiveClient e ?c s)) = Some d'" "c_conn d = c_conn d'"
    have old: "c_conn x \<noteq> k" if "reg_get v (srv_reg s) = Some x" for v x
      using D(5) [OF that] assms(2) by blast
    show "u = u'"
      using look [OF d(1)] look [OF d(2)] d(3) old D(7) by (metis client.select_convs(3))
  qed
qed

lemma conns_ok_connect:
  assumes "conns_ok used s" and "k \<notin> used" and "event_ok (Connect k auth)"
  shows "conns_ok (insert k used) (handleConnect e k auth s)"
proof (cases auth)
  case None
  with assms(1,2) conns_ok_D [OF assms(1)] show ?thesis
    by (auto simp: handleConnect_def conns_ok_def srv_ok_def)
next
  case (Some a)
  obtain uid sid where a: "a = (uid, sid)" by fastforce
  have ids: "plain_id uid" "plain_id sid" "k \<noteq> 0" using assms(3) Some a by simp_all
  let ?s1 = "case snapshotForReplace uid (srv_reg s) of None \<Rightarrow> s | Some old \<Rightarrow> disconnectReplacedClient e old sid s"
  have s1: "conns_ok used ?s1"
  proof (cases "reg_get uid (srv_reg s)")
    case None
    with assms(1) show ?thesis by simp
  next
    case (Some old)
    note D = conns_ok_D [OF assms(1)]
    have uid: "c_uid old = uid" using D(3) Some by (auto simp: reg_ok_def reg_get_def)
    note d = disconnect_effect [OF D(1) Some, where e = e and newSid = sid]
    let ?d = "disconnectReplacedClient e old sid s"
    have kept: "u \<noteq> uid \<and> reg_get u (srv_reg s) = Some x" if "reg_get u (srv_reg ?d) = Some x" for u x
      using d(3) [where u = u] that by (simp split: if_splits)
    have closed: "fst ` set (srv_closed ?d) = insert (c_conn old) (fst ` set (srv_closed s))" using d(4) by auto
    have "conns_ok used ?d"
      unfolding conns_ok_def
    proof (intro conjI allI impI)
      show "srv_ok ?d" using d(1,2) kept D(1) unfolding srv_ok_def by blast
      show "fst ` set (srv_closed ?d) \<subseteq> used" using closed D(2) D(5) [OF Some] by simp
    next
      fix u x assume "reg_get u (srv_reg ?d) = Some x"
      from kept [OF this] have u: "u \<noteq> uid" "reg_get u (srv_reg s) = Some x" by simp_all
      from u D(5) show "c_conn x \<in> used" by simp
      have "c_conn x \<noteq> c_conn old" using D(7) [OF u(2) Some] u(1) by auto
      with D(6) [OF u(2)] closed show "c_conn x \<notin> fst ` set (srv_closed ?d)" by blast
    next
      fix u x u' x'
      assume "reg_get u (srv_reg ?d) = Some x" "reg_get u' (srv_reg ?d) = Some x'" "c_conn x = c_conn x'"
      with kept D(7) show "u = u'" by blast
    qed
    with Some show ?thesis by simp
  qed
  have "conns_ok used (early_online e \<lparr>c_uid = uid, c_sid = sid, c_conn = k\<rparr> ?s1)"
    using s1 by (rule conns_ok_hb) (use conns_ok_D(4) [OF s1] in simp_all)
  from conns_ok_register [OF this assms(2) ids(3,1,2)] Some a show ?thesis
    by (simp add: handleConnect_def Let_def)
qed

lemma shutdown_offline_core: "same_core s (fold (\<lambda>c. handleUserOffline e (c_uid c) sub r) cs s)"
  by (rule same_core_fold) (rule handleUserOffline_core)

lemma fold_close:
  "srv_closed (fold (\<lambda>c s. if c_conn c \<noteq> 0 then CloseWithError (c_conn c) r s else s) cs s)
     = srv_closed s @ map (\<lambda>c. (c_conn c, r)) (filter (\<lambda>c. c_conn c \<noteq> 0) cs)"
  "srv_reg (fold (\<lambda>c s. if c_conn c \<noteq> 0 then CloseWithError (c_conn c) r s else s) cs s) = srv_reg s"
  "srv_hb (fold (\<lambda>c s. if c_conn c \<noteq> 0 then CloseWithError (c_conn c) r s else s) cs s) = srv_hb s"
  "srv_shutdown (fold (\<lambda>c s. if c_conn c \<noteq> 0 then CloseWithError (c_conn c) r s else s) cs s) = srv_shutdown s"
  by (induction cs arbitrary: s) (auto simp: CloseWithError_def)

lemma Shutdown_effect:
  assumes "\<not> srv_shutdown s"
  shows "srv_reg (Shutdown e s) = []" and "srv_hb (Shutdown e s) = srv_hb s" and "srv_shutdown (Shutdown e s)"
    and "srv_closed (Shutdown e s) = srv_closed s @
      map (\<lambda>c. (c_conn c, ''server shutdown'')) (filter (\<lambda>c. c_conn c \<noteq> 0) (snapshotAll (srv_reg s)))"
proof -
  let ?s1 = "s\<lparr>srv_shutdown := True, srv_subscribed := False, srv_reg := reg_clear (srv_reg s)\<rparr>"
  have "same_core ?s1 (fold (\<lambda>c. handleUserOffline e (c_uid c) ''server_shutdown'' ''server shutdown'')
      (snapshotAll (srv_reg s)) ?s1)"
    by (rule shutdown_offline_core)
  with assms show "srv_reg (Shutdown e s) = []" "srv_hb (Shutdown e s) = srv_hb s" "srv_shutdown (Shutdown e s)"
    "srv_closed (Shutdown e s) = srv_closed s @
      map (\<lambda>c. (c_conn c, ''server shutdown'')) (filter (\<lambda>c. c_conn c \<noteq> 0) (snapshotAll (srv_reg s)))"
    by (simp_all add: Shutdown_def Let_def fold_close same_core_def reg_clear_def)
qed

lemma conns_ok_shutdown: 
  assumes "conns_ok used s"
  shows "conns_ok used (Shutdown e s)"
proof (cases "srv_shutdown s")
  case True
  with assms show ?thesis by (simp add: Shutdown_def)
next
  case False
  note D = conns_ok_D [OF assms]
  have "c_conn c \<in> used" if "c \<in> set (snapshotAll (srv_reg s))" for c
  proof -
    from that obtain u where "(u, c) \<in> set (srv_reg s)" by (auto simp: snapshotAll_def)
    then have "reg_get u (srv_reg s) = Some c" using D(3) by (simp add: reg_ok_def reg_get_def)
    then show ?thesis by (rule D(5))
  qed
  then show ?thesis
    using Shutdown_effect [OF False, of e] D(2,4)
    by (auto simp: conns_ok_def srv_ok_def reg_get_def reg_ok_def)
qed

lemma conns_ok_heartbeat:
  assumes "conns_ok used s"
  shows "conns_ok used (onHeartbeatUpdate e uid sid k s)"
  by (rule conns_ok_hb [OF assms])
    (use conns_ok_D(4) [OF assms] in \<open>auto simp: onHeartbeatUpdate_def Let_def hb.inv_upd\<close>)

lemma srv_exec1_ok:
  "conns_ok used s \<Longrightarrow> event_ok ev \<Longrightarrow> set (event_conns ev) \<inter> used = {} \<Longrightarrow>
   conns_ok (used \<union> set (event_conns ev)) (srv_exec1 ev e s)"
proof (cases ev)
  case (OnlineEvent uid)
  then show "conns_ok used s \<Longrightarrow> ?thesis" using conns_ok_core [OF onClientOnline_core] by simp
qed (simp_all add: conns_ok_connect conns_ok_heartbeat conns_ok_close conns_ok_timeout_key conns_ok_shutdown)

lemma srv_exec_ok:
  assumes "conns_ok used s" and "\<forall>(ev, e) \<in> set evs. event_ok ev"
    and "distinct (concat (map (event_conns \<circ> fst) evs))"
    and "set (concat (map (event_conns \<circ> fst) evs)) \<inter> used = {}"
  shows "conns_ok (used \<union> set (concat (map (event_conns \<circ> fst) evs))) (srv_exec evs s)"
  using assms
proof (induction evs s arbitrary: used rule: srv_exec.induct)
  case (2 ev e evs s)
  have "conns_ok (used \<union> set (event_conns ev)) (srv_exec1 ev e s)"
    using "2.prems" by (intro srv_exec1_ok) auto
  from "2.IH" [OF this] "2.prems" show ?case by (auto simp: Un_assoc)
qed simp

definition empty_server :: "user_store \<Rightarrow> server" where
  "empty_server us = \<lparr>srv_reg = newClientRegistry, srv_hb = NewManager 14000 5000, srv_presence = Map.empty,
     srv_users = us, srv_messages = empty_db, srv_closed = [], srv_sent = [], srv_media_offline = [],
     srv_isp_cache = Map.empty, srv_subscribed = True, srv_shutdown = False\<rparr>"

lemma empty_server_ok: "conns_ok {} (empty_server us)"
  by (simp add: conns_ok_def srv_ok_def empty_server_def newClientRegistry_def reg_ok_def reg_get_def NewManager_inv)


section \<open>Concrete runs\<close>

definition demo_srv_env :: srv_env where
  "demo_srv_env = \<lparr>e_now = 5000, e_node = ''n1'', e_users = quiet_env, e_presence_fails = False,
     e_can_send = (\<lambda>_. True), e_ip = (\<lambda>_. ''10.0.0.1''), e_device = (\<lambda>_. empty_device),
     e_friend_groups = (\<lambda>_. Some []), e_members = (\<lambda>_. Some []), e_share = (\<lambda>_. Some []),
     e_profile = (\<lambda>_. True),
     e_locate = (\<lambda>_. \<lparr>loc_IP = [], loc_Country = [], loc_City = [], loc_Timezone = []\<rparr>),
     e_is_local = (\<lambda>_. True), e_isp_api = (\<lambda>_. None), e_finger = ''f''\<rparr>"

definition demo_users :: user_store where
  "demo_users = session_exec [(Login ''s1'' ''u'' ''d'' [] ''http'' [] [] [] True, quiet_env)] empty_users"

definition demo_server :: server where
  "demo_server = srv_exec [(Connect 1 (Some (''u'', ''s1'')), demo_srv_env)] (empty_server demo_users)"

lemma demo_server_ok: "srv_ok demo_server"
proof -
  have "conns_ok ({} \<union> set (concat (map (event_conns \<circ> fst) [(Connect 1 (Some (''u'', ''s1'')), demo_srv_env)]))) demo_server"
    unfolding demo_server_def by (rule srv_exec_ok [OF empty_server_ok]) (auto simp: plain_id_def)
  then show ?thesis by (rule conns_ok_D(1))
qed

lemma demo_server_reg: "reg_get ''u'' (srv_reg demo_server) = Some \<lparr>c_uid = ''u'', c_sid = ''s1'', c_conn = 1\<rparr>"
  by code_simp



theorem timeout_disconnects_witness:
  "reg_get ''u'' (srv_reg (handleClientTimeout demo_srv_env (heartbeatClientKey ''u'' ''s1'' 1) demo_server)) = None"
proof -
  have "srv_subscribed demo_server" by code_simp
  from timeout_disconnects [OF demo_server_ok demo_server_reg this, where e = demo_srv_env and u = "''u''"]
  show ?thesis by (simp add: demo_srv_env_def)
qed

section \<open>Connects that interleave\<close>

text \<open>
  \<open>handleConnect\<close> runs in a goroutine per connection, and the old connection's accept
  loop publishes its close event as soon as the connection is closed. Where each
  authenticated connection is, and the close events under way:
\<close>

datatype connect_pc =
    Absent
  | Authenticated uid sid
  | Replacing client uid sid
  | ClosedOld client uid sid
  | Entering uid sid
  | Live client

record connect_state =
  n_srv :: server
  n_pc :: "connid \<Rightarrow> connect_pc"
  n_closing :: "client list"

definition at_pc :: "connid \<Rightarrow> connect_pc \<Rightarrow> connect_state \<Rightarrow> connect_state" where
  "at_pc k p st = st\<lparr>n_pc := (n_pc st)(k := p)\<rparr>"

inductive connect_step :: "srv_env \<Rightarrow> connect_state \<Rightarrow> connect_state \<Rightarrow> bool" for e where
  find_old: "n_pc st k = Authenticated uid sid \<Longrightarrow> snapshotForReplace uid (srv_reg (n_srv st)) = Some old \<Longrightarrow>
     connect_step e st (at_pc k (Replacing old uid sid) st)"
| find_none: "n_pc st k = Authenticated uid sid \<Longrightarrow> snapshotForReplace uid (srv_reg (n_srv st)) = None \<Longrightarrow>
     connect_step e st (at_pc k (Entering uid sid) st)"
| close_old: "n_pc st k = Replacing old uid sid \<Longrightarrow>
     connect_step e st (at_pc k (ClosedOld old uid sid)
       (st\<lparr>n_srv := replaced_close e old (replaced_logout e old sid (n_srv st)), n_closing := old # n_closing st\<rparr>))"
| unregister_old: "n_pc st k = ClosedOld old uid sid \<Longrightarrow>
     connect_step e st (at_pc k (Entering uid sid)
       (st\<lparr>n_srv := unregisterLiveClient e (c_uid old) (c_sid old) (c_conn old) False (n_srv st)\<rparr>))"
| enter: "n_pc st k = Entering uid sid \<Longrightarrow> c = \<lparr>c_uid = uid, c_sid = sid, c_conn = k\<rparr> \<Longrightarrow>
     connect_step e st (at_pc k (Live c) (st\<lparr>n_srv := registerLiveClient e c (early_online e c (n_srv st))\<rparr>))"
| close_event: "c \<in> set (n_closing st) \<Longrightarrow>
     connect_step e st (st\<lparr>n_srv := onClientClose e (c_uid c) (c_sid c) (c_conn c) ''closed'' (n_srv st),
       n_closing := remove1 c (n_closing st)\<rparr>)"

inductive_cases connect_stepE: "connect_step e st st'"

inductive connect_run :: "srv_env \<Rightarrow> connect_state \<Rightarrow> connect_state \<Rightarrow> bool" for e where
  rest: "connect_run e st st"
| more: "connect_run e st st' \<Longrightarrow> connect_step e st' st'' \<Longrightarrow> connect_run e st st''"

text \<open>Run alone, the steps are \<open>handleConnect\<close>.\<close>

lemma connect_run_alone:
  assumes "n_pc st k = Authenticated uid sid"
  shows "\<exists>st'. connect_run e st st' \<and> n_srv st' = handleConnect e k (Some (uid, sid)) (n_srv st)"
proof (cases "snapshotForReplace uid (srv_reg (n_srv st))")
  case None
  note r1 = connect_run.more [OF connect_run.rest find_none [where e = e, OF assms None]]
  note r2 = connect_run.more [OF r1 enter [where k = k and uid = uid and sid = sid, OF _ refl]]
  show ?thesis
    by (intro exI conjI, rule r2) (use None in \<open>simp_all add: at_pc_def handleConnect_def Let_def\<close>)
next
  case (Some old)
  note r1 = connect_run.more [OF connect_run.rest find_old [where e = e, OF assms Some]]
  note r2 = connect_run.more [OF r1 close_old [where k = k and old = old and uid = uid and sid = sid]]
  note r3 = connect_run.more [OF r2 unregister_old [where k = k and old = old and uid = uid and sid = sid]]
  note r4 = connect_run.more [OF r3 enter [where k = k and uid = uid and sid = sid, OF _ refl]]
  show ?thesis
    by (intro exI conjI, rule r4)
      (use Some in \<open>simp_all add: at_pc_def handleConnect_def disconnectReplacedClient_def Let_def\<close>)
qed

definition two_connects :: connect_state where
  "two_connects = \<lparr>n_srv = empty_server demo_users,
     n_pc = (\<lambda>k. if k = 2 \<or> k = 3 then Authenticated ''u'' ''s1'' else Absent), n_closing = []\<rparr>"

text \<open>
  Two connects of one user that overlap can leave an orphan: both find no older
  connection, both register, and the first stays open, closed by nobody and known to
  nobody: every event it produces is treated as stale.
\<close>

theorem overlapping_connects_orphan_one:
  "\<exists>st. connect_run demo_srv_env two_connects st \<and>
     n_pc st 2 = Live \<lparr>c_uid = ''u'', c_sid = ''s1'', c_conn = 2\<rparr> \<and>
     reg_get ''u'' (srv_reg (n_srv st)) = Some \<lparr>c_uid = ''u'', c_sid = ''s1'', c_conn = 3\<rparr> \<and>
     2 \<notin> fst ` set (srv_closed (n_srv st)) \<and>
     (\<forall>e reason. onClientClose e ''u'' ''s1'' 2 reason (n_srv st) = n_srv st \<and>
        onClientTimeout e ''u'' ''s1'' 2 (n_srv st) = n_srv st)"
proof -
  note r1 = connect_run.more [OF connect_run.rest find_none [where e = demo_srv_env and st = two_connects and k = 2
        and uid = "''u''" and sid = "''s1''"]]
  note r2 = connect_run.more [OF r1 find_none [where k = 3 and uid = "''u''" and sid = "''s1''"]]
  note r3 = connect_run.more [OF r2 enter [where k = 2 and uid = "''u''" and sid = "''s1''", OF _ refl]]
  note r4 = connect_run.more [OF r3 enter [where k = 3 and uid = "''u''" and sid = "''s1''", OF _ refl]]
  show ?thesis
  proof (intro exI conjI allI, rule r4)
  qed (simp_all add: at_pc_def two_connects_def empty_server_def newClientRegistry_def reg_get_def
      registerLiveClient_def reg_register_def Let_def onClientClose_stale onClientTimeout_stale isCurrentConn_def)
qed

definition reconnecting :: connect_state where
  "reconnecting = \<lparr>n_srv = demo_server,
     n_pc = (\<lambda>k. if k = 2 then Authenticated ''u'' ''s1'' else Absent), n_closing = []\<rparr>"

text \<open>
  A reconnect with the same session can end with that session revoked: when the
  close event of the old connection is handled between the close and the removal of the
  old connection, it still counts as current, and going offline logs the shared session
  out; the new connection is live, but its session no longer validates.
\<close>

theorem reconnect_may_revoke_its_session:
  "ValidateActiveUserSession quiet_env ''u'' ''s1'' (srv_users (n_srv reconnecting)) = Inr True \<and>
   (\<exists>st. connect_run demo_srv_env reconnecting st \<and>
      reg_get ''u'' (srv_reg (n_srv st)) = Some \<lparr>c_uid = ''u'', c_sid = ''s1'', c_conn = 2\<rparr> \<and>
      ValidateActiveUserSession quiet_env ''u'' ''s1'' (srv_users (n_srv st)) = Inr False)"
proof
  show "ValidateActiveUserSession quiet_env ''u'' ''s1'' (srv_users (n_srv reconnecting)) = Inr True"
    by code_simp
  let ?old = "\<lparr>c_uid = ''u'', c_sid = ''s1'', c_conn = 1\<rparr>"
  note r1 = connect_run.more [OF connect_run.rest find_old [where e = demo_srv_env and st = reconnecting and k = 2
        and uid = "''u''" and sid = "''s1''" and old = ?old]]
  note r2 = connect_run.more [OF r1 close_old [where k = 2 and uid = "''u''" and sid = "''s1''" and old = ?old]]
  note r3 = connect_run.more [OF r2 close_event [where c = ?old]]
  note r4 = connect_run.more [OF r3 unregister_old [where k = 2 and uid = "''u''" and sid = "''s1''" and old = ?old]]
  note r5 = connect_run.more [OF r4 enter [where k = 2 and uid = "''u''" and sid = "''s1''", OF _ refl]]
  let ?new = "\<lparr>c_uid = ''u'', c_sid = ''s1'', c_conn = 2\<rparr>"
  let ?S1 = "replaced_close demo_srv_env ?old (replaced_logout demo_srv_env ?old ''s1'' demo_server)"
  let ?S2 = "onClientClose demo_srv_env ''u'' ''s1'' 1 ''closed'' ?S1"
  let ?S3 = "unregisterLiveClient demo_srv_env ''u'' ''s1'' 1 False ?S2"
  let ?S4 = "registerLiveClient demo_srv_env ?new (early_online demo_srv_env ?new ?S3)"
  have "let s = ?S4 in reg_get ''u'' (srv_reg s) = Some ?new \<and>
      ValidateActiveUserSession quiet_env ''u'' ''s1'' (srv_users s) = Inr False" by code_simp
  then have reg: "reg_get ''u'' (srv_reg ?S4) = Some ?new"
    and revoked: "ValidateActiveUserSession quiet_env ''u'' ''s1'' (srv_users ?S4) = Inr False"
    unfolding Let_def by blast+
  show "\<exists>st. connect_run demo_srv_env reconnecting st \<and>
      reg_get ''u'' (srv_reg (n_srv st)) = Some ?new \<and>
      ValidateActiveUserSession quiet_env ''u'' ''s1'' (srv_users (n_srv st)) = Inr False"
    by (intro exI conjI, rule r5) (simp_all add: at_pc_def reconnecting_def demo_server_reg reg revoked)
qed

section \<open>What a client missed, in batches\<close>

lemma fold_send:
  "e_can_send e (c_conn c) \<Longrightarrow>
   srv_sent (fold (\<lambda>b s. snd (SendServerMessage e c (f b) s)) bs s) = srv_sent s @ map (\<lambda>b. (c_conn c, f b)) bs"
  by (induction bs arbitrary: s) (simp_all add: SendServerMessage_def)



end
