(* ===== verification/Rooms.thy ===== *)
theory Rooms
  imports Prelude
begin

text \<open>
  Rooms and their members: the queries of \<open>db/query/room.go\<close> with the member list cached
  in Redis, and the membership operations of \<open>room_owner.go\<close>, \<open>room_user_leave.go\<close>,
  \<open>room_user_profile.go\<close> and \<open>room_user_rejoin.go\<close>. A table is the list of its rows in
  insertion order. The state is an extensible record, so the operations here also act on
  the larger stores of the later theories and leave the further fields alone.
\<close>

section \<open>Rows\<close>

record room =
  r_Id :: int
  r_Rid :: rid
  r_Name :: string
  r_Description :: string
  r_CreateUid :: uid
  r_State :: int
  r_Type :: int
  r_MemberCount :: int
  r_Password :: string
  r_AllowNonFriendChat :: bool
  r_FromRoomRid :: rid
  r_AvatarUfId :: string
  r_CategoryId :: string
  r_JoinApprovalRequired :: bool
  r_JoinQuestionEnabled :: bool
  r_JoinQuestion :: string
  r_JoinQuestionAutoApprove :: bool
  r_JoinQuestionAnswer :: string
  r_CreateTime :: time
  r_DeleteTime :: time

record room_user =
  ru_Rid :: rid
  ru_Uid :: uid
  ru_Role :: int
  ru_MuteUntil :: time
  ru_MuteOperatorUid :: uid
  ru_RoomNickname :: string
  ru_RoomRemark :: string
  ru_JoinRoomTime :: time
  ru_LastSpeakTime :: time
  ru_LastSpeakIP :: string
  ru_DeleteTime :: time

definition RoomStateDissolved :: int where "RoomStateDissolved = 0"
definition RoomStateActive :: int where "RoomStateActive = 1"
definition RoomTypePrivate :: int where "RoomTypePrivate = 0"
definition RoomTypeGroup :: int where "RoomTypeGroup = 1"
definition RoomTypeGroupPrivate :: int where "RoomTypeGroupPrivate = 2"
definition RoomTypeSelfChat :: int where "RoomTypeSelfChat = 3"
definition RoomUserRoleNormal :: int where "RoomUserRoleNormal = 0"
definition RoomUserRoleAdmin :: int where "RoomUserRoleAdmin = 1"
definition RoomUserRoleOwner :: int where "RoomUserRoleOwner = 2"

lemmas room_consts = RoomStateDissolved_def RoomStateActive_def RoomTypePrivate_def RoomTypeGroup_def
  RoomTypeGroupPrivate_def RoomTypeSelfChat_def RoomUserRoleNormal_def RoomUserRoleAdmin_def RoomUserRoleOwner_def

record room_store =
  rooms :: "room list"
  room_users :: "room_user list"
  room_ids_cache :: "rid \<rightharpoonup> uid list"

text \<open>The outside of one operation: the clock and which calls to the stores fail.\<close>

datatype room_call =
    FindRoom | FindRoomUser | ListRoomUsers | WriteRoom | WriteRoomUser | WriteSession | CommitRoom
  | CacheGet | CacheSet | CacheDelete | FindMuteConfig | WriteMuteConfig | RedisCounter
  | ListSessions | FindSession | FindMessage | FindContent | InsertMessage | InsertContent | CommitMessage
  | UpdateMessage | UpdateContent | UpdateAck | FindFriends | RedisLock | RedisPending

record room_env =
  re_now :: time
  re_fails :: "room_call \<Rightarrow> bool"

datatype room_error =
    RoomStoreError | RoomNotFound | RedisNil | NotRoomOwner | InvalidTransferTarget | RoomAlreadyDissolved

definition active_user :: "rid \<Rightarrow> uid \<Rightarrow> room_user \<Rightarrow> bool" where
  "active_user rid uid u \<longleftrightarrow> ru_Rid u = rid \<and> ru_Uid u = uid \<and> ru_DeleteTime u = 0"

definition member_uids :: "rid \<Rightarrow> 'a room_store_scheme \<Rightarrow> uid list" where
  "member_uids rid s = map ru_Uid (filter (\<lambda>u. ru_Rid u = rid \<and> ru_DeleteTime u = 0) (room_users s))"

section \<open>Queries\<close>

text \<open>The SQL pattern match: \<open>%\<close> stands for any text, \<open>_\<close> for one character.\<close>

fun sql_like :: "string \<Rightarrow> string \<Rightarrow> bool" where
  "sql_like [] [] = True"
| "sql_like [] (c # s) = False"
| "sql_like (p # ps) [] = (p = CHR ''%'' \<and> sql_like ps [])"
| "sql_like (p # ps) (c # s) =
     (if p = CHR ''%'' then sql_like ps (c # s) \<or> sql_like (p # ps) s
      else (p = CHR ''_'' \<or> p = c) \<and> sql_like ps s)"

definition GetRoomList :: "string \<Rightarrow> int \<Rightarrow> int \<Rightarrow> 'a room_store_scheme \<Rightarrow> room list" where
  "GetRoomList keyword limit offset s =
     (let limit' = (if limit \<le> 0 then 20 else limit);
          offset' = (if offset < 0 then 0 else offset);
          pat = ''%'' @ keyword @ ''%'';
          found = filter (\<lambda>r. r_DeleteTime r = 0 \<and> r_State r = 1 \<and> r_Type r = 1 \<and>
             (keyword \<noteq> [] \<longrightarrow> sql_like pat (r_Name r) \<or> sql_like pat (r_Description r))) (rooms s)
      in take (nat limit') (drop (nat offset') (sort_key (\<lambda>r. - r_CreateTime r) (sort_key (\<lambda>r. - r_Id r) found))))"

definition GetRoomByRid :: "room_env \<Rightarrow> rid \<Rightarrow> 'a room_store_scheme \<Rightarrow> room_error + room" where
  "GetRoomByRid e rid s =
     (if re_fails e FindRoom then Inl RoomStoreError
      else case find (\<lambda>r. r_Rid r = rid \<and> r_State r = 1 \<and> r_DeleteTime r = 0) (rooms s) of
        None \<Rightarrow> Inl RoomNotFound | Some r \<Rightarrow> Inr r)"

definition GetRoomByRidAny :: "room_env \<Rightarrow> rid \<Rightarrow> 'a room_store_scheme \<Rightarrow> room_error + room" where
  "GetRoomByRidAny e rid s =
     (if re_fails e FindRoom then Inl RoomStoreError
      else case find (\<lambda>r. r_Rid r = rid \<and> r_DeleteTime r = 0) (rooms s) of
        None \<Rightarrow> Inl RoomNotFound | Some r \<Rightarrow> Inr r)"

definition IsRoomDissolved :: "room_env \<Rightarrow> rid \<Rightarrow> 'a room_store_scheme \<Rightarrow> room_error + bool" where
  "IsRoomDissolved e rid s =
     (case GetRoomByRidAny e rid s of Inl err \<Rightarrow> Inl err | Inr r \<Rightarrow> Inr (r_State r = RoomStateDissolved))"

definition GetRoomIdsByUid :: "room_env \<Rightarrow> uid \<Rightarrow> 'a room_store_scheme \<Rightarrow> room_error + rid list" where
  "GetRoomIdsByUid e uid s =
     (if re_fails e ListRoomUsers then Inl RoomStoreError
      else Inr (map ru_Rid (filter (\<lambda>u. ru_Uid u = uid \<and> ru_DeleteTime u = 0) (room_users s))))"

definition CheckShareRoomBatch ::
  "room_env \<Rightarrow> uid \<Rightarrow> uid list \<Rightarrow> 'a room_store_scheme \<Rightarrow> room_error + (uid \<Rightarrow> bool)" where
  "CheckShareRoomBatch e viewerUid targetUids s =
     (if viewerUid = [] \<or> targetUids = [] then Inr (\<lambda>_. False)
      else case GetRoomIdsByUid e viewerUid s of
        Inl err \<Rightarrow> Inl err
      | Inr viewerRids \<Rightarrow> Inr (\<lambda>uid. uid \<in> set targetUids \<and>
          (\<exists>u \<in> set (room_users s). ru_Rid u \<in> set viewerRids \<and> ru_Uid u = uid \<and> ru_DeleteTime u = 0)))"

section \<open>The cached member list\<close>

definition getRoomUserIds :: "room_env \<Rightarrow> rid \<Rightarrow> 'a room_store_scheme \<Rightarrow> room_error + uid list" where
  "getRoomUserIds e rid s = (if re_fails e ListRoomUsers then Inl RoomStoreError else Inr (member_uids rid s))"

definition SetRoomUserIdsCache :: "room_env \<Rightarrow> rid \<Rightarrow> 'a room_store_scheme \<Rightarrow> 'a room_store_scheme" where
  "SetRoomUserIdsCache e rid s =
     (case getRoomUserIds e rid s of
        Inl _ \<Rightarrow> s
      | Inr uids \<Rightarrow> if re_fails e CacheSet then s else s\<lparr>room_ids_cache := (room_ids_cache s)(rid \<mapsto> uids)\<rparr>)"

definition GetRoomUserIdsCache ::
  "room_env \<Rightarrow> rid \<Rightarrow> 'a room_store_scheme \<Rightarrow> (room_error + uid list) \<times> 'a room_store_scheme" where
  "GetRoomUserIdsCache e rid s =
     (if re_fails e CacheGet then (Inl RoomStoreError, s)
      else case room_ids_cache s rid of
        Some uids \<Rightarrow> (Inr uids, s)
      | None \<Rightarrow>
          let s1 = SetRoomUserIdsCache e rid s
          in (case room_ids_cache s1 rid of Some uids \<Rightarrow> (Inr uids, s1) | None \<Rightarrow> (Inl RedisNil, s1)))"

definition HasRoomUser :: "room_env \<Rightarrow> rid \<Rightarrow> uid \<Rightarrow> 'a room_store_scheme \<Rightarrow> bool \<times> 'a room_store_scheme" where
  "HasRoomUser e rid uid s =
     (case GetRoomUserIdsCache e rid s of
        (Inl _, s1) \<Rightarrow> (False, s1)
      | (Inr uids, s1) \<Rightarrow> (uid \<in> set uids, s1))"

text \<open>The users met in any room, without the user himself; a room whose list cannot be read is skipped.\<close>

fun sharing_uids :: "room_env \<Rightarrow> uid \<Rightarrow> rid list \<Rightarrow> 'a room_store_scheme \<Rightarrow> uid list \<times> 'a room_store_scheme" where
  "sharing_uids e uid [] s = ([], s)"
| "sharing_uids e uid (rid # rids) s =
     (case GetRoomUserIdsCache e rid s of
        (Inl _, s1) \<Rightarrow> sharing_uids e uid rids s1
      | (Inr uids, s1) \<Rightarrow> apfst ((@) (filter (\<lambda>u. u \<noteq> uid) uids)) (sharing_uids e uid rids s1))"

definition GetUidsSharingRoomWith ::
  "room_env \<Rightarrow> uid \<Rightarrow> 'a room_store_scheme \<Rightarrow> (room_error + uid list) \<times> 'a room_store_scheme" where
  "GetUidsSharingRoomWith e uid s =
     (case GetRoomIdsByUid e uid s of
        Inl err \<Rightarrow> (Inl err, s)
      | Inr rids \<Rightarrow> apfst (\<lambda>us. Inr (dedup_seen {} us)) (sharing_uids e uid rids s))"

section \<open>Members\<close>

definition GetRoomUser :: "room_env \<Rightarrow> rid \<Rightarrow> uid \<Rightarrow> 'a room_store_scheme \<Rightarrow> room_error + room_user" where
  "GetRoomUser e rid uid s =
     (if re_fails e FindRoomUser then Inl RoomStoreError
      else case find (active_user rid uid) (room_users s) of None \<Rightarrow> Inl RoomNotFound | Some u \<Rightarrow> Inr u)"

definition GetRoomUsers :: "room_env \<Rightarrow> rid \<Rightarrow> 'a room_store_scheme \<Rightarrow> room_error + room_user list" where
  "GetRoomUsers e rid s =
     (if re_fails e ListRoomUsers then Inl RoomStoreError
      else Inr (filter (\<lambda>u. ru_Rid u = rid \<and> ru_DeleteTime u = 0) (room_users s)))"

definition upd_user ::
  "(room_user \<Rightarrow> bool) \<Rightarrow> (room_user \<Rightarrow> room_user) \<Rightarrow> 'a room_store_scheme \<Rightarrow> 'a room_store_scheme" where
  "upd_user P f s = s\<lparr>room_users := map (\<lambda>u. if P u then f u else u) (room_users s)\<rparr>"

definition upd_room ::
  "(room \<Rightarrow> bool) \<Rightarrow> (room \<Rightarrow> room) \<Rightarrow> 'a room_store_scheme \<Rightarrow> 'a room_store_scheme" where
  "upd_room P f s = s\<lparr>rooms := map (\<lambda>r. if P r then f r else r) (rooms s)\<rparr>"

definition write_user ::
  "room_env \<Rightarrow> (room_user \<Rightarrow> bool) \<Rightarrow> (room_user \<Rightarrow> room_user) \<Rightarrow> 'a room_store_scheme
   \<Rightarrow> (room_error + unit) \<times> 'a room_store_scheme" where
  "write_user e P f s = (if re_fails e WriteRoomUser then (Inl RoomStoreError, s) else (Inr (), upd_user P f s))"

definition TouchRoomUserLastSpeak ::
  "room_env \<Rightarrow> rid \<Rightarrow> uid \<Rightarrow> time \<Rightarrow> string \<Rightarrow> 'a room_store_scheme \<Rightarrow> (room_error + unit) \<times> 'a room_store_scheme" where
  "TouchRoomUserLastSpeak e rid uid speakTime speakIP s =
     write_user e (\<lambda>u. active_user rid uid u \<and> ru_LastSpeakTime u < speakTime)
       (\<lambda>u. u\<lparr>ru_LastSpeakTime := speakTime, ru_LastSpeakIP := speakIP\<rparr>) s"

definition RemoveRoomUser ::
  "room_env \<Rightarrow> rid \<Rightarrow> uid \<Rightarrow> 'a room_store_scheme \<Rightarrow> (room_error + unit) \<times> 'a room_store_scheme" where
  "RemoveRoomUser e rid uid s = write_user e (active_user rid uid) (\<lambda>u. u\<lparr>ru_DeleteTime := re_now e\<rparr>) s"

definition UpdateRoomUserRole ::
  "room_env \<Rightarrow> rid \<Rightarrow> uid \<Rightarrow> int \<Rightarrow> 'a room_store_scheme \<Rightarrow> (room_error + room_user) \<times> 'a room_store_scheme" where
  "UpdateRoomUserRole e rid targetUid newRole s =
     (case GetRoomUser e rid targetUid s of
        Inl err \<Rightarrow> (Inl err, s)
      | Inr _ \<Rightarrow>
          (case write_user e (active_user rid targetUid) (\<lambda>u. u\<lparr>ru_Role := newRole\<rparr>) s of
             (Inl err, s1) \<Rightarrow> (Inl err, s1)
           | (Inr _, s1) \<Rightarrow> (GetRoomUser e rid targetUid s1, s1)))"

definition UpdateRoomUserNickname ::
  "room_env \<Rightarrow> rid \<Rightarrow> uid \<Rightarrow> string \<Rightarrow> 'a room_store_scheme \<Rightarrow> (room_error + room_user) \<times> 'a room_store_scheme" where
  "UpdateRoomUserNickname e rid uid roomNickname s =
     (case write_user e (active_user rid uid) (\<lambda>u. u\<lparr>ru_RoomNickname := roomNickname\<rparr>) s of
        (Inl err, s1) \<Rightarrow> (Inl err, s1)
      | (Inr _, s1) \<Rightarrow> (GetRoomUser e rid uid s1, s1))"

definition UpdateRoomUserRemark ::
  "room_env \<Rightarrow> rid \<Rightarrow> uid \<Rightarrow> string \<Rightarrow> 'a room_store_scheme \<Rightarrow> (room_error + room_user) \<times> 'a room_store_scheme" where
  "UpdateRoomUserRemark e rid uid roomRemark s =
     (case write_user e (active_user rid uid) (\<lambda>u. u\<lparr>ru_RoomRemark := roomRemark\<rparr>) s of
        (Inl err, s1) \<Rightarrow> (Inl err, s1)
      | (Inr _, s1) \<Rightarrow> (GetRoomUser e rid uid s1, s1))"

text \<open>\<open>None\<close>: allowed; otherwise the reason, given in English.\<close>

definition CanKickMemberInRoom :: "room_env \<Rightarrow> rid \<Rightarrow> uid \<Rightarrow> uid \<Rightarrow> 'a room_store_scheme \<Rightarrow> string option" where
  "CanKickMemberInRoom e rid operatorUid targetUid s =
     (if operatorUid = targetUid then Some ''cannot remove yourself''
      else case GetRoomUser e rid operatorUid s of
        Inl _ \<Rightarrow> Some ''you are not in the room''
      | Inr op \<Rightarrow>
          if ru_Role op \<noteq> RoomUserRoleAdmin \<and> ru_Role op \<noteq> RoomUserRoleOwner then Some ''only admins and the owner''
          else (case GetRoomUser e rid targetUid s of
             Inl _ \<Rightarrow> Some ''target is not in the room''
           | Inr tg \<Rightarrow>
               if ru_Role tg = RoomUserRoleOwner then Some ''cannot remove the owner''
               else if ru_Role tg = RoomUserRoleAdmin \<and> ru_Role op \<noteq> RoomUserRoleOwner
               then Some ''only the owner removes admins'' else None))"

definition GetRoomAdminAndOwnerUids :: "room_env \<Rightarrow> rid \<Rightarrow> uid \<Rightarrow> 'a room_store_scheme \<Rightarrow> room_error + uid list" where
  "GetRoomAdminAndOwnerUids e rid excludeUid s =
     (if re_fails e ListRoomUsers then Inl RoomStoreError
      else Inr (map ru_Uid (filter (\<lambda>u. ru_Rid u = rid \<and> ru_DeleteTime u = 0 \<and>
             (ru_Role u = RoomUserRoleAdmin \<or> ru_Role u = RoomUserRoleOwner) \<and> ru_Uid u \<noteq> excludeUid) (room_users s))))"

definition CanUserMuteInRoom :: "room_env \<Rightarrow> rid \<Rightarrow> uid \<Rightarrow> 'a room_store_scheme \<Rightarrow> bool" where
  "CanUserMuteInRoom e rid uid s =
     (case GetRoomUser e rid uid s of
        Inl _ \<Rightarrow> False | Inr u \<Rightarrow> ru_Role u = RoomUserRoleAdmin \<or> ru_Role u = RoomUserRoleOwner)"

section \<open>Joining again, handing over, dissolving\<close>

definition fresh_room_user :: "rid \<Rightarrow> uid \<Rightarrow> int \<Rightarrow> string \<Rightarrow> time \<Rightarrow> room_user" where
  "fresh_room_user rid uid role nickname now =
     \<lparr>ru_Rid = rid, ru_Uid = uid, ru_Role = role, ru_MuteUntil = 0, ru_MuteOperatorUid = [],
      ru_RoomNickname = nickname, ru_RoomRemark = [], ru_JoinRoomTime = now, ru_LastSpeakTime = 0,
      ru_LastSpeakIP = [], ru_DeleteTime = 0\<rparr>"

definition UpsertActiveRoomUserTx ::
  "room_env \<Rightarrow> rid \<Rightarrow> uid \<Rightarrow> string \<Rightarrow> time \<Rightarrow> 'a room_store_scheme \<Rightarrow> (room_error + unit) \<times> 'a room_store_scheme" where
  "UpsertActiveRoomUserTx e rid uid nickname nowMs s =
     (if re_fails e FindRoomUser then (Inl RoomStoreError, s)
      else if \<exists>u \<in> set (room_users s). ru_Rid u = rid \<and> ru_Uid u = uid
      then write_user e (\<lambda>u. ru_Rid u = rid \<and> ru_Uid u = uid)
        (\<lambda>u. u\<lparr>ru_DeleteTime := 0, ru_Role := RoomUserRoleNormal, ru_MuteUntil := 0, ru_MuteOperatorUid := [],
              ru_RoomNickname := nickname, ru_JoinRoomTime := nowMs\<rparr>) s
      else if re_fails e WriteRoomUser then (Inl RoomStoreError, s)
      else (Inr (), s\<lparr>room_users := room_users s @ [fresh_room_user rid uid RoomUserRoleNormal nickname nowMs]\<rparr>))"

definition active_room :: "rid \<Rightarrow> room \<Rightarrow> bool" where
  "active_room rid r \<longleftrightarrow> r_Rid r = rid \<and> r_DeleteTime r = 0 \<and> r_State r = RoomStateActive"

definition TransferRoomOwner ::
  "room_env \<Rightarrow> rid \<Rightarrow> uid \<Rightarrow> uid \<Rightarrow> 'a room_store_scheme \<Rightarrow> (room_error + uid) \<times> 'a room_store_scheme" where
  "TransferRoomOwner e rid operatorUid targetUid s =
     (if rid = [] \<or> operatorUid = [] \<or> targetUid = [] then (Inl InvalidTransferTarget, s)
      else if operatorUid = targetUid then (Inl InvalidTransferTarget, s)
      else case GetRoomUser e rid operatorUid s of
        Inl err \<Rightarrow> (Inl err, s)
      | Inr operator \<Rightarrow>
          if ru_Role operator \<noteq> RoomUserRoleOwner then (Inl NotRoomOwner, s)
          else (case GetRoomUser e rid targetUid s of
             Inl _ \<Rightarrow> (Inl InvalidTransferTarget, s)
           | Inr target \<Rightarrow>
               if ru_Role target = RoomUserRoleOwner then (Inl InvalidTransferTarget, s)
               else if re_fails e WriteRoom \<or> re_fails e WriteRoomUser \<or> re_fails e CommitRoom
               then (Inl RoomStoreError, s)
               else (Inr operatorUid,
                 upd_user (active_user rid targetUid) (\<lambda>u. u\<lparr>ru_Role := RoomUserRoleOwner\<rparr>)
                   (upd_user (active_user rid operatorUid) (\<lambda>u. u\<lparr>ru_Role := RoomUserRoleNormal\<rparr>)
                     (upd_room (active_room rid) (\<lambda>r. r\<lparr>r_CreateUid := targetUid\<rparr>) s)))))"

definition DissolveRoom ::
  "room_env \<Rightarrow> rid \<Rightarrow> 'a room_store_scheme \<Rightarrow> (room_error + unit) \<times> 'a room_store_scheme" where
  "DissolveRoom e rid s =
     (if re_fails e WriteRoom then (Inl RoomStoreError, s)
      else if \<not> (\<exists>r \<in> set (rooms s). active_room rid r) then (Inl RoomAlreadyDissolved, s)
      else (Inr (), upd_room (active_room rid) (\<lambda>r. r\<lparr>r_State := RoomStateDissolved\<rparr>) s))"

end
