(* ===== verification/RoomMute.thy ===== *)
theory RoomMute
  imports Rooms "HOL-Library.Word" Complex_Main
begin

text \<open>
  Muting (\<open>db/query/room_mute.go\<close>): personal mutes, muting everybody, and strategy rules
  with a time range, allowed roles, excepted users and a message frequency counted in
  Redis. The JSON columns are kept by what decoding them gives; JSON numbers are rationals
  and \<open>int64\<close> of one is its truncation. A counter's key is the tuple of the parts the code
  prints into it (identifiers contain no colon). Counters expire a minute after their
  window ends and a later window has another key, so expiry is not modelled.
\<close>

unbundle bit_operations_syntax

section \<open>Configuration\<close>

record rule_fields =
  rf_start_at :: rat
  rf_end_at :: rat
  rf_interval_unit :: string
  rf_interval_value :: rat
  rf_max_messages :: rat

datatype rule_text = NoText | BadText | Fields rule_fields

record mute_config =
  mc_Rid :: rid
  mc_IsMuteAll :: bool
  mc_MuteAllBy :: uid
  mc_Reason :: string
  mc_RuleType :: "8 word"
  mc_RuleConfig :: rule_text
  mc_AllowRoles :: "int list option"
  mc_ExceptUsers :: "uid list option"
  mc_EffectiveAt :: time
  mc_ExpiresAt :: time
  mc_IsActive :: bool
  mc_Version :: int
  mc_DeleteTime :: time

record mute_store = room_store +
  mute_configs :: "mute_config list"
  freq_version :: "rid \<rightharpoonup> int"
  freq_count :: "rid \<times> int \<times> uid \<times> int \<rightharpoonup> int"

definition RuleTypeBitTimeRange :: "8 word" where "RuleTypeBitTimeRange = 1"
definition RuleTypeBitFrequency :: "8 word" where "RuleTypeBitFrequency = 2"
definition RuleTypeBitSmart :: "8 word" where "RuleTypeBitSmart = 4"

lemmas rule_bits = RuleTypeBitTimeRange_def RuleTypeBitFrequency_def RuleTypeBitSmart_def

definition int64_of :: "rat \<Rightarrow> int" where
  "int64_of q = (if 0 \<le> q then \<lfloor>q\<rfloor> else \<lceil>q\<rceil>)"

definition isMuteRuleWindowActive :: "8 word \<Rightarrow> rule_text \<Rightarrow> time \<Rightarrow> bool" where
  "isMuteRuleWindowActive ruleType ruleConfig now =
     (if ruleType AND RuleTypeBitTimeRange = 0 then True
      else case ruleConfig of
        Fields f \<Rightarrow>
          if int64_of (rf_start_at f) > 0 \<and> now < int64_of (rf_start_at f) then False
          else \<not> (int64_of (rf_end_at f) > 0 \<and> now > int64_of (rf_end_at f))
      | _ \<Rightarrow> True)"

text \<open>Window in milliseconds and in seconds, and the number of messages allowed in it.\<close>

definition parseFrequencyRuleConfig :: "rule_text \<Rightarrow> (int \<times> int \<times> int) option" where
  "parseFrequencyRuleConfig ruleConfig =
     (case ruleConfig of
        Fields f \<Rightarrow>
          if rf_interval_unit f = [] \<or> rf_interval_value f \<le> 0 \<or> rf_max_messages f \<le> 0 then None
          else
            let val = int64_of (rf_interval_value f); maxMsg = int64_of (rf_max_messages f)
            in if rf_interval_unit f = ''minute'' then Some (val * 60 * 1000, val * 60, maxMsg)
               else if rf_interval_unit f = ''hour'' then Some (val * 60 * 60 * 1000, val * 60 * 60, maxMsg)
               else if rf_interval_unit f = ''day'' then Some (val * 24 * 60 * 60 * 1000, val * 24 * 60 * 60, maxMsg)
               else None
      | _ \<Rightarrow> None)"

section \<open>Frequency counters\<close>

definition GetInt64 :: "room_env \<Rightarrow> int option \<Rightarrow> int option" where
  "GetInt64 e v = (if re_fails e RedisCounter then None else v)"

definition freq_key :: "room_env \<Rightarrow> rid \<Rightarrow> uid \<Rightarrow> int \<Rightarrow> 'a mute_store_scheme \<Rightarrow> rid \<times> int \<times> uid \<times> int" where
  "freq_key e rid uid windowID s =
     (rid, case GetInt64 e (freq_version s rid) of None \<Rightarrow> 0 | Some v \<Rightarrow> v, uid, windowID)"

definition isUserOverFrequencyLimit :: "room_env \<Rightarrow> rid \<Rightarrow> uid \<Rightarrow> time \<Rightarrow> rule_text \<Rightarrow> 'a mute_store_scheme \<Rightarrow> bool" where
  "isUserOverFrequencyLimit e rid uid now ruleConfig s =
     (case parseFrequencyRuleConfig ruleConfig of
        None \<Rightarrow> False
      | Some (windowMs, _, maxMsg) \<Rightarrow>
          if windowMs \<le> 0 then False
          else case GetInt64 e (freq_count s (freq_key e rid uid (now div windowMs) s)) of
            None \<Rightarrow> False | Some count \<Rightarrow> \<not> count < maxMsg)"

definition GetFrequencyMuteUntil :: "room_env \<Rightarrow> rid \<Rightarrow> uid \<Rightarrow> time \<Rightarrow> rule_text \<Rightarrow> 'a mute_store_scheme \<Rightarrow> time option" where
  "GetFrequencyMuteUntil e rid uid now ruleConfig s =
     (case parseFrequencyRuleConfig ruleConfig of
        None \<Rightarrow> None
      | Some (windowMs, _, maxMsg) \<Rightarrow>
          if windowMs \<le> 0 then None
          else case GetInt64 e (freq_count s (freq_key e rid uid (now div windowMs) s)) of
            None \<Rightarrow> None
          | Some count \<Rightarrow> if count < maxMsg then None else Some ((now div windowMs + 1) * windowMs))"

definition GetRoomMuteConfig :: "room_env \<Rightarrow> rid \<Rightarrow> 'a mute_store_scheme \<Rightarrow> room_error + mute_config" where
  "GetRoomMuteConfig e rid s =
     (if re_fails e FindMuteConfig then Inl RoomStoreError
      else case find (\<lambda>c. mc_Rid c = rid \<and> mc_DeleteTime c = 0) (mute_configs s) of
        None \<Rightarrow> Inl RoomNotFound | Some c \<Rightarrow> Inr c)"

definition IncrRoomMessageFrequencyCount :: "room_env \<Rightarrow> rid \<Rightarrow> uid \<Rightarrow> 'a mute_store_scheme \<Rightarrow> 'a mute_store_scheme" where
  "IncrRoomMessageFrequencyCount e rid uid s =
     (case GetRoomMuteConfig e rid s of
        Inl _ \<Rightarrow> s
      | Inr cfg \<Rightarrow>
          if mc_RuleType cfg AND RuleTypeBitFrequency = 0 \<or> mc_RuleConfig cfg = NoText then s
          else case parseFrequencyRuleConfig (mc_RuleConfig cfg) of
            None \<Rightarrow> s
          | Some (windowMs, _, _) \<Rightarrow>
              if windowMs \<le> 0 \<or> re_fails e RedisCounter then s
              else
                let key = freq_key e rid uid (re_now e div windowMs) s
                in s\<lparr>freq_count := (freq_count s)(key \<mapsto> (case freq_count s key of None \<Rightarrow> 0 | Some n \<Rightarrow> n) + 1)\<rparr>)"

definition ResetRoomMuteFrequencyCount :: "room_env \<Rightarrow> rid \<Rightarrow> 'a mute_store_scheme \<Rightarrow> 'a mute_store_scheme" where
  "ResetRoomMuteFrequencyCount e rid s =
     (if re_fails e RedisCounter then s
      else s\<lparr>freq_version := (freq_version s)(rid \<mapsto> (case freq_version s rid of None \<Rightarrow> 0 | Some v \<Rightarrow> v) + 1)\<rparr>)"

section \<open>May the user speak?\<close>

datatype mute_code = MuteCodeMuted | MuteCodeTimeRange | MuteCodeFrequency

text \<open>\<open>None\<close>: not muted. A user who is no member is looked at as role zero without a mute.\<close>

definition strategy_active :: "mute_config \<Rightarrow> time \<Rightarrow> bool" where
  "strategy_active cfg now \<longleftrightarrow>
     \<not> mc_IsMuteAll cfg \<and> mc_IsActive cfg \<and>
     (mc_RuleType cfg AND RuleTypeBitTimeRange \<noteq> 0 \<longrightarrow>
        \<not> (mc_EffectiveAt cfg > 0 \<and> now < mc_EffectiveAt cfg) \<and>
        \<not> (mc_ExpiresAt cfg > 0 \<and> now > mc_ExpiresAt cfg)) \<and>
     isMuteRuleWindowActive (mc_RuleType cfg) (mc_RuleConfig cfg) now"

definition IsUserMutedInRoom :: "room_env \<Rightarrow> rid \<Rightarrow> uid \<Rightarrow> 'a mute_store_scheme \<Rightarrow> mute_code option" where
  "IsUserMutedInRoom e rid uid s =
     (let now = re_now e;
          ru = GetRoomUser e rid uid s;
          role = (case ru of Inl _ \<Rightarrow> 0 | Inr u \<Rightarrow> ru_Role u)
      in if (case ru of Inl _ \<Rightarrow> False | Inr u \<Rightarrow> ru_MuteUntil u > 0 \<and> ru_MuteUntil u > now) then Some MuteCodeMuted
         else case GetRoomMuteConfig e rid s of
           Inl _ \<Rightarrow> None
         | Inr cfg \<Rightarrow>
             if \<not> mc_IsMuteAll cfg \<and> \<not> strategy_active cfg now then None
             else if mc_IsMuteAll cfg then
               (if role = RoomUserRoleAdmin \<or> role = RoomUserRoleOwner then None else Some MuteCodeMuted)
             else
               let canSpeakByExcept = (case mc_ExceptUsers cfg of None \<Rightarrow> False | Some us \<Rightarrow> uid \<in> set us);
                   canSpeakByRole = (case mc_AllowRoles cfg of None \<Rightarrow> False | Some rs \<Rightarrow> role \<in> set rs)
               in if \<not> canSpeakByExcept \<and> \<not> canSpeakByRole then Some MuteCodeTimeRange
                  else if mc_RuleType cfg AND RuleTypeBitFrequency \<noteq> 0 \<and> mc_RuleConfig cfg \<noteq> NoText \<and>
                      isUserOverFrequencyLimit e (mc_Rid cfg) uid now (mc_RuleConfig cfg) s
                  then Some MuteCodeFrequency else None)"

text \<open>\<open>time.Duration(durationSec) * time.Second\<close> is a product in 64 bits, in nanoseconds.\<close>

definition duration_ms :: "int \<Rightarrow> int" where
  "duration_ms durationSec = sint (word_of_int (durationSec * 1000000000) :: 64 word) div 1000000"

definition MuteUserInRoom ::
  "room_env \<Rightarrow> rid \<Rightarrow> uid \<Rightarrow> uid \<Rightarrow> int \<Rightarrow> 'a mute_store_scheme \<Rightarrow> (room_error + unit) \<times> 'a mute_store_scheme" where
  "MuteUserInRoom e rid targetUid operatorUid durationSec s =
     (case GetRoomUser e rid targetUid s of
        Inl err \<Rightarrow> (Inl err, s)
      | Inr _ \<Rightarrow> if re_fails e WriteRoomUser \<or> re_fails e CommitRoom then (Inl RoomStoreError, s)
          else (Inr (), upd_user (\<lambda>u. ru_Rid u = rid \<and> ru_Uid u = targetUid)
            (\<lambda>u. u\<lparr>ru_MuteUntil := re_now e + duration_ms durationSec, ru_MuteOperatorUid := operatorUid\<rparr>) s))"

definition UnmuteUserInRoom ::
  "room_env \<Rightarrow> rid \<Rightarrow> uid \<Rightarrow> 'a mute_store_scheme \<Rightarrow> (room_error + unit) \<times> 'a mute_store_scheme" where
  "UnmuteUserInRoom e rid targetUid s =
     (case GetRoomUser e rid targetUid s of
        Inl err \<Rightarrow> (Inl err, s)
      | Inr _ \<Rightarrow> if re_fails e WriteRoomUser \<or> re_fails e CommitRoom then (Inl RoomStoreError, s)
          else (Inr (), upd_user (\<lambda>u. ru_Rid u = rid \<and> ru_Uid u = targetUid)
            (\<lambda>u. u\<lparr>ru_MuteUntil := 0, ru_MuteOperatorUid := []\<rparr>) s))"

record rule_params =
  rp_IsMuteAll :: bool
  rp_Reason :: string
  rp_RuleType :: "8 word"
  rp_RuleConfig :: rule_text
  rp_AllowRoles :: "int list"
  rp_ExceptUsers :: "uid list"
  rp_EffectiveAt :: time
  rp_ExpiresAt :: time
  rp_IsActive :: bool

definition empty_rule :: rule_text where
  "empty_rule = Fields \<lparr>rf_start_at = 0, rf_end_at = 0, rf_interval_unit = [], rf_interval_value = 0, rf_max_messages = 0\<rparr>"

definition SetRoomMuteConfigRule ::
  "room_env \<Rightarrow> rid \<Rightarrow> uid \<Rightarrow> rule_params \<Rightarrow> 'a mute_store_scheme \<Rightarrow> (room_error + unit) \<times> 'a mute_store_scheme" where
  "SetRoomMuteConfigRule e rid byUid p s =
     (case GetRoomMuteConfig e rid s of
        Inl err \<Rightarrow> (Inl err, s)
      | Inr cfg \<Rightarrow>
          if re_fails e WriteMuteConfig then (Inl RoomStoreError, s)
          else
            let ruleConfig = (if rp_RuleConfig p = NoText then empty_rule else rp_RuleConfig p)
            in (Inr (), ResetRoomMuteFrequencyCount e rid (s\<lparr>mute_configs := map (\<lambda>c.
                 if mc_Rid c = rid then c\<lparr>mc_IsMuteAll := rp_IsMuteAll p, mc_MuteAllBy := byUid,
                   mc_Reason := rp_Reason p, mc_RuleType := rp_RuleType p, mc_RuleConfig := ruleConfig,
                   mc_AllowRoles := Some (rp_AllowRoles p), mc_ExceptUsers := Some (rp_ExceptUsers p),
                   mc_EffectiveAt := rp_EffectiveAt p, mc_ExpiresAt := rp_ExpiresAt p,
                   mc_IsActive := rp_IsActive p, mc_Version := mc_Version cfg + 1\<rparr>
                 else c) (mute_configs s)\<rparr>)))"

definition SetRoomMuteAll ::
  "room_env \<Rightarrow> rid \<Rightarrow> bool \<Rightarrow> uid \<Rightarrow> string \<Rightarrow> 'a mute_store_scheme \<Rightarrow> (room_error + unit) \<times> 'a mute_store_scheme" where
  "SetRoomMuteAll e rid mute byUid reason =
     SetRoomMuteConfigRule e rid byUid \<lparr>rp_IsMuteAll = mute, rp_Reason = reason, rp_RuleType = 0,
       rp_RuleConfig = empty_rule, rp_AllowRoles = [RoomUserRoleAdmin, RoomUserRoleOwner], rp_ExceptUsers = [],
       rp_EffectiveAt = re_now e, rp_ExpiresAt = 0, rp_IsActive = False\<rparr>"

section \<open>How long a personal mute lasts\<close>

lemma sint_fits:
  assumes "0 \<le> k" and "k < 2 ^ 63"
  shows "sint (word_of_int k :: 64 word) = k"
proof -
  have "sint (word_of_int k :: 64 word) = signed_take_bit 63 k" by (simp add: signed_of_int)
  with assms show ?thesis by (simp add: signed_take_bit_int_eq_self)
qed

lemma duration_ms_fits:
  assumes "0 \<le> d" and "d \<le> 9223372036"
  shows "duration_ms d = d * 1000"
proof -
  have "sint (word_of_int (d * 1000000000) :: 64 word) = d * 1000000000"
    using assms by (intro sint_fits) simp_all
  then show ?thesis by (simp add: duration_ms_def)
qed

lemma find_map_keep:
  assumes "\<And>x. P (f x) = P x"
  shows "find P (map (\<lambda>x. if Q x then f x else x) xs) = map_option (\<lambda>x. if Q x then f x else x) (find P xs)"
  by (induction xs) (use assms in auto)

lemma GetRoomUser_mute [simp]:
  "GetRoomUser e rid uid (upd_user (\<lambda>u. ru_Rid u = rid \<and> ru_Uid u = uid)
     (\<lambda>u. u\<lparr>ru_MuteUntil := t, ru_MuteOperatorUid := o'\<rparr>) s)
   = map_sum id (\<lambda>u. u\<lparr>ru_MuteUntil := t, ru_MuteOperatorUid := o'\<rparr>) (GetRoomUser e rid uid s)"
proof (cases "find (active_user rid uid) (room_users s)")
  case None
  then show ?thesis by (simp add: GetRoomUser_def upd_user_def find_map_keep active_user_def)
next
  case (Some u)
  then have "ru_Rid u = rid" "ru_Uid u = uid" by (auto simp: find_Some_iff active_user_def)
  with Some show ?thesis by (simp add: GetRoomUser_def upd_user_def find_map_keep active_user_def)
qed


definition demo_room_user :: "rid \<Rightarrow> uid \<Rightarrow> int \<Rightarrow> room_user" where
  "demo_room_user rid uid role = fresh_room_user rid uid role ''nick'' 1"

definition calm_room_env :: "time \<Rightarrow> room_env" where
  "calm_room_env now = \<lparr>re_now = now, re_fails = (\<lambda>_. False)\<rparr>"

definition demo_mute_store :: mute_store where
  "demo_mute_store = \<lparr>rooms = [], room_users = [demo_room_user ''r'' ''u'' 0], room_ids_cache = (\<lambda>_. None),
     mute_configs = [], freq_version = (\<lambda>_. None), freq_count = (\<lambda>_. None)\<rparr>"


section \<open>The frequency limit\<close>

text \<open>
  What the message handler does with one message: refused when muted, otherwise stored and
  counted.
\<close>

definition speak :: "room_env \<Rightarrow> rid \<Rightarrow> uid \<Rightarrow> 'a mute_store_scheme \<Rightarrow> bool \<times> 'a mute_store_scheme" where
  "speak e rid uid s =
     (case IsUserMutedInRoom e rid uid s of
        Some _ \<Rightarrow> (False, s) | None \<Rightarrow> (True, IncrRoomMessageFrequencyCount e rid uid s))"

fun speak_all :: "room_env list \<Rightarrow> rid \<Rightarrow> uid \<Rightarrow> 'a mute_store_scheme \<Rightarrow> nat \<times> 'a mute_store_scheme" where
  "speak_all [] rid uid s = (0, s)"
| "speak_all (e # es) rid uid s =
     (case speak e rid uid s of (ok, s1) \<Rightarrow>
        apfst (\<lambda>n. if ok then Suc n else n) (speak_all es rid uid s1))"

text \<open>
  A frequency rule that lets the user speak: the configuration in force, its window and
  limit, and the user as an unmuted member with an allowed role or excepted.
\<close>

definition frequency_rule ::
  "room_env \<Rightarrow> rid \<Rightarrow> uid \<Rightarrow> mute_config \<Rightarrow> int \<Rightarrow> int \<Rightarrow> 'a mute_store_scheme \<Rightarrow> bool" where
  "frequency_rule e rid uid cfg windowMs maxMsg s \<longleftrightarrow>
     (\<forall>c. \<not> re_fails e c) \<and> GetRoomMuteConfig e rid s = Inr cfg \<and> strategy_active cfg (re_now e) \<and>
     mc_RuleType cfg AND RuleTypeBitFrequency \<noteq> 0 \<and>
     (\<exists>sec. parseFrequencyRuleConfig (mc_RuleConfig cfg) = Some (windowMs, sec, maxMsg)) \<and> 0 < windowMs \<and>
     (\<exists>u. GetRoomUser e rid uid s = Inr u \<and> ru_MuteUntil u \<le> re_now e \<and>
        ((\<exists>rs. mc_AllowRoles cfg = Some rs \<and> ru_Role u \<in> set rs) \<or> (\<exists>us. mc_ExceptUsers cfg = Some us \<and> uid \<in> set us)))"

definition counted :: "rid \<Rightarrow> uid \<Rightarrow> int \<Rightarrow> 'a mute_store_scheme \<Rightarrow> int" where
  "counted rid uid windowID s =
     (case freq_count s (rid, case freq_version s rid of None \<Rightarrow> 0 | Some v \<Rightarrow> v, uid, windowID) of
        None \<Rightarrow> 0 | Some n \<Rightarrow> n)"

lemma frequency_key:
  "frequency_rule e rid uid cfg windowMs maxMsg s \<Longrightarrow>
   freq_key e rid uid w s = (rid, case freq_version s rid of None \<Rightarrow> 0 | Some v \<Rightarrow> v, uid, w)"
  by (auto simp: frequency_rule_def freq_key_def GetInt64_def)

lemma frequency_rid: "frequency_rule e rid uid cfg windowMs maxMsg s \<Longrightarrow> mc_Rid cfg = rid"
  by (auto simp: frequency_rule_def GetRoomMuteConfig_def find_Some_iff split: if_splits option.splits)

lemma frequency_muted:
  assumes "frequency_rule e rid uid cfg windowMs maxMsg s" and "0 < maxMsg"
  shows "IsUserMutedInRoom e rid uid s =
    (if counted rid uid (re_now e div windowMs) s < maxMsg then None else Some MuteCodeFrequency)"
proof -
  have parsed: "mc_RuleConfig cfg \<noteq> NoText"
    using assms(1) by (auto simp: frequency_rule_def parseFrequencyRuleConfig_def)
  have over: "isUserOverFrequencyLimit e (mc_Rid cfg) uid (re_now e) (mc_RuleConfig cfg) s
      \<longleftrightarrow> \<not> counted rid uid (re_now e div windowMs) s < maxMsg"
    using assms frequency_key [OF assms(1)] frequency_rid [OF assms(1)]
    by (auto simp: frequency_rule_def isUserOverFrequencyLimit_def counted_def GetInt64_def split: option.split)
  show ?thesis
    using assms(1) parsed over
    by (auto simp: frequency_rule_def IsUserMutedInRoom_def Let_def strategy_active_def)
qed

lemma frequency_incr:
  assumes "frequency_rule e rid uid cfg windowMs maxMsg s"
  defines "s' \<equiv> IncrRoomMessageFrequencyCount e rid uid s"
  shows "counted rid uid (re_now e div windowMs) s' = counted rid uid (re_now e div windowMs) s + 1"
    and "frequency_rule e' rid uid cfg windowMs maxMsg s' = frequency_rule e' rid uid cfg windowMs maxMsg s"
proof -
  have parsed: "mc_RuleConfig cfg \<noteq> NoText"
    using assms(1) by (auto simp: frequency_rule_def parseFrequencyRuleConfig_def)
  obtain sec where "GetRoomMuteConfig e rid s = Inr cfg" "mc_RuleType cfg AND RuleTypeBitFrequency \<noteq> 0"
    "parseFrequencyRuleConfig (mc_RuleConfig cfg) = Some (windowMs, sec, maxMsg)" "0 < windowMs" "\<not> re_fails e RedisCounter"
    using assms(1) by (auto simp: frequency_rule_def)
  then have s': "s' = s\<lparr>freq_count := (freq_count s)(freq_key e rid uid (re_now e div windowMs) s
      \<mapsto> counted rid uid (re_now e div windowMs) s + 1)\<rparr>"
    using parsed frequency_key [OF assms(1)]
    by (simp add: s'_def IncrRoomMessageFrequencyCount_def Let_def counted_def)
  show "counted rid uid (re_now e div windowMs) s' = counted rid uid (re_now e div windowMs) s + 1"
    by (simp add: s' counted_def [of _ _ _ "_\<lparr>freq_count := _\<rparr>"] frequency_key [OF assms(1)])
  show "frequency_rule e' rid uid cfg windowMs maxMsg s' = frequency_rule e' rid uid cfg windowMs maxMsg s"
    by (simp add: s' frequency_rule_def GetRoomMuteConfig_def GetRoomUser_def)
qed


definition demo_rule :: mute_config where
  "demo_rule = \<lparr>mc_Rid = ''r'', mc_IsMuteAll = False, mc_MuteAllBy = [], mc_Reason = [], mc_RuleType = 2,
     mc_RuleConfig = Fields \<lparr>rf_start_at = 0, rf_end_at = 0, rf_interval_unit = ''minute'', rf_interval_value = 1,
       rf_max_messages = 2\<rparr>,
     mc_AllowRoles = Some [0, 1, 2], mc_ExceptUsers = Some [], mc_EffectiveAt = 0, mc_ExpiresAt = 0,
     mc_IsActive = True, mc_Version = 1, mc_DeleteTime = 0\<rparr>"


end
