(* ===== verification/Sessions.thy ===== *)
theory Sessions
  imports RoomMute Messages "HOL-Library.Product_Lexorder"
begin

text \<open>
  The session list of a user (\<open>db/query/room_session.go\<close>): one row per user and room with
  the read positions, paged by a composite cursor, and the last message of a room shared
  through Redis; the session rows written when rooms are joined, left or written to
  (\<open>room_user_rejoin.go\<close>, \<open>room_user_leave.go\<close>, \<open>friend_chat.go\<close>), the friend relation
  (\<open>friend_group.go\<close>), and the handlers of \<open>http/handler/session/session.go\<close> that move the
  read positions. Names, avatars and online counts, which only decorate rows, are left out.
\<close>

section \<open>Rows\<close>

record user_room_session =
  us_Id :: int
  us_Uid :: uid
  us_Rid :: rid
  us_LastSeqId :: int
  us_LastMentionSeqId :: int
  us_IsTop :: bool
  us_State :: int
  us_LastRoomMessageCreateTime :: time
  us_UpdateTime :: time
  us_DeleteTime :: time

record user_friend =
  fr_Uid :: uid
  fr_FriendUid :: uid
  fr_Gid :: string
  fr_Remark :: string
  fr_DeleteTime :: time

record session_store = mute_store +
  user_sessions :: "user_room_session list"
  user_friends :: "user_friend list"
  chat_db :: message_db
  seq_keys_of :: seq_keys
  last_msg_cache :: "rid \<rightharpoonup> server_room_message"

definition open_session :: "uid \<Rightarrow> user_room_session \<Rightarrow> bool" where
  "open_session uid u \<longleftrightarrow> us_Uid u = uid \<and> us_State u = 1 \<and> us_DeleteTime u = 0"

definition fresh_session :: "uid \<Rightarrow> rid \<Rightarrow> int \<Rightarrow> time \<Rightarrow> 'a session_store_scheme \<Rightarrow> user_room_session" where
  "fresh_session uid rid lastSeqId now s =
     \<lparr>us_Id = int (length (user_sessions s)) + 1, us_Uid = uid, us_Rid = rid, us_LastSeqId = lastSeqId,
      us_LastMentionSeqId = 0, us_IsTop = False, us_State = 1, us_LastRoomMessageCreateTime = 0,
      us_UpdateTime = now, us_DeleteTime = 0\<rparr>"

definition upd_session ::
  "(user_room_session \<Rightarrow> bool) \<Rightarrow> (user_room_session \<Rightarrow> user_room_session) \<Rightarrow> 'a session_store_scheme \<Rightarrow> 'a session_store_scheme" where
  "upd_session P f s = s\<lparr>user_sessions := map (\<lambda>u. if P u then f u else u) (user_sessions s)\<rparr>"

section \<open>Friends\<close>

text \<open>Friends of each other; and whether one side only remains.\<close>

definition CheckFriendRelation :: "room_env \<Rightarrow> uid \<Rightarrow> uid \<Rightarrow> 'a session_store_scheme \<Rightarrow> room_error + bool \<times> bool" where
  "CheckFriendRelation e uid friendUid s =
     (if uid = [] \<or> friendUid = [] \<or> uid = friendUid then Inr (False, False)
      else if re_fails e FindFriends then Inl RoomStoreError
      else
        let ab = filter (\<lambda>r. fr_Uid r = uid \<and> fr_FriendUid r = friendUid) (user_friends s);
            ba = filter (\<lambda>r. fr_Uid r = friendUid \<and> fr_FriendUid r = uid) (user_friends s);
            existsAB = (ab \<noteq> []); existsBA = (ba \<noteq> []);
            delAB = (ab \<noteq> [] \<and> fr_DeleteTime (last ab) \<noteq> 0); delBA = (ba \<noteq> [] \<and> fr_DeleteTime (last ba) \<noteq> 0)
        in if existsAB \<and> existsBA \<and> \<not> delAB \<and> \<not> delBA then Inr (True, False)
           else Inr (False, existsAB \<and> delAB \<or> existsBA \<and> delBA \<or> existsAB \<noteq> existsBA))"

text \<open>The result and whether the query failed; absent users read as \<open>False\<close>.\<close>

definition CheckFriendRelationBatch ::
  "room_env \<Rightarrow> uid \<Rightarrow> uid list \<Rightarrow> 'a session_store_scheme \<Rightarrow> (uid \<Rightarrow> bool) \<times> bool" where
  "CheckFriendRelationBatch e uid friendUids s =
     (if uid = [] \<or> friendUids = [] then (\<lambda>_. False, False)
      else
        let self = (\<lambda>f. f \<in> set friendUids \<and> f = uid);
            uniq = dedup_seen {} (filter (\<lambda>f. f \<noteq> [] \<and> f \<noteq> uid) friendUids);
            ok = (\<lambda>a b. let rs = filter (\<lambda>r. fr_Uid r = a \<and> fr_FriendUid r = b) (user_friends s)
                        in rs \<noteq> [] \<and> fr_DeleteTime (last rs) = 0)
        in if uniq = [] then (self, False)
           else if re_fails e FindFriends then (self, True)
           else (\<lambda>f. if f \<in> set uniq then ok uid f \<and> ok f uid else self f, False))"

section \<open>The session list\<close>

record session_dto =
  d_Id :: int
  d_Rid :: rid
  d_RoomType :: int
  d_IsTop :: bool
  d_Name :: string
  d_MemberCount :: int
  d_CreateUid :: uid
  d_FriendUid :: uid
  d_LastSeqId :: int
  d_UnreadCount :: int
  d_LastMentionSeqId :: int
  d_LastMentionMessageSeqId :: int
  d_LastMessage :: "server_room_message option"
  d_UpdateTime :: time
  d_LastRoomMessageCreateTime :: time
  d_RoomRemark :: string
  d_IsMuteAll :: bool
  d_IsStrategyMute :: bool
  d_MyMuteUntil :: time
  d_FromRoomRid :: rid
  d_FromRoomName :: string
  d_RoomState :: int
  d_IsFriend :: bool
  d_IsRoomBlocked :: bool

text \<open>A left join: every match, or one row without a match.\<close>

definition left_join :: "('a \<Rightarrow> bool) \<Rightarrow> 'a list \<Rightarrow> 'a option list" where
  "left_join P xs = (let ys = filter P xs in if ys = [] then [None] else map Some ys)"

definition session_row ::
  "user_room_session \<Rightarrow> room \<Rightarrow> room option \<Rightarrow> room_user option \<Rightarrow> mute_config option \<Rightarrow> room_user option \<Rightarrow> session_dto" where
  "session_row us r fromR me cfg ru = \<lparr>
     d_Id = us_Id us, d_Rid = us_Rid us, d_RoomType = r_Type r, d_IsTop = us_IsTop us, d_Name = r_Name r,
     d_MemberCount = r_MemberCount r, d_CreateUid = r_CreateUid r,
     d_FriendUid = (if r_Type r = 3 then r_CreateUid r else case ru of None \<Rightarrow> [] | Some u \<Rightarrow> ru_Uid u),
     d_LastSeqId = us_LastSeqId us, d_UnreadCount = 0, d_LastMentionSeqId = us_LastMentionSeqId us,
     d_LastMentionMessageSeqId = 0, d_LastMessage = None, d_UpdateTime = us_UpdateTime us,
     d_LastRoomMessageCreateTime = us_LastRoomMessageCreateTime us,
     d_RoomRemark = (case me of None \<Rightarrow> [] | Some u \<Rightarrow> ru_RoomRemark u),
     d_IsMuteAll = (case cfg of None \<Rightarrow> False | Some c \<Rightarrow> mc_IsMuteAll c),
     d_IsStrategyMute = (case cfg of None \<Rightarrow> False | Some c \<Rightarrow> \<not> mc_IsMuteAll c \<and> mc_IsActive c),
     d_MyMuteUntil = (case me of None \<Rightarrow> 0 | Some u \<Rightarrow> ru_MuteUntil u),
     d_FromRoomRid = r_FromRoomRid r, d_FromRoomName = (case fromR of None \<Rightarrow> [] | Some f \<Rightarrow> r_Name f),
     d_RoomState = r_State r, d_IsFriend = False, d_IsRoomBlocked = False\<rparr>"

definition sessionListPageRowsQuery :: "uid \<Rightarrow> 'a session_store_scheme \<Rightarrow> session_dto list" where
  "sessionListPageRowsQuery uid s =
     [session_row us r fromR me cfg ru.
        us \<leftarrow> filter (open_session uid) (user_sessions s),
        r \<leftarrow> filter (\<lambda>r. r_Rid r = us_Rid us \<and> r_DeleteTime r = 0 \<and>
               (r_State r = RoomStateDissolved \<or> r_State r = RoomStateActive)) (rooms s),
        fromR \<leftarrow> left_join (\<lambda>f. r_FromRoomRid r = r_Rid f \<and> r_DeleteTime f = 0) (rooms s),
        me \<leftarrow> left_join (active_user (us_Rid us) uid) (room_users s),
        cfg \<leftarrow> left_join (\<lambda>c. mc_Rid c = us_Rid us \<and> mc_DeleteTime c = 0) (mute_configs s),
        ru \<leftarrow> left_join (\<lambda>u. ru_Rid u = r_Rid r \<and> ru_Uid u \<noteq> uid \<and>
               (r_Type r = RoomTypePrivate \<or> r_Type r = RoomTypeGroupPrivate) \<and> r_MemberCount r = 2 \<and>
               r_CreateUid r = ''system'' \<and> ru_DeleteTime u = 0) (room_users s)]"

text \<open>Decorations computed for a whole page at a time.\<close>

definition private_kind :: "session_dto \<Rightarrow> bool" where
  "private_kind d \<longleftrightarrow> d_RoomType d = 0 \<or> d_RoomType d = 2"

definition fillSessionFriendAndBlock :: "room_env \<Rightarrow> uid \<Rightarrow> 'a session_store_scheme \<Rightarrow> session_dto list \<Rightarrow> session_dto list" where
  "fillSessionFriendAndBlock e uid s ds =
     (let friendUids = dedup_seen {[]} (map d_FriendUid (filter private_kind ds));
          rids = dedup_seen {[]} (map d_Rid (filter private_kind ds));
          friendMap = fst (CheckFriendRelationBatch e uid friendUids s);
          blockMap = HasUserBlockedRoomBatch uid rids (chat_db s)
      in map (\<lambda>d.
           if d_RoomType d = 3 then d\<lparr>d_IsFriend := True, d_IsRoomBlocked := False\<rparr>
           else if \<not> private_kind d then d
           else d\<lparr>d_IsFriend := (if d_FriendUid d = [] then True else friendMap (d_FriendUid d)),
                  d_IsRoomBlocked := (blockMap (d_Rid d) = Some True)\<rparr>) ds)"

definition mention_max :: "uid \<Rightarrow> rid \<Rightarrow> message_db \<Rightarrow> int option" where
  "mention_max uid rid db =
     (let seqs = [rm_SeqId m. n \<leftarrow> mentions db, m \<leftarrow> messages db, mn_Uid n = uid \<and> mn_DeleteTime n = 0 \<and>
                    mn_Rid n = rid \<and> rm_Mid m = mn_Mid n \<and> open_message m]
      in if seqs = [] then None else Some (Max (set seqs)))"

definition fillLastMentionMessageSeqForSessions ::
  "room_env \<Rightarrow> uid \<Rightarrow> 'a session_store_scheme \<Rightarrow> session_dto list \<Rightarrow> session_dto list" where
  "fillLastMentionMessageSeqForSessions e uid s ds =
     (let rids = dedup_seen {[]} (map d_Rid ds) in
      if rids = [] \<or> re_fails e FindMessage then ds
      else map (\<lambda>d. case (if d_Rid d \<in> set rids then mention_max uid (d_Rid d) (chat_db s) else None) of
             None \<Rightarrow> d | Some v \<Rightarrow> d\<lparr>d_LastMentionMessageSeqId := v\<rparr>) ds)"

definition defaultSessionListPageSize :: nat where "defaultSessionListPageSize = 15"

type_synonym cursor = "time \<times> time \<times> int"

definition after_cursor :: "cursor \<Rightarrow> session_dto \<Rightarrow> bool" where
  "after_cursor c d = (case c of (ut, lm, i) \<Rightarrow>
     d_UpdateTime d < ut \<or> (d_UpdateTime d = ut \<and> d_LastRoomMessageCreateTime d < lm) \<or>
     (d_UpdateTime d = ut \<and> d_LastRoomMessageCreateTime d = lm \<and> d_Id d < i))"

definition cursor_of :: "session_dto \<Rightarrow> cursor" where
  "cursor_of d = (d_UpdateTime d, d_LastRoomMessageCreateTime d, d_Id d)"

definition session_order :: "session_dto list \<Rightarrow> session_dto list" where
  "session_order ds = sort_key (\<lambda>d. (- d_UpdateTime d, - d_LastRoomMessageCreateTime d, - d_Id d)) ds"

text \<open>A page, the cursor of its last row, and whether there are further rows; \<open>None\<close> is the first page.\<close>

definition GetUserRoomSessionPage ::
  "room_env \<Rightarrow> uid \<Rightarrow> cursor option \<Rightarrow> 'a session_store_scheme \<Rightarrow> room_error + session_dto list \<times> cursor \<times> bool" where
  "GetUserRoomSessionPage e uid cur s =
     (if re_fails e ListSessions then Inl RoomStoreError
      else
        let found = take (Suc defaultSessionListPageSize) (session_order (filter
              (\<lambda>d. case cur of None \<Rightarrow> True | Some c \<Rightarrow> after_cursor c d) (sessionListPageRowsQuery uid s)));
            hasMore = (defaultSessionListPageSize < length found);
            page = take defaultSessionListPageSize found;
            next = (if page = [] then (0, 0, 0) else cursor_of (last page))
        in Inr (fillLastMentionMessageSeqForSessions e uid s (fillSessionFriendAndBlock e uid s page), next, hasMore))"

section \<open>The last message of a room\<close>

definition InvalidateRoomLastMessageCache :: "room_env \<Rightarrow> rid \<Rightarrow> 'a session_store_scheme \<Rightarrow> 'a session_store_scheme" where
  "InvalidateRoomLastMessageCache e rid s =
     (if rid = [] \<or> re_fails e CacheDelete then s else s\<lparr>last_msg_cache := (last_msg_cache s)(rid := None)\<rparr>)"

definition dedupeRidsPreserveOrder :: "rid list \<Rightarrow> rid list" where
  "dedupeRidsPreserveOrder rids = dedup_seen {[]} rids"

definition tryRoomLastMessagesFromRedis ::
  "room_env \<Rightarrow> rid list \<Rightarrow> 'a session_store_scheme \<Rightarrow> (rid \<rightharpoonup> server_room_message) \<times> rid list" where
  "tryRoomLastMessagesFromRedis e rids s =
     (if rids = [] then (Map.empty, [])
      else if re_fails e CacheGet then (Map.empty, rids)
      else
        let hit = (\<lambda>rid. case last_msg_cache s rid of None \<Rightarrow> None
                    | Some m \<Rightarrow> if sm_Rid m \<noteq> rid \<or> sm_Mid m = [] then None else Some m)
        in (\<lambda>rid. if rid \<in> set rids then hit rid else None, filter (\<lambda>rid. hit rid = None) rids))"

definition lastMessageMidChunkSize :: nat where "lastMessageMidChunkSize = 350"
definition sessionListPreviewMaxContentRowsPerMid :: nat where "sessionListPreviewMaxContentRowsPerMid = 20"

text \<open>Contents of the messages, chunk by chunk; a chunk's rows come grouped by message.\<close>

definition chunk_rows :: "nat \<Rightarrow> message_db \<Rightarrow> mid list \<Rightarrow> content list" where
  "chunk_rows n db chunk = concat (map (\<lambda>mid. take n (contents_of mid db)) (remdups chunk))"

definition fetchLastMessageContentsByMids ::
  "room_env \<Rightarrow> mid list \<Rightarrow> nat \<Rightarrow> message_db \<Rightarrow> (mid \<Rightarrow> content list) option" where
  "fetchLastMessageContentsByMids e mids maxRows db =
     (let n = (if maxRows = 0 then sessionListPreviewMaxContentRowsPerMid else maxRows) in
      if mids \<noteq> [] \<and> re_fails e FindContent then None
      else Some (fold (\<lambda>r out. out(ct_Mid r := out (ct_Mid r) @ [r]))
        (concat (map (chunk_rows n db) (batches lastMessageMidChunkSize mids))) (\<lambda>_. [])))"

definition newest_of :: "rid \<Rightarrow> message_db \<Rightarrow> room_message option" where
  "newest_of rid db = (case seq_desc (room_rows rid db) of [] \<Rightarrow> None | m # _ \<Rightarrow> Some m)"

text \<open>
  In two parts, because other requests can run between them: the queries, which give the
  answer and what is to be cached, and the write to the cache.
\<close>

definition fetch_last_messages ::
  "room_env \<Rightarrow> uid \<Rightarrow> rid list \<Rightarrow> 'a session_store_scheme
   \<Rightarrow> room_error + (rid \<rightharpoonup> server_room_message) \<times> (rid \<rightharpoonup> server_room_message)" where
  "fetch_last_messages e uid restrictRids s =
     (let (hits, misses) = (if restrictRids = [] then (Map.empty, [])
             else tryRoomLastMessagesFromRedis e (dedupeRidsPreserveOrder restrictRids) s) in
      if restrictRids \<noteq> [] \<and> misses = [] then Inr (hits, Map.empty)
      else if re_fails e FindMessage then Inl RoomStoreError
      else
        let mine = remdups (map us_Rid (filter (open_session uid) (user_sessions s)));
            asked = filter (\<lambda>rid. misses \<noteq> [] \<longrightarrow> rid \<in> set misses) mine;
            metas = List.map_filter (\<lambda>rid. newest_of rid (chat_db s)) asked
        in if metas = [] then Inr (hits, Map.empty)
           else case fetchLastMessageContentsByMids e (map rm_Mid metas) sessionListPreviewMaxContentRowsPerMid (chat_db s) of
             None \<Rightarrow> Inl RoomStoreError
           | Some contentsByMid \<Rightarrow>
               let msgs = map_of (map (\<lambda>m. (rm_Rid m, (server_message (chat_db s) m)
                     \<lparr>sm_Contents := contentsByMid (rm_Mid m)\<rparr>)) metas)
               in Inr (hits ++ msgs, if restrictRids = [] then Map.empty else msgs))"

definition store_last_messages :: "room_env \<Rightarrow> (rid \<rightharpoonup> server_room_message) \<Rightarrow> 'a session_store_scheme \<Rightarrow> 'a session_store_scheme" where
  "store_last_messages e msgs s = (if re_fails e CacheSet then s else s\<lparr>last_msg_cache := last_msg_cache s ++ msgs\<rparr>)"

definition getLastMessagesForUserSessions ::
  "room_env \<Rightarrow> uid \<Rightarrow> rid list \<Rightarrow> 'a session_store_scheme
   \<Rightarrow> (room_error + (rid \<rightharpoonup> server_room_message)) \<times> 'a session_store_scheme" where
  "getLastMessagesForUserSessions e uid restrictRids s =
     (case fetch_last_messages e uid restrictRids s of
        Inl err \<Rightarrow> (Inl err, s) | Inr (result, fresh) \<Rightarrow> (Inr result, store_last_messages e fresh s))"

definition GetLastMessagesByUid ::
  "room_env \<Rightarrow> uid \<Rightarrow> 'a session_store_scheme \<Rightarrow> (room_error + (rid \<rightharpoonup> server_room_message)) \<times> 'a session_store_scheme" where
  "GetLastMessagesByUid e uid s = getLastMessagesForUserSessions e uid [] s"

definition GetLastMessagesByRidList ::
  "room_env \<Rightarrow> uid \<Rightarrow> rid list \<Rightarrow> 'a session_store_scheme
   \<Rightarrow> (room_error + (rid \<rightharpoonup> server_room_message)) \<times> 'a session_store_scheme" where
  "GetLastMessagesByRidList e uid rids s =
     (if rids = [] then (Inr Map.empty, s) else getLastMessagesForUserSessions e uid rids s)"

section \<open>Read positions\<close>

definition SessionUnreadCount :: "int \<Rightarrow> server_room_message option \<Rightarrow> int" where
  "SessionUnreadCount lastSeqId lastMessage =
     (case lastMessage of None \<Rightarrow> 0
      | Some m \<Rightarrow> if sm_SeqId m > lastSeqId then sm_SeqId m - lastSeqId else 0)"

text \<open>One row of the list, for a chat that is being opened; \<open>Inr None\<close> is \<open>nil\<close> without an error.\<close>

definition GetUserRoomSessionDtoByRid ::
  "room_env \<Rightarrow> uid \<Rightarrow> rid \<Rightarrow> 'a session_store_scheme \<Rightarrow> (room_error + session_dto option) \<times> 'a session_store_scheme" where
  "GetUserRoomSessionDtoByRid e uid rid s =
     (if uid = [] \<or> rid = [] \<or> re_fails e ListSessions then (Inl RoomStoreError, s)
      else case filter (\<lambda>d. d_Rid d = rid) (sessionListPageRowsQuery uid s) of
        [] \<Rightarrow> (Inr None, s)
      | d # _ \<Rightarrow>
          (case fillLastMentionMessageSeqForSessions e uid s (fillSessionFriendAndBlock e uid s [d]) of
             [] \<Rightarrow> (Inr None, s)
           | d1 # _ \<Rightarrow>
               (case GetLastMessagesByRidList e uid [rid] s of
                  (Inl err, s1) \<Rightarrow> (Inl err, s1)
                | (Inr found, s1) \<Rightarrow>
                    (let d2 = (case found rid of None \<Rightarrow> d1 | Some m \<Rightarrow> d1\<lparr>d_LastMessage := Some m\<rparr>)
                     in (Inr (Some (d2\<lparr>d_UnreadCount := SessionUnreadCount (d_LastSeqId d2) (d_LastMessage d2)\<rparr>)), s1)))))"

definition InitialLastSeqIdOnRoomJoin :: "int \<Rightarrow> int" where
  "InitialLastSeqIdOnRoomJoin seqId = (if seqId < 0 then 0 else seqId)"

definition GetUserRoomSessionSeq :: "room_env \<Rightarrow> uid \<Rightarrow> 'a session_store_scheme \<Rightarrow> room_error + (rid \<times> int) list" where
  "GetUserRoomSessionSeq e uid s =
     (if re_fails e ListSessions then Inl RoomStoreError
      else Inr (map (\<lambda>u. (us_Rid u, us_LastSeqId u)) (filter (open_session uid) (user_sessions s))))"

definition ComputeUserTotalUnread ::
  "room_env \<Rightarrow> uid \<Rightarrow> 'a session_store_scheme \<Rightarrow> (room_error + int) \<times> 'a session_store_scheme" where
  "ComputeUserTotalUnread e uid s =
     (case GetUserRoomSessionSeq e uid s of
        Inl err \<Rightarrow> (Inl err, s)
      | Inr rows \<Rightarrow>
          (case GetLastMessagesByUid e uid s of
             (Inl err, s1) \<Rightarrow> (Inl err, s1)
           | (Inr m, s1) \<Rightarrow> (Inr (sum_list (map (\<lambda>(rid, seq). SessionUnreadCount seq (m rid))
               (filter (\<lambda>(rid, _). rid \<noteq> []) rows))), s1)))"

text \<open>A look-up into a slice leaves the zero row when nothing is found; it is no error.\<close>

definition zero_session :: user_room_session where
  "zero_session = \<lparr>us_Id = 0, us_Uid = [], us_Rid = [], us_LastSeqId = 0, us_LastMentionSeqId = 0, us_IsTop = False,
     us_State = 0, us_LastRoomMessageCreateTime = 0, us_UpdateTime = 0, us_DeleteTime = 0\<rparr>"

definition GetUserRoomSession :: "room_env \<Rightarrow> uid \<Rightarrow> rid \<Rightarrow> 'a session_store_scheme \<Rightarrow> room_error + user_room_session" where
  "GetUserRoomSession e uid rid s =
     (if re_fails e FindSession then Inl RoomStoreError
      else case find (\<lambda>u. open_session uid u \<and> us_Rid u = rid) (user_sessions s) of
        None \<Rightarrow> Inr zero_session | Some u \<Rightarrow> Inr u)"

definition write_session ::
  "room_env \<Rightarrow> (user_room_session \<Rightarrow> bool) \<Rightarrow> (user_room_session \<Rightarrow> user_room_session)
   \<Rightarrow> 'a session_store_scheme \<Rightarrow> (room_error + unit) \<times> 'a session_store_scheme" where
  "write_session e P f s = (if re_fails e WriteSession then (Inl RoomStoreError, s) else (Inr (), upd_session P f s))"

definition UpdateUserRoomSessionLastSeqId ::
  "room_env \<Rightarrow> uid \<Rightarrow> rid \<Rightarrow> int \<Rightarrow> 'a session_store_scheme \<Rightarrow> (room_error + unit) \<times> 'a session_store_scheme" where
  "UpdateUserRoomSessionLastSeqId e uid rid seqId s =
     write_session e (\<lambda>u. open_session uid u \<and> us_Rid u = rid) (\<lambda>u. u\<lparr>us_LastSeqId := seqId\<rparr>) s"

definition UpdateUserRoomSessionLastMentionSeqId ::
  "room_env \<Rightarrow> uid \<Rightarrow> rid \<Rightarrow> int \<Rightarrow> 'a session_store_scheme \<Rightarrow> (room_error + unit) \<times> 'a session_store_scheme" where
  "UpdateUserRoomSessionLastMentionSeqId e uid rid mentionSeqId s =
     write_session e (\<lambda>u. open_session uid u \<and> us_Rid u = rid) (\<lambda>u. u\<lparr>us_LastMentionSeqId := mentionSeqId\<rparr>) s"

text \<open>The handlers: a position moves forward only.\<close>

definition UpdateLastSeqId ::
  "room_env \<Rightarrow> uid \<Rightarrow> rid \<Rightarrow> int \<Rightarrow> 'a session_store_scheme \<Rightarrow> (room_error + unit) \<times> 'a session_store_scheme" where
  "UpdateLastSeqId e uid rid seqId s =
     (case GetUserRoomSession e uid rid s of
        Inl err \<Rightarrow> (Inl err, s)
      | Inr session \<Rightarrow> if us_LastSeqId session \<ge> seqId then (Inr (), s)
          else UpdateUserRoomSessionLastSeqId e uid rid seqId s)"

definition UpdateLastMentionSeqId ::
  "room_env \<Rightarrow> uid \<Rightarrow> rid \<Rightarrow> int \<Rightarrow> 'a session_store_scheme \<Rightarrow> (room_error + unit) \<times> 'a session_store_scheme" where
  "UpdateLastMentionSeqId e uid rid seqId s =
     (case GetUserRoomSession e uid rid s of
        Inl err \<Rightarrow> (Inl err, s)
      | Inr session \<Rightarrow> if us_LastMentionSeqId session \<ge> seqId then (Inr (), s)
          else UpdateUserRoomSessionLastMentionSeqId e uid rid seqId s)"

definition SetUserRoomSessionTop ::
  "room_env \<Rightarrow> uid \<Rightarrow> rid \<Rightarrow> bool \<Rightarrow> 'a session_store_scheme \<Rightarrow> (room_error + unit) \<times> 'a session_store_scheme" where
  "SetUserRoomSessionTop e uid rid isTop s =
     (if re_fails e WriteSession \<or> re_fails e CommitRoom then (Inl RoomStoreError, s)
      else
        let s1 = (if isTop then upd_session (\<lambda>u. us_Uid u = uid \<and> us_DeleteTime u = 0) (\<lambda>u. u\<lparr>us_IsTop := False\<rparr>) s else s);
            mine = (\<lambda>u. open_session uid u \<and> us_Rid u = rid)
        in if \<not> (\<exists>u \<in> set (user_sessions s1). mine u) then (Inl RoomNotFound, s)
           else (Inr (), upd_session mine (\<lambda>u. u\<lparr>us_IsTop := isTop\<rparr>) s1))"

section \<open>Sessions that messages and members bring about\<close>

definition BumpUserRoomSessionLastMessageTime ::
  "room_env \<Rightarrow> rid \<Rightarrow> time \<Rightarrow> 'a session_store_scheme \<Rightarrow> (room_error + unit) \<times> 'a session_store_scheme" where
  "BumpUserRoomSessionLastMessageTime e rid msgCreateTime s =
     (if rid = [] \<or> msgCreateTime \<le> 0 then (Inr (), s)
      else if re_fails e WriteSession then (Inl RoomStoreError, s)
      else (Inr (), InvalidateRoomLastMessageCache e rid
        (upd_session (\<lambda>u. us_Rid u = rid \<and> us_State u = 1 \<and> us_DeleteTime u = 0)
          (\<lambda>u. u\<lparr>us_LastRoomMessageCreateTime := max (us_LastRoomMessageCreateTime u) msgCreateTime,
                us_UpdateTime := max (us_UpdateTime u) msgCreateTime\<rparr>) s)))"

definition UpsertActiveUserRoomSessionTx ::
  "room_env \<Rightarrow> uid \<Rightarrow> rid \<Rightarrow> int \<Rightarrow> time \<Rightarrow> 'a session_store_scheme \<Rightarrow> (room_error + unit) \<times> 'a session_store_scheme" where
  "UpsertActiveUserRoomSessionTx e uid rid lastSeqId nowMs s =
     (if re_fails e FindSession \<or> re_fails e WriteSession then (Inl RoomStoreError, s)
      else if \<exists>u \<in> set (user_sessions s). us_Uid u = uid \<and> us_Rid u = rid
      then (Inr (), upd_session (\<lambda>u. us_Uid u = uid \<and> us_Rid u = rid)
        (\<lambda>u. u\<lparr>us_DeleteTime := 0, us_State := 1, us_LastSeqId := lastSeqId, us_IsTop := False, us_UpdateTime := nowMs\<rparr>) s)
      else (Inr (), s\<lparr>user_sessions := user_sessions s @ [fresh_session uid rid lastSeqId (re_now e) s]\<rparr>))"

definition HideUserRoomSession ::
  "room_env \<Rightarrow> uid \<Rightarrow> rid \<Rightarrow> 'a session_store_scheme \<Rightarrow> (room_error + unit) \<times> 'a session_store_scheme" where
  "HideUserRoomSession e uid rid s =
     write_session e (\<lambda>u. us_Uid u = uid \<and> us_Rid u = rid \<and> us_DeleteTime u = 0)
       (\<lambda>u. u\<lparr>us_State := 0, us_DeleteTime := re_now e\<rparr>) s"

text \<open>
  The unique index on user and room covers deleted rows: creating a session next to a
  deleted one fails.
\<close>

definition EnsureReceiverSessionForPrivateRoom ::
  "room_env \<Rightarrow> rid \<Rightarrow> uid \<Rightarrow> 'a session_store_scheme \<Rightarrow> (room_error + unit) \<times> 'a session_store_scheme" where
  "EnsureReceiverSessionForPrivateRoom e rid senderUid s =
     (if re_fails e FindRoom then (Inl RoomStoreError, s)
      else case find (\<lambda>r. r_Rid r = rid \<and> r_DeleteTime r = 0 \<and> r_State r = 1) (rooms s) of
        None \<Rightarrow> (Inr (), s)
      | Some room \<Rightarrow>
          if r_MemberCount room \<noteq> 2 \<or> (r_Type room \<noteq> RoomTypePrivate \<and> r_Type room \<noteq> RoomTypeGroupPrivate) then (Inr (), s)
          else (case GetRoomUserIdsCache e rid s of
             (Inl err, s1) \<Rightarrow> (Inl err, s1)
           | (Inr userIds, s1) \<Rightarrow>
               (case find (\<lambda>uid. uid \<noteq> senderUid) userIds of
                  None \<Rightarrow> (Inr (), s1)
                | Some receiverUid \<Rightarrow>
                    if receiverUid = [] then (Inr (), s1)
                    else if re_fails e FindSession then (Inl RoomStoreError, s1)
                    else (case find (\<lambda>u. us_Uid u = receiverUid \<and> us_Rid u = rid \<and> us_DeleteTime u = 0) (user_sessions s1) of
                       None \<Rightarrow>
                         if re_fails e WriteSession \<or> re_fails e CommitRoom \<or>
                            (\<exists>u \<in> set (user_sessions s1). us_Uid u = receiverUid \<and> us_Rid u = rid)
                         then (Inl RoomStoreError, s1)
                         else
                           let s2 = upd_session (\<lambda>u. us_Uid u = receiverUid \<and> us_DeleteTime u = 0) (\<lambda>u. u\<lparr>us_State := 1\<rparr>) s1
                           in (Inr (), s2\<lparr>user_sessions := user_sessions s2 @ [fresh_session receiverUid rid 0 (re_now e) s2]\<rparr>)
                     | Some u \<Rightarrow>
                         if us_State u = 1 then (Inr (), s1)
                         else if re_fails e WriteSession \<or> re_fails e CommitRoom then (Inl RoomStoreError, s1)
                         else (Inr (), upd_session (\<lambda>v. us_Id v = us_Id u) (\<lambda>v. v\<lparr>us_State := 1\<rparr>) s1)))))"

section \<open>Batch look-ups agree with single ones\<close>

lemma left_join_set: "set (left_join P xs) = (if filter P xs = [] then {None} else Some ` {x \<in> set xs. P x})"
  by (auto simp: left_join_def Let_def)

definition friend_view :: "room_env \<Rightarrow> uid \<Rightarrow> 'a session_store_scheme \<Rightarrow> session_dto \<Rightarrow> session_dto" where
  "friend_view e uid s d =
     (if d_RoomType d = 3 then d\<lparr>d_IsFriend := True, d_IsRoomBlocked := False\<rparr>
      else if \<not> private_kind d then d
      else d\<lparr>d_IsFriend := (d_FriendUid d = [] \<or> (\<exists>b. CheckFriendRelation e uid (d_FriendUid d) s = Inr (True, b))),
             d_IsRoomBlocked := (d_Rid d \<noteq> [] \<and> HasUserBlockedRoom uid (d_Rid d) (chat_db s))\<rparr>)"

definition mention_view :: "uid \<Rightarrow> 'a session_store_scheme \<Rightarrow> session_dto \<Rightarrow> session_dto" where
  "mention_view uid s d =
     (if d_Rid d = [] then d else case mention_max uid (d_Rid d) (chat_db s) of
        None \<Rightarrow> d | Some v \<Rightarrow> d\<lparr>d_LastMentionMessageSeqId := v\<rparr>)"

lemma friend_batch:
  assumes "\<not> re_fails e FindFriends" and "uid \<noteq> []" and "f \<in> set fs" and "f \<noteq> []" and "f \<noteq> uid"
  shows "fst (CheckFriendRelationBatch e uid fs s) f \<longleftrightarrow> (\<exists>b. CheckFriendRelation e uid f s = Inr (True, b))"
proof -
  have "fs \<noteq> []" "dedup_seen {} (filter (\<lambda>f. f \<noteq> [] \<and> f \<noteq> uid) fs) \<noteq> []"
    using assms(3-5) set_dedup_seen [of "{}" "filter (\<lambda>f. f \<noteq> [] \<and> f \<noteq> uid) fs"] by fastforce+
  with assms show ?thesis
    by (auto simp: CheckFriendRelationBatch_def CheckFriendRelation_def Let_def)
qed

lemma blocked_batch:
  assumes "uid \<noteq> []" and "rid \<in> set rids"
  shows "HasUserBlockedRoomBatch uid rids db rid = Some True \<longleftrightarrow> HasUserBlockedRoom uid rid db"
  using assms by (auto simp: HasUserBlockedRoomBatch_def HasUserBlockedRoom_def filter_empty_conv)

lemma fill_friend_view:
  assumes "\<not> re_fails e FindFriends" and "uid \<noteq> []"
    and "\<And>d. d \<in> set ds \<Longrightarrow> private_kind d \<Longrightarrow> d_FriendUid d \<noteq> uid"
  shows "fillSessionFriendAndBlock e uid s ds = map (friend_view e uid s) ds"
proof -
  let ?fs = "dedup_seen {[]} (map d_FriendUid (filter private_kind ds))"
  let ?rids = "dedup_seen {[]} (map d_Rid (filter private_kind ds))"
  have fs: "fst (CheckFriendRelationBatch e uid ?fs s) (d_FriendUid d)
      \<longleftrightarrow> (\<exists>b. CheckFriendRelation e uid (d_FriendUid d) s = Inr (True, b))"
    if "d \<in> set ds" "private_kind d" "d_FriendUid d \<noteq> []" for d
    using that assms by (intro friend_batch) auto
  have bl: "HasUserBlockedRoomBatch uid ?rids (chat_db s) (d_Rid d) = Some True
      \<longleftrightarrow> d_Rid d \<noteq> [] \<and> HasUserBlockedRoom uid (d_Rid d) (chat_db s)"
    if "d \<in> set ds" "private_kind d" for d
  proof (cases "d_Rid d = []")
    case True
    then show ?thesis by (auto simp: HasUserBlockedRoomBatch_def)
  next
    case False
    then have "d_Rid d \<in> set ?rids" using that by auto
    from blocked_batch [OF assms(2) this] False show ?thesis by simp
  qed
  show ?thesis
    unfolding fillSessionFriendAndBlock_def Let_def friend_view_def
    by (rule map_cong [OF refl]) (simp add: fs bl)
qed

lemma fill_mention_view:
  assumes "\<not> re_fails e FindMessage"
  shows "fillLastMentionMessageSeqForSessions e uid s ds = map (mention_view uid s) ds"
proof (cases "dedup_seen {[]} (map d_Rid ds) = []")
  case True
  then have "set (map d_Rid ds) - {[]} = {}" by (metis empty_set set_dedup_seen)
  then have "map (mention_view uid s) ds = ds" by (intro map_idI) (auto simp: mention_view_def)
  with True show ?thesis by (simp add: fillLastMentionMessageSeqForSessions_def)
next
  case False
  with assms show ?thesis
    by (auto simp: fillLastMentionMessageSeqForSessions_def Let_def mention_view_def)
qed

section \<open>Paging through the session list\<close>

text \<open>The contract of keyset paging, for the composite cursor; no cursor comes before every row.\<close>

interpretation session_list: keyset "\<lambda>k d. case k of None \<Rightarrow> True | Some c \<Rightarrow> after_cursor c d" "\<lambda>d. Some (cursor_of d)"
  by unfold_locales (auto simp: after_cursor_def cursor_of_def)

lemma session_order_listing:
  assumes "distinct (map d_Id ds)"
  shows "session_list.listing (session_order ds)"
proof -
  let ?key = "\<lambda>d. (- d_UpdateTime d, - d_LastRoomMessageCreateTime d, - d_Id d)"
  have "sorted (map ?key (session_order ds))" by (simp add: session_order_def)
  moreover have "distinct (map ?key (session_order ds))"
    using assms by (auto simp: session_order_def distinct_map inj_on_def)
  ultimately have "sorted_wrt (<) (map ?key (session_order ds))" by (simp add: strict_sorted_iff)
  then have "sorted_wrt (\<lambda>x y. ?key x < ?key y) (session_order ds)" by (simp add: sorted_wrt_map)
  then show ?thesis
    unfolding session_list.listing_def
    by (rule sorted_wrt_mono_rel [rotated]) (auto simp: after_cursor_def cursor_of_def less_prod_def)
qed

text \<open>The client that scrolls: it asks again with the returned cursor as long as there is more.\<close>

fun follow_pages :: "nat \<Rightarrow> room_env \<Rightarrow> uid \<Rightarrow> cursor option \<Rightarrow> 'a session_store_scheme \<Rightarrow> session_dto list" where
  "follow_pages 0 e uid cur s = []"
| "follow_pages (Suc requests) e uid cur s =
     (case GetUserRoomSessionPage e uid cur s of
        Inl _ \<Rightarrow> []
      | Inr (page, next, hasMore) \<Rightarrow>
          page @ (if hasMore then follow_pages requests e uid (Some next) s else []))"

lemma left_join_mem: "Some y \<in> set (left_join P xs) \<Longrightarrow> P y"
  by (auto simp: left_join_set split: if_splits)

lemma private_partner:
  assumes "d \<in> set (sessionListPageRowsQuery uid s)" and "uid \<noteq> []" and "private_kind d"
  shows "d_FriendUid d \<noteq> uid"
proof -
  obtain us r fromR me cfg ru P where d: "d = session_row us r fromR me cfg ru"
    and ru: "ru \<in> set (left_join (\<lambda>u. ru_Uid u \<noteq> uid \<and> P u) (room_users s))"
  proof -
    assume found: "\<And>us r fromR me cfg ru P. d = session_row us r fromR me cfg ru \<Longrightarrow>
      ru \<in> set (left_join (\<lambda>u. ru_Uid u \<noteq> uid \<and> P u) (room_users s)) \<Longrightarrow> thesis"
    obtain us r fromR me cfg ru where d: "d = session_row us r fromR me cfg ru"
      and ru: "ru \<in> set (left_join (\<lambda>u. ru_Rid u = r_Rid r \<and> ru_Uid u \<noteq> uid \<and>
               (r_Type r = RoomTypePrivate \<or> r_Type r = RoomTypeGroupPrivate) \<and> r_MemberCount r = 2 \<and>
               r_CreateUid r = ''system'' \<and> ru_DeleteTime u = 0) (room_users s))"
      using assms(1) unfolding sessionListPageRowsQuery_def by (auto simp only: set_concat set_map UN_iff image_iff)
    from d ru found [where P = "\<lambda>u. ru_Rid u = r_Rid r \<and> (r_Type r = RoomTypePrivate \<or> r_Type r = RoomTypeGroupPrivate) \<and>
        r_MemberCount r = 2 \<and> r_CreateUid r = ''system'' \<and> ru_DeleteTime u = 0"]
    show thesis by (simp add: conj_ac)
  qed
  have "r_Type r \<noteq> 3" using assms(3) d by (auto simp: private_kind_def session_row_def)
  with d have "d_FriendUid d = (case ru of None \<Rightarrow> [] | Some u \<Rightarrow> ru_Uid u)" by (simp add: session_row_def)
  moreover have "ru_Uid u \<noteq> uid" if "ru = Some u" for u using left_join_mem [OF ru [unfolded that]] by simp
  ultimately show ?thesis using assms(2) by (cases ru) simp_all
qed

lemma page_view:
  fixes s :: "'a session_store_scheme"
  assumes "\<And>c. \<not> re_fails e c" and "uid \<noteq> []"
  defines "rows \<equiv> session_order (sessionListPageRowsQuery uid s)"
  shows "GetUserRoomSessionPage e uid cur s =
    (case session_list.peek 15 cur rows of (p, further) \<Rightarrow>
       Inr (map (mention_view uid s \<circ> friend_view e uid s) p, if p = [] then (0, 0, 0) else cursor_of (last p), further))"
proof -
  let ?q = "\<lambda>d. case cur of None \<Rightarrow> True | Some c \<Rightarrow> after_cursor c d"
  have found: "session_order (filter ?q (sessionListPageRowsQuery uid s)) = filter ?q rows"
    by (simp add: rows_def session_order_def filter_sort)
  have "fillSessionFriendAndBlock e uid s (take 15 (filter ?q rows)) = map (friend_view e uid s) (take 15 (filter ?q rows))"
    using assms(1,2)
    by (intro fill_friend_view) (auto simp: rows_def session_order_def dest!: in_set_takeD dest: private_partner)
  then show ?thesis
    using assms(1)
    by (simp add: GetUserRoomSessionPage_def session_list.peek_def session_list.page_def found Let_def
        defaultSessionListPageSize_def fill_mention_view min_def)
qed

lemma follow_pages_walk:
  assumes "\<And>c. \<not> re_fails e c" and "uid \<noteq> []"
  shows "follow_pages requests e uid cur s = map (mention_view uid s \<circ> friend_view e uid s)
    (session_list.walk_ahead requests 15 cur (session_order (sessionListPageRowsQuery uid s)))"
proof (induction requests arbitrary: cur)
  case (Suc requests)
  obtain p further where p: "session_list.peek 15 cur (session_order (sessionListPageRowsQuery uid s)) = (p, further)"
    by fastforce
  have "p \<noteq> []" if further using p that by (auto simp: session_list.peek_def Let_def)
  then show ?case using Suc by (simp add: page_view [OF assms] p)
qed simp

text \<open>
  C29. The session list is read completely by following its pages: whatever the times of
  the sessions, ties included, the client that repeats the request with the cursor it was
  given until there is no more sees every open session of the user once, in the order of
  the list, each with the friend, block and mention marks that the single look-ups give.
\<close>

theorem session_paging_complete:
  assumes "\<And>c. \<not> re_fails e c" and "uid \<noteq> []"
    and "distinct (map d_Id (sessionListPageRowsQuery uid s))"
    and "length (sessionListPageRowsQuery uid s) \<le> 15 * requests"
  shows "follow_pages requests e uid None s =
    map (mention_view uid s \<circ> friend_view e uid s) (session_order (sessionListPageRowsQuery uid s))"
proof -
  let ?rows = "session_order (sessionListPageRowsQuery uid s)"
  have "session_list.walk_ahead requests 15 None ([] @ ?rows) = ?rows"
    using session_order_listing [OF assms(3)] assms(4)
    by (intro session_list.walk_ahead_suffix) (simp_all add: session_order_def)
  then show ?thesis by (simp add: follow_pages_walk [OF assms(1,2)])
qed

section \<open>A user pins one session\<close>

text \<open>
  The unique index of user and room, and at most one pinned session among the sessions of
  a user that are not deleted.
\<close>

definition pinned :: "uid \<Rightarrow> user_room_session \<Rightarrow> bool" where
  "pinned uid u \<longleftrightarrow> us_Uid u = uid \<and> us_DeleteTime u = 0 \<and> us_IsTop u"

abbreviation session_key :: "user_room_session \<Rightarrow> uid \<times> rid" where
  "session_key u \<equiv> (us_Uid u, us_Rid u)"

definition pins_ok :: "user_room_session list \<Rightarrow> bool" where
  "pins_ok us \<longleftrightarrow> distinct (map session_key us) \<and> (\<forall>uid. length (filter (pinned uid) us) \<le> 1)"

definition sessions_ok :: "'a session_store_scheme \<Rightarrow> bool" where
  "sessions_ok s \<longleftrightarrow> pins_ok (user_sessions s)"

lemma filter_map_le:
  "(\<And>x. x \<in> set xs \<Longrightarrow> P (f x) \<Longrightarrow> P x) \<Longrightarrow> length (filter P (map f xs)) \<le> length (filter P xs)"
  by (induction xs) (auto simp: le_SucI)

lemma one_of_unique:
  assumes "distinct (map k xs)" and "\<And>x. x \<in> set xs \<Longrightarrow> P x \<Longrightarrow> k x = c"
  shows "length (filter P xs) \<le> 1"
  using assms
proof (induction xs)
  case (Cons x xs)
  show ?case
  proof (cases "P x")
    case True
    have "\<not> P y" if "y \<in> set xs" for y
    proof
      assume "P y"
      then have "k y = k x" using Cons.prems(2) [of y] Cons.prems(2) [of x] that True by simp
      moreover have "k x \<notin> k ` set xs" using Cons.prems(1) by simp
      ultimately show False using that by (metis image_eqI)
    qed
    then have "filter P xs = []" by (simp add: filter_empty_conv)
    then show ?thesis by simp
  next
    case False
    with Cons show ?thesis by simp
  qed
qed simp

lemma pins_map:
  assumes "pins_ok us" and "\<And>u. session_key (f u) = session_key u"
    and "\<And>uid u. u \<in> set us \<Longrightarrow> pinned uid (f u) \<Longrightarrow> pinned uid u"
  shows "pins_ok (map f us)"
proof -
  have "map session_key (map f us) = map session_key us" using assms(2) by simp
  moreover have "length (filter (pinned uid) (map f us)) \<le> 1" for uid
    using filter_map_le [of us "pinned uid" f] assms(1,3) unfolding pins_ok_def by (meson le_trans)
  ultimately show ?thesis using assms(1) unfolding pins_ok_def by presburger
qed

lemma pins_append:
  assumes "pins_ok us" and "session_key r \<notin> session_key ` set us" and "\<not> us_IsTop r"
  shows "pins_ok (us @ [r])"
proof -
  have "distinct (map session_key (us @ [r]))" using assms(1,2) unfolding pins_ok_def by simp
  moreover have "filter (pinned uid) (us @ [r]) = filter (pinned uid) us" for uid
    using assms(3) by (simp add: pinned_def)
  ultimately show ?thesis using assms(1) unfolding pins_ok_def by metis
qed

text \<open>All of a user's pins are taken away, then the session of one room is pinned.\<close>

definition unpin :: "uid \<Rightarrow> user_room_session \<Rightarrow> user_room_session" where
  "unpin uid u = (if us_Uid u = uid \<and> us_DeleteTime u = 0 then u\<lparr>us_IsTop := False\<rparr> else u)"

definition pin :: "uid \<Rightarrow> rid \<Rightarrow> user_room_session \<Rightarrow> user_room_session" where
  "pin uid rid u = (if open_session uid u \<and> us_Rid u = rid then u\<lparr>us_IsTop := True\<rparr> else u)"

lemma pin_fields [simp]:
  "us_Uid (unpin v u) = us_Uid u" "us_Rid (unpin v u) = us_Rid u" "us_State (unpin v u) = us_State u"
  "us_DeleteTime (unpin v u) = us_DeleteTime u"
  "us_IsTop (unpin v u) \<longleftrightarrow> us_IsTop u \<and> \<not> (us_Uid u = v \<and> us_DeleteTime u = 0)"
  "us_Uid (pin v rid u) = us_Uid u" "us_Rid (pin v rid u) = us_Rid u" "us_DeleteTime (pin v rid u) = us_DeleteTime u"
  "us_IsTop (pin v rid u) \<longleftrightarrow> us_IsTop u \<or> open_session v u \<and> us_Rid u = rid"
  by (auto simp: unpin_def pin_def)

lemma pin_unpin:
  "session_key (pin uid rid (unpin uid u)) = session_key u"
  "pinned v (pin uid rid (unpin uid u)) \<Longrightarrow> v = uid \<Longrightarrow> session_key u = (uid, rid)"
  "pinned v (pin uid rid (unpin uid u)) \<Longrightarrow> v \<noteq> uid \<Longrightarrow> pinned v u"
  by (auto simp: pinned_def open_session_def)

lemma pins_move:
  assumes "pins_ok us"
  shows "pins_ok (map (pin uid rid) (map (unpin uid) us))"
proof -
  let ?vs = "map (pin uid rid \<circ> unpin uid) us"
  have keys: "map session_key ?vs = map session_key us" by (simp add: pin_unpin(1))
  then have distinct: "distinct (map session_key ?vs)" using assms unfolding pins_ok_def by metis
  have "length (filter (pinned v) ?vs) \<le> 1" for v
  proof (cases "v = uid")
    case True
    have "session_key x = (uid, rid)" if "x \<in> set ?vs" "pinned v x" for x
    proof -
      from that(1) obtain u where "x = pin uid rid (unpin uid u)" by auto
      with that(2) pin_unpin(1) [of uid rid u] pin_unpin(2) [of v uid rid u] True show ?thesis by simp
    qed
    then show ?thesis by (rule one_of_unique [OF distinct])
  next
    case False
    have "length (filter (pinned v) ?vs) \<le> length (filter (pinned v) us)"
      using pin_unpin(3) [OF _ False] by (intro filter_map_le) simp
    then show ?thesis using assms unfolding pins_ok_def by (meson le_trans)
  qed
  with distinct show ?thesis unfolding pins_ok_def map_map by blast
qed

lemma sessions_of_upd [simp]:
  "user_sessions (upd_session P f s) = map (\<lambda>u. if P u then f u else u) (user_sessions s)"
  by (simp add: upd_session_def)

lemma upd_session_ok:
  assumes "sessions_ok s" and "\<And>u. session_key (f u) = session_key u"
    and "\<And>u. P u \<Longrightarrow> us_IsTop (f u) \<Longrightarrow> us_DeleteTime (f u) = 0 \<Longrightarrow> us_IsTop u \<and> us_DeleteTime u = 0"
  shows "sessions_ok (upd_session P f s)"
  unfolding sessions_ok_def sessions_of_upd
proof (rule pins_map)
  show "pins_ok (user_sessions s)" using assms(1) by (simp add: sessions_ok_def)
  show "session_key (if P u then f u else u) = session_key u" for u using assms(2) [of u] by simp
  show "pinned uid u" if "pinned uid (if P u then f u else u)" for uid u
    using that assms(2,3) [of u] by (auto simp: pinned_def split: if_splits)
qed

lemma sessions_ok_simps [simp]:
  "sessions_ok (s\<lparr>last_msg_cache := c\<rparr>) = sessions_ok s" "sessions_ok (s\<lparr>room_ids_cache := i\<rparr>) = sessions_ok s"
  by (simp_all add: sessions_ok_def)

lemma set_top_ok [inv_intro]:
  assumes "sessions_ok s"
  shows "sessions_ok (snd (SetUserRoomSessionTop e uid rid isTop s))"
proof (cases isTop)
  case True
  have "sessions_ok (upd_session (\<lambda>u. open_session uid u \<and> us_Rid u = rid) (\<lambda>u. u\<lparr>us_IsTop := True\<rparr>)
      (upd_session (\<lambda>u. us_Uid u = uid \<and> us_DeleteTime u = 0) (\<lambda>u. u\<lparr>us_IsTop := False\<rparr>) s))"
    using pins_move [of "user_sessions s" uid rid] assms
    unfolding sessions_ok_def sessions_of_upd pin_def [abs_def] unpin_def [abs_def] by blast
  with True assms show ?thesis by (simp add: SetUserRoomSessionTop_def Let_def)
next
  case False
  then show ?thesis using assms by (auto simp: SetUserRoomSessionTop_def Let_def intro: upd_session_ok)
qed

lemma write_session_ok:
  assumes "sessions_ok s" and "\<And>u. session_key (f u) = session_key u"
    and "\<And>u. P u \<Longrightarrow> us_IsTop (f u) \<Longrightarrow> us_DeleteTime (f u) = 0 \<Longrightarrow> us_IsTop u \<and> us_DeleteTime u = 0"
  shows "sessions_ok (snd (write_session e P f s))"
  using upd_session_ok [OF assms] assms(1) by (simp add: write_session_def)

lemma read_position_ok [inv_intro]:
  "sessions_ok s \<Longrightarrow> sessions_ok (snd (UpdateLastSeqId e uid rid q s))"
  "sessions_ok s \<Longrightarrow> sessions_ok (snd (UpdateLastMentionSeqId e uid rid q s))"
  by (auto simp: UpdateLastSeqId_def UpdateLastMentionSeqId_def UpdateUserRoomSessionLastSeqId_def
      UpdateUserRoomSessionLastMentionSeqId_def intro: write_session_ok split: sum.split)

lemma hide_ok [inv_intro]: "sessions_ok s \<Longrightarrow> sessions_ok (snd (HideUserRoomSession e uid rid s))"
  by (auto simp: HideUserRoomSession_def intro: write_session_ok)

lemma bump_ok [inv_intro]: "sessions_ok s \<Longrightarrow> sessions_ok (snd (BumpUserRoomSessionLastMessageTime e rid t s))"
  by (auto simp: BumpUserRoomSessionLastMessageTime_def InvalidateRoomLastMessageCache_def intro: upd_session_ok)

lemma fresh_session_simps [simp]:
  "us_Uid (fresh_session uid rid q now s) = uid" "us_Rid (fresh_session uid rid q now s) = rid"
  "\<not> us_IsTop (fresh_session uid rid q now s)"
  by (simp_all add: fresh_session_def)

lemma append_fresh_ok:
  assumes "sessions_ok s" and "\<not> (\<exists>u \<in> set (user_sessions s). us_Uid u = uid \<and> us_Rid u = rid)"
  shows "sessions_ok (s\<lparr>user_sessions := user_sessions s @ [fresh_session uid rid q now t]\<rparr>)"
  using pins_append [of "user_sessions s" "fresh_session uid rid q now t"] assms
  by (auto simp: sessions_ok_def)

lemma upsert_ok [inv_intro]:
  "sessions_ok s \<Longrightarrow> sessions_ok (snd (UpsertActiveUserRoomSessionTx e uid rid q t s))"
  by (auto simp: UpsertActiveUserRoomSessionTx_def intro: upd_session_ok append_fresh_ok)

lemma cache_ok [inv_intro]:
  "GetRoomUserIdsCache e rid s = (r, s') \<Longrightarrow> sessions_ok s \<Longrightarrow> sessions_ok s'"
  by (auto simp: GetRoomUserIdsCache_def SetRoomUserIdsCache_def Let_def split: if_splits option.splits sum.splits)

lemma receiver_ok [inv_intro]:
  assumes "sessions_ok s"
  shows "sessions_ok (snd (EnsureReceiverSessionForPrivateRoom e rid senderUid s))"
proof -
  have ensured: "sessions_ok (t\<lparr>user_sessions := user_sessions t @ [fresh_session v rid 0 (re_now e) t']\<rparr>)"
    if "sessions_ok t1" "t = upd_session P (\<lambda>u. u\<lparr>us_State := 1\<rparr>) t1"
      "\<not> (\<exists>u \<in> set (user_sessions t1). us_Uid u = v \<and> us_Rid u = rid)" for t t1 t' P v
  proof (rule append_fresh_ok)
    show "sessions_ok t" using that(1) unfolding that(2) by (rule upd_session_ok) simp_all
    show "\<not> (\<exists>u \<in> set (user_sessions t). us_Uid u = v \<and> us_Rid u = rid)" using that(3) unfolding that(2) by auto
  qed
  show ?thesis
    using assms unfolding EnsureReceiverSessionForPrivateRoom_def
    by (auto simp: Let_def simp del: sessions_of_upd split: option.split sum.split prod.split
        intro: cache_ok upd_session_ok ensured)
qed

datatype session_write =
    ReadTo uid rid int
  | MentionReadTo uid rid int
  | SetTop uid rid bool
  | NewMessage rid time
  | LeaveRoom uid rid
  | JoinRoom uid rid int
  | PrivateMessage rid uid

fun session_write1 :: "session_write \<Rightarrow> room_env \<Rightarrow> 'a session_store_scheme \<Rightarrow> 'a session_store_scheme" where
  "session_write1 (ReadTo uid rid q) e s = snd (UpdateLastSeqId e uid rid q s)"
| "session_write1 (MentionReadTo uid rid q) e s = snd (UpdateLastMentionSeqId e uid rid q s)"
| "session_write1 (SetTop uid rid b) e s = snd (SetUserRoomSessionTop e uid rid b s)"
| "session_write1 (NewMessage rid t) e s = snd (BumpUserRoomSessionLastMessageTime e rid t s)"
| "session_write1 (LeaveRoom uid rid) e s = snd (HideUserRoomSession e uid rid s)"
| "session_write1 (JoinRoom uid rid q) e s = snd (UpsertActiveUserRoomSessionTx e uid rid q (re_now e) s)"
| "session_write1 (PrivateMessage rid uid) e s = snd (EnsureReceiverSessionForPrivateRoom e rid uid s)"

text \<open>
  C30. A user pins at most one session and has one session per room: whatever sequence of
  reads, pins, messages, joins and departures runs, with whatever stores failing, no user
  ever has two pinned sessions that are not deleted, nor two rows for a room.
\<close>

theorem one_pinned_session:
  fixes s :: "'a session_store_scheme" and ws :: "(session_write \<times> room_env) list"
  assumes "user_sessions s = []"
  defines "s' \<equiv> fold (\<lambda>(w, e). session_write1 w e) ws s"
  shows "length (filter (pinned uid) (user_sessions s')) \<le> 1 \<and> distinct (map session_key (user_sessions s'))"
proof -
  have step: "sessions_ok (session_write1 w e t)" if "sessions_ok t" for w e and t :: "'a session_store_scheme"
    using that by (cases w) (simp_all add: inv_intro)
  have run: "sessions_ok (fold (\<lambda>(w, e). session_write1 w e) ws t)" if "sessions_ok t" for t :: "'a session_store_scheme"
    using that by (induction ws arbitrary: t) (auto simp: step)
  have "sessions_ok s" using assms(1) by (simp add: sessions_ok_def pins_ok_def)
  from run [OF this] show ?thesis by (simp add: s'_def sessions_ok_def pins_ok_def)
qed

section \<open>Concrete stores\<close>

definition empty_session_store :: session_store where
  "empty_session_store = \<lparr>rooms = [], room_users = [], room_ids_cache = (\<lambda>_. None), mute_configs = [],
     freq_version = (\<lambda>_. None), freq_count = (\<lambda>_. None), user_sessions = [], user_friends = [],
     chat_db = empty_db, seq_keys_of = (\<lambda>_. None), last_msg_cache = (\<lambda>_. None)\<rparr>"

definition demo_room :: "rid \<Rightarrow> int \<Rightarrow> uid \<Rightarrow> int \<Rightarrow> room" where
  "demo_room rid type owner members = \<lparr>r_Id = 1, r_Rid = rid, r_Name = ''room'', r_Description = ''room'', r_CreateUid = owner,
     r_State = 1, r_Type = type, r_MemberCount = members, r_Password = [], r_AllowNonFriendChat = True,
     r_FromRoomRid = [], r_AvatarUfId = [], r_CategoryId = [], r_JoinApprovalRequired = False,
     r_JoinQuestionEnabled = False, r_JoinQuestion = [], r_JoinQuestionAutoApprove = False, r_JoinQuestionAnswer = [],
     r_CreateTime = 1, r_DeleteTime = 0\<rparr>"

theorem one_pinned_session_witness:
  "map us_IsTop (user_sessions (fold (\<lambda>(w, e). session_write1 w e)
       [(JoinRoom ''u'' ''r1'' 0, calm_room_env 1), (JoinRoom ''u'' ''r2'' 0, calm_room_env 2),
        (SetTop ''u'' ''r1'' True, calm_room_env 3), (SetTop ''u'' ''r2'' True, calm_room_env 4)] empty_session_store))
     = [False, True] \<and>
   length (filter (pinned ''u'') (user_sessions (fold (\<lambda>(w, e). session_write1 w e)
       [(JoinRoom ''u'' ''r1'' 0, calm_room_env 1), (JoinRoom ''u'' ''r2'' 0, calm_room_env 2),
        (SetTop ''u'' ''r1'' True, calm_room_env 3), (SetTop ''u'' ''r2'' True, calm_room_env 4)] empty_session_store))) \<le> 1"
  (is "?run \<and> ?one")
proof
  show ?run by code_simp
  show ?one
    by (rule one_pinned_session [THEN conjunct1]) (simp add: empty_session_store_def)
qed

definition two_room_store :: session_store where
  "two_room_store = empty_session_store\<lparr>
     rooms := [demo_room ''r1'' 1 ''u'' 1, demo_room ''r2'' 1 ''u'' 1],
     user_sessions := [fresh_session ''u'' ''r1'' 0 10 empty_session_store,
       fresh_session ''u'' ''r2'' 0 20 empty_session_store\<lparr>us_Id := 2\<rparr>]\<rparr>"

theorem session_paging_complete_witness:
  "map d_Rid (follow_pages 1 (calm_room_env 5) ''u'' None two_room_store) = [''r2'', ''r1'']"
proof -
  have ids: "map d_Id (sessionListPageRowsQuery ''u'' two_room_store) = [1, 2]" by code_simp
  have len: "length (sessionListPageRowsQuery ''u'' two_room_store) = 2" by code_simp
  have "map d_Rid (map (mention_view ''u'' two_room_store \<circ> friend_view (calm_room_env 5) ''u'' two_room_store)
      (session_order (sessionListPageRowsQuery ''u'' two_room_store))) = [''r2'', ''r1'']" by code_simp
  moreover have "follow_pages 1 (calm_room_env 5) ''u'' None two_room_store =
      map (mention_view ''u'' two_room_store \<circ> friend_view (calm_room_env 5) ''u'' two_room_store)
        (session_order (sessionListPageRowsQuery ''u'' two_room_store))"
    using ids len by (intro session_paging_complete) (simp_all add: calm_room_env_def)
  ultimately show ?thesis by (simp only:)
qed

definition preview_store :: session_store where
  "preview_store = empty_session_store\<lparr>
     user_sessions := [fresh_session ''u'' ''r'' 0 10 empty_session_store],
     chat_db := empty_db\<lparr>messages := [demo_message 1 ''m1'']\<rparr>\<rparr>"

definition preview_mid :: "(rid \<rightharpoonup> server_room_message) \<Rightarrow> mid option" where
  "preview_mid m = map_option sm_Mid (m ''r'')"

lemma answered_from_cache:
  assumes "tryRoomLastMessagesFromRedis e (dedupeRidsPreserveOrder rids) s = (hits, [])" and "rids \<noteq> []"
  shows "getLastMessagesForUserSessions e uid rids s = (Inr hits, s)"
  using assms by (simp add: getLastMessagesForUserSessions_def fetch_last_messages_def store_last_messages_def)

text \<open>
  The shared preview of a room can stay behind: when a reader has queried the last
  message, a new message is stored and its sender drops the cached one, and the reader
  then caches what it read, every later request is answered with the old message although
  a newer one is visible, until the entry expires after seven days or another message
  arrives.
\<close>

theorem stale_preview_survives:
  "\<exists>result fresh s2 s3.
     fetch_last_messages (calm_room_env 1) ''u'' [''r''] preview_store = Inr (result, fresh) \<and>
     s2 = snd (BumpUserRoomSessionLastMessageTime (calm_room_env 2) ''r'' 200
       (preview_store\<lparr>chat_db := (chat_db preview_store)\<lparr>messages := [demo_message 1 ''m1'', demo_message 2 ''m2'']\<rparr>\<rparr>)) \<and>
     s3 = store_last_messages (calm_room_env 3) fresh s2 \<and>
     map_option rm_Mid (newest_of ''r'' (chat_db s3)) = Some ''m2'' \<and>
     (\<forall>t. \<exists>answer. getLastMessagesForUserSessions (calm_room_env t) ''u'' [''r''] s3 = (Inr answer, s3) \<and>
        preview_mid answer = Some ''m1'')"
proof -
  let ?s1 = "preview_store\<lparr>chat_db := (chat_db preview_store)\<lparr>messages := [demo_message 1 ''m1'', demo_message 2 ''m2'']\<rparr>\<rparr>"
  let ?s2 = "snd (BumpUserRoomSessionLastMessageTime (calm_room_env 2) ''r'' 200 ?s1)"
  have "(case fetch_last_messages (calm_room_env 1) ''u'' [''r''] preview_store of
      Inl _ \<Rightarrow> None | Inr (_, fresh) \<Rightarrow> map_option (\<lambda>m. (sm_Mid m, sm_Rid m)) (fresh ''r'')) = Some (''m1'', ''r'')"
    by code_simp
  then obtain result fresh m where f: "fetch_last_messages (calm_room_env 1) ''u'' [''r''] preview_store = Inr (result, fresh)"
    and m: "fresh ''r'' = Some m" "sm_Mid m = ''m1''" "sm_Rid m = ''r''"
    by (auto split: sum.splits prod.splits)
  let ?s3 = "store_last_messages (calm_room_env 3) fresh ?s2"
  have cached: "last_msg_cache ?s3 ''r'' = Some m" using m(1) by (simp add: store_last_messages_def calm_room_env_def)
  have "chat_db ?s3 = chat_db ?s2" by (simp add: store_last_messages_def)
  moreover have "map_option rm_Mid (newest_of ''r'' (chat_db ?s2)) = Some ''m2''" by code_simp
  ultimately have newest: "map_option rm_Mid (newest_of ''r'' (chat_db ?s3)) = Some ''m2''" by simp
  have hits: "tryRoomLastMessagesFromRedis (calm_room_env t) [''r''] ?s3 = (\<lambda>rid. if rid = ''r'' then Some m else None, [])" for t
    using cached m(2,3) by (auto simp: tryRoomLastMessagesFromRedis_def Let_def calm_room_env_def)
  have "getLastMessagesForUserSessions (calm_room_env t) ''u'' [''r''] ?s3 = (Inr (\<lambda>rid. if rid = ''r'' then Some m else None), ?s3)" for t
    by (rule answered_from_cache) (simp_all add: dedupeRidsPreserveOrder_def hits)
  note answer = this
  show ?thesis
  proof (rule exI [of _ result], rule exI [of _ fresh], rule exI [of _ ?s2], rule exI [of _ ?s3], intro conjI allI)
    show "\<exists>answer. getLastMessagesForUserSessions (calm_room_env t) ''u'' [''r''] ?s3 = (Inr answer, ?s3) \<and>
        preview_mid answer = Some ''m1''" for t
      by (intro exI conjI, rule answer) (simp add: preview_mid_def m(2))
  qed (rule f refl newest)+
qed

end
