(* ===== verification/MsgStream.thy ===== *)
theory MsgStream
  imports Tokens Messages
begin

text \<open>
  One message stream (\<open>quic/handler/message_handler.go\<close>, first half): the versions of
  the messages in both directions, the check of the token every message carries, the
  notice that the token is about to expire, and the read loop that hands accepted messages
  to handlers. Handlers run in goroutines of their own; the loop records what it started.
  MessagePack and JSON are parameters; the log is left out.
\<close>

section \<open>Messages and the state of a stream\<close>

record envelope =
  mm_Version :: u32
  mm_Type :: byte
  mm_Token :: string
  mm_Data :: "byte list"

datatype server_message =
    SmRoomMessage server_room_message
  | SmRoomMessageAck mid rid int string
  | SmRoomMessageSendError rid string string
  | SmFileStatusUpdateAck rid string string mid string
  | SmTokenRefreshRequired int int
  | SmInvalidMessageNotice u32 u32 byte
  | SmForceOffline
  | SmFileStatusUpdate string string string
  | SmRoomMessageWithdraw server_room_message
  | SmNotification string
  | SmRoomUserRoomNicknameUpdate rid uid string
  | SmRoomUserIdsUpdate rid "uid list"
  | SmRoomDissolvedUpdate rid int
  | SmRoomAvatarUpdate rid string
  | SmUserStatusSync uid
  | SmUserProfileChange uid
  | SmStreamCallInvite string
  | SmStreamCallJoin string
  | SmStreamCallEnd string
  | SmStreamCallSync string int

text \<open>The steps of sending that can fail, and what one activity of the stream sees.\<close>

datatype send_call = PackData | PackMessage | SealFrame | WriteStream

record stream_env =
  sv_tok :: token_env
  sv_unpack :: "byte list \<Rightarrow> envelope option"
  sv_fails :: "send_call \<Rightarrow> bool"

text \<open>
  \<open>mh_timer\<close> is the armed timer with the expiry it announces, \<open>mh_notices\<close> the goroutines
  about to run \<open>sendTokenRefreshRequired\<close>, \<open>mh_spawned\<close> the messages handed to handlers,
  \<open>mh_out\<close> what was written, in order.
\<close>

record message_handler =
  mh_uid :: uid
  mh_sid :: sid
  mh_ip :: string
  mh_lastIncoming :: u32
  mh_outgoing :: u32
  mh_noticeSent :: bool
  mh_noticeExpires :: int
  mh_timer :: "int option"
  mh_notices :: "int list"
  mh_spawned :: "envelope list"
  mh_out :: "(u32 \<times> server_message) list"
  mh_closed :: bool
  mh_done :: bool

section \<open>Outgoing messages\<close>

definition nextOutgoingVersion :: "message_handler \<Rightarrow> u32 \<times> message_handler" where
  "nextOutgoingVersion h =
     (let v = (if mh_outgoing h = - 1 then 1 else mh_outgoing h + 1) in (v, h\<lparr>mh_outgoing := v\<rparr>))"

definition SendMessage :: "(send_call \<Rightarrow> bool) \<Rightarrow> server_message \<Rightarrow> message_handler \<Rightarrow> bool \<times> message_handler" where
  "SendMessage fails msg h =
     (let (v, h) = nextOutgoingVersion h in
      if fails PackMessage \<or> fails SealFrame \<or> fails WriteStream \<or> mh_closed h then (False, h)
      else (True, h\<lparr>mh_out := mh_out h @ [(v, msg)]\<rparr>))"

text \<open>The senders pack their payload first; a failure there uses no version.\<close>

definition send_packed :: "(send_call \<Rightarrow> bool) \<Rightarrow> server_message \<Rightarrow> message_handler \<Rightarrow> bool \<times> message_handler" where
  "send_packed fails msg h = (if fails PackData then (False, h) else SendMessage fails msg h)"

definition sendInvalidMessageNotice ::
  "(send_call \<Rightarrow> bool) \<Rightarrow> u32 \<Rightarrow> u32 \<Rightarrow> byte \<Rightarrow> message_handler \<Rightarrow> message_handler" where
  "sendInvalidMessageNotice fails receivedVersion lastVersion messageType h =
     snd (send_packed fails (SmInvalidMessageNotice receivedVersion lastVersion messageType) h)"

definition sendForceOffline :: "(send_call \<Rightarrow> bool) \<Rightarrow> message_handler \<Rightarrow> message_handler" where
  "sendForceOffline fails h = snd (send_packed fails SmForceOffline h)"

section \<open>Versions and tokens of incoming messages\<close>

definition isInvalidIncomingVersion :: "u32 \<Rightarrow> message_handler \<Rightarrow> bool \<times> message_handler" where
  "isInvalidIncomingVersion version h =
     (if version \<le> mh_lastIncoming h then (True, h) else (False, h\<lparr>mh_lastIncoming := version\<rparr>))"

datatype message_token_error = MissingToken | BadToken jwt_error | OtherUser | MissingSid | SessionInvalid

definition validateMessageToken ::
  "token_env \<Rightarrow> string \<Rightarrow> message_handler \<Rightarrow> token_store \<Rightarrow> message_token_error + claims" where
  "validateMessageToken e token h s =
     (let token = TrimSpace token in
      if token = [] then Inl MissingToken
      else case ValidateJWT e token of
        Inl err \<Rightarrow> Inl (BadToken err)
      | Inr cl \<Rightarrow>
          if cl_Subject cl \<noteq> mh_uid h then Inl OtherUser
          else if cl_Sid cl = [] then Inl MissingSid
          else (case ValidateActiveUserSession (t_users e) (mh_uid h) (cl_Sid cl) (users s) of
             Inr True \<Rightarrow> Inr cl
           | _ \<Rightarrow> Inl SessionInvalid))"

section \<open>The notice that the token expires\<close>

definition stopTokenRefreshTimer :: "message_handler \<Rightarrow> message_handler" where
  "stopTokenRefreshTimer h = h\<lparr>mh_timer := None\<rparr>"

definition scheduleTokenRefreshNotice :: "token_env \<Rightarrow> claims option \<Rightarrow> message_handler \<Rightarrow> message_handler" where
  "scheduleTokenRefreshNotice e claims h =
     (case claims of
        None \<Rightarrow> h
      | Some cl \<Rightarrow>
          if mh_noticeExpires h = cl_ExpiresAt cl then h
          else
            let h1 = h\<lparr>mh_noticeExpires := cl_ExpiresAt cl, mh_noticeSent := False, mh_timer := None\<rparr>;
                remaining = cl_ExpiresAt cl - Unix (t_now e);
                delaySeconds = remaining - TokenRefreshNoticeAhead (t_cfg e) div Second
            in if remaining \<le> 0 then h1
               else if delaySeconds \<le> 0 then h1\<lparr>mh_notices := mh_notices h1 @ [cl_ExpiresAt cl]\<rparr>
               else h1\<lparr>mh_timer := Some (cl_ExpiresAt cl)\<rparr>)"

definition timer_fires :: "message_handler \<Rightarrow> message_handler" where
  "timer_fires h = (case mh_timer h of None \<Rightarrow> h
     | Some due \<Rightarrow> h\<lparr>mh_timer := None, mh_notices := mh_notices h @ [due]\<rparr>)"

definition resetTokenRefreshNoticeSent :: "int \<Rightarrow> message_handler \<Rightarrow> message_handler" where
  "resetTokenRefreshNoticeSent expiresAt h =
     (if mh_noticeExpires h = expiresAt then h\<lparr>mh_noticeSent := False\<rparr> else h)"

definition sendTokenRefreshRequired ::
  "token_env \<Rightarrow> (send_call \<Rightarrow> bool) \<Rightarrow> int \<Rightarrow> message_handler \<Rightarrow> message_handler" where
  "sendTokenRefreshRequired e fails expiresAt h =
     (if mh_noticeSent h \<or> mh_noticeExpires h \<noteq> expiresAt then h
      else
        let h1 = h\<lparr>mh_noticeSent := True\<rparr>;
            remaining = max 0 (expiresAt - Unix (t_now e));
            (ok, h2) = send_packed fails (SmTokenRefreshRequired (expiresAt * 1000) remaining) h1
        in if ok then h2 else resetTokenRefreshNoticeSent expiresAt h2)"

definition run_notice :: "token_env \<Rightarrow> (send_call \<Rightarrow> bool) \<Rightarrow> message_handler \<Rightarrow> message_handler" where
  "run_notice e fails h = (case mh_notices h of [] \<Rightarrow> h
     | due # rest \<Rightarrow> sendTokenRefreshRequired e fails due (h\<lparr>mh_notices := rest\<rparr>))"

section \<open>The read loop\<close>

definition Handle :: "token_env \<Rightarrow> claims option \<Rightarrow> uid \<Rightarrow> sid \<Rightarrow> string \<Rightarrow> message_handler" where
  "Handle e connectClaims uid sid ip =
     scheduleTokenRefreshNotice e connectClaims
       \<lparr>mh_uid = uid, mh_sid = sid, mh_ip = ip, mh_lastIncoming = 0, mh_outgoing = 0, mh_noticeSent = False,
        mh_noticeExpires = 0, mh_timer = None, mh_notices = [], mh_spawned = [], mh_out = [],
        mh_closed = False, mh_done = False\<rparr>"

definition end_run :: "message_handler \<Rightarrow> message_handler" where
  "end_run h = stopTokenRefreshTimer (h\<lparr>mh_done := True\<rparr>)"

definition process_packet :: "stream_env \<Rightarrow> byte list \<Rightarrow> token_store \<Rightarrow> message_handler \<Rightarrow> message_handler" where
  "process_packet e packet s h =
     (case sv_unpack e packet of
        None \<Rightarrow> h
      | Some message \<Rightarrow>
          (case validateMessageToken (sv_tok e) (mm_Token message) h s of
             Inl _ \<Rightarrow> end_run ((sendForceOffline (sv_fails e) h)\<lparr>mh_closed := True\<rparr>)
           | Inr cl \<Rightarrow>
               (case isInvalidIncomingVersion (mm_Version message) h of
                  (True, h1) \<Rightarrow>
                    sendInvalidMessageNotice (sv_fails e) (mm_Version message) (mh_lastIncoming h1) (mm_Type message) h1
                | (False, h1) \<Rightarrow>
                    let h2 = scheduleTokenRefreshNotice (sv_tok e) (Some cl) h1
                    in h2\<lparr>mh_spawned := mh_spawned h2 @ [message]\<rparr>)))"

text \<open>What can happen on a stream: a packet arrives, the timer fires, a notice goroutine or a handler sends.\<close>

datatype stream_event =
    Packet stream_env "byte list" token_store | TimerFires | NoticeRuns token_env "send_call \<Rightarrow> bool"
  | HandlerSends "send_call \<Rightarrow> bool" server_message | ReadFails

fun stream_exec1 :: "stream_event \<Rightarrow> message_handler \<Rightarrow> message_handler" where
  "stream_exec1 (Packet e p s) h = (if mh_done h then h else process_packet e p s h)"
| "stream_exec1 TimerFires h = timer_fires h"
| "stream_exec1 (NoticeRuns e fails) h = run_notice e fails h"
| "stream_exec1 (HandlerSends fails msg) h = snd (send_packed fails msg h)"
| "stream_exec1 ReadFails h = end_run h"

definition stream_exec :: "stream_event list \<Rightarrow> message_handler \<Rightarrow> message_handler" where
  "stream_exec evs h = fold stream_exec1 evs h"


section \<open>Invariant of a stream\<close>

lemma send_packed_fields [simp]:
  "mh_uid (snd (send_packed fails msg h)) = mh_uid h"
  "mh_lastIncoming (snd (send_packed fails msg h)) = mh_lastIncoming h"
  "mh_spawned (snd (send_packed fails msg h)) = mh_spawned h"
  "mh_done (snd (send_packed fails msg h)) = mh_done h"
  by (simp_all add: send_packed_def SendMessage_def nextOutgoingVersion_def Let_def)

lemma schedule_fields [simp]:
  "mh_uid (scheduleTokenRefreshNotice e cl h) = mh_uid h"
  "mh_lastIncoming (scheduleTokenRefreshNotice e cl h) = mh_lastIncoming h"
  "mh_spawned (scheduleTokenRefreshNotice e cl h) = mh_spawned h"
  "mh_done (scheduleTokenRefreshNotice e cl h) = mh_done h"
  "mh_out (scheduleTokenRefreshNotice e cl h) = mh_out h"
  "mh_outgoing (scheduleTokenRefreshNotice e cl h) = mh_outgoing h"
  by (simp_all add: scheduleTokenRefreshNotice_def Let_def split: option.split)

lemma reset_fields [simp]:
  "mh_uid (resetTokenRefreshNoticeSent t h) = mh_uid h"
  "mh_lastIncoming (resetTokenRefreshNoticeSent t h) = mh_lastIncoming h"
  "mh_spawned (resetTokenRefreshNoticeSent t h) = mh_spawned h"
  "mh_done (resetTokenRefreshNoticeSent t h) = mh_done h"
  "mh_out (resetTokenRefreshNoticeSent t h) = mh_out h"
  "mh_outgoing (resetTokenRefreshNoticeSent t h) = mh_outgoing h"
  by (simp_all add: resetTokenRefreshNoticeSent_def)

lemma timer_fields [simp]:
  "mh_uid (timer_fires h) = mh_uid h" "mh_lastIncoming (timer_fires h) = mh_lastIncoming h"
  "mh_spawned (timer_fires h) = mh_spawned h" "mh_done (timer_fires h) = mh_done h"
  "mh_out (timer_fires h) = mh_out h" "mh_outgoing (timer_fires h) = mh_outgoing h"
  by (simp_all add: timer_fires_def split: option.split)

lemma end_run_fields [simp]:
  "mh_uid (end_run h) = mh_uid h" "mh_lastIncoming (end_run h) = mh_lastIncoming h"
  "mh_spawned (end_run h) = mh_spawned h" "mh_done (end_run h)"
  "mh_out (end_run h) = mh_out h" "mh_outgoing (end_run h) = mh_outgoing h"
  by (simp_all add: end_run_def stopTokenRefreshTimer_def)

text \<open>What the sending side keeps: versions grow by at most one per activity and never reach zero.\<close>

definition out_ok :: "nat \<Rightarrow> message_handler \<Rightarrow> bool" where
  "out_ok n h \<longleftrightarrow> unat (mh_outgoing h) \<le> n \<and> sorted_wrt (<) (map fst (mh_out h)) \<and>
     (\<forall>v \<in> fst ` set (mh_out h). 0 < v \<and> v \<le> mh_outgoing h)"

lemma out_ok_mono: "out_ok n h \<Longrightarrow> n \<le> m \<Longrightarrow> out_ok m h"
  by (auto simp: out_ok_def)

lemma out_ok_cong: "mh_outgoing h' = mh_outgoing h \<Longrightarrow> mh_out h' = mh_out h \<Longrightarrow> out_ok n h' = out_ok n h"
  by (simp add: out_ok_def)

lemma version_succ:
  assumes "unat (v :: u32) \<le> n" and "n < 2 ^ 32 - 1"
  shows "v \<noteq> - 1" "unat (v + 1) = Suc (unat v)" "v < v + 1"
proof -
  have "unat v \<noteq> unat (- 1 :: u32)" using assms by (simp add: unsigned_minus_1_eq_mask mask_eq_exp_minus_1)
  then show "v \<noteq> - 1" by auto
  then have "v + 1 \<noteq> 0" by (metis add_eq_0_iff minus_minus)
  then show "unat (v + 1) = Suc (unat v)" by (metis add.commute unatSuc)
  then show "v < v + 1" by (simp add: word_less_nat_alt)
qed

lemma send_packed_cases:
  assumes "mh_outgoing h \<noteq> - 1"
  shows "mh_outgoing (snd (send_packed fails msg h)) = mh_outgoing h \<and> mh_out (snd (send_packed fails msg h)) = mh_out h \<or>
    mh_outgoing (snd (send_packed fails msg h)) = mh_outgoing h + 1 \<and>
      (mh_out (snd (send_packed fails msg h)) = mh_out h \<or>
       mh_out (snd (send_packed fails msg h)) = mh_out h @ [(mh_outgoing h + 1, msg)])"
  using assms by (simp add: send_packed_def SendMessage_def nextOutgoingVersion_def Let_def)

lemma out_ok_send:
  assumes "out_ok n h" and "n < 2 ^ 32 - 1"
  shows "out_ok (Suc n) (snd (send_packed fails msg h))"
proof -
  let ?h = "snd (send_packed fails msg h)" and ?v = "mh_outgoing h + 1"
  have "unat (mh_outgoing h) \<le> n" using assms(1) by (simp add: out_ok_def)
  note v = version_succ [OF this assms(2)]
  have grow: "w < ?v" if "w \<le> mh_outgoing h" for w using that v(3) by simp
  have bound: "unat ?v \<le> Suc n" "0 < ?v"
    using v(2) \<open>unat (mh_outgoing h) \<le> n\<close> by (simp_all add: word_less_nat_alt)
  from send_packed_cases [OF v(1), of fails msg] show ?thesis
    using assms(1) bound by (elim disjE conjE)
      (auto simp: out_ok_def sorted_wrt_append grow order_less_imp_le)
qed

lemma run_notice_shape:
  "\<exists>h1. mh_outgoing h1 = mh_outgoing h \<and> mh_out h1 = mh_out h \<and> mh_lastIncoming h1 = mh_lastIncoming h \<and>
     mh_spawned h1 = mh_spawned h \<and> mh_done h1 = mh_done h \<and> mh_uid h1 = mh_uid h \<and>
     (run_notice e fails h = h1 \<or> (\<exists>msg. run_notice e fails h = snd (send_packed fails msg h1)) \<or>
      (\<exists>msg t. run_notice e fails h = resetTokenRefreshNoticeSent t (snd (send_packed fails msg h1))))"
proof (cases "mh_notices h")
  case Nil
  then show ?thesis by (intro exI [of _ h]) (simp add: run_notice_def)
next
  case (Cons t rest)
  define h0 where "h0 = h\<lparr>mh_notices := rest\<rparr>"
  define h1 where "h1 = h0\<lparr>mh_noticeSent := True\<rparr>"
  have same: "mh_outgoing h1 = mh_outgoing h" "mh_out h1 = mh_out h" "mh_lastIncoming h1 = mh_lastIncoming h"
    "mh_spawned h1 = mh_spawned h" "mh_done h1 = mh_done h" "mh_uid h1 = mh_uid h"
    "mh_outgoing h0 = mh_outgoing h" "mh_out h0 = mh_out h" "mh_lastIncoming h0 = mh_lastIncoming h"
    "mh_spawned h0 = mh_spawned h" "mh_done h0 = mh_done h" "mh_uid h0 = mh_uid h"
    by (simp_all add: h0_def h1_def)
  show ?thesis
  proof (cases "mh_noticeSent h \<or> mh_noticeExpires h \<noteq> t")
    case True
    then have "run_notice e fails h = h0"
      using Cons by (auto simp: run_notice_def sendTokenRefreshRequired_def h0_def)
    then show ?thesis using same by blast
  next
    case False
    let ?send = "send_packed fails (SmTokenRefreshRequired (t * 1000) (max 0 (t - Unix (t_now e)))) h1"
    have "run_notice e fails h = (if fst ?send then snd ?send else resetTokenRefreshNoticeSent t (snd ?send))"
      using Cons False by (simp add: run_notice_def sendTokenRefreshRequired_def Let_def h0_def h1_def case_prod_beta)
    then show ?thesis using same by (cases "fst ?send") (simp; blast)+
  qed
qed

lemma run_notice_fields [simp]:
  "mh_uid (run_notice e fails h) = mh_uid h" "mh_lastIncoming (run_notice e fails h) = mh_lastIncoming h"
  "mh_spawned (run_notice e fails h) = mh_spawned h" "mh_done (run_notice e fails h) = mh_done h"
  using run_notice_shape [of h e fails] by auto

lemma out_ok_notice:
  assumes "out_ok n h" and "n < 2 ^ 32 - 1"
  shows "out_ok (Suc n) (run_notice e fails h)"
  using run_notice_shape [of h e fails] assms out_ok_send [OF _ assms(2)]
  by (metis out_ok_cong out_ok_mono le_SucI order_refl reset_fields(5,6))

text \<open>What the receiving side keeps.\<close>

definition accepted_by :: "uid \<Rightarrow> stream_event list \<Rightarrow> envelope \<Rightarrow> bool" where
  "accepted_by uid evs m \<longleftrightarrow> (\<exists>e p s h cl. Packet e p s \<in> set evs \<and> sv_unpack e p = Some m \<and> mh_uid h = uid \<and>
     validateMessageToken (sv_tok e) (mm_Token m) h s = Inr cl)"

definition in_ok :: "stream_event list \<Rightarrow> message_handler \<Rightarrow> bool" where
  "in_ok evs h \<longleftrightarrow> sorted_wrt (<) (map mm_Version (mh_spawned h)) \<and>
     (\<forall>m \<in> set (mh_spawned h). mm_Version m \<le> mh_lastIncoming h \<and> accepted_by (mh_uid h) evs m)"


lemma accepted_by_mono: "accepted_by uid evs m \<Longrightarrow> set evs \<subseteq> set evs' \<Longrightarrow> accepted_by uid evs' m"
  unfolding accepted_by_def by blast

lemma process_packet_cases:
  obtains (ignored) "process_packet e p s h = h"
  | (refused) "process_packet e p s h = end_run ((snd (send_packed (sv_fails e) SmForceOffline h))\<lparr>mh_closed := True\<rparr>)"
  | (stale) msg where "process_packet e p s h = snd (send_packed (sv_fails e) msg h)"
  | (accepted) m cl where "sv_unpack e p = Some m" "validateMessageToken (sv_tok e) (mm_Token m) h s = Inr cl"
      "mh_lastIncoming h < mm_Version m"
      "process_packet e p s h = (let h2 = scheduleTokenRefreshNotice (sv_tok e) (Some cl) (h\<lparr>mh_lastIncoming := mm_Version m\<rparr>)
         in h2\<lparr>mh_spawned := mh_spawned h2 @ [m]\<rparr>)"
proof (cases "sv_unpack e p")
  case None
  show ?thesis by (rule ignored) (simp add: process_packet_def None)
next
  case m: (Some m)
  show ?thesis
  proof (cases "validateMessageToken (sv_tok e) (mm_Token m) h s")
    case (Inl err)
    show ?thesis by (rule refused) (simp add: process_packet_def m Inl sendForceOffline_def)
  next
    case (Inr cl)
    show ?thesis
    proof (cases "mm_Version m \<le> mh_lastIncoming h")
      case True
      show ?thesis by (rule stale) (simp add: process_packet_def m Inr isInvalidIncomingVersion_def True sendInvalidMessageNotice_def)
    next
      case False
      show ?thesis
        by (rule accepted [OF m Inr])
          (use False in \<open>simp_all add: process_packet_def m Inr isInvalidIncomingVersion_def\<close>)
    qed
  qed
qed

lemma process_packet_uid: "mh_uid (process_packet e p s h) = mh_uid h"
  by (cases e p s h rule: process_packet_cases) (simp_all add: Let_def)

lemma in_ok_step:
  assumes "in_ok evs h"
  shows "in_ok (evs @ [ev]) (stream_exec1 ev h)"
proof -
  have old: "in_ok (evs @ [ev]) h'"
    if "mh_spawned h' = mh_spawned h" "mh_lastIncoming h' = mh_lastIncoming h" "mh_uid h' = mh_uid h" for h'
    using assms that by (auto simp: in_ok_def intro: accepted_by_mono)
  show ?thesis
  proof (cases ev)
    case (Packet e p s)
    note old = old [unfolded Packet]
    show ?thesis
    proof (cases "mh_done h")
      case False
      show ?thesis
      proof (cases e p s h rule: process_packet_cases)
        case (accepted m cl)
        have "accepted_by (mh_uid h) (evs @ [Packet e p s]) m"
          unfolding accepted_by_def
          by (rule exI [of _ e], rule exI [of _ p], rule exI [of _ s], rule exI [of _ h], rule exI [of _ cl])
            (simp add: accepted(1,2))
        moreover have "in_ok (evs @ [Packet e p s]) h" by (rule old) simp_all
        ultimately show ?thesis using False accepted(3) Packet
          by (auto simp: in_ok_def accepted(4) Let_def sorted_wrt_append)
      qed (auto simp: Packet False intro!: old)
    qed (auto simp: Packet intro!: old)
  next
    case (HandlerSends fails msg)
    show ?thesis by (rule old) (simp_all add: HandlerSends)
  next
    case (NoticeRuns e fails)
    show ?thesis by (rule old) (simp_all add: NoticeRuns)
  next
    case TimerFires
    show ?thesis by (rule old) (simp_all add: TimerFires)
  next
    case ReadFails
    show ?thesis by (rule old) (simp_all add: ReadFails)
  qed
qed

lemma out_ok_step:
  assumes "out_ok n h" and "n < 2 ^ 32 - 1"
  shows "out_ok (Suc n) (stream_exec1 ev h)"
proof -
  have old: "out_ok (Suc n) h'" if "mh_outgoing h' = mh_outgoing h" "mh_out h' = mh_out h" for h'
    using assms(1) that by (auto simp: out_ok_def)
  show ?thesis
  proof (cases ev)
    case (Packet e p s)
    show ?thesis
    proof (cases "mh_done h")
      case False
      have step: "stream_exec1 ev h = process_packet e p s h" using False by (simp add: Packet)
      show ?thesis
      proof (cases e p s h rule: process_packet_cases)
        case refused
        have "out_ok (Suc n) (snd (send_packed (sv_fails e) SmForceOffline h))" by (rule out_ok_send [OF assms])
        then show ?thesis by (simp add: step refused out_ok_def)
      next
        case (stale msg)
        then show ?thesis by (simp add: step out_ok_send [OF assms])
      next
        case (accepted m cl)
        show ?thesis by (rule old) (simp_all add: step accepted(4) Let_def)
      qed (auto simp: step intro!: old)
    qed (auto simp: Packet intro!: old)
  next
    case (NoticeRuns e fails)
    then show ?thesis by (simp add: out_ok_notice [OF assms])
  next
    case (HandlerSends fails msg)
    then show ?thesis by (simp add: out_ok_send [OF assms])
  qed (auto intro!: old)
qed

lemma stream_exec_snoc: "stream_exec (evs @ [ev]) h = stream_exec1 ev (stream_exec evs h)"
  by (simp add: stream_exec_def)

lemma stream_exec_done:
  "mh_done h \<Longrightarrow> mh_spawned (stream_exec evs h) = mh_spawned h"
proof -
  have "mh_done h \<Longrightarrow> mh_spawned (stream_exec evs h) = mh_spawned h \<and> mh_done (stream_exec evs h)"
  proof (induction evs rule: rev_induct)
    case (snoc ev evs)
    then show ?case by (cases ev) (simp_all add: stream_exec_snoc)
  qed (simp add: stream_exec_def)
  then show "mh_done h \<Longrightarrow> mh_spawned (stream_exec evs h) = mh_spawned h" by simp
qed

text \<open>
  C30. Only fresh and authentic messages reach a handler: whatever arrives on a stream, the
  messages handed to handlers carry strictly increasing versions and each came with a token
  that was valid for the user of the connection when it arrived; a message with another
  token ends the stream, and nothing is handed over after that. In the other direction the
  messages written carry strictly increasing versions from one up, as long as fewer than
  \<open>2 ^ 32\<close> things have happened on the stream.
\<close>

theorem stream_accepts_fresh_authentic:
  fixes evs uid sid ip connectClaims e0
  defines "h0 \<equiv> Handle e0 connectClaims uid sid ip"
  shows "sorted_wrt (<) (map mm_Version (mh_spawned (stream_exec evs h0))) \<and>
    (\<forall>m \<in> set (mh_spawned (stream_exec evs h0)). accepted_by uid evs m) \<and>
    (\<forall>e p s m err more. sv_unpack e p = Some m \<longrightarrow>
       validateMessageToken (sv_tok e) (mm_Token m) (stream_exec evs h0) s = Inl err \<longrightarrow>
       mh_spawned (stream_exec (evs @ Packet e p s # more) h0) = mh_spawned (stream_exec evs h0)) \<and>
    (length evs < 2 ^ 32 \<longrightarrow>
       sorted_wrt (<) (map fst (mh_out (stream_exec evs h0))) \<and> 0 \<notin> fst ` set (mh_out (stream_exec evs h0)))"
proof (intro conjI allI impI)
  have h0: "mh_uid h0 = uid" "mh_spawned h0 = []" "mh_out h0 = []" "mh_outgoing h0 = 0"
    by (simp_all add: h0_def Handle_def)
  have uid: "mh_uid (stream_exec evs h0) = uid" for evs
  proof (induction evs rule: rev_induct)
    case (snoc ev evs)
    then show ?case by (cases ev) (simp_all add: stream_exec_snoc process_packet_uid)
  qed (simp add: stream_exec_def h0)
  have inok: "in_ok evs (stream_exec evs h0)"
    by (induction evs rule: rev_induct) (auto simp: stream_exec_snoc intro: in_ok_step, simp add: stream_exec_def in_ok_def h0)
  then show "sorted_wrt (<) (map mm_Version (mh_spawned (stream_exec evs h0)))"
    and "\<forall>m \<in> set (mh_spawned (stream_exec evs h0)). accepted_by uid evs m"
    by (simp_all add: in_ok_def uid)
  show "mh_spawned (stream_exec (evs @ Packet e p s # more) h0) = mh_spawned (stream_exec evs h0)"
    if "sv_unpack e p = Some m" and "validateMessageToken (sv_tok e) (mm_Token m) (stream_exec evs h0) s = Inl err"
    for e p s m err more
  proof -
    let ?h = "stream_exec1 (Packet e p s) (stream_exec evs h0)"
    have "mh_done ?h \<and> mh_spawned ?h = mh_spawned (stream_exec evs h0)"
      using that by (simp add: process_packet_def sendForceOffline_def)
    moreover have "stream_exec (evs @ Packet e p s # more) h0 = stream_exec more ?h"
      by (simp add: stream_exec_def)
    ultimately show ?thesis by (simp only: stream_exec_done)
  qed
  assume len: "length evs < 2 ^ 32"
  have "length evs < 2 ^ 32 \<Longrightarrow> out_ok (length evs) (stream_exec evs h0)" for evs
  proof (induction evs rule: rev_induct)
    case (snoc ev evs)
    then have "out_ok (length evs) (stream_exec evs h0)" "length evs < 2 ^ 32 - 1" by simp_all
    from out_ok_step [OF this] show ?case by (simp add: stream_exec_snoc)
  qed (simp add: stream_exec_def out_ok_def h0)
  from this [OF len] show "sorted_wrt (<) (map fst (mh_out (stream_exec evs h0)))"
    and "0 \<notin> fst ` set (mh_out (stream_exec evs h0))" by (auto simp: out_ok_def)
qed


definition demo_unpack :: "byte list \<Rightarrow> envelope option" where
  "demo_unpack p = (case p of
     [v, t] \<Rightarrow> Some \<lparr>mm_Version = ucast v, mm_Type = 1, mm_Token = (if t = 1 then ''r1'' else []), mm_Data = []\<rparr>
   | _ \<Rightarrow> None)"

definition demo_stream_env :: stream_env where
  "demo_stream_env = \<lparr>sv_tok = demo_env ''a9'' ''r9'', sv_unpack = demo_unpack, sv_fails = (\<lambda>_. False)\<rparr>"

definition demo_packet :: "byte \<Rightarrow> byte \<Rightarrow> stream_event" where
  "demo_packet v t = Packet demo_stream_env [v, t] demo_login"

definition demo_run :: "stream_event list" where
  "demo_run = [demo_packet 1 1, demo_packet 3 1, demo_packet 2 1, demo_packet 4 1]"

theorem stream_accepts_fresh_authentic_witness:
  "map mm_Version (mh_spawned (stream_exec demo_run (Handle (sv_tok demo_stream_env) None ''u'' ''s1'' []))) = [1, 3, 4] \<and>
   map mm_Version (mh_spawned (stream_exec (demo_run @ [demo_packet 5 0, demo_packet 6 1])
     (Handle (sv_tok demo_stream_env) None ''u'' ''s1'' []))) = [1, 3, 4] \<and>
   sorted_wrt (<) (map fst (mh_out (stream_exec demo_run (Handle (sv_tok demo_stream_env) None ''u'' ''s1'' []))))"
proof -
  let ?h0 = "Handle (sv_tok demo_stream_env) None ''u'' ''s1'' []"
  have three: "map mm_Version (mh_spawned (stream_exec demo_run ?h0)) = [1, 3, 4]" by code_simp
  note law = stream_accepts_fresh_authentic [of demo_run "sv_tok demo_stream_env" None "''u''" "''s1''" "[]"]
  have "validateMessageToken (sv_tok demo_stream_env) [] (stream_exec demo_run ?h0) demo_login = Inl MissingToken"
    by (simp add: validateMessageToken_def)
  moreover have "sv_unpack demo_stream_env [5, 0] =
      Some \<lparr>mm_Version = 5, mm_Type = 1, mm_Token = [], mm_Data = []\<rparr>"
    by (simp add: demo_stream_env_def demo_unpack_def)
  ultimately have "mh_spawned (stream_exec (demo_run @ [demo_packet 5 0, demo_packet 6 1]) ?h0)
      = mh_spawned (stream_exec demo_run ?h0)"
    using law by (fastforce simp: demo_packet_def)
  moreover have "sorted_wrt (<) (map fst (mh_out (stream_exec demo_run ?h0)))"
    using law by (simp add: demo_run_def)
  ultimately show ?thesis using three by simp
qed

end
