(* ===== verification/ChatMessages.thy ===== *)
theory ChatMessages
  imports MsgStream Sessions
begin

text \<open>
  What the messages on a stream do (\<open>quic/handler/message_handler.go\<close>, second half):
  sending to a room, read confirmations, file updates and withdrawals. Each handler acts on
  the stream (its answers) and on the stores. A send is in two parts, the checks and the
  transaction, because handlers of other messages run between them. Chinese texts and log
  lines are left out; of the store, \<open>pending_updates\<close>, \<open>update_acks\<close> and \<open>dedupe_locks\<close>
  are Redis keys, whose expiry is not modelled, and \<open>published\<close> is what was handed to the
  event bus and the task queue.
\<close>

section \<open>Payloads and state\<close>

record client_content =
  cc_ClientCid :: string
  cc_Type :: string
  cc_TypeId :: string
  cc_Content :: string

record client_message =
  cm_Rid :: rid
  cm_CreateTime :: time
  cm_ClientMid :: string
  cm_Contents :: "client_content list"

record file_update =
  fu_Rid :: rid
  fu_ClientMid :: string
  fu_ClientCid :: string
  fu_UfId :: string
  fu_Content :: string

record update_ack =
  ua_Update :: file_update
  ua_Mid :: mid
  ua_Cid :: string
  ua_Uid :: uid
  ua_CreateTime :: time

record codec =
  co_message :: "byte list \<Rightarrow> client_message option"
  co_ack :: "byte list \<Rightarrow> (mid \<times> rid) option"
  co_update :: "byte list \<Rightarrow> file_update option"
  co_update_ack :: "byte list \<Rightarrow> (rid \<times> string \<times> string) option"
  co_withdraw :: "byte list \<Rightarrow> (rid \<times> int) option"

datatype chat_event =
    EventRoomMessage mid | EventRoomMessageContentUpdate mid string | EventRoomMessageWithdraw mid
  | TaskRoomAdminOperationLog rid uid mid

record chat_store = session_store +
  pending_updates :: "string \<rightharpoonup> file_update"
  update_acks :: "string \<rightharpoonup> update_ack"
  dedupe_locks :: "(uid \<times> rid \<times> string) set"
  published :: "chat_event list"

text \<open>\<open>ce_mid\<close> and \<open>ce_cids\<close> are the identifiers that \<open>xid\<close> will draw.\<close>

record chat_env =
  ce_room :: room_env
  ce_send :: "send_call \<Rightarrow> bool"
  ce_seq :: "message_call \<Rightarrow> bool"
  ce_mid :: mid
  ce_cids :: "nat \<Rightarrow> string"

type_synonym 'a chat = "message_handler \<times> 'a chat_store_scheme"

definition on_store :: "('a chat_store_scheme \<Rightarrow> 'a chat_store_scheme) \<Rightarrow> 'a chat \<Rightarrow> 'a chat" where
  "on_store f x = (fst x, f (snd x))"

definition publish_event :: "chat_event \<Rightarrow> 'a chat_store_scheme \<Rightarrow> 'a chat_store_scheme" where
  "publish_event ev s = s\<lparr>published := published s @ [ev]\<rparr>"

section \<open>Answers\<close>

definition answer :: "chat_env \<Rightarrow> server_message \<Rightarrow> 'a chat \<Rightarrow> 'a chat" where
  "answer e msg x = (snd (send_packed (ce_send e) msg (fst x)), snd x)"

definition sendRoomMessageSendError :: "chat_env \<Rightarrow> rid \<Rightarrow> string \<Rightarrow> string \<Rightarrow> 'a chat \<Rightarrow> 'a chat" where
  "sendRoomMessageSendError e rid clientMid code x = answer e (SmRoomMessageSendError rid clientMid code) x"

definition failRoomMessageSend :: "chat_env \<Rightarrow> rid \<Rightarrow> string \<Rightarrow> string \<Rightarrow> 'a chat \<Rightarrow> 'a chat" where
  "failRoomMessageSend e rid clientMid code x = sendRoomMessageSendError e rid clientMid code x"

definition sendRoomMessageAck :: "chat_env \<Rightarrow> mid \<Rightarrow> rid \<Rightarrow> int \<Rightarrow> string \<Rightarrow> 'a chat \<Rightarrow> 'a chat" where
  "sendRoomMessageAck e mid rid seqId clientMid x = answer e (SmRoomMessageAck mid rid seqId clientMid) x"

definition sendFileStatusUpdateAck :: "chat_env \<Rightarrow> file_update \<Rightarrow> mid \<Rightarrow> string \<Rightarrow> 'a chat \<Rightarrow> 'a chat" where
  "sendFileStatusUpdateAck e u mid cid x =
     answer e (SmFileStatusUpdateAck (fu_Rid u) (fu_ClientMid u) (fu_ClientCid u) mid cid) x"

definition deliverAcceptedRoomMessageToSender :: "chat_env \<Rightarrow> mid \<Rightarrow> 'a chat \<Rightarrow> 'a chat" where
  "deliverAcceptedRoomMessageToSender e mid x =
     (if mid = [] \<or> re_fails (ce_room e) FindContent then x
      else case GetRoomMessageByMid mid (chat_db (snd x)) of
        None \<Rightarrow> x | Some rcm \<Rightarrow> answer e (SmRoomMessage rcm) x)"

section \<open>File updates\<close>

definition same_client_message :: "rid \<Rightarrow> string \<Rightarrow> uid \<Rightarrow> room_message \<Rightarrow> bool" where
  "same_client_message rid clientMid uid m \<longleftrightarrow>
     rm_Rid m = rid \<and> rm_ClientMid m = clientMid \<and> rm_SenderUid m = uid \<and> rm_DeleteTime m = 0"

definition findExistingRoomMessage ::
  "chat_env \<Rightarrow> uid \<Rightarrow> rid \<Rightarrow> string \<Rightarrow> 'a chat_store_scheme \<Rightarrow> room_error + room_message option" where
  "findExistingRoomMessage e uid rid clientMid s =
     (if re_fails (ce_room e) FindMessage then Inl RoomStoreError
      else Inr (find (same_client_message rid clientMid uid) (messages (chat_db s))))"

definition set_content :: "mid \<Rightarrow> string \<Rightarrow> file_update \<Rightarrow> message_db \<Rightarrow> message_db" where
  "set_content mid cid u db = db\<lparr>contents := map (\<lambda>c. if ct_Mid c = mid \<and> ct_Cid c = cid
     then c\<lparr>ct_Content := fu_Content u, ct_TypeId := fu_UfId u\<rparr> else c) (contents db)\<rparr>"

definition processFileStatusUpdate :: "chat_env \<Rightarrow> file_update \<Rightarrow> room_message \<Rightarrow> 'a chat \<Rightarrow> 'a chat" where
  "processFileStatusUpdate e u rm x =
     (let s = snd x in
      case (if re_fails (ce_room e) FindContent then None
            else find (\<lambda>c. ct_Mid c = rm_Mid rm \<and> ct_ClientCid c = fu_ClientCid u \<and> ct_DeleteTime c = 0)
              (contents (chat_db s))) of
        None \<Rightarrow> sendFileStatusUpdateAck e u [] [] x
      | Some rmc \<Rightarrow>
          if re_fails (ce_room e) UpdateContent then sendFileStatusUpdateAck e u [] [] x
          else
            let s1 = publish_event (EventRoomMessageContentUpdate (ct_Mid rmc) (ct_Cid rmc))
                  (s\<lparr>chat_db := set_content (rm_Mid rm) (ct_Cid rmc) u (chat_db s)\<rparr>);
                (h, s2) = sendFileStatusUpdateAck e u (rm_Mid rm) (ct_Cid rmc) (fst x, s1)
            in (h, if re_fails (ce_room e) RedisPending then s2
                   else s2\<lparr>update_acks := (update_acks s2)(fu_ClientCid u \<mapsto> \<lparr>ua_Update = u, ua_Mid = rm_Mid rm,
                     ua_Cid = ct_Cid rmc, ua_Uid = mh_uid h, ua_CreateTime = re_now (ce_room e)\<rparr>)\<rparr>))"

definition handlerFileStatusUpdate :: "chat_env \<Rightarrow> codec \<Rightarrow> byte list \<Rightarrow> 'a chat \<Rightarrow> 'a chat" where
  "handlerFileStatusUpdate e co data x =
     (case co_update co data of
        None \<Rightarrow> x
      | Some u \<Rightarrow>
          (case findExistingRoomMessage e (mh_uid (fst x)) (fu_Rid u) (fu_ClientMid u) (snd x) of
             Inr (Some rm) \<Rightarrow> processFileStatusUpdate e u rm x
           | _ \<Rightarrow> sendFileStatusUpdateAck e u [] []
               (on_store (\<lambda>s. if re_fails (ce_room e) RedisPending then s
                  else s\<lparr>pending_updates := (pending_updates s)(fu_ClientCid u \<mapsto> u)\<rparr>) x)))"

definition process_cached1 :: "chat_env \<Rightarrow> room_message \<Rightarrow> client_content \<Rightarrow> 'a chat \<Rightarrow> 'a chat" where
  "process_cached1 e rm c x =
     (if cc_ClientCid c = [] \<or> re_fails (ce_room e) RedisPending then x
      else case pending_updates (snd x) (cc_ClientCid c) of
        None \<Rightarrow> x
      | Some cachedPayload \<Rightarrow>
          on_store (\<lambda>s. s\<lparr>pending_updates := (pending_updates s)(cc_ClientCid c := None)\<rparr>)
            (processFileStatusUpdate e cachedPayload rm x))"

definition processCachedFileStatusUpdates ::
  "chat_env \<Rightarrow> room_message \<Rightarrow> client_content list \<Rightarrow> 'a chat \<Rightarrow> 'a chat" where
  "processCachedFileStatusUpdates e rm cs x = fold (process_cached1 e rm) cs x"

definition handlerFileStatusUpdateAck :: "chat_env \<Rightarrow> codec \<Rightarrow> byte list \<Rightarrow> 'a chat \<Rightarrow> 'a chat" where
  "handlerFileStatusUpdateAck e co data x =
     (case co_update_ack co data of
        None \<Rightarrow> x
      | Some (rid, clientMid, clientCid) \<Rightarrow>
          on_store (\<lambda>s. if re_fails (ce_room e) RedisPending then s
            else s\<lparr>update_acks := (update_acks s)(clientCid := None)\<rparr>) x)"

section \<open>Sending to a room: the checks\<close>

definition duplicate_answer :: "chat_env \<Rightarrow> client_message \<Rightarrow> room_message \<Rightarrow> 'a chat \<Rightarrow> 'a chat" where
  "duplicate_answer e message rm x =
     deliverAcceptedRoomMessageToSender e (rm_Mid rm) (processCachedFileStatusUpdates e rm (cm_Contents message) x)"

text \<open>The other member of a private room, by the cached member list.\<close>

definition other_uid :: "uid \<Rightarrow> uid list \<Rightarrow> uid" where
  "other_uid uid uids = (case find (\<lambda>u. u \<noteq> uid) uids of None \<Rightarrow> [] | Some u \<Rightarrow> u)"

definition code_of :: "mute_code \<Rightarrow> string" where
  "code_of c = (case c of MuteCodeMuted \<Rightarrow> ''MUTED'' | MuteCodeTimeRange \<Rightarrow> ''MUTED_TIME_RANGE''
     | MuteCodeFrequency \<Rightarrow> ''MUTED_FREQUENCY'')"

definition room_refusal :: "chat_env \<Rightarrow> uid \<Rightarrow> rid \<Rightarrow> 'a chat_store_scheme \<Rightarrow> string option \<times> 'a chat_store_scheme" where
  "room_refusal e uid rid s =
     (case GetRoomByRidAny (ce_room e) rid s of
        Inl _ \<Rightarrow> (Some ''INVALID_ROOM'', s)
      | Inr room \<Rightarrow>
          if r_State room = RoomStateDissolved then (Some ''ROOM_DISSOLVED'', s)
          else
            let (refused, s1) =
              (if r_Type room = RoomTypePrivate \<and> \<not> r_AllowNonFriendChat room then
                 (case GetRoomUserIdsCache (ce_room e) rid s of
                    (Inl _, s1) \<Rightarrow> (Some ''SEND_FAILED'', s1)
                  | (Inr userIds, s1) \<Rightarrow>
                      let otherUid = other_uid uid userIds in
                      if otherUid \<noteq> [] \<and>
                         (case CheckFriendRelation (ce_room e) uid otherUid s1 of Inl _ \<Rightarrow> True | Inr (ok, _) \<Rightarrow> \<not> ok)
                      then (Some ''NOT_FRIEND'', s1) else (None, s1))
               else (None, s))
            in case refused of
              Some code \<Rightarrow> (Some code, s1)
            | None \<Rightarrow> (map_option code_of (IsUserMutedInRoom (ce_room e) rid uid s1), s1))"

text \<open>The number for the message, or \<open>None\<close> when the handler has finished.\<close>

definition room_message_checks :: "chat_env \<Rightarrow> client_message \<Rightarrow> 'a chat \<Rightarrow> int option \<times> 'a chat" where
  "room_message_checks e message x =
     (let rid = cm_Rid message; clientMid = cm_ClientMid message; uid = mh_uid (fst x) in
      case findExistingRoomMessage e uid rid clientMid (snd x) of
        Inl _ \<Rightarrow> (None, failRoomMessageSend e rid clientMid ''SEND_FAILED'' x)
      | Inr (Some existedRm) \<Rightarrow> (None, duplicate_answer e message existedRm x)
      | Inr None \<Rightarrow>
          (case room_refusal e uid rid (snd x) of
             (Some code, s1) \<Rightarrow> (None, sendRoomMessageSendError e rid clientMid code (fst x, s1))
           | (None, s1) \<Rightarrow>
               (case GetRoomSeqId (ce_seq e) rid (chat_db s1) (seq_keys_of s1) of
                  (Inl _, keys) \<Rightarrow>
                    (None, failRoomMessageSend e rid clientMid ''SEND_FAILED'' (fst x, s1\<lparr>seq_keys_of := keys\<rparr>))
                | (Inr seqId, keys) \<Rightarrow> (Some seqId, (fst x, s1\<lparr>seq_keys_of := keys\<rparr>)))))"

section \<open>Sending to a room: the transaction\<close>

definition new_message :: "chat_env \<Rightarrow> client_message \<Rightarrow> int \<Rightarrow> message_handler \<Rightarrow> room_message" where
  "new_message e message seqId h =
     \<lparr>rm_Rid = cm_Rid message, rm_SeqId = seqId, rm_Mid = ce_mid e, rm_ClientMid = cm_ClientMid message,
      rm_SenderUid = mh_uid h, rm_State = 1, rm_IP = mh_ip h, rm_WithdrawTime = 0,
      rm_CreateTime = re_now (ce_room e), rm_DeleteTime = 0, rm_ClientCreateTime = cm_CreateTime message\<rparr>"

definition valid_contents :: "client_message \<Rightarrow> client_content list" where
  "valid_contents message = filter (\<lambda>c. cc_ClientCid c \<noteq> [] \<and> TrimSpace (cc_Content c) \<noteq> []) (cm_Contents message)"

definition new_contents :: "chat_env \<Rightarrow> client_message \<Rightarrow> content list" where
  "new_contents e message = map (\<lambda>(i, c).
     \<lparr>ct_Type = cc_Type c, ct_TypeId = cc_TypeId c, ct_Content = cc_Content c, ct_Mid = ce_mid e,
      ct_ClientCid = cc_ClientCid c, ct_Cid = ce_cids e i, ct_CreateTime = re_now (ce_room e), ct_DeleteTime = 0\<rparr>)
     (List.enumerate 0 (valid_contents message))"

text \<open>The unique indexes of the two tables, deleted rows included.\<close>

definition client_key :: "room_message \<Rightarrow> rid \<times> uid \<times> string" where
  "client_key m = (rm_Rid m, rm_SenderUid m, rm_ClientMid m)"

definition room_seq :: "room_message \<Rightarrow> rid \<times> int" where "room_seq m = (rm_Rid m, rm_SeqId m)"

definition message_indexes :: "room_message list \<Rightarrow> bool" where
  "message_indexes ms \<longleftrightarrow> distinct (map client_key ms) \<and> distinct (map room_seq ms) \<and> distinct (map rm_Mid ms)"

definition content_indexes :: "content list \<Rightarrow> bool" where
  "content_indexes cs \<longleftrightarrow> distinct (map (\<lambda>c. (ct_Mid c, ct_ClientCid c)) cs) \<and> distinct (map ct_Cid cs)"

text \<open>The statements of the transaction; \<open>Inl\<close> is the code of the refusal after a rollback.\<close>

definition insert_message :: "chat_env \<Rightarrow> client_message \<Rightarrow> int \<Rightarrow> message_handler \<Rightarrow> message_db \<Rightarrow> string + message_db" where
  "insert_message e message seqId h db =
     (let rm = new_message e message seqId h; cs = new_contents e message in
      if re_fails (ce_room e) InsertMessage \<or> client_key rm \<in> client_key ` set (messages db) \<or>
         room_seq rm \<in> room_seq ` set (messages db) \<or> rm_Mid rm \<in> rm_Mid ` set (messages db) then Inl ''SEND_FAILED''
      else if cs = [] then Inl ''EMPTY_CONTENT''
      else if re_fails (ce_room e) InsertContent \<or> \<not> content_indexes (contents db @ cs) \<or>
              re_fails (ce_room e) CommitMessage then Inl ''SEND_FAILED''
      else Inr (db\<lparr>messages := messages db @ [rm], contents := contents db @ cs\<rparr>))"

definition after_send :: "chat_env \<Rightarrow> room_message \<Rightarrow> message_handler \<Rightarrow> 'a chat_store_scheme \<Rightarrow> 'a chat_store_scheme" where
  "after_send e rm h s =
     (let r = ce_room e; rid = rm_Rid rm; uid = mh_uid h;
          s1 = snd (EnsureReceiverSessionForPrivateRoom r rid uid s);
          s2 = snd (BumpUserRoomSessionLastMessageTime r rid (rm_CreateTime rm) s1);
          s3 = snd (TouchRoomUserLastSpeak r rid uid (rm_CreateTime rm) (mh_ip h) s2);
          s4 = IncrRoomMessageFrequencyCount r rid uid s3
      in publish_event (EventRoomMessage (rm_Mid rm)) s4)"

definition store_room_message :: "chat_env \<Rightarrow> client_message \<Rightarrow> int \<Rightarrow> 'a chat \<Rightarrow> 'a chat" where
  "store_room_message e message seqId x =
     (let rid = cm_Rid message; clientMid = cm_ClientMid message; h = fst x; s = snd x in
      case findExistingRoomMessage e (mh_uid h) rid clientMid s of
        Inl _ \<Rightarrow> failRoomMessageSend e rid clientMid ''SEND_FAILED'' x
      | Inr (Some txExisted) \<Rightarrow> duplicate_answer e message txExisted x
      | Inr None \<Rightarrow>
          (case insert_message e message seqId h (chat_db s) of
             Inl code \<Rightarrow> sendRoomMessageSendError e rid clientMid code x
           | Inr db \<Rightarrow>
               let rm = new_message e message seqId h in
               processCachedFileStatusUpdates e rm (cm_Contents message)
                 (deliverAcceptedRoomMessageToSender e (rm_Mid rm) (h, after_send e rm h (s\<lparr>chat_db := db\<rparr>)))))"

text \<open>The whole handler; whether the lock was taken changes nothing else.\<close>

definition handle_room_message :: "chat_env \<Rightarrow> client_message \<Rightarrow> 'a chat \<Rightarrow> 'a chat" where
  "handle_room_message e message x =
     (let rid = cm_Rid message; clientMid = cm_ClientMid message; key = (mh_uid (fst x), rid, clientMid) in
      if rid = [] \<or> clientMid = [] then sendRoomMessageSendError e rid clientMid ''INVALID_MESSAGE'' x
      else
        let locked = (\<not> re_fails (ce_room e) RedisLock \<and> key \<notin> dedupe_locks (snd x));
            x1 = (if locked then on_store (\<lambda>s. s\<lparr>dedupe_locks := insert key (dedupe_locks s)\<rparr>) x else x);
            x2 = (case room_message_checks e message x1 of
                    (None, y) \<Rightarrow> y | (Some seqId, y) \<Rightarrow> store_room_message e message seqId y)
        in if locked then on_store (\<lambda>s. s\<lparr>dedupe_locks := dedupe_locks s - {key}\<rparr>) x2 else x2)"

definition handlerRoomMessage :: "chat_env \<Rightarrow> codec \<Rightarrow> byte list \<Rightarrow> 'a chat \<Rightarrow> 'a chat" where
  "handlerRoomMessage e co data x = (case co_message co data of None \<Rightarrow> x | Some message \<Rightarrow> handle_room_message e message x)"

section \<open>Confirmations and withdrawals\<close>

definition confirm_acks :: "time \<Rightarrow> mid \<Rightarrow> uid \<Rightarrow> message_ack list \<Rightarrow> message_ack list" where
  "confirm_acks now mid uid as = map (\<lambda>a. if ack_Mid a = mid \<and> ack_Uid a = uid \<and> ack_State a = 0
     then a\<lparr>ack_State := 1, ack_ConfirmedTime := now\<rparr> else a) as"

definition open_ack :: "mid \<Rightarrow> uid \<Rightarrow> message_ack list \<Rightarrow> bool" where
  "open_ack mid uid as \<longleftrightarrow> (\<exists>a \<in> set as. ack_Mid a = mid \<and> ack_Uid a = uid \<and> ack_State a = 0)"

definition handlerRoomMessageAck :: "chat_env \<Rightarrow> codec \<Rightarrow> byte list \<Rightarrow> 'a chat \<Rightarrow> 'a chat" where
  "handlerRoomMessageAck e co data x =
     (case co_ack co data of
        None \<Rightarrow> x
      | Some (mid, rid) \<Rightarrow>
          let db = chat_db (snd x); uid = mh_uid (fst x) in
          if re_fails (ce_room e) UpdateAck \<or> \<not> open_ack mid uid (acks db) then x
          else
            let x1 = on_store (\<lambda>s. s\<lparr>chat_db := db\<lparr>acks := confirm_acks (re_now (ce_room e)) mid uid (acks db)\<rparr>\<rparr>) x
            in case GetRoomMessageByMid mid db of
              None \<Rightarrow> x1
            | Some rm \<Rightarrow> sendRoomMessageAck e mid rid (sm_SeqId rm) (sm_ClientMid rm) x1)"

definition handlerRoomMessageWithdrawAck :: "chat_env \<Rightarrow> codec \<Rightarrow> byte list \<Rightarrow> 'a chat \<Rightarrow> 'a chat" where
  "handlerRoomMessageWithdrawAck e co data x =
     (case co_ack co data of
        None \<Rightarrow> x
      | Some (mid, rid) \<Rightarrow>
          if re_fails (ce_room e) UpdateAck then x
          else on_store (\<lambda>s. s\<lparr>chat_db := (chat_db s)\<lparr>withdraw_acks :=
            confirm_acks (re_now (ce_room e)) mid (mh_uid (fst x)) (withdraw_acks (chat_db s))\<rparr>\<rparr>) x)"

definition withdraw_limit :: time where "withdraw_limit = 1000 * 60 * 5"

definition may_withdraw :: "chat_env \<Rightarrow> uid \<Rightarrow> rid \<Rightarrow> room_message \<Rightarrow> 'a chat_store_scheme \<Rightarrow> bool" where
  "may_withdraw e uid rid m s \<longleftrightarrow>
     (if rm_SenderUid m = uid then True
      else case GetRoomUser (ce_room e) rid uid s of
        Inl _ \<Rightarrow> False | Inr ru \<Rightarrow> ru_Role ru = RoomUserRoleAdmin \<or> ru_Role ru = RoomUserRoleOwner) \<and>
     \<not> rm_WithdrawTime m > 0 \<and>
     \<not> (rm_SenderUid m = uid \<and> rm_CreateTime m < re_now (ce_room e) - withdraw_limit)"

text \<open>\<open>withdrawn_content\<close> encodes who withdrew whose message, and whether as an administrator.\<close>

definition withdraw_rows ::
  "(uid \<Rightarrow> uid \<Rightarrow> bool \<Rightarrow> string) \<Rightarrow> chat_env \<Rightarrow> uid \<Rightarrow> rid \<Rightarrow> int \<Rightarrow> room_message \<Rightarrow> message_db \<Rightarrow> message_db" where
  "withdraw_rows withdrawn_content e uid rid seqId m db =
     (let now = re_now (ce_room e);
          ms = map (\<lambda>v. if rm_Rid v = rid \<and> rm_SeqId v = seqId then v\<lparr>rm_WithdrawTime := now\<rparr> else v) (messages db);
          cs = map (\<lambda>c. if ct_Mid c = rm_Mid m then c\<lparr>ct_DeleteTime := now\<rparr> else c) (contents db);
          c = \<lparr>ct_Type = ''user:withdraw'', ct_TypeId = uid,
               ct_Content = withdrawn_content uid (rm_SenderUid m) (rm_SenderUid m \<noteq> uid),
               ct_Mid = rm_Mid m, ct_ClientCid = ce_mid e, ct_Cid = ce_cids e 0, ct_CreateTime = now, ct_DeleteTime = 0\<rparr>
      in db\<lparr>messages := ms, contents := cs @ [c]\<rparr>)"

definition withdraw_request ::
  "(uid \<Rightarrow> uid \<Rightarrow> bool \<Rightarrow> string) \<Rightarrow> chat_env \<Rightarrow> rid \<Rightarrow> int \<Rightarrow> 'a chat \<Rightarrow> 'a chat" where
  "withdraw_request withdrawn_content e rid seqId x =
     (let uid = mh_uid (fst x); db = chat_db (snd x) in
      case (if re_fails (ce_room e) FindMessage then None else GetRoomMessageByRidSeqId rid seqId db) of
        None \<Rightarrow> x
      | Some m \<Rightarrow>
          if \<not> may_withdraw e uid rid m (snd x) then x
          else
            let db1 = withdraw_rows withdrawn_content e uid rid seqId m db in
            if re_fails (ce_room e) UpdateMessage \<or> re_fails (ce_room e) UpdateContent \<or>
               re_fails (ce_room e) InsertContent \<or> re_fails (ce_room e) CommitMessage \<or>
               \<not> content_indexes (contents db1) then x
            else on_store (\<lambda>s. publish_event (EventRoomMessageWithdraw (rm_Mid m))
                   (publish_event (TaskRoomAdminOperationLog rid uid (rm_Mid m))
                     (InvalidateRoomLastMessageCache (ce_room e) rid (s\<lparr>chat_db := db1\<rparr>)))) x)"

definition handlerRoomMessageWithdrawRequest ::
  "(uid \<Rightarrow> uid \<Rightarrow> bool \<Rightarrow> string) \<Rightarrow> chat_env \<Rightarrow> codec \<Rightarrow> byte list \<Rightarrow> 'a chat \<Rightarrow> 'a chat" where
  "handlerRoomMessageWithdrawRequest withdrawn_content e co data x =
     (case co_withdraw co data of None \<Rightarrow> x | Some (rid, seqId) \<Rightarrow> withdraw_request withdrawn_content e rid seqId x)"

definition handlerMessage ::
  "(uid \<Rightarrow> uid \<Rightarrow> bool \<Rightarrow> string) \<Rightarrow> chat_env \<Rightarrow> codec \<Rightarrow> byte \<Rightarrow> byte list \<Rightarrow> 'a chat \<Rightarrow> 'a chat" where
  "handlerMessage withdrawn_content e co messageType data x =
     (if messageType = 1 then handlerRoomMessage e co data x
      else if messageType = 2 then handlerRoomMessageAck e co data x
      else if messageType = 6 then handlerFileStatusUpdate e co data x
      else if messageType = 7 then handlerFileStatusUpdateAck e co data x
      else if messageType = 3 then handlerRoomMessageWithdrawAck e co data x
      else if messageType = 10 then handlerRoomMessageWithdrawRequest withdrawn_content e co data x
      else x)"

section \<open>What the parts leave alone\<close>

lemma room_cache_frame [simp, frame]:
  "chat_db (snd (GetRoomUserIdsCache e rid s)) = chat_db s"
  "pending_updates (snd (GetRoomUserIdsCache e rid (c :: 'a chat_store_scheme))) = pending_updates c"
  by (auto simp: GetRoomUserIdsCache_def SetRoomUserIdsCache_def Let_def split: option.split sum.split)

lemma room_cacheD [frame]: "GetRoomUserIdsCache e rid s = (r, s1) \<Longrightarrow> chat_db s1 = chat_db s"
  by (metis room_cache_frame(1) snd_conv)

lemma upd_session_frame [simp, frame]: "chat_db (upd_session P f s) = chat_db s"
  by (simp add: upd_session_def)

lemma EnsureReceiver_frame [simp, frame]: "chat_db (snd (EnsureReceiverSessionForPrivateRoom e rid uid s)) = chat_db s"
  by (auto simp: EnsureReceiverSessionForPrivateRoom_def Let_def dest: room_cacheD split: option.split sum.split prod.split)

lemma Bump_frame [simp, frame]: "chat_db (snd (BumpUserRoomSessionLastMessageTime e rid t s)) = chat_db s"
  by (simp add: BumpUserRoomSessionLastMessageTime_def InvalidateRoomLastMessageCache_def)

lemma Invalidate_frame [simp, frame]: "chat_db (InvalidateRoomLastMessageCache e rid s) = chat_db s"
  by (simp add: InvalidateRoomLastMessageCache_def)

lemma Touch_frame [simp, frame]: "chat_db (snd (TouchRoomUserLastSpeak e rid uid t ip s)) = chat_db s"
  by (simp add: TouchRoomUserLastSpeak_def write_user_def upd_user_def)

lemma Incr_frame [simp, frame]: "chat_db (IncrRoomMessageFrequencyCount e rid uid s) = chat_db s"
  by (auto simp: IncrRoomMessageFrequencyCount_def Let_def split: option.split sum.split prod.split)

lemma publish_frame [simp, frame]: "chat_db (publish_event ev s) = chat_db s"
  by (simp add: publish_event_def)

lemma after_send_frame [simp, frame]: "chat_db (after_send e rm h s) = chat_db s"
  by (simp add: after_send_def Let_def)

lemma answer_frame [simp]: "snd (answer e msg x) = snd x" "mh_uid (fst (answer e msg x)) = mh_uid (fst x)"
  by (simp_all add: answer_def)

lemma answers_frame [simp]:
  "snd (sendRoomMessageSendError e rid c code x) = snd x" "snd (failRoomMessageSend e rid c code x) = snd x"
  "snd (sendRoomMessageAck e mid rid q c x) = snd x" "snd (sendFileStatusUpdateAck e u mid cid x) = snd x"
  "mh_uid (fst (sendFileStatusUpdateAck e u mid cid x)) = mh_uid (fst x)"
  by (simp_all add: sendRoomMessageSendError_def failRoomMessageSend_def sendRoomMessageAck_def sendFileStatusUpdateAck_def)

lemma deliver_frame [simp]: "snd (deliverAcceptedRoomMessageToSender e mid x) = snd x"
  by (auto simp: deliverAcceptedRoomMessageToSender_def split: option.split)

lemma on_store_sel [simp]: "fst (on_store f x) = fst x" "snd (on_store f x) = f (snd x)"
  by (simp_all add: on_store_def)

lemma set_content_messages [simp]: "messages (set_content mid cid u db) = messages db"
  by (simp add: set_content_def)

lemma processFileStatusUpdate_messages [simp]:
  "messages (chat_db (snd (processFileStatusUpdate e u rm x))) = messages (chat_db (snd x))"
  by (simp add: processFileStatusUpdate_def Let_def case_prod_beta split: option.split)

lemma process_cached_messages [simp]:
  "messages (chat_db (snd (processCachedFileStatusUpdates e rm cs x))) = messages (chat_db (snd x))"
  unfolding processCachedFileStatusUpdates_def
proof (induction cs arbitrary: x)
  case (Cons c cs)
  have "messages (chat_db (snd (process_cached1 e rm c x))) = messages (chat_db (snd x))"
    by (simp add: process_cached1_def split: option.split)
  then show ?case using Cons by simp
qed simp

lemma duplicate_answer_messages [simp]:
  "messages (chat_db (snd (duplicate_answer e message rm x))) = messages (chat_db (snd x))"
  by (simp add: duplicate_answer_def)

lemma room_refusal_frame [simp, frame]: "chat_db (snd (room_refusal e uid rid s)) = chat_db s"
  by (auto simp: room_refusal_def Let_def dest: room_cacheD split: option.split sum.split prod.split)

lemma room_refusalD [frame]: "room_refusal e uid rid s = (r, s1) \<Longrightarrow> chat_db s1 = chat_db s"
  by (metis room_refusal_frame snd_conv)

lemma checks_messages [simp]:
  "messages (chat_db (snd (snd (room_message_checks e message x)))) = messages (chat_db (snd x))"
  by (auto simp: room_message_checks_def Let_def dest: room_refusalD split: option.split sum.split prod.split)

section \<open>The log of messages\<close>

text \<open>What never changes of a stored message: all but the mark of its withdrawal.\<close>

definition identity :: "room_message \<Rightarrow> room_message" where "identity m = m\<lparr>rm_WithdrawTime := 0\<rparr>"

lemma identity_keys [simp]:
  "client_key (identity m) = client_key m" "room_seq (identity m) = room_seq m" "rm_Mid (identity m) = rm_Mid m"
  by (simp_all add: identity_def client_key_def room_seq_def)

definition message_log :: "message_db \<Rightarrow> room_message list" where
  "message_log db = map identity (messages db)"

lemma log_indexes: "message_indexes (message_log db) = message_indexes (messages db)"
proof -
  have "client_key \<circ> identity = client_key" "room_seq \<circ> identity = room_seq" "rm_Mid \<circ> identity = rm_Mid"
    by (simp_all add: fun_eq_iff)
  then show ?thesis by (simp add: message_log_def message_indexes_def)
qed

text \<open>One step on the log: nothing, or one message more.\<close>

definition log_step :: "message_db \<Rightarrow> message_db \<Rightarrow> bool" where
  "log_step db db' \<longleftrightarrow> message_log db' = message_log db \<or>
     (\<exists>m. message_log db' = message_log db @ [m] \<and>
        (message_indexes (message_log db) \<longrightarrow> message_indexes (message_log db')))"

lemma log_step_same: "messages db' = messages db \<Longrightarrow> log_step db db'"
  by (simp add: log_step_def message_log_def)

lemma log_step_cong: "messages d = messages db \<Longrightarrow> messages d' = messages db' \<Longrightarrow> log_step d d' = log_step db db'"
  by (simp add: log_step_def message_log_def)

lemma insert_message_log:
  assumes "insert_message e message seqId h db = Inr db'"
  shows "log_step db db' \<and> messages db' = messages db @ [new_message e message seqId h] \<and>
    contents db' = contents db @ new_contents e message"
proof -
  let ?rm = "new_message e message seqId h"
  have db': "messages db' = messages db @ [?rm]" "contents db' = contents db @ new_contents e message"
    and fresh: "client_key ?rm \<notin> client_key ` set (messages db)" "room_seq ?rm \<notin> room_seq ` set (messages db)"
      "rm_Mid ?rm \<notin> rm_Mid ` set (messages db)"
    using assms by (auto simp: insert_message_def Let_def split: if_splits)
  have "message_indexes (messages db) \<Longrightarrow> message_indexes (messages db')"
    using fresh by (simp add: db' message_indexes_def)
  then have "message_indexes (message_log db) \<Longrightarrow> message_indexes (message_log db')" by (simp add: log_indexes)
  moreover have "message_log db' = message_log db @ [identity ?rm]" by (simp add: message_log_def db')
  ultimately show ?thesis using db' by (auto simp: log_step_def)
qed

lemma store_log: "log_step (chat_db (snd x)) (chat_db (snd (store_room_message e message seqId x)))"
proof -
  have same: "log_step (chat_db (snd x)) (chat_db (snd y))"
    if "messages (chat_db (snd y)) = messages (chat_db (snd x))" for y :: "'a chat"
    using that by (rule log_step_same)
  show ?thesis
  proof (cases "findExistingRoomMessage e (mh_uid (fst x)) (cm_Rid message) (cm_ClientMid message) (snd x)")
    case found: (Inr r)
    show ?thesis
    proof (cases r)
      case None
      show ?thesis
      proof (cases "insert_message e message seqId (fst x) (chat_db (snd x))")
        case (Inr db)
        note ins = insert_message_log [OF Inr]
        have "messages (chat_db (snd (store_room_message e message seqId x))) = messages db"
          using found None Inr by (simp add: store_room_message_def Let_def)
        then have "log_step (chat_db (snd x)) (chat_db (snd (store_room_message e message seqId x)))
            = log_step (chat_db (snd x)) db" by (rule log_step_cong [OF refl])
        with ins show ?thesis by simp
      qed (use None found in \<open>simp add: store_room_message_def Let_def log_step_same\<close>)
    qed (use found in \<open>simp add: store_room_message_def Let_def log_step_same\<close>)
  qed (simp add: store_room_message_def Let_def log_step_same)
qed

lemma withdraw_log: "log_step (chat_db (snd x)) (chat_db (snd (withdraw_request wc e rid seqId x)))"
proof -
  have "message_log (withdraw_rows wc e uid rid q m db) = message_log db" for uid m db q
    by (simp add: message_log_def withdraw_rows_def Let_def identity_def)
  then show ?thesis
    by (auto simp: withdraw_request_def Let_def log_step_def split: option.split)
qed

lemma handle_room_message_log: "log_step (chat_db (snd x)) (chat_db (snd (handle_room_message e message x)))"
proof -
  have checked: "log_step (chat_db (snd y)) (chat_db (snd (case room_message_checks e message y of
      (None, z) \<Rightarrow> z | (Some seqId, z) \<Rightarrow> store_room_message e message seqId z)))" for y :: "'a chat"
  proof -
    obtain r z where run: "room_message_checks e message y = (r, z)" by (cases "room_message_checks e message y")
    then have same: "messages (chat_db (snd z)) = messages (chat_db (snd y))"
      using checks_messages [of e message y] by simp
    show ?thesis
    proof (cases r)
      case None
      with run same show ?thesis by (simp add: log_step_same)
    next
      case (Some q)
      have "log_step (chat_db (snd z)) (chat_db (snd (store_room_message e message q z)))" by (rule store_log)
      then show ?thesis using run Some same by (simp add: log_step_cong [OF same refl])
    qed
  qed
  show ?thesis
    using checked [of x] checked [of "on_store (\<lambda>s. s\<lparr>dedupe_locks := insert (mh_uid (fst x), cm_Rid message, cm_ClientMid message) (dedupe_locks s)\<rparr>) x"]
    by (auto simp: handle_room_message_def Let_def log_step_same)
qed

lemma handlerMessage_log: "log_step (chat_db (snd x)) (chat_db (snd (handlerMessage wc e co t data x)))"
proof -
  have "log_step (chat_db (snd x)) (chat_db (snd (handlerFileStatusUpdate e co data x)))"
    by (auto simp: handlerFileStatusUpdate_def split: option.split sum.split intro!: log_step_same)
  moreover have "log_step (chat_db (snd x)) (chat_db (snd (handlerRoomMessageAck e co data x)))"
    by (auto simp: handlerRoomMessageAck_def Let_def split: option.split intro!: log_step_same)
  moreover have "log_step (chat_db (snd x)) (chat_db (snd (handlerFileStatusUpdateAck e co data x)))"
    by (auto simp: handlerFileStatusUpdateAck_def split: option.split intro!: log_step_same)
  moreover have "log_step (chat_db (snd x)) (chat_db (snd (handlerRoomMessageWithdrawAck e co data x)))"
    by (auto simp: handlerRoomMessageWithdrawAck_def split: option.split intro!: log_step_same)
  ultimately show ?thesis
    by (auto simp: handlerMessage_def handlerRoomMessage_def handlerRoomMessageWithdrawRequest_def
        split: option.split intro: handle_room_message_log withdraw_log log_step_same)
qed


text \<open>
  What can run, in any order and by any users: a message to its handler, or one part of a
  send, each with its own failures.
\<close>

datatype chat_op = HandleMessage byte "byte list" | SendChecks client_message | SendTransaction client_message int

fun chat_exec1 ::
  "(uid \<Rightarrow> uid \<Rightarrow> bool \<Rightarrow> string) \<Rightarrow> codec \<Rightarrow> chat_env \<times> message_handler \<times> chat_op
   \<Rightarrow> 'a chat_store_scheme \<Rightarrow> 'a chat_store_scheme" where
  "chat_exec1 wc co (e, h, HandleMessage t data) s = snd (handlerMessage wc e co t data (h, s))"
| "chat_exec1 wc co (e, h, SendChecks message) s = snd (snd (room_message_checks e message (h, s)))"
| "chat_exec1 wc co (e, h, SendTransaction message seqId) s = snd (store_room_message e message seqId (h, s))"

definition chat_exec ::
  "(uid \<Rightarrow> uid \<Rightarrow> bool \<Rightarrow> string) \<Rightarrow> codec \<Rightarrow> (chat_env \<times> message_handler \<times> chat_op) list
   \<Rightarrow> 'a chat_store_scheme \<Rightarrow> 'a chat_store_scheme" where
  "chat_exec wc co ops s = fold (chat_exec1 wc co) ops s"

lemma chat_exec1_log: "log_step (chat_db s) (chat_db (chat_exec1 wc co op s))"
proof (cases op)
  case (fields e h action)
  then show ?thesis
    using handlerMessage_log [of "(h, s)"] store_log [of "(h, s)"] checks_messages [of e _ "(h, s)"]
    by (cases action) (auto intro: log_step_same)
qed

text \<open>
  C31. The log of messages only grows: whatever messages, retries, file updates and
  withdrawals of any users run in whatever interleaving and with whatever failures, every
  stored message stays as it is but for the mark of its withdrawal, at most one is added by
  a step, and no two ever share the room and number, the identifier, or the client's
  identifier for the same sender and room.
\<close>

theorem message_log_append_only:
  assumes "message_indexes (messages (chat_db s))"
  shows "message_indexes (messages (chat_db (chat_exec wc co ops s))) \<and>
    (\<exists>new. message_log (chat_db (chat_exec wc co ops s)) = message_log (chat_db s) @ new \<and> length new \<le> length ops)"
proof (induction ops rule: rev_induct)
  case (snoc op ops)
  let ?s = "chat_exec wc co ops s"
  have "chat_exec wc co (ops @ [op]) s = chat_exec1 wc co op ?s" by (simp add: chat_exec_def)
  with chat_exec1_log [of ?s wc co op] snoc show ?case
    by (auto simp: log_step_def log_indexes [symmetric])
qed (use assms in \<open>simp add: chat_exec_def\<close>)

section \<open>Sending again\<close>

lemma process_cached_none:
  assumes "\<And>c. c \<in> set cs \<Longrightarrow> pending_updates (snd x) (cc_ClientCid c) = None"
  shows "processCachedFileStatusUpdates e rm cs x = x"
  using assms unfolding processCachedFileStatusUpdates_def
  by (induction cs) (simp_all add: process_cached1_def split: if_splits)

definition all_sent :: "chat_env \<Rightarrow> message_handler \<Rightarrow> bool" where
  "all_sent e h \<longleftrightarrow> (\<forall>c. \<not> ce_send e c) \<and> \<not> mh_closed h"

lemma answer_sent:
  "all_sent e (fst x) \<Longrightarrow> \<exists>v. mh_out (fst (answer e msg x)) = mh_out (fst x) @ [(v, msg)]"
  by (simp add: all_sent_def answer_def send_packed_def SendMessage_def nextOutgoingVersion_def Let_def)

lemma find_by_mid:
  assumes "message_indexes ms" and "m \<in> set ms" and "P m"
  shows "find (\<lambda>v. rm_Mid v = rm_Mid m \<and> P v) ms = Some m"
  using assms
proof (induction ms)
  case (Cons v ms)
  then show ?case by (auto simp: message_indexes_def)
qed simp

lemma duplicate_answered:
  assumes "message_indexes (messages (chat_db (snd x)))" and "m \<in> set (messages (chat_db (snd x)))"
    and "open_message m" "rm_Mid m \<noteq> []" and "all_sent e (fst x)" and "\<not> re_fails (ce_room e) FindContent"
    and "\<And>c. c \<in> set (cm_Contents message) \<Longrightarrow> pending_updates (snd x) (cc_ClientCid c) = None"
  shows "\<exists>v. mh_out (fst (duplicate_answer e message m x))
    = mh_out (fst x) @ [(v, SmRoomMessage (server_message (chat_db (snd x)) m))]"
proof -
  have "GetRoomMessageByMid (rm_Mid m) (chat_db (snd x)) = Some (server_message (chat_db (snd x)) m)"
    using find_by_mid [of _ m open_message, OF assms(1-3)] by (simp add: GetRoomMessageByMid_def)
  then show ?thesis
    using process_cached_none [of "cm_Contents message" x, OF assms(7)] assms(4,6) answer_sent [OF assms(5)]
    by (simp add: duplicate_answer_def deliverAcceptedRoomMessageToSender_def)
qed



section \<open>Withdrawing\<close>

definition withdrawn :: "rid \<Rightarrow> int \<Rightarrow> message_db \<Rightarrow> bool" where
  "withdrawn rid seqId db \<longleftrightarrow> (\<exists>m. GetRoomMessageByRidSeqId rid seqId db = Some m \<and> rm_WithdrawTime m > 0)"

lemma withdrawn_final:
  assumes "withdrawn rid seqId (chat_db (snd x))"
  shows "withdraw_request wc e rid seqId x = x"
  using assms by (auto simp: withdrawn_def withdraw_request_def may_withdraw_def Let_def)

lemma find_map_same:
  "(\<And>v. P (f v) = P v) \<Longrightarrow> find P (map f xs) = map_option f (find P xs)"
  by (induction xs) auto

lemma withdraw_rows_withdrawn:
  assumes "GetRoomMessageByRidSeqId rid q db = Some m" and "0 < re_now (ce_room e)"
  shows "withdrawn rid q (withdraw_rows wc e uid rid q m db)"
proof -
  have "rm_Rid m = rid \<and> rm_SeqId m = q" using assms(1) by (auto simp: GetRoomMessageByRidSeqId_def find_Some_iff)
  then show ?thesis
    using assms by (simp add: withdrawn_def GetRoomMessageByRidSeqId_def withdraw_rows_def Let_def find_map_same)
qed

text \<open>What a withdrawal makes of the tables.\<close>

definition withdrawn_rows_ok :: "chat_env \<Rightarrow> uid \<Rightarrow> rid \<Rightarrow> int \<Rightarrow> room_message \<Rightarrow> message_db \<Rightarrow> message_db \<Rightarrow> bool" where
  "withdrawn_rows_ok e uid rid q m db db' \<longleftrightarrow> withdrawn rid q db' \<and>
     map (\<lambda>c. (ct_Type c, ct_TypeId c)) (contents_of (rm_Mid m) db') = [(''user:withdraw'', uid)] \<and>
     filter (\<lambda>v. room_seq v \<noteq> (rid, q)) (messages db') = filter (\<lambda>v. room_seq v \<noteq> (rid, q)) (messages db) \<and>
     (\<forall>mid. mid \<noteq> rm_Mid m \<longrightarrow> contents_of mid db' = contents_of mid db)"

lemma filter_map_other: "(\<And>v. P (f v) = P v) \<Longrightarrow> (\<And>v. P v \<Longrightarrow> f v = v) \<Longrightarrow> filter P (map f xs) = filter P xs"
  by (induction xs) auto

lemma withdraw_rows_ok:
  assumes "GetRoomMessageByRidSeqId rid q db = Some m" and "0 < re_now (ce_room e)"
  shows "withdrawn_rows_ok e uid rid q m db (withdraw_rows wc e uid rid q m db)"
  unfolding withdrawn_rows_ok_def
proof (intro conjI allI impI)
  show "withdrawn rid q (withdraw_rows wc e uid rid q m db)" by (rule withdraw_rows_withdrawn [OF assms])
  have "filter (\<lambda>c. ct_Mid c = rm_Mid m \<and> ct_DeleteTime c = 0)
      (map (\<lambda>c. if ct_Mid c = rm_Mid m then c\<lparr>ct_DeleteTime := re_now (ce_room e)\<rparr> else c) (contents db)) = []"
    using assms(2) by (auto simp: filter_empty_conv)
  then show "map (\<lambda>c. (ct_Type c, ct_TypeId c)) (contents_of (rm_Mid m) (withdraw_rows wc e uid rid q m db))
      = [(''user:withdraw'', uid)]"
    by (simp add: withdraw_rows_def Let_def contents_of_def)
  show "filter (\<lambda>v. room_seq v \<noteq> (rid, q)) (messages (withdraw_rows wc e uid rid q m db))
      = filter (\<lambda>v. room_seq v \<noteq> (rid, q)) (messages db)"
    by (simp add: withdraw_rows_def Let_def) (rule filter_map_other; auto simp: room_seq_def)
  show "contents_of mid (withdraw_rows wc e uid rid q m db) = contents_of mid db" if "mid \<noteq> rm_Mid m" for mid
    using that by (simp add: withdraw_rows_def Let_def contents_of_def) (rule filter_map_other; auto)
qed

lemma withdraw_request_cases:
  obtains (refused) "withdraw_request wc e rid q x = x"
  | (carried) m where "GetRoomMessageByRidSeqId rid q (chat_db (snd x)) = Some m"
      "may_withdraw e (mh_uid (fst x)) rid m (snd x)"
      "chat_db (snd (withdraw_request wc e rid q x)) = withdraw_rows wc e (mh_uid (fst x)) rid q m (chat_db (snd x))"
proof (cases "GetRoomMessageByRidSeqId rid q (chat_db (snd x))")
  case None
  then show ?thesis by (intro refused) (simp add: withdraw_request_def Let_def)
next
  case (Some m)
  show ?thesis
  proof (cases "withdraw_request wc e rid q x = x")
    case False
    then show ?thesis
      by (intro carried [OF Some]) (auto simp: withdraw_request_def Let_def Some split: if_splits)
  qed (rule refused)
qed

text \<open>
  C33. Who may withdraw, and what it does: a request changes nothing unless the message
  exists, is not withdrawn yet, and either is the user's own and at most five minutes old
  or the user is an administrator or the owner among the room's members. If it does, the
  message is withdrawn, the notice of the withdrawal is its only content, other messages
  and contents are untouched, and no later request of anybody changes anything. An
  entitled request whose stores do not fail is carried out.
\<close>

theorem withdraw_authority:
  fixes x :: "'a chat" and wc e rid q
  assumes "0 < re_now (ce_room e)"
  defines "y \<equiv> withdraw_request wc e rid q x" and "uid \<equiv> mh_uid (fst x)"
  shows "(y \<noteq> x \<longrightarrow> (\<exists>m. GetRoomMessageByRidSeqId rid q (chat_db (snd x)) = Some m \<and> rm_WithdrawTime m \<le> 0 \<and>
      (rm_SenderUid m = uid \<and> re_now (ce_room e) - rm_CreateTime m \<le> 5 * 60 * 1000 \<or>
       (\<exists>u \<in> set (room_users (snd x)). active_user rid uid u \<and> ru_Role u \<in> {RoomUserRoleAdmin, RoomUserRoleOwner})) \<and>
      withdrawn_rows_ok e uid rid q m (chat_db (snd x)) (chat_db (snd y)) \<and>
      (\<forall>e' h'. withdraw_request wc e' rid q (h', snd y) = (h', snd y)))) \<and>
    (\<forall>m. GetRoomMessageByRidSeqId rid q (chat_db (snd x)) = Some m \<longrightarrow> may_withdraw e uid rid m (snd x) \<longrightarrow>
       (\<forall>c. \<not> re_fails (ce_room e) c) \<longrightarrow> content_indexes (contents (withdraw_rows wc e uid rid q m (chat_db (snd x)))) \<longrightarrow>
       withdrawn rid q (chat_db (snd y)))"
proof (intro conjI impI allI)
  assume changed: "y \<noteq> x"
  show "\<exists>m. GetRoomMessageByRidSeqId rid q (chat_db (snd x)) = Some m \<and> rm_WithdrawTime m \<le> 0 \<and>
      (rm_SenderUid m = uid \<and> re_now (ce_room e) - rm_CreateTime m \<le> 5 * 60 * 1000 \<or>
       (\<exists>u \<in> set (room_users (snd x)). active_user rid uid u \<and> ru_Role u \<in> {RoomUserRoleAdmin, RoomUserRoleOwner})) \<and>
      withdrawn_rows_ok e uid rid q m (chat_db (snd x)) (chat_db (snd y)) \<and>
      (\<forall>e' h'. withdraw_request wc e' rid q (h', snd y) = (h', snd y))"
  proof (cases wc e rid q x rule: withdraw_request_cases)
    case (carried m)
    have db: "chat_db (snd y) = withdraw_rows wc e uid rid q m (chat_db (snd x))"
      using carried(3) by (simp add: y_def uid_def)
    then have "withdrawn rid q (chat_db (snd y))" using withdraw_rows_withdrawn [OF carried(1) assms(1)] by simp
    moreover have "rm_WithdrawTime m \<le> 0 \<and> (rm_SenderUid m = uid \<and> re_now (ce_room e) - rm_CreateTime m \<le> 5 * 60 * 1000 \<or>
       (\<exists>u \<in> set (room_users (snd x)). active_user rid uid u \<and> ru_Role u \<in> {RoomUserRoleAdmin, RoomUserRoleOwner}))"
      using carried(2) by (auto simp: may_withdraw_def uid_def GetRoomUser_def find_Some_iff withdraw_limit_def
        split: if_splits option.splits sum.splits)
    ultimately show ?thesis
      using carried(1) withdraw_rows_ok [OF carried(1) assms(1)]
      by (intro exI [of _ m]) (auto simp: db withdrawn_final)
  qed (use changed in \<open>simp add: y_def\<close>)
next
  fix m
  assume m: "GetRoomMessageByRidSeqId rid q (chat_db (snd x)) = Some m" "may_withdraw e uid rid m (snd x)"
    and "\<forall>c. \<not> re_fails (ce_room e) c"
    and "content_indexes (contents (withdraw_rows wc e uid rid q m (chat_db (snd x))))"
  then have "chat_db (snd y) = withdraw_rows wc e uid rid q m (chat_db (snd x))"
    by (simp add: y_def withdraw_request_def Let_def uid_def)
  then show "withdrawn rid q (chat_db (snd y))" using withdraw_rows_withdrawn [OF m(1) assms(1)] by simp
qed


section \<open>Concrete conversations\<close>

definition demo_handler :: "uid \<Rightarrow> message_handler" where
  "demo_handler uid = \<lparr>mh_uid = uid, mh_sid = ''s'', mh_ip = ''ip'', mh_lastIncoming = 0, mh_outgoing = 0,
     mh_noticeSent = False, mh_noticeExpires = 0, mh_timer = None, mh_notices = [], mh_spawned = [], mh_out = [],
     mh_closed = False, mh_done = False\<rparr>"

definition demo_chat_env :: "time \<Rightarrow> mid \<Rightarrow> chat_env" where
  "demo_chat_env now mid = \<lparr>ce_room = calm_room_env now, ce_send = (\<lambda>_. False), ce_seq = (\<lambda>_. False), ce_mid = mid,
     ce_cids = (\<lambda>i. mid @ replicate (Suc i) CHR ''c'')\<rparr>"

definition demo_text :: "string \<Rightarrow> string \<Rightarrow> client_message" where
  "demo_text clientMid clientCid = \<lparr>cm_Rid = ''r'', cm_CreateTime = 5, cm_ClientMid = clientMid,
     cm_Contents = [\<lparr>cc_ClientCid = clientCid, cc_Type = ''text'', cc_TypeId = [], cc_Content = ''hello''\<rparr>]\<rparr>"

text \<open>A group with an owner, an administrator and a member.\<close>

definition demo_group :: chat_store where
  "demo_group = \<lparr>rooms = [demo_room ''r'' 1 ''o'' 3],
     room_users = [demo_room_user ''r'' ''o'' 2, demo_room_user ''r'' ''a'' 1, demo_room_user ''r'' ''u'' 0],
     room_ids_cache = (\<lambda>_. None), mute_configs = [], freq_version = (\<lambda>_. None), freq_count = (\<lambda>_. None),
     user_sessions = [], user_friends = [], chat_db = empty_db, seq_keys_of = (\<lambda>_. None), last_msg_cache = (\<lambda>_. None),
     pending_updates = (\<lambda>_. None), update_acks = (\<lambda>_. None), dedupe_locks = {}, published = []\<rparr>"

definition demo_sent :: "message_handler \<times> chat_store" where
  "demo_sent = handle_room_message (demo_chat_env 1000 ''m1'') (demo_text ''c1'' ''k1'') (demo_handler ''u'', demo_group)"

definition demo_message_of :: "chat_store \<Rightarrow> (mid \<times> int \<times> uid) list" where
  "demo_message_of s = map (\<lambda>m. (rm_Mid m, rm_SeqId m, rm_SenderUid m)) (messages (chat_db s))"


theorem message_log_append_only_witness:
  "message_indexes (messages (chat_db (chat_exec (\<lambda>_ _ _. []) (\<lparr>co_message = (\<lambda>_. None), co_ack = (\<lambda>_. None),
      co_update = (\<lambda>_. None), co_update_ack = (\<lambda>_. None), co_withdraw = (\<lambda>_. None)\<rparr>)
     [(demo_chat_env 1 ''m1'', demo_handler ''u'', SendTransaction (demo_text ''c1'' ''k1'') 1),
      (demo_chat_env 2 ''m2'', demo_handler ''a'', SendTransaction (demo_text ''c1'' ''k1'') 1)] demo_group)))"
  by (rule message_log_append_only [THEN conjunct1]) (simp add: demo_group_def empty_db_def message_indexes_def)

theorem withdraw_authority_witness:
  "(let y = withdraw_request (\<lambda>_ _ _. ''w'') (demo_chat_env 2000000 ''w1'') ''r'' 1 (demo_handler ''a'', snd demo_sent)
    in withdrawn ''r'' 1 (chat_db (snd y))) \<and>
   snd (withdraw_request (\<lambda>_ _ _. ''w'') (demo_chat_env 2000000 ''w1'') ''r'' 1 (demo_handler ''u'', snd demo_sent)) = snd demo_sent"
proof -
  let ?m = "hd (messages (chat_db (snd demo_sent)))" and ?e = "demo_chat_env 2000000 ''w1''" and ?wc = "\<lambda>_ _ _. ''w''"
  let ?x = "\<lambda>u. (demo_handler u, snd demo_sent)"
  have "let s = snd demo_sent; m = hd (messages (chat_db s)) in
      GetRoomMessageByRidSeqId ''r'' 1 (chat_db s) = Some m \<and> may_withdraw ?e ''a'' ''r'' m s \<and> \<not> may_withdraw ?e ''u'' ''r'' m s"
    by code_simp
  then have found: "GetRoomMessageByRidSeqId ''r'' 1 (chat_db (snd demo_sent)) = Some ?m"
    and a: "may_withdraw ?e ''a'' ''r'' ?m (snd demo_sent)" and u: "\<not> may_withdraw ?e ''u'' ''r'' ?m (snd demo_sent)"
    unfolding Let_def by blast+
  have ix: "content_indexes (contents (withdraw_rows ?wc ?e ''a'' ''r'' 1 ?m (chat_db (snd demo_sent))))" by code_simp
  have now: "0 < re_now (ce_room ?e)" by (simp add: demo_chat_env_def calm_room_env_def)
  have calm: "\<not> re_fails (ce_room ?e) c" for c by (simp add: demo_chat_env_def calm_room_env_def)
  have uid: "mh_uid (demo_handler u) = u" for u by (simp add: demo_handler_def)
  have "withdrawn ''r'' 1 (chat_db (snd (withdraw_request ?wc ?e ''r'' 1 (?x ''a''))))"
    using withdraw_authority [OF now, of ?wc "''r''" 1 "?x ''a''"] found a ix calm by (simp add: uid)
  moreover have "withdraw_request ?wc ?e ''r'' 1 (?x ''u'') = ?x ''u''"
    using u by (simp add: withdraw_request_def Let_def found uid)
  ultimately show ?thesis by simp
qed

text \<open>
  Being a member is never asked for: a member who is muted is refused, but once removed
  from the room sends to it again, for the mute went with the membership and nothing else
  looks at it; the message is stored and announced to the room.
\<close>

theorem removed_member_sends_on:
  "let muted = snd (MuteUserInRoom (calm_room_env 1000) ''r'' ''u'' ''a'' 3600 demo_group);
       removed = snd (RemoveRoomUser (calm_room_env 1500) ''r'' ''u'' muted);
       send = (\<lambda>s. handle_room_message (demo_chat_env 2000 ''m1'') (demo_text ''c1'' ''k1'') (demo_handler ''u'', s))
   in mh_out (fst (send muted)) = [(1, SmRoomMessageSendError ''r'' ''c1'' ''MUTED'')] \<and>
      demo_message_of (snd (send muted)) = [] \<and>
      (case GetRoomUser (calm_room_env 2000) ''r'' ''u'' removed of Inl err \<Rightarrow> err = RoomNotFound | Inr _ \<Rightarrow> False) \<and>
      demo_message_of (snd (send removed)) = [(''m1'', 1, ''u'')] \<and>
      published (snd (send removed)) = [EventRoomMessage ''m1'']"
  by code_simp

text \<open>
  A file update that waits for its message is not bound to its sender: the key is the
  identifier of the content alone, so an update for a message that never comes, sent by
  another user, is applied to the next message that has a content with that identifier,
  and replaces what its sender wrote.
\<close>

theorem waiting_update_hits_other_sender:
  "let codec = \<lparr>co_message = (\<lambda>_. None), co_ack = (\<lambda>_. None),
         co_update = (\<lambda>_. Some \<lparr>fu_Rid = ''r9'', fu_ClientMid = ''none'', fu_ClientCid = ''k1'', fu_UfId = ''f'', fu_Content = ''forged''\<rparr>),
         co_update_ack = (\<lambda>_. None), co_withdraw = (\<lambda>_. None)\<rparr>;
       waiting = snd (handlerMessage (\<lambda>_ _ _. []) (demo_chat_env 900 ''x1'') codec 6 [] (demo_handler ''z'', demo_group));
       sent = snd (handle_room_message (demo_chat_env 1000 ''m1'') (demo_text ''c1'' ''k1'') (demo_handler ''u'', waiting))
   in demo_message_of sent = [(''m1'', 1, ''u'')] \<and> map ct_Content (contents (chat_db sent)) = [''forged'']"
  by code_simp

end
