(* ===== verification/Fanout.thy ===== *)
theory Fanout
  imports ChatMessages
begin

text \<open>
  From an event to the clients: who is to receive a message (\<open>notifycoord\<close>), on which nodes
  they are (\<open>push/presence.go\<close>), what is published to the nodes (\<open>push/send.go\<close>,
  \<open>fanout.go\<close>, \<open>publish.go\<close>), how a node dispatches it (\<open>notify/dispatch.go\<close>) and delivers
  it to its connections (\<open>quic/server/event.go\<close>, \<open>notification.go\<close>), with the checks it
  leaves in the task queue. JSON, Redis publish and subscribe, and the query of friend
  groups are parameters. A Go map is walked in an order of the runtime's choice; the model
  walks it in the order of insertion, and the theorems do not depend on the order.
\<close>

section \<open>The cluster\<close>

datatype notify_message =
    RoomMessageNotify mid | RoomMessageNotifyIncludeUids mid "uid list" | RoomMessageNotifyExcludeUids mid "uid list"
  | RoomMessageWithdrawNotify mid | NotificationNotify string
  | RoomUserRoomNicknameNotify rid uid string "uid list" | RoomUserIdsNotify rid "uid list" "uid list"
  | RoomDissolvedNotify rid int "uid list" | RoomAvatarNotify rid string "uid list"
  | UserProfileNotify uid "uid list" | UserStatusSyncNotify uid "uid list"
  | StreamCallInviteNotify string "uid list" | StreamCallJoinNotify string uid
  | StreamCallEndNotify string "uid list" | StreamCallSyncNotify string int "uid list"
  | RoomMessageDeliver mid "uid list" | RoomMessageWithdrawDeliver mid "uid list"
  | FileStatusUpdateDeliver mid string "uid list"
  | DelegatedRoomResend uid server_room_message

record ack_check =
  ac_Rid :: rid
  ac_Uid :: uid
  ac_Mid :: mid
  ac_SeqId :: int
  ac_RetryCount :: int

record file_check =
  fc_Rid :: rid
  fc_Uid :: uid
  fc_ClientCid :: string
  fc_ClientMid :: string
  fc_Mid :: mid
  fc_Cid :: string
  fc_RetryCount :: int

datatype task =
    TaskRoomMessageAckCheck ack_check | TaskRoomMessageWithdrawAckCheck ack_check
  | TaskFileStatusUpdateAckCheck file_check
  | TaskRoomMessageResend uid server_room_message | TaskRoomMessageWithdrawResend uid server_room_message

text \<open>
  Presence in Redis, the connections of each node, the channels of the nodes (oldest
  message first), what the clients were sent, and the main queue of tasks.
\<close>

record cluster =
  presence :: "uid \<rightharpoonup> node"
  live :: "node \<Rightarrow> uid \<Rightarrow> bool"
  channel :: "(node \<times> notify_message) list"
  delivered :: "(node \<times> uid \<times> server_message) list"
  main_queue :: "task list"

text \<open>
  What one activity sees: failing calls, the user named in the JSON of an at-user content
  (empty when there is none), the owner of a notification, and a user's friends with their
  online mark (\<open>None\<close> when the query fails).
\<close>

record fan_env =
  fe_room :: room_env
  fe_db :: "message_call \<Rightarrow> bool"
  fe_presence_fails :: "uid \<Rightarrow> bool"
  fe_publish_fails :: "node \<Rightarrow> bool"
  fe_send_fails :: "uid \<Rightarrow> bool"
  fe_task_fails :: bool
  fe_at_user :: "string \<Rightarrow> uid"
  fe_notification :: "string \<Rightarrow> uid option"
  fe_friend_list :: "uid \<Rightarrow> (uid \<times> bool option) list option"
  fe_status_fails :: bool

section \<open>Presence\<close>

definition NodeForUser :: "fan_env \<Rightarrow> uid \<Rightarrow> cluster \<Rightarrow> unit + node" where
  "NodeForUser e uid c =
     (if uid = [] then Inr []
      else if fe_presence_fails e uid then Inl ()
      else case presence c uid of None \<Rightarrow> Inl () | Some n \<Rightarrow> Inr n)"

definition node_of :: "fan_env \<Rightarrow> cluster \<Rightarrow> uid \<Rightarrow> node" where
  "node_of e c uid = (case NodeForUser e uid c of Inl _ \<Rightarrow> [] | Inr n \<Rightarrow> n)"

definition GroupUidsByNode :: "fan_env \<Rightarrow> uid list \<Rightarrow> cluster \<Rightarrow> (node \<times> uid list) list" where
  "GroupUidsByNode e uids c =
     (let found = filter (\<lambda>u. node_of e c u \<noteq> []) (dedup_seen {[]} uids)
      in map (\<lambda>n. (n, filter (\<lambda>u. node_of e c u = n) found)) (dedup_seen {} (map (node_of e c) found)))"

section \<open>Recipients\<close>

definition filterRoomRecipients :: "uid list \<Rightarrow> uid list \<Rightarrow> uid list \<Rightarrow> uid list" where
  "filterRoomRecipients roomUserIds incl excl =
     (let includeSet = set incl - {[]}; excludeSet = set excl - {[]} in
      filter (\<lambda>uid. uid \<noteq> [] \<and> uid \<notin> excludeSet \<and> (includeSet \<noteq> {} \<longrightarrow> uid \<in> includeSet)) roomUserIds)"

text \<open>The contents up to the first at-all; the users named before it, in order.\<close>

fun mentioned :: "fan_env \<Rightarrow> content list \<Rightarrow> uid list \<times> bool" where
  "mentioned e [] = ([], False)"
| "mentioned e (c # cs) =
     (if ct_Type c = ''user:at:all'' then ([], True)
      else let (ms, all) = mentioned e cs
        in (if ct_Type c = ''user:at:user'' \<and> fe_at_user e (ct_Content c) \<noteq> []
            then fe_at_user e (ct_Content c) # ms else ms, all))"

definition ParseAndCreateMentions ::
  "fan_env \<Rightarrow> server_room_message \<Rightarrow> 'a session_store_scheme \<Rightarrow> 'a session_store_scheme" where
  "ParseAndCreateMentions e rcm s =
     (let (ms, isAtAll) = mentioned e (sm_Contents rcm) in
      if isAtAll \<or> ms \<noteq> [] then
        (let (members, s1) = (if isAtAll then GetRoomUserIdsCache (fe_room e) (sm_Rid rcm) s else (Inl RedisNil, s))
         in s1\<lparr>chat_db := snd (CreateRoomMessageMentions (fe_db e) (\<lambda>_. case members of Inl _ \<Rightarrow> None | Inr us \<Rightarrow> Some us)
              (sm_Rid rcm) (sm_Mid rcm) (sm_SeqId rcm) (sm_SenderUid rcm) ms isAtAll (chat_db s1))\<rparr>)
      else s)"

text \<open>The cached members of the room, read again from the database when the list is empty.\<close>

definition members_to_notify ::
  "fan_env \<Rightarrow> rid \<Rightarrow> 'a session_store_scheme \<Rightarrow> (room_error + uid list) \<times> 'a session_store_scheme" where
  "members_to_notify e rid s =
     (case GetRoomUserIdsCache (fe_room e) rid s of
        (Inr [], s1) \<Rightarrow>
          let s2 = SetRoomUserIdsCache (fe_room e) rid s1 in
          (case GetRoomUserIdsCache (fe_room e) rid s2 of (Inl _, s3) \<Rightarrow> (Inr [], s3) | r \<Rightarrow> r)
      | r \<Rightarrow> r)"

definition message_recipients :: "fan_env \<Rightarrow> server_room_message \<Rightarrow> uid list \<Rightarrow> uid list \<Rightarrow> uid list \<Rightarrow> message_db \<Rightarrow> uid list" where
  "message_recipients e rcm roomUserIds incl excl db =
     (let blocked = (if fe_db e RoomBlockers then [] else GetUidsWhoBlockedRoom (sm_Rid rcm) db);
          excl1 = excl @ blocked @ (if sm_SenderUid rcm \<noteq> [] then [sm_SenderUid rcm] else []);
          recipients = filterRoomRecipients roomUserIds incl excl1;
          blockSender = (if fe_db e SenderBlockers then [] else GetUidsWhoBlockedUserInRoom (sm_Rid rcm) (sm_SenderUid rcm) db)
      in filter (\<lambda>u. u \<notin> set blockSender) recipients)"

definition new_ack :: "fan_env \<Rightarrow> cluster \<Rightarrow> server_room_message \<Rightarrow> uid \<Rightarrow> message_ack" where
  "new_ack e c rcm uid =
     \<lparr>ack_State = 0, ack_ConfirmedTime = 0, ack_LastTryTime = 0, ack_RetryCount = 0, ack_Rid = sm_Rid rcm,
      ack_SeqId = sm_SeqId rcm, ack_Uid = uid, ack_Mid = sm_Mid rcm,
      ack_IsOffline = (fe_presence_fails e uid \<or> presence c uid = None), ack_DeleteTime = 0\<rparr>"

text \<open>The unique index on user and message; one violation rolls all rows back.\<close>

definition acks_insert :: "message_ack list \<Rightarrow> message_ack list \<Rightarrow> message_ack list option" where
  "acks_insert rows as =
     (if distinct (map (\<lambda>a. (ack_Uid a, ack_Mid a)) (as @ rows)) then Some (as @ rows) else None)"

definition PrepareRoomMessageNotify ::
  "fan_env \<Rightarrow> mid \<Rightarrow> uid list \<Rightarrow> uid list \<Rightarrow> cluster \<Rightarrow> 'a session_store_scheme
   \<Rightarrow> (unit + uid list) \<times> 'a session_store_scheme" where
  "PrepareRoomMessageNotify e mid incl excl c s =
     (case (if mid = [] \<or> re_fails (fe_room e) FindContent then None else GetRoomMessageByMid mid (chat_db s)) of
        None \<Rightarrow> (Inr [], s)
      | Some rcm \<Rightarrow>
          (case members_to_notify e (sm_Rid rcm) s of
             (Inl _, s1) \<Rightarrow> (Inl (), s1)
           | (Inr [], s1) \<Rightarrow> (Inr [], s1)
           | (Inr roomUserIds, s1) \<Rightarrow>
               let recipients = message_recipients e rcm roomUserIds incl excl (chat_db s1) in
               if recipients = [] then (Inr [], s1)
               else (case (if fe_db e InsertAcks then None
                           else acks_insert (map (new_ack e c rcm) recipients) (acks (chat_db s1))) of
                  None \<Rightarrow> (Inl (), s1)
                | Some as \<Rightarrow>
                    (Inr recipients, ParseAndCreateMentions e rcm (s1\<lparr>chat_db := (chat_db s1)\<lparr>acks := as\<rparr>\<rparr>)))))"

definition new_withdraw_ack :: "server_room_message \<Rightarrow> uid \<Rightarrow> message_ack" where
  "new_withdraw_ack rcm uid =
     \<lparr>ack_State = 0, ack_ConfirmedTime = 0, ack_LastTryTime = 0, ack_RetryCount = 0, ack_Rid = sm_Rid rcm,
      ack_SeqId = sm_SeqId rcm, ack_Uid = uid, ack_Mid = sm_Mid rcm, ack_IsOffline = False, ack_DeleteTime = 0\<rparr>"

definition PrepareRoomMessageWithdraw ::
  "fan_env \<Rightarrow> mid \<Rightarrow> 'a session_store_scheme \<Rightarrow> (unit + uid list) \<times> 'a session_store_scheme" where
  "PrepareRoomMessageWithdraw e mid s =
     (case (if mid = [] \<or> re_fails (fe_room e) FindContent then None else GetRoomMessageByMidIncludeWithdraw mid (chat_db s)) of
        None \<Rightarrow> (Inr [], s)
      | Some rcm \<Rightarrow>
          (case GetRoomUserIdsCache (fe_room e) (sm_Rid rcm) s of
             (Inl _, s1) \<Rightarrow> (Inl (), s1)
           | (Inr roomUserIds, s1) \<Rightarrow>
               if roomUserIds = [] then (Inr [], s1)
               else (case (if fe_db e InsertWithdrawAcks then None
                           else acks_insert (map (new_withdraw_ack rcm) roomUserIds) (withdraw_acks (chat_db s1))) of
                  None \<Rightarrow> (Inl (), s1)
                | Some as \<Rightarrow> (Inr roomUserIds, s1\<lparr>chat_db := (chat_db s1)\<lparr>withdraw_acks := as\<rparr>\<rparr>))))"

definition FriendStatusSyncRecipientUids :: "fan_env \<Rightarrow> uid \<Rightarrow> unit + uid list" where
  "FriendStatusSyncRecipientUids e subjectUid =
     (if subjectUid = [] then Inr []
      else case fe_friend_list e subjectUid of
        None \<Rightarrow> Inl ()
      | Some friends \<Rightarrow>
          Inr (subjectUid # dedup_seen {subjectUid} (map fst (filter (\<lambda>(_, online). online = Some True) friends))))"

section \<open>Publishing\<close>

definition PublishMessage :: "fan_env \<Rightarrow> node \<Rightarrow> notify_message \<Rightarrow> cluster \<Rightarrow> (unit + unit) \<times> cluster" where
  "PublishMessage e nodeID msg c =
     (if nodeID = [] then (Inr (), c)
      else if fe_publish_fails e nodeID then (Inl (), c)
      else (Inr (), c\<lparr>channel := channel c @ [(nodeID, msg)]\<rparr>))"

definition PublishDelegatedRoomResend :: "fan_env \<Rightarrow> node \<Rightarrow> uid \<Rightarrow> server_room_message \<Rightarrow> cluster \<Rightarrow> (unit + unit) \<times> cluster" where
  "PublishDelegatedRoomResend e targetNode uid m c =
     (if targetNode = [] \<or> uid = [] then (Inr (), c) else PublishMessage e targetNode (DelegatedRoomResend uid m) c)"

text \<open>One message per node; the first failure ends the loop.\<close>

fun publish_groups ::
  "fan_env \<Rightarrow> (uid list \<Rightarrow> notify_message) \<Rightarrow> (node \<times> uid list) list \<Rightarrow> cluster \<Rightarrow> (unit + unit) \<times> cluster" where
  "publish_groups e msg [] c = (Inr (), c)"
| "publish_groups e msg ((nodeID, uids) # gs) c =
     (case PublishMessage e nodeID (msg uids) c of
        (Inl _, c1) \<Rightarrow> (Inl (), c1) | (Inr _, c1) \<Rightarrow> publish_groups e msg gs c1)"

definition FanoutRoomMessageDelivery :: "fan_env \<Rightarrow> mid \<Rightarrow> uid list \<Rightarrow> cluster \<Rightarrow> (unit + unit) \<times> cluster" where
  "FanoutRoomMessageDelivery e mid uids c =
     (if mid = [] then (Inr (), c) else publish_groups e (RoomMessageDeliver mid) (GroupUidsByNode e uids c) c)"

definition FanoutRoomWithdrawDelivery :: "fan_env \<Rightarrow> mid \<Rightarrow> uid list \<Rightarrow> cluster \<Rightarrow> (unit + unit) \<times> cluster" where
  "FanoutRoomWithdrawDelivery e mid uids c =
     (if mid = [] then (Inr (), c) else publish_groups e (RoomMessageWithdrawDeliver mid) (GroupUidsByNode e uids c) c)"

definition notify_and_fan_out ::
  "fan_env \<Rightarrow> mid \<Rightarrow> uid list \<Rightarrow> uid list \<Rightarrow> 'a session_store_scheme \<times> cluster
   \<Rightarrow> (unit + unit) \<times> 'a session_store_scheme \<times> cluster" where
  "notify_and_fan_out e mid incl excl w =
     (case PrepareRoomMessageNotify e mid incl excl (snd w) (fst w) of
        (Inl _, s1) \<Rightarrow> (Inl (), s1, snd w)
      | (Inr rec, s1) \<Rightarrow> (case FanoutRoomMessageDelivery e mid rec (snd w) of (r, c1) \<Rightarrow> (r, s1, c1)))"

definition withdraw_and_fan_out ::
  "fan_env \<Rightarrow> mid \<Rightarrow> 'a session_store_scheme \<times> cluster \<Rightarrow> (unit + unit) \<times> 'a session_store_scheme \<times> cluster" where
  "withdraw_and_fan_out e mid w =
     (case PrepareRoomMessageWithdraw e mid (fst w) of
        (Inl _, s1) \<Rightarrow> (Inl (), s1, snd w)
      | (Inr uids, s1) \<Rightarrow> (case FanoutRoomWithdrawDelivery e mid uids (snd w) of (r, c1) \<Rightarrow> (r, s1, c1)))"

text \<open>To every user of a list, by node; an error of the list ends it quietly.\<close>

definition send_to_users ::
  "fan_env \<Rightarrow> (room_error + uid list) \<times> 'a session_store_scheme \<Rightarrow> (uid list \<Rightarrow> uid list \<Rightarrow> notify_message) \<Rightarrow> cluster
   \<Rightarrow> (unit + unit) \<times> 'a session_store_scheme \<times> cluster" where
  "send_to_users e found msg c =
     (case found of
        (Inl _, s1) \<Rightarrow> (Inr (), s1, c)
      | (Inr uids, s1) \<Rightarrow>
          if uids = [] then (Inr (), s1, c)
          else (case publish_groups e (msg uids) (GroupUidsByNode e uids c) c of (r, c1) \<Rightarrow> (r, s1, c1)))"

definition send_to_node :: "fan_env \<Rightarrow> uid \<Rightarrow> notify_message \<Rightarrow> cluster \<Rightarrow> (unit + unit) \<times> cluster" where
  "send_to_node e uid msg c =
     (case NodeForUser e uid c of Inl _ \<Rightarrow> (Inr (), c) | Inr n \<Rightarrow> if n = [] then (Inr (), c) else PublishMessage e n msg c)"

fun Send :: "fan_env \<Rightarrow> notify_message \<Rightarrow> 'a session_store_scheme \<times> cluster \<Rightarrow> (unit + unit) \<times> 'a session_store_scheme \<times> cluster" where
  "Send e (RoomMessageNotify mid) w = notify_and_fan_out e mid [] [] w"
| "Send e (RoomMessageNotifyIncludeUids mid uidList) w = notify_and_fan_out e mid uidList [] w"
| "Send e (RoomMessageNotifyExcludeUids mid uidList) w = notify_and_fan_out e mid [] uidList w"
| "Send e (RoomMessageWithdrawNotify mid) w = withdraw_and_fan_out e mid w"
| "Send e (NotificationNotify nid) w =
     (case fe_notification e nid of
        None \<Rightarrow> (Inr (), w)
      | Some uid \<Rightarrow> apsnd (Pair (fst w)) (send_to_node e uid (NotificationNotify nid) (snd w)))"
| "Send e (RoomUserRoomNicknameNotify rid uid nick targets) w =
     send_to_users e (GetRoomUserIdsCache (fe_room e) rid (fst w)) (\<lambda>_. RoomUserRoomNicknameNotify rid uid nick) (snd w)"
| "Send e (RoomUserIdsNotify rid userIds targets) w =
     send_to_users e (GetRoomUserIdsCache (fe_room e) rid (fst w))
       (\<lambda>uids. RoomUserIdsNotify rid (if userIds = [] then uids else userIds)) (snd w)"
| "Send e (RoomDissolvedNotify rid st targets) w =
     send_to_users e (GetRoomUserIdsCache (fe_room e) rid (fst w)) (\<lambda>_. RoomDissolvedNotify rid st) (snd w)"
| "Send e (RoomAvatarNotify rid avatar targets) w =
     send_to_users e (GetRoomUserIdsCache (fe_room e) rid (fst w)) (\<lambda>_. RoomAvatarNotify rid avatar) (snd w)"
| "Send e (UserProfileNotify uid targets) w =
     send_to_users e (GetUidsSharingRoomWith (fe_room e) uid (fst w)) (\<lambda>_. UserProfileNotify uid) (snd w)"
| "Send e (UserStatusSyncNotify uid targets) w =
     (case FriendStatusSyncRecipientUids e uid of
        Inl _ \<Rightarrow> (Inl (), w)
      | Inr uids \<Rightarrow> apsnd (Pair (fst w)) (publish_groups e (UserStatusSyncNotify uid) (GroupUidsByNode e uids (snd w)) (snd w)))"
| "Send e (StreamCallInviteNotify callId invitees) w =
     apsnd (Pair (fst w)) (publish_groups e (StreamCallInviteNotify callId) (GroupUidsByNode e invitees (snd w)) (snd w))"
| "Send e (StreamCallJoinNotify callId target) w =
     apsnd (Pair (fst w)) (send_to_node e target (StreamCallJoinNotify callId target) (snd w))"
| "Send e (StreamCallEndNotify callId targets) w =
     apsnd (Pair (fst w)) (publish_groups e (StreamCallEndNotify callId) (GroupUidsByNode e targets (snd w)) (snd w))"
| "Send e (StreamCallSyncNotify callId active targets) w =
     apsnd (Pair (fst w)) (publish_groups e (StreamCallSyncNotify callId active) (GroupUidsByNode e targets (snd w)) (snd w))"
| "Send e _ w = (Inr (), w)"

section \<open>On a node\<close>

definition client_send :: "fan_env \<Rightarrow> node \<Rightarrow> server_message \<Rightarrow> uid \<Rightarrow> cluster \<Rightarrow> bool \<times> cluster" where
  "client_send e n msg uid c =
     (if \<not> live c n uid \<or> fe_send_fails e uid then (False, c)
      else (True, c\<lparr>delivered := delivered c @ [(n, uid, msg)]\<rparr>))"

definition put_task :: "fan_env \<Rightarrow> task \<Rightarrow> cluster \<Rightarrow> cluster" where
  "put_task e t c = (if fe_task_fails e then c else c\<lparr>main_queue := main_queue c @ [t]\<rparr>)"

text \<open>To each connected target, leaving a check of its confirmation; failures skip the target.\<close>

fun deliver_each :: "fan_env \<Rightarrow> node \<Rightarrow> server_message \<Rightarrow> (uid \<Rightarrow> task) \<Rightarrow> uid list \<Rightarrow> cluster \<Rightarrow> cluster" where
  "deliver_each e n msg check [] c = c"
| "deliver_each e n msg check (uid # uids) c =
     (case client_send e n msg uid c of
        (False, c1) \<Rightarrow> deliver_each e n msg check uids c1
      | (True, c1) \<Rightarrow> deliver_each e n msg check uids (put_task e (check uid) c1))"

fun send_each :: "fan_env \<Rightarrow> node \<Rightarrow> server_message \<Rightarrow> uid list \<Rightarrow> cluster \<Rightarrow> cluster" where
  "send_each e n msg [] c = c"
| "send_each e n msg (uid # uids) c = send_each e n msg uids (snd (client_send e n msg uid c))"

definition ack_check_of :: "server_room_message \<Rightarrow> uid \<Rightarrow> ack_check" where
  "ack_check_of rcm uid = \<lparr>ac_Rid = sm_Rid rcm, ac_Uid = uid, ac_Mid = sm_Mid rcm, ac_SeqId = sm_SeqId rcm, ac_RetryCount = 0\<rparr>"

definition HandleRoomMessageDeliver ::
  "fan_env \<Rightarrow> node \<Rightarrow> mid \<Rightarrow> uid list \<Rightarrow> 'a session_store_scheme \<Rightarrow> cluster \<Rightarrow> cluster" where
  "HandleRoomMessageDeliver e n mid targetUids s c =
     (case (if mid = [] \<or> re_fails (fe_room e) FindContent then None else GetRoomMessageByMid mid (chat_db s)) of
        None \<Rightarrow> c
      | Some rcm \<Rightarrow> deliver_each e n (SmRoomMessage rcm) (\<lambda>u. TaskRoomMessageAckCheck (ack_check_of rcm u))
          (dedup_seen {[]} targetUids) c)"

definition HandleRoomMessageWithdrawDeliver ::
  "fan_env \<Rightarrow> node \<Rightarrow> mid \<Rightarrow> uid list \<Rightarrow> 'a session_store_scheme \<Rightarrow> cluster \<Rightarrow> cluster" where
  "HandleRoomMessageWithdrawDeliver e n mid targetUids s c =
     (case (if mid = [] \<or> re_fails (fe_room e) FindContent then None else GetRoomMessageByMidIncludeWithdraw mid (chat_db s)) of
        None \<Rightarrow> c
      | Some rcm \<Rightarrow> deliver_each e n (SmRoomMessageWithdraw rcm) (\<lambda>u. TaskRoomMessageWithdrawAckCheck (ack_check_of rcm u))
          (filter (\<lambda>u. u \<noteq> []) targetUids) c)"

definition deliverFileStatusUpdateToTargets ::
  "fan_env \<Rightarrow> node \<Rightarrow> mid \<Rightarrow> string \<Rightarrow> uid list \<Rightarrow> 'a session_store_scheme \<Rightarrow> cluster \<Rightarrow> cluster" where
  "deliverFileStatusUpdateToTargets e n mid cid targetUids s c =
     (case (GetRoomMessageContentByMidAndCid mid cid (chat_db s), GetRoomMessageByMid mid (chat_db s)) of
        (Some rmc, Some rm) \<Rightarrow>
          if re_fails (fe_room e) FindContent then c
          else deliver_each e n (SmFileStatusUpdate (ct_ClientCid rmc) (ct_TypeId rmc) (ct_Content rmc))
            (\<lambda>u. TaskFileStatusUpdateAckCheck \<lparr>fc_Rid = sm_Rid rm, fc_Uid = u, fc_ClientCid = ct_ClientCid rmc,
               fc_ClientMid = sm_ClientMid rm, fc_Mid = sm_Mid rm, fc_Cid = ct_Cid rmc, fc_RetryCount = 0\<rparr>) targetUids c
      | _ \<Rightarrow> c)"

definition HandleFileStatusUpdateDeliver ::
  "fan_env \<Rightarrow> node \<Rightarrow> mid \<Rightarrow> string \<Rightarrow> uid list \<Rightarrow> 'a session_store_scheme \<Rightarrow> cluster \<Rightarrow> cluster" where
  "HandleFileStatusUpdateDeliver e n mid cid targetUids s c =
     (if mid = [] \<or> cid = [] \<or> targetUids = [] then c else deliverFileStatusUpdateToTargets e n mid cid targetUids s c)"

definition handleNotificationNotifyInternal :: "fan_env \<Rightarrow> node \<Rightarrow> string \<Rightarrow> cluster \<Rightarrow> cluster" where
  "handleNotificationNotifyInternal e n nid c =
     (if nid = [] then c
      else case fe_notification e nid of None \<Rightarrow> c | Some uid \<Rightarrow> snd (client_send e n (SmNotification nid) uid c))"

definition HandleRoomUserIdsNotify :: "fan_env \<Rightarrow> node \<Rightarrow> rid \<Rightarrow> uid list \<Rightarrow> uid list \<Rightarrow> cluster \<Rightarrow> cluster" where
  "HandleRoomUserIdsNotify e n rid userIds targets c =
     (if targets = [] \<or> userIds = [] then c else send_each e n (SmRoomUserIdsUpdate rid userIds) targets c)"

definition HandleRoomDissolvedNotify :: "fan_env \<Rightarrow> node \<Rightarrow> rid \<Rightarrow> int \<Rightarrow> uid list \<Rightarrow> cluster \<Rightarrow> cluster" where
  "HandleRoomDissolvedNotify e n rid st targets c =
     (if targets = [] \<or> rid = [] then c else send_each e n (SmRoomDissolvedUpdate rid st) targets c)"

definition HandleUserStatusSyncNotify :: "fan_env \<Rightarrow> node \<Rightarrow> uid \<Rightarrow> uid list \<Rightarrow> cluster \<Rightarrow> cluster" where
  "HandleUserStatusSyncNotify e n uid targets c =
     (if uid = [] \<or> targets = [] \<or> fe_status_fails e then c else send_each e n (SmUserStatusSync uid) targets c)"

definition HandleRoomUserRoomNicknameNotify :: "fan_env \<Rightarrow> node \<Rightarrow> rid \<Rightarrow> uid \<Rightarrow> string \<Rightarrow> uid list \<Rightarrow> cluster \<Rightarrow> cluster" where
  "HandleRoomUserRoomNicknameNotify e n rid uid nick targets c =
     send_each e n (SmRoomUserRoomNicknameUpdate rid uid nick) targets c"

definition HandleRoomAvatarNotify :: "fan_env \<Rightarrow> node \<Rightarrow> rid \<Rightarrow> string \<Rightarrow> uid list \<Rightarrow> cluster \<Rightarrow> cluster" where
  "HandleRoomAvatarNotify e n rid avatar targets c = send_each e n (SmRoomAvatarUpdate rid avatar) targets c"

definition HandleUserProfileNotify :: "fan_env \<Rightarrow> node \<Rightarrow> uid \<Rightarrow> uid list \<Rightarrow> cluster \<Rightarrow> cluster" where
  "HandleUserProfileNotify e n uid targets c = send_each e n (SmUserProfileChange uid) targets c"

definition HandleStreamCallInviteNotify :: "fan_env \<Rightarrow> node \<Rightarrow> string \<Rightarrow> uid list \<Rightarrow> cluster \<Rightarrow> cluster" where
  "HandleStreamCallInviteNotify e n callId invitees c = send_each e n (SmStreamCallInvite callId) invitees c"

definition HandleStreamCallJoinNotify :: "fan_env \<Rightarrow> node \<Rightarrow> string \<Rightarrow> uid \<Rightarrow> cluster \<Rightarrow> cluster" where
  "HandleStreamCallJoinNotify e n callId target c =
     (if target = [] then c else snd (client_send e n (SmStreamCallJoin callId) target c))"

definition HandleStreamCallEndNotify :: "fan_env \<Rightarrow> node \<Rightarrow> string \<Rightarrow> uid list \<Rightarrow> cluster \<Rightarrow> cluster" where
  "HandleStreamCallEndNotify e n callId targets c = send_each e n (SmStreamCallEnd callId) targets c"

definition HandleStreamCallSyncNotify :: "fan_env \<Rightarrow> node \<Rightarrow> string \<Rightarrow> int \<Rightarrow> uid list \<Rightarrow> cluster \<Rightarrow> cluster" where
  "HandleStreamCallSyncNotify e n callId active targets c = send_each e n (SmStreamCallSync callId active) targets c"

definition handleDelegatedRoomResend :: "fan_env \<Rightarrow> node \<Rightarrow> uid \<Rightarrow> server_room_message \<Rightarrow> cluster \<Rightarrow> cluster" where
  "handleDelegatedRoomResend e n uid m c = snd (client_send e n (SmRoomMessage m) uid c)"

definition HandleRoomMessageResend :: "fan_env \<Rightarrow> node \<Rightarrow> uid \<Rightarrow> server_room_message \<Rightarrow> cluster \<Rightarrow> (unit + unit) \<times> cluster" where
  "HandleRoomMessageResend e n uid m c =
     (if live c n uid then (case client_send e n (SmRoomMessage m) uid c of (ok, c1) \<Rightarrow> (if ok then Inr () else Inl (), c1))
      else (case NodeForUser e uid c of
          Inl _ \<Rightarrow> (Inr (), c)
        | Inr node \<Rightarrow> if node = [] \<or> node = n then (Inr (), c) else PublishDelegatedRoomResend e node uid m c))"

definition HandleRoomMessageWithdrawResend :: "fan_env \<Rightarrow> node \<Rightarrow> uid \<Rightarrow> server_room_message \<Rightarrow> cluster \<Rightarrow> (unit + unit) \<times> cluster" where
  "HandleRoomMessageWithdrawResend e n uid m c =
     (if live c n uid then (case client_send e n (SmRoomMessageWithdraw m) uid c of (ok, c1) \<Rightarrow> (if ok then Inr () else Inl (), c1))
      else (Inr (), c))"

definition handleFileStatusUpdateResend ::
  "fan_env \<Rightarrow> node \<Rightarrow> file_check \<Rightarrow> 'a session_store_scheme \<Rightarrow> cluster \<Rightarrow> (unit + unit) \<times> cluster" where
  "handleFileStatusUpdateResend e n p s c =
     (if \<not> live c n (fc_Uid p) then (Inr (), c)
      else case GetRoomMessageContentByMidAndCid (fc_Mid p) (fc_Cid p) (chat_db s) of
        None \<Rightarrow> (Inr (), c)
      | Some rmc \<Rightarrow>
          (case client_send e n (SmFileStatusUpdate (ct_ClientCid rmc) (ct_TypeId rmc) (ct_Content rmc)) (fc_Uid p) c of
             (ok, c1) \<Rightarrow> (if ok then Inr () else Inl (), c1)))"

text \<open>The name of the server's handler is that of the queue's; the first letter keeps them apart.\<close>

definition server_HandleFileStatusUpdateAckCheck ::
  "fan_env \<Rightarrow> node \<Rightarrow> file_check \<Rightarrow> 'a session_store_scheme \<Rightarrow> cluster \<Rightarrow> (unit + unit) \<times> cluster" where
  "server_HandleFileStatusUpdateAckCheck e n p s c =
     (if fc_RetryCount p > 0 then handleFileStatusUpdateResend e n p s c else (Inr (), c))"

fun Dispatch :: "fan_env \<Rightarrow> node \<Rightarrow> notify_message \<Rightarrow> 'a session_store_scheme \<times> cluster \<Rightarrow> 'a session_store_scheme \<times> cluster" where
  "Dispatch e n (RoomMessageWithdrawNotify mid) w =
     (if mid = [] then w else snd (Send e (RoomMessageWithdrawNotify mid) w))"
| "Dispatch e n (RoomMessageNotify mid) w = snd (Send e (RoomMessageNotify mid) w)"
| "Dispatch e n (RoomMessageNotifyIncludeUids mid us) w = snd (Send e (RoomMessageNotifyIncludeUids mid us) w)"
| "Dispatch e n (RoomMessageNotifyExcludeUids mid us) w = snd (Send e (RoomMessageNotifyExcludeUids mid us) w)"
| "Dispatch e n (NotificationNotify nid) w = (fst w, handleNotificationNotifyInternal e n nid (snd w))"
| "Dispatch e n (RoomUserRoomNicknameNotify rid uid nick us) w =
     (fst w, HandleRoomUserRoomNicknameNotify e n rid uid nick us (snd w))"
| "Dispatch e n (RoomUserIdsNotify rid ids us) w = (fst w, HandleRoomUserIdsNotify e n rid ids us (snd w))"
| "Dispatch e n (RoomDissolvedNotify rid st us) w = (fst w, HandleRoomDissolvedNotify e n rid st us (snd w))"
| "Dispatch e n (RoomAvatarNotify rid avatar us) w = (fst w, HandleRoomAvatarNotify e n rid avatar us (snd w))"
| "Dispatch e n (UserProfileNotify uid us) w = (fst w, HandleUserProfileNotify e n uid us (snd w))"
| "Dispatch e n (UserStatusSyncNotify uid us) w = (fst w, HandleUserStatusSyncNotify e n uid us (snd w))"
| "Dispatch e n (StreamCallInviteNotify callId us) w = (fst w, HandleStreamCallInviteNotify e n callId us (snd w))"
| "Dispatch e n (StreamCallJoinNotify callId u) w = (fst w, HandleStreamCallJoinNotify e n callId u (snd w))"
| "Dispatch e n (StreamCallEndNotify callId us) w = (fst w, HandleStreamCallEndNotify e n callId us (snd w))"
| "Dispatch e n (StreamCallSyncNotify callId k us) w = (fst w, HandleStreamCallSyncNotify e n callId k us (snd w))"
| "Dispatch e n (RoomMessageDeliver mid us) w = (fst w, HandleRoomMessageDeliver e n mid us (fst w) (snd w))"
| "Dispatch e n (RoomMessageWithdrawDeliver mid us) w = (fst w, HandleRoomMessageWithdrawDeliver e n mid us (fst w) (snd w))"
| "Dispatch e n (FileStatusUpdateDeliver mid cid us) w = (fst w, HandleFileStatusUpdateDeliver e n mid cid us (fst w) (snd w))"
| "Dispatch e n (DelegatedRoomResend uid m) w = (fst w, handleDelegatedRoomResend e n uid m (snd w))"

section \<open>Event handlers of a node\<close>

definition HandlerRoomMessage :: "fan_env \<Rightarrow> mid \<Rightarrow> 'a session_store_scheme \<times> cluster \<Rightarrow> 'a session_store_scheme \<times> cluster" where
  "HandlerRoomMessage e mid w = snd (notify_and_fan_out e mid [] [] w)"

definition HandlerRoomMessageWithdraw :: "fan_env \<Rightarrow> mid \<Rightarrow> 'a session_store_scheme \<times> cluster \<Rightarrow> 'a session_store_scheme \<times> cluster" where
  "HandlerRoomMessageWithdraw e mid w = snd (withdraw_and_fan_out e mid w)"

fun content_update_groups ::
  "fan_env \<Rightarrow> node \<Rightarrow> mid \<Rightarrow> string \<Rightarrow> (node \<times> uid list) list \<Rightarrow> 'a session_store_scheme \<Rightarrow> cluster \<Rightarrow> cluster" where
  "content_update_groups e self mid cid [] s c = c"
| "content_update_groups e self mid cid ((nodeID, uids) # gs) s c =
     content_update_groups e self mid cid gs s
       (if uids = [] then c
        else if nodeID = self then deliverFileStatusUpdateToTargets e self mid cid uids s c
        else snd (PublishMessage e nodeID (FileStatusUpdateDeliver mid cid uids) c))"

definition HandlerRoomMessageContentUpdate ::
  "fan_env \<Rightarrow> node \<Rightarrow> mid \<Rightarrow> string \<Rightarrow> 'a session_store_scheme \<times> cluster \<Rightarrow> 'a session_store_scheme \<times> cluster" where
  "HandlerRoomMessageContentUpdate e self mid cid w =
     (case (if re_fails (fe_room e) FindContent then None else GetRoomMessageByMid mid (chat_db (fst w))) of
        None \<Rightarrow> w
      | Some rm \<Rightarrow>
          (case GetRoomUserIdsCache (fe_room e) (sm_Rid rm) (fst w) of
             (Inl _, s1) \<Rightarrow> (s1, snd w)
           | (Inr ids, s1) \<Rightarrow> (s1, content_update_groups e self mid cid (GroupUidsByNode e ids (snd w)) s1 (snd w))))"

text \<open>A node takes the oldest message of the channels and dispatches it.\<close>

definition node_step :: "fan_env \<Rightarrow> 'a session_store_scheme \<times> cluster \<Rightarrow> 'a session_store_scheme \<times> cluster" where
  "node_step e w = (case channel (snd w) of [] \<Rightarrow> w
     | (n, msg) # rest \<Rightarrow> Dispatch e n msg (fst w, (snd w)\<lparr>channel := rest\<rparr>))"

text \<open>\<open>k\<close> messages are taken.\<close>

fun node_steps :: "fan_env \<Rightarrow> nat \<Rightarrow> 'a session_store_scheme \<times> cluster \<Rightarrow> 'a session_store_scheme \<times> cluster" where
  "node_steps e 0 w = w"
| "node_steps e (Suc k) w = node_steps e k (node_step e w)"

section \<open>Grouping by node\<close>

lemma in_groups:
  "(n, us) \<in> set (GroupUidsByNode e uids c) \<Longrightarrow>
     n \<noteq> [] \<and> us = filter (\<lambda>u. node_of e c u = n) (dedup_seen {[]} uids) \<and> us \<noteq> []"
  by (auto simp: GroupUidsByNode_def Let_def filter_empty_conv intro!: filter_cong)

lemma groups_nodes_distinct: "distinct (map fst (GroupUidsByNode e uids c))"
  by (simp add: GroupUidsByNode_def Let_def comp_def)

lemma groups_cover:
  "(\<exists>n us. (n, us) \<in> set (GroupUidsByNode e uids c) \<and> u \<in> set us) \<longleftrightarrow> u \<in> set uids \<and> u \<noteq> [] \<and> node_of e c u \<noteq> []"
  by (auto simp: GroupUidsByNode_def Let_def image_iff)

lemma groups_targets_distinct: "distinct (concat (map snd (GroupUidsByNode e uids c)))"
proof -
  let ?g = "GroupUidsByNode e uids c"
  have member: "node_of e c u = n" if "(n, us) \<in> set ?g" "u \<in> set us" for n us u
    using in_groups [OF that(1)] that(2) by auto
  have "distinct (concat (map snd xs))" if "set xs \<subseteq> set ?g" "distinct (map fst xs)" for xs
    using that
  proof (induction xs)
    case (Cons x xs)
    obtain n us where x: "x = (n, us)" by (cases x)
    have mem: "(n, us) \<in> set ?g" using Cons.prems(1) x by simp
    then have "distinct us" using in_groups by fastforce
    moreover have "set us \<inter> set (concat (map snd xs)) = {}"
    proof -
      { fix u m vs assume u: "u \<in> set us" "(m, vs) \<in> set xs" "u \<in> set vs"
        then have "m = n" using member [OF mem u(1)] member [of m vs u] Cons.prems(1) by auto
        then have "n \<in> fst ` set xs" using u(2) by force
        then have False using Cons.prems(2) x by simp }
      then show ?thesis by fastforce
    qed
    ultimately show ?case using Cons x by auto
  qed simp
  from this [OF order_refl groups_nodes_distinct] show ?thesis .
qed

section \<open>Publishing and delivering without failures\<close>

definition fan_calm :: "fan_env \<Rightarrow> bool" where
  "fan_calm e \<longleftrightarrow> (\<forall>k. \<not> re_fails (fe_room e) k) \<and> (\<forall>k. \<not> fe_db e k) \<and> (\<forall>u. \<not> fe_presence_fails e u) \<and>
     (\<forall>n. \<not> fe_publish_fails e n) \<and> (\<forall>u. \<not> fe_send_fails e u) \<and> \<not> fe_task_fails e"

lemma publish_groups_calm:
  assumes "fan_calm e" and "\<forall>g \<in> set gs. fst g \<noteq> []"
  shows "publish_groups e msg gs c = (Inr (), c\<lparr>channel := channel c @ map (\<lambda>(n, us). (n, msg us)) gs\<rparr>)"
  using assms(2)
proof (induction gs arbitrary: c)
  case (Cons g gs)
  then show ?case using assms(1) by (cases g) (simp add: PublishMessage_def fan_calm_def)
qed simp

lemma deliver_each_calm:
  assumes "fan_calm e"
  shows "deliver_each e n msg check us c = c\<lparr>
     delivered := delivered c @ map (\<lambda>u. (n, u, msg)) (filter (live c n) us),
     main_queue := main_queue c @ map check (filter (live c n) us)\<rparr>"
proof (induction us arbitrary: c)
  case (Cons u us)
  then show ?case using assms by (simp add: client_send_def put_task_def fan_calm_def)
qed simp

text \<open>Taking the delivery messages from the channels.\<close>

lemma node_steps_deliver:
  assumes "fan_calm e" and "mid \<noteq> []" and "GetRoomMessageByMid mid (chat_db s) = Some rcm"
    and "channel c = map (\<lambda>(n, us). (n, RoomMessageDeliver mid us)) gs"
    and "\<forall>(n, us) \<in> set gs. distinct us \<and> [] \<notin> set us"
  shows "node_steps e (length gs) (s, c) = (s, c\<lparr>channel := [],
     delivered := delivered c @ concat (map (\<lambda>(n, us). map (\<lambda>u. (n, u, SmRoomMessage rcm)) (filter (live c n) us)) gs),
     main_queue := main_queue c @ concat (map (\<lambda>(n, us). map (\<lambda>u. TaskRoomMessageAckCheck (ack_check_of rcm u))
        (filter (live c n) us)) gs)\<rparr>)"
  using assms(4,5)
proof (induction gs arbitrary: c)
  case (Cons g gs)
  obtain n us where g: "g = (n, us)" by (cases g)
  have us: "dedup_seen {[]} us = us" using Cons.prems(2) g by (intro dedup_seen_id) auto
  define c1 where "c1 = c\<lparr>channel := map (\<lambda>(n, us). (n, RoomMessageDeliver mid us)) gs,
      delivered := delivered c @ map (\<lambda>u. (n, u, SmRoomMessage rcm)) (filter (live c n) us),
      main_queue := main_queue c @ map (\<lambda>u. TaskRoomMessageAckCheck (ack_check_of rcm u)) (filter (live c n) us)\<rparr>"
  have "\<not> re_fails (fe_room e) FindContent" using assms(1) by (simp add: fan_calm_def)
  then have "node_step e (s, c) = (s, c1)"
    using Cons.prems(1) g assms(2,3) us
    by (simp add: node_step_def HandleRoomMessageDeliver_def deliver_each_calm [OF assms(1)] c1_def)
  moreover have "node_steps e (length gs) (s, c1) = (s, c1\<lparr>channel := [],
     delivered := delivered c1 @ concat (map (\<lambda>(n, us). map (\<lambda>u. (n, u, SmRoomMessage rcm)) (filter (live c1 n) us)) gs),
     main_queue := main_queue c1 @ concat (map (\<lambda>(n, us). map (\<lambda>u. TaskRoomMessageAckCheck (ack_check_of rcm u))
        (filter (live c1 n) us)) gs)\<rparr>)"
    using Cons.prems(2) by (intro Cons.IH) (simp_all add: c1_def)
  ultimately show ?case by (simp add: g c1_def)
qed simp

section \<open>The recipients\<close>

definition receives :: "message_db \<Rightarrow> server_room_message \<Rightarrow> uid \<Rightarrow> bool" where
  "receives db rcm u \<longleftrightarrow> u \<noteq> [] \<and> u \<noteq> sm_SenderUid rcm \<and> \<not> HasUserBlockedRoom u (sm_Rid rcm) db \<and>
     \<not> HasUserBlockedUserInRoom u (sm_Rid rcm) (sm_SenderUid rcm) db"

lemma message_recipients_calm:
  assumes "fan_calm e"
  shows "message_recipients e rcm us [] [] db = filter (receives db rcm) us"
proof -
  have "u \<in> set (GetUidsWhoBlockedRoom (sm_Rid rcm) db) \<longleftrightarrow> HasUserBlockedRoom u (sm_Rid rcm) db" for u
    by (auto simp: GetUidsWhoBlockedRoom_def HasUserBlockedRoom_def filter_empty_conv image_iff)
  moreover have "u \<in> set (GetUidsWhoBlockedUserInRoom (sm_Rid rcm) (sm_SenderUid rcm) db)
      \<longleftrightarrow> HasUserBlockedUserInRoom u (sm_Rid rcm) (sm_SenderUid rcm) db" for u
    by (auto simp: GetUidsWhoBlockedUserInRoom_def HasUserBlockedUserInRoom_def filter_empty_conv image_iff)
  ultimately show ?thesis using assms
    by (auto simp: message_recipients_def filterRoomRecipients_def Let_def fan_calm_def receives_def intro!: filter_cong)
qed


lemma GetRoomMessageByMid_cong:
  "messages db' = messages db \<Longrightarrow> contents db' = contents db \<Longrightarrow> GetRoomMessageByMid mid db' = GetRoomMessageByMid mid db"
  by (simp add: GetRoomMessageByMid_def server_message_def contents_of_def cong: map_option_cong)

lemma CreateMentions_frame [simp]:
  "messages (snd (CreateRoomMessageMentions fails ms rid mid q u us a db)) = messages db"
  "contents (snd (CreateRoomMessageMentions fails ms rid mid q u us a db)) = contents db"
  "acks (snd (CreateRoomMessageMentions fails ms rid mid q u us a db)) = acks db"
  by (simp_all add: CreateRoomMessageMentions_def Let_def split: option.split)

lemma ParseMentions_frame [simp]:
  "messages (chat_db (ParseAndCreateMentions e rcm s)) = messages (chat_db s)"
  "contents (chat_db (ParseAndCreateMentions e rcm s)) = contents (chat_db s)"
  "acks (chat_db (ParseAndCreateMentions e rcm s)) = acks (chat_db s)"
  by (auto simp: ParseAndCreateMentions_def Let_def dest: room_cacheD split: prod.split)

lemma ack_keys_distinct:
  assumes "distinct (map (\<lambda>a. (ack_Uid a, ack_Mid a)) as)" and "\<forall>a \<in> set as. ack_Mid a \<noteq> sm_Mid rcm" and "distinct us"
  shows "distinct (map (\<lambda>a. (ack_Uid a, ack_Mid a)) (as @ map (new_ack e c rcm) us))"
  using assms by (auto simp: new_ack_def comp_def distinct_map inj_on_def)

lemma prepare_calm:
  assumes "fan_calm e" and "mid \<noteq> []" and "GetRoomMessageByMid mid (chat_db s) = Some rcm"
    and "GetRoomUserIdsCache (fe_room e) (sm_Rid rcm) s = (Inr us, s1)" and "us \<noteq> []" and "distinct us"
    and "\<forall>a \<in> set (acks (chat_db s)). ack_Mid a \<noteq> mid"
    and "distinct (map (\<lambda>a. (ack_Uid a, ack_Mid a)) (acks (chat_db s)))"
  shows "\<exists>s2. PrepareRoomMessageNotify e mid [] [] c s = (Inr (filter (receives (chat_db s) rcm) us), s2) \<and>
    messages (chat_db s2) = messages (chat_db s) \<and> contents (chat_db s2) = contents (chat_db s) \<and>
    acks (chat_db s2) = acks (chat_db s) @ map (new_ack e c rcm) (filter (receives (chat_db s) rcm) us)"
proof -
  let ?R = "filter (receives (chat_db s) rcm) us"
  have db: "chat_db s1 = chat_db s" by (rule room_cacheD [OF assms(4)])
  have members: "members_to_notify e (sm_Rid rcm) s = (Inr us, s1)"
    using assms(4,5) by (cases us) (simp_all add: members_to_notify_def)
  have mid: "sm_Mid rcm = mid"
    using assms(3) by (auto simp: GetRoomMessageByMid_def server_message_def find_Some_iff)
  have calm: "\<not> re_fails (fe_room e) FindContent" "\<not> fe_db e InsertAcks" using assms(1) by (simp_all add: fan_calm_def)
  obtain u us' where us: "us = u # us'" using assms(5) by (cases us) auto
  have rec: "message_recipients e rcm us [] [] (chat_db s1) = ?R"
    by (simp add: message_recipients_calm [OF assms(1)] db)
  have ins: "acks_insert (map (new_ack e c rcm) ?R) (acks (chat_db s1)) = Some (acks (chat_db s) @ map (new_ack e c rcm) ?R)"
    using ack_keys_distinct [OF assms(8), of rcm ?R e c] assms(6,7) mid by (simp add: acks_insert_def db)
  show ?thesis
  proof (cases "?R = []")
    case True
    then show ?thesis using assms(2,3) calm members rec us by (simp add: PrepareRoomMessageNotify_def Let_def db)
  next
    case False
    then show ?thesis
      using assms(2,3) calm members rec ins us by (simp add: PrepareRoomMessageNotify_def Let_def db)
  qed
qed

lemma node_of_calm: "fan_calm e \<Longrightarrow> node_of e c u = (if u = [] then [] else case presence c u of None \<Rightarrow> [] | Some n \<Rightarrow> n)"
  by (auto simp: node_of_def NodeForUser_def fan_calm_def split: option.split)

lemma live_targets:
  assumes "fan_calm e"
  shows "(\<exists>us. (n, us) \<in> set (GroupUidsByNode e R c) \<and> u \<in> set (filter (live c n) us))
    \<longleftrightarrow> u \<in> set R \<and> u \<noteq> [] \<and> presence c u = Some n \<and> n \<noteq> [] \<and> live c n u"
    (is "?l = ?r")
proof
  assume ?l
  then obtain us where us: "(n, us) \<in> set (GroupUidsByNode e R c)" "u \<in> set us" "live c n u" by auto
  from in_groups [OF us(1)] us(2,3) show ?r
    by (auto simp: node_of_calm [OF assms] split: if_splits option.splits)
next
  assume r: ?r
  then have "node_of e c u = n" by (simp add: node_of_calm [OF assms])
  moreover from this r obtain m us where "(m, us) \<in> set (GroupUidsByNode e R c)" "u \<in> set us"
    using groups_cover [of e R c u] by auto
  moreover from this have "m = node_of e c u" using in_groups [of m us e R c] by auto
  ultimately show ?l using r by auto
qed

lemma map_pairs:
  "map f (concat (map (\<lambda>(n, us). map (Pair n) (F n us)) gs)) = concat (map (\<lambda>(n, us). map (\<lambda>u. f (n, u)) (F n us)) gs)"
  by (induction gs) auto

lemma pairs_member:
  "(n, u) \<in> set (concat (map (\<lambda>(n, us). map (Pair n) (F n us)) gs)) \<longleftrightarrow> (\<exists>us. (n, us) \<in> set gs \<and> u \<in> set (F n us))"
  by auto

text \<open>
  C34. A message reaches exactly those who are to have it, once: the handler of the event
  and the nodes it published to together leave one unread confirmation for every member
  who is not the sender and has blocked neither the room nor the sender, send the message
  to each of them who is present on a node and connected there, to nobody else and to
  nobody twice, and leave one check of the confirmation for each that was sent.
\<close>

theorem delivery_exactly_once:
  fixes s :: "'a session_store_scheme" and c e mid
  assumes "fan_calm e" and "mid \<noteq> []" and "GetRoomMessageByMid mid (chat_db s) = Some rcm"
    and "GetRoomUserIdsCache (fe_room e) (sm_Rid rcm) s = (Inr us, s1)" and "us \<noteq> []" and "distinct us"
    and "\<forall>a \<in> set (acks (chat_db s)). ack_Mid a \<noteq> mid"
    and "distinct (map (\<lambda>a. (ack_Uid a, ack_Mid a)) (acks (chat_db s)))" and "channel c = []"
  defines "w \<equiv> HandlerRoomMessage e mid (s, c)"
  defines "w' \<equiv> node_steps e (length (channel (snd w))) w"
  shows "\<exists>sent. acks (chat_db (fst w')) = acks (chat_db s) @ map (new_ack e c rcm) (filter (receives (chat_db s) rcm) us) \<and>
    channel (snd w') = [] \<and>
    delivered (snd w') = delivered c @ map (\<lambda>(n, u). (n, u, SmRoomMessage rcm)) sent \<and>
    main_queue (snd w') = main_queue c @ map (\<lambda>(n, u). TaskRoomMessageAckCheck (ack_check_of rcm u)) sent \<and>
    distinct (map snd sent) \<and>
    set sent = {(n, u). u \<in> set us \<and> receives (chat_db s) rcm u \<and> presence c u = Some n \<and> n \<noteq> [] \<and> live c n u}"
proof -
  let ?R = "filter (receives (chat_db s) rcm) us"
  let ?gs = "GroupUidsByNode e ?R c"
  obtain s2 where s2: "PrepareRoomMessageNotify e mid [] [] c s = (Inr ?R, s2)"
    "messages (chat_db s2) = messages (chat_db s)" "contents (chat_db s2) = contents (chat_db s)"
    "acks (chat_db s2) = acks (chat_db s) @ map (new_ack e c rcm) ?R"
    using prepare_calm [OF assms(1-8)] by blast
  define c2 where "c2 = c\<lparr>channel := map (\<lambda>(n, us). (n, RoomMessageDeliver mid us)) ?gs\<rparr>"
  have gs: "\<forall>g \<in> set ?gs. fst g \<noteq> []" using in_groups by fastforce
  have w: "w = (s2, c2)"
    using s2(1) assms(2,9) publish_groups_calm [OF assms(1) gs, of "RoomMessageDeliver mid" c]
    by (simp add: w_def HandlerRoomMessage_def notify_and_fan_out_def FanoutRoomMessageDelivery_def c2_def)
  have groups: "\<forall>(n, us) \<in> set ?gs. distinct us \<and> [] \<notin> set us"
  proof (clarify, rule conjI)
    fix n vs assume "(n, vs) \<in> set ?gs"
    from in_groups [OF this] show "distinct vs" "[] \<notin> set vs" by auto
  qed
  have found: "GetRoomMessageByMid mid (chat_db s2) = Some rcm"
    using assms(3) GetRoomMessageByMid_cong [OF s2(2,3)] by simp
  define sent where "sent = concat (map (\<lambda>(n, us). map (Pair n) (filter (live c n) us)) ?gs)"
  have w': "w' = (s2, c2\<lparr>channel := [],
     delivered := delivered c2 @ concat (map (\<lambda>(n, us). map (\<lambda>u. (n, u, SmRoomMessage rcm)) (filter (live c2 n) us)) ?gs),
     main_queue := main_queue c2 @ concat (map (\<lambda>(n, us). map (\<lambda>u. TaskRoomMessageAckCheck (ack_check_of rcm u))
        (filter (live c2 n) us)) ?gs)\<rparr>)"
    using node_steps_deliver [OF assms(1,2) found, of c2 ?gs] groups
    by (simp add: w'_def w) (simp add: c2_def)
  have "map (\<lambda>(n, u). (n, u, SmRoomMessage rcm)) sent
      = concat (map (\<lambda>(n, us). map (\<lambda>u. (n, u, SmRoomMessage rcm)) (filter (live c2 n) us)) ?gs)"
    by (simp add: sent_def map_pairs c2_def)
  moreover have "map (\<lambda>(n, u). TaskRoomMessageAckCheck (ack_check_of rcm u)) sent
      = concat (map (\<lambda>(n, us). map (\<lambda>u. TaskRoomMessageAckCheck (ack_check_of rcm u)) (filter (live c2 n) us)) ?gs)"
    by (simp add: sent_def map_pairs c2_def)
  moreover have "distinct (map snd sent)"
  proof -
    have "map snd sent = concat (map (\<lambda>(n, us). filter (live c n) us) ?gs)"
      by (simp add: sent_def map_pairs)
    moreover have "distinct (concat (map (\<lambda>(n, us). filter (live c n) us) gs))" if "distinct (concat (map snd gs))" for gs
      using that by (induction gs) (auto simp: case_prod_beta)
    ultimately show ?thesis using groups_targets_distinct [of e ?R c] by simp
  qed
  moreover have "set sent = {(n, u). u \<in> set us \<and> receives (chat_db s) rcm u \<and> presence c u = Some n \<and> n \<noteq> [] \<and> live c n u}"
  proof -
    have "(n, u) \<in> set sent \<longleftrightarrow> u \<in> set us \<and> receives (chat_db s) rcm u \<and> presence c u = Some n \<and> n \<noteq> [] \<and> live c n u" for n u
    proof -
      have "(n, u) \<in> set sent \<longleftrightarrow> (\<exists>us. (n, us) \<in> set ?gs \<and> u \<in> set (filter (live c n) us))"
        unfolding sent_def by (rule pairs_member)
      also have "\<dots> \<longleftrightarrow> u \<in> set ?R \<and> u \<noteq> [] \<and> presence c u = Some n \<and> n \<noteq> [] \<and> live c n u"
        by (rule live_targets [OF assms(1)])
      also have "\<dots> \<longleftrightarrow> u \<in> set us \<and> receives (chat_db s) rcm u \<and> presence c u = Some n \<and> n \<noteq> [] \<and> live c n u"
        by (auto simp: receives_def)
      finally show ?thesis .
    qed
    then show ?thesis by (simp add: set_eq_iff)
  qed
  ultimately show ?thesis using s2(4) by (intro exI [of _ sent]) (simp add: w' c2_def)
qed


section \<open>A concrete cluster\<close>

definition calm_fan :: fan_env where
  "calm_fan = \<lparr>fe_room = calm_room_env 3000, fe_db = (\<lambda>_. False), fe_presence_fails = (\<lambda>_. False),
     fe_publish_fails = (\<lambda>_. False), fe_send_fails = (\<lambda>_. False), fe_task_fails = False, fe_at_user = (\<lambda>_. []),
     fe_notification = (\<lambda>_. None), fe_friend_list = (\<lambda>_. None), fe_status_fails = False\<rparr>"

definition demo_cluster :: cluster where
  "demo_cluster = \<lparr>presence = [''o'' \<mapsto> ''n1'', ''a'' \<mapsto> ''n2'', ''u'' \<mapsto> ''n1''], live = (\<lambda>n u. True), channel = [],
     delivered = [], main_queue = []\<rparr>"

definition demo_cached :: chat_store where
  "demo_cached = (snd demo_sent)\<lparr>room_ids_cache := [''r'' \<mapsto> [''o'', ''a'', ''u'']]\<rparr>"

definition demo_delivery :: "chat_store \<times> cluster" where
  "demo_delivery = (let w = HandlerRoomMessage calm_fan ''m1'' (demo_cached, demo_cluster)
     in node_steps calm_fan (length (channel (snd w))) w)"

theorem delivery_exactly_once_witness:
  "map ack_Uid (acks (chat_db (fst demo_delivery))) = [''o'', ''a''] \<and> channel (snd demo_delivery) = []"
proof -
  let ?rcm = "server_message (chat_db demo_cached) (hd (messages (chat_db demo_cached)))"
  have f: "GetRoomMessageByMid ''m1'' (chat_db demo_cached) = Some ?rcm"
  proof -
    have "find (\<lambda>m. rm_Mid m = ''m1'' \<and> open_message m) (messages (chat_db demo_cached)) = Some (hd (messages (chat_db demo_cached)))"
      by code_simp
    then show ?thesis by (simp add: GetRoomMessageByMid_def)
  qed
  have rid: "sm_Rid ?rcm = ''r''" by code_simp
  have cache: "GetRoomUserIdsCache (fe_room calm_fan) (sm_Rid ?rcm) demo_cached = (Inr [''o'', ''a'', ''u''], demo_cached)"
    by (simp only: rid) (simp add: GetRoomUserIdsCache_def calm_fan_def calm_room_env_def demo_cached_def)
  have acks: "acks (chat_db demo_cached) = []" by code_simp
  have r: "receives (chat_db demo_cached) ?rcm ''o''" "receives (chat_db demo_cached) ?rcm ''a''"
    "\<not> receives (chat_db demo_cached) ?rcm ''u''" by code_simp+
  have calm: "fan_calm calm_fan" by (simp add: fan_calm_def calm_fan_def calm_room_env_def)
  have none: "\<forall>a \<in> set (acks (chat_db demo_cached)). ack_Mid a \<noteq> ''m1''" and one: "channel demo_cluster = []"
    and keys: "distinct (map (\<lambda>a. (ack_Uid a, ack_Mid a)) (acks (chat_db demo_cached)))"
    by (simp_all add: acks demo_cluster_def)
  have "''m1'' \<noteq> []" "[''o'', ''a'', ''u''] \<noteq> []" "distinct [''o'', ''a'', ''u'']" by simp_all
  note run = delivery_exactly_once [OF calm this(1) f cache this(2,3) none keys one]
  then show ?thesis using r by (auto simp: demo_delivery_def Let_def acks new_ack_def)
qed

end
