(* ===== verification/AckQueue.thy ===== *)
theory AckQueue
  imports Fanout
begin

text \<open>
  The task queues: the checks that follow a delivery (\<open>queue/handlers.go\<close>, \<open>tasks.go\<close>) run
  by the queue process, and the resends they ask for, run by a QUIC node. Which queue has a
  handler for which task is fixed where the processes start (\<open>cmd/queue/main.go\<close>,
  \<open>quic/server/server.go\<close>). The library asynq is a parameter in one respect, stated as its
  documentation has it: a task whose handler returns an error, or that has no handler, is
  tried again up to \<open>max_attempts\<close> times and then given up. Also here: system messages
  (\<open>pkg/roommsg\<close>), which the strategy-mute task sends.
\<close>

definition AckMaxRetries :: int where "AckMaxRetries = 3"

definition max_attempts :: nat where "max_attempts = 25"

text \<open>Failures of the queue process, and whether it has the client of the other queue.\<close>

datatype queue_call = FindAck | UpdateAckState | UpdateAckRetry | ExistsAckKey | DeleteAckKey | PublishResend | PublishNextCheck

record queue_env =
  qe_fan :: fan_env
  qe_now :: time
  qe_fails :: "queue_call \<Rightarrow> bool"
  qe_has_quic_client :: bool

type_synonym 'a handled = "(unit + unit) \<times> task list \<times> 'a chat_store_scheme"

section \<open>The handlers of the queue process\<close>

definition find_ack :: "mid \<Rightarrow> uid \<Rightarrow> message_ack list \<Rightarrow> message_ack option" where
  "find_ack mid uid as = find (\<lambda>a. ack_Mid a = mid \<and> ack_Uid a = uid \<and> ack_DeleteTime a = 0) as"

definition time_out_acks :: "mid \<Rightarrow> uid \<Rightarrow> message_ack list \<Rightarrow> message_ack list" where
  "time_out_acks mid uid as = map (\<lambda>a. if ack_Mid a = mid \<and> ack_Uid a = uid then a\<lparr>ack_State := 2\<rparr> else a) as"

definition retry_acks :: "time \<Rightarrow> int \<Rightarrow> mid \<Rightarrow> uid \<Rightarrow> message_ack list \<Rightarrow> message_ack list" where
  "retry_acks now n mid uid as = map (\<lambda>a. if ack_Mid a = mid \<and> ack_Uid a = uid
     then a\<lparr>ack_RetryCount := n, ack_LastTryTime := now\<rparr> else a) as"

text \<open>
  The two checks share their shape: the rows they look at, the message they send again,
  and the task that does so. Tasks published before a later statement fails stay published.
\<close>

definition check_ack ::
  "queue_env \<Rightarrow> (message_db \<Rightarrow> message_ack list) \<Rightarrow> (message_ack list \<Rightarrow> message_db \<Rightarrow> message_db)
   \<Rightarrow> (mid \<Rightarrow> message_db \<Rightarrow> server_room_message option) \<Rightarrow> (uid \<Rightarrow> server_room_message \<Rightarrow> task)
   \<Rightarrow> ack_check \<Rightarrow> 'a chat_store_scheme \<Rightarrow> 'a handled" where
  "check_ack e rows put find_message resend p s =
     (let db = chat_db s; mid = ac_Mid p; uid = ac_Uid p in
      case (if qe_fails e FindAck then None else find_ack mid uid (rows db)) of
        None \<Rightarrow> (Inl (), [], s)
      | Some ack \<Rightarrow>
          if ack_State ack = 1 \<or> ack_State ack = 2 then (Inr (), [], s)
          else if ac_RetryCount p \<ge> AckMaxRetries then
            (if qe_fails e UpdateAckState then (Inl (), [], s)
             else (Inr (), [], s\<lparr>chat_db := put (time_out_acks mid uid (rows db)) db\<rparr>))
          else (case find_message mid db of
              None \<Rightarrow> (Inr (), [], s)
            | Some rcm \<Rightarrow>
                if \<not> qe_has_quic_client e then (Inr (), [], s)
                else if qe_fails e PublishResend then (Inl (), [], s)
                else if qe_fails e UpdateAckRetry then (Inl (), [resend uid rcm], s)
                else (Inr (), [resend uid rcm],
                  s\<lparr>chat_db := put (retry_acks (qe_now e) (ac_RetryCount p + 1) mid uid (rows db)) db\<rparr>)))"

definition HandleRoomMessageAckCheck :: "queue_env \<Rightarrow> ack_check \<Rightarrow> 'a chat_store_scheme \<Rightarrow> 'a handled" where
  "HandleRoomMessageAckCheck e p s =
     check_ack e acks (\<lambda>as db. db\<lparr>acks := as\<rparr>) GetRoomMessageByMid TaskRoomMessageResend p s"

definition HandleRoomMessageWithdrawAckCheck :: "queue_env \<Rightarrow> ack_check \<Rightarrow> 'a chat_store_scheme \<Rightarrow> 'a handled" where
  "HandleRoomMessageWithdrawAckCheck e p s =
     check_ack e withdraw_acks (\<lambda>as db. db\<lparr>withdraw_acks := as\<rparr>) GetRoomMessageByMidIncludeWithdraw
       TaskRoomMessageWithdrawResend p s"

definition HandleFileStatusUpdateAckCheck :: "queue_env \<Rightarrow> file_check \<Rightarrow> 'a chat_store_scheme \<Rightarrow> 'a handled" where
  "HandleFileStatusUpdateAckCheck e p s =
     (if qe_fails e ExistsAckKey then (Inl (), [], s)
      else if update_acks s (fc_ClientCid p) = None then (Inr (), [], s)
      else if fc_RetryCount p \<ge> AckMaxRetries then
        (Inr (), [], if qe_fails e DeleteAckKey then s
           else s\<lparr>update_acks := (update_acks s)(fc_ClientCid p := None)\<rparr>)
      else if \<not> qe_has_quic_client e then (Inr (), [], s)
      else if qe_fails e PublishResend then (Inl (), [], s)
      else
        let resend = TaskFileStatusUpdateAckCheck (p\<lparr>fc_RetryCount := fc_RetryCount p + 1\<rparr>)
        in (Inr (), if fc_RetryCount p + 1 < AckMaxRetries \<and> \<not> qe_fails e PublishNextCheck then [resend, resend]
                    else [resend], s))"

section \<open>Which process handles what\<close>

fun main_handler :: "queue_env \<Rightarrow> task \<Rightarrow> 'a chat_store_scheme \<Rightarrow> 'a handled" where
  "main_handler e (TaskRoomMessageAckCheck p) s = HandleRoomMessageAckCheck e p s"
| "main_handler e (TaskRoomMessageWithdrawAckCheck p) s = HandleRoomMessageWithdrawAckCheck e p s"
| "main_handler e _ s = (Inl (), [], s)"

fun quic_handler ::
  "fan_env \<Rightarrow> node \<Rightarrow> task \<Rightarrow> 'a chat_store_scheme \<Rightarrow> cluster \<Rightarrow> (unit + unit) \<times> cluster" where
  "quic_handler e n (TaskRoomMessageResend uid m) s c = HandleRoomMessageResend e n uid m c"
| "quic_handler e n (TaskFileStatusUpdateAckCheck p) s c = server_HandleFileStatusUpdateAckCheck e n p s c"
| "quic_handler e n (TaskRoomMessageWithdrawResend uid m) s c = HandleRoomMessageWithdrawResend e n uid m c"
| "quic_handler e n _ s c = (Inl (), c)"

text \<open>Tasks with the number of attempts made; what a run of the two processes changes.\<close>

record 'a task_world =
  tw_store :: "'a chat_store_scheme"
  tw_cluster :: cluster
  tw_main :: "(task \<times> nat) list"
  tw_quic :: "(task \<times> nat) list"

definition again :: "unit + unit \<Rightarrow> task \<Rightarrow> nat \<Rightarrow> (task \<times> nat) list" where
  "again r t n = (case r of Inl _ \<Rightarrow> if n < max_attempts then [(t, Suc n)] else [] | Inr _ \<Rightarrow> [])"

definition main_step :: "queue_env \<Rightarrow> (task \<times> nat) list \<Rightarrow> task \<Rightarrow> nat \<Rightarrow> (task \<times> nat) list \<Rightarrow> 'a task_world \<Rightarrow> 'a task_world" where
  "main_step e before t n after w =
     (case main_handler e t (tw_store w) of
        (r, resends, s) \<Rightarrow> w\<lparr>tw_store := s, tw_main := before @ after @ again r t n,
          tw_quic := tw_quic w @ map (\<lambda>t. (t, 0)) resends\<rparr>)"

definition quic_step ::
  "fan_env \<Rightarrow> node \<Rightarrow> (task \<times> nat) list \<Rightarrow> task \<Rightarrow> nat \<Rightarrow> (task \<times> nat) list \<Rightarrow> 'a task_world \<Rightarrow> 'a task_world" where
  "quic_step e node before t n after w =
     (case quic_handler e node t (tw_store w) (tw_cluster w) of
        (r, c) \<Rightarrow> w\<lparr>tw_cluster := c, tw_quic := before @ after @ again r t n\<rparr>)"

text \<open>The workers run in parallel: any waiting task may be taken, by any node, with any failures.\<close>

inductive task_step :: "'a task_world \<Rightarrow> 'a task_world \<Rightarrow> bool" where
  main: "tw_main w = before @ (t, n) # after \<Longrightarrow> task_step w (main_step e before t n after w)"
| quic: "tw_quic w = before @ (t, n) # after \<Longrightarrow> task_step w (quic_step f node before t n after w)"

inductive_cases task_stepE: "task_step w w'"

section \<open>The queues drain\<close>

definition attempts_left :: "task \<times> nat \<Rightarrow> nat" where
  "attempts_left tn = 1 + (max_attempts - snd tn)"

text \<open>A main task is worth more than all it can publish.\<close>

definition task_weight :: "'a task_world \<Rightarrow> nat" where
  "task_weight w = sum_list (map (\<lambda>x. 30 * attempts_left x) (tw_main w)) + sum_list (map attempts_left (tw_quic w))"

lemma attempts_bounds: "0 < attempts_left tn" "attempts_left tn \<le> 26"
  by (simp_all add: attempts_left_def max_attempts_def)

lemma again_weight: "sum_list (map attempts_left (again r t n)) < attempts_left (t, n)"
  by (auto simp: again_def attempts_left_def split: sum.split)

lemma again_weight_main: "sum_list (map (\<lambda>x. 30 * attempts_left x) (again r t n)) + 30 \<le> 30 * attempts_left (t, n)"
  by (auto simp: again_def attempts_left_def split: sum.split)

lemma main_handler_one_resend: "length (fst (snd (main_handler e t s))) \<le> 1"
  by (induction e t s rule: main_handler.induct)
    (auto simp: HandleRoomMessageAckCheck_def HandleRoomMessageWithdrawAckCheck_def check_ack_def Let_def split: option.split)

lemma task_step_weight: "task_step w w' \<Longrightarrow> task_weight w' < task_weight w"
proof (induction rule: task_step.induct)
  case (main w before t n after e)
  obtain r resends s where run: "main_handler e t (tw_store w) = (r, resends, s)" by (cases "main_handler e t (tw_store w)")
  then have "length resends \<le> 1" using main_handler_one_resend [of e t "tw_store w"] by simp
  then have "sum_list (map attempts_left (map (\<lambda>t. (t, 0)) resends)) \<le> 26"
    by (cases resends) (simp_all add: attempts_bounds)
  with main again_weight_main [of r t n] show ?case
    by (simp add: main_step_def run task_weight_def)
next
  case (quic w before t n after f node)
  then show ?case
    using again_weight [of "fst (quic_handler f node t (tw_store w) (tw_cluster w))" t n]
    by (simp add: quic_step_def task_weight_def case_prod_beta)
qed

lemma task_run_weight: "(task_step ^^ k) w w' \<Longrightarrow> k + task_weight w' \<le> task_weight w"
proof (induction k arbitrary: w')
  case (Suc k)
  then obtain v where "(task_step ^^ k) w v" "task_step v w'" by auto
  with Suc.IH [of v] task_step_weight [of v w'] show ?case by simp
qed simp


section \<open>Checks of confirmations\<close>

definition first_check :: "task \<times> nat \<Rightarrow> bool" where
  "first_check tn \<longleftrightarrow> (case fst tn of TaskRoomMessageAckCheck p \<Rightarrow> ac_RetryCount p = 0
     | TaskRoomMessageWithdrawAckCheck p \<Rightarrow> ac_RetryCount p = 0 | _ \<Rightarrow> True)"

definition ack_states :: "message_ack list \<Rightarrow> (mid \<times> uid \<times> int) list" where
  "ack_states as = map (\<lambda>a. (ack_Mid a, ack_Uid a, ack_State a)) as"

lemma retry_acks_states [simp]: "ack_states (retry_acks now n mid uid as) = ack_states as"
  by (induction as) (simp_all add: ack_states_def retry_acks_def)

lemma main_handler_states:
  assumes "first_check (t, n)" and "main_handler e t s = (r, ts, s')"
  shows "ack_states (acks (chat_db s')) = ack_states (acks (chat_db s)) \<and>
    ack_states (withdraw_acks (chat_db s')) = ack_states (withdraw_acks (chat_db s))"
  using assms
  by (cases t) (auto simp: first_check_def HandleRoomMessageAckCheck_def HandleRoomMessageWithdrawAckCheck_def
      check_ack_def Let_def AckMaxRetries_def split: option.splits if_splits)

lemma again_first: "first_check (t, n) \<Longrightarrow> \<forall>x \<in> set (again r t n). first_check x"
  by (auto simp: again_def first_check_def split: sum.splits)

text \<open>
  A delivery that is never confirmed is never marked as timed out: the checks left by
  deliveries start with no retries, no handler schedules a further check, so after any run
  every confirmation is in the state it was in; the limit of three retries and the state
  two that the handlers provide for are not reached.
\<close>

theorem checks_never_time_out:
  assumes "task_step\<^sup>*\<^sup>* w w'" and "\<forall>x \<in> set (tw_main w). first_check x"
  shows "ack_states (acks (chat_db (tw_store w'))) = ack_states (acks (chat_db (tw_store w))) \<and>
    ack_states (withdraw_acks (chat_db (tw_store w'))) = ack_states (withdraw_acks (chat_db (tw_store w))) \<and>
    (\<forall>x \<in> set (tw_main w'). first_check x)"
  using assms(1)
proof (induction rule: rtranclp_induct)
  case (step v w')
  from step.hyps(2) step.IH show ?case
  proof (induction rule: task_step.induct)
    case (main v before t n after e)
    obtain r ts s where run: "main_handler e t (tw_store v) = (r, ts, s)" by (cases "main_handler e t (tw_store v)")
    have first: "first_check (t, n)" using main by simp
    from main_handler_states [OF first run] again_first [OF first, of r] main show ?case
      by (auto simp: main_step_def run)
  next
    case (quic v before t n after f node)
    then show ?case by (simp add: quic_step_def case_prod_beta)
  qed
qed (use assms(2) in simp)

definition demo_tasks :: "unit task_world" where
  "demo_tasks = \<lparr>tw_store = (fst demo_delivery), tw_cluster = snd demo_delivery,
     tw_main = map (\<lambda>t. (t, 0)) (main_queue (snd demo_delivery)), tw_quic = []\<rparr>"

definition calm_queue :: queue_env where
  "calm_queue = \<lparr>qe_fan = calm_fan, qe_now = 40000, qe_fails = (\<lambda>_. False), qe_has_quic_client = True\<rparr>"

theorem checks_never_time_out_witness:
  "\<exists>t w'. tw_main demo_tasks = [t, (TaskRoomMessageAckCheck (ack_check_of (server_message (chat_db demo_cached)
       (hd (messages (chat_db demo_cached)))) ''a''), 0)] \<and> task_step\<^sup>*\<^sup>* demo_tasks w' \<and>
     ack_states (acks (chat_db (tw_store w'))) = [(''m1'', ''o'', 0), (''m1'', ''a'', 0)] \<and> length (tw_quic w') = 1"
proof -
  let ?m = "server_message (chat_db demo_cached) (hd (messages (chat_db demo_cached)))"
  let ?o = "(TaskRoomMessageAckCheck (ack_check_of ?m ''o''), 0)" and ?a = "(TaskRoomMessageAckCheck (ack_check_of ?m ''a''), 0)"
  have main: "tw_main demo_tasks = [] @ ?o # [?a]" by code_simp
  define w' where "w' = main_step calm_queue [] (fst ?o) 0 [?a] demo_tasks"
  have step: "task_step demo_tasks w'" unfolding w'_def by (rule task_step.main) (simp add: main)
  have "\<forall>x \<in> set (tw_main demo_tasks). first_check x" by (simp add: main first_check_def ack_check_of_def)
  moreover have run: "task_step\<^sup>*\<^sup>* demo_tasks w'" using step by (simp add: r_into_rtranclp)
  ultimately
  have "ack_states (acks (chat_db (tw_store w'))) = ack_states (acks (chat_db (tw_store demo_tasks)))"
    using checks_never_time_out [of demo_tasks w'] by simp
  moreover have "ack_states (acks (chat_db (tw_store demo_tasks))) = [(''m1'', ''o'', 0), (''m1'', ''a'', 0)]" by code_simp
  moreover have "length (tw_quic w') = 1" unfolding w'_def by code_simp
  ultimately show ?thesis using main run by auto
qed

end
