(* ===== verification/Handlers.thy ===== *)
theory Handlers
  imports Fanout
begin

text \<open>
  What the HTTP handlers share: a handler is a function on the store that ends early with
  a reply (\<open>http/response\<close>) or goes on with a value; the calculus to reason about such
  functions; the store of the room handlers with its rows (\<open>db/entity/entity.go\<close>), the
  helpers of \<open>http/handler/helper.go\<close>, the notification queries of
  \<open>db/query/message_notification.go\<close>, and the system messages a handler leaves in a room
  (\<open>createRoomSystemMessageAndNotify\<close>, \<open>pkg/roommsg\<close>). Texts shown to users are given in
  English.
\<close>

section \<open>Handlers\<close>

type_synonym ('s, 'e, 'a) act = "'s \<Rightarrow> ('e + 'a) \<times> 's"

text \<open>The replies that end a request before its success.\<close>

datatype reply =
    BadRequest string | ServerError string | Unauthorized string | RoomDissolvedReply
  | JoinApprovalReply bool string

definition succeed :: "'a \<Rightarrow> ('s, 'e, 'a) act" where "succeed a s = (Inr a, s)"
definition refuse :: "'e \<Rightarrow> ('s, 'e, 'a) act" where "refuse r s = (Inl r, s)"

definition andThen :: "('s, 'e, 'a) act \<Rightarrow> ('a \<Rightarrow> ('s, 'e, 'b) act) \<Rightarrow> ('s, 'e, 'b) act" where
  "andThen m f s = (case m s of (Inl r, s1) \<Rightarrow> (Inl r, s1) | (Inr a, s1) \<Rightarrow> f a s1)"

text \<open>An early return unless the condition holds.\<close>

definition check :: "bool \<Rightarrow> 'e \<Rightarrow> ('s, 'e, unit) act" where
  "check b r s = (if b then Inr () else Inl r, s)"

definition query :: "('s \<Rightarrow> 'e + 'a) \<Rightarrow> ('s, 'e, 'a) act" where "query f s = (f s, s)"
definition reading :: "('s \<Rightarrow> 'a) \<Rightarrow> ('s, 'e, 'a) act" where "reading f s = (Inr (f s), s)"
definition change :: "('s \<Rightarrow> 's) \<Rightarrow> ('s, 'e, unit) act" where "change f s = (Inr (), f s)"

text \<open>A call whose error is answered with a fixed reply, one whose result is looked at as
  it comes, and one whose error is logged only.\<close>

definition orFail :: "('s, 'e, 'a) act \<Rightarrow> 'r \<Rightarrow> ('s, 'r, 'a) act" where
  "orFail m r s = (case m s of (Inl _, s1) \<Rightarrow> (Inl r, s1) | (Inr a, s1) \<Rightarrow> (Inr a, s1))"

definition attempt :: "('s, 'e, 'a) act \<Rightarrow> ('s, 'r, 'e + 'a) act" where
  "attempt m s = (case m s of (r, s1) \<Rightarrow> (Inr r, s1))"

definition quietly :: "('s, 'e, 'a) act \<Rightarrow> ('s, 'r, unit) act" where
  "quietly m s = (Inr (), snd (m s))"

fun each :: "('a \<Rightarrow> ('s, 'e, unit) act) \<Rightarrow> 'a list \<Rightarrow> ('s, 'e, unit) act" where
  "each f [] s = (Inr (), s)"
| "each f (x # xs) s = andThen (f x) (\<lambda>_. each f xs) s"

text \<open>\<open>GetUser\<close> answers requests without a user; a body that does not parse is refused.\<close>

record http_user =
  hu_Uid :: uid
  hu_Nickname :: string

definition GetUser :: "http_user option \<Rightarrow> ('s, reply, http_user) act" where
  "GetUser user s = (case user of None \<Rightarrow> Inl (Unauthorized ''not signed in'') | Some u \<Rightarrow> Inr u, s)"

definition parsed :: "'b option \<Rightarrow> reply \<Rightarrow> ('s, reply, 'b) act" where
  "parsed body r s = (case body of None \<Rightarrow> Inl r | Some b \<Rightarrow> Inr b, s)"

section \<open>Reasoning about handlers\<close>

text \<open>
  \<open>wp m Q E s\<close>: from \<open>s\<close>, a value and the state after it satisfy \<open>Q\<close>, and the state at an
  early return satisfies \<open>E\<close>.
\<close>

definition wp :: "('s, 'e, 'a) act \<Rightarrow> ('a \<Rightarrow> 's \<Rightarrow> bool) \<Rightarrow> ('s \<Rightarrow> bool) \<Rightarrow> 's \<Rightarrow> bool" where
  "wp m Q E s = (case m s of (Inl _, s1) \<Rightarrow> E s1 | (Inr a, s1) \<Rightarrow> Q a s1)"

definition keeps :: "('s \<Rightarrow> bool) \<Rightarrow> ('s, 'e, 'a) act \<Rightarrow> bool" where
  "keeps I m \<longleftrightarrow> (\<forall>s. I s \<longrightarrow> I (snd (m s)))"

named_theorems keep \<open>handlers that keep an invariant\<close>

lemma wp_andThen [simp]: "wp (andThen m f) Q E s = wp m (\<lambda>a. wp (f a) Q E) E s"
  by (auto simp: wp_def andThen_def split: sum.splits prod.splits)

lemma wp_check [simp]: "wp (check b r) Q E s = (if b then Q () s else E s)"
  by (simp add: wp_def check_def)

lemma wp_reading [simp]: "wp (reading f) Q E s = Q (f s) s"
  by (simp add: wp_def reading_def)

lemma wp_change [simp]: "wp (change f) Q E s = Q () (f s)"
  by (simp add: wp_def change_def)

lemma wp_succeed [simp]: "wp (succeed a) Q E s = Q a s"
  by (simp add: wp_def succeed_def)

lemma wp_refuse [simp]: "wp (refuse r) Q E s = E s"
  by (simp add: wp_def refuse_def)

lemma wp_query: "wp (query f) Q E s = (case f s of Inl _ \<Rightarrow> E s | Inr a \<Rightarrow> Q a s)"
  by (simp add: wp_def query_def split: sum.splits)

lemma wp_orFail [simp]: "wp (orFail m r) Q E s = wp m Q E s"
  by (auto simp: wp_def orFail_def split: sum.splits prod.splits)

lemma wp_attempt: "wp (attempt m) Q E s = (case m s of (r, s1) \<Rightarrow> Q r s1)"
  by (simp add: wp_def attempt_def split: prod.splits)

lemma wp_GetUser [simp]: "wp (GetUser user) Q E s = (case user of None \<Rightarrow> E s | Some u \<Rightarrow> Q u s)"
  by (simp add: wp_def GetUser_def split: option.splits)

lemma wp_parsed [simp]: "wp (parsed body r) Q E s = (case body of None \<Rightarrow> E s | Some b \<Rightarrow> Q b s)"
  by (simp add: wp_def parsed_def split: option.splits)

lemma wp_keeps: "keeps I m \<Longrightarrow> I s \<Longrightarrow> (\<And>a s1. I s1 \<Longrightarrow> Q a s1) \<Longrightarrow> (\<And>s1. I s1 \<Longrightarrow> E s1) \<Longrightarrow> wp m Q E s"
  unfolding keeps_def wp_def by (force split: sum.splits prod.splits)

lemma keepsI: "(\<And>s. I s \<Longrightarrow> wp m (\<lambda>_. I) I s) \<Longrightarrow> keeps I m"
  unfolding keeps_def wp_def by (fastforce split: sum.splits prod.splits)

lemma keepsD: "keeps I m \<Longrightarrow> I s \<Longrightarrow> I (snd (m s))"
  by (simp add: keeps_def)

lemma keeps_andThen [keep]: "keeps I m \<Longrightarrow> (\<And>a. keeps I (f a)) \<Longrightarrow> keeps I (andThen m f)"
  by (rule keepsI) (auto intro!: wp_keeps [of I m] wp_keeps [of I "f _"])

lemma keeps_pure [keep]:
  "keeps I (succeed a)" "keeps I (refuse r)" "keeps I (check b r)" "keeps I (query f)" "keeps I (reading g)"
  "keeps I (GetUser user)" "keeps I (parsed body r)"
  by (auto simp: keeps_def succeed_def refuse_def check_def query_def reading_def GetUser_def parsed_def)

lemma keeps_orFail [keep]: "keeps I m \<Longrightarrow> keeps I (orFail m r)"
  by (force simp: keeps_def orFail_def split: sum.splits prod.splits)

lemma keeps_attempt [keep]: "keeps I m \<Longrightarrow> keeps I (attempt m)"
  by (auto simp: keeps_def attempt_def split: prod.splits)

lemma keeps_quietly [keep]: "keeps I m \<Longrightarrow> keeps I (quietly m)"
  by (auto simp: keeps_def quietly_def)

lemma keeps_change [keep]: "(\<And>s. I s \<Longrightarrow> I (f s)) \<Longrightarrow> keeps I (change f)"
  by (auto simp: keeps_def change_def)

lemma keeps_if [keep]: "keeps I m \<Longrightarrow> keeps I n \<Longrightarrow> keeps I (if b then m else n)"
  by simp

lemma keeps_each [keep]: "(\<And>x. keeps I (f x)) \<Longrightarrow> keeps I (each f xs)"
proof (induction xs)
  case (Cons x xs)
  have "each f (x # xs) = andThen (f x) (\<lambda>_. each f xs)" by (rule ext) simp
  with Cons show ?case by (simp add: keeps_andThen)
qed (simp add: keeps_def)

lemma keeps_option [keep]: "keeps I m \<Longrightarrow> (\<And>a. keeps I (f a)) \<Longrightarrow> keeps I (case x of None \<Rightarrow> m | Some a \<Rightarrow> f a)"
  by (cases x) simp_all

lemma keeps_sum [keep]:
  "(\<And>a. keeps I (f a)) \<Longrightarrow> (\<And>b. keeps I (g b)) \<Longrightarrow> keeps I (case x of Inl a \<Rightarrow> f a | Inr b \<Rightarrow> g b)"
  by (cases x) simp_all

lemma keeps_prod [keep]: "(\<And>a b. keeps I (f a b)) \<Longrightarrow> keeps I (case x of (a, b) \<Rightarrow> f a b)"
  by (cases x) simp

lemma wp_quietly [simp]: "wp (quietly m) Q E s = Q () (snd (m s))"
  by (simp add: wp_def quietly_def)

section \<open>Numbers in queries\<close>

text \<open>\<open>strconv.Atoi\<close>: an optional sign and decimal digits, within 64 bits.\<close>

definition digit_value :: "char \<Rightarrow> int option" where
  "digit_value c = (let n = of_char c :: int in if 48 \<le> n \<and> n \<le> 57 then Some (n - 48) else None)"

fun digits_value :: "int \<Rightarrow> string \<Rightarrow> int option" where
  "digits_value acc [] = Some acc"
| "digits_value acc (c # cs) = (case digit_value c of None \<Rightarrow> None | Some d \<Rightarrow> digits_value (acc * 10 + d) cs)"

definition Atoi :: "string \<Rightarrow> int option" where
  "Atoi s =
     (let (sign, ds) = (case s of c # cs \<Rightarrow> if c = CHR ''-'' then (- 1, cs) else if c = CHR ''+'' then (1, cs) else (1, s)
                        | [] \<Rightarrow> (1, []))
      in if ds = [] then None
         else case digits_value 0 ds of
           None \<Rightarrow> None
         | Some n \<Rightarrow> let v = sign * n in if - (2 ^ 63) \<le> v \<and> v < 2 ^ 63 then Some v else None)"

section \<open>Rows\<close>

record notification =
  nt_Nid :: string
  nt_Uid :: uid
  nt_Type :: int
  nt_RelatedId :: string
  nt_Content :: string
  nt_State :: int
  nt_Status :: int
  nt_ReadAt :: time
  nt_CreateTime :: time
  nt_UpdateTime :: time
  nt_DeleteTime :: time

record announcement =
  an_Id :: int
  an_Rid :: rid
  an_Content :: string
  an_UpdatedBy :: uid
  an_Pinned :: bool
  an_CreateTime :: time
  an_DeleteTime :: time

record join_request =
  jr_RjrId :: string
  jr_Rid :: rid
  jr_ApplicantUid :: uid
  jr_Message :: string
  jr_Answer :: string
  jr_State :: int
  jr_HandlerUid :: uid
  jr_ExpiresAt :: time
  jr_ProcessedAt :: time
  jr_CreateTime :: time
  jr_DeleteTime :: time

record room_invite =
  iv_InviteId :: string
  iv_Token :: string
  iv_Rid :: rid
  iv_InviterUid :: uid
  iv_BypassPassword :: bool
  iv_ExpiresAt :: time
  iv_JoinSuccessCount :: int
  iv_LastJoinUid :: uid
  iv_LastJoinAt :: time
  iv_DeleteTime :: time

record invite_join =
  ij_InviteId :: string
  ij_Token :: string
  ij_Rid :: rid
  ij_InviterUid :: uid
  ij_JoinUid :: uid
  ij_JoinAt :: time

record pinned_message =
  pm_Rid :: rid
  pm_Mid :: mid
  pm_SeqId :: int
  pm_OperatorUid :: uid
  pm_CreateTime :: time
  pm_DeleteTime :: time

definition NotificationTypeRoomNotification :: int where "NotificationTypeRoomNotification = 20"
definition NotificationTypeRoomJoinRequest :: int where "NotificationTypeRoomJoinRequest = 22"
definition NotificationTypeRoomJoinRequestSend :: int where "NotificationTypeRoomJoinRequestSend = 23"
definition NotificationStatePending :: int where "NotificationStatePending = 0"
definition NotificationRoomStateAccepted :: int where "NotificationRoomStateAccepted = 21"
definition NotificationRoomStateRejected :: int where "NotificationRoomStateRejected = 22"

section \<open>The store and the outside\<close>

text \<open>The maps that are marshalled as JSON: into contents, notifications and operation logs.\<close>

datatype jval = JStr string | JInt int | JBool bool
type_synonym jmap = "(string \<times> jval) list"

text \<open>What leaves a handler: pushes to the QUIC nodes, operation logs and timed tasks queued.\<close>

datatype effect =
    Pushed notify_message
  | RoomAdminLog rid string uid string jmap jmap
  | UserLog uid string string jmap jmap
  | StrategyTimeTask rid time string

record admin_store = chat_store +
  profiles :: "uid \<rightharpoonup> string"
  online_members :: "rid \<Rightarrow> uid set"
  notifications :: "notification list"
  announcements :: "announcement list"
  join_requests :: "join_request list"
  invites :: "room_invite list"
  invite_joins :: "invite_join list"
  pinned_messages :: "pinned_message list"
  strategy_keys :: "(rid \<times> string \<times> time) set"
  xid_next :: nat
  effects :: "effect list"

datatype admin_call =
    CreateRoomRow | CreateMuteConfig | FindUser | OnlineStatus | OnlineSet | PushNotify | PushLog
  | FindNotification | WriteNotification | FindAnnouncement | WriteAnnouncement
  | FindJoinRequest | WriteJoinRequest | FindInvite | WriteInvite | FindPinned | WritePinned
  | WriteBlock | FindCategory | FindTags | FindAdminLog | StrategyKey | StrategyTask | RandomRead

text \<open>
  One request: the failing calls, the identifiers \<open>xid\<close> hands out, the address of the
  client, the JSON encoder, the password hash (bcrypt) and its comparison, who is online.
\<close>

record admin_env =
  ae_room :: room_env
  ae_fails :: "admin_call \<Rightarrow> bool"
  ae_seq :: "message_call \<Rightarrow> bool"
  ae_xid :: "nat \<Rightarrow> string"
  ae_ip :: string
  ae_sid :: sid
  ae_json :: "jmap \<Rightarrow> string"
  ae_json_valid :: "string \<Rightarrow> bool"
  ae_hash :: "string \<Rightarrow> string option"
  ae_compare :: "string \<Rightarrow> string \<Rightarrow> bool"
  ae_online :: "uid \<Rightarrow> bool"

abbreviation ae_now :: "admin_env \<Rightarrow> time" where "ae_now e \<equiv> re_now (ae_room e)"

section \<open>Helpers\<close>

definition new_xid :: "admin_env \<Rightarrow> ('a admin_store_scheme, 'e, string) act" where
  "new_xid e s = (Inr (ae_xid e (xid_next s)), s\<lparr>xid_next := Suc (xid_next s)\<rparr>)"

definition emit :: "effect \<Rightarrow> 'a admin_store_scheme \<Rightarrow> 'a admin_store_scheme" where
  "emit x s = s\<lparr>effects := effects s @ [x]\<rparr>"

text \<open>Every caller only logs the error.\<close>

definition NotifyQuic :: "admin_env \<Rightarrow> notify_message \<Rightarrow> ('a admin_store_scheme, 'e, unit) act" where
  "NotifyQuic e msg = change (\<lambda>s. if ae_fails e PushNotify then s else emit (Pushed msg) s)"

definition PublishUserOperationLog :: "admin_env \<Rightarrow> uid \<Rightarrow> string \<Rightarrow> string \<Rightarrow> jmap \<Rightarrow> jmap
    \<Rightarrow> ('a admin_store_scheme, 'e, unit) act" where
  "PublishUserOperationLog e uid opType relatedId before after =
     change (\<lambda>s. if ae_fails e PushLog then s else emit (UserLog uid opType relatedId before after) s)"

definition PublishRoomAdminLog :: "admin_env \<Rightarrow> rid \<Rightarrow> string \<Rightarrow> uid \<Rightarrow> string \<Rightarrow> jmap \<Rightarrow> jmap
    \<Rightarrow> ('a admin_store_scheme, 'e, unit) act" where
  "PublishRoomAdminLog e rid opType uid relatedId before after =
     change (\<lambda>s. if ae_fails e PushLog then s else emit (RoomAdminLog rid opType uid relatedId before after) s)"

definition AddUserToRoomOnlineSetIfOnline :: "admin_env \<Rightarrow> rid \<Rightarrow> uid \<Rightarrow> ('a admin_store_scheme, room_error, unit) act" where
  "AddUserToRoomOnlineSetIfOnline e rid uid s =
     (if ae_fails e OnlineStatus then (Inl RoomStoreError, s)
      else if \<not> ae_online e uid then (Inr (), s)
      else if ae_fails e OnlineSet then (Inl RoomStoreError, s)
      else (Inr (), s\<lparr>online_members := (online_members s)(rid := insert uid (online_members s rid))\<rparr>))"

definition RemoveUserFromRoomOnlineSet :: "admin_env \<Rightarrow> rid \<Rightarrow> uid \<Rightarrow> ('a admin_store_scheme, room_error, unit) act" where
  "RemoveUserFromRoomOnlineSet e rid uid s =
     (if ae_fails e OnlineSet then (Inl RoomStoreError, s)
      else (Inr (), s\<lparr>online_members := (online_members s)(rid := online_members s rid - {uid})\<rparr>))"

definition GetUserByUid :: "admin_env \<Rightarrow> uid \<Rightarrow> 'a admin_store_scheme \<Rightarrow> room_error + http_user" where
  "GetUserByUid e uid s =
     (if ae_fails e FindUser then Inl RoomStoreError
      else case profiles s uid of None \<Rightarrow> Inl RoomNotFound | Some n \<Rightarrow> Inr \<lparr>hu_Uid = uid, hu_Nickname = n\<rparr>)"

text \<open>
  A transaction that is rolled back leaves the store as it was, but for what is not in the
  database: the identifiers drawn and the sequence numbers taken from Redis.
\<close>

definition rolled_back :: "'a admin_store_scheme \<Rightarrow> 'a admin_store_scheme \<Rightarrow> 'a admin_store_scheme" where
  [simp]: "rolled_back before s = before\<lparr>xid_next := xid_next s, seq_keys_of := seq_keys_of s\<rparr>"

definition transaction :: "admin_env \<Rightarrow> 'e \<Rightarrow> ('a admin_store_scheme, 'e, 'r) act \<Rightarrow> ('a admin_store_scheme, 'e, 'r) act" where
  "transaction e r m s =
     (case m s of
        (Inl err, s1) \<Rightarrow> (Inl err, rolled_back s s1)
      | (Inr a, s1) \<Rightarrow> if re_fails (ae_room e) CommitRoom then (Inl r, rolled_back s s1) else (Inr a, s1))"

section \<open>System messages\<close>

definition next_seq :: "admin_env \<Rightarrow> rid \<Rightarrow> ('a admin_store_scheme, room_error, int) act" where
  "next_seq e rid s =
     (case GetRoomSeqId (ae_seq e) rid (chat_db s) (seq_keys_of s) of
        (Inl _, keys) \<Rightarrow> (Inl RoomStoreError, s\<lparr>seq_keys_of := keys\<rparr>)
      | (Inr n, keys) \<Rightarrow> (Inr n, s\<lparr>seq_keys_of := keys\<rparr>))"

definition system_message :: "admin_env \<Rightarrow> rid \<Rightarrow> int \<Rightarrow> string \<Rightarrow> string \<Rightarrow> mid \<Rightarrow> room_message" where
  "system_message e rid seqId ip clientMid mid =
     \<lparr>rm_Rid = rid, rm_SeqId = seqId, rm_Mid = mid, rm_ClientMid = clientMid, rm_SenderUid = ''system'', rm_State = 1,
      rm_IP = ip, rm_WithdrawTime = 0, rm_CreateTime = ae_now e, rm_DeleteTime = 0, rm_ClientCreateTime = 0\<rparr>"

definition create_message_row :: "admin_env \<Rightarrow> rid \<Rightarrow> int \<Rightarrow> string \<Rightarrow> ('a admin_store_scheme, room_error, mid) act" where
  "create_message_row e rid seqId ip =
     andThen (new_xid e) (\<lambda>clientMid. andThen (new_xid e) (\<lambda>mid s.
       let m = system_message e rid seqId ip clientMid mid; db = chat_db s in
       if re_fails (ae_room e) InsertMessage \<or> \<not> message_indexes (messages db @ [m]) then (Inl RoomStoreError, s)
       else (Inr mid, s\<lparr>chat_db := db\<lparr>messages := messages db @ [m]\<rparr>\<rparr>)))"

definition create_content_row ::
  "admin_env \<Rightarrow> mid \<Rightarrow> string \<Rightarrow> string \<Rightarrow> string \<Rightarrow> ('a admin_store_scheme, room_error, unit) act" where
  "create_content_row e mid contentType typeId content =
     andThen (new_xid e) (\<lambda>clientCid. andThen (new_xid e) (\<lambda>cid s.
       let c = \<lparr>ct_Type = contentType, ct_TypeId = typeId, ct_Content = content, ct_Mid = mid,
                ct_ClientCid = clientCid, ct_Cid = cid, ct_CreateTime = ae_now e, ct_DeleteTime = 0\<rparr>; db = chat_db s in
       if re_fails (ae_room e) InsertContent \<or> \<not> content_indexes (contents db @ [c]) then (Inl RoomStoreError, s)
       else (Inr (), s\<lparr>chat_db := db\<lparr>contents := contents db @ [c]\<rparr>\<rparr>)))"

definition createRoomSystemMessageAndNotify ::
  "admin_env \<Rightarrow> rid \<Rightarrow> string \<Rightarrow> string \<Rightarrow> jmap \<Rightarrow> uid list \<Rightarrow> uid list \<Rightarrow> ('a admin_store_scheme, 'e, unit) act" where
  "createRoomSystemMessageAndNotify e rid contentType typeID content includeUids excludeUids =
     quietly (
       andThen (query (GetRoomByRid (ae_room e) rid)) (\<lambda>room.
       andThen (next_seq e (r_Rid room)) (\<lambda>seqId.
       andThen (create_message_row e (r_Rid room) seqId (ae_ip e)) (\<lambda>mid.
       andThen (create_content_row e mid contentType typeID (ae_json e content)) (\<lambda>_.
       andThen (quietly (BumpUserRoomSessionLastMessageTime (ae_room e) rid (ae_now e))) (\<lambda>_.
         NotifyQuic e (if includeUids \<noteq> [] then RoomMessageNotifyIncludeUids mid includeUids
                       else if excludeUids \<noteq> [] then RoomMessageNotifyExcludeUids mid excludeUids
                       else RoomMessageNotify mid)))))))"

text \<open>The variant of \<open>pkg/roommsg\<close>: no client address, and no push when the bump fails.\<close>

definition CreateSystemMessageAndNotify ::
  "admin_env \<Rightarrow> rid \<Rightarrow> string \<Rightarrow> string \<Rightarrow> jmap \<Rightarrow> ('a admin_store_scheme, 'e, unit) act" where
  "CreateSystemMessageAndNotify e rid contentType typeID content =
     quietly (
       andThen (query (GetRoomByRid (ae_room e) rid)) (\<lambda>room.
       andThen (next_seq e (r_Rid room)) (\<lambda>seqId.
       andThen (create_message_row e (r_Rid room) seqId []) (\<lambda>mid.
       andThen (create_content_row e mid contentType typeID (ae_json e content)) (\<lambda>_.
       andThen (BumpUserRoomSessionLastMessageTime (ae_room e) (r_Rid room) (ae_now e)) (\<lambda>_.
         NotifyQuic e (RoomMessageNotify mid)))))))"

section \<open>Notifications\<close>

definition notification_of :: "string \<Rightarrow> int \<Rightarrow> notification \<Rightarrow> bool" where
  "notification_of relatedId type n \<longleftrightarrow> nt_RelatedId n = relatedId \<and> nt_Type n = type \<and> nt_DeleteTime n = 0"

definition CreateMessageNotification ::
  "admin_env \<Rightarrow> uid \<Rightarrow> int \<Rightarrow> string \<Rightarrow> string \<Rightarrow> ('a admin_store_scheme, room_error, notification) act" where
  "CreateMessageNotification e uid type relatedId content =
     andThen (new_xid e) (\<lambda>nid s.
       let n = \<lparr>nt_Nid = nid, nt_Uid = uid, nt_Type = type, nt_RelatedId = relatedId, nt_Content = content,
                nt_State = 0, nt_Status = 1, nt_ReadAt = 0, nt_CreateTime = ae_now e, nt_UpdateTime = ae_now e,
                nt_DeleteTime = 0\<rparr>
       in if ae_fails e WriteNotification \<or> nid \<in> nt_Nid ` set (notifications s) then (Inl RoomStoreError, s)
          else (Inr n, s\<lparr>notifications := notifications s @ [n]\<rparr>))"

text \<open>Rows are created in the order of their ids: the newest is the last.\<close>

definition find_last :: "('a \<Rightarrow> bool) \<Rightarrow> 'a list \<Rightarrow> 'a option" where "find_last P xs = find P (rev xs)"

definition GetPendingMessageNotificationByUidRelatedIdAndType ::
  "admin_env \<Rightarrow> uid \<Rightarrow> string \<Rightarrow> int \<Rightarrow> 'a admin_store_scheme \<Rightarrow> room_error + notification option" where
  "GetPendingMessageNotificationByUidRelatedIdAndType e uid relatedId type s =
     (if ae_fails e FindNotification then Inl RoomStoreError
      else Inr (find_last (\<lambda>n. nt_Uid n = uid \<and> notification_of relatedId type n \<and> nt_State n = NotificationStatePending)
        (notifications s)))"

definition UpsertPendingMessageNotification ::
  "admin_env \<Rightarrow> uid \<Rightarrow> string \<Rightarrow> int \<Rightarrow> string \<Rightarrow> ('a admin_store_scheme, room_error, notification) act" where
  "UpsertPendingMessageNotification e uid relatedId type content =
     andThen (query (GetPendingMessageNotificationByUidRelatedIdAndType e uid relatedId type)) (\<lambda>existing.
       case existing of
         Some n \<Rightarrow> (\<lambda>s.
           let f = (\<lambda>n. n\<lparr>nt_Content := content, nt_Status := 1, nt_ReadAt := 0, nt_UpdateTime := ae_now e\<rparr>) in
           if ae_fails e WriteNotification then (Inl RoomStoreError, s)
           else (Inr (f n), s\<lparr>notifications := map (\<lambda>v. if nt_Nid v = nt_Nid n then f v else v) (notifications s)\<rparr>))
       | None \<Rightarrow> CreateMessageNotification e uid type relatedId content)"

definition GetMessageNotificationsByRelatedIdAndType ::
  "admin_env \<Rightarrow> string \<Rightarrow> int \<Rightarrow> 'a admin_store_scheme \<Rightarrow> room_error + notification list" where
  "GetMessageNotificationsByRelatedIdAndType e relatedId type s =
     (if ae_fails e FindNotification then Inl RoomStoreError
      else Inr (filter (notification_of relatedId type) (notifications s)))"

definition write_notifications ::
  "admin_env \<Rightarrow> (notification \<Rightarrow> bool) \<Rightarrow> (notification \<Rightarrow> notification) \<Rightarrow> ('a admin_store_scheme, room_error, unit) act" where
  "write_notifications e P f s =
     (if ae_fails e WriteNotification then (Inl RoomStoreError, s)
      else (Inr (), s\<lparr>notifications := map (\<lambda>n. if P n then f n else n) (notifications s)\<rparr>))"

definition UpdateMessageNotificationStateWithTx ::
  "admin_env \<Rightarrow> uid \<Rightarrow> string \<Rightarrow> int \<Rightarrow> int \<Rightarrow> ('a admin_store_scheme, room_error, unit) act" where
  "UpdateMessageNotificationStateWithTx e uid relatedId type state =
     write_notifications e (\<lambda>n. nt_Uid n = uid \<and> notification_of relatedId type n) (\<lambda>n. n\<lparr>nt_State := state\<rparr>)"

definition UpdateAllMessageNotificationStatesByRelatedIdAndType ::
  "admin_env \<Rightarrow> string \<Rightarrow> int \<Rightarrow> int \<Rightarrow> ('a admin_store_scheme, room_error, unit) act" where
  "UpdateAllMessageNotificationStatesByRelatedIdAndType e relatedId type state =
     write_notifications e (notification_of relatedId type) (\<lambda>n. n\<lparr>nt_State := state\<rparr>)"

definition MarkMessageNotificationAsRead :: "admin_env \<Rightarrow> string \<Rightarrow> time \<Rightarrow> ('a admin_store_scheme, room_error, unit) act" where
  "MarkMessageNotificationAsRead e nid readAt =
     write_notifications e (\<lambda>n. nt_Nid n = nid) (\<lambda>n. n\<lparr>nt_ReadAt := readAt\<rparr>)"

definition MarkAllMessageNotificationAsRead :: "admin_env \<Rightarrow> uid \<Rightarrow> ('a admin_store_scheme, room_error, unit) act" where
  "MarkAllMessageNotificationAsRead e uid =
     write_notifications e (\<lambda>n. nt_Uid n = uid \<and> nt_ReadAt n = 0 \<and> nt_DeleteTime n = 0) (\<lambda>n. n\<lparr>nt_ReadAt := ae_now e\<rparr>)"

definition GetUnreadMessageNotificationCount :: "admin_env \<Rightarrow> uid \<Rightarrow> 'a admin_store_scheme \<Rightarrow> room_error + int" where
  "GetUnreadMessageNotificationCount e uid s =
     (if ae_fails e FindNotification then Inl RoomStoreError
      else Inr (int (length (filter (\<lambda>n. nt_Uid n = uid \<and> nt_ReadAt n = 0 \<and> nt_DeleteTime n = 0) (notifications s)))))"

text \<open>One notification for each user, pushed when it was stored.\<close>

definition notify_users :: "admin_env \<Rightarrow> string \<Rightarrow> jmap \<Rightarrow> uid list \<Rightarrow> ('a admin_store_scheme, 'e, unit) act" where
  "notify_users e relatedId content uids =
     each (\<lambda>uid. andThen (attempt (CreateMessageNotification e uid NotificationTypeRoomNotification relatedId (ae_json e content)))
       (\<lambda>r. case r of Inl _ \<Rightarrow> succeed () | Inr n \<Rightarrow> NotifyQuic e (NotificationNotify (nt_Nid n)))) uids"

section \<open>Rooms that are gone\<close>

definition rejectIfRoomDissolved :: "admin_env \<Rightarrow> rid \<Rightarrow> ('a admin_store_scheme, reply, unit) act" where
  "rejectIfRoomDissolved e rid s =
     (if rid = [] then Inr ()
      else case IsRoomDissolved (ae_room e) rid s of
        Inl RoomNotFound \<Rightarrow> Inl (BadRequest ''no such room'')
      | Inl _ \<Rightarrow> Inl (ServerError ''room query failed'')
      | Inr True \<Rightarrow> Inl RoomDissolvedReply
      | Inr False \<Rightarrow> Inr (), s)"

end
