(* ===== verification/RoomAdmin.thy ===== *)
theory RoomAdmin
  imports Handlers
begin

text \<open>
  The handlers of \<open>http/handler/room/room.go\<close> that create a room, describe it, change its
  name, password and avatar, appoint administrators, hand the room over, dissolve it, and
  let members rename themselves, be removed or leave. Every handler is modelled with its
  checks in the order of the code, its writes, its pushes and its log entries. Joining is in
  \<open>RoomEntry\<close>, muting and blocking in \<open>RoomMuting\<close>, announcements and pins in
  \<open>RoomNotices\<close>.
\<close>

section \<open>Writes shared by the handlers\<close>

definition write_room ::
  "admin_env \<Rightarrow> (room \<Rightarrow> bool) \<Rightarrow> (room \<Rightarrow> room) \<Rightarrow> ('a admin_store_scheme, room_error, unit) act" where
  "write_room e P f s = (if re_fails (ae_room e) WriteRoom then (Inl RoomStoreError, s) else (Inr (), upd_room P f s))"

definition refresh_members :: "admin_env \<Rightarrow> rid \<Rightarrow> ('a admin_store_scheme, 'e, unit) act" where
  "refresh_members e rid = change (SetRoomUserIdsCache (ae_room e) rid)"

definition has_room_user :: "admin_env \<Rightarrow> rid \<Rightarrow> uid \<Rightarrow> ('a admin_store_scheme, 'e, bool) act" where
  "has_room_user e rid uid s = (case HasRoomUser (ae_room e) rid uid s of (b, s1) \<Rightarrow> (Inr b, s1))"

section \<open>Creating a room\<close>

definition create_room_row ::
  "admin_env \<Rightarrow> string \<Rightarrow> string \<Rightarrow> string \<Rightarrow> string \<Rightarrow> uid \<Rightarrow> ('a admin_store_scheme, room_error, room) act" where
  "create_room_row e name description avatar password uid =
     andThen (new_xid e) (\<lambda>rid s.
       let r = \<lparr>r_Id = int (length (rooms s)) + 1, r_Rid = rid, r_Name = name, r_Description = description,
                r_CreateUid = uid, r_State = RoomStateActive, r_Type = RoomTypeGroup, r_MemberCount = 0,
                r_Password = password, r_AllowNonFriendChat = True, r_FromRoomRid = [], r_AvatarUfId = avatar,
                r_CategoryId = [], r_JoinApprovalRequired = True, r_JoinQuestionEnabled = False, r_JoinQuestion = [],
                r_JoinQuestionAutoApprove = False, r_JoinQuestionAnswer = [], r_CreateTime = ae_now e, r_DeleteTime = 0\<rparr>
       in if ae_fails e CreateRoomRow \<or> rid \<in> r_Rid ` set (rooms s) then (Inl RoomStoreError, s)
          else (Inr r, s\<lparr>rooms := rooms s @ [r]\<rparr>))"

definition create_mute_config :: "admin_env \<Rightarrow> rid \<Rightarrow> ('a admin_store_scheme, room_error, unit) act" where
  "create_mute_config e rid s =
     (if ae_fails e CreateMuteConfig \<or> rid \<in> mc_Rid ` set (mute_configs s) then (Inl RoomStoreError, s)
      else (Inr (), s\<lparr>mute_configs := mute_configs s @ [\<lparr>mc_Rid = rid, mc_IsMuteAll = False, mc_MuteAllBy = [],
        mc_Reason = [], mc_RuleType = 0, mc_RuleConfig = empty_rule, mc_AllowRoles = Some [], mc_ExceptUsers = Some [],
        mc_EffectiveAt = 0, mc_ExpiresAt = 0, mc_IsActive = False, mc_Version = 1, mc_DeleteTime = 0\<rparr>]\<rparr>))"

definition create_room_user ::
  "admin_env \<Rightarrow> rid \<Rightarrow> uid \<Rightarrow> int \<Rightarrow> string \<Rightarrow> ('a admin_store_scheme, room_error, unit) act" where
  "create_room_user e rid uid role nickname s =
     (if re_fails (ae_room e) WriteRoomUser \<or> (\<exists>u \<in> set (room_users s). ru_Rid u = rid \<and> ru_Uid u = uid)
      then (Inl RoomStoreError, s)
      else (Inr (), s\<lparr>room_users := room_users s @ [fresh_room_user rid uid role nickname (ae_now e)]\<rparr>))"

definition add_member_count :: "admin_env \<Rightarrow> rid \<Rightarrow> ('a admin_store_scheme, room_error, unit) act" where
  "add_member_count e rid = write_room e (\<lambda>r. r_Rid r = rid) (\<lambda>r. r\<lparr>r_MemberCount := r_MemberCount r + 1\<rparr>)"

definition clear_tops :: "admin_env \<Rightarrow> uid \<Rightarrow> ('a admin_store_scheme, room_error, unit) act" where
  "clear_tops e uid = write_session (ae_room e) (\<lambda>u. us_Uid u = uid) (\<lambda>u. u\<lparr>us_IsTop := False\<rparr>)"

definition create_session ::
  "admin_env \<Rightarrow> uid \<Rightarrow> rid \<Rightarrow> int \<Rightarrow> ('a admin_store_scheme, room_error, unit) act" where
  "create_session e uid rid lastSeqId s =
     (if re_fails (ae_room e) WriteSession \<or> (\<exists>u \<in> set (user_sessions s). us_Uid u = uid \<and> us_Rid u = rid)
      then (Inl RoomStoreError, s)
      else (Inr (), s\<lparr>user_sessions := user_sessions s @ [fresh_session uid rid lastSeqId (ae_now e) s]\<rparr>))"

definition create_room_tx ::
  "admin_env \<Rightarrow> rid \<Rightarrow> http_user \<Rightarrow> int \<Rightarrow> ('a admin_store_scheme, reply, mid) act" where
  "create_room_tx e rid u seqId = transaction e (ServerError ''join failed'') (
     andThen (orFail (create_mute_config e rid) (ServerError ''create failed'')) (\<lambda>_.
     andThen (orFail (create_room_user e rid (hu_Uid u) RoomUserRoleOwner (hu_Nickname u)) (ServerError ''join failed'')) (\<lambda>_.
     andThen (orFail (add_member_count e rid) (ServerError ''join failed'')) (\<lambda>_.
     andThen (orFail (create_message_row e rid seqId (ae_ip e)) (ServerError ''join failed'')) (\<lambda>mid.
     andThen (orFail (create_content_row e mid ''room:create'' (hu_Uid u) (ae_json e [])) (ServerError ''message failed'')) (\<lambda>_.
     andThen (orFail (clear_tops e (hu_Uid u)) (ServerError ''join failed'')) (\<lambda>_.
     andThen (orFail (create_session e (hu_Uid u) rid (InitialLastSeqIdOnRoomJoin seqId)) (ServerError ''join failed'')) (\<lambda>_.
       succeed mid))))))))"

text \<open>The body: name, description, avatar, password.\<close>

definition RoomCreate ::
  "admin_env \<Rightarrow> http_user option \<Rightarrow> (string \<times> string \<times> string \<times> string) option
   \<Rightarrow> ('a admin_store_scheme, reply, room) act" where
  "RoomCreate e user body =
     andThen (GetUser user) (\<lambda>u.
     andThen (parsed body (BadRequest ''bad body'')) (\<lambda>(name, description0, avatar, password).
     andThen (check (name \<noteq> []) (BadRequest ''no name'')) (\<lambda>_.
     andThen (check (RuneCount name \<le> 36) (BadRequest ''name too long'')) (\<lambda>_.
     let description = (if description0 = [] then name else description0) in
     andThen (check (RuneCount description \<le> 255) (BadRequest ''description too long'')) (\<lambda>_.
     andThen (check (password = [] \<or> RuneCount password \<le> 20) (BadRequest ''password too long'')) (\<lambda>_.
     andThen (if password = [] then succeed [] else parsed (ae_hash e password) (ServerError ''hash failed'')) (\<lambda>hashed.
     andThen (orFail (create_room_row e name description avatar hashed (hu_Uid u)) (ServerError ''create failed'')) (\<lambda>room.
     andThen (orFail (next_seq e (r_Rid room)) (ServerError ''no sequence number'')) (\<lambda>seqId.
     andThen (create_room_tx e (r_Rid room) u seqId) (\<lambda>mid.
     andThen (quietly (BumpUserRoomSessionLastMessageTime (ae_room e) (r_Rid room) (ae_now e))) (\<lambda>_.
     andThen (refresh_members e (r_Rid room)) (\<lambda>_.
     andThen (NotifyQuic e (RoomMessageNotify mid)) (\<lambda>_.
     andThen (quietly (AddUserToRoomOnlineSetIfOnline e (r_Rid room) (hu_Uid u))) (\<lambda>_.
     andThen (PublishUserOperationLog e (hu_Uid u) ''room_create'' (r_Rid room) []
        [(''rid'', JStr (r_Rid room)), (''name'', JStr (r_Name room))]) (\<lambda>_.
     succeed room)))))))))))))))"

section \<open>Finding rooms\<close>

text \<open>The rows of a page (with whether they have a password), and whether there are more.\<close>

definition RoomList ::
  "admin_env \<Rightarrow> http_user option \<Rightarrow> string \<Rightarrow> string option \<Rightarrow> string option
   \<Rightarrow> ('a admin_store_scheme, reply, (room \<times> bool) list \<times> bool) act" where
  "RoomList e user keyword limitStr offsetStr =
     andThen (GetUser user) (\<lambda>_.
     let limit = (case limitStr of None \<Rightarrow> 20 | Some t \<Rightarrow>
           (case Atoi t of None \<Rightarrow> 20 | Some n \<Rightarrow> if n \<le> 0 then 20 else if n > 100 then 100 else n));
         offset = (case offsetStr of None \<Rightarrow> 0 | Some t \<Rightarrow> (case Atoi t of None \<Rightarrow> 0 | Some n \<Rightarrow> if n < 0 then 0 else n)) in
     andThen (check (\<not> re_fails (ae_room e) FindRoom) (ServerError ''query failed'')) (\<lambda>_.
     andThen (reading (GetRoomList keyword (limit + 1) offset)) (\<lambda>found.
       let hasMore = int (length found) > limit;
           page = (if hasMore then take (nat limit) found else found) in
       succeed (map (\<lambda>r. (r, r_Password r \<noteq> [])) page, hasMore))))"

record room_detail =
  rd_Room :: room
  rd_HasPassword :: bool
  rd_CategoryName :: string
  rd_Tags :: "string list"
  rd_IsMember :: bool
  rd_JoinQuestionAnswer :: string

text \<open>Category names and tags of a room are looked up in tables of their own; a failed
  look-up leaves them empty.\<close>

definition RoomDetail ::
  "admin_env \<Rightarrow> (string \<Rightarrow> string) \<Rightarrow> (rid \<Rightarrow> string list) \<Rightarrow> http_user option \<Rightarrow> rid
   \<Rightarrow> ('a admin_store_scheme, reply, room_detail) act" where
  "RoomDetail e category_name tag_names user rid =
     andThen (GetUser user) (\<lambda>u.
     andThen (check (rid \<noteq> []) (BadRequest ''no room id'')) (\<lambda>_.
     andThen (orFail (query (GetRoomByRid (ae_room e) rid)) (BadRequest ''no such room'')) (\<lambda>room.
     andThen (has_room_user e rid (hu_Uid u)) (\<lambda>isMember.
     andThen (reading (CanUserMuteInRoom (ae_room e) rid (hu_Uid u))) (\<lambda>admin.
     succeed \<lparr>rd_Room = room, rd_HasPassword = (r_Password room \<noteq> []),
       rd_CategoryName = (if r_CategoryId room = [] \<or> ae_fails e FindCategory then [] else category_name (r_CategoryId room)),
       rd_Tags = (if ae_fails e FindTags then [] else tag_names rid), rd_IsMember = isMember,
       rd_JoinQuestionAnswer = (if admin then TrimSpace (r_JoinQuestionAnswer room) else [])\<rparr>)))))"

definition RoomUserIds :: "admin_env \<Rightarrow> http_user option \<Rightarrow> rid \<Rightarrow> ('a admin_store_scheme, reply, uid list) act" where
  "RoomUserIds e user rid =
     andThen (GetUser user) (\<lambda>_.
     andThen (check (rid \<noteq> []) (BadRequest ''no room id'')) (\<lambda>_.
     andThen (rejectIfRoomDissolved e rid) (\<lambda>_.
     orFail (GetRoomUserIdsCache (ae_room e) rid) (ServerError ''members''))))"

section \<open>Name, password, avatar\<close>

definition RoomNameUpdate ::
  "admin_env \<Rightarrow> http_user option \<Rightarrow> (rid \<times> string) option \<Rightarrow> ('a admin_store_scheme, reply, unit) act" where
  "RoomNameUpdate e user body =
     andThen (GetUser user) (\<lambda>u.
     andThen (parsed body (BadRequest ''bad body'')) (\<lambda>(rid, name).
     andThen (rejectIfRoomDissolved e rid) (\<lambda>_.
     andThen (orFail (query (GetRoomByRid (ae_room e) rid)) (BadRequest ''no such room'')) (\<lambda>room.
     andThen (check (r_CreateUid room = hu_Uid u) (BadRequest ''not allowed'')) (\<lambda>_.
     andThen (check (name \<noteq> []) (BadRequest ''no name'')) (\<lambda>_.
     andThen (check (RuneCount name \<le> 36) (BadRequest ''name too long'')) (\<lambda>_.
     andThen (check (name \<noteq> r_Name room) (BadRequest ''same name'')) (\<lambda>_.
     andThen (transaction e (ServerError ''update failed'') (
       andThen (orFail (write_room e (\<lambda>r. r_Rid r = rid) (\<lambda>r. r\<lparr>r_Name := name\<rparr>)) (ServerError ''update failed'')) (\<lambda>_.
       andThen (orFail (next_seq e (r_Rid room)) (ServerError ''update failed'')) (\<lambda>seqId.
       andThen (orFail (create_message_row e (r_Rid room) seqId (ae_ip e)) (ServerError ''update failed'')) (\<lambda>mid.
       andThen (orFail (create_content_row e mid ''user:update:room:name'' (hu_Uid u)
           (ae_json e [(''name'', JStr name)])) (ServerError ''update failed'')) (\<lambda>_.
         succeed mid)))))) (\<lambda>mid.
     andThen (quietly (BumpUserRoomSessionLastMessageTime (ae_room e) rid (ae_now e))) (\<lambda>_.
     andThen (NotifyQuic e (RoomMessageNotify mid)) (\<lambda>_.
     PublishRoomAdminLog e rid ''room_name_update'' (hu_Uid u) rid
       [(''name'', JStr (r_Name room))] [(''name'', JStr name)])))))))))))"

definition RoomPasswordUpdate ::
  "admin_env \<Rightarrow> http_user option \<Rightarrow> (rid \<times> string) option \<Rightarrow> ('a admin_store_scheme, reply, unit) act" where
  "RoomPasswordUpdate e user body =
     andThen (GetUser user) (\<lambda>u.
     andThen (parsed body (BadRequest ''bad body'')) (\<lambda>(rid, password).
     andThen (check (rid \<noteq> []) (BadRequest ''bad body'')) (\<lambda>_.
     andThen (rejectIfRoomDissolved e rid) (\<lambda>_.
     andThen (orFail (query (GetRoomByRid (ae_room e) rid)) (BadRequest ''no such room'')) (\<lambda>room.
     andThen (reading (CanUserMuteInRoom (ae_room e) rid (hu_Uid u))) (\<lambda>admin.
     andThen (check admin (BadRequest ''admins only'')) (\<lambda>_.
     andThen (check (password = [] \<or> RuneCount password \<le> 20) (BadRequest ''password too long'')) (\<lambda>_.
     andThen (if password = [] then succeed [] else parsed (ae_hash e password) (ServerError ''hash failed'')) (\<lambda>hashed.
     andThen (orFail (write_room e (\<lambda>r. r_Rid r = rid) (\<lambda>r. r\<lparr>r_Password := hashed\<rparr>)) (ServerError ''update failed'')) (\<lambda>_.
     PublishRoomAdminLog e rid ''room_password_update'' (hu_Uid u) rid
       [(''has_password'', JBool (r_Password room \<noteq> []))] [(''has_password'', JBool (hashed \<noteq> []))]))))))))))"

definition RoomAvatarUpdate ::
  "admin_env \<Rightarrow> http_user option \<Rightarrow> (rid \<times> string) option \<Rightarrow> ('a admin_store_scheme, reply, unit) act" where
  "RoomAvatarUpdate e user body =
     andThen (GetUser user) (\<lambda>u.
     andThen (parsed body (BadRequest ''bad body'')) (\<lambda>(rid, avatar).
     andThen (check (rid \<noteq> []) (BadRequest ''bad body'')) (\<lambda>_.
     andThen (rejectIfRoomDissolved e rid) (\<lambda>_.
     andThen (orFail (query (GetRoomByRid (ae_room e) rid)) (BadRequest ''no such room'')) (\<lambda>room.
     andThen (check (r_CreateUid room = hu_Uid u) (BadRequest ''owner only'')) (\<lambda>_.
     andThen (check (avatar \<noteq> []) (BadRequest ''no avatar'')) (\<lambda>_.
     andThen (orFail (write_room e (\<lambda>r. r_Rid r = rid) (\<lambda>r. r\<lparr>r_AvatarUfId := avatar\<rparr>)) (ServerError ''update failed'')) (\<lambda>_.
     andThen (NotifyQuic e (RoomAvatarNotify rid avatar [])) (\<lambda>_.
     PublishRoomAdminLog e rid ''room_avatar_update'' (hu_Uid u) rid
       [(''avatar_uf_id'', JStr (r_AvatarUfId room))] [(''avatar_uf_id'', JStr avatar)])))))))))"

text \<open>
  The avatars a room had, newest first, from its rows in the operation log (oldest first):
  of the newest \<open>2 * limit\<close> rows, until \<open>limit\<close> different ones are found.
\<close>

definition avatar_of :: "jmap \<Rightarrow> string option" where
  "avatar_of m = (case map_of m ''avatar_uf_id'' of Some (JStr a) \<Rightarrow> if a = [] then None else Some a | _ \<Rightarrow> None)"

fun collect_avatars :: "nat \<Rightarrow> string list \<Rightarrow> (jmap \<times> jmap) list \<Rightarrow> string list" where
  "collect_avatars limit found [] = found"
| "collect_avatars limit found ((before, after) # rows) =
     (let found' = fold (\<lambda>m as. case avatar_of m of None \<Rightarrow> as | Some a \<Rightarrow> if a \<in> set as then as else as @ [a])
            [after, before] found
      in if length found' \<ge> limit then found' else collect_avatars limit found' rows)"

definition ListRoomAvatarHistory :: "(rid \<times> string \<times> jmap \<times> jmap) list \<Rightarrow> rid \<Rightarrow> nat \<Rightarrow> string list" where
  "ListRoomAvatarHistory oplog rid limit0 =
     (let limit = (if limit0 = 0 then 20 else limit0);
          rows = filter (\<lambda>(r, opType, _, _). r = rid \<and> opType = ''room_avatar_update'') oplog
      in take limit (collect_avatars limit [] (map (\<lambda>(_, _, before, after). (before, after)) (take (limit * 2) (rev rows)))))"

definition RoomAvatarHistory ::
  "admin_env \<Rightarrow> (rid \<times> string \<times> jmap \<times> jmap) list \<Rightarrow> http_user option \<Rightarrow> rid
   \<Rightarrow> ('a admin_store_scheme, reply, string list) act" where
  "RoomAvatarHistory e oplog user rid =
     andThen (GetUser user) (\<lambda>u.
     andThen (check (rid \<noteq> []) (BadRequest ''no room id'')) (\<lambda>_.
     andThen (rejectIfRoomDissolved e rid) (\<lambda>_.
     andThen (has_room_user e rid (hu_Uid u)) (\<lambda>member.
     andThen (check member (BadRequest ''not in the room'')) (\<lambda>_.
     andThen (check (\<not> ae_fails e FindAdminLog) (ServerError ''query failed'')) (\<lambda>_.
     succeed (ListRoomAvatarHistory oplog rid 20)))))))"

section \<open>Roles\<close>

definition RoomUserRoleUpdate ::
  "admin_env \<Rightarrow> http_user option \<Rightarrow> (rid \<times> uid \<times> int) option \<Rightarrow> ('a admin_store_scheme, reply, unit) act" where
  "RoomUserRoleUpdate e user body =
     andThen (GetUser user) (\<lambda>u.
     andThen (parsed body (BadRequest ''bad body'')) (\<lambda>(rid, targetUid, role).
     andThen (check (rid \<noteq> [] \<and> targetUid \<noteq> []) (BadRequest ''bad body'')) (\<lambda>_.
     andThen (rejectIfRoomDissolved e rid) (\<lambda>_.
     andThen (orFail (query (GetRoomByRid (ae_room e) rid)) (BadRequest ''no such room'')) (\<lambda>room.
     andThen (check (r_CreateUid room = hu_Uid u) (BadRequest ''owner only'')) (\<lambda>_.
     andThen (check (role = 0 \<or> role = 1) (BadRequest ''bad role'')) (\<lambda>_.
     andThen (has_room_user e rid targetUid) (\<lambda>member.
     andThen (check member (BadRequest ''target not in the room'')) (\<lambda>_.
     andThen (orFail (query (GetRoomUser (ae_room e) rid targetUid)) (ServerError ''member query failed'')) (\<lambda>ru.
     andThen (check (ru_Role ru \<noteq> role) (BadRequest ''same role'')) (\<lambda>_.
     andThen (orFail (UpdateRoomUserRole (ae_room e) rid targetUid role) (ServerError ''update failed'')) (\<lambda>_.
     andThen (PublishRoomAdminLog e rid ''member_role_update'' (hu_Uid u) targetUid
        [(''role'', JInt (ru_Role ru))] [(''role'', JInt role)]) (\<lambda>_.
     createRoomSystemMessageAndNotify e rid ''room:member:role:update'' (hu_Uid u)
       [(''target_uid'', JStr targetUid), (''operator_uid'', JStr (hu_Uid u)), (''old_role'', JInt (ru_Role ru)),
        (''new_role'', JInt role)] [] [])))))))))))))"

definition RoomOwnerTransfer ::
  "admin_env \<Rightarrow> http_user option \<Rightarrow> (rid \<times> uid) option \<Rightarrow> ('a admin_store_scheme, reply, rid \<times> uid) act" where
  "RoomOwnerTransfer e user body =
     andThen (GetUser user) (\<lambda>u.
     andThen (parsed body (BadRequest ''bad body'')) (\<lambda>(rid, targetUid).
     andThen (check (rid \<noteq> [] \<and> targetUid \<noteq> []) (BadRequest ''bad body'')) (\<lambda>_.
     andThen (rejectIfRoomDissolved e rid) (\<lambda>_.
     andThen (orFail (query (GetRoomByRid (ae_room e) rid)) (BadRequest ''no such room'')) (\<lambda>room.
     andThen (check (r_Type room = RoomTypeGroup) (BadRequest ''group rooms only'')) (\<lambda>_.
     andThen (check (targetUid \<noteq> hu_Uid u) (BadRequest ''not to yourself'')) (\<lambda>_.
     andThen (has_room_user e rid targetUid) (\<lambda>member.
     andThen (check member (BadRequest ''target not in the room'')) (\<lambda>_.
     andThen (attempt (TransferRoomOwner (ae_room e) rid (hu_Uid u) targetUid)) (\<lambda>r.
     andThen (case r of
         Inl NotRoomOwner \<Rightarrow> refuse (BadRequest ''owner only'')
       | Inl InvalidTransferTarget \<Rightarrow> refuse (BadRequest ''bad target'')
       | Inl _ \<Rightarrow> refuse (ServerError ''transfer failed'')
       | Inr old \<Rightarrow> succeed old) (\<lambda>oldOwnerUid.
     andThen (PublishRoomAdminLog e rid ''owner_transfer'' (hu_Uid u) targetUid
        [(''owner_uid'', JStr oldOwnerUid)] [(''owner_uid'', JStr targetUid)]) (\<lambda>_.
     andThen (createRoomSystemMessageAndNotify e rid ''room:owner:transfer'' targetUid
        [(''from_uid'', JStr oldOwnerUid), (''to_uid'', JStr targetUid), (''operator_uid'', JStr (hu_Uid u))] [] []) (\<lambda>_.
     andThen (PublishUserOperationLog e (hu_Uid u) ''room_owner_transfer'' rid
        [(''owner_uid'', JStr oldOwnerUid)] [(''owner_uid'', JStr targetUid)]) (\<lambda>_.
     succeed (rid, targetUid)))))))))))))))"

definition RoomDissolve ::
  "admin_env \<Rightarrow> http_user option \<Rightarrow> rid option \<Rightarrow> ('a admin_store_scheme, reply, rid \<times> int) act" where
  "RoomDissolve e user body =
     andThen (GetUser user) (\<lambda>u.
     andThen (parsed body (BadRequest ''no room id'')) (\<lambda>rid0.
     andThen (check (rid0 \<noteq> []) (BadRequest ''no room id'')) (\<lambda>_.
     let rid = TrimSpace rid0 in
     andThen (orFail (query (GetRoomByRid (ae_room e) rid)) (BadRequest ''no such room'')) (\<lambda>room.
     andThen (check (r_Type room = RoomTypeGroup) (BadRequest ''group rooms only'')) (\<lambda>_.
     andThen (orFail (query (GetRoomUser (ae_room e) rid (hu_Uid u))) (ServerError ''member query failed'')) (\<lambda>ru.
     andThen (check (ru_Role ru = RoomUserRoleOwner) (BadRequest ''owner only'')) (\<lambda>_.
     andThen (attempt (DissolveRoom (ae_room e) rid)) (\<lambda>r.
     andThen (case r of
         Inl RoomAlreadyDissolved \<Rightarrow> refuse (BadRequest ''already dissolved'')
       | Inl _ \<Rightarrow> refuse (ServerError ''dissolve failed'')
       | Inr _ \<Rightarrow> succeed ()) (\<lambda>_.
     andThen (attempt (GetRoomUserIdsCache (ae_room e) rid)) (\<lambda>members.
     andThen (case members of Inl _ \<Rightarrow> succeed () | Inr memberUids \<Rightarrow>
         andThen (notify_users e rid [(''event'', JStr ''room_dissolved''), (''room_rid'', JStr rid),
             (''room_name'', JStr (r_Name room)), (''operator_uid'', JStr (hu_Uid u))] memberUids) (\<lambda>_.
         NotifyQuic e (RoomDissolvedNotify rid RoomStateDissolved []))) (\<lambda>_.
     andThen (PublishRoomAdminLog e rid ''room_dissolve'' (hu_Uid u) rid
        [(''state'', JInt RoomStateActive)] [(''state'', JInt RoomStateDissolved)]) (\<lambda>_.
     andThen (PublishUserOperationLog e (hu_Uid u) ''room_dissolve'' rid
        [(''state'', JInt RoomStateActive), (''room_name'', JStr (r_Name room))] [(''state'', JInt RoomStateDissolved)]) (\<lambda>_.
     succeed (rid, RoomStateDissolved))))))))))))))"

section \<open>Members of a room\<close>

definition RoomUserList :: "admin_env \<Rightarrow> http_user option \<Rightarrow> rid \<Rightarrow> ('a admin_store_scheme, reply, room_user list) act" where
  "RoomUserList e user rid =
     andThen (GetUser user) (\<lambda>u.
     andThen (check (rid \<noteq> []) (BadRequest ''no room id'')) (\<lambda>_.
     andThen (has_room_user e rid (hu_Uid u)) (\<lambda>member.
     andThen (check member (BadRequest ''not in the room'')) (\<lambda>_.
     orFail (query (GetRoomUsers (ae_room e) rid)) (ServerError ''member query failed'')))))"

definition RoomUserNicknameUpdate ::
  "admin_env \<Rightarrow> http_user option \<Rightarrow> (rid \<times> string) option \<Rightarrow> ('a admin_store_scheme, reply, room_user) act" where
  "RoomUserNicknameUpdate e user body =
     andThen (GetUser user) (\<lambda>u.
     andThen (parsed body (BadRequest ''bad body'')) (\<lambda>(rid, nickname).
     andThen (check (rid \<noteq> []) (BadRequest ''bad body'')) (\<lambda>_.
     andThen (rejectIfRoomDissolved e rid) (\<lambda>_.
     andThen (has_room_user e rid (hu_Uid u)) (\<lambda>member.
     andThen (check member (BadRequest ''not in the room'')) (\<lambda>_.
     andThen (check (RuneCount nickname \<le> 36) (BadRequest ''nickname too long'')) (\<lambda>_.
     andThen (reading (GetRoomUser (ae_room e) rid (hu_Uid u))) (\<lambda>beforeRu.
     andThen (orFail (UpdateRoomUserNickname (ae_room e) rid (hu_Uid u) nickname) (ServerError ''update failed'')) (\<lambda>ru.
     andThen (NotifyQuic e (RoomUserRoomNicknameNotify rid (hu_Uid u) nickname [])) (\<lambda>_.
     andThen (PublishUserOperationLog e (hu_Uid u) ''room_user_nickname'' rid
        [(''rid'', JStr rid), (''room_nickname'', JStr (case beforeRu of Inl _ \<Rightarrow> [] | Inr b \<Rightarrow> ru_RoomNickname b))]
        [(''rid'', JStr rid), (''room_nickname'', JStr nickname)]) (\<lambda>_.
     succeed ru)))))))))))"

definition RoomUserRemarkUpdate ::
  "admin_env \<Rightarrow> http_user option \<Rightarrow> (rid \<times> string) option \<Rightarrow> ('a admin_store_scheme, reply, room_user) act" where
  "RoomUserRemarkUpdate e user body =
     andThen (GetUser user) (\<lambda>u.
     andThen (parsed body (BadRequest ''bad body'')) (\<lambda>(rid, remark).
     andThen (check (rid \<noteq> []) (BadRequest ''bad body'')) (\<lambda>_.
     andThen (rejectIfRoomDissolved e rid) (\<lambda>_.
     andThen (has_room_user e rid (hu_Uid u)) (\<lambda>member.
     andThen (check member (BadRequest ''not in the room'')) (\<lambda>_.
     andThen (check (RuneCount remark \<le> 255) (BadRequest ''remark too long'')) (\<lambda>_.
     andThen (reading (GetRoomUser (ae_room e) rid (hu_Uid u))) (\<lambda>beforeRu.
     andThen (orFail (UpdateRoomUserRemark (ae_room e) rid (hu_Uid u) remark) (ServerError ''update failed'')) (\<lambda>ru.
     andThen (PublishUserOperationLog e (hu_Uid u) ''room_user_remark'' rid
        [(''rid'', JStr rid), (''room_remark'', JStr (case beforeRu of Inl _ \<Rightarrow> [] | Inr b \<Rightarrow> ru_RoomRemark b))]
        [(''rid'', JStr rid), (''room_remark'', JStr remark)]) (\<lambda>_.
     succeed ru))))))))))"

section \<open>Removing and leaving\<close>

text \<open>The transaction both handlers run; neither looks at how many rows it changed.\<close>

definition remove_member_tx ::
  "admin_env \<Rightarrow> rid \<Rightarrow> uid \<Rightarrow> reply \<Rightarrow> ('a admin_store_scheme, reply, unit) act" where
  "remove_member_tx e rid uid r = transaction e r (
     andThen (orFail (write_user (ae_room e) (active_user rid uid) (\<lambda>u. u\<lparr>ru_DeleteTime := ae_now e\<rparr>)) r) (\<lambda>_.
     andThen (orFail (write_room e (\<lambda>v. r_Rid v = rid) (\<lambda>v. v\<lparr>r_MemberCount := max (r_MemberCount v - 1) 0\<rparr>)) r) (\<lambda>_.
     orFail (write_session (ae_room e) (\<lambda>u. us_Uid u = uid \<and> us_Rid u = rid \<and> us_DeleteTime u = 0)
       (\<lambda>u. u\<lparr>us_State := 0, us_DeleteTime := ae_now e\<rparr>)) r)))"

text \<open>What follows it: the cached members, the online set, and the list pushed to those who stay.\<close>

definition after_removal :: "admin_env \<Rightarrow> rid \<Rightarrow> uid \<Rightarrow> ('a admin_store_scheme, reply, unit) act" where
  "after_removal e rid uid =
     andThen (refresh_members e rid) (\<lambda>_.
     andThen (quietly (RemoveUserFromRoomOnlineSet e rid uid)) (\<lambda>_.
     andThen (attempt (GetRoomUserIdsCache (ae_room e) rid)) (\<lambda>members.
     case members of Inr (m # ms) \<Rightarrow> NotifyQuic e (RoomUserIdsNotify rid (m # ms) []) | _ \<Rightarrow> succeed ())))"

definition kicked_nickname :: "admin_env \<Rightarrow> uid \<Rightarrow> room_user \<Rightarrow> 'a admin_store_scheme \<Rightarrow> string" where
  "kicked_nickname e targetUid ru s =
     (let n = TrimSpace (ru_RoomNickname ru) in
      if n \<noteq> [] then n else case GetUserByUid e targetUid s of Inl _ \<Rightarrow> [] | Inr t \<Rightarrow> hu_Nickname t)"

definition operator_nickname :: "admin_env \<Rightarrow> rid \<Rightarrow> http_user \<Rightarrow> 'a admin_store_scheme \<Rightarrow> string" where
  "operator_nickname e rid u s =
     (case GetRoomUser (ae_room e) rid (hu_Uid u) s of
        Inl _ \<Rightarrow> TrimSpace (hu_Nickname u)
      | Inr o' \<Rightarrow> let n = TrimSpace (ru_RoomNickname o') in if n \<noteq> [] then n else TrimSpace (hu_Nickname u))"

definition RoomMemberKick ::
  "admin_env \<Rightarrow> http_user option \<Rightarrow> (rid \<times> uid) option \<Rightarrow> ('a admin_store_scheme, reply, rid \<times> uid) act" where
  "RoomMemberKick e user body =
     andThen (GetUser user) (\<lambda>u.
     andThen (parsed body (BadRequest ''bad body'')) (\<lambda>(rid0, target0).
     andThen (check (rid0 \<noteq> [] \<and> target0 \<noteq> []) (BadRequest ''bad body'')) (\<lambda>_.
     let rid = TrimSpace rid0; targetUid = TrimSpace target0 in
     andThen (rejectIfRoomDissolved e rid) (\<lambda>_.
     andThen (orFail (query (GetRoomByRid (ae_room e) rid)) (BadRequest ''no such room'')) (\<lambda>room.
     andThen (check (r_Type room = RoomTypeGroup) (BadRequest ''group rooms only'')) (\<lambda>_.
     andThen (reading (CanKickMemberInRoom (ae_room e) rid (hu_Uid u) targetUid)) (\<lambda>reason.
     andThen (check (reason = None) (BadRequest (case reason of None \<Rightarrow> [] | Some t \<Rightarrow> t))) (\<lambda>_.
     andThen (orFail (query (GetRoomUser (ae_room e) rid targetUid)) (BadRequest ''target not in the room'')) (\<lambda>targetRu.
     andThen (reading (kicked_nickname e targetUid targetRu)) (\<lambda>targetNickname.
     andThen (remove_member_tx e rid targetUid (ServerError ''removal failed'')) (\<lambda>_.
     andThen (after_removal e rid targetUid) (\<lambda>_.
     andThen (reading (operator_nickname e rid u)) (\<lambda>operatorNickname.
     andThen (notify_users e rid [(''event'', JStr ''member_kick''), (''operator_uid'', JStr (hu_Uid u)),
         (''operator_nickname'', JStr operatorNickname), (''target_uid'', JStr targetUid),
         (''target_nickname'', JStr targetNickname), (''room_rid'', JStr rid), (''room_name'', JStr (r_Name room))]
         [targetUid]) (\<lambda>_.
     andThen (PublishRoomAdminLog e rid ''member_kick'' (hu_Uid u) targetUid
        [(''target_uid'', JStr targetUid), (''role'', JInt (ru_Role targetRu))]
        [(''target_uid'', JStr targetUid), (''removed'', JBool True)]) (\<lambda>_.
     succeed (rid, targetUid))))))))))))))))"

definition RoomLeave ::
  "admin_env \<Rightarrow> http_user option \<Rightarrow> rid option \<Rightarrow> ('a admin_store_scheme, reply, rid) act" where
  "RoomLeave e user body =
     andThen (GetUser user) (\<lambda>u.
     andThen (parsed body (BadRequest ''no room id'')) (\<lambda>rid0.
     andThen (check (rid0 \<noteq> []) (BadRequest ''no room id'')) (\<lambda>_.
     let rid = TrimSpace rid0 in
     andThen (orFail (query (GetRoomByRid (ae_room e) rid)) (BadRequest ''no such room'')) (\<lambda>room.
     andThen (check (r_Type room = RoomTypeGroup) (BadRequest ''group rooms only'')) (\<lambda>_.
     andThen (has_room_user e rid (hu_Uid u)) (\<lambda>member.
     andThen (check member (BadRequest ''not in the room'')) (\<lambda>_.
     andThen (orFail (query (GetRoomUser (ae_room e) rid (hu_Uid u))) (ServerError ''member query failed'')) (\<lambda>ru.
     andThen (check (ru_Role ru \<noteq> RoomUserRoleOwner) (BadRequest ''hand the room over first'')) (\<lambda>_.
     andThen (remove_member_tx e rid (hu_Uid u) (ServerError ''leaving failed'')) (\<lambda>_.
     andThen (after_removal e rid (hu_Uid u)) (\<lambda>_.
     andThen (reading (GetRoomAdminAndOwnerUids (ae_room e) rid (hu_Uid u))) (\<lambda>admins.
     andThen (case admins of Inl _ \<Rightarrow> succeed () | Inr adminUids \<Rightarrow>
         notify_users e rid [(''event'', JStr ''member_leave''), (''leave_uid'', JStr (hu_Uid u)),
           (''leave_nickname'', JStr (if TrimSpace (ru_RoomNickname ru) = [] then hu_Nickname u
              else TrimSpace (ru_RoomNickname ru))),
           (''room_rid'', JStr rid), (''room_name'', JStr (r_Name room))] adminUids) (\<lambda>_.
     andThen (PublishUserOperationLog e (hu_Uid u) ''room_leave'' rid []
        [(''rid'', JStr rid), (''room_name'', JStr (r_Name room))]) (\<lambda>_.
     succeed rid))))))))))))))"

end
