(* ===== verification/RoomEntry.thy ===== *)
theory RoomEntry
  imports RoomAdmin
begin

text \<open>
  Ways into a room: \<open>RoomJoin\<close> of \<open>http/handler/room/room.go\<close>, the join requests of
  \<open>http/handler/room/join_request.go\<close> and \<open>db/query/room_join_request.go\<close>, and the invite
  links of \<open>http/handler/room/invite.go\<close> and \<open>db/query/room_invite.go\<close>. All of them end in
  the one transaction that makes a user a member.
\<close>

section \<open>Becoming a member\<close>

definition join_tx ::
  "admin_env \<Rightarrow> http_user \<Rightarrow> room \<Rightarrow> int \<Rightarrow> uid \<Rightarrow> ('a admin_store_scheme, room_error, mid) act" where
  "join_tx e u room seqId inviteInviterUid = transaction e RoomStoreError (
     let inviter = TrimSpace inviteInviterUid in
     andThen (UpsertActiveRoomUserTx (ae_room e) (r_Rid room) (hu_Uid u) (hu_Nickname u) (ae_now e)) (\<lambda>_.
     andThen (add_member_count e (r_Rid room)) (\<lambda>_.
     andThen (create_message_row e (r_Rid room) seqId (ae_ip e)) (\<lambda>mid.
     andThen (if inviter = [] then create_content_row e mid ''user:join'' (hu_Uid u) (ae_json e [])
              else create_content_row e mid ''user:invite:join'' (hu_Uid u)
                (ae_json e [(''inviter_uid'', JStr inviter), (''join_uid'', JStr (hu_Uid u))])) (\<lambda>_.
     andThen (clear_tops e (hu_Uid u)) (\<lambda>_.
     andThen (UpsertActiveUserRoomSessionTx (ae_room e) (hu_Uid u) (r_Rid room) (InitialLastSeqIdOnRoomJoin seqId) (ae_now e)) (\<lambda>_.
       succeed mid)))))))"

definition joinRoomCommittedAfterValidation ::
  "admin_env \<Rightarrow> http_user \<Rightarrow> room \<Rightarrow> uid \<Rightarrow> ('a admin_store_scheme, room_error, unit) act" where
  "joinRoomCommittedAfterValidation e u room inviteInviterUid =
     andThen (next_seq e (r_Rid room)) (\<lambda>seqId.
     andThen (join_tx e u room seqId inviteInviterUid) (\<lambda>mid.
     andThen (quietly (BumpUserRoomSessionLastMessageTime (ae_room e) (r_Rid room) (ae_now e))) (\<lambda>_.
     andThen (refresh_members e (r_Rid room)) (\<lambda>_.
     andThen (NotifyQuic e (RoomMessageNotify mid)) (\<lambda>_.
     andThen (quietly (AddUserToRoomOnlineSetIfOnline e (r_Rid room) (hu_Uid u))) (\<lambda>_.
     PublishUserOperationLog e (hu_Uid u) ''room_join'' (r_Rid room) []
       [(''rid'', JStr (r_Rid room)), (''room_name'', JStr (r_Name room))]))))))"

section \<open>Join requests in the database\<close>

definition GetRoomJoinRequestByRjrId :: "admin_env \<Rightarrow> string \<Rightarrow> 'a admin_store_scheme \<Rightarrow> room_error + join_request option" where
  "GetRoomJoinRequestByRjrId e rjrId s =
     (if ae_fails e FindJoinRequest then Inl RoomStoreError
      else Inr (find (\<lambda>q. jr_RjrId q = rjrId \<and> jr_DeleteTime q = 0) (join_requests s)))"

text \<open>A user has one row for a room (a unique index), so the newest is the only one.\<close>

definition GetRoomJoinRequestByRidAndApplicant ::
  "admin_env \<Rightarrow> rid \<Rightarrow> uid \<Rightarrow> 'a admin_store_scheme \<Rightarrow> room_error + join_request option" where
  "GetRoomJoinRequestByRidAndApplicant e rid applicantUid s =
     (if ae_fails e FindJoinRequest then Inl RoomStoreError
      else Inr (find (\<lambda>q. jr_Rid q = rid \<and> jr_ApplicantUid q = applicantUid \<and> jr_DeleteTime q = 0) (join_requests s)))"

definition GetPendingRoomJoinRequestByRidAndApplicant ::
  "admin_env \<Rightarrow> rid \<Rightarrow> uid \<Rightarrow> 'a admin_store_scheme \<Rightarrow> room_error + join_request option" where
  "GetPendingRoomJoinRequestByRidAndApplicant e rid applicantUid s =
     (case GetRoomJoinRequestByRidAndApplicant e rid applicantUid s of
        Inr (Some q) \<Rightarrow>
          if jr_State q \<noteq> 0 then Inr None
          else if jr_ExpiresAt q > 0 \<and> jr_ExpiresAt q < ae_now e then Inr None else Inr (Some q)
      | r \<Rightarrow> r)"

definition week :: time where "week = 7 * 24 * 3600 * 1000"

definition CreateOrUpdateRoomJoinRequest ::
  "admin_env \<Rightarrow> rid \<Rightarrow> uid \<Rightarrow> string \<Rightarrow> string \<Rightarrow> time \<Rightarrow> ('a admin_store_scheme, room_error, join_request) act" where
  "CreateOrUpdateRoomJoinRequest e rid applicantUid message ans expiresAt =
     andThen (query (GetRoomJoinRequestByRidAndApplicant e rid applicantUid)) (\<lambda>existing.
       case existing of
         Some q \<Rightarrow> (\<lambda>s.
           let q' = q\<lparr>jr_State := 0, jr_Message := message, jr_Answer := ans, jr_ExpiresAt := expiresAt,
                      jr_ProcessedAt := 0, jr_HandlerUid := []\<rparr> in
           if ae_fails e WriteJoinRequest then (Inl RoomStoreError, s)
           else (Inr q', s\<lparr>join_requests := map (\<lambda>v. if jr_RjrId v = jr_RjrId q then q' else v) (join_requests s)\<rparr>))
       | None \<Rightarrow> andThen (new_xid e) (\<lambda>rjrId s.
           let q = \<lparr>jr_RjrId = rjrId, jr_Rid = rid, jr_ApplicantUid = applicantUid, jr_Message = message,
                    jr_Answer = ans, jr_State = 0, jr_HandlerUid = [], jr_ExpiresAt = expiresAt, jr_ProcessedAt = 0,
                    jr_CreateTime = ae_now e, jr_DeleteTime = 0\<rparr> in
           if ae_fails e WriteJoinRequest \<or> rjrId \<in> jr_RjrId ` set (join_requests s) \<or>
              (\<exists>v \<in> set (join_requests s). jr_Rid v = rid \<and> jr_ApplicantUid v = applicantUid)
           then (Inl RoomStoreError, s)
           else (Inr q, s\<lparr>join_requests := join_requests s @ [q]\<rparr>)))"

definition UpdateRoomJoinRequestStateWithTx ::
  "admin_env \<Rightarrow> string \<Rightarrow> uid \<Rightarrow> int \<Rightarrow> ('a admin_store_scheme, room_error, unit) act" where
  "UpdateRoomJoinRequestStateWithTx e rjrId handlerUid state s =
     (if ae_fails e WriteJoinRequest then (Inl RoomStoreError, s)
      else (Inr (), s\<lparr>join_requests := map (\<lambda>q. if jr_RjrId q = rjrId
        then q\<lparr>jr_State := state, jr_HandlerUid := handlerUid, jr_ProcessedAt := ae_now e\<rparr> else q) (join_requests s)\<rparr>))"

section \<open>Invites in the database\<close>

definition CreateRoomInvite :: "admin_env \<Rightarrow> room_invite \<Rightarrow> ('a admin_store_scheme, room_error, unit) act" where
  "CreateRoomInvite e iv s =
     (if ae_fails e WriteInvite \<or> iv_InviteId iv \<in> iv_InviteId ` set (invites s) \<or> iv_Token iv \<in> iv_Token ` set (invites s)
      then (Inl RoomStoreError, s)
      else (Inr (), s\<lparr>invites := invites s @ [iv]\<rparr>))"

definition GetActiveRoomInviteByToken ::
  "admin_env \<Rightarrow> string \<Rightarrow> time \<Rightarrow> 'a admin_store_scheme \<Rightarrow> room_error + room_invite option" where
  "GetActiveRoomInviteByToken e token nowMs s =
     (if ae_fails e FindInvite then Inl RoomStoreError
      else Inr (find (\<lambda>i. iv_Token i = token \<and> iv_DeleteTime i = 0 \<and> iv_ExpiresAt i > nowMs) (invites s)))"

definition RecordRoomInviteJoin :: "admin_env \<Rightarrow> room_invite \<Rightarrow> uid \<Rightarrow> ('a admin_store_scheme, room_error, unit) act" where
  "RecordRoomInviteJoin e iv joinUid s =
     (if ae_fails e WriteInvite \<or> re_fails (ae_room e) CommitRoom then (Inl RoomStoreError, s)
      else (Inr (), s\<lparr>
        invite_joins := invite_joins s @ [\<lparr>ij_InviteId = iv_InviteId iv, ij_Token = iv_Token iv, ij_Rid = iv_Rid iv,
          ij_InviterUid = iv_InviterUid iv, ij_JoinUid = joinUid, ij_JoinAt = ae_now e\<rparr>],
        invites := map (\<lambda>i. if iv_InviteId i = iv_InviteId iv \<and> iv_DeleteTime i = 0
          then i\<lparr>iv_JoinSuccessCount := iv_JoinSuccessCount i + 1, iv_LastJoinUid := joinUid, iv_LastJoinAt := ae_now e\<rparr>
          else i) (invites s)\<rparr>))"

section \<open>Joining a room\<close>

text \<open>Refused with the question of the room; a pending request is answered first.\<close>

definition approval_required :: "admin_env \<Rightarrow> rid \<Rightarrow> uid \<Rightarrow> room \<Rightarrow> ('a admin_store_scheme, reply, 'r) act" where
  "approval_required e rid uid room =
     andThen (reading (GetPendingRoomJoinRequestByRidAndApplicant e rid uid)) (\<lambda>pending.
       case pending of
         Inr (Some _) \<Rightarrow> refuse (BadRequest ''request pending'')
       | _ \<Rightarrow> refuse (JoinApprovalReply (r_JoinQuestionEnabled room) (r_JoinQuestion room)))"

text \<open>The body is a map; a field that is missing or no string is \<open>None\<close>.\<close>

definition RoomJoin ::
  "admin_env \<Rightarrow> http_user option \<Rightarrow> (string option \<times> string option) option \<Rightarrow> ('a admin_store_scheme, reply, unit) act" where
  "RoomJoin e user body =
     andThen (GetUser user) (\<lambda>u.
     andThen (parsed body (BadRequest ''bad body'')) (\<lambda>(ridField, passwordField).
     andThen (parsed ridField (BadRequest ''no room id'')) (\<lambda>rid.
     andThen (check (rid \<noteq> []) (BadRequest ''no room id'')) (\<lambda>_.
     let password = (case passwordField of None \<Rightarrow> [] | Some p \<Rightarrow> p) in
     andThen (orFail (query (GetRoomByRid (ae_room e) rid)) (BadRequest ''no such room'')) (\<lambda>room.
     andThen (check (r_Password room = [] \<or> ae_compare e (r_Password room) password) (BadRequest ''wrong password'')) (\<lambda>_.
     andThen (check (r_Type room \<noteq> RoomTypePrivate) (BadRequest ''cannot be joined'')) (\<lambda>_.
     andThen (has_room_user e rid (hu_Uid u)) (\<lambda>member.
     andThen (check (\<not> member) (BadRequest ''already a member'')) (\<lambda>_.
     if r_JoinApprovalRequired room then approval_required e rid (hu_Uid u) room
     else orFail (joinRoomCommittedAfterValidation e u room []) (ServerError ''join failed''))))))))))"

section \<open>Join requests\<close>

definition validatePublicRoomJoin ::
  "admin_env \<Rightarrow> http_user \<Rightarrow> rid \<Rightarrow> string \<Rightarrow> string \<Rightarrow> ('a admin_store_scheme, reply, room) act" where
  "validatePublicRoomJoin e u rid0 password inviteToken =
     (let rid = TrimSpace rid0; token = TrimSpace inviteToken in
     andThen (check (rid \<noteq> []) (BadRequest ''no room id'')) (\<lambda>_.
     andThen (orFail (query (GetRoomByRid (ae_room e) rid)) (BadRequest ''no such room'')) (\<lambda>room.
     andThen (if r_Password room = [] then succeed ()
              else if token \<noteq> [] then
                andThen (orFail (query (GetActiveRoomInviteByToken e token (ae_now e))) (ServerError ''invite query failed'')) (\<lambda>found.
                check (case found of None \<Rightarrow> False | Some i \<Rightarrow> iv_Rid i = rid \<and> iv_BypassPassword i)
                  (BadRequest ''invite invalid or expired''))
              else check (ae_compare e (r_Password room) password) (BadRequest ''wrong password'')) (\<lambda>_.
     andThen (check (r_Type room \<noteq> RoomTypePrivate) (BadRequest ''cannot be joined'')) (\<lambda>_.
     andThen (has_room_user e rid (hu_Uid u)) (\<lambda>member.
     andThen (check (\<not> member) (BadRequest ''already a member'')) (\<lambda>_.
     succeed room)))))))"

record join_config_body =
  jc_Rid :: rid
  jc_ApprovalRequired :: "bool option"
  jc_QuestionEnabled :: "bool option"
  jc_Question :: string
  jc_Answer :: string
  jc_AutoApprove :: "bool option"

text \<open>The updated columns of the room, and whether the body names any.\<close>

definition join_config :: "join_config_body \<Rightarrow> room \<Rightarrow> room" where
  "join_config b r =
     (let r1 = (case jc_ApprovalRequired b of None \<Rightarrow> r | Some v \<Rightarrow> r\<lparr>r_JoinApprovalRequired := v\<rparr>);
          r2 = (case jc_QuestionEnabled b of
                  None \<Rightarrow> r1
                | Some True \<Rightarrow> r1\<lparr>r_JoinQuestionEnabled := True, r_JoinQuestion := TrimSpace (jc_Question b),
                    r_JoinQuestionAnswer := TrimSpace (jc_Answer b)\<rparr>
                | Some False \<Rightarrow> r1\<lparr>r_JoinQuestionEnabled := False, r_JoinQuestion := [], r_JoinQuestionAnswer := [],
                    r_JoinQuestionAutoApprove := False\<rparr>)
      in case jc_AutoApprove b of None \<Rightarrow> r2 | Some v \<Rightarrow> r2\<lparr>r_JoinQuestionAutoApprove := v\<rparr>)"

definition join_config_log :: "room \<Rightarrow> jmap" where
  "join_config_log r = [(''join_approval_required'', JBool (r_JoinApprovalRequired r)),
     (''join_question_enabled'', JBool (r_JoinQuestionEnabled r)), (''join_question'', JStr (r_JoinQuestion r)),
     (''join_question_auto_approve'', JBool (r_JoinQuestionAutoApprove r))]"

text \<open>The room is read again for the reply; a failed read is a nil dereference in the code, which
  the recovery of the web framework answers.\<close>

definition RoomJoinConfigUpdate ::
  "admin_env \<Rightarrow> http_user option \<Rightarrow> join_config_body option \<Rightarrow> ('a admin_store_scheme, reply, jmap) act" where
  "RoomJoinConfigUpdate e user body =
     andThen (GetUser user) (\<lambda>u.
     andThen (parsed body (BadRequest ''bad body'')) (\<lambda>b.
     andThen (check (jc_Rid b \<noteq> []) (BadRequest ''bad body'')) (\<lambda>_.
     andThen (rejectIfRoomDissolved e (jc_Rid b)) (\<lambda>_.
     andThen (reading (CanUserMuteInRoom (ae_room e) (jc_Rid b) (hu_Uid u))) (\<lambda>admin.
     andThen (check admin (BadRequest ''admins only'')) (\<lambda>_.
     andThen (orFail (query (GetRoomByRid (ae_room e) (jc_Rid b))) (BadRequest ''no such room'')) (\<lambda>room.
     andThen (check (jc_ApprovalRequired b \<noteq> None \<or> jc_QuestionEnabled b \<noteq> None \<or> jc_AutoApprove b \<noteq> None)
        (BadRequest ''nothing to update'')) (\<lambda>_.
     andThen (check (jc_QuestionEnabled b = Some True \<longrightarrow> TrimSpace (jc_Question b) \<noteq> []) (BadRequest ''no question'')) (\<lambda>_.
     andThen (check (jc_QuestionEnabled b = Some True \<longrightarrow> TrimSpace (jc_Answer b) \<noteq> []) (BadRequest ''no answer'')) (\<lambda>_.
     andThen (check (jc_QuestionEnabled b = Some True \<longrightarrow> RuneCount (TrimSpace (jc_Question b)) \<le> 256)
        (BadRequest ''question too long'')) (\<lambda>_.
     andThen (check (jc_QuestionEnabled b = Some True \<longrightarrow> RuneCount (TrimSpace (jc_Answer b)) \<le> 128)
        (BadRequest ''answer too long'')) (\<lambda>_.
     andThen (orFail (write_room e (\<lambda>r. r_Rid r = jc_Rid b) (join_config b)) (ServerError ''update failed'')) (\<lambda>_.
     andThen (orFail (query (GetRoomByRid (ae_room e) (jc_Rid b))) (ServerError ''panic'')) (\<lambda>afterRoom.
     andThen (PublishRoomAdminLog e (jc_Rid b) ''join_config_update'' (hu_Uid u) (jc_Rid b)
        (join_config_log room) (join_config_log afterRoom)) (\<lambda>_.
     succeed (join_config_log afterRoom @
       [(''join_question_answer'', JStr (TrimSpace (r_JoinQuestionAnswer afterRoom)))]))))))))))))))))"

definition upsertAndPushJoinRequestNotification ::
  "admin_env \<Rightarrow> uid \<Rightarrow> string \<Rightarrow> int \<Rightarrow> string \<Rightarrow> ('a admin_store_scheme, room_error, unit) act" where
  "upsertAndPushJoinRequestNotification e uid relatedId type content =
     andThen (UpsertPendingMessageNotification e uid relatedId type content) (\<lambda>n.
     NotifyQuic e (NotificationNotify (nt_Nid n)))"

definition notifyRoomJoinRequest ::
  "admin_env \<Rightarrow> join_request \<Rightarrow> http_user \<Rightarrow> room \<Rightarrow> ('a admin_store_scheme, room_error, unit) act" where
  "notifyRoomJoinRequest e q applicant room =
     (let adminContent = ae_json e [(''rid'', JStr (r_Rid room)), (''room_name'', JStr (r_Name room)),
            (''applicant_uid'', JStr (hu_Uid applicant)), (''applicant_name'', JStr (hu_Nickname applicant)),
            (''message'', JStr (jr_Message q)), (''answer'', JStr (jr_Answer q)),
            (''join_question'', JStr (r_JoinQuestion room)), (''join_question_enabled'', JBool (r_JoinQuestionEnabled room))];
          applicantContent = ae_json e [(''rid'', JStr (r_Rid room)), (''room_name'', JStr (r_Name room)),
            (''message'', JStr (jr_Message q)), (''answer'', JStr (jr_Answer q)),
            (''join_question'', JStr (r_JoinQuestion room)), (''join_question_enabled'', JBool (r_JoinQuestionEnabled room))] in
     andThen (query (GetRoomAdminAndOwnerUids (ae_room e) (r_Rid room) (hu_Uid applicant))) (\<lambda>adminUids.
     andThen (each (\<lambda>adminUid. quietly (upsertAndPushJoinRequestNotification e adminUid (jr_RjrId q)
        NotificationTypeRoomJoinRequest adminContent)) adminUids) (\<lambda>_.
     upsertAndPushJoinRequestNotification e (hu_Uid applicant) (jr_RjrId q)
       NotificationTypeRoomJoinRequestSend applicantContent)))"

record join_apply_body =
  ja_Rid :: rid
  ja_Password :: string
  ja_Token :: string
  ja_Message :: string
  ja_Answer :: string

text \<open>What \<open>RoomJoinApply\<close> answers: the user is in at once, or the request that waits.\<close>

datatype apply_result = AutoApproved rid | Waiting join_request

definition RoomJoinApply ::
  "admin_env \<Rightarrow> http_user option \<Rightarrow> join_apply_body option \<Rightarrow> ('a admin_store_scheme, reply, apply_result) act" where
  "RoomJoinApply e user body =
     andThen (GetUser user) (\<lambda>u.
     andThen (parsed body (BadRequest ''bad body'')) (\<lambda>b.
     andThen (check (ja_Rid b \<noteq> []) (BadRequest ''bad body'')) (\<lambda>_.
     andThen (validatePublicRoomJoin e u (ja_Rid b) (ja_Password b) (ja_Token b)) (\<lambda>room.
     andThen (check (r_JoinApprovalRequired room) (BadRequest ''join directly'')) (\<lambda>_.
     let answer = TrimSpace (ja_Answer b); message0 = TrimSpace (ja_Message b);
         asked = r_JoinQuestionEnabled room; message = (if asked then answer else message0) in
     andThen (check (asked \<longrightarrow> answer \<noteq> []) (BadRequest ''no answer'')) (\<lambda>_.
     andThen (check (asked \<longrightarrow> RuneCount answer \<le> 128) (BadRequest ''answer too long'')) (\<lambda>_.
     andThen (check (\<not> asked \<longrightarrow> RuneCount message0 \<le> 255) (BadRequest ''message too long'')) (\<lambda>_.
     let expected = TrimSpace (r_JoinQuestionAnswer room) in
     if asked \<and> r_JoinQuestionAutoApprove room \<and> expected \<noteq> [] \<and> answer = expected then
       andThen (orFail (joinRoomCommittedAfterValidation e u room []) (ServerError ''join failed'')) (\<lambda>_.
       andThen (PublishUserOperationLog e (hu_Uid u) ''room_join_apply'' (ja_Rid b) []
          [(''rid'', JStr (ja_Rid b)), (''auto_approved'', JBool True)]) (\<lambda>_.
       succeed (AutoApproved (ja_Rid b))))
     else
       andThen (orFail (CreateOrUpdateRoomJoinRequest e (ja_Rid b) (hu_Uid u) message answer (ae_now e + week))
          (ServerError ''request failed'')) (\<lambda>q.
       andThen (quietly (notifyRoomJoinRequest e q u room)) (\<lambda>_.
       andThen (PublishUserOperationLog e (hu_Uid u) ''room_join_apply'' (jr_RjrId q) []
          [(''rid'', JStr (ja_Rid b)), (''message'', JStr message)]) (\<lambda>_.
       succeed (Waiting q))))))))))))"

definition pushRoomJoinRequestHandledNotifications ::
  "admin_env \<Rightarrow> string \<Rightarrow> uid \<Rightarrow> ('a admin_store_scheme, reply, unit) act" where
  "pushRoomJoinRequestHandledNotifications e rjrId applicantUid =
     andThen (if applicantUid = [] then succeed ()
       else andThen (reading (GetMessageNotificationsByRelatedIdAndType e rjrId NotificationTypeRoomJoinRequestSend)) (\<lambda>r.
         case r of Inl _ \<Rightarrow> succeed ()
         | Inr ns \<Rightarrow> each (\<lambda>n. NotifyQuic e (NotificationNotify (nt_Nid n))) (filter (\<lambda>n. nt_Uid n = applicantUid) ns))) (\<lambda>_.
     andThen (reading (GetMessageNotificationsByRelatedIdAndType e rjrId NotificationTypeRoomJoinRequest)) (\<lambda>r.
       case r of Inl _ \<Rightarrow> succeed () | Inr ns \<Rightarrow> each (\<lambda>n. NotifyQuic e (NotificationNotify (nt_Nid n))) ns))"

text \<open>The transaction that decides a request, and the notifications of the administrators.\<close>

definition decide_request ::
  "admin_env \<Rightarrow> string \<Rightarrow> uid \<Rightarrow> uid \<Rightarrow> int \<Rightarrow> int \<Rightarrow> ('a admin_store_scheme, reply, unit) act" where
  "decide_request e rjrId handlerUid applicantUid state notificationState =
     andThen (transaction e (ServerError ''request failed'') (orFail (
       andThen (UpdateRoomJoinRequestStateWithTx e rjrId handlerUid state) (\<lambda>_.
       UpdateMessageNotificationStateWithTx e applicantUid rjrId NotificationTypeRoomJoinRequestSend notificationState))
       (ServerError ''request failed''))) (\<lambda>_.
     quietly (UpdateAllMessageNotificationStatesByRelatedIdAndType e rjrId NotificationTypeRoomJoinRequest notificationState))"

definition RoomJoinRequestAccept ::
  "admin_env \<Rightarrow> http_user option \<Rightarrow> string option \<Rightarrow> ('a admin_store_scheme, reply, rid) act" where
  "RoomJoinRequestAccept e user body =
     andThen (GetUser user) (\<lambda>u.
     andThen (parsed body (BadRequest ''bad body'')) (\<lambda>rjrId.
     andThen (check (rjrId \<noteq> []) (BadRequest ''bad body'')) (\<lambda>_.
     andThen (orFail (query (GetRoomJoinRequestByRjrId e rjrId)) (BadRequest ''no such request'')) (\<lambda>found.
     andThen (parsed found (BadRequest ''no such request'')) (\<lambda>q.
     andThen (check (jr_State q = 0) (BadRequest ''already handled'')) (\<lambda>_.
     andThen (check (\<not> (jr_ExpiresAt q > 0 \<and> jr_ExpiresAt q < ae_now e)) (BadRequest ''expired'')) (\<lambda>_.
     andThen (reading (CanUserMuteInRoom (ae_room e) (jr_Rid q) (hu_Uid u))) (\<lambda>admin.
     andThen (check admin (BadRequest ''admins only'')) (\<lambda>_.
     andThen (has_room_user e (jr_Rid q) (jr_ApplicantUid q)) (\<lambda>member.
     andThen (check (\<not> member) (BadRequest ''already a member'')) (\<lambda>_.
     andThen (orFail (query (GetRoomByRid (ae_room e) (jr_Rid q))) (BadRequest ''no such room'')) (\<lambda>room.
     andThen (orFail (query (GetUserByUid e (jr_ApplicantUid q))) (BadRequest ''no such applicant'')) (\<lambda>applicant.
     andThen (decide_request e rjrId (hu_Uid u) (jr_ApplicantUid q) 2 NotificationRoomStateAccepted) (\<lambda>_.
     andThen (orFail (joinRoomCommittedAfterValidation e applicant room []) (ServerError ''join failed'')) (\<lambda>_.
     andThen (pushRoomJoinRequestHandledNotifications e rjrId (jr_ApplicantUid q)) (\<lambda>_.
     andThen (PublishRoomAdminLog e (jr_Rid q) ''join_request_accept'' (hu_Uid u) rjrId [(''state'', JInt 0)]
        [(''state'', JInt 2), (''applicant_uid'', JStr (jr_ApplicantUid q))]) (\<lambda>_.
     andThen (PublishUserOperationLog e (hu_Uid u) ''room_join_request_accept'' rjrId []
        [(''rid'', JStr (jr_Rid q)), (''applicant_uid'', JStr (jr_ApplicantUid q))]) (\<lambda>_.
     succeed (jr_Rid q)))))))))))))))))))"

definition RoomJoinRequestReject ::
  "admin_env \<Rightarrow> http_user option \<Rightarrow> string option \<Rightarrow> ('a admin_store_scheme, reply, string) act" where
  "RoomJoinRequestReject e user body =
     andThen (GetUser user) (\<lambda>u.
     andThen (parsed body (BadRequest ''bad body'')) (\<lambda>rjrId.
     andThen (check (rjrId \<noteq> []) (BadRequest ''bad body'')) (\<lambda>_.
     andThen (orFail (query (GetRoomJoinRequestByRjrId e rjrId)) (BadRequest ''no such request'')) (\<lambda>found.
     andThen (parsed found (BadRequest ''no such request'')) (\<lambda>q.
     andThen (check (jr_State q = 0) (BadRequest ''already handled'')) (\<lambda>_.
     andThen (reading (CanUserMuteInRoom (ae_room e) (jr_Rid q) (hu_Uid u))) (\<lambda>admin.
     andThen (check admin (BadRequest ''admins only'')) (\<lambda>_.
     andThen (decide_request e rjrId (hu_Uid u) (jr_ApplicantUid q) 1 NotificationRoomStateRejected) (\<lambda>_.
     andThen (pushRoomJoinRequestHandledNotifications e rjrId (jr_ApplicantUid q)) (\<lambda>_.
     andThen (PublishRoomAdminLog e (jr_Rid q) ''join_request_reject'' (hu_Uid u) rjrId [(''state'', JInt 0)]
        [(''state'', JInt 1), (''applicant_uid'', JStr (jr_ApplicantUid q))]) (\<lambda>_.
     andThen (PublishUserOperationLog e (hu_Uid u) ''room_join_request_reject'' rjrId []
        [(''rid'', JStr (jr_Rid q)), (''applicant_uid'', JStr (jr_ApplicantUid q))]) (\<lambda>_.
     succeed rjrId))))))))))))"

section \<open>Invite links\<close>

text \<open>The token is 24 random bytes in hexadecimal; the web address of the landing page comes
  from the configuration, with the query escape of \<open>net/url\<close>.\<close>

record invite_env =
  ie_token :: string
  ie_base :: string
  ie_escape :: "string \<Rightarrow> string"

definition newInviteToken :: "admin_env \<Rightarrow> invite_env \<Rightarrow> unit + string" where
  "newInviteToken e ie = (if ae_fails e RandomRead then Inl () else Inr (ie_token ie))"

definition TrimRightSlash :: "string \<Rightarrow> string" where
  "TrimRightSlash s = rev (dropWhile (\<lambda>c. c = CHR ''/'') (rev s))"

definition inviteLandingBaseURL :: "invite_env \<Rightarrow> string" where
  "inviteLandingBaseURL ie = TrimRightSlash (TrimSpace (ie_base ie))"

definition inviteWebURL :: "invite_env \<Rightarrow> string \<Rightarrow> string" where
  "inviteWebURL ie token =
     (if inviteLandingBaseURL ie = [] then [] else inviteLandingBaseURL ie @ ''/join/room?t='' @ ie_escape ie token)"

definition loadInviteByTokenOrBadRequest :: "admin_env \<Rightarrow> string \<Rightarrow> ('a admin_store_scheme, reply, room_invite) act" where
  "loadInviteByTokenOrBadRequest e token0 =
     (let token = TrimSpace token0 in
     andThen (check (token \<noteq> []) (BadRequest ''no invite'')) (\<lambda>_.
     andThen (orFail (query (GetActiveRoomInviteByToken e token (ae_now e))) (ServerError ''invite query failed'')) (\<lambda>found.
     parsed found (BadRequest ''invite invalid or expired''))))"

definition RoomInviteCreate ::
  "admin_env \<Rightarrow> invite_env \<Rightarrow> http_user option \<Rightarrow> rid option \<Rightarrow> ('a admin_store_scheme, reply, room_invite \<times> string) act" where
  "RoomInviteCreate e ie user body =
     andThen (GetUser user) (\<lambda>u.
     andThen (parsed body (BadRequest ''no room id'')) (\<lambda>rid0.
     andThen (check (TrimSpace rid0 \<noteq> []) (BadRequest ''no room id'')) (\<lambda>_.
     let rid = TrimSpace rid0 in
     andThen (rejectIfRoomDissolved e rid) (\<lambda>_.
     andThen (has_room_user e rid (hu_Uid u)) (\<lambda>member.
     andThen (check member (BadRequest ''members only'')) (\<lambda>_.
     andThen (orFail (query (GetRoomByRid (ae_room e) rid)) (BadRequest ''no such room'')) (\<lambda>room.
     andThen (check (r_Type room \<noteq> RoomTypePrivate \<and> r_Type room \<noteq> RoomTypeGroupPrivate \<and> r_Type room \<noteq> RoomTypeSelfChat)
        (BadRequest ''no invites to this room'')) (\<lambda>_.
     andThen (check (inviteLandingBaseURL ie \<noteq> []) (ServerError ''not configured'')) (\<lambda>_.
     andThen (orFail (query (\<lambda>_. newInviteToken e ie)) (ServerError ''no token'')) (\<lambda>token.
     andThen (new_xid e) (\<lambda>inviteId.
     let iv = \<lparr>iv_InviteId = inviteId, iv_Token = token, iv_Rid = rid, iv_InviterUid = hu_Uid u, iv_BypassPassword = True,
               iv_ExpiresAt = ae_now e + week, iv_JoinSuccessCount = 0, iv_LastJoinUid = [], iv_LastJoinAt = 0,
               iv_DeleteTime = 0\<rparr> in
     andThen (orFail (CreateRoomInvite e iv) (ServerError ''invite failed'')) (\<lambda>_.
     succeed (iv, inviteWebURL ie token)))))))))))))"

record invite_preview =
  ip_Invite :: room_invite
  ip_Room :: room
  ip_InviterName :: string
  ip_WebURL :: string

definition RoomInvitePreview ::
  "admin_env \<Rightarrow> invite_env \<Rightarrow> string \<Rightarrow> ('a admin_store_scheme, reply, invite_preview) act" where
  "RoomInvitePreview e ie token =
     andThen (loadInviteByTokenOrBadRequest e token) (\<lambda>iv.
     andThen (orFail (query (GetRoomByRid (ae_room e) (iv_Rid iv))) (BadRequest ''no such room'')) (\<lambda>room.
     andThen (reading (GetUserByUid e (iv_InviterUid iv))) (\<lambda>inviter.
     succeed \<lparr>ip_Invite = iv, ip_Room = room\<lparr>r_Password := (if r_Password room = [] then [] else ''set'')\<rparr>,
       ip_InviterName = (case inviter of Inl _ \<Rightarrow> iv_InviterUid iv
          | Inr t \<Rightarrow> if TrimSpace (hu_Nickname t) \<noteq> [] then hu_Nickname t else iv_InviterUid iv),
       ip_WebURL = inviteWebURL ie (iv_Token iv)\<rparr>)))"

text \<open>The invite, and whether the user was a member already.\<close>

definition RoomJoinInvite ::
  "admin_env \<Rightarrow> http_user option \<Rightarrow> string option \<Rightarrow> ('a admin_store_scheme, reply, room_invite \<times> bool) act" where
  "RoomJoinInvite e user body =
     andThen (GetUser user) (\<lambda>u.
     andThen (parsed body (BadRequest ''no token'')) (\<lambda>token.
     andThen (check (TrimSpace token \<noteq> []) (BadRequest ''no token'')) (\<lambda>_.
     andThen (loadInviteByTokenOrBadRequest e token) (\<lambda>iv.
     andThen (orFail (query (GetRoomByRid (ae_room e) (iv_Rid iv))) (BadRequest ''no such room'')) (\<lambda>room.
     andThen (check (r_Type room \<noteq> RoomTypePrivate \<and> r_Type room \<noteq> RoomTypeGroupPrivate \<and> r_Type room \<noteq> RoomTypeSelfChat)
        (BadRequest ''cannot be joined'')) (\<lambda>_.
     andThen (check (r_Password room = [] \<or> iv_BypassPassword iv) (BadRequest ''password required'')) (\<lambda>_.
     andThen (has_room_user e (iv_Rid iv) (hu_Uid u)) (\<lambda>member.
     if member then succeed (iv, True)
     else if r_JoinApprovalRequired room then approval_required e (iv_Rid iv) (hu_Uid u) room
     else
       andThen (orFail (joinRoomCommittedAfterValidation e u room (iv_InviterUid iv)) (ServerError ''join failed'')) (\<lambda>_.
       andThen (quietly (RecordRoomInviteJoin e iv (hu_Uid u))) (\<lambda>_.
       succeed (iv, False)))))))))))"

end
