(* ===== verification/RoomMuting.thy ===== *)
theory RoomMuting
  imports RoomAdmin
begin

text \<open>
  The handlers of \<open>http/handler/room/room.go\<close> that silence: the mute settings of a room
  and the tasks that announce a time window, the mute of one member and of all, what a
  member may do now, and the blocking of rooms and of users inside a room. The queries they
  call are in \<open>RoomMute\<close> and \<open>Messages\<close>.
\<close>

unbundle bit_operations_syntax

section \<open>The settings of a room\<close>

definition RoomMuteConfig :: "admin_env \<Rightarrow> http_user option \<Rightarrow> rid \<Rightarrow> ('a admin_store_scheme, reply, mute_config) act" where
  "RoomMuteConfig e user rid =
     andThen (GetUser user) (\<lambda>u.
     andThen (check (rid \<noteq> []) (BadRequest ''no room id'')) (\<lambda>_.
     andThen (rejectIfRoomDissolved e rid) (\<lambda>_.
     andThen (has_room_user e rid (hu_Uid u)) (\<lambda>member.
     andThen (check member (BadRequest ''not in the room'')) (\<lambda>_.
     orFail (query (GetRoomMuteConfig (ae_room e) rid)) (ServerError ''settings query failed''))))))"

record mute_config_body =
  mb_Rid :: rid
  mb_IsMuteAll :: bool
  mb_Reason :: string
  mb_RuleType :: "8 word"
  mb_RuleConfig :: string
  mb_AllowRoles :: "int list"
  mb_ExceptUsers :: "uid list"
  mb_EffectiveAt :: time
  mb_ExpiresAt :: time
  mb_IsActive :: bool

text \<open>The roles that may speak, and the users exempt: without duplicates, in order.\<close>

fun collect_roles :: "int list \<Rightarrow> int list \<Rightarrow> ('s, reply, int list) act" where
  "collect_roles found [] = succeed found"
| "collect_roles found (r # rs) =
     (if r \<noteq> RoomUserRoleNormal \<and> r \<noteq> RoomUserRoleAdmin \<and> r \<noteq> RoomUserRoleOwner then refuse (BadRequest ''bad role'')
      else if r \<in> set found then collect_roles found rs else collect_roles (found @ [r]) rs)"

fun collect_except :: "admin_env \<Rightarrow> rid \<Rightarrow> uid list \<Rightarrow> uid list \<Rightarrow> ('a admin_store_scheme, reply, uid list) act" where
  "collect_except e rid found [] = succeed found"
| "collect_except e rid found (u # us) =
     (if u = [] \<or> u \<in> set found then collect_except e rid found us
      else andThen (has_room_user e rid u) (\<lambda>member.
        if member then collect_except e rid (found @ [u]) us else refuse (BadRequest ''exempt user not in the room'')))"

text \<open>
  The timed announcements of a time window. A Redis key with an expiry keeps a second task
  from being queued; the model keeps the key.
\<close>

definition schedule_task :: "admin_env \<Rightarrow> rid \<Rightarrow> string \<Rightarrow> time \<Rightarrow> ('a admin_store_scheme, 'e, unit) act" where
  "schedule_task e rid kind at_time = change (\<lambda>s.
     if ae_fails e StrategyKey \<or> (rid, kind, at_time) \<in> strategy_keys s then s
     else let s1 = s\<lparr>strategy_keys := insert (rid, kind, at_time) (strategy_keys s)\<rparr>
       in if ae_fails e StrategyTask then s1 else emit (StrategyTimeTask rid at_time kind) s1)"

definition scheduleStrategyMuteTime :: "admin_env \<Rightarrow> rid \<Rightarrow> time \<Rightarrow> time \<Rightarrow> 8 word \<Rightarrow> ('a admin_store_scheme, 'e, unit) act" where
  "scheduleStrategyMuteTime e rid effectiveAt expiresAt ruleType =
     (if ruleType AND RuleTypeBitTimeRange = 0 then succeed ()
      else andThen (if effectiveAt \<le> 0 then succeed ()
          else if effectiveAt \<le> ae_now e
          then CreateSystemMessageAndNotify e rid ''room:mute:strategy_start'' ''system'' [(''rid'', JStr rid)]
          else schedule_task e rid ''start'' effectiveAt) (\<lambda>_.
        if expiresAt > 0 \<and> expiresAt > ae_now e then schedule_task e rid ''end'' expiresAt else succeed ()))"

definition strategy_on :: "mute_config \<Rightarrow> bool" where
  "strategy_on c \<longleftrightarrow> mc_IsActive c \<and> \<not> mc_IsMuteAll c"

definition strategy_changed :: "mute_config \<Rightarrow> mute_config \<Rightarrow> bool" where
  "strategy_changed p c \<longleftrightarrow>
     mc_RuleType p \<noteq> mc_RuleType c \<or> mc_RuleConfig p \<noteq> mc_RuleConfig c \<or> mc_AllowRoles p \<noteq> mc_AllowRoles c \<or>
     mc_ExceptUsers p \<noteq> mc_ExceptUsers c \<or> mc_EffectiveAt p \<noteq> mc_EffectiveAt c \<or> mc_ExpiresAt p \<noteq> mc_ExpiresAt c"

text \<open>Both mutes cannot be on: the mute of all wins. \<open>columns\<close> gives the JSON text of the
  columns that hold the rule, the roles and the users; \<open>parse_rule\<close> reads a rule. The log entry names the
  settings row, of which a room has one, by its room.\<close>

definition announce_mute_all ::
  "admin_env \<Rightarrow> rid \<Rightarrow> uid \<Rightarrow> bool \<Rightarrow> bool \<Rightarrow> ('a admin_store_scheme, reply, unit) act" where
  "announce_mute_all e rid uid before now_on =
     andThen (createRoomSystemMessageAndNotify e rid (if now_on then ''room:mute:all:on'' else ''room:mute:all:off'') uid
        [(''by'', JStr uid)] [] []) (\<lambda>_.
     PublishRoomAdminLog e rid (if now_on then ''room_mute_all_on'' else ''room_mute_all_off'') uid rid
       [(''is_mute_all'', JBool before)] [(''is_mute_all'', JBool now_on)])"

definition announce_strategy ::
  "admin_env \<Rightarrow> (mute_config \<Rightarrow> jmap) \<Rightarrow> rid \<Rightarrow> uid \<Rightarrow> mute_config option \<Rightarrow> mute_config \<Rightarrow> ('a admin_store_scheme, reply, unit) act" where
  "announce_strategy e columns rid uid prev cfg =
     (let prevStrategy = (case prev of None \<Rightarrow> False | Some p \<Rightarrow> strategy_on p);
          nextStrategy = strategy_on cfg;
          kind = (if \<not> prevStrategy \<and> nextStrategy then ''enable''
                  else if prevStrategy \<and> \<not> nextStrategy then ''disable'' else ''update'')
      in andThen (createRoomSystemMessageAndNotify e rid (''room:mute:strategy:'' @ kind) uid
           ((''by'', JStr uid) # columns cfg @ [(''is_active'', JBool (mc_IsActive cfg)), (''is_mute_all'', JBool (mc_IsMuteAll cfg))])
           [] []) (\<lambda>_.
         PublishRoomAdminLog e rid (''room_mute_strategy_'' @ kind) uid rid
           (case prev of None \<Rightarrow> [] | Some p \<Rightarrow> columns p @ [(''is_active'', JBool (mc_IsActive p))])
           (columns cfg @ [(''is_active'', JBool (mc_IsActive cfg))])))"

definition RoomMuteConfigUpdate ::
  "admin_env \<Rightarrow> (mute_config \<Rightarrow> jmap) \<Rightarrow> (string \<Rightarrow> rule_text) \<Rightarrow> http_user option \<Rightarrow> mute_config_body option
   \<Rightarrow> ('a admin_store_scheme, reply, mute_config) act" where
  "RoomMuteConfigUpdate e columns parse_rule user body =
     andThen (GetUser user) (\<lambda>u.
     andThen (parsed body (BadRequest ''bad body'')) (\<lambda>b.
     andThen (check (mb_Rid b \<noteq> []) (BadRequest ''bad body'')) (\<lambda>_.
     andThen (rejectIfRoomDissolved e (mb_Rid b)) (\<lambda>_.
     andThen (reading (CanUserMuteInRoom (ae_room e) (mb_Rid b) (hu_Uid u))) (\<lambda>admin.
     andThen (check admin (BadRequest ''admins only'')) (\<lambda>_.
     andThen (reading (GetRoomMuteConfig (ae_room e) (mb_Rid b))) (\<lambda>prevRead.
     let prev = (case prevRead of Inl _ \<Rightarrow> None | Inr p \<Rightarrow> Some p) in
     andThen (check (\<not> (mb_EffectiveAt b > 0 \<and> mb_ExpiresAt b > 0 \<and> mb_EffectiveAt b > mb_ExpiresAt b))
        (BadRequest ''bad time window'')) (\<lambda>_.
     andThen (collect_roles [] (mb_AllowRoles b)) (\<lambda>allowRoles.
     andThen (collect_except e (mb_Rid b) [] (mb_ExceptUsers b)) (\<lambda>exceptUsers.
     andThen (check (mb_RuleConfig b \<noteq> [] \<longrightarrow> ae_json_valid e (mb_RuleConfig b)) (BadRequest ''bad rule'')) (\<lambda>_.
     let ruleConfig = (if mb_RuleConfig b = [] then empty_rule else parse_rule (mb_RuleConfig b));
         isActive = (mb_IsActive b \<and> \<not> mb_IsMuteAll b);
         isMuteAll = (mb_IsMuteAll b \<and> \<not> isActive) in
     andThen (orFail (SetRoomMuteConfigRule (ae_room e) (mb_Rid b) (hu_Uid u)
        \<lparr>rp_IsMuteAll = isMuteAll, rp_Reason = mb_Reason b, rp_RuleType = mb_RuleType b, rp_RuleConfig = ruleConfig,
         rp_AllowRoles = allowRoles, rp_ExceptUsers = exceptUsers, rp_EffectiveAt = mb_EffectiveAt b,
         rp_ExpiresAt = mb_ExpiresAt b, rp_IsActive = isActive\<rparr>) (ServerError ''update failed'')) (\<lambda>_.
     andThen (orFail (query (GetRoomMuteConfig (ae_room e) (mb_Rid b))) (ServerError ''settings query failed'')) (\<lambda>cfg.
     andThen (case prev of None \<Rightarrow> succeed () | Some p \<Rightarrow>
        if mc_IsMuteAll p \<noteq> mc_IsMuteAll cfg
        then announce_mute_all e (mb_Rid b) (hu_Uid u) (mc_IsMuteAll p) (mc_IsMuteAll cfg) else succeed ()) (\<lambda>_.
     andThen (if (case prev of None \<Rightarrow> False | Some p \<Rightarrow> strategy_on p) \<noteq> strategy_on cfg \<or>
               (strategy_on cfg \<and> (case prev of None \<Rightarrow> True | Some p \<Rightarrow> strategy_changed p cfg))
              then announce_strategy e columns (mb_Rid b) (hu_Uid u) prev cfg else succeed ()) (\<lambda>_.
     andThen (scheduleStrategyMuteTime e (mb_Rid b) (mc_EffectiveAt cfg) (mc_ExpiresAt cfg) (mc_RuleType cfg)) (\<lambda>_.
     succeed cfg))))))))))))))))"

section \<open>Muting one member\<close>

definition before_mute_until :: "room_error + room_user \<Rightarrow> time" where
  "before_mute_until r = (case r of Inl _ \<Rightarrow> 0 | Inr ru \<Rightarrow> ru_MuteUntil ru)"

definition RoomMute ::
  "admin_env \<Rightarrow> http_user option \<Rightarrow> (rid \<times> uid \<times> int \<times> string) option \<Rightarrow> ('a admin_store_scheme, reply, uid \<times> time) act" where
  "RoomMute e user body =
     andThen (GetUser user) (\<lambda>u.
     andThen (parsed body (BadRequest ''bad body'')) (\<lambda>(rid, targetUid, durationSec0, reason).
     andThen (check (rid \<noteq> [] \<and> targetUid \<noteq> []) (BadRequest ''bad body'')) (\<lambda>_.
     andThen (rejectIfRoomDissolved e rid) (\<lambda>_.
     andThen (reading (CanUserMuteInRoom (ae_room e) rid (hu_Uid u))) (\<lambda>admin.
     andThen (check admin (BadRequest ''admins only'')) (\<lambda>_.
     let durationSec = (if durationSec0 \<le> 0 then 3600 else durationSec0) in
     andThen (reading (GetRoomUser (ae_room e) rid targetUid)) (\<lambda>ruBefore.
     andThen (orFail (MuteUserInRoom (ae_room e) rid targetUid (hu_Uid u) durationSec) (ServerError ''mute failed'')) (\<lambda>_.
     andThen (orFail (query (GetRoomUser (ae_room e) rid targetUid)) (ServerError ''mute failed'')) (\<lambda>ru.
     andThen (createRoomSystemMessageAndNotify e rid ''room:mute:user'' (hu_Uid u)
        [(''target_uid'', JStr targetUid), (''operator_uid'', JStr (hu_Uid u)), (''mute_until'', JInt (ru_MuteUntil ru)),
         (''duration_sec'', JInt durationSec), (''reason'', JStr reason)] [] []) (\<lambda>_.
     andThen (PublishRoomAdminLog e rid ''room_mute'' (hu_Uid u) targetUid
        [(''target_uid'', JStr targetUid), (''mute_until'', JInt (before_mute_until ruBefore))]
        [(''target_uid'', JStr targetUid), (''mute_until'', JInt (ru_MuteUntil ru))]) (\<lambda>_.
     succeed (targetUid, ru_MuteUntil ru))))))))))))"

definition RoomUnmute ::
  "admin_env \<Rightarrow> http_user option \<Rightarrow> (rid \<times> uid \<times> string) option \<Rightarrow> ('a admin_store_scheme, reply, uid \<times> time) act" where
  "RoomUnmute e user body =
     andThen (GetUser user) (\<lambda>u.
     andThen (parsed body (BadRequest ''bad body'')) (\<lambda>(rid, targetUid, reason).
     andThen (check (rid \<noteq> [] \<and> targetUid \<noteq> []) (BadRequest ''bad body'')) (\<lambda>_.
     andThen (rejectIfRoomDissolved e rid) (\<lambda>_.
     andThen (reading (CanUserMuteInRoom (ae_room e) rid (hu_Uid u))) (\<lambda>admin.
     andThen (check admin (BadRequest ''admins only'')) (\<lambda>_.
     andThen (reading (GetRoomUser (ae_room e) rid targetUid)) (\<lambda>ruBefore.
     andThen (orFail (UnmuteUserInRoom (ae_room e) rid targetUid) (ServerError ''unmute failed'')) (\<lambda>_.
     andThen (createRoomSystemMessageAndNotify e rid ''room:unmute:user'' (hu_Uid u)
        [(''target_uid'', JStr targetUid), (''operator_uid'', JStr (hu_Uid u)), (''mute_until'', JInt 0),
         (''reason'', JStr reason)] [] []) (\<lambda>_.
     andThen (PublishRoomAdminLog e rid ''room_unmute'' (hu_Uid u) targetUid
        [(''target_uid'', JStr targetUid), (''mute_until'', JInt (before_mute_until ruBefore))]
        [(''target_uid'', JStr targetUid), (''mute_until'', JInt 0)]) (\<lambda>_.
     succeed (targetUid, 0)))))))))))"

section \<open>Muting all\<close>

definition RoomMuteAll ::
  "admin_env \<Rightarrow> http_user option \<Rightarrow> (rid \<times> bool \<times> string) option \<Rightarrow> ('a admin_store_scheme, reply, unit) act" where
  "RoomMuteAll e user body =
     andThen (GetUser user) (\<lambda>u.
     andThen (parsed body (BadRequest ''bad body'')) (\<lambda>(rid, mute, reason).
     andThen (check (rid \<noteq> []) (BadRequest ''bad body'')) (\<lambda>_.
     andThen (rejectIfRoomDissolved e rid) (\<lambda>_.
     andThen (reading (CanUserMuteInRoom (ae_room e) rid (hu_Uid u))) (\<lambda>admin.
     andThen (check admin (BadRequest ''admins only'')) (\<lambda>_.
     andThen (reading (GetRoomMuteConfig (ae_room e) rid)) (\<lambda>prev.
     andThen (orFail (SetRoomMuteAll (ae_room e) rid mute (hu_Uid u) reason) (ServerError ''update failed'')) (\<lambda>_.
     andThen (PublishRoomAdminLog e rid (if mute then ''room_mute_all_on'' else ''room_mute_all_off'') (hu_Uid u) rid
        [(''is_mute_all'', JBool (case prev of Inl _ \<Rightarrow> False | Inr p \<Rightarrow> mc_IsMuteAll p))]
        [(''is_mute_all'', JBool mute), (''reason'', JStr reason)]) (\<lambda>_.
     createRoomSystemMessageAndNotify e rid (if mute then ''room:mute:all:on'' else ''room:mute:all:off'') (hu_Uid u)
       [(''by'', JStr (hu_Uid u))] [] [])))))))))"

section \<open>What a member may do now\<close>

record mute_status =
  ms_IsMuteAll :: bool
  ms_MyMuteUntil :: time
  ms_MyMuteOperatorUid :: uid
  ms_IsStrategyMute :: bool
  ms_Muted :: "mute_code option"
  ms_MuteUntil :: "time option"

definition RoomMuteStatus :: "admin_env \<Rightarrow> http_user option \<Rightarrow> rid \<Rightarrow> ('a admin_store_scheme, reply, mute_status) act" where
  "RoomMuteStatus e user rid =
     andThen (GetUser user) (\<lambda>u.
     andThen (check (rid \<noteq> []) (BadRequest ''no room id'')) (\<lambda>_.
     andThen (rejectIfRoomDissolved e rid) (\<lambda>_.
     andThen (has_room_user e rid (hu_Uid u)) (\<lambda>member.
     andThen (check member (BadRequest ''not in the room'')) (\<lambda>_.
     andThen (orFail (query (GetRoomMuteConfig (ae_room e) rid)) (ServerError ''settings query failed'')) (\<lambda>cfg.
     andThen (orFail (query (GetRoomUser (ae_room e) rid (hu_Uid u))) (ServerError ''member query failed'')) (\<lambda>ru.
     andThen (reading (IsUserMutedInRoom (ae_room e) rid (hu_Uid u))) (\<lambda>muted.
     andThen (reading (GetFrequencyMuteUntil (ae_room e) rid (hu_Uid u) (ae_now e) (mc_RuleConfig cfg))) (\<lambda>mute_until.
     succeed \<lparr>ms_IsMuteAll = mc_IsMuteAll cfg, ms_MyMuteUntil = ru_MuteUntil ru,
       ms_MyMuteOperatorUid = ru_MuteOperatorUid ru, ms_IsStrategyMute = strategy_on cfg, ms_Muted = muted,
       ms_MuteUntil = (if muted \<noteq> None \<and> mc_RuleType cfg AND RuleTypeBitFrequency \<noteq> 0 \<and> mc_RuleConfig cfg \<noteq> NoText
          then (case mute_until of Some t \<Rightarrow> if t > 0 then Some t else None | None \<Rightarrow> None) else None)\<rparr>)))))))))"

section \<open>Blocking\<close>

definition write_block ::
  "admin_env \<Rightarrow> (message_db \<Rightarrow> message_db) \<Rightarrow> ('a admin_store_scheme, room_error, unit) act" where
  "write_block e f s = (if ae_fails e WriteBlock then (Inl RoomStoreError, s) else (Inr (), s\<lparr>chat_db := f (chat_db s)\<rparr>))"

definition RoomBlock :: "admin_env \<Rightarrow> http_user option \<Rightarrow> rid option \<Rightarrow> ('a admin_store_scheme, reply, unit) act" where
  "RoomBlock e user body =
     andThen (GetUser user) (\<lambda>u.
     andThen (parsed body (BadRequest ''no room id'')) (\<lambda>rid.
     andThen (check (rid \<noteq> []) (BadRequest ''no room id'')) (\<lambda>_.
     andThen (rejectIfRoomDissolved e rid) (\<lambda>_.
     andThen (orFail (query (GetRoomByRid (ae_room e) rid)) (BadRequest ''no such room'')) (\<lambda>room.
     andThen (check (r_Type room = RoomTypeGroupPrivate) (BadRequest ''group private rooms only'')) (\<lambda>_.
     andThen (orFail (GetRoomUserIdsCache (ae_room e) rid) (ServerError ''members'')) (\<lambda>userIds.
     andThen (check (userIds \<noteq> []) (ServerError ''members'')) (\<lambda>_.
     andThen (check (hu_Uid u \<in> set userIds) (BadRequest ''not in the room'')) (\<lambda>_.
     andThen (orFail (write_block e (BlockRoom (ae_now e) (hu_Uid u) rid)) (ServerError ''block failed'')) (\<lambda>_.
     if ae_sid e = [] then succeed ()
     else PublishUserOperationLog e (hu_Uid u) ''room_block'' rid [] [(''rid'', JStr rid)]))))))))))"

definition RoomUnblock :: "admin_env \<Rightarrow> http_user option \<Rightarrow> rid option \<Rightarrow> ('a admin_store_scheme, reply, unit) act" where
  "RoomUnblock e user body =
     andThen (GetUser user) (\<lambda>u.
     andThen (parsed body (BadRequest ''no room id'')) (\<lambda>rid.
     andThen (check (rid \<noteq> []) (BadRequest ''no room id'')) (\<lambda>_.
     andThen (rejectIfRoomDissolved e rid) (\<lambda>_.
     andThen (orFail (write_block e (UnblockRoom (ae_now e) (hu_Uid u) rid)) (ServerError ''unblock failed'')) (\<lambda>_.
     if ae_sid e = [] then succeed ()
     else PublishUserOperationLog e (hu_Uid u) ''room_unblock'' rid [] [(''rid'', JStr rid)])))))"

definition RoomBlockUser ::
  "admin_env \<Rightarrow> http_user option \<Rightarrow> (rid \<times> uid) option \<Rightarrow> ('a admin_store_scheme, reply, unit) act" where
  "RoomBlockUser e user body =
     andThen (GetUser user) (\<lambda>u.
     andThen (parsed body (BadRequest ''bad body'')) (\<lambda>(rid, targetUid).
     andThen (check (rid \<noteq> [] \<and> targetUid \<noteq> []) (BadRequest ''bad body'')) (\<lambda>_.
     andThen (rejectIfRoomDissolved e rid) (\<lambda>_.
     andThen (check (targetUid \<noteq> hu_Uid u) (BadRequest ''not yourself'')) (\<lambda>_.
     andThen (orFail (GetRoomUserIdsCache (ae_room e) rid) (BadRequest ''members'')) (\<lambda>userIds.
     andThen (check (userIds \<noteq> []) (BadRequest ''members'')) (\<lambda>_.
     andThen (check (hu_Uid u \<in> set userIds) (BadRequest ''not in the room'')) (\<lambda>_.
     andThen (check (targetUid \<in> set userIds) (BadRequest ''target not in the room'')) (\<lambda>_.
     andThen (orFail (write_block e (BlockUserInRoom (ae_now e) (hu_Uid u) rid targetUid)) (ServerError ''block failed'')) (\<lambda>_.
     if ae_sid e = [] then succeed ()
     else PublishRoomAdminLog e rid ''room_block_user'' (hu_Uid u) targetUid [] [(''target_uid'', JStr targetUid)]))))))))))"

definition RoomUnblockUser ::
  "admin_env \<Rightarrow> http_user option \<Rightarrow> (rid \<times> uid) option \<Rightarrow> ('a admin_store_scheme, reply, unit) act" where
  "RoomUnblockUser e user body =
     andThen (GetUser user) (\<lambda>u.
     andThen (parsed body (BadRequest ''bad body'')) (\<lambda>(rid, targetUid).
     andThen (check (rid \<noteq> [] \<and> targetUid \<noteq> []) (BadRequest ''bad body'')) (\<lambda>_.
     andThen (rejectIfRoomDissolved e rid) (\<lambda>_.
     andThen (orFail (write_block e (UnblockUserInRoom (ae_now e) (hu_Uid u) rid targetUid)) (ServerError ''unblock failed'')) (\<lambda>_.
     if ae_sid e = [] then succeed ()
     else PublishRoomAdminLog e rid ''room_unblock_user'' (hu_Uid u) targetUid [] [(''target_uid'', JStr targetUid)])))))"

end
