(* ===== verification/RoomNotices.thy ===== *)
theory RoomNotices
  imports RoomAdmin
begin

text \<open>
  What a room shows: announcements (\<open>http/handler/room/room.go\<close>,
  \<open>db/query/room_announcement.go\<close>), the pinned message
  (\<open>http/handler/room/room_pinned_message.go\<close>, \<open>db/query/room_pinned_message.go\<close>), and the
  history and withdrawal of messages over HTTP (\<open>http/handler/room/room_message.go\<close>).
\<close>

section \<open>Announcements in the database\<close>

definition ListRoomAnnouncements :: "admin_env \<Rightarrow> rid \<Rightarrow> 'a admin_store_scheme \<Rightarrow> room_error + announcement list" where
  "ListRoomAnnouncements e rid s =
     (if ae_fails e FindAnnouncement then Inl RoomStoreError
      else Inr (sort_key (\<lambda>a. (if an_Pinned a then (0::int) else 1, - an_CreateTime a))
        (filter (\<lambda>a. an_Rid a = rid \<and> an_DeleteTime a = 0) (announcements s))))"

definition GetRoomAnnouncementByID :: "admin_env \<Rightarrow> int \<Rightarrow> rid \<Rightarrow> 'a admin_store_scheme \<Rightarrow> room_error + announcement option" where
  "GetRoomAnnouncementByID e i rid s =
     (if ae_fails e FindAnnouncement then Inl RoomStoreError
      else Inr (find (\<lambda>a. an_Id a = i \<and> an_Rid a = rid \<and> an_DeleteTime a = 0) (announcements s)))"

definition CreateRoomAnnouncement ::
  "admin_env \<Rightarrow> rid \<Rightarrow> string \<Rightarrow> uid \<Rightarrow> bool \<Rightarrow> ('a admin_store_scheme, room_error, announcement) act" where
  "CreateRoomAnnouncement e rid content operatorUid pin_it s =
     (let a = \<lparr>an_Id = int (length (announcements s)) + 1, an_Rid = rid, an_Content = content, an_UpdatedBy = operatorUid,
               an_Pinned = pin_it, an_CreateTime = ae_now e, an_DeleteTime = 0\<rparr>
      in if ae_fails e WriteAnnouncement then (Inl RoomStoreError, s)
         else (Inr a, s\<lparr>announcements := announcements s @ [a]\<rparr>))"

definition save_announcement :: "admin_env \<Rightarrow> announcement \<Rightarrow> ('a admin_store_scheme, room_error, announcement) act" where
  "save_announcement e a s =
     (if ae_fails e WriteAnnouncement then (Inl RoomStoreError, s)
      else (Inr a, s\<lparr>announcements := map (\<lambda>v. if an_Id v = an_Id a then a else v) (announcements s)\<rparr>))"

text \<open>\<open>Inr None\<close> is the \<open>nil\<close> the code returns without an error.\<close>

definition change_announcement ::
  "admin_env \<Rightarrow> int \<Rightarrow> rid \<Rightarrow> (announcement \<Rightarrow> announcement) \<Rightarrow> ('a admin_store_scheme, room_error, announcement option) act" where
  "change_announcement e i rid f =
     andThen (query (GetRoomAnnouncementByID e i rid)) (\<lambda>found.
       case found of None \<Rightarrow> succeed None | Some a \<Rightarrow> andThen (save_announcement e (f a)) (\<lambda>a'. succeed (Some a')))"

definition UpdateRoomAnnouncement ::
  "admin_env \<Rightarrow> int \<Rightarrow> rid \<Rightarrow> string \<Rightarrow> uid \<Rightarrow> bool option \<Rightarrow> ('a admin_store_scheme, room_error, announcement option) act" where
  "UpdateRoomAnnouncement e i rid content operatorUid pin_it =
     change_announcement e i rid (\<lambda>a. a\<lparr>an_Content := content, an_UpdatedBy := operatorUid,
       an_Pinned := (case pin_it of None \<Rightarrow> an_Pinned a | Some p \<Rightarrow> p)\<rparr>)"

definition SoftDeleteRoomAnnouncement ::
  "admin_env \<Rightarrow> int \<Rightarrow> rid \<Rightarrow> ('a admin_store_scheme, room_error, announcement option) act" where
  "SoftDeleteRoomAnnouncement e i rid = change_announcement e i rid (\<lambda>a. a\<lparr>an_DeleteTime := ae_now e\<rparr>)"

section \<open>Announcement handlers\<close>

definition RoomAnnouncementList ::
  "admin_env \<Rightarrow> http_user option \<Rightarrow> rid \<Rightarrow> ('a admin_store_scheme, reply, announcement list) act" where
  "RoomAnnouncementList e user rid =
     andThen (GetUser user) (\<lambda>u.
     andThen (check (rid \<noteq> []) (BadRequest ''no room id'')) (\<lambda>_.
     andThen (rejectIfRoomDissolved e rid) (\<lambda>_.
     andThen (has_room_user e rid (hu_Uid u)) (\<lambda>member.
     andThen (check member (BadRequest ''not in the room'')) (\<lambda>_.
     orFail (query (ListRoomAnnouncements e rid)) (ServerError ''query failed''))))))"

text \<open>\<open>id_of\<close> is \<open>fmt.Sscanf\<close> with \<open>%d\<close>.\<close>

definition RoomAnnouncementGet ::
  "admin_env \<Rightarrow> (string \<Rightarrow> int option) \<Rightarrow> http_user option \<Rightarrow> rid \<Rightarrow> string \<Rightarrow> ('a admin_store_scheme, reply, announcement) act" where
  "RoomAnnouncementGet e id_of user rid idStr =
     andThen (GetUser user) (\<lambda>u.
     andThen (check (rid \<noteq> [] \<and> idStr \<noteq> []) (BadRequest ''no room id or announcement id'')) (\<lambda>_.
     andThen (parsed (id_of idStr) (BadRequest ''bad announcement id'')) (\<lambda>i.
     andThen (check (i > 0) (BadRequest ''bad announcement id'')) (\<lambda>_.
     andThen (rejectIfRoomDissolved e rid) (\<lambda>_.
     andThen (has_room_user e rid (hu_Uid u)) (\<lambda>member.
     andThen (check member (BadRequest ''not in the room'')) (\<lambda>_.
     andThen (orFail (query (GetRoomAnnouncementByID e i rid)) (ServerError ''query failed'')) (\<lambda>found.
     parsed found (BadRequest ''no such announcement'')))))))))"

text \<open>The checks creating and updating share.\<close>

definition announcement_checks ::
  "admin_env \<Rightarrow> http_user \<Rightarrow> rid \<Rightarrow> string \<Rightarrow> ('a admin_store_scheme, reply, unit) act" where
  "announcement_checks e u rid content =
     andThen (rejectIfRoomDissolved e rid) (\<lambda>_.
     andThen (reading (CanUserMuteInRoom (ae_room e) rid (hu_Uid u))) (\<lambda>admin.
     andThen (check admin (BadRequest ''admins only'')) (\<lambda>_.
     andThen (check (content \<noteq> [] \<and> ae_json_valid e content) (BadRequest ''content is no JSON'')) (\<lambda>_.
     check (length content \<le> 100000) (BadRequest ''content too long'')))))"

definition announcement_log :: "announcement \<Rightarrow> jmap" where
  "announcement_log a = [(''content_length'', JInt (int (length (an_Content a)))), (''pinned'', JBool (an_Pinned a))]"

definition RoomAnnouncementCreate ::
  "admin_env \<Rightarrow> (int \<Rightarrow> string) \<Rightarrow> http_user option \<Rightarrow> (rid \<times> string \<times> bool) option
   \<Rightarrow> ('a admin_store_scheme, reply, announcement) act" where
  "RoomAnnouncementCreate e text_of user body =
     andThen (GetUser user) (\<lambda>u.
     andThen (parsed body (BadRequest ''bad body'')) (\<lambda>(rid, content, pinned).
     andThen (check (rid \<noteq> []) (BadRequest ''bad body'')) (\<lambda>_.
     andThen (announcement_checks e u rid content) (\<lambda>_.
     andThen (orFail (CreateRoomAnnouncement e rid content (hu_Uid u) pinned) (ServerError ''create failed'')) (\<lambda>a.
     andThen (PublishRoomAdminLog e rid ''room_announcement_create'' (hu_Uid u) (text_of (an_Id a)) []
        ((''id'', JInt (an_Id a)) # announcement_log a)) (\<lambda>_.
     andThen (createRoomSystemMessageAndNotify e rid ''room:announcement:create'' (hu_Uid u)
        [(''announcement_id'', JInt (an_Id a)), (''operator_uid'', JStr (hu_Uid u)), (''pinned'', JBool (an_Pinned a))] [] []) (\<lambda>_.
     succeed a)))))))"

definition RoomAnnouncementUpdate ::
  "admin_env \<Rightarrow> (int \<Rightarrow> string) \<Rightarrow> http_user option \<Rightarrow> (rid \<times> int \<times> string \<times> bool option) option
   \<Rightarrow> ('a admin_store_scheme, reply, announcement) act" where
  "RoomAnnouncementUpdate e text_of user body =
     andThen (GetUser user) (\<lambda>u.
     andThen (parsed body (BadRequest ''bad body'')) (\<lambda>(rid, i, content, pinned).
     andThen (check (rid \<noteq> [] \<and> i > 0) (BadRequest ''bad body'')) (\<lambda>_.
     andThen (announcement_checks e u rid content) (\<lambda>_.
     andThen (reading (GetRoomAnnouncementByID e i rid)) (\<lambda>found.
     andThen (parsed (case found of Inl _ \<Rightarrow> None | Inr a \<Rightarrow> a) (BadRequest ''no such announcement'')) (\<lambda>prev.
     andThen (orFail (UpdateRoomAnnouncement e i rid content (hu_Uid u) pinned) (ServerError ''update failed'')) (\<lambda>updated.
     andThen (parsed updated (ServerError ''panic'')) (\<lambda>a.
     andThen (PublishRoomAdminLog e rid ''room_announcement_update'' (hu_Uid u) (text_of i)
        (announcement_log prev) (announcement_log a)) (\<lambda>_.
     andThen (createRoomSystemMessageAndNotify e rid ''room:announcement:update'' (hu_Uid u)
        [(''announcement_id'', JInt (an_Id a)), (''operator_uid'', JStr (hu_Uid u)), (''pinned'', JBool (an_Pinned a))] [] []) (\<lambda>_.
     succeed a))))))))))"

definition RoomAnnouncementDelete ::
  "admin_env \<Rightarrow> (int \<Rightarrow> string) \<Rightarrow> http_user option \<Rightarrow> (rid \<times> int) option \<Rightarrow> ('a admin_store_scheme, reply, unit) act" where
  "RoomAnnouncementDelete e text_of user body =
     andThen (GetUser user) (\<lambda>u.
     andThen (parsed body (BadRequest ''bad body'')) (\<lambda>(rid, i).
     andThen (check (rid \<noteq> [] \<and> i > 0) (BadRequest ''bad body'')) (\<lambda>_.
     andThen (rejectIfRoomDissolved e rid) (\<lambda>_.
     andThen (reading (CanUserMuteInRoom (ae_room e) rid (hu_Uid u))) (\<lambda>admin.
     andThen (check admin (BadRequest ''admins only'')) (\<lambda>_.
     andThen (reading (GetRoomAnnouncementByID e i rid)) (\<lambda>found.
     andThen (parsed (case found of Inl _ \<Rightarrow> None | Inr a \<Rightarrow> a) (BadRequest ''no such announcement'')) (\<lambda>prev.
     andThen (orFail (SoftDeleteRoomAnnouncement e i rid) (ServerError ''delete failed'')) (\<lambda>_.
     andThen (PublishRoomAdminLog e rid ''room_announcement_delete'' (hu_Uid u) (text_of i)
        (announcement_log prev) [(''deleted'', JBool True)]) (\<lambda>_.
     createRoomSystemMessageAndNotify e rid ''room:announcement:delete'' (hu_Uid u)
       [(''announcement_id'', JInt i), (''operator_uid'', JStr (hu_Uid u)), (''deleted'', JBool True)] [] []))))))))))"

section \<open>The pinned message in the database\<close>

definition GetRoomPinnedMessageRecord :: "admin_env \<Rightarrow> rid \<Rightarrow> 'a admin_store_scheme \<Rightarrow> room_error + pinned_message option" where
  "GetRoomPinnedMessageRecord e rid s =
     (if rid = [] then Inr None
      else if ae_fails e FindPinned then Inl RoomStoreError
      else Inr (find (\<lambda>p. pm_Rid p = rid \<and> pm_DeleteTime p = 0) (pinned_messages s)))"

definition delete_pins :: "admin_env \<Rightarrow> (pinned_message \<Rightarrow> bool) \<Rightarrow> ('a admin_store_scheme, room_error, unit) act" where
  "delete_pins e P s =
     (if ae_fails e WritePinned then (Inl RoomStoreError, s)
      else (Inr (), s\<lparr>pinned_messages := filter (\<lambda>p. \<not> P p) (pinned_messages s)\<rparr>))"

definition HardDeleteRoomPinnedMessage :: "admin_env \<Rightarrow> rid \<Rightarrow> ('a admin_store_scheme, room_error, unit) act" where
  "HardDeleteRoomPinnedMessage e rid = delete_pins e (\<lambda>p. pm_Rid p = rid)"

definition HardDeleteRoomPinnedMessageByMid :: "admin_env \<Rightarrow> rid \<Rightarrow> mid \<Rightarrow> ('a admin_store_scheme, room_error, unit) act" where
  "HardDeleteRoomPinnedMessageByMid e rid mid = delete_pins e (\<lambda>p. pm_Rid p = rid \<and> pm_Mid p = mid)"

text \<open>A message that was not read, for whatever reason, counts as gone, and its pin is removed.\<close>

definition read_message :: "admin_env \<Rightarrow> mid \<Rightarrow> 'a admin_store_scheme \<Rightarrow> server_room_message option" where
  "read_message e mid s =
     (if re_fails (ae_room e) FindMessage then None
      else case GetRoomMessageByMid mid (chat_db s) of None \<Rightarrow> None | Some m \<Rightarrow> if sm_Mid m = [] then None else Some m)"

definition BuildRoomPinnedMessageDto ::
  "admin_env \<Rightarrow> rid \<Rightarrow> ('a admin_store_scheme, room_error, (pinned_message \<times> server_room_message) option) act" where
  "BuildRoomPinnedMessageDto e rid =
     andThen (query (GetRoomPinnedMessageRecord e rid)) (\<lambda>row.
       case row of None \<Rightarrow> succeed None
       | Some p \<Rightarrow> andThen (reading (read_message e (pm_Mid p))) (\<lambda>found.
           case found of
             Some m \<Rightarrow> succeed (Some (p, m))
           | None \<Rightarrow> andThen (quietly (HardDeleteRoomPinnedMessage e rid)) (\<lambda>_. succeed None)))"

definition PinRoomMessage ::
  "admin_env \<Rightarrow> rid \<Rightarrow> mid \<Rightarrow> int \<Rightarrow> uid \<Rightarrow> ('a admin_store_scheme, room_error, pinned_message) act" where
  "PinRoomMessage e rid mid seqId operatorUid s =
     (let p = \<lparr>pm_Rid = rid, pm_Mid = mid, pm_SeqId = seqId, pm_OperatorUid = operatorUid,
               pm_CreateTime = ae_now e, pm_DeleteTime = 0\<rparr>
      in if ae_fails e WritePinned \<or> re_fails (ae_room e) CommitRoom then (Inl RoomStoreError, s)
         else (Inr p, s\<lparr>pinned_messages := filter (\<lambda>v. pm_Rid v \<noteq> rid) (pinned_messages s) @ [p]\<rparr>))"

section \<open>Pin handlers\<close>

definition RoomPinnedMessageGet ::
  "admin_env \<Rightarrow> http_user option \<Rightarrow> rid \<Rightarrow> ('a admin_store_scheme, reply, (pinned_message \<times> server_room_message) option) act" where
  "RoomPinnedMessageGet e user rid =
     andThen (GetUser user) (\<lambda>u.
     andThen (check (rid \<noteq> []) (BadRequest ''no room id'')) (\<lambda>_.
     andThen (rejectIfRoomDissolved e rid) (\<lambda>_.
     andThen (orFail (GetRoomUserIdsCache (ae_room e) rid) (BadRequest ''members'')) (\<lambda>roomUserIds.
     andThen (check (hu_Uid u \<in> set roomUserIds) (BadRequest ''not in the room'')) (\<lambda>_.
     orFail (BuildRoomPinnedMessageDto e rid) (ServerError ''pin query failed''))))))"

definition pin_log :: "pinned_message \<Rightarrow> jmap" where
  "pin_log p = [(''mid'', JStr (pm_Mid p)), (''seq_id'', JInt (pm_SeqId p)), (''operator_uid'', JStr (pm_OperatorUid p)),
     (''pinned_at'', JInt (pm_CreateTime p))]"

definition find_message :: "admin_env \<Rightarrow> rid \<Rightarrow> int \<Rightarrow> 'a admin_store_scheme \<Rightarrow> room_message option" where
  "find_message e rid seqId s =
     (if re_fails (ae_room e) FindMessage then None else GetRoomMessageByRidSeqId rid seqId (chat_db s))"

definition RoomPinnedMessagePin ::
  "admin_env \<Rightarrow> http_user option \<Rightarrow> (rid \<times> int) option
   \<Rightarrow> ('a admin_store_scheme, reply, (pinned_message \<times> server_room_message) option) act" where
  "RoomPinnedMessagePin e user body =
     andThen (GetUser user) (\<lambda>u.
     andThen (parsed body (BadRequest ''bad body'')) (\<lambda>(rid, seqId).
     andThen (check (rid \<noteq> [] \<and> seqId > 0) (BadRequest ''bad body'')) (\<lambda>_.
     andThen (rejectIfRoomDissolved e rid) (\<lambda>_.
     andThen (reading (CanUserMuteInRoom (ae_room e) rid (hu_Uid u))) (\<lambda>admin.
     andThen (check admin (BadRequest ''admins only'')) (\<lambda>_.
     andThen (orFail (GetRoomUserIdsCache (ae_room e) rid) (BadRequest ''members'')) (\<lambda>roomUserIds.
     andThen (check (hu_Uid u \<in> set roomUserIds) (BadRequest ''not in the room'')) (\<lambda>_.
     andThen (reading (find_message e rid seqId)) (\<lambda>found.
     andThen (parsed found (BadRequest ''no such message'')) (\<lambda>m.
     andThen (check (\<not> rm_WithdrawTime m > 0) (BadRequest ''withdrawn'')) (\<lambda>_.
     andThen (check (rm_State m = 1 \<and> rm_DeleteTime m = 0) (BadRequest ''cannot be pinned'')) (\<lambda>_.
     andThen (check (rm_SenderUid m \<noteq> ''system'') (BadRequest ''system message'')) (\<lambda>_.
     andThen (reading (GetRoomPinnedMessageRecord e rid)) (\<lambda>prevRead.
     andThen (orFail (PinRoomMessage e rid (rm_Mid m) (rm_SeqId m) (hu_Uid u)) (ServerError ''pin failed'')) (\<lambda>p.
     andThen (PublishRoomAdminLog e rid ''message_pin'' (hu_Uid u) (pm_Mid p)
        (case prevRead of Inr (Some v) \<Rightarrow> pin_log v | _ \<Rightarrow> []) (pin_log p)) (\<lambda>_.
     andThen (createRoomSystemMessageAndNotify e rid ''room:message:pin'' (hu_Uid u)
        [(''mid'', JStr (pm_Mid p)), (''seq_id'', JInt (pm_SeqId p)), (''operator_uid'', JStr (hu_Uid u)),
         (''sender_uid'', JStr (rm_SenderUid m))] [] []) (\<lambda>_.
     orFail (BuildRoomPinnedMessageDto e rid) (ServerError ''pin query failed''))))))))))))))))))"

definition RoomPinnedMessageUnpin :: "admin_env \<Rightarrow> http_user option \<Rightarrow> rid option \<Rightarrow> ('a admin_store_scheme, reply, unit) act" where
  "RoomPinnedMessageUnpin e user body =
     andThen (GetUser user) (\<lambda>u.
     andThen (parsed body (BadRequest ''bad body'')) (\<lambda>rid.
     andThen (check (rid \<noteq> []) (BadRequest ''bad body'')) (\<lambda>_.
     andThen (rejectIfRoomDissolved e rid) (\<lambda>_.
     andThen (reading (CanUserMuteInRoom (ae_room e) rid (hu_Uid u))) (\<lambda>admin.
     andThen (check admin (BadRequest ''admins only'')) (\<lambda>_.
     andThen (orFail (query (GetRoomPinnedMessageRecord e rid)) (ServerError ''unpin failed'')) (\<lambda>found.
     andThen (parsed found (BadRequest ''nothing pinned'')) (\<lambda>prev.
     andThen (orFail (HardDeleteRoomPinnedMessage e rid) (ServerError ''unpin failed'')) (\<lambda>_.
     andThen (PublishRoomAdminLog e rid ''message_unpin'' (hu_Uid u) (pm_Mid prev) (pin_log prev)
        [(''deleted'', JBool True)]) (\<lambda>_.
     createRoomSystemMessageAndNotify e rid ''room:message:unpin'' (hu_Uid u)
       [(''mid'', JStr (pm_Mid prev)), (''seq_id'', JInt (pm_SeqId prev)), (''operator_uid'', JStr (hu_Uid u))] [] []))))))))))"

section \<open>History and withdrawal\<close>

text \<open>What the user has blocked is taken out of the page: the room from a moment on, and senders.\<close>

definition visible_history :: "uid \<Rightarrow> rid \<Rightarrow> message_db \<Rightarrow> server_room_message list \<Rightarrow> server_room_message list" where
  "visible_history uid rid db ms =
     (let (blockTime, hasBlocked) = GetUserRoomBlockCreateTime uid rid db;
          ms1 = (if hasBlocked \<and> blockTime > 0
                 then filter (\<lambda>m. sm_CreateTime m > 0 \<and> sm_CreateTime m < blockTime) ms else ms)
      in filter (\<lambda>m. sm_SenderUid m \<notin> set (GetBlockedTargetUidsInRoom uid rid db)) ms1)"

text \<open>\<open>(page - 1) * limit\<close> is a product in 64 bits; a negative offset is no offset.\<close>

definition page_offset :: "int \<Rightarrow> int \<Rightarrow> nat" where
  "page_offset page limit = nat (sint (word_of_int ((page - 1) * limit) :: 64 word))"

definition RoomMessageList ::
  "admin_env \<Rightarrow> http_user option \<Rightarrow> rid \<Rightarrow> string \<Rightarrow> string \<Rightarrow> string \<Rightarrow> string option
   \<Rightarrow> ('a admin_store_scheme, reply, server_room_message list \<times> bool) act" where
  "RoomMessageList e user rid seqId limit page direction0 =
     andThen (GetUser user) (\<lambda>u.
     andThen (check (rid \<noteq> []) (BadRequest ''no room id'')) (\<lambda>_.
     andThen (parsed (Atoi seqId) (BadRequest ''no sequence number'')) (\<lambda>seqIdInt.
     andThen (parsed (Atoi limit) (BadRequest ''no limit'')) (\<lambda>limitInt.
     andThen (check (limitInt > 0) (BadRequest ''no limit'')) (\<lambda>_.
     andThen (parsed (Atoi page) (BadRequest ''no page'')) (\<lambda>pageInt.
     andThen (check (pageInt > 0) (BadRequest ''no page'')) (\<lambda>_.
     let direction = (case direction0 of None \<Rightarrow> ''forward'' | Some d \<Rightarrow> d) in
     andThen (orFail (GetRoomUserIdsCache (ae_room e) rid) (BadRequest ''members'')) (\<lambda>roomUserIds.
     andThen (check (hu_Uid u \<in> set roomUserIds) (BadRequest ''not in the room'')) (\<lambda>_.
     andThen (reading (\<lambda>s. if re_fails (ae_room e) FindMessage then ([], False)
        else (visible_history (hu_Uid u) rid (chat_db s)
                (GetRoomMessageList rid seqIdInt (nat limitInt) (page_offset pageInt limitInt) direction (chat_db s)),
              HasMoreRoomMessages rid seqIdInt direction (chat_db s)))) succeed)))))))))"

text \<open>The rows of a withdrawal: the message, its contents, and the content that takes their place.\<close>

definition http_withdraw_rows ::
  "admin_env \<Rightarrow> uid \<Rightarrow> rid \<Rightarrow> int \<Rightarrow> room_message \<Rightarrow> string \<Rightarrow> string \<Rightarrow> message_db \<Rightarrow> message_db" where
  "http_withdraw_rows e uid rid seqId m clientCid cid db =
     (let now = ae_now e;
          ms = map (\<lambda>v. if rm_Rid v = rid \<and> rm_SeqId v = seqId then v\<lparr>rm_WithdrawTime := now\<rparr> else v) (messages db);
          cs = map (\<lambda>c. if ct_Mid c = rm_Mid m then c\<lparr>ct_DeleteTime := now\<rparr> else c) (contents db);
          c = \<lparr>ct_Type = ''user:withdraw'', ct_TypeId = uid,
               ct_Content = ae_json e [(''action_uid'', JStr uid), (''target_uid'', JStr (rm_SenderUid m)),
                 (''by_admin'', JBool (rm_SenderUid m \<noteq> uid))],
               ct_Mid = rm_Mid m, ct_ClientCid = clientCid, ct_Cid = cid, ct_CreateTime = now, ct_DeleteTime = 0\<rparr>
      in db\<lparr>messages := ms, contents := cs @ [c]\<rparr>)"

definition withdraw_tx ::
  "admin_env \<Rightarrow> uid \<Rightarrow> rid \<Rightarrow> int \<Rightarrow> room_message \<Rightarrow> ('a admin_store_scheme, reply, unit) act" where
  "withdraw_tx e uid rid seqId m =
     andThen (new_xid e) (\<lambda>clientCid. andThen (new_xid e) (\<lambda>cid s.
       let db1 = http_withdraw_rows e uid rid seqId m clientCid cid (chat_db s) in
       if re_fails (ae_room e) UpdateMessage \<or> re_fails (ae_room e) UpdateContent \<or> re_fails (ae_room e) InsertContent \<or>
          re_fails (ae_room e) CommitMessage \<or> \<not> content_indexes (contents db1)
       then (Inl (ServerError ''withdrawal failed''), s)
       else (Inr (), s\<lparr>chat_db := db1\<rparr>)))"

definition RoomMessageWithdraw :: "admin_env \<Rightarrow> http_user option \<Rightarrow> (rid \<times> int) option \<Rightarrow> ('a admin_store_scheme, reply, unit) act" where
  "RoomMessageWithdraw e user body =
     andThen (GetUser user) (\<lambda>u.
     andThen (parsed body (BadRequest ''bad body'')) (\<lambda>(rid, seqId).
     andThen (rejectIfRoomDissolved e rid) (\<lambda>_.
     andThen (reading (find_message e rid seqId)) (\<lambda>found.
     andThen (parsed found (BadRequest ''no such message'')) (\<lambda>m.
     let own = (rm_SenderUid m = hu_Uid u) in
     andThen (reading (GetRoomUser (ae_room e) rid (hu_Uid u))) (\<lambda>ru.
     andThen (check (own \<or> (case ru of Inl _ \<Rightarrow> False
        | Inr v \<Rightarrow> ru_Role v = RoomUserRoleAdmin \<or> ru_Role v = RoomUserRoleOwner)) (BadRequest ''not allowed'')) (\<lambda>_.
     andThen (check (\<not> rm_WithdrawTime m > 0) (BadRequest ''withdrawn already'')) (\<lambda>_.
     andThen (check (\<not> (own \<and> rm_CreateTime m < ae_now e - withdraw_limit)) (BadRequest ''too late'')) (\<lambda>_.
     andThen (withdraw_tx e (hu_Uid u) rid seqId m) (\<lambda>_.
     andThen (quietly (HardDeleteRoomPinnedMessageByMid e rid (rm_Mid m))) (\<lambda>_.
     andThen (change (InvalidateRoomLastMessageCache (ae_room e) rid)) (\<lambda>_.
     andThen (PublishRoomAdminLog e rid ''message_withdraw'' (hu_Uid u) (rm_Mid m)
        [(''mid'', JStr (rm_Mid m)), (''seq_id'', JInt (rm_SeqId m)), (''sender_uid'', JStr (rm_SenderUid m)),
         (''withdraw_time'', JInt (rm_WithdrawTime m))]
        [(''mid'', JStr (rm_Mid m)), (''seq_id'', JInt (rm_SeqId m)), (''sender_uid'', JStr (rm_SenderUid m)),
         (''withdraw_time'', JInt (ae_now e))]) (\<lambda>_.
     NotifyQuic e (RoomMessageWithdrawNotify (rm_Mid m)))))))))))))))"

end
