(* ===== verification/Roster.thy ===== *)
theory Roster
  imports RoomEntry RoomMuting RoomNotices
begin

text \<open>
  The room handlers taken together: every request that changes something as one step, and
  the ground for what no sequence of requests can break. First the frame rules that say
  which operations leave the rooms, their members and the cached lists of members alone,
  then the roster of a group room: one owner, the right number of members, a truthful cache.
\<close>

section \<open>Requests\<close>

datatype room_request =
    ReqCreate "(string \<times> string \<times> string \<times> string) option"
  | ReqNameUpdate "(rid \<times> string) option" | ReqPasswordUpdate "(rid \<times> string) option"
  | ReqAvatarUpdate "(rid \<times> string) option"
  | ReqRoleUpdate "(rid \<times> uid \<times> int) option" | ReqOwnerTransfer "(rid \<times> uid) option"
  | ReqDissolve "rid option" | ReqNickname "(rid \<times> string) option" | ReqRemark "(rid \<times> string) option"
  | ReqKick "(rid \<times> uid) option" | ReqLeave "rid option"
  | ReqJoin "(string option \<times> string option) option" | ReqJoinConfig "join_config_body option"
  | ReqJoinApply "join_apply_body option" | ReqAccept "string option" | ReqReject "string option"
  | ReqInviteCreate "rid option" | ReqJoinInvite "string option"
  | ReqMuteConfig "mute_config_body option" | ReqMute "(rid \<times> uid \<times> int \<times> string) option"
  | ReqUnmute "(rid \<times> uid \<times> string) option" | ReqMuteAll "(rid \<times> bool \<times> string) option"
  | ReqBlock "rid option" | ReqUnblock "rid option"
  | ReqBlockUser "(rid \<times> uid) option" | ReqUnblockUser "(rid \<times> uid) option"
  | ReqAnnounce "(rid \<times> string \<times> bool) option" | ReqAnnounceUpdate "(rid \<times> int \<times> string \<times> bool option) option"
  | ReqAnnounceDelete "(rid \<times> int) option"
  | ReqPin "(rid \<times> int) option" | ReqUnpin "rid option" | ReqPinGet rid
  | ReqWithdraw "(rid \<times> int) option" | ReqUserIds rid

record codecs =
  cd_invite :: invite_env
  cd_columns :: "mute_config \<Rightarrow> jmap"
  cd_rule :: "string \<Rightarrow> rule_text"
  cd_decimal :: "int \<Rightarrow> string"

fun room_exec1 :: "codecs \<Rightarrow> admin_env \<Rightarrow> http_user option \<Rightarrow> room_request \<Rightarrow> 'a admin_store_scheme \<Rightarrow> 'a admin_store_scheme" where
  "room_exec1 co e u (ReqCreate b) s = snd (RoomCreate e u b s)"
| "room_exec1 co e u (ReqNameUpdate b) s = snd (RoomNameUpdate e u b s)"
| "room_exec1 co e u (ReqPasswordUpdate b) s = snd (RoomPasswordUpdate e u b s)"
| "room_exec1 co e u (ReqAvatarUpdate b) s = snd (RoomAvatarUpdate e u b s)"
| "room_exec1 co e u (ReqRoleUpdate b) s = snd (RoomUserRoleUpdate e u b s)"
| "room_exec1 co e u (ReqOwnerTransfer b) s = snd (RoomOwnerTransfer e u b s)"
| "room_exec1 co e u (ReqDissolve b) s = snd (RoomDissolve e u b s)"
| "room_exec1 co e u (ReqNickname b) s = snd (RoomUserNicknameUpdate e u b s)"
| "room_exec1 co e u (ReqRemark b) s = snd (RoomUserRemarkUpdate e u b s)"
| "room_exec1 co e u (ReqKick b) s = snd (RoomMemberKick e u b s)"
| "room_exec1 co e u (ReqLeave b) s = snd (RoomLeave e u b s)"
| "room_exec1 co e u (ReqJoin b) s = snd (RoomJoin e u b s)"
| "room_exec1 co e u (ReqJoinConfig b) s = snd (RoomJoinConfigUpdate e u b s)"
| "room_exec1 co e u (ReqJoinApply b) s = snd (RoomJoinApply e u b s)"
| "room_exec1 co e u (ReqAccept b) s = snd (RoomJoinRequestAccept e u b s)"
| "room_exec1 co e u (ReqReject b) s = snd (RoomJoinRequestReject e u b s)"
| "room_exec1 co e u (ReqInviteCreate b) s = snd (RoomInviteCreate e (cd_invite co) u b s)"
| "room_exec1 co e u (ReqJoinInvite b) s = snd (RoomJoinInvite e u b s)"
| "room_exec1 co e u (ReqMuteConfig b) s = snd (RoomMuteConfigUpdate e (cd_columns co) (cd_rule co) u b s)"
| "room_exec1 co e u (ReqMute b) s = snd (RoomMute e u b s)"
| "room_exec1 co e u (ReqUnmute b) s = snd (RoomUnmute e u b s)"
| "room_exec1 co e u (ReqMuteAll b) s = snd (RoomMuteAll e u b s)"
| "room_exec1 co e u (ReqBlock b) s = snd (RoomBlock e u b s)"
| "room_exec1 co e u (ReqUnblock b) s = snd (RoomUnblock e u b s)"
| "room_exec1 co e u (ReqBlockUser b) s = snd (RoomBlockUser e u b s)"
| "room_exec1 co e u (ReqUnblockUser b) s = snd (RoomUnblockUser e u b s)"
| "room_exec1 co e u (ReqAnnounce b) s = snd (RoomAnnouncementCreate e (cd_decimal co) u b s)"
| "room_exec1 co e u (ReqAnnounceUpdate b) s = snd (RoomAnnouncementUpdate e (cd_decimal co) u b s)"
| "room_exec1 co e u (ReqAnnounceDelete b) s = snd (RoomAnnouncementDelete e (cd_decimal co) u b s)"
| "room_exec1 co e u (ReqPin b) s = snd (RoomPinnedMessagePin e u b s)"
| "room_exec1 co e u (ReqUnpin b) s = snd (RoomPinnedMessageUnpin e u b s)"
| "room_exec1 co e u (ReqPinGet rid) s = snd (RoomPinnedMessageGet e u rid s)"
| "room_exec1 co e u (ReqWithdraw b) s = snd (RoomMessageWithdraw e u b s)"
| "room_exec1 co e u (ReqUserIds rid) s = snd (RoomUserIds e u rid s)"

definition room_exec ::
  "codecs \<Rightarrow> (admin_env \<times> http_user option \<times> room_request) list \<Rightarrow> 'a admin_store_scheme \<Rightarrow> 'a admin_store_scheme" where
  "room_exec co reqs s = fold (\<lambda>(e, u, q). room_exec1 co e u q) reqs s"

section \<open>Frames\<close>

text \<open>What the roster of a room is made of.\<close>

definition core :: "'a admin_store_scheme \<Rightarrow> room list \<times> room_user list \<times> (rid \<rightharpoonup> uid list) \<times> mute_config list" where
  "core s = (rooms s, room_users s, room_ids_cache s, mute_configs s)"

abbreviation core_is :: "room list \<times> room_user list \<times> (rid \<rightharpoonup> uid list) \<times> mute_config list \<Rightarrow> 'a admin_store_scheme \<Rightarrow> bool" where
  "core_is c s \<equiv> core s = c"

named_theorems core_keep \<open>operations that leave the core alone\<close>

lemma keepsI_eq: "(\<And>s. core (snd (m s)) = core s) \<Longrightarrow> keeps (core_is c) m"
  by (simp add: keeps_def)

lemma core_upd [simp]:
  "core (s\<lparr>xid_next := n\<rparr>) = core s" "core (s\<lparr>effects := es\<rparr>) = core s" "core (s\<lparr>chat_db := db\<rparr>) = core s"
  "core (s\<lparr>seq_keys_of := ks\<rparr>) = core s" "core (s\<lparr>online_members := om\<rparr>) = core s"
  "core (s\<lparr>notifications := ns\<rparr>) = core s" "core (s\<lparr>user_sessions := us\<rparr>) = core s"
  "core (s\<lparr>last_msg_cache := lc\<rparr>) = core s" "core (s\<lparr>join_requests := js\<rparr>) = core s"
  "core (s\<lparr>invites := iv\<rparr>) = core s" "core (s\<lparr>invite_joins := ij\<rparr>) = core s"
  "core (s\<lparr>announcements := an\<rparr>) = core s" "core (s\<lparr>pinned_messages := pm\<rparr>) = core s"
  "core (s\<lparr>strategy_keys := sk\<rparr>) = core s" "core (s\<lparr>freq_version := fv\<rparr>) = core s"
  by (simp_all add: core_def)

lemma core_upd_session [simp]: "core (upd_session P f s) = core s"
  by (simp add: upd_session_def)

lemma core_InvalidateRoomLastMessageCache [simp]: "core (InvalidateRoomLastMessageCache e rid s) = core s"
  by (simp add: InvalidateRoomLastMessageCache_def)

lemma core_emit [simp]: "core (emit x s) = core s" by (simp add: emit_def)

lemma core_basic [core_keep]:
  "keeps (core_is c) (new_xid e)" "keeps (core_is c) (NotifyQuic e msg)"
  "keeps (core_is c) (PublishUserOperationLog e uid op r b a)"
  "keeps (core_is c) (PublishRoomAdminLog e rid op uid r b a)"
  "keeps (core_is c) (AddUserToRoomOnlineSetIfOnline e rid uid)"
  "keeps (core_is c) (RemoveUserFromRoomOnlineSet e rid uid)"
  "keeps (core_is c) (next_seq e rid)"
  "keeps (core_is c) (BumpUserRoomSessionLastMessageTime re rid t)"
  "keeps (core_is c) (UpsertActiveUserRoomSessionTx re uid rid q t)"
  "keeps (core_is c) (write_session re P f)"
  "keeps (core_is c) (clear_tops e uid)"
  "keeps (core_is c) (create_session e uid rid q)"
  "keeps (core_is c) (write_notifications e NP nf)"
  "keeps (core_is c) (change (InvalidateRoomLastMessageCache re rid))"
  "keeps (core_is c) (write_block e bf)"
  by (rule keepsI_eq, simp add: new_xid_def NotifyQuic_def change_def PublishUserOperationLog_def
      PublishRoomAdminLog_def AddUserToRoomOnlineSetIfOnline_def RemoveUserFromRoomOnlineSet_def next_seq_def
      BumpUserRoomSessionLastMessageTime_def UpsertActiveUserRoomSessionTx_def write_session_def clear_tops_def
      create_session_def write_notifications_def write_block_def split: sum.splits prod.splits)+

lemma core_create_message_row [core_keep]: "keeps (core_is c) (create_message_row e rid q ip)"
  unfolding create_message_row_def
  by (intro keep core_keep) (simp add: keeps_def Let_def)

lemma core_create_content_row [core_keep]: "keeps (core_is c) (create_content_row e mid ty tid ct)"
  unfolding create_content_row_def
  by (intro keep core_keep) (simp add: keeps_def Let_def)

lemma core_system_message [core_keep]:
  "keeps (core_is c) (createRoomSystemMessageAndNotify e rid ty tid ct is es)"
  "keeps (core_is c) (CreateSystemMessageAndNotify e rid ty tid ct)"
  unfolding createRoomSystemMessageAndNotify_def CreateSystemMessageAndNotify_def
  by (intro keep core_keep)+

lemma core_CreateMessageNotification [core_keep]: "keeps (core_is c) (CreateMessageNotification e uid ty r ct)"
  unfolding CreateMessageNotification_def by (intro keep core_keep) (simp add: keeps_def Let_def)

lemma core_Upsert [core_keep]: "keeps (core_is c) (UpsertPendingMessageNotification e uid r ty ct)"
  unfolding UpsertPendingMessageNotification_def
  by (intro keep core_keep) (simp add: keeps_def Let_def)

lemma core_notifications [core_keep]:
  "keeps (core_is c) (UpdateMessageNotificationStateWithTx e uid r ty st)"
  "keeps (core_is c) (UpdateAllMessageNotificationStatesByRelatedIdAndType e r ty st)"
  "keeps (core_is c) (notify_users e r ct uids)"
  "keeps (core_is c) (upsertAndPushJoinRequestNotification e uid r ty txt)"
  unfolding UpdateMessageNotificationStateWithTx_def UpdateAllMessageNotificationStatesByRelatedIdAndType_def
    notify_users_def upsertAndPushJoinRequestNotification_def
  by (intro keep core_keep)+

lemma core_rejectIfRoomDissolved [core_keep]: "keeps (core_is c) (rejectIfRoomDissolved e rid)"
  by (rule keepsI_eq) (simp add: rejectIfRoomDissolved_def)

lemma core_join_requests [core_keep]:
  "keeps (core_is c) (UpdateRoomJoinRequestStateWithTx e rj uid st)"
  "keeps (core_is c) (CreateRoomInvite e iv)" "keeps (core_is c) (RecordRoomInviteJoin e iv uid)"
  by (rule keepsI_eq, simp add: UpdateRoomJoinRequestStateWithTx_def CreateRoomInvite_def RecordRoomInviteJoin_def)+

lemma core_CreateOrUpdateRoomJoinRequest [core_keep]:
  "keeps (core_is c) (CreateOrUpdateRoomJoinRequest e rid uid msg ans t)"
  unfolding CreateOrUpdateRoomJoinRequest_def by (intro keep core_keep) (simp_all add: keeps_def Let_def)

lemma core_approval_required [core_keep]: "keeps (core_is c) (approval_required e rid uid room)"
  unfolding approval_required_def by (intro keep core_keep)

lemma core_transaction [core_keep]: "keeps (core_is c) m \<Longrightarrow> keeps (core_is c) (transaction e r m)"
  by (force simp: keeps_def transaction_def split: sum.splits prod.splits)

lemma core_requests [core_keep]:
  "keeps (core_is c) (notifyRoomJoinRequest e q app room)"
  "keeps (core_is c) (pushRoomJoinRequestHandledNotifications e rj uid)"
  "keeps (core_is c) (decide_request e rj uid uid2 st nst)"
  "keeps (core_is c) (loadInviteByTokenOrBadRequest e tok)"
  unfolding notifyRoomJoinRequest_def pushRoomJoinRequestHandledNotifications_def decide_request_def
    loadInviteByTokenOrBadRequest_def Let_def
  by (intro keep core_keep)+

lemma core_announcements [core_keep]:
  "keeps (core_is c) (CreateRoomAnnouncement e rid txt uid b)" "keeps (core_is c) (save_announcement e a)"
  "keeps (core_is c) (delete_pins e P)" "keeps (core_is c) (PinRoomMessage e rid mid q uid)"
  by (rule keepsI_eq, simp add: CreateRoomAnnouncement_def save_announcement_def delete_pins_def PinRoomMessage_def
      Let_def)+

lemma core_notices [core_keep]:
  "keeps (core_is c) (change_announcement e i rid f)"
  "keeps (core_is c) (UpdateRoomAnnouncement e i rid txt uid pb)"
  "keeps (core_is c) (SoftDeleteRoomAnnouncement e i rid)"
  "keeps (core_is c) (announcement_checks e u rid txt)"
  "keeps (core_is c) (HardDeleteRoomPinnedMessage e rid)"
  "keeps (core_is c) (HardDeleteRoomPinnedMessageByMid e rid mid)"
  "keeps (core_is c) (BuildRoomPinnedMessageDto e rid)"
  unfolding UpdateRoomAnnouncement_def SoftDeleteRoomAnnouncement_def change_announcement_def announcement_checks_def
    HardDeleteRoomPinnedMessage_def HardDeleteRoomPinnedMessageByMid_def BuildRoomPinnedMessageDto_def
  by (intro keep core_keep)+

lemma core_withdraw_tx [core_keep]: "keeps (core_is c) (withdraw_tx e uid rid q m)"
  unfolding withdraw_tx_def by (intro keep core_keep) (simp add: keeps_def Let_def)

lemma core_schedule [core_keep]: "keeps (core_is c) (schedule_task e rid k t)"
  by (rule keepsI_eq) (simp add: schedule_task_def change_def Let_def)

lemma core_mute_announcements [core_keep]:
  "keeps (core_is c) (scheduleStrategyMuteTime e rid t1 t2 ty)"
  "keeps (core_is c) (announce_mute_all e rid uid b1 b2)"
  "keeps (core_is c) (announce_strategy e cols rid uid prev cfg)"
  unfolding scheduleStrategyMuteTime_def announce_mute_all_def announce_strategy_def Let_def
  by (intro keep core_keep)+

lemma collect_roles_state: "snd (collect_roles found rs s) = s"
  by (induction rs arbitrary: found) (simp_all add: succeed_def refuse_def)

lemma core_collect_roles [keep]: "keeps I (collect_roles found rs)"
  by (simp add: keeps_def collect_roles_state)

section \<open>The roster\<close>

definition mem_of :: "rid \<Rightarrow> room_user list \<Rightarrow> uid list" where
  "mem_of rid us = map ru_Uid (filter (\<lambda>u. ru_Rid u = rid \<and> ru_DeleteTime u = 0) us)"

definition owners_of :: "rid \<Rightarrow> room_user list \<Rightarrow> uid list" where
  "owners_of rid us = map ru_Uid (filter (\<lambda>u. ru_Rid u = rid \<and> ru_DeleteTime u = 0 \<and> ru_Role u = RoomUserRoleOwner) us)"

definition room_key :: "room_user \<Rightarrow> rid \<times> uid" where "room_key u = (ru_Rid u, ru_Uid u)"

text \<open>A room whose creation failed halfway: nobody was ever in it, and nobody can get in.\<close>

definition never_entered :: "room_user list \<Rightarrow> room \<Rightarrow> bool" where
  "never_entered us r \<longleftrightarrow> r_Rid r \<notin> ru_Rid ` set us \<and> r_JoinApprovalRequired r \<and> \<not> r_JoinQuestionEnabled r"

definition group_ok :: "room_user list \<Rightarrow> room \<Rightarrow> bool" where
  "group_ok us r \<longleftrightarrow> r_MemberCount r = int (length (mem_of (r_Rid r) us)) \<and>
     (owners_of (r_Rid r) us = [r_CreateUid r] \<or> never_entered us r)"

text \<open>The cached lists are checked outside the set \<open>X\<close> of rooms.\<close>

fun roster :: "rid set \<Rightarrow> room list \<times> room_user list \<times> (rid \<rightharpoonup> uid list) \<times> mute_config list \<Rightarrow> bool" where
  "roster X (rs, us, cache, mcs) \<longleftrightarrow>
     distinct (map r_Rid rs) \<and> distinct (map room_key us) \<and> ru_Rid ` set us \<subseteq> r_Rid ` set rs \<and>
     (\<forall>rid uids. rid \<notin> X \<longrightarrow> cache rid = Some uids \<longrightarrow> uids = mem_of rid us) \<and>
     (\<forall>r \<in> set rs. r_Type r = RoomTypeGroup \<longrightarrow> group_ok us r)"

definition roster_ok :: "'a admin_store_scheme \<Rightarrow> bool" where "roster_ok s \<longleftrightarrow> roster {} (core s)"

text \<open>Redis and the reading of member lists work, and the clock is set.\<close>

definition quiet :: "admin_env \<Rightarrow> bool" where
  "quiet e \<longleftrightarrow> \<not> re_fails (ae_room e) CacheGet \<and> \<not> re_fails (ae_room e) CacheSet \<and> \<not> re_fails (ae_room e) ListRoomUsers \<and> ae_now e \<noteq> 0"

lemma member_uids_mem_of: "member_uids rid s = mem_of rid (room_users s)"
  by (simp add: member_uids_def mem_of_def)

lemma mem_of_iff: "uid \<in> set (mem_of rid us) \<longleftrightarrow> (\<exists>u \<in> set us. active_user rid uid u)"
  by (auto simp: mem_of_def active_user_def)

lemma mem_of_append [simp]: "mem_of rid (us @ vs) = mem_of rid us @ mem_of rid vs"
  and owners_of_append [simp]: "owners_of rid (us @ vs) = owners_of rid us @ owners_of rid vs"
  by (simp_all add: mem_of_def owners_of_def)

lemma mem_of_Cons: "mem_of rid (u # us) = (if ru_Rid u = rid \<and> ru_DeleteTime u = 0 then [ru_Uid u] else []) @ mem_of rid us"
  and owners_of_Cons: "owners_of rid (u # us) =
    (if ru_Rid u = rid \<and> ru_DeleteTime u = 0 \<and> ru_Role u = RoomUserRoleOwner then [ru_Uid u] else []) @ owners_of rid us"
  by (simp_all add: mem_of_def owners_of_def)

lemma mem_of_Nil [simp]: "mem_of rid [] = []" and owners_of_Nil [simp]: "owners_of rid [] = []"
  by (simp_all add: mem_of_def owners_of_def)

text \<open>Rooms other than the one that changes.\<close>

definition others :: "rid \<Rightarrow> room_user list \<Rightarrow> room_user list" where
  "others rid us = filter (\<lambda>u. ru_Rid u \<noteq> rid) us"

lemma others_mem_of: "rid' \<noteq> rid \<Longrightarrow> mem_of rid' (others rid us) = mem_of rid' us"
  and others_owners_of: "rid' \<noteq> rid \<Longrightarrow> owners_of rid' (others rid us) = owners_of rid' us"
  and others_rids: "rid' \<noteq> rid \<Longrightarrow> rid' \<in> ru_Rid ` set (others rid us) \<longleftrightarrow> rid' \<in> ru_Rid ` set us"
  by (auto simp: mem_of_def owners_of_def others_def intro!: arg_cong [of _ _ "map ru_Uid"] filter_cong)

lemma others_group_ok:
  assumes "others rid us' = others rid us" and "r_Rid r \<noteq> rid"
  shows "group_ok us' r = group_ok us r"
  unfolding group_ok_def never_entered_def
  using assms others_mem_of [of "r_Rid r" rid us] others_mem_of [of "r_Rid r" rid us']
    others_owners_of [of "r_Rid r" rid us] others_owners_of [of "r_Rid r" rid us']
    others_rids [of "r_Rid r" rid us] others_rids [of "r_Rid r" rid us'] by simp

lemma roster_change:
  assumes ok: "roster X (rs, us, cache, mcs)"
    and oth: "others rid us' = others rid us" and keys: "distinct (map room_key us')"
    and rids: "rid \<in> ru_Rid ` set us' \<Longrightarrow> rid \<in> r_Rid ` set rs"
    and f: "\<And>r. r_Rid (f r) = r_Rid r"
    and grp: "\<And>r. r \<in> set rs \<Longrightarrow> r_Rid r = rid \<Longrightarrow> r_Type (f r) = RoomTypeGroup \<Longrightarrow> group_ok us' (f r)"
  shows "roster (insert rid X) (map (\<lambda>r. if r_Rid r = rid then f r else r) rs, us', cache, mcs')"
proof -
  let ?rs = "map (\<lambda>r. if r_Rid r = rid then f r else r) rs"
  have names: "map r_Rid ?rs = map r_Rid rs" by (simp add: f)
  then have sub: "r_Rid ` set ?rs = r_Rid ` set rs" by (metis list.set_map)
  have "ru_Rid ` set us' \<subseteq> r_Rid ` set rs"
  proof
    fix x assume x: "x \<in> ru_Rid ` set us'"
    show "x \<in> r_Rid ` set rs"
    proof (cases "x = rid")
      case False
      then have "x \<in> ru_Rid ` set us" using x oth others_rids [of x rid us] others_rids [of x rid us'] by simp
      then show ?thesis using ok by auto
    qed (use x rids in simp)
  qed
  moreover have "uids = mem_of x us'" if "x \<notin> insert rid X" "cache x = Some uids" for x uids
    using that ok oth others_mem_of [of x rid us] others_mem_of [of x rid us'] by auto
  moreover have "group_ok us' r" if r: "r \<in> set ?rs" and g: "r_Type r = RoomTypeGroup" for r
  proof -
    from r obtain r0 where r0: "r0 \<in> set rs" "r = (if r_Rid r0 = rid then f r0 else r0)" by auto
    show ?thesis
    proof (cases "r_Rid r0 = rid")
      case True then show ?thesis using r0 g grp by simp
    next
      case False then show ?thesis using r0 g ok others_group_ok [OF oth] by simp
    qed
  qed
  moreover have "distinct (map r_Rid ?rs)" unfolding names using ok by simp
  ultimately show ?thesis using keys sub by simp
qed

lemma key_split:
  assumes "distinct (map room_key us)" and "x \<in> set us"
  obtains ys zs where "us = ys @ x # zs" and "\<forall>v \<in> set ys \<union> set zs. room_key v \<noteq> room_key x"
proof -
  from assms(2) obtain ys zs where us: "us = ys @ x # zs" by (meson split_list)
  then have "room_key x \<notin> room_key ` set ys" "room_key x \<notin> room_key ` set zs"
    using assms(1) by simp_all
  then have "\<forall>v \<in> set ys \<union> set zs. room_key v \<noteq> room_key x" by (metis UnE imageI)
  with us show ?thesis by (rule that)
qed

text \<open>An update of the row of one user in one room.\<close>

lemma upd_at:
  assumes "\<forall>v \<in> set ys \<union> set zs. room_key v \<noteq> (rid, uid)" and "\<And>v. P v \<Longrightarrow> room_key v = (rid, uid)" and "P x"
  shows "map (\<lambda>v. if P v then f v else v) (ys @ x # zs) = ys @ f x # zs"
proof -
  have "map (\<lambda>v. if P v then f v else v) ys = ys" "map (\<lambda>v. if P v then f v else v) zs = zs"
    using assms(1) by (auto intro!: map_idI dest!: assms(2))
  then show ?thesis using assms(3) by simp
qed

lemma keys_at: "room_key (f x) = room_key x \<Longrightarrow> map room_key (ys @ f x # zs) = map room_key (ys @ x # zs)"
  by simp

lemma others_at: "ru_Rid x = rid \<Longrightarrow> ru_Rid y = rid \<Longrightarrow> others rid (ys @ y # zs) = others rid (ys @ x # zs)"
  by (simp add: others_def)


subsection \<open>The changes of the handlers, on the tables\<close>

lemma roster_create:
  assumes "roster X (rs, us, cache, mcs)" and "r_Rid r \<notin> r_Rid ` set rs"
    and "r_MemberCount r = 0" and "r_JoinApprovalRequired r" and "\<not> r_JoinQuestionEnabled r"
  shows "roster X (rs @ [r], us, cache, mcs)"
proof -
  have new: "r_Rid r \<notin> ru_Rid ` set us" using assms(1,2) by auto
  then have "mem_of (r_Rid r) us = []" by (force simp: mem_of_def filter_empty_conv image_iff)
  with new have "group_ok us r" using assms by (simp add: group_ok_def never_entered_def)
  with assms show ?thesis by auto
qed

lemma group_row:
  assumes "roster X (rs, us, cache, mcs)" and "r \<in> set rs" and "r_Type r = RoomTypeGroup"
  shows "r_MemberCount r = int (length (mem_of (r_Rid r) us))"
    "owners_of (r_Rid r) us = [r_CreateUid r] \<or> never_entered us r"
  using assms by (auto simp: group_ok_def)

abbreviation bump :: "rid \<Rightarrow> room list \<Rightarrow> room list" where
  "bump rid rs \<equiv> map (\<lambda>r. if r_Rid r = rid then r\<lparr>r_MemberCount := r_MemberCount r + 1\<rparr> else r) rs"

lemma roster_new_row:
  assumes ok: "roster X (rs, us, cache, mcs)" and rid: "ru_Rid u = rid" and new: "room_key u \<notin> room_key ` set us"
    and known: "rid \<in> r_Rid ` set rs" and active: "ru_DeleteTime u = 0"
    and grp: "\<And>r. r \<in> set rs \<Longrightarrow> r_Rid r = rid \<Longrightarrow> r_Type r = RoomTypeGroup \<Longrightarrow>
      (if ru_Role u = RoomUserRoleOwner then owners_of rid us = [] \<and> r_CreateUid r = ru_Uid u
       else owners_of rid us = [r_CreateUid r])"
  shows "roster (insert rid X) (bump rid rs, us @ [u], cache, mcs')"
proof (rule roster_change [OF ok])
  show "others rid (us @ [u]) = others rid us" using rid by (simp add: others_def)
  show "distinct (map room_key (us @ [u]))" using ok new by simp
next
  fix r assume r: "r \<in> set rs" "r_Rid r = rid" "r_Type (r\<lparr>r_MemberCount := r_MemberCount r + 1\<rparr>) = RoomTypeGroup"
  then have "r_MemberCount r = int (length (mem_of rid us))" using group_row [OF ok] by auto
  with r grp [of r] rid active show "group_ok (us @ [u]) (r\<lparr>r_MemberCount := r_MemberCount r + 1\<rparr>)"
    by (auto simp: group_ok_def mem_of_Cons owners_of_Cons split: if_splits)
qed (use known in simp_all)

lemma roster_back:
  assumes ok: "roster X (rs, us, cache, mcs)" and us: "us = ys @ x # zs" and x: "room_key x = (rid, uid)"
    and off: "ru_DeleteTime x \<noteq> 0" and y: "room_key y = (rid, uid)" "ru_DeleteTime y = 0" "ru_Role y \<noteq> RoomUserRoleOwner"
    and grp: "\<And>r. r \<in> set rs \<Longrightarrow> r_Rid r = rid \<Longrightarrow> r_Type r = RoomTypeGroup \<Longrightarrow> \<not> never_entered us r"
  shows "roster (insert rid X) (bump rid rs, ys @ y # zs, cache, mcs')"
proof (rule roster_change [OF ok])
  show "others rid (ys @ y # zs) = others rid us" using x y by (simp add: us others_at room_key_def)
  show "distinct (map room_key (ys @ y # zs))" using ok x y by (simp add: us)
  show "rid \<in> r_Rid ` set rs" using ok x us by (force simp: room_key_def)
next
  fix r assume r: "r \<in> set rs" "r_Rid r = rid" "r_Type (r\<lparr>r_MemberCount := r_MemberCount r + 1\<rparr>) = RoomTypeGroup"
  then have "r_MemberCount r = int (length (mem_of rid us))" "owners_of rid us = [r_CreateUid r]"
    using group_row [OF ok, of r] grp [of r] by auto
  with r x off y show "group_ok (ys @ y # zs) (r\<lparr>r_MemberCount := r_MemberCount r + 1\<rparr>)"
    by (auto simp: group_ok_def us mem_of_Cons owners_of_Cons room_key_def)
qed simp_all

lemma roster_gone:
  assumes ok: "roster X (rs, us, cache, mcs)" and us: "us = ys @ x # zs" and x: "room_key x = (rid, uid)"
    and on: "ru_DeleteTime x = 0" "ru_Role x \<noteq> RoomUserRoleOwner" and y: "room_key y = (rid, uid)"
    and off: "ru_DeleteTime y \<noteq> 0"
  shows "roster (insert rid X)
    (map (\<lambda>r. if r_Rid r = rid then r\<lparr>r_MemberCount := max (r_MemberCount r - 1) 0\<rparr> else r) rs, ys @ y # zs, cache, mcs')"
proof (rule roster_change [OF ok])
  show "others rid (ys @ y # zs) = others rid us" using x y by (simp add: us others_at room_key_def)
  show "distinct (map room_key (ys @ y # zs))" using ok x y by (simp add: us)
  show "rid \<in> r_Rid ` set rs" using ok x us by (force simp: room_key_def)
next
  fix r assume r: "r \<in> set rs" "r_Rid r = rid" "r_Type (r\<lparr>r_MemberCount := max (r_MemberCount r - 1) 0\<rparr>) = RoomTypeGroup"
  have "\<not> never_entered us r" using r x us by (auto simp: never_entered_def room_key_def)
  with r have "r_MemberCount r = int (length (mem_of rid us))" "owners_of rid us = [r_CreateUid r]"
    using group_row [OF ok, of r] by auto
  with r x on off y show "group_ok (ys @ y # zs) (r\<lparr>r_MemberCount := max (r_MemberCount r - 1) 0\<rparr>)"
    by (auto simp: group_ok_def us mem_of_Cons owners_of_Cons room_key_def)
qed simp_all

text \<open>Changes that keep who is a member: of roles, and of columns the roster does not look at.\<close>

lemma roster_same_members:
  assumes "roster (insert rid X) (rs, us', cache, mcs)" and "roster X (rs', us, cache, mcs')"
    and "mem_of rid us' = mem_of rid us"
  shows "roster X (rs, us', cache, mcs)"
proof -
  have "uids = mem_of x us'" if "x \<notin> X" "cache x = Some uids" for x uids
    by (cases "x = rid") (use that assms in auto)
  with assms show ?thesis by simp
qed

lemma roster_role:
  assumes ok: "roster X (rs, us, cache, mcs)" and us: "us = ys @ x # zs" and x: "room_key x = (rid, uid)"
    and on: "ru_DeleteTime x = 0" "ru_DeleteTime y = 0" and y: "room_key y = (rid, uid)"
    and grp: "\<And>r. r \<in> set rs \<Longrightarrow> r_Rid r = rid \<Longrightarrow> r_Type r = RoomTypeGroup \<Longrightarrow>
      ru_Role x \<noteq> RoomUserRoleOwner \<and> ru_Role y \<noteq> RoomUserRoleOwner"
  shows "roster X (rs, ys @ y # zs, cache, mcs)"
proof (rule roster_same_members [OF _ ok])
  show "mem_of rid (ys @ y # zs) = mem_of rid us" using on x y by (simp add: us mem_of_Cons room_key_def)
  have "roster (insert rid X) (map (\<lambda>r. if r_Rid r = rid then r else r) rs, ys @ y # zs, cache, mcs)"
  proof (rule roster_change [OF ok])
    show "others rid (ys @ y # zs) = others rid us" using x y by (simp add: us others_at room_key_def)
    show "distinct (map room_key (ys @ y # zs))" using ok x y by (simp add: us)
    show "rid \<in> r_Rid ` set rs" using ok x us by (force simp: room_key_def)
  next
    fix r assume r: "r \<in> set rs" "r_Rid r = rid" "r_Type r = RoomTypeGroup"
    have "\<not> never_entered us r" using r x us by (auto simp: never_entered_def room_key_def)
    with r have "r_MemberCount r = int (length (mem_of rid us))" "owners_of rid us = [r_CreateUid r]"
      using group_row [OF ok, of r] by auto
    with r x on y grp [of r] show "group_ok (ys @ y # zs) r"
      by (auto simp: group_ok_def us mem_of_Cons owners_of_Cons room_key_def)
  qed simp_all
  then show "roster (insert rid X) (rs, ys @ y # zs, cache, mcs)" by simp
qed

lemma roster_map_users:
  assumes "roster X (rs, us, cache, mcs)"
    and "\<And>u. room_key (f u) = room_key u" and "\<And>u. ru_DeleteTime (f u) = ru_DeleteTime u" and "\<And>u. ru_Role (f u) = ru_Role u"
  shows "roster X (rs, map (\<lambda>u. if P u then f u else u) us, cache, mcs)"
proof -
  let ?g = "\<lambda>u. if P u then f u else u"
  have cols: "ru_Rid (?g u) = ru_Rid u" "ru_Uid (?g u) = ru_Uid u" "ru_DeleteTime (?g u) = ru_DeleteTime u"
    "ru_Role (?g u) = ru_Role u" for u
    using assms(2) [of u] assms(3) [of u] assms(4) [of u] by (auto simp: room_key_def)
  have "map room_key (map ?g us) = map room_key us" using assms(2) by simp
  moreover have "mem_of rid (map ?g us) = mem_of rid us" "owners_of rid (map ?g us) = owners_of rid us" for rid
    by (simp_all add: mem_of_def owners_of_def filter_map comp_def cols)
  moreover have "map ru_Rid (map ?g us) = map ru_Rid us" by (simp add: cols(1))
  then have "ru_Rid ` set (map ?g us) = ru_Rid ` set us" by (metis list.set_map)
  ultimately show ?thesis using assms(1) by (simp add: group_ok_def never_entered_def del: map_map)
qed

lemma roster_map_rooms:
  assumes "roster X (rs, us, cache, mcs)"
    and "\<And>r. r_Rid (f r) = r_Rid r \<and> r_Type (f r) = r_Type r \<and> r_MemberCount (f r) = r_MemberCount r \<and> r_CreateUid (f r) = r_CreateUid r"
    and "\<And>r. r \<in> set rs \<Longrightarrow> P r \<Longrightarrow> never_entered us r \<Longrightarrow> r_JoinApprovalRequired (f r) \<and> \<not> r_JoinQuestionEnabled (f r)"
  shows "roster X (map (\<lambda>r. if P r then f r else r) rs, us, cache, mcs')"
proof -
  let ?g = "\<lambda>r. if P r then f r else r"
  have names: "map r_Rid (map ?g rs) = map r_Rid rs" using assms(2) by simp
  then have "r_Rid ` set (map ?g rs) = r_Rid ` set rs" by (metis list.set_map)
  moreover have "group_ok us r" if r: "r \<in> set (map ?g rs)" and g: "r_Type r = RoomTypeGroup" for r
  proof -
    from r obtain r0 where r0: "r0 \<in> set rs" "r = ?g r0" by auto
    with g have "group_ok us r0" using assms(1) assms(2) [of r0] by (auto split: if_splits)
    with r0 show ?thesis using assms(2) [of r0] assms(3) [of r0] by (auto simp: group_ok_def never_entered_def)
  qed
  ultimately show ?thesis using assms(1) names by (simp del: map_map set_map list.set_map)
qed

end
