(* ===== verification/RoomSafety.thy ===== *)
theory RoomSafety
  imports Roster
begin

text \<open>
  No sequence of room requests breaks the roster of \<open>Roster\<close>: the rules of the calculus
  for the handlers of this component, and the invariant request by request.
\<close>

section \<open>Rules\<close>

lemma wp_andThenI: "wp m (\<lambda>a. wp (f a) Q E) E s \<Longrightarrow> wp (andThen m f) Q E s" by simp
lemma wp_checkI: "(b \<Longrightarrow> Q () s) \<Longrightarrow> E s \<Longrightarrow> wp (check b r) Q E s" by simp
lemma wp_queryI: "(\<And>a. f s = Inr a \<Longrightarrow> Q a s) \<Longrightarrow> E s \<Longrightarrow> wp (query f) Q E s" by (simp add: wp_query split: sum.splits)
lemma wp_readingI: "Q (f s) s \<Longrightarrow> wp (reading f) Q E s" by simp
lemma wp_parsedI: "(\<And>b. body = Some b \<Longrightarrow> Q b s) \<Longrightarrow> E s \<Longrightarrow> wp (parsed body r) Q E s" by (simp split: option.splits)
lemma wp_GetUserI: "(\<And>u. user = Some u \<Longrightarrow> Q u s) \<Longrightarrow> E s \<Longrightarrow> wp (GetUser user) Q E s" by (simp split: option.splits)
lemma wp_orFailI: "wp m Q E s \<Longrightarrow> wp (orFail m r) Q E s" by simp
lemma wp_prodI: "(\<And>a b. x = (a, b) \<Longrightarrow> wp (f a b) Q E s) \<Longrightarrow> wp (case x of (a, b) \<Rightarrow> f a b) Q E s" by (cases x) simp
lemma wp_succeedI: "Q a s \<Longrightarrow> wp (succeed a) Q E s" by simp
lemma wp_refuseI: "E s \<Longrightarrow> wp (refuse r) Q E s" by simp
lemma wp_ifI: "(b \<Longrightarrow> wp m Q E s) \<Longrightarrow> (\<not> b \<Longrightarrow> wp n Q E s) \<Longrightarrow> wp (if b then m else n) Q E s" by simp

lemmas wp_rules = wp_andThenI wp_checkI wp_queryI wp_readingI wp_parsedI wp_GetUserI wp_orFailI wp_prodI
  wp_succeedI wp_refuseI wp_ifI

lemma wp_transaction:
  assumes "wp m Q (\<lambda>_. True) s" and "\<And>n ks. E (s\<lparr>xid_next := n, seq_keys_of := ks\<rparr>)"
  shows "wp (transaction e r m) Q E s"
  using assms by (simp add: wp_def transaction_def split: sum.splits prod.splits)

lemma keeps_wp: "keeps I m \<Longrightarrow> I s \<Longrightarrow> wp m (\<lambda>_. I) I s"
  by (erule wp_keeps) simp_all

section \<open>The roster and what leaves it alone\<close>

definition K :: "room list \<Rightarrow> room_user list \<Rightarrow> 'a admin_store_scheme \<Rightarrow> bool" where
  "K rs us s \<longleftrightarrow> roster_ok s \<and> rooms s = rs \<and> room_users s = us"

named_theorems K_keep \<open>operations that at most fill the cached member lists\<close>
named_theorems roster_keep \<open>operations that keep the roster\<close>

lemma core_sel: "core s1 = core s2 \<longleftrightarrow> rooms s1 = rooms s2 \<and> room_users s1 = room_users s2 \<and>
    room_ids_cache s1 = room_ids_cache s2 \<and> mute_configs s1 = mute_configs s2"
  by (simp add: core_def)

lemma core_frame: "(\<And>c. keeps (core_is c) m) \<Longrightarrow> core (snd (m s)) = core s"
  by (simp add: keeps_def)

lemma K_core: "(\<And>c. keeps (core_is c) m) \<Longrightarrow> keeps (K rs us) m"
proof -
  assume "\<And>c. keeps (core_is c) m"
  then have c: "core (snd (m s)) = core s" for s by (rule core_frame)
  then have "rooms (snd (m s)) = rooms s \<and> room_users (snd (m s)) = room_users s" for s
    unfolding core_sel by blast
  with c show ?thesis by (simp add: keeps_def K_def roster_ok_def)
qed

lemma roster_core: "(\<And>c. keeps (core_is c) m) \<Longrightarrow> keeps (\<lambda>s. roster X (core s)) m"
  using core_frame [of m] by (auto simp: keeps_def)

lemma K_roster: "(\<And>rs us. keeps (K rs us) m) \<Longrightarrow> keeps roster_ok m"
  by (simp add: keeps_def K_def)

lemma K_transaction [K_keep]: "keeps (K rs us) m \<Longrightarrow> keeps (K rs us) (transaction e r m)"
  by (force simp: keeps_def K_def roster_ok_def transaction_def split: sum.splits prod.splits)

lemma roster_transaction [roster_keep]: "keeps roster_ok m \<Longrightarrow> keeps roster_ok (transaction e r m)"
  by (force simp: keeps_def roster_ok_def transaction_def split: sum.splits prod.splits)

lemma wp_K:
  assumes "keeps (K (rooms s) (room_users s)) m" and "roster_ok s"
    and "\<And>a s1. roster_ok s1 \<Longrightarrow> rooms s1 = rooms s \<Longrightarrow> room_users s1 = room_users s \<Longrightarrow> Q a s1"
    and "\<And>s1. roster_ok s1 \<Longrightarrow> rooms s1 = rooms s \<Longrightarrow> room_users s1 = room_users s \<Longrightarrow> E s1"
  shows "wp m Q E s"
  by (rule wp_keeps [OF assms(1)]) (use assms(2-) in \<open>auto simp: K_def\<close>)

section \<open>Cached member lists\<close>

lemma core_cache: "core (s\<lparr>room_ids_cache := ca\<rparr>) = (rooms s, room_users s, ca, mute_configs s)"
  by (simp add: core_def)

lemma refresh_roster:
  assumes "quiet e" and "roster (insert rid X) (core s)"
  shows "roster X (core (SetRoomUserIdsCache (ae_room e) rid s))"
  using assms by (auto simp: SetRoomUserIdsCache_def getRoomUserIds_def quiet_def core_def member_uids_mem_of split: if_splits)

lemma refresh_frame [simp]:
  "rooms (SetRoomUserIdsCache re rid s) = rooms s" "room_users (SetRoomUserIdsCache re rid s) = room_users s"
  by (auto simp: SetRoomUserIdsCache_def split: sum.splits)

lemma refresh_ok: "quiet e \<Longrightarrow> roster_ok s \<Longrightarrow> roster_ok (SetRoomUserIdsCache (ae_room e) rid s)"
  unfolding roster_ok_def by (rule refresh_roster) (auto simp: core_def)

lemma refresh_cached: "quiet e \<Longrightarrow> room_ids_cache (SetRoomUserIdsCache (ae_room e) rid s) rid = Some (mem_of rid (room_users s))"
  by (simp add: SetRoomUserIdsCache_def getRoomUserIds_def quiet_def member_uids_mem_of)

lemma GetRoomUserIdsCache_quiet:
  assumes "quiet e" and "roster_ok s"
  obtains s1 where "GetRoomUserIdsCache (ae_room e) rid s = (Inr (mem_of rid (room_users s)), s1)"
    and "roster_ok s1" and "rooms s1 = rooms s" and "room_users s1 = room_users s"
proof (cases "room_ids_cache s rid")
  case None
  with assms show ?thesis
    by (intro that [of "SetRoomUserIdsCache (ae_room e) rid s"])
      (simp_all add: GetRoomUserIdsCache_def quiet_def refresh_cached refresh_ok Let_def)
next
  case (Some uids)
  with assms have "uids = mem_of rid (room_users s)" by (auto simp: roster_ok_def core_def)
  with assms Some show ?thesis by (intro that [of s]) (simp_all add: GetRoomUserIdsCache_def quiet_def)
qed

lemma wp_member_ids:
  assumes "quiet e" and "roster_ok s"
    and "\<And>s1. roster_ok s1 \<Longrightarrow> rooms s1 = rooms s \<Longrightarrow> room_users s1 = room_users s \<Longrightarrow> Q (mem_of rid (room_users s)) s1"
  shows "wp (GetRoomUserIdsCache (ae_room e) rid) Q E s"
  by (rule GetRoomUserIdsCache_quiet [OF assms(1,2), of rid]) (simp add: wp_def assms(3))

lemma wp_has_room_user:
  assumes "quiet e" and "roster_ok s"
    and "\<And>s1. roster_ok s1 \<Longrightarrow> rooms s1 = rooms s \<Longrightarrow> room_users s1 = room_users s \<Longrightarrow> Q (uid \<in> set (mem_of rid (room_users s))) s1"
  shows "wp (has_room_user e rid uid) Q E s"
  by (rule GetRoomUserIdsCache_quiet [OF assms(1,2), of rid]) (simp add: wp_def has_room_user_def HasRoomUser_def assms(3))

lemma K_member_ids [K_keep]: "quiet e \<Longrightarrow> keeps (K rs us) (GetRoomUserIdsCache (ae_room e) rid)"
  by (rule keepsI) (auto simp: K_def intro!: wp_member_ids)

lemma K_has_room_user [K_keep]: "quiet e \<Longrightarrow> keeps (K rs us) (has_room_user e rid uid)"
  by (rule keepsI) (auto simp: K_def intro!: wp_has_room_user)

lemma K_refresh [K_keep]: "quiet e \<Longrightarrow> keeps (K rs us) (refresh_members e rid)"
  by (simp add: keeps_def refresh_members_def change_def K_def refresh_ok)

lemma K_collect_except [K_keep]: "quiet e \<Longrightarrow> keeps (K rs us) (collect_except e rid found vs)"
proof (induction vs arbitrary: found)
  case (Cons v vs)
  then show ?case by (auto intro!: keep K_has_room_user)
qed (simp add: keep)

section \<open>Facts read from the tables\<close>

lemma GetRoomByRid_D: "GetRoomByRid re rid s = Inr r \<Longrightarrow> r \<in> set (rooms s) \<and> r_Rid r = rid \<and> r_State r = 1 \<and> r_DeleteTime r = 0"
  by (auto simp: GetRoomByRid_def find_Some_iff split: if_splits option.splits)

lemma GetRoomUser_D: "GetRoomUser re rid uid s = Inr u \<Longrightarrow> u \<in> set (room_users s) \<and> active_user rid uid u"
  by (auto simp: GetRoomUser_def find_Some_iff split: if_splits option.splits)

lemma CanUserMute_D: "CanUserMuteInRoom re rid uid s \<Longrightarrow>
    \<exists>u \<in> set (room_users s). active_user rid uid u \<and> (ru_Role u = RoomUserRoleAdmin \<or> ru_Role u = RoomUserRoleOwner)"
  by (auto simp: CanUserMuteInRoom_def dest!: GetRoomUser_D split: sum.splits)

lemma same_room: "roster_ok s \<Longrightarrow> r \<in> set (rooms s) \<Longrightarrow> r' \<in> set (rooms s) \<Longrightarrow> r_Rid r = r_Rid r' \<Longrightarrow> r = r'"
  by (auto simp: roster_ok_def core_def distinct_map dest: inj_onD)

lemma same_row: "roster_ok s \<Longrightarrow> u \<in> set (room_users s) \<Longrightarrow> v \<in> set (room_users s) \<Longrightarrow> room_key u = room_key v \<Longrightarrow> u = v"
  by (auto simp: roster_ok_def core_def distinct_map dest: inj_onD)

lemma active_key: "active_user rid uid u \<longleftrightarrow> room_key u = (rid, uid) \<and> ru_DeleteTime u = 0"
  by (auto simp: active_user_def room_key_def)

section \<open>Operations that keep the roster\<close>

lemma core_upd_user [simp]: "core (upd_user P f s) = (rooms s, map (\<lambda>u. if P u then f u else u) (room_users s), room_ids_cache s, mute_configs s)"
  and core_upd_room [simp]: "core (upd_room RP rf s) = (map (\<lambda>r. if RP r then rf r else r) (rooms s), room_users s, room_ids_cache s, mute_configs s)"
  by (simp_all add: core_def upd_user_def upd_room_def)

lemma roster_upd_user:
  assumes "roster_ok s" and "\<And>u. room_key (f u) = room_key u" and "\<And>u. ru_DeleteTime (f u) = ru_DeleteTime u" and "\<And>u. ru_Role (f u) = ru_Role u"
  shows "roster_ok (upd_user P f s)"
  unfolding roster_ok_def core_upd_user by (rule roster_map_users) (use assms in \<open>simp_all add: roster_ok_def core_def\<close>)

lemma roster_write_room [roster_keep]:
  assumes "\<And>r. r_Rid (f r) = r_Rid r \<and> r_Type (f r) = r_Type r \<and> r_MemberCount (f r) = r_MemberCount r \<and> r_CreateUid (f r) = r_CreateUid r"
    and "\<And>r. r_JoinApprovalRequired (f r) = r_JoinApprovalRequired r" and "\<And>r. r_JoinQuestionEnabled (f r) = r_JoinQuestionEnabled r"
  shows "keeps roster_ok (write_room e P f)"
proof (rule keepsI)
  fix s assume "roster_ok s"
  then have "roster {} (rooms s, room_users s, room_ids_cache s, mute_configs s)" by (simp add: roster_ok_def core_def)
  then have "roster {} (core (upd_room P f s))"
    unfolding core_upd_room by (rule roster_map_rooms) (use assms in \<open>simp_all add: never_entered_def\<close>)
  with \<open>roster_ok s\<close> show "wp (write_room e P f) (\<lambda>_. roster_ok) roster_ok s"
    by (simp add: wp_def write_room_def roster_ok_def)
qed

lemma roster_DissolveRoom [roster_keep]: "keeps roster_ok (DissolveRoom re rid)"
proof (rule keepsI)
  fix s assume "roster_ok s"
  then have "roster {} (rooms s, room_users s, room_ids_cache s, mute_configs s)" by (simp add: roster_ok_def core_def)
  then have "roster {} (core (upd_room (active_room rid) (\<lambda>r. r\<lparr>r_State := RoomStateDissolved\<rparr>) s))"
    unfolding core_upd_room by (rule roster_map_rooms) (simp_all add: never_entered_def)
  with \<open>roster_ok s\<close> show "wp (DissolveRoom re rid) (\<lambda>_. roster_ok) roster_ok s"
    by (simp add: wp_def DissolveRoom_def roster_ok_def)
qed

lemma roster_members_columns [roster_keep]:
  "keeps roster_ok (UpdateRoomUserNickname re rid uid n)" "keeps roster_ok (UpdateRoomUserRemark re rid uid n)"
  "keeps roster_ok (MuteUserInRoom re rid t op d)" "keeps roster_ok (UnmuteUserInRoom re rid t)"
  by (rule keepsI, auto simp: wp_def UpdateRoomUserNickname_def UpdateRoomUserRemark_def MuteUserInRoom_def
      UnmuteUserInRoom_def write_user_def room_key_def intro!: roster_upd_user split: sum.splits)+

lemma roster_mute_configs: "roster X (rs, us, ca, mcs) \<Longrightarrow> roster X (rs, us, ca, mcs')"
  by simp

lemma roster_SetRoomMuteConfigRule [roster_keep]: "keeps roster_ok (SetRoomMuteConfigRule re rid uid p)"
  unfolding keeps_def
proof (intro allI impI)
  fix s assume ok: "roster_ok s"
  have "rooms (snd (SetRoomMuteConfigRule re rid uid p s)) = rooms s \<and>
      room_users (snd (SetRoomMuteConfigRule re rid uid p s)) = room_users s \<and>
      room_ids_cache (snd (SetRoomMuteConfigRule re rid uid p s)) = room_ids_cache s"
    by (auto simp: SetRoomMuteConfigRule_def ResetRoomMuteFrequencyCount_def Let_def split: sum.splits)
  with ok show "roster_ok (snd (SetRoomMuteConfigRule re rid uid p s))" by (simp add: roster_ok_def core_def)
qed

lemma roster_SetRoomMuteAll [roster_keep]: "keeps roster_ok (SetRoomMuteAll re rid b uid t)"
  unfolding SetRoomMuteAll_def by (rule roster_keep)

section \<open>The simple handlers\<close>

lemmas K_quiet = K_member_ids K_has_room_user K_refresh K_collect_except

lemma keeps_room_error [keep]:
  "keeps I m1 \<Longrightarrow> keeps I m2 \<Longrightarrow> keeps I m3 \<Longrightarrow> keeps I m4 \<Longrightarrow> keeps I m5 \<Longrightarrow> keeps I m6 \<Longrightarrow>
   keeps I (case x of RoomStoreError \<Rightarrow> m1 | RoomNotFound \<Rightarrow> m2 | RedisNil \<Rightarrow> m3 | NotRoomOwner \<Rightarrow> m4
     | InvalidTransferTarget \<Rightarrow> m5 | RoomAlreadyDissolved \<Rightarrow> m6)"
  by (cases x) simp_all

lemma K_handlers [K_keep]:
  assumes "quiet e"
  shows "keeps (K rs us) (RoomUserIds e user rid)" "keeps (K rs us) (RoomInviteCreate e ie user b1)"
    "keeps (K rs us) (RoomJoinRequestReject e user b1)"
    "keeps (K rs us) (RoomBlock e user b1)" "keeps (K rs us) (RoomUnblock e user b1)"
    "keeps (K rs us) (RoomBlockUser e user b2)" "keeps (K rs us) (RoomUnblockUser e user b2)"
    "keeps (K rs us) (RoomAnnouncementCreate e dec user b3)" "keeps (K rs us) (RoomAnnouncementUpdate e dec user b4)"
    "keeps (K rs us) (RoomAnnouncementDelete e dec user b5)"
    "keeps (K rs us) (RoomPinnedMessagePin e user b5)" "keeps (K rs us) (RoomPinnedMessageUnpin e user b1)"
    "keeps (K rs us) (RoomPinnedMessageGet e user rid)" "keeps (K rs us) (RoomMessageWithdraw e user b5)"
  unfolding RoomUserIds_def RoomInviteCreate_def RoomJoinRequestReject_def RoomBlock_def RoomUnblock_def
    RoomBlockUser_def RoomUnblockUser_def RoomAnnouncementCreate_def RoomAnnouncementUpdate_def
    RoomAnnouncementDelete_def RoomPinnedMessagePin_def RoomPinnedMessageUnpin_def RoomPinnedMessageGet_def
    RoomMessageWithdraw_def Let_def
  by (((rule K_core, rule core_basic) | rule keep K_transaction K_quiet [OF assms] | (rule K_core, rule core_keep))+)

text \<open>\<open>K_keep\<close> and the frames, for the roster alone.\<close>

lemma roster_frame: "(\<And>c. keeps (core_is c) m) \<Longrightarrow> keeps roster_ok m"
  unfolding roster_ok_def by (rule roster_core)

lemma roster_members [roster_keep]:
  assumes "quiet e"
  shows "keeps roster_ok (GetRoomUserIdsCache (ae_room e) rid)" "keeps roster_ok (has_room_user e rid uid)"
    "keeps roster_ok (refresh_members e rid)" "keeps roster_ok (collect_except e rid found vs)"
  by (rule K_roster, rule K_quiet [OF assms])+

lemma roster_handlers [roster_keep]:
  assumes "quiet e"
  shows "keeps roster_ok (RoomNameUpdate e user b2)" "keeps roster_ok (RoomPasswordUpdate e user b2)"
    "keeps roster_ok (RoomAvatarUpdate e user b2)" "keeps roster_ok (RoomDissolve e user b1)"
    "keeps roster_ok (RoomUserNicknameUpdate e user b2)" "keeps roster_ok (RoomUserRemarkUpdate e user b2)"
    "keeps roster_ok (RoomMuteConfigUpdate e cols pr user bm)" "keeps roster_ok (RoomMute e user b4)"
    "keeps roster_ok (RoomUnmute e user b3)" "keeps roster_ok (RoomMuteAll e user b5)"
  unfolding RoomNameUpdate_def RoomPasswordUpdate_def RoomAvatarUpdate_def RoomDissolve_def RoomUserNicknameUpdate_def
    RoomUserRemarkUpdate_def RoomMuteConfigUpdate_def RoomMute_def RoomUnmute_def RoomMuteAll_def Let_def
  by (((rule roster_frame, rule core_basic) | rule keep roster_keep roster_members [OF assms] | (rule roster_frame, rule core_keep) | simp)+)

section \<open>Becoming a member\<close>

abbreviation roster_but :: "rid \<Rightarrow> 'a admin_store_scheme \<Rightarrow> bool" where
  "roster_but rid s \<equiv> roster {rid} (core s)"

text \<open>The count of the room is one behind.\<close>

definition counting :: "rid \<Rightarrow> 'a admin_store_scheme \<Rightarrow> bool" where
  "counting rid s \<longleftrightarrow> roster {rid} (bump rid (rooms s), room_users s, room_ids_cache s, mute_configs s)"

lemma wp_add_member_count: "counting rid s \<Longrightarrow> wp (add_member_count e rid) (\<lambda>_. roster_but rid) (\<lambda>_. True) s"
  by (simp add: wp_def add_member_count_def write_room_def counting_def)

lemma enterable:
  assumes "roster_ok s" and "r \<in> set (rooms s)" and "r_Rid r = rid" and "\<not> r_JoinApprovalRequired r \<or> r_JoinQuestionEnabled r \<or> rid \<in> ru_Rid ` set (room_users s)"
    and "r' \<in> set (rooms s)" and "r_Rid r' = rid"
  shows "\<not> never_entered (room_users s) r'"
  using same_room [OF assms(1,2,5)] assms by (auto simp: never_entered_def)

lemma wp_UpsertActiveRoomUserTx:
  assumes ok: "roster_ok s" and out: "uid \<notin> set (mem_of rid (room_users s))" and r: "r \<in> set (rooms s)" "r_Rid r = rid"
    and ent: "\<not> r_JoinApprovalRequired r \<or> r_JoinQuestionEnabled r \<or> rid \<in> ru_Rid ` set (room_users s)"
  shows "wp (UpsertActiveRoomUserTx (ae_room e) rid uid nick t) (\<lambda>_. counting rid) (\<lambda>_. True) s"
proof -
  have R: "roster {} (rooms s, room_users s, room_ids_cache s, mute_configs s)" using ok by (simp add: roster_ok_def core_def)
  have grp: "\<not> never_entered (room_users s) r'" if "r' \<in> set (rooms s)" "r_Rid r' = rid" for r'
    using enterable [OF ok r ent that] .
  show ?thesis
  proof (cases "\<exists>x \<in> set (room_users s). room_key x = (rid, uid)")
    case True
    then obtain x where x: "x \<in> set (room_users s)" "room_key x = (rid, uid)" by blast
    have "distinct (map room_key (room_users s))" using R by simp
    from key_split [OF this x(1)] obtain ys zs where
      us: "room_users s = ys @ x # zs" and rest: "\<forall>v \<in> set ys \<union> set zs. room_key v \<noteq> (rid, uid)" using x(2) by metis
    let ?P = "\<lambda>u. ru_Rid u = rid \<and> ru_Uid u = uid"
    let ?f = "\<lambda>u. u\<lparr>ru_DeleteTime := 0, ru_Role := RoomUserRoleNormal, ru_MuteUntil := 0, ru_MuteOperatorUid := [],
              ru_RoomNickname := nick, ru_JoinRoomTime := t\<rparr>"
    have off: "ru_DeleteTime x \<noteq> 0" using out x by (auto simp: mem_of_iff active_key)
    have upd: "map (\<lambda>u. if ?P u then ?f u else u) (room_users s) = ys @ ?f x # zs"
      unfolding us by (rule upd_at [OF rest]) (use x(2) in \<open>auto simp: room_key_def\<close>)
    have "roster (insert rid {}) (bump rid (rooms s), ys @ ?f x # zs, room_ids_cache s, mute_configs s)"
      by (rule roster_back [OF R us x(2) off]) (use x(2) grp in \<open>simp_all add: room_key_def room_consts\<close>)
    then have "counting rid (upd_user ?P ?f s)"
      unfolding counting_def by (simp add: upd_user_def upd [unfolded])
    moreover have "\<exists>u\<in>set (room_users s). ?P u" using x by (auto simp: room_key_def)
    ultimately show ?thesis by (simp add: wp_def UpsertActiveRoomUserTx_def write_user_def)
  next
    case False
    let ?u = "fresh_room_user rid uid RoomUserRoleNormal nick t"
    have "roster (insert rid {}) (bump rid (rooms s), room_users s @ [?u], room_ids_cache s, mute_configs s)"
    proof (rule roster_new_row [OF R])
      show "ru_Rid ?u = rid" "ru_DeleteTime ?u = 0" by (simp_all add: fresh_room_user_def)
      show "room_key ?u \<notin> room_key ` set (room_users s)" using False by (auto simp: room_key_def fresh_room_user_def)
      show "rid \<in> r_Rid ` set (rooms s)" using r by auto
    next
      fix r' assume r': "r' \<in> set (rooms s)" "r_Rid r' = rid" "r_Type r' = RoomTypeGroup"
      then have "owners_of rid (room_users s) = [r_CreateUid r']" using group_row [OF R r'(1,3)] grp by auto
      then show "if ru_Role ?u = RoomUserRoleOwner then owners_of rid (room_users s) = [] \<and> r_CreateUid r' = ru_Uid ?u
          else owners_of rid (room_users s) = [r_CreateUid r']" by (simp add: fresh_room_user_def room_consts)
    qed
    then have "counting rid (s\<lparr>room_users := room_users s @ [?u]\<rparr>)" by (simp add: counting_def)
    moreover have "(\<exists>u \<in> set (room_users s). ru_Rid u = rid \<and> ru_Uid u = uid) = False"
      using False by (auto simp: room_key_def)
    ultimately show ?thesis unfolding wp_def UpsertActiveRoomUserTx_def by (simp only: if_False) simp
  qed
qed

lemma but_keep: "(\<And>c. keeps (core_is c) m) \<Longrightarrow> keeps (roster_but rid) m"
  by (rule roster_core)

lemma wp_mono: "wp m Q E s \<Longrightarrow> (\<And>a s1. Q a s1 \<Longrightarrow> Q' a s1) \<Longrightarrow> (\<And>s1. E s1 \<Longrightarrow> E' s1) \<Longrightarrow> wp m Q' E' s"
  by (auto simp: wp_def split: sum.splits prod.splits)

lemma wp_quietlyI: "keeps I m \<Longrightarrow> I s \<Longrightarrow> (\<And>s1. I s1 \<Longrightarrow> Q () s1) \<Longrightarrow> wp (quietly m) Q E s"
  by (simp add: keepsD)

lemma wp_refresh: "quiet e \<Longrightarrow> roster_but rid s \<Longrightarrow> (\<And>s1. roster_ok s1 \<Longrightarrow> Q () s1) \<Longrightarrow> wp (refresh_members e rid) Q E s"
  by (simp add: refresh_members_def roster_ok_def refresh_roster)

lemma wp_joined:
  assumes ok: "roster_ok s" and out: "hu_Uid u \<notin> set (mem_of (r_Rid room) (room_users s))" and r: "room \<in> set (rooms s)"
    and ent: "\<not> r_JoinApprovalRequired room \<or> r_JoinQuestionEnabled room \<or> r_Rid room \<in> ru_Rid ` set (room_users s)"
  shows "wp (join_tx e u room q byUid) (\<lambda>_. roster_but (r_Rid room)) roster_ok s"
  unfolding join_tx_def
  apply (rule wp_transaction)
   apply (unfold Let_def, rule wp_andThenI, rule wp_mono [OF wp_UpsertActiveRoomUserTx [OF ok out r refl ent]])
    apply (rule wp_andThenI, erule wp_mono [OF wp_add_member_count])
     apply (rule wp_keeps [where I = "roster_but (r_Rid room)"])
        apply (rule keep but_keep core_keep | assumption)+
       apply simp_all
  using ok by (simp add: roster_ok_def)

lemma roster_join:
  assumes q: "quiet e" and ok: "roster_ok s" and out: "hu_Uid u \<notin> set (mem_of (r_Rid room) (room_users s))" and r: "room \<in> set (rooms s)"
    and ent: "\<not> r_JoinApprovalRequired room \<or> r_JoinQuestionEnabled room \<or> r_Rid room \<in> ru_Rid ` set (room_users s)"
  shows "wp (joinRoomCommittedAfterValidation e u room byUid) (\<lambda>_. roster_ok) roster_ok s"
  unfolding joinRoomCommittedAfterValidation_def
  apply (rule wp_andThenI, rule wp_K [OF K_core ok], rule core_keep)
   apply (rule wp_andThenI, rule wp_mono [OF wp_joined])
        apply (use out r ent in simp_all)
   apply (rule wp_refresh [OF q], erule keepsD [rotated], rule but_keep, rule core_keep)
   apply (rule keeps_wp, (rule keep | (rule roster_frame, rule core_keep) | assumption)+)
  done

section \<open>The requests that let users in\<close>

lemma roster_approval_required [roster_keep]: "keeps roster_ok (approval_required e rid uid room)"
  by (rule roster_frame) (rule core_keep)

lemma roster_RoomJoin [roster_keep]:
  assumes "quiet e"
  shows "keeps roster_ok (RoomJoin e user b)"
  unfolding RoomJoin_def Let_def
  apply (rule keepsI)
  apply (rule wp_rules wp_has_room_user [OF assms] | assumption)+
   apply (rule keeps_wp, rule roster_keep, assumption)
  apply (rule wp_orFailI, rule roster_join [OF assms])
     apply (auto dest!: GetRoomByRid_D)
  done

lemma wp_validate:
  assumes q: "quiet e" and ok: "roster_ok s"
    and Q: "\<And>room s1. roster_ok s1 \<Longrightarrow> room \<in> set (rooms s1) \<Longrightarrow>
       hu_Uid u \<notin> set (mem_of (r_Rid room) (room_users s1)) \<Longrightarrow> Q room s1"
  shows "wp (validatePublicRoomJoin e u rid pw tok) Q roster_ok s"
  unfolding validatePublicRoomJoin_def Let_def
  by (rule wp_rules wp_has_room_user [OF q] ok Q | assumption | (auto dest!: GetRoomByRid_D)[1])+

lemma wp_join:
  assumes "quiet e" and "roster_ok s" and "hu_Uid u \<notin> set (mem_of (r_Rid room) (room_users s))" and "room \<in> set (rooms s)"
    and "\<not> r_JoinApprovalRequired room \<or> r_JoinQuestionEnabled room \<or> r_Rid room \<in> ru_Rid ` set (room_users s)"
    and "\<And>s1. roster_ok s1 \<Longrightarrow> Q () s1"
  shows "wp (joinRoomCommittedAfterValidation e u room byUid) Q roster_ok s"
  by (rule wp_mono [OF roster_join [OF assms(1-5)]]) (simp_all add: assms(6))

lemma roster_RoomJoinApply [roster_keep]:
  assumes q: "quiet e"
  shows "keeps roster_ok (RoomJoinApply e user b)"
  unfolding RoomJoinApply_def Let_def
  apply (rule keepsI)
  apply (rule wp_rules wp_validate [OF q] wp_join [OF q] | assumption)+
     apply simp
    apply (rule keeps_wp, (rule keep | (rule roster_frame, rule core_keep) | assumption)+)+
  done

lemma roster_RoomJoinInvite [roster_keep]:
  assumes q: "quiet e"
  shows "keeps roster_ok (RoomJoinInvite e user b)"
  unfolding RoomJoinInvite_def loadInviteByTokenOrBadRequest_def Let_def
  apply (rule keepsI)
  apply (rule wp_rules wp_has_room_user [OF q] | assumption)+
   apply (rule keeps_wp, rule roster_keep, assumption)
  apply (rule wp_andThenI wp_orFailI)+
  apply (rule wp_join [OF q], assumption)
     apply (auto dest!: GetRoomByRid_D)[3]
  apply (rule keeps_wp, (rule keep | (rule roster_frame, rule core_keep) | assumption)+)
  done

lemma admin_in_room: "CanUserMuteInRoom re rid uid s \<Longrightarrow> rid \<in> ru_Rid ` set (room_users s)"
  by (force dest!: CanUserMute_D simp: active_user_def)

lemma GetUserByUid_D: "GetUserByUid e uid s = Inr u \<Longrightarrow> hu_Uid u = uid"
  by (auto simp: GetUserByUid_def split: if_splits option.splits)

lemma roster_RoomJoinRequestAccept [roster_keep]:
  assumes q: "quiet e"
  shows "keeps roster_ok (RoomJoinRequestAccept e user b)"
  unfolding RoomJoinRequestAccept_def
  apply (rule keepsI)
  apply (rule wp_rules wp_has_room_user [OF q] | assumption)+
   apply (rule wp_K [OF K_core], rule core_keep, assumption)
    apply (rule wp_andThenI wp_orFailI)+
    apply (rule wp_join [OF q], assumption)
       apply (auto dest!: GetRoomByRid_D GetUserByUid_D admin_in_room)[3]
    apply (rule keeps_wp, (rule keep | (rule roster_frame, rule core_keep) | assumption)+)
  done

section \<open>Creating a room\<close>

text \<open>The room between its row and the transaction that lets its creator in.\<close>

definition orphan :: "rid \<Rightarrow> uid \<Rightarrow> room list \<times> room_user list \<times> (rid \<rightharpoonup> uid list) \<times> mute_config list \<Rightarrow> bool" where
  "orphan rid uid c \<longleftrightarrow> roster {} c \<and> (\<exists>r \<in> set (fst c). r_Rid r = rid \<and> r_CreateUid r = uid) \<and>
     rid \<notin> ru_Rid ` set (fst (snd c))"

lemma orphan_frame: "(\<And>c. keeps (core_is c) m) \<Longrightarrow> keeps (\<lambda>s. orphan rid uid (core s)) m"
  using core_frame [of m] by (auto simp: keeps_def)

lemma wp_create_room_row:
  assumes ok: "roster_ok s" and Q: "\<And>room s1. orphan (r_Rid room) uid (core s1) \<Longrightarrow> Q room s1"
  shows "wp (create_room_row e name de av pw uid) Q roster_ok s"
proof -
  have R: "roster {} (rooms s, room_users s, room_ids_cache s, mute_configs s)" using ok by (simp add: roster_ok_def core_def)
  have out: "rid \<notin> ru_Rid ` set (room_users s)" if "rid \<notin> r_Rid ` set (rooms s)" for rid
    using that R by auto
  have "roster {} (rooms s @ [r], room_users s, room_ids_cache s, mute_configs s)"
    if "r_Rid r \<notin> r_Rid ` set (rooms s)" "r_MemberCount r = 0" "r_JoinApprovalRequired r" "\<not> r_JoinQuestionEnabled r" for r
    using roster_create [OF R that] .
  with out ok show ?thesis
    by (auto simp: wp_def create_room_row_def andThen_def new_xid_def Let_def orphan_def roster_ok_def core_def intro!: Q
        simp del: roster.simps)
qed

lemma orphan_create_mute_config: "keeps (\<lambda>s. orphan rid uid (core s)) (create_mute_config e rid')"
  by (auto simp: keeps_def create_mute_config_def orphan_def core_def)

lemma wp_create_owner:
  assumes "orphan rid uid (core s)"
  shows "wp (create_room_user e rid uid RoomUserRoleOwner nick) (\<lambda>_. counting rid) (\<lambda>_. True) s"
proof -
  from assms obtain r where R: "roster {} (rooms s, room_users s, room_ids_cache s, mute_configs s)"
    and r: "r \<in> set (rooms s)" "r_Rid r = rid" "r_CreateUid r = uid" and new: "rid \<notin> ru_Rid ` set (room_users s)"
    by (auto simp: orphan_def core_def simp del: roster.simps)
  let ?u = "fresh_room_user rid uid RoomUserRoleOwner nick (ae_now e)"
  have "roster (insert rid {}) (bump rid (rooms s), room_users s @ [?u], room_ids_cache s, mute_configs s)"
  proof (rule roster_new_row [OF R])
    show "ru_Rid ?u = rid" "ru_DeleteTime ?u = 0" by (simp_all add: fresh_room_user_def)
    show "room_key ?u \<notin> room_key ` set (room_users s)" using new by (force simp: room_key_def fresh_room_user_def)
    show "rid \<in> r_Rid ` set (rooms s)" using r by auto
  next
    fix r' assume r': "r' \<in> set (rooms s)" "r_Rid r' = rid"
    have "r' = r" using R r r' by (auto simp: distinct_map dest: inj_onD)
    moreover have "owners_of rid (room_users s) = []" using new by (force simp: owners_of_def filter_empty_conv)
    ultimately show "if ru_Role ?u = RoomUserRoleOwner then owners_of rid (room_users s) = [] \<and> r_CreateUid r' = ru_Uid ?u
        else owners_of rid (room_users s) = [r_CreateUid r']" using r by (simp add: fresh_room_user_def)
  qed
  then show ?thesis by (simp add: wp_def create_room_user_def counting_def)
qed

lemma wp_create_room_tx:
  assumes orphan: "orphan rid (hu_Uid u) (core s)"
  shows "wp (create_room_tx e rid u q) (\<lambda>_. roster_but rid) roster_ok s"
  unfolding create_room_tx_def
  apply (rule wp_transaction)
   apply (rule wp_andThenI wp_orFailI)+
   apply (rule wp_keeps [OF orphan_create_mute_config orphan])
    apply (rule wp_andThenI wp_orFailI)+
    apply (erule wp_mono [OF wp_create_owner])
     apply (rule wp_andThenI wp_orFailI)+
     apply (erule wp_mono [OF wp_add_member_count])
      apply (rule wp_keeps [where I = "roster_but rid"])
         apply (rule keep but_keep core_keep | assumption)+
        apply simp_all
  using orphan by (simp add: orphan_def roster_ok_def)

lemma orphan_ok: "orphan rid uid (core s) \<Longrightarrow> roster_ok s"
  by (simp add: orphan_def roster_ok_def)

lemma wp_hash: "(\<And>h. Q h s) \<Longrightarrow> E s \<Longrightarrow> wp (if c then succeed [] else parsed x r) Q E s"
  by (simp split: option.splits)

lemma roster_RoomCreate [roster_keep]:
  assumes q: "quiet e"
  shows "keeps roster_ok (RoomCreate e user b)"
  unfolding RoomCreate_def Let_def
  apply (rule keepsI)
  apply (rule wp_hash wp_rules wp_create_room_row | assumption)+
   apply (rule wp_keeps [OF orphan_frame], rule core_keep, assumption)
    apply (rule wp_andThenI wp_orFailI)+
    apply (erule wp_mono [OF wp_create_room_tx])
     apply (rule wp_andThenI, rule wp_quietlyI, rule but_keep, rule core_keep, assumption)
     apply (rule wp_andThenI, rule wp_refresh [OF q], assumption)
     apply (rule keeps_wp, (rule keep | (rule roster_frame, rule core_keep) | assumption)+)
   apply (simp_all add: orphan_ok)
  done

section \<open>Leaving and being removed\<close>

lemma wp_write_userI: "Q () (upd_user P f s) \<Longrightarrow> E s \<Longrightarrow> wp (write_user re P f) Q E s"
  and wp_write_roomI: "Q () (upd_room RP g s) \<Longrightarrow> E s \<Longrightarrow> wp (write_room e RP g) Q E s"
  by (simp_all add: wp_def write_user_def write_room_def)

lemma wp_remove_member_tx:
  assumes ok: "roster_ok s" and x: "x \<in> set (room_users s)" "active_user rid uid x" "ru_Role x \<noteq> RoomUserRoleOwner"
    and q: "quiet e"
  shows "wp (remove_member_tx e rid uid r) (\<lambda>_. roster_but rid) roster_ok s"
proof -
  have R: "roster {} (rooms s, room_users s, room_ids_cache s, mute_configs s)" using ok by (simp add: roster_ok_def core_def)
  have k: "room_key x = (rid, uid)" and on: "ru_DeleteTime x = 0" using x(2) by (simp_all add: active_key)
  have "distinct (map room_key (room_users s))" using R by simp
  from key_split [OF this x(1)] obtain ys zs where
    us: "room_users s = ys @ x # zs" and rest: "\<forall>v \<in> set ys \<union> set zs. room_key v \<noteq> (rid, uid)" using k by metis
  let ?f = "\<lambda>u. u\<lparr>ru_DeleteTime := ae_now e\<rparr>"
  let ?g = "\<lambda>r. r\<lparr>r_MemberCount := max (r_MemberCount r - 1) 0\<rparr>"
  have upd: "map (\<lambda>u. if active_user rid uid u then ?f u else u) (room_users s) = ys @ ?f x # zs"
    unfolding us by (rule upd_at [OF rest]) (use x(2) in \<open>auto simp: active_key\<close>)
  have "roster (insert rid {}) (map (\<lambda>r. if r_Rid r = rid then ?g r else r) (rooms s), ys @ ?f x # zs, room_ids_cache s, mute_configs s)"
    by (rule roster_gone [OF R us k on x(3)]) (use q k in \<open>simp_all add: room_key_def quiet_def\<close>)
  then have gone: "roster_but rid (upd_room (\<lambda>r. r_Rid r = rid) ?g (upd_user (active_user rid uid) ?f s))"
    by (simp add: core_def upd_room_def upd_user_def upd [unfolded])
  show ?thesis
    unfolding remove_member_tx_def
  proof (rule wp_transaction)
    show "roster_ok (s\<lparr>xid_next := n, seq_keys_of := ks\<rparr>)" for n ks using ok by (simp add: roster_ok_def)
    have ws: "keeps (roster_but rid) (write_session (ae_room e) P h)" for P h by (rule but_keep) (rule core_basic)
    show "wp (andThen (orFail (write_user (ae_room e) (active_user rid uid) ?f) r) (\<lambda>_.
        andThen (orFail (write_room e (\<lambda>v. r_Rid v = rid) ?g) r) (\<lambda>_.
        orFail (write_session (ae_room e) (\<lambda>u. us_Uid u = uid \<and> us_Rid u = rid \<and> us_DeleteTime u = 0)
          (\<lambda>u. u\<lparr>us_State := 0, us_DeleteTime := ae_now e\<rparr>)) r))) (\<lambda>_. roster_but rid) (\<lambda>_. True) s"
      by (rule wp_andThenI wp_orFailI wp_write_userI wp_write_roomI wp_keeps [OF ws] gone TrueI | assumption)+
  qed
qed

lemma keeps_nobody [keep]: "keeps I m \<Longrightarrow> (\<And>v vs. keeps I (f v vs)) \<Longrightarrow> keeps I (case xs of [] \<Rightarrow> m | v # vs \<Rightarrow> f v vs)"
  by (cases xs) simp_all

lemma roster_after_removal:
  assumes q: "quiet e" and s: "roster_but rid s" and Q: "\<And>s1. roster_ok s1 \<Longrightarrow> Q () s1"
  shows "wp (after_removal e rid uid) Q roster_ok s"
  unfolding after_removal_def
  apply (rule wp_andThenI, rule wp_refresh [OF q s])
  apply (rule wp_keeps [where I = roster_ok])
     apply ((rule roster_frame, rule core_basic) | rule keep roster_members [OF q] | (rule roster_frame, rule core_keep))+
    apply (simp_all add: Q)
  done

lemma wp_removed:
  assumes "quiet e" and "roster_ok s" and "GetRoomUser re rid uid s = Inr x" and "ru_Role x \<noteq> RoomUserRoleOwner"
    and "\<And>s1. roster_but rid s1 \<Longrightarrow> Q () s1"
  shows "wp (remove_member_tx e rid uid r) Q roster_ok s"
  using GetRoomUser_D [OF assms(3)] by (auto intro!: wp_mono [OF wp_remove_member_tx [OF assms(2) _ _ assms(4,1)]] assms(5))

lemma roster_RoomLeave [roster_keep]:
  assumes q: "quiet e"
  shows "keeps roster_ok (RoomLeave e user b)"
  unfolding RoomLeave_def Let_def
  apply (rule keepsI)
  apply (rule wp_rules wp_has_room_user [OF q] | assumption)+
   apply (rule wp_removed [OF q], assumption+)
    apply (rule wp_andThenI, erule roster_after_removal [OF q])
    apply (rule keeps_wp, (rule keep | (rule roster_frame, rule core_keep) | assumption)+)
  done

lemma CanKick_D: "CanKickMemberInRoom re rid op uid s = None \<Longrightarrow> GetRoomUser re rid uid s = Inr u \<Longrightarrow> ru_Role u \<noteq> RoomUserRoleOwner"
  by (auto simp: CanKickMemberInRoom_def split: if_splits sum.splits)

lemma roster_RoomMemberKick [roster_keep]:
  assumes q: "quiet e"
  shows "keeps roster_ok (RoomMemberKick e user b)"
  unfolding RoomMemberKick_def Let_def
  apply (rule keepsI)
  apply (rule wp_rules | assumption)+
  apply (rule wp_K [OF K_core], rule core_keep, assumption)
   apply (rule wp_rules | assumption)+
   apply (rule wp_removed [OF q], assumption+, erule (1) CanKick_D)
    apply (rule wp_andThenI, erule roster_after_removal [OF q])
    apply (rule keeps_wp, (rule keep | (rule roster_frame, rule core_keep) | assumption)+)
  done

section \<open>Roles and the way in\<close>

lemma owner_role:
  assumes "roster_ok s" and "r \<in> set (rooms s)" and "r_Type r = RoomTypeGroup"
    and "u \<in> set (room_users s)" and "active_user (r_Rid r) uid u"
  shows "ru_Role u = RoomUserRoleOwner \<longleftrightarrow> uid = r_CreateUid r"
proof -
  from assms have R: "roster {} (rooms s, room_users s, room_ids_cache s, mute_configs s)" by (simp add: roster_ok_def core_def)
  have "\<not> never_entered (room_users s) r" using assms(4,5) by (force simp: never_entered_def active_user_def)
  with group_row [OF R assms(2,3)] have own: "owners_of (r_Rid r) (room_users s) = [r_CreateUid r]" by auto
  then have "r_CreateUid r \<in> set (owners_of (r_Rid r) (room_users s))" by simp
  then obtain v where v: "v \<in> set (room_users s)" "active_user (r_Rid r) (r_CreateUid r) v" "ru_Role v = RoomUserRoleOwner"
    by (auto simp: owners_of_def active_user_def)
  show ?thesis
  proof
    assume "ru_Role u = RoomUserRoleOwner"
    then have "uid \<in> set (owners_of (r_Rid r) (room_users s))" using assms(4,5) by (auto simp: owners_of_def active_user_def)
    then show "uid = r_CreateUid r" using own by simp
  next
    assume "uid = r_CreateUid r"
    then have "u = v" using same_row [OF assms(1,4) v(1)] assms(5) v(2) by (simp add: active_key)
    then show "ru_Role u = RoomUserRoleOwner" using v by simp
  qed
qed

lemma wp_update_role:
  assumes ok: "roster_ok s" and x: "x \<in> set (room_users s)" "active_user rid uid x"
    and grp: "\<And>r. r \<in> set (rooms s) \<Longrightarrow> r_Rid r = rid \<Longrightarrow> uid \<noteq> r_CreateUid r" and role: "role \<noteq> RoomUserRoleOwner"
  shows "wp (UpdateRoomUserRole re rid uid role) (\<lambda>_. roster_ok) roster_ok s"
proof -
  have R: "roster {} (rooms s, room_users s, room_ids_cache s, mute_configs s)" using ok by (simp add: roster_ok_def core_def)
  have k: "room_key x = (rid, uid)" and on: "ru_DeleteTime x = 0" using x(2) by (simp_all add: active_key)
  have "distinct (map room_key (room_users s))" using R by simp
  from key_split [OF this x(1)] obtain ys zs where
    us: "room_users s = ys @ x # zs" and rest: "\<forall>v \<in> set ys \<union> set zs. room_key v \<noteq> (rid, uid)" using k by metis
  let ?f = "\<lambda>u. u\<lparr>ru_Role := role\<rparr>"
  have upd: "map (\<lambda>u. if active_user rid uid u then ?f u else u) (room_users s) = ys @ ?f x # zs"
    unfolding us by (rule upd_at [OF rest]) (use x(2) in \<open>auto simp: active_key\<close>)
  have "roster {} (rooms s, ys @ ?f x # zs, room_ids_cache s, mute_configs s)"
  proof (rule roster_role [OF R us k on])
    fix r assume r: "r \<in> set (rooms s)" "r_Rid r = rid" "r_Type r = RoomTypeGroup"
    show "ru_Role x \<noteq> RoomUserRoleOwner \<and> ru_Role (?f x) \<noteq> RoomUserRoleOwner"
      using owner_role [OF ok r(1,3) x(1)] r x grp role by simp
  qed (use on k in \<open>simp_all add: room_key_def\<close>)
  then have "roster_ok (upd_user (active_user rid uid) ?f s)"
    by (simp add: roster_ok_def upd [unfolded] del: roster.simps)
  with ok show ?thesis by (auto simp: wp_def UpdateRoomUserRole_def write_user_def split: sum.splits)
qed

lemma roster_RoomUserRoleUpdate:
  assumes q: "quiet e" and other: "\<And>u rid t role. user = Some u \<Longrightarrow> b = Some (rid, t, role) \<Longrightarrow> t \<noteq> hu_Uid u"
  shows "keeps roster_ok (RoomUserRoleUpdate e user b)"
  unfolding RoomUserRoleUpdate_def
  apply (rule keepsI)
  apply (rule wp_andThenI wp_GetUserI wp_parsedI wp_prodI wp_checkI | assumption)+
  apply (rule wp_keeps [OF roster_frame], rule core_keep, assumption)
   apply (rule wp_rules wp_has_room_user [OF q] | assumption)+
   apply (rule wp_mono [OF wp_update_role], assumption)
        apply (auto dest!: GetRoomUser_D)[1]
       apply (auto dest!: GetRoomUser_D)[1]
  subgoal by (auto dest!: GetRoomByRid_D dest: same_room other)
     apply (auto simp: room_consts)[1]
    apply (rule keeps_wp, (rule keep | (rule roster_frame, rule core_keep) | assumption)+)
  done

text \<open>Handing over: the owner's row and the target's row change together with the room.\<close>

definition handed_over :: "rid \<Rightarrow> uid \<Rightarrow> uid \<Rightarrow> room_user \<Rightarrow> room_user" where
  "handed_over rid op t u =
     (let u1 = (if active_user rid op u then u\<lparr>ru_Role := RoomUserRoleNormal\<rparr> else u)
      in if active_user rid t u1 then u1\<lparr>ru_Role := RoomUserRoleOwner\<rparr> else u1)"

lemma handed_over [simp]:
  "ru_Rid (handed_over rid op t u) = ru_Rid u" "ru_Uid (handed_over rid op t u) = ru_Uid u"
  "ru_DeleteTime (handed_over rid op t u) = ru_DeleteTime u" "room_key (handed_over rid op t u) = room_key u"
  by (auto simp: handed_over_def room_key_def Let_def)

lemma handed_over_other: "ru_Rid u \<noteq> rid \<Longrightarrow> handed_over rid op t u = u"
  by (simp add: handed_over_def active_user_def)

lemma handed_over_role: "op \<noteq> t \<Longrightarrow> ru_Rid u = rid \<Longrightarrow> ru_DeleteTime u = 0 \<Longrightarrow> ru_Role (handed_over rid op t u) = RoomUserRoleOwner \<longleftrightarrow>
    ru_Uid u = t \<or> (ru_Uid u \<noteq> op \<and> ru_Role u = RoomUserRoleOwner)"
  by (auto simp: handed_over_def active_user_def Let_def room_consts)

lemma owners_handed_over:
  assumes ne: "op \<noteq> t" and keys: "distinct (map room_key us)" and x: "x \<in> set us" "active_user rid t x"
    and own: "owners_of rid us = [op]"
  shows "owners_of rid (map (handed_over rid op t) us) = [t]"
proof -
  have only: "ru_Uid u = op" if "u \<in> set us" "ru_Rid u = rid" "ru_DeleteTime u = 0" "ru_Role u = RoomUserRoleOwner" for u
  proof -
    have "ru_Uid u \<in> set (owners_of rid us)" using that by (simp add: owners_of_def)
    then show ?thesis using own by simp
  qed
  have "owners_of rid (map (handed_over rid op t) us) = map ru_Uid (filter (\<lambda>u. ru_Rid u = rid \<and> ru_DeleteTime u = 0 \<and>
      ru_Role (handed_over rid op t u) = RoomUserRoleOwner) us)"
    by (simp add: owners_of_def filter_map comp_def)
  also have "filter (\<lambda>u. ru_Rid u = rid \<and> ru_DeleteTime u = 0 \<and> ru_Role (handed_over rid op t u) = RoomUserRoleOwner) us =
      filter (active_user rid t) us"
    by (rule filter_cong) (use only handed_over_role [OF ne] in \<open>auto simp: active_user_def\<close>)
  also have "\<dots> = [x]"
  proof -
    from key_split [OF keys x(1)] obtain ys zs where us: "us = ys @ x # zs"
      and rest: "\<forall>v \<in> set ys \<union> set zs. room_key v \<noteq> room_key x" by metis
    have "filter (active_user rid t) ys = []" "filter (active_user rid t) zs = []"
      using rest x(2) by (auto simp: filter_empty_conv active_key)
    then show ?thesis using x(2) by (simp add: us)
  qed
  finally show ?thesis using x(2) by (simp add: active_user_def)
qed

lemma roster_transfer:
  assumes ok: "roster {} (rs, us, cache, mcs)" and r: "r \<in> set rs" "r_Type r = RoomTypeGroup" "active_room (r_Rid r) r"
    and o': "o' \<in> set us" "active_user (r_Rid r) op o'" "ru_Role o' = RoomUserRoleOwner"
    and x: "x \<in> set us" "active_user (r_Rid r) t x" and ne: "op \<noteq> t"
  shows "roster {} (map (\<lambda>r'. if active_room (r_Rid r) r' then r'\<lparr>r_CreateUid := t\<rparr> else r') rs,
    map (handed_over (r_Rid r) op t) us, cache, mcs)"
proof -
  let ?rid = "r_Rid r" let ?us = "map (handed_over (r_Rid r) op t) us"
  have uniq: "r' = r" if "r' \<in> set rs" "r_Rid r' = ?rid" for r' using that ok r(1) by (auto simp: distinct_map dest: inj_onD)
  have "\<not> never_entered us r" using x by (force simp: never_entered_def active_user_def)
  with group_row [OF ok r(1,2)] have n: "r_MemberCount r = int (length (mem_of ?rid us))" and own: "owners_of ?rid us = [r_CreateUid r]" by auto
  have "op \<in> set (owners_of ?rid us)" using o' by (auto simp: owners_of_def active_user_def)
  with own have own': "owners_of ?rid us = [op]" by simp
  have mem: "mem_of rid ?us = mem_of rid us" for rid by (simp add: mem_of_def filter_map comp_def)
  have keys: "distinct (map room_key us)" using ok by simp
  have rids: "ru_Rid ` set ?us = ru_Rid ` set us" by (force simp: image_iff)
  let ?f = "\<lambda>r'. if active_room ?rid r' then r'\<lparr>r_CreateUid := t\<rparr> else r'"
  have "roster (insert ?rid {}) (map (\<lambda>r'. if r_Rid r' = ?rid then ?f r' else r') rs, ?us, cache, mcs)"
  proof (rule roster_change [OF ok])
    show "others ?rid ?us = others ?rid us"
      by (auto simp: others_def filter_map comp_def handed_over_other intro!: map_idI)
    show "distinct (map room_key ?us)" using keys by (simp add: comp_def)
    show "?rid \<in> r_Rid ` set rs" using r by simp
  next
    fix r' assume r': "r' \<in> set rs" "r_Rid r' = ?rid"
    then have "r' = r" using uniq by simp
    then show "group_ok ?us (?f r')"
      using r n owners_handed_over [OF ne keys x own'] by (simp add: group_ok_def mem)
  qed simp
  moreover have "(\<lambda>r'. if r_Rid r' = ?rid then ?f r' else r') = ?f" by (rule ext) (simp add: active_room_def)
  ultimately have "roster (insert ?rid {}) (map ?f rs, ?us, cache, mcs)" by simp
  then show ?thesis by (rule roster_same_members [OF _ ok mem])
qed

lemma wp_attemptI: "wp m (\<lambda>_. I) I s \<Longrightarrow> (\<And>a s1. I s1 \<Longrightarrow> Q a s1) \<Longrightarrow> wp (attempt m) Q E s"
  by (auto simp: wp_def attempt_def split: sum.splits prod.splits)

lemma wp_TransferRoomOwner:
  assumes ok: "roster_ok s" and r: "r \<in> set (rooms s)" "r_Type r = RoomTypeGroup" "r_Rid r = rid" "r_State r = 1" "r_DeleteTime r = 0"
  shows "wp (TransferRoomOwner re rid op t) (\<lambda>_. roster_ok) roster_ok s"
proof -
  have R: "roster {} (rooms s, room_users s, room_ids_cache s, mute_configs s)" using ok by (simp add: roster_ok_def core_def)
  let ?s = "upd_user (active_user rid t) (\<lambda>u. u\<lparr>ru_Role := RoomUserRoleOwner\<rparr>)
      (upd_user (active_user rid op) (\<lambda>u. u\<lparr>ru_Role := RoomUserRoleNormal\<rparr>) (upd_room (active_room rid) (\<lambda>r. r\<lparr>r_CreateUid := t\<rparr>) s))"
  have us: "room_users ?s = map (handed_over rid op t) (room_users s)"
    by (simp add: upd_user_def upd_room_def handed_over_def Let_def comp_def)
  have ok': "roster_ok ?s"
    if "GetRoomUser re rid op s = Inr o'" "ru_Role o' = RoomUserRoleOwner" "GetRoomUser re rid t s = Inr x" "op \<noteq> t" for o' x
  proof -
    have "roster {} (map (\<lambda>r'. if active_room (r_Rid r) r' then r'\<lparr>r_CreateUid := t\<rparr> else r') (rooms s),
        map (handed_over (r_Rid r) op t) (room_users s), room_ids_cache s, mute_configs s)"
      by (rule roster_transfer [OF R r(1,2), where o' = o' and x = x]) (use that r in \<open>auto dest!: GetRoomUser_D simp: active_room_def room_consts\<close>)
    moreover have "core ?s = (rooms ?s, room_users ?s, room_ids_cache ?s, mute_configs ?s)" by (rule core_def)
    ultimately show ?thesis unfolding roster_ok_def us using r(3) by (simp add: upd_user_def upd_room_def del: roster.simps)
  qed
  show ?thesis
    using ok ok' by (simp add: wp_def TransferRoomOwner_def split: sum.splits)
qed

lemma roster_RoomOwnerTransfer [roster_keep]:
  assumes q: "quiet e"
  shows "keeps roster_ok (RoomOwnerTransfer e user b)"
  unfolding RoomOwnerTransfer_def
  apply (rule keepsI)
  apply (rule wp_andThenI wp_GetUserI wp_parsedI wp_prodI wp_checkI | assumption)+
  apply (rule wp_keeps [OF roster_frame], rule core_keep, assumption)
   apply (rule wp_rules wp_has_room_user [OF q] | assumption)+
   apply (rule wp_attemptI [where I = roster_ok], rule wp_TransferRoomOwner, assumption)
        apply (auto dest!: GetRoomByRid_D)[5]
   apply (rule keeps_wp, (rule keep | (rule roster_frame, rule core_keep) | assumption)+)
  done

text \<open>The rule on the way in changes only for a room with an administrator in it.\<close>

lemma wp_join_config:
  assumes ok: "roster_ok s" and a: "rid \<in> ru_Rid ` set (room_users s)" and Q: "\<And>s1. roster_ok s1 \<Longrightarrow> Q () s1"
  shows "wp (write_room e (\<lambda>r. r_Rid r = rid) (join_config b)) Q roster_ok s"
proof (rule wp_write_roomI)
  show "roster_ok s" by (rule ok)
  have "roster {} (rooms s, room_users s, room_ids_cache s, mute_configs s)" using ok by (simp add: roster_ok_def core_def)
  then have "roster_ok (upd_room (\<lambda>r. r_Rid r = rid) (join_config b) s)"
    unfolding roster_ok_def core_upd_room
    by (rule roster_map_rooms) (use a in \<open>auto simp: join_config_def Let_def never_entered_def split: option.splits bool.splits\<close>)
  then show "Q () (upd_room (\<lambda>r. r_Rid r = rid) (join_config b) s)" by (rule Q)
qed

lemma roster_RoomJoinConfigUpdate [roster_keep]:
  shows "keeps roster_ok (RoomJoinConfigUpdate e user b)"
  unfolding RoomJoinConfigUpdate_def
  apply (rule keepsI)
  apply (rule wp_andThenI wp_GetUserI wp_parsedI wp_prodI wp_checkI | assumption)+
  apply (rule wp_keeps [OF roster_frame], rule core_keep, assumption)
   apply (rule wp_rules | assumption)+
   apply (rule wp_join_config, assumption, erule admin_in_room)
   apply (rule keeps_wp, (rule keep | (rule roster_frame, rule core_keep) | assumption)+)
  done

section \<open>Every request\<close>

fun own_role :: "http_user option \<Rightarrow> room_request \<Rightarrow> bool" where
  "own_role (Some u) (ReqRoleUpdate (Some (rid, t, role))) = (t = hu_Uid u)"
| "own_role _ _ = False"

lemma roster_role_request:
  assumes "quiet e" and "\<not> own_role user (ReqRoleUpdate b)"
  shows "keeps roster_ok (RoomUserRoleUpdate e user b)"
  by (rule roster_RoomUserRoleUpdate [OF assms(1)]) (use assms(2) in auto)

lemma roster_exec1:
  assumes "quiet e" and "\<not> own_role u q" and "roster_ok s"
  shows "roster_ok (room_exec1 co e u q s)"
proof -
  note K = K_roster [OF K_handlers(1) [OF assms(1)]] K_roster [OF K_handlers(2) [OF assms(1)]]
    K_roster [OF K_handlers(3) [OF assms(1)]] K_roster [OF K_handlers(4) [OF assms(1)]] K_roster [OF K_handlers(5) [OF assms(1)]]
    K_roster [OF K_handlers(6) [OF assms(1)]] K_roster [OF K_handlers(7) [OF assms(1)]] K_roster [OF K_handlers(8) [OF assms(1)]]
    K_roster [OF K_handlers(9) [OF assms(1)]] K_roster [OF K_handlers(10) [OF assms(1)]] K_roster [OF K_handlers(11) [OF assms(1)]]
    K_roster [OF K_handlers(12) [OF assms(1)]] K_roster [OF K_handlers(13) [OF assms(1)]] K_roster [OF K_handlers(14) [OF assms(1)]]
  note H = roster_handlers [OF assms(1)] roster_RoomCreate [OF assms(1)] roster_RoomLeave [OF assms(1)]
    roster_RoomMemberKick [OF assms(1)] roster_RoomOwnerTransfer [OF assms(1)] roster_RoomJoin [OF assms(1)]
    roster_RoomJoinApply [OF assms(1)] roster_RoomJoinInvite [OF assms(1)] roster_RoomJoinRequestAccept [OF assms(1)]
    roster_RoomJoinConfigUpdate
  show ?thesis
  proof (cases q)
    case (ReqRoleUpdate b)
    with assms show ?thesis using keepsD [OF roster_role_request [OF assms(1)], of u b s] by simp
  qed (simp_all only: room_exec1.simps, (rule keepsD [where I = roster_ok], rule K H, rule assms)+)
qed

lemma roster_exec:
  "\<forall>(e, u, q) \<in> set reqs. quiet e \<and> \<not> own_role u q \<Longrightarrow> roster_ok s \<Longrightarrow> roster_ok (room_exec co reqs s)"
proof (induction reqs arbitrary: s)
  case (Cons r reqs)
  then show ?case by (cases r) (simp add: room_exec_def roster_exec1)
qed (simp add: room_exec_def)

end
