(* ===== verification/RoomAccess.thy ===== *)
theory RoomAccess
  imports RoomSafety
begin

text \<open>
  Who gets into a room, and how: the four requests that can make a user a member and what
  each of them asks for; every other request, whatever fails while it runs, lets nobody in.
\<close>

section \<open>The ways in\<close>

definition is_member :: "rid \<Rightarrow> uid \<Rightarrow> 'a room_store_scheme \<Rightarrow> bool" where
  "is_member rid uid s \<longleftrightarrow> (\<exists>u \<in> set (room_users s). active_user rid uid u)"

text \<open>An invite link still valid for a room.\<close>

definition valid_invite :: "admin_env \<Rightarrow> string \<Rightarrow> rid \<Rightarrow> room_invite \<Rightarrow> bool" where
  "valid_invite e token rid i \<longleftrightarrow>
     iv_Token i = TrimSpace token \<and> iv_Rid i = rid \<and> iv_DeleteTime i = 0 \<and> iv_ExpiresAt i > ae_now e"

fun may_enter :: "admin_env \<Rightarrow> http_user option \<Rightarrow> room_request \<Rightarrow> room \<Rightarrow> uid \<Rightarrow> 'a admin_store_scheme \<Rightarrow> bool" where
  "may_enter e (Some u) (ReqJoin (Some (Some rid, pw))) r uid s \<longleftrightarrow>
     uid = hu_Uid u \<and> rid = r_Rid r \<and> r_Type r \<noteq> RoomTypePrivate \<and> \<not> r_JoinApprovalRequired r \<and>
     (r_Password r = [] \<or> ae_compare e (r_Password r) (case pw of None \<Rightarrow> [] | Some p \<Rightarrow> p))"
| "may_enter e (Some u) (ReqJoinApply (Some b)) r uid s \<longleftrightarrow>
     uid = hu_Uid u \<and> TrimSpace (ja_Rid b) = r_Rid r \<and> r_Type r \<noteq> RoomTypePrivate \<and>
     r_JoinApprovalRequired r \<and> r_JoinQuestionEnabled r \<and> r_JoinQuestionAutoApprove r \<and>
     TrimSpace (ja_Answer b) \<noteq> [] \<and> TrimSpace (ja_Answer b) = TrimSpace (r_JoinQuestionAnswer r) \<and>
     (r_Password r = [] \<or> ae_compare e (r_Password r) (ja_Password b) \<or>
      (\<exists>i \<in> set (invites s). valid_invite e (ja_Token b) (r_Rid r) i \<and> iv_BypassPassword i))"
| "may_enter e (Some u) (ReqJoinInvite (Some token)) r uid s \<longleftrightarrow>
     uid = hu_Uid u \<and> r_Type r \<noteq> RoomTypePrivate \<and> r_Type r \<noteq> RoomTypeGroupPrivate \<and> r_Type r \<noteq> RoomTypeSelfChat \<and>
     \<not> r_JoinApprovalRequired r \<and>
     (\<exists>i \<in> set (invites s). valid_invite e token (r_Rid r) i \<and> (r_Password r = [] \<or> iv_BypassPassword i))"
| "may_enter e (Some u) (ReqAccept (Some rjrId)) r uid s \<longleftrightarrow>
     (\<exists>q \<in> set (join_requests s). jr_RjrId q = rjrId \<and> jr_DeleteTime q = 0 \<and> jr_State q = 0 \<and>
        \<not> (jr_ExpiresAt q > 0 \<and> jr_ExpiresAt q < ae_now e) \<and> jr_Rid q = r_Rid r \<and> jr_ApplicantUid q = uid) \<and>
     (\<exists>a \<in> set (room_users s). active_user (r_Rid r) (hu_Uid u) a \<and>
        (ru_Role a = RoomUserRoleAdmin \<or> ru_Role a = RoomUserRoleOwner))"
| "may_enter e u q r uid s \<longleftrightarrow> False"

section \<open>Requests that let nobody in\<close>

text \<open>Either the user is still outside, or \<open>A\<close> holds.\<close>

definition held :: "bool \<Rightarrow> rid \<Rightarrow> uid \<Rightarrow> 'a admin_store_scheme \<Rightarrow> bool" where
  "held A rid uid s \<longleftrightarrow> (is_member rid uid s \<longrightarrow> A)"

named_theorems held_keep \<open>operations that let nobody in\<close>

lemma held_same: "room_users s1 = room_users s2 \<Longrightarrow> held A rid uid s1 = held A rid uid s2"
  by (simp add: held_def is_member_def)

lemma held_core: "core s1 = core s2 \<Longrightarrow> held A rid uid s1 = held A rid uid s2"
  by (rule held_same) (simp add: core_sel)

lemma held_frame: "(\<And>c. keeps (core_is c) m) \<Longrightarrow> keeps (held A rid uid) m"
  unfolding keeps_def by (metis core_frame held_core)

lemma held_fields [simp]:
  "held A rid uid (s\<lparr>room_ids_cache := ca\<rparr>) = held A rid uid s" "held A rid uid (s\<lparr>xid_next := n\<rparr>) = held A rid uid s"
  "held A rid uid (s\<lparr>seq_keys_of := ks\<rparr>) = held A rid uid s" "held A rid uid (s\<lparr>xid_next := n, seq_keys_of := ks\<rparr>) = held A rid uid s"
  "held A rid uid (upd_room P f s) = held A rid uid s" "held A rid uid (SetRoomUserIdsCache re rid' s) = held A rid uid s"
  by (rule held_same, simp add: upd_room_def)+

lemma held_transaction [held_keep]: "keeps (held A rid uid) m \<Longrightarrow> keeps (held A rid uid) (transaction e r m)"
  by (force simp: keeps_def transaction_def split: sum.splits prod.splits)

lemma held_upd_user:
  "(\<And>u. P u \<Longrightarrow> active_user rid uid (f u) \<Longrightarrow> active_user rid uid u) \<Longrightarrow> held A rid uid s \<Longrightarrow> held A rid uid (upd_user P f s)"
  by (auto simp: held_def is_member_def upd_user_def split: if_splits)

lemma held_write_user [held_keep]:
  "(\<And>u. P u \<Longrightarrow> active_user rid uid (f u) \<Longrightarrow> active_user rid uid u) \<Longrightarrow> keeps (held A rid uid) (write_user re P f)"
  by (auto simp: keeps_def write_user_def intro: held_upd_user)

lemma held_member_ids [held_keep]:
  "keeps (held A rid uid) (GetRoomUserIdsCache re rid')" "keeps (held A rid uid) (has_room_user e rid' uid')"
  "keeps (held A rid uid) (refresh_members e rid')"
  by (auto simp: keeps_def GetRoomUserIdsCache_def has_room_user_def HasRoomUser_def refresh_members_def change_def Let_def
      split: option.splits sum.splits prod.splits)

lemma held_collect_except [held_keep]: "keeps (held A rid uid) (collect_except e rid' found vs)"
proof (induction vs arbitrary: found)
  case (Cons v vs)
  then show ?case by (auto intro!: keep held_keep)
qed (simp add: keep)

lemma held_writes [held_keep]:
  "keeps (held A rid uid) (write_room e P f)" "keeps (held A rid uid) (DissolveRoom re rid')"
  "keeps (held A rid uid) (UpdateRoomUserNickname re rid' uid' n)" "keeps (held A rid uid) (UpdateRoomUserRemark re rid' uid' n)"
  "keeps (held A rid uid) (MuteUserInRoom re rid' t op d)" "keeps (held A rid uid) (UnmuteUserInRoom re rid' t)"
  "keeps (held A rid uid) (UpdateRoomUserRole re rid' t role)" "keeps (held A rid uid) (TransferRoomOwner re rid' op t)"
  by (auto simp: keeps_def write_room_def DissolveRoom_def UpdateRoomUserNickname_def UpdateRoomUserRemark_def
      MuteUserInRoom_def UnmuteUserInRoom_def UpdateRoomUserRole_def TransferRoomOwner_def write_user_def active_user_def
      intro!: held_upd_user split: sum.splits)

lemma held_sameI: "(\<And>s. room_users (snd (m s)) = room_users s) \<Longrightarrow> keeps (held A rid uid) m"
  by (auto simp: keeps_def held_def is_member_def)

lemma held_mute_rules [held_keep]:
  "keeps (held A rid uid) (SetRoomMuteConfigRule re rid' by p)" "keeps (held A rid uid) (SetRoomMuteAll re rid' b by t)"
  by (rule held_sameI, auto simp: SetRoomMuteAll_def SetRoomMuteConfigRule_def ResetRoomMuteFrequencyCount_def Let_def
      split: sum.splits)+

lemma held_remove_member [held_keep]:
  "keeps (held A rid uid) (remove_member_tx e rid' uid' r)" "keeps (held A rid uid) (after_removal e rid' uid')"
  unfolding remove_member_tx_def after_removal_def
  by (((rule held_frame, rule core_basic) | rule keep held_keep | (rule held_frame, rule core_keep) | (auto simp: active_user_def)[1])+)

lemma held_handlers:
  "keeps (held A rid uid) (RoomUserIds e user r1)" "keeps (held A rid uid) (RoomInviteCreate e ie user b1)"
  "keeps (held A rid uid) (RoomJoinRequestReject e user b1)"
  "keeps (held A rid uid) (RoomBlock e user b1)" "keeps (held A rid uid) (RoomUnblock e user b1)"
  "keeps (held A rid uid) (RoomBlockUser e user b2)" "keeps (held A rid uid) (RoomUnblockUser e user b2)"
  "keeps (held A rid uid) (RoomAnnouncementCreate e dec user b3)" "keeps (held A rid uid) (RoomAnnouncementUpdate e dec user b4)"
  "keeps (held A rid uid) (RoomAnnouncementDelete e dec user b5)"
  "keeps (held A rid uid) (RoomPinnedMessagePin e user b5)" "keeps (held A rid uid) (RoomPinnedMessageUnpin e user b1)"
  "keeps (held A rid uid) (RoomPinnedMessageGet e user r1)" "keeps (held A rid uid) (RoomMessageWithdraw e user b5)"
  unfolding RoomUserIds_def RoomInviteCreate_def RoomJoinRequestReject_def RoomBlock_def RoomUnblock_def
    RoomBlockUser_def RoomUnblockUser_def RoomAnnouncementCreate_def RoomAnnouncementUpdate_def
    RoomAnnouncementDelete_def RoomPinnedMessagePin_def RoomPinnedMessageUnpin_def RoomPinnedMessageGet_def
    RoomMessageWithdraw_def Let_def
  by (((rule held_frame, rule core_basic) | rule keep held_keep | (rule held_frame, rule core_keep))+)

lemma held_handlers2:
  "keeps (held A rid uid) (RoomNameUpdate e user b2)" "keeps (held A rid uid) (RoomPasswordUpdate e user b2)"
  "keeps (held A rid uid) (RoomAvatarUpdate e user b2)" "keeps (held A rid uid) (RoomDissolve e user b1)"
  "keeps (held A rid uid) (RoomUserNicknameUpdate e user b2)" "keeps (held A rid uid) (RoomUserRemarkUpdate e user b2)"
  "keeps (held A rid uid) (RoomMuteConfigUpdate e cols pr user bm)" "keeps (held A rid uid) (RoomMute e user b4)"
  "keeps (held A rid uid) (RoomUnmute e user b3)" "keeps (held A rid uid) (RoomMuteAll e user b5)"
  "keeps (held A rid uid) (RoomUserRoleUpdate e user b6)" "keeps (held A rid uid) (RoomOwnerTransfer e user b2)"
  "keeps (held A rid uid) (RoomMemberKick e user b2)" "keeps (held A rid uid) (RoomLeave e user b1)"
  "keeps (held A rid uid) (RoomJoinConfigUpdate e user b7)"
  unfolding RoomNameUpdate_def RoomPasswordUpdate_def RoomAvatarUpdate_def RoomDissolve_def RoomUserNicknameUpdate_def
    RoomUserRemarkUpdate_def RoomMuteConfigUpdate_def RoomMute_def RoomUnmute_def RoomMuteAll_def RoomUserRoleUpdate_def
    RoomOwnerTransfer_def RoomMemberKick_def RoomLeave_def RoomJoinConfigUpdate_def Let_def
  by (((rule held_frame, rule core_basic) | rule keep held_keep | (rule held_frame, rule core_keep) | simp)+)

section \<open>Requests that let users in\<close>

lemma held_Upsert: "(rid' = rid \<Longrightarrow> uid' = uid \<Longrightarrow> A) \<Longrightarrow> keeps (held A rid uid) (UpsertActiveRoomUserTx re rid' uid' n t)"
  by (auto simp: keeps_def UpsertActiveRoomUserTx_def write_user_def held_def is_member_def upd_user_def fresh_room_user_def
      active_user_def split: if_splits)

lemma held_create_user: "rid' \<noteq> rid \<Longrightarrow> keeps (held A rid uid) (create_room_user e rid' uid' role n)"
  by (auto simp: keeps_def create_room_user_def held_def is_member_def fresh_room_user_def active_user_def)

lemma held_create_mute_config [held_keep]: "keeps (held A rid uid) (create_mute_config e rid')"
  by (rule held_sameI) (simp add: create_mute_config_def)

lemma held_add_member_count [held_keep]: "keeps (held A rid uid) (add_member_count e rid')"
  unfolding add_member_count_def by (rule held_keep)

lemma held_join:
  assumes "r_Rid room = rid \<Longrightarrow> hu_Uid u = uid \<Longrightarrow> A"
  shows "keeps (held A rid uid) (joinRoomCommittedAfterValidation e u room byUid)"
  unfolding joinRoomCommittedAfterValidation_def join_tx_def Let_def
  by (((rule held_frame, rule core_basic) | rule keep held_keep held_Upsert | (rule held_frame, rule core_keep) | erule (1) assms)+)

lemma held_create_tx: "rid' \<noteq> rid \<Longrightarrow> keeps (held A rid uid) (create_room_tx e rid' u q)"
  unfolding create_room_tx_def
  by (((rule held_frame, rule core_basic) | rule keep held_keep held_create_user | (rule held_frame, rule core_keep) | assumption)+)

text \<open>Until the room is entered, a handler reads the store it started from, but for the cached lists.\<close>

lemma cache_reads [simp]:
  "GetRoomByRid re rid (s\<lparr>room_ids_cache := ca\<rparr>) = GetRoomByRid re rid s"
  "GetUserByUid e uid (s\<lparr>room_ids_cache := ca\<rparr>) = GetUserByUid e uid s"
  by (simp_all add: GetRoomByRid_def GetUserByUid_def)

lemma wp_has_room_user_cache:
  assumes "\<And>b ca. Q b (s\<lparr>room_ids_cache := ca\<rparr>)"
  shows "wp (has_room_user e rid uid) Q E s"
proof -
  have "\<exists>ca. snd (GetRoomUserIdsCache (ae_room e) rid s) = s\<lparr>room_ids_cache := ca\<rparr>"
    by (auto simp: GetRoomUserIdsCache_def SetRoomUserIdsCache_def Let_def split: option.splits sum.splits
        intro: exI [of _ "room_ids_cache s"])
  then obtain r ca where "GetRoomUserIdsCache (ae_room e) rid s = (r, s\<lparr>room_ids_cache := ca\<rparr>)" by (metis prod.collapse)
  with assms show ?thesis by (simp add: wp_def has_room_user_def HasRoomUser_def split: sum.splits)
qed

text \<open>What the conclusion about a request that lets a user in says.\<close>

definition lawful :: "admin_env \<Rightarrow> http_user option \<Rightarrow> room_request \<Rightarrow> rid \<Rightarrow> uid \<Rightarrow> 'a admin_store_scheme \<Rightarrow> bool" where
  "lawful e u q rid uid s \<longleftrightarrow>
     (\<exists>r \<in> set (rooms s). r_Rid r = rid \<and> r_State r = 1 \<and> r_DeleteTime r = 0 \<and> may_enter e u q r uid s)"

lemma lawfulI: "GetRoomByRid re rid' s = Inr r \<Longrightarrow> r_Rid r = rid \<Longrightarrow> may_enter e u q r uid s \<Longrightarrow> lawful e u q rid uid s"
  unfolding lawful_def by (blast dest: GetRoomByRid_D)

lemma held_approval_required [held_keep]: "keeps (held A rid uid) (approval_required e rid' uid' room)"
  by (rule held_frame) (rule core_keep)

lemma held_RoomJoin:
  assumes h: "held A rid uid s" and A: "lawful e user (ReqJoin b) rid uid s \<Longrightarrow> A"
  shows "wp (RoomJoin e user b) (\<lambda>_. held A rid uid) (held A rid uid) s"
  unfolding RoomJoin_def Let_def
  apply (rule wp_rules wp_has_room_user_cache | (simp only: held_fields, rule h) | rule h)+
   apply (rule keeps_wp [OF held_approval_required], simp only: held_fields h)
  apply (rule wp_orFailI, rule keeps_wp [OF held_join])
   apply (rule A, rule lawfulI, assumption, assumption)
   apply (auto dest: GetRoomByRid_D simp: h)
  done

lemma GetActiveRoomInvite_D: "GetActiveRoomInviteByToken e tok t s = Inr (Some i) \<Longrightarrow>
    i \<in> set (invites s) \<and> iv_Token i = tok \<and> iv_DeleteTime i = 0 \<and> iv_ExpiresAt i > t"
  by (auto simp: GetActiveRoomInviteByToken_def find_Some_iff split: if_splits)

lemma held_RoomJoinInvite:
  assumes h: "held A rid uid s" and A: "lawful e user (ReqJoinInvite b) rid uid s \<Longrightarrow> A"
  shows "wp (RoomJoinInvite e user b) (\<lambda>_. held A rid uid) (held A rid uid) s"
  unfolding RoomJoinInvite_def loadInviteByTokenOrBadRequest_def Let_def
  apply (rule wp_rules wp_has_room_user_cache | (simp only: held_fields, rule h) | rule h)+
   apply (rule keeps_wp [OF held_approval_required], simp only: held_fields h)
  apply (rule wp_andThenI wp_orFailI)+
  apply (rule wp_keeps [OF held_join [where A = A and rid = rid and uid = uid]])
     apply (rule A, rule lawfulI, assumption, assumption)
     apply (auto dest!: GetRoomByRid_D GetActiveRoomInvite_D simp: h valid_invite_def)[2]
   apply (rule keeps_wp, (rule keep | (rule held_frame, rule core_keep) | assumption)+)
  by (rule h)+

lemma GetRoomJoinRequestByRjrId_D: "GetRoomJoinRequestByRjrId e j s = Inr (Some q) \<Longrightarrow>
    q \<in> set (join_requests s) \<and> jr_RjrId q = j \<and> jr_DeleteTime q = 0"
  by (auto simp: GetRoomJoinRequestByRjrId_def find_Some_iff split: if_splits)

lemma held_RoomJoinRequestAccept:
  assumes h: "held A rid uid s" and A: "lawful e user (ReqAccept b) rid uid s \<Longrightarrow> A"
  shows "wp (RoomJoinRequestAccept e user b) (\<lambda>_. held A rid uid) (held A rid uid) s"
  unfolding RoomJoinRequestAccept_def
  apply (rule wp_rules wp_has_room_user_cache | (simp only: held_fields, rule h) | rule h)+
   apply (rule wp_keeps [OF held_frame [where A = A and rid = rid and uid = uid]], rule core_keep, simp only: held_fields h)
    apply (rule wp_andThenI wp_orFailI)+
    apply (rule wp_keeps [OF held_join [where A = A and rid = rid and uid = uid]])
       apply (rule A, rule lawfulI, simp only: cache_reads, assumption)
       apply (auto dest!: GetRoomByRid_D GetRoomJoinRequestByRjrId_D GetUserByUid_D CanUserMute_D)[1]
      apply assumption
     apply (rule keeps_wp, (rule keep | (rule held_frame, rule core_keep) | assumption)+)
  by (simp only: held_fields h | rule h | assumption)+

lemma wp_validate_cache:
  assumes Q: "\<And>room ca. GetRoomByRid (ae_room e) (TrimSpace rid) s = Inr room \<Longrightarrow> r_Type room \<noteq> RoomTypePrivate \<Longrightarrow>
      r_Password room = [] \<or> ae_compare e (r_Password room) pw \<or>
        (\<exists>i \<in> set (invites s). valid_invite e tok (r_Rid room) i \<and> iv_BypassPassword i) \<Longrightarrow> Q room (s\<lparr>room_ids_cache := ca\<rparr>)"
    and E: "E s" "\<And>ca. E (s\<lparr>room_ids_cache := ca\<rparr>)"
  shows "wp (validatePublicRoomJoin e u rid pw tok) Q E s"
  unfolding validatePublicRoomJoin_def Let_def
  by (rule wp_rules wp_has_room_user_cache E Q | assumption
    | (auto dest!: GetRoomByRid_D GetActiveRoomInvite_D simp: valid_invite_def split: option.splits)[1])+

lemma held_RoomJoinApply:
  assumes h: "held A rid uid s" and A: "lawful e user (ReqJoinApply b) rid uid s \<Longrightarrow> A"
  shows "wp (RoomJoinApply e user b) (\<lambda>_. held A rid uid) (held A rid uid) s"
  unfolding RoomJoinApply_def Let_def
  apply (rule wp_rules wp_validate_cache | (simp only: held_fields, rule h) | rule h)+
     apply (rule wp_keeps [OF held_join [where A = A and rid = rid and uid = uid]])
        apply (rule A, rule lawfulI, assumption, assumption)
        apply (auto dest!: GetRoomByRid_D)[1]
       apply (simp only: held_fields h)
      apply (rule keeps_wp, (rule keep | (rule held_frame, rule core_keep) | assumption)+)
    apply (rule keeps_wp, (rule keep | (rule held_frame, rule core_keep) | simp only: held_fields h)+)
  done

lemma wp_new_room:
  assumes h: "held A rid uid s" and known: "rid \<in> r_Rid ` set (rooms s)"
    and Q: "\<And>room s1. held A rid uid s1 \<Longrightarrow> r_Rid room \<noteq> rid \<Longrightarrow> Q room s1"
  shows "wp (create_room_row e name de av pw by') Q (held A rid uid) s"
  using known h
  by (auto simp: wp_def create_room_row_def andThen_def new_xid_def Let_def held_def is_member_def intro!: Q)

lemma held_RoomCreate:
  assumes h: "held A rid uid s" and known: "rid \<in> r_Rid ` set (rooms s)"
  shows "wp (RoomCreate e user b) (\<lambda>_. held A rid uid) (held A rid uid) s"
  unfolding RoomCreate_def Let_def
  apply (rule wp_hash wp_rules wp_new_room [OF h known] | rule h)+
   apply (rule wp_keeps [OF held_frame [where A = A and rid = rid and uid = uid]], rule core_keep, assumption)
    apply (rule keeps_wp, (rule keep held_create_tx | (rule held_frame, rule core_basic) | (rule held_frame, rule core_keep) | rule held_keep | assumption)+)
  by (rule h)+

section \<open>Every request\<close>

lemma wp_held: "wp m (\<lambda>_. held A rid uid) (held A rid uid) s \<Longrightarrow> held A rid uid (snd (m s))"
  by (auto simp: wp_def split: sum.splits prod.splits)

lemma held_exec1:
  assumes h: "held A rid uid s" and known: "rid \<in> r_Rid ` set (rooms s)" and A: "lawful e u q rid uid s \<Longrightarrow> A"
  shows "held A rid uid (room_exec1 co e u q s)"
proof (cases q)
  case (ReqCreate b)
  then show ?thesis using wp_held [OF held_RoomCreate [OF h known]] by simp
next
  case (ReqJoin b)
  then show ?thesis using wp_held [OF held_RoomJoin [OF h]] A by simp
next
  case (ReqJoinApply b)
  then show ?thesis using wp_held [OF held_RoomJoinApply [OF h]] A by simp
next
  case (ReqAccept b)
  then show ?thesis using wp_held [OF held_RoomJoinRequestAccept [OF h]] A by simp
next
  case (ReqJoinInvite b)
  then show ?thesis using wp_held [OF held_RoomJoinInvite [OF h]] A by simp
qed (simp_all only: room_exec1.simps,
  (rule keepsD [where I = "held A rid uid"], rule held_handlers held_handlers2, rule h)+)

end
