(* ===== verification/RoomProgress.thy ===== *)
theory RoomProgress
  imports RoomAccess
begin

text \<open>
  What the room requests achieve when nothing fails: an accepted request makes its applicant
  a member. Then rooms at work: the sequences of requests that the properties of
  \<open>RoomSafety\<close>, \<open>RoomAccess\<close> and this theory are shown on.
\<close>

section \<open>Calls that succeed\<close>

definition calm :: "admin_env \<Rightarrow> bool" where
  "calm e \<longleftrightarrow> (\<forall>c. \<not> re_fails (ae_room e) c) \<and> (\<forall>c. \<not> ae_fails e c) \<and> (\<forall>c. \<not> ae_seq e c) \<and> ae_now e \<noteq> 0"

text \<open>The identifiers still to be drawn are new to the message tables.\<close>

definition fresh_ids :: "admin_env \<Rightarrow> 'a admin_store_scheme \<Rightarrow> bool" where
  "fresh_ids e s \<longleftrightarrow> inj (ae_xid e) \<and> (\<forall>n \<ge> xid_next s.
     (\<forall>m \<in> set (messages (chat_db s)). rm_Mid m \<noteq> ae_xid e n \<and> rm_ClientMid m \<noteq> ae_xid e n) \<and>
     (\<forall>c \<in> set (contents (chat_db s)). ct_Cid c \<noteq> ae_xid e n \<and> ct_ClientCid c \<noteq> ae_xid e n))"

text \<open>The counter of the room, where there is one, is not behind its messages.\<close>

definition numbered :: "rid \<Rightarrow> 'a admin_store_scheme \<Rightarrow> bool" where
  "numbered rid s \<longleftrightarrow> (\<forall>k. seq_keys_of s rid = Some k \<longrightarrow>
     (\<forall>m \<in> set (messages (chat_db s)). rm_Rid m = rid \<longrightarrow> rm_SeqId m \<le> k))"

definition sound_tables :: "admin_env \<Rightarrow> 'a admin_store_scheme \<Rightarrow> bool" where
  "sound_tables e s \<longleftrightarrow> fresh_ids e s \<and> message_indexes (messages (chat_db s)) \<and> content_indexes (contents (chat_db s))"

definition seq_free :: "rid \<Rightarrow> int \<Rightarrow> 'a admin_store_scheme \<Rightarrow> bool" where
  "seq_free rid q s \<longleftrightarrow> (\<forall>m \<in> set (messages (chat_db s)). rm_Rid m = rid \<longrightarrow> rm_SeqId m < q)"

lemma calm_D: "calm e \<Longrightarrow> \<not> re_fails (ae_room e) c" "calm e \<Longrightarrow> \<not> ae_fails e d" "calm e \<Longrightarrow> \<not> ae_seq e k"
  by (simp_all add: calm_def)

lemma calm_quiet: "calm e \<Longrightarrow> quiet e"
  by (simp add: calm_def quiet_def)

lemma live_next_seq:
  assumes "calm e" and "numbered rid s" and Q: "\<And>q ks. seq_free rid q (s\<lparr>seq_keys_of := ks\<rparr>) \<Longrightarrow> Q q (s\<lparr>seq_keys_of := ks\<rparr>)"
  shows "wp (next_seq e rid) Q E s"
proof (cases "seq_keys_of s rid")
  case None
  have "rm_SeqId m < GetMaxRoomSeqId rid (chat_db s) + 1" if "m \<in> set (messages (chat_db s))" "rm_Rid m = rid" for m
    using that by (auto simp: GetMaxRoomSeqId_def filter_empty_conv)
  with None show ?thesis
    by (auto simp: wp_def next_seq_def GetRoomSeqId_def calm_D [OF assms(1)] seq_free_def Let_def intro!: Q)
next
  case (Some k)
  with assms(2) show ?thesis
    by (auto simp: wp_def next_seq_def GetRoomSeqId_def calm_D [OF assms(1)] seq_free_def numbered_def Let_def intro!: Q)
qed

lemma live_message_row:
  assumes "calm e" and ok: "sound_tables e s" and "seq_free rid q s"
    and Q: "\<And>s1. sound_tables e s1 \<Longrightarrow> rooms s1 = rooms s \<Longrightarrow> room_users s1 = room_users s \<Longrightarrow>
      join_requests s1 = join_requests s \<Longrightarrow> user_sessions s1 = user_sessions s \<Longrightarrow> Q (ae_xid e (Suc (xid_next s))) s1"
  shows "wp (create_message_row e rid q ip) Q E s"
proof -
  let ?m = "system_message e rid q ip (ae_xid e (xid_next s)) (ae_xid e (Suc (xid_next s)))"
  let ?s = "s\<lparr>xid_next := Suc (Suc (xid_next s)), chat_db := (chat_db s)\<lparr>messages := messages (chat_db s) @ [?m]\<rparr>\<rparr>"
  have ids: "\<forall>m \<in> set (messages (chat_db s)). rm_Mid m \<noteq> ae_xid e n \<and> rm_ClientMid m \<noteq> ae_xid e n" if "xid_next s \<le> n" for n
    using ok that by (simp add: sound_tables_def fresh_ids_def)
  have idx: "message_indexes (messages (chat_db s) @ [?m])"
    using ok ids [of "xid_next s"] ids [of "Suc (xid_next s)"] assms(3)
    by (auto simp: sound_tables_def message_indexes_def system_message_def client_key_def room_seq_def seq_free_def)
  have "inj (ae_xid e)" using ok by (simp add: sound_tables_def fresh_ids_def)
  then have "fresh_ids e ?s"
    using ok by (auto simp: sound_tables_def fresh_ids_def system_message_def dest: injD)
  with ok idx have "sound_tables e ?s" by (simp add: sound_tables_def)
  moreover have "create_message_row e rid q ip s = (Inr (ae_xid e (Suc (xid_next s))), ?s)"
    using idx by (simp add: create_message_row_def andThen_def new_xid_def Let_def calm_D [OF assms(1)])
  ultimately show ?thesis by (simp add: wp_def Q)
qed

lemma live_content_row:
  assumes "calm e" and ok: "sound_tables e s"
    and Q: "\<And>s1. rooms s1 = rooms s \<Longrightarrow> room_users s1 = room_users s \<Longrightarrow>
      join_requests s1 = join_requests s \<Longrightarrow> user_sessions s1 = user_sessions s \<Longrightarrow> Q () s1"
  shows "wp (create_content_row e mid ty tid ct) Q E s"
proof -
  let ?c = "\<lparr>ct_Type = ty, ct_TypeId = tid, ct_Content = ct, ct_Mid = mid, ct_ClientCid = ae_xid e (xid_next s),
    ct_Cid = ae_xid e (Suc (xid_next s)), ct_CreateTime = ae_now e, ct_DeleteTime = 0\<rparr>"
  have ids: "\<forall>c \<in> set (contents (chat_db s)). ct_Cid c \<noteq> ae_xid e n \<and> ct_ClientCid c \<noteq> ae_xid e n" if "xid_next s \<le> n" for n
    using ok that by (simp add: sound_tables_def fresh_ids_def)
  have "content_indexes (contents (chat_db s) @ [?c])"
    using ok ids [of "xid_next s"] ids [of "Suc (xid_next s)"]
    by (auto simp: sound_tables_def content_indexes_def)
  then show ?thesis
    by (simp add: wp_def create_content_row_def andThen_def new_xid_def Let_def calm_D [OF assms(1)] Q)
qed

text \<open>The user is in the room, and the request is settled.\<close>

definition settled :: "rid \<Rightarrow> uid \<Rightarrow> string \<Rightarrow> 'a admin_store_scheme \<Rightarrow> bool" where
  "settled rid uid rjrId s \<longleftrightarrow> is_member rid uid s \<and> (\<exists>q \<in> set (join_requests s). jr_RjrId q = rjrId \<and> jr_State q = 2)"

definition seated :: "rid \<Rightarrow> uid \<Rightarrow> string \<Rightarrow> 'a admin_store_scheme \<Rightarrow> bool" where
  "seated rid uid rjrId s \<longleftrightarrow> settled rid uid rjrId s \<and> (\<exists>v \<in> set (user_sessions s). open_session uid v \<and> us_Rid v = rid)"

lemma settled_same: "room_users s1 = room_users s \<Longrightarrow> join_requests s1 = join_requests s \<Longrightarrow>
    settled rid uid j s \<Longrightarrow> settled rid uid j s1"
  by (simp add: settled_def is_member_def)

lemma live_upsert_user:
  assumes "calm e" and acc: "\<exists>q \<in> set (join_requests s). jr_RjrId q = j \<and> jr_State q = 2"
    and Q: "\<And>us. settled rid uid j (s\<lparr>room_users := us\<rparr>) \<Longrightarrow> Q () (s\<lparr>room_users := us\<rparr>)"
  shows "wp (UpsertActiveRoomUserTx (ae_room e) rid uid nick t) Q E s"
proof (cases "\<exists>u \<in> set (room_users s). ru_Rid u = rid \<and> ru_Uid u = uid")
  case True
  let ?P = "\<lambda>u. ru_Rid u = rid \<and> ru_Uid u = uid"
  let ?f = "\<lambda>u. u\<lparr>ru_DeleteTime := 0, ru_Role := RoomUserRoleNormal, ru_MuteUntil := 0, ru_MuteOperatorUid := [],
              ru_RoomNickname := nick, ru_JoinRoomTime := t\<rparr>"
  from True obtain x where x: "x \<in> set (room_users s)" "?P x" by blast
  let ?us = "map (\<lambda>u. if ?P u then ?f u else u) (room_users s)"
  have "?f x \<in> set ?us" using x by force
  moreover have "active_user rid uid (?f x)" using x by (simp add: active_user_def)
  ultimately have "\<exists>u \<in> set ?us. active_user rid uid u" by blast
  then have "settled rid uid j (s\<lparr>room_users := ?us\<rparr>)"
    using acc by (simp add: settled_def is_member_def del: set_map)
  from Q [OF this] True show ?thesis
    unfolding wp_def UpsertActiveRoomUserTx_def by (simp add: calm_D [OF assms(1)] write_user_def upd_user_def)
next
  case False
  have "Q () (s\<lparr>room_users := room_users s @ [fresh_room_user rid uid RoomUserRoleNormal nick t]\<rparr>)"
    by (rule Q) (use acc in \<open>auto simp: settled_def is_member_def active_user_def fresh_room_user_def\<close>)
  with False show ?thesis unfolding wp_def UpsertActiveRoomUserTx_def by (simp only: calm_D [OF assms(1)] if_False) simp
qed

lemma live_session:
  assumes "calm e" and "settled rid uid j s" and Q: "\<And>ss. seated rid uid j (s\<lparr>user_sessions := ss\<rparr>) \<Longrightarrow> Q () (s\<lparr>user_sessions := ss\<rparr>)"
  shows "wp (UpsertActiveUserRoomSessionTx (ae_room e) uid rid q t) Q E s"
proof (cases "\<exists>u \<in> set (user_sessions s). us_Uid u = uid \<and> us_Rid u = rid")
  case True
  let ?P = "\<lambda>u. us_Uid u = uid \<and> us_Rid u = rid"
  let ?f = "\<lambda>u. u\<lparr>us_DeleteTime := 0, us_State := 1, us_LastSeqId := q, us_IsTop := False, us_UpdateTime := t\<rparr>"
  from True obtain x where x: "x \<in> set (user_sessions s)" "?P x" by blast
  let ?ss = "map (\<lambda>u. if ?P u then ?f u else u) (user_sessions s)"
  have "?f x \<in> set ?ss" using x by force
  moreover have "open_session uid (?f x) \<and> us_Rid (?f x) = rid" using x by (simp add: open_session_def)
  ultimately have "\<exists>v \<in> set ?ss. open_session uid v \<and> us_Rid v = rid" by blast
  then have "seated rid uid j (s\<lparr>user_sessions := ?ss\<rparr>)"
    using assms(2) by (simp add: seated_def settled_def is_member_def del: set_map)
  from Q [OF this] True show ?thesis
    unfolding wp_def UpsertActiveUserRoomSessionTx_def by (simp add: calm_D [OF assms(1)] upd_session_def)
next
  case False
  let ?v = "fresh_session uid rid q (ae_now e) s"
  have "seated rid uid j (s\<lparr>user_sessions := user_sessions s @ [?v]\<rparr>)"
    using assms(2) by (simp add: seated_def settled_def is_member_def open_session_def fresh_session_def)
  from Q [OF this] False show ?thesis
    unfolding wp_def UpsertActiveUserRoomSessionTx_def by (simp only: calm_D [OF assms(1)] if_False simp_thms) simp
qed

lemma seated_same: "room_users s1 = room_users s \<Longrightarrow> join_requests s1 = join_requests s \<Longrightarrow> user_sessions s1 = user_sessions s \<Longrightarrow>
    seated rid uid j s \<Longrightarrow> seated rid uid j s1"
  by (simp add: seated_def settled_def is_member_def)

lemma seated_sameI: "(\<And>s. room_users (snd (m s)) = room_users s \<and> join_requests (snd (m s)) = join_requests s \<and>
    user_sessions (snd (m s)) = user_sessions s) \<Longrightarrow> keeps (seated rid uid j) m"
  by (simp add: keeps_def seated_def settled_def is_member_def)

lemma seated_upd_session:
  assumes "\<And>u. open_session uid (f u) = open_session uid u" and "\<And>u. us_Rid (f u) = us_Rid u"
    and "seated rid uid j s"
  shows "seated rid uid j (upd_session P f s)"
proof -
  from assms(3) obtain v where v: "v \<in> set (user_sessions s)" "open_session uid v \<and> us_Rid v = rid" by (auto simp: seated_def)
  let ?v = "if P v then f v else v"
  have "?v \<in> set (user_sessions (upd_session P f s))" using v(1) by (simp add: upd_session_def)
  moreover have "open_session uid ?v \<and> us_Rid ?v = rid" using v(2) assms(1,2) by simp
  ultimately have "\<exists>v \<in> set (user_sessions (upd_session P f s)). open_session uid v \<and> us_Rid v = rid" by blast
  moreover have "settled rid uid j (upd_session P f s)"
    using assms(3) by (simp add: seated_def settled_def is_member_def upd_session_def)
  ultimately show ?thesis by (simp add: seated_def)
qed

lemma refresh_rows [simp]:
  "join_requests (SetRoomUserIdsCache re rid s) = join_requests s" "user_sessions (SetRoomUserIdsCache re rid s) = user_sessions s"
  by (auto simp: SetRoomUserIdsCache_def split: sum.splits)

lemma seated_keep:
  "keeps (seated rid uid j) (NotifyQuic e msg)"
  "keeps (seated rid uid j) (PublishUserOperationLog e v op r bf af)" "keeps (seated rid uid j) (PublishRoomAdminLog e r1 op v r bf af)"
  "keeps (seated rid uid j) (AddUserToRoomOnlineSetIfOnline e r1 v)" "keeps (seated rid uid j) (refresh_members e r1)"
  by (rule seated_sameI, simp add: NotifyQuic_def change_def PublishUserOperationLog_def PublishRoomAdminLog_def
      AddUserToRoomOnlineSetIfOnline_def emit_def refresh_members_def)+

lemma seated_bump: "keeps (seated rid uid j) (BumpUserRoomSessionLastMessageTime re r1 tm)"
proof -
  have "seated rid uid j (InvalidateRoomLastMessageCache re r1 s) = seated rid uid j s" for s :: "'a admin_store_scheme"
    by (simp add: seated_def settled_def is_member_def InvalidateRoomLastMessageCache_def)
  then show ?thesis
    by (auto simp: keeps_def BumpUserRoomSessionLastMessageTime_def open_session_def intro!: seated_upd_session)
qed

lemma seated_push: "keeps (seated rid uid j) (pushRoomJoinRequestHandledNotifications e rj v)"
  unfolding pushRoomJoinRequestHandledNotifications_def by (rule keep seated_keep)+

text \<open>The transaction of a join.\<close>

lemma sound_fields [simp]:
  "sound_tables e (s\<lparr>room_users := us\<rparr>) = sound_tables e s" "seq_free rid q (s\<lparr>room_users := us\<rparr>) = seq_free rid q s"
  "sound_tables e (upd_room P f s) = sound_tables e s" "seq_free rid q (upd_room P f s) = seq_free rid q s"
  "sound_tables e (s\<lparr>seq_keys_of := ks\<rparr>) = sound_tables e s"
  "sound_tables e (s\<lparr>room_ids_cache := ca\<rparr>) = sound_tables e s" "numbered rid (s\<lparr>room_ids_cache := ca\<rparr>) = numbered rid s"
  "sound_tables e (s\<lparr>join_requests := js, notifications := ns\<rparr>) = sound_tables e s"
  "numbered rid (s\<lparr>join_requests := js, notifications := ns\<rparr>) = numbered rid s"
  "settled rid uid j (upd_room P f s) = settled rid uid j s"
  by (simp_all add: sound_tables_def fresh_ids_def seq_free_def numbered_def upd_room_def settled_def is_member_def)

lemma live_member_count: "calm e \<Longrightarrow> Q () (upd_room (\<lambda>r. r_Rid r = rid) (\<lambda>r. r\<lparr>r_MemberCount := r_MemberCount r + 1\<rparr>) s) \<Longrightarrow>
    wp (add_member_count e rid) Q E s"
  by (simp add: wp_def add_member_count_def write_room_def calm_D)

lemma live_clear_tops: "calm e \<Longrightarrow> settled rid uid j s \<Longrightarrow> (\<And>s1. settled rid uid j s1 \<Longrightarrow> Q () s1) \<Longrightarrow> wp (clear_tops e v) Q E s"
  by (simp add: wp_def clear_tops_def write_session_def calm_D settled_def is_member_def upd_session_def)

lemma wp_calm_transaction: "calm e \<Longrightarrow> wp m Q (\<lambda>_. False) s \<Longrightarrow> wp (transaction e r m) Q E s"
  by (auto simp: wp_def transaction_def calm_def split: sum.splits prod.splits)

lemma live_join_tx:
  assumes c: "calm e" and t: "sound_tables e s" and f: "seq_free rid q s" and room: "r_Rid room = rid"
    and acc: "\<exists>q \<in> set (join_requests s). jr_RjrId q = j \<and> jr_State q = 2"
    and Q: "\<And>a s1. seated rid (hu_Uid u) j s1 \<Longrightarrow> Q a s1"
  shows "wp (join_tx e u room q by') Q E s"
  unfolding join_tx_def Let_def room
  apply (rule wp_calm_transaction [OF c])
  apply (rule wp_andThenI, rule live_upsert_user [OF c acc])
  apply (rule wp_andThenI, rule live_member_count [OF c])
  apply (rule wp_andThenI, rule live_message_row [OF c])
    apply (simp add: t)
   apply (simp add: f)
  apply (rule wp_andThenI, rule wp_ifI; rule live_content_row [OF c], assumption)
   apply (rule wp_andThenI, rule live_clear_tops [OF c], simp add: settled_def is_member_def upd_room_def,
      rule wp_andThenI, erule live_session [OF c], rule wp_succeedI, erule Q)+
  done

text \<open>Operations that cannot fail.\<close>

definition never_fails :: "('s, 'e, unit) act \<Rightarrow> bool" where "never_fails m \<longleftrightarrow> (\<forall>s. fst (m s) = Inr ())"

lemma wp_total: "never_fails m \<Longrightarrow> keeps I m \<Longrightarrow> I s \<Longrightarrow> (\<And>s1. I s1 \<Longrightarrow> Q () s1) \<Longrightarrow> wp m Q E s"
  by (auto simp: wp_def never_fails_def keeps_def split: sum.splits prod.splits) (metis fst_conv sum.distinct(1) snd_conv)+

lemma total_andThen: "never_fails m \<Longrightarrow> (\<And>a. never_fails (f a)) \<Longrightarrow> never_fails (andThen m f)"
  by (auto simp: never_fails_def andThen_def split: sum.splits prod.splits) (metis fst_conv sum.distinct(1))

lemma total_reading: "(\<And>a. never_fails (f a)) \<Longrightarrow> never_fails (andThen (reading g) f)"
  by (simp add: never_fails_def andThen_def reading_def)

lemma total_each: "(\<And>x. never_fails (f x)) \<Longrightarrow> never_fails (each f xs)"
proof (induction xs)
  case (Cons x xs)
  have "each f (x # xs) = andThen (f x) (\<lambda>_. each f xs)" by (rule ext) simp
  with Cons show ?case by (simp add: total_andThen)
qed (simp add: never_fails_def)

lemma total_basic:
  "never_fails (NotifyQuic e msg)" "never_fails (PublishUserOperationLog e v op r bf af)" "never_fails (PublishRoomAdminLog e r1 op v r bf af)"
  "never_fails (refresh_members e r1)" "never_fails (succeed ())" "never_fails (quietly m)"
  by (simp_all add: never_fails_def NotifyQuic_def change_def PublishUserOperationLog_def PublishRoomAdminLog_def refresh_members_def
      succeed_def quietly_def)

lemma total_sum: "(\<And>a. never_fails (f a)) \<Longrightarrow> (\<And>b. never_fails (g b)) \<Longrightarrow> never_fails (case x of Inl a \<Rightarrow> f a | Inr b \<Rightarrow> g b)"
  by (cases x) simp_all

lemma total_if: "never_fails m \<Longrightarrow> never_fails n \<Longrightarrow> never_fails (if b then m else n)"
  by simp

lemmas total_rules = total_basic total_reading total_andThen total_each total_sum total_if

lemma total_push: "never_fails (pushRoomJoinRequestHandledNotifications e rj v)"
  unfolding pushRoomJoinRequestHandledNotifications_def by (rule total_rules)+

lemma live_join:
  assumes c: "calm e" and t: "sound_tables e s" and n: "numbered (r_Rid room) s"
    and acc: "\<exists>q \<in> set (join_requests s). jr_RjrId q = j \<and> jr_State q = 2"
    and Q: "\<And>s1. seated (r_Rid room) (hu_Uid u) j s1 \<Longrightarrow> Q () s1"
  shows "wp (joinRoomCommittedAfterValidation e u room by') Q (\<lambda>_. False) s"
  unfolding joinRoomCommittedAfterValidation_def
  apply (rule wp_andThenI, rule live_next_seq [OF c n])
  apply (rule wp_andThenI, rule live_join_tx [OF c _ _ refl, where j = j])
     apply (simp add: t)
    apply assumption
   apply (simp add: acc)
  apply (rule wp_andThenI, rule wp_quietlyI, rule seated_bump, assumption)
  apply (rule wp_total [where I = "seated (r_Rid room) (hu_Uid u) j"])
     apply (rule total_rules)+
    apply (rule keep seated_keep)+
   apply assumption
  apply (erule Q)
  done

section \<open>An accepted request\<close>

lemma live_decide:
  assumes c: "calm e" and q: "q \<in> set (join_requests s)" "jr_RjrId q = j"
    and Q: "\<And>js ns. \<exists>q \<in> set js. jr_RjrId q = j \<and> jr_State q = 2 \<Longrightarrow> Q () (s\<lparr>join_requests := js, notifications := ns\<rparr>)"
  shows "wp (decide_request e j h v 2 k) Q E s"
proof -
  let ?f = "\<lambda>q. if jr_RjrId q = j then q\<lparr>jr_State := 2, jr_HandlerUid := h, jr_ProcessedAt := ae_now e\<rparr> else q"
  let ?js = "map ?f (join_requests s)"
  have "?f q \<in> set ?js" using q(1) by simp
  moreover have "jr_RjrId (?f q) = j \<and> jr_State (?f q) = 2" using q(2) by simp
  ultimately have acc: "\<exists>q \<in> set ?js. jr_RjrId q = j \<and> jr_State q = 2" by blast
  have "\<exists>ns. decide_request e j h v 2 k s = (Inr (), s\<lparr>join_requests := ?js, notifications := ns\<rparr>)"
    by (rule exI, simp add: decide_request_def andThen_def transaction_def orFail_def quietly_def UpdateRoomJoinRequestStateWithTx_def
        UpdateMessageNotificationStateWithTx_def UpdateAllMessageNotificationStatesByRelatedIdAndType_def write_notifications_def
        calm_D [OF c])
  then obtain ns where "decide_request e j h v 2 k s = (Inr (), s\<lparr>join_requests := ?js, notifications := ns\<rparr>)" by blast
  with Q [OF acc, of ns] show ?thesis by (simp add: wp_def)
qed

lemma wp_both: "wp m P (\<lambda>_. False) s \<Longrightarrow> wp m P' (\<lambda>_. False) s \<Longrightarrow> (\<And>a s1. P a s1 \<Longrightarrow> P' a s1 \<Longrightarrow> Q a s1) \<Longrightarrow> wp m Q E s"
  by (auto simp: wp_def split: sum.splits prod.splits)

lemma wp_result: "wp m P (\<lambda>_. False) s \<Longrightarrow> \<exists>a. fst (m s) = Inr a \<and> P a (snd (m s))"
  by (cases "m s") (auto simp: wp_def split: sum.splits)

lemma live_outsider:
  assumes "quiet e" and "roster_ok s" and "\<not> is_member rid uid s" and Q: "\<And>ca. Q False (s\<lparr>room_ids_cache := ca\<rparr>)"
  shows "wp (has_room_user e rid uid) Q E s"
proof (rule wp_both)
  show "wp (has_room_user e rid uid) (\<lambda>b _. \<not> b) (\<lambda>_. False) s"
    by (rule wp_has_room_user [OF assms(1,2)]) (use assms(3) in \<open>simp add: mem_of_iff is_member_def\<close>)
  show "wp (has_room_user e rid uid) (\<lambda>_ s1. \<exists>ca. s1 = s\<lparr>room_ids_cache := ca\<rparr>) (\<lambda>_. False) s"
    by (rule wp_has_room_user_cache) blast
qed (use Q in auto)

lemma find_member: "find P xs = Some x \<Longrightarrow> x \<in> set xs \<and> P x"
  by (auto simp: find_Some_iff)

lemma GetRoomByRid_calm:
  assumes "calm e" and "r \<in> set (rooms s)" and "r_Rid r = rid" and "r_State r = 1" and "r_DeleteTime r = 0"
  shows "\<exists>r'. GetRoomByRid (ae_room e) rid s = Inr r' \<and> r_Rid r' = rid"
  using assms by (auto simp: GetRoomByRid_def calm_D find_None_iff dest!: find_member split: option.splits)

lemma CanUserMute_calm:
  assumes "calm e" and ok: "roster_ok s" and a: "a \<in> set (room_users s)" "active_user rid uid a"
    "ru_Role a = RoomUserRoleAdmin \<or> ru_Role a = RoomUserRoleOwner"
  shows "CanUserMuteInRoom (ae_room e) rid uid s"
proof -
  obtain b where b: "find (active_user rid uid) (room_users s) = Some b"
    using a by (cases "find (active_user rid uid) (room_users s)") (auto simp: find_None_iff)
  then have "b = a" using same_row [OF ok _ a(1), of b] a(2) by (auto dest!: find_member simp: active_key)
  with b a show ?thesis by (simp add: CanUserMuteInRoom_def GetRoomUser_def calm_D [OF assms(1)])
qed

section \<open>Rooms at work\<close>

definition demo_admin_env :: "time \<Rightarrow> admin_env" where
  "demo_admin_env now = \<lparr>ae_room = calm_room_env now, ae_fails = (\<lambda>_. False), ae_seq = (\<lambda>_. False),
     ae_xid = (\<lambda>n. replicate n CHR ''x''), ae_ip = ''ip'', ae_sid = ''s'', ae_json = (\<lambda>_. ''json''),
     ae_json_valid = (\<lambda>_. True), ae_hash = Some, ae_compare = (=), ae_online = (\<lambda>_. False)\<rparr>"

definition demo_codecs :: codecs where
  "demo_codecs = \<lparr>cd_invite = \<lparr>ie_token = ''token'', ie_base = ''web'', ie_escape = id\<rparr>, cd_columns = (\<lambda>_. []),
     cd_rule = (\<lambda>_. empty_rule), cd_decimal = (\<lambda>_. ''1'')\<rparr>"

definition demo_person :: "string \<Rightarrow> http_user option" where
  "demo_person uid = Some \<lparr>hu_Uid = uid, hu_Nickname = ''nick''\<rparr>"

text \<open>No room yet; the first is named by the first identifier.\<close>

definition demo_empty :: admin_store where
  "demo_empty = \<lparr>rooms = [], room_users = [], room_ids_cache = (\<lambda>_. None), mute_configs = [], freq_version = (\<lambda>_. None),
     freq_count = (\<lambda>_. None), user_sessions = [], user_friends = [], chat_db = empty_db, seq_keys_of = (\<lambda>_. None),
     last_msg_cache = (\<lambda>_. None), pending_updates = (\<lambda>_. None), update_acks = (\<lambda>_. None), dedupe_locks = {},
     published = [], profiles = (\<lambda>_. Some ''nick''), online_members = (\<lambda>_. {}), notifications = [], announcements = [],
     join_requests = [], invites = [], invite_joins = [], pinned_messages = [], strategy_keys = {}, xid_next = 1,
     effects = []\<rparr>"

definition demo_create :: "admin_env \<times> http_user option \<times> room_request" where
  "demo_create = (demo_admin_env 1000, demo_person ''o'', ReqCreate (Some (''name'', [], [], [])))"

definition demo_apply :: "string \<Rightarrow> admin_env \<times> http_user option \<times> room_request" where
  "demo_apply uid = (demo_admin_env 2000, demo_person uid, ReqJoinApply (Some
     \<lparr>ja_Rid = ''x'', ja_Password = [], ja_Token = [], ja_Message = ''hi'', ja_Answer = []\<rparr>))"

definition demo_applied :: admin_store where
  "demo_applied = room_exec demo_codecs [demo_create, demo_apply ''a''] demo_empty"

text \<open>
  C1. From a store without rooms, whatever sequence of room requests runs, provided Redis and
  the member lists can be read, the clock is set, and no owner changes his own role: every
  group room counts its members right, holds each of them once, and has exactly one owner,
  the creator the room row names, unless its creation failed and nobody can enter it; and
  every cached member list is the list of the table.
\<close>

theorem room_roster_invariant:
  assumes "rooms s = []" and "room_users s = []" and "room_ids_cache s = Map.empty"
    and "\<forall>(e, u, q) \<in> set reqs. quiet e \<and> \<not> own_role u q"
  shows "let s' = room_exec co reqs s in
    (\<forall>r \<in> set (rooms s'). r_Type r = RoomTypeGroup \<longrightarrow>
       r_MemberCount r = int (length (mem_of (r_Rid r) (room_users s'))) \<and> distinct (mem_of (r_Rid r) (room_users s')) \<and>
       (owners_of (r_Rid r) (room_users s') = [r_CreateUid r] \<or> never_entered (room_users s') r)) \<and>
    (\<forall>rid uids. room_ids_cache s' rid = Some uids \<longrightarrow> uids = mem_of rid (room_users s'))"
proof -
  have "roster_ok s" using assms(1-3) by (simp add: roster_ok_def core_def)
  from roster_exec [OF assms(4) this, of co] have ok: "roster_ok (room_exec co reqs s)" .
  have "distinct (mem_of rid us)" if "distinct (map room_key us)" for rid us
    using that by (induction us) (auto simp: mem_of_Cons mem_of_iff active_key room_key_def image_iff)
  with ok show ?thesis by (auto simp: roster_ok_def core_def group_ok_def Let_def)
qed

definition demo_accept :: "admin_env \<times> http_user option \<times> room_request" where
  "demo_accept = (demo_admin_env 3000, demo_person ''o'', ReqAccept (Some (jr_RjrId (hd (join_requests demo_applied)))))"

lemma demo_quiet: "quiet (demo_admin_env now) = (now \<noteq> 0)"
  by (simp add: quiet_def demo_admin_env_def calm_room_env_def)

theorem room_roster_invariant_witness:
  "let s = room_exec demo_codecs [demo_create, demo_apply ''a'', demo_accept] demo_empty in
   map r_MemberCount (rooms s) = [2] \<and> owners_of ''x'' (room_users s) = [''o''] \<and> r_MemberCount (hd (rooms s)) =
     int (length (mem_of (r_Rid (hd (rooms s))) (room_users s)))"
proof -
  let ?reqs = "[demo_create, demo_apply ''a'', demo_accept]"
  have "let s = room_exec demo_codecs ?reqs demo_empty in map r_MemberCount (rooms s) = [2] \<and>
      owners_of ''x'' (room_users s) = [''o''] \<and> map r_Type (rooms s) = [RoomTypeGroup]" by code_simp
  then have "map r_MemberCount (rooms (room_exec demo_codecs ?reqs demo_empty)) = [2]"
    "owners_of ''x'' (room_users (room_exec demo_codecs ?reqs demo_empty)) = [''o'']"
    "map r_Type (rooms (room_exec demo_codecs ?reqs demo_empty)) = [RoomTypeGroup]"
    unfolding Let_def by blast+
  moreover have "\<forall>(e, u, q) \<in> set ?reqs. quiet e \<and> \<not> own_role u q"
    by (simp add: demo_create_def demo_apply_def demo_accept_def demo_quiet demo_person_def)
  moreover have "rooms demo_empty = []" "room_users demo_empty = []" "room_ids_cache demo_empty = Map.empty"
    by (simp_all add: demo_empty_def)
  ultimately show ?thesis
    using room_roster_invariant [of demo_empty ?reqs demo_codecs]
    by (cases "rooms (room_exec demo_codecs ?reqs demo_empty)") (auto simp: Let_def)
qed

text \<open>
  C2. Whatever fails while a request runs and in whatever state the store is: a request that
  makes a user a member of an existing room is one of four, and asked for what it must. A
  join, of an open room, with its password; an application to a room behind a question,
  whose right answer is approved at once; an invite link, still valid, to an open room; or
  an administrator or the owner of the room accepting the pending request of that very user.
\<close>

theorem ways_into_a_room:
  assumes "r0 \<in> set (rooms s)" and "r_Rid r0 = rid" and "\<not> is_member rid uid s"
    and "is_member rid uid (room_exec1 co e u q s)"
  shows "\<exists>r \<in> set (rooms s). r_Rid r = rid \<and> r_State r = RoomStateActive \<and> r_DeleteTime r = 0 \<and> may_enter e u q r uid s"
proof -
  have "rid \<in> r_Rid ` set (rooms s)" using assms(1,2) by auto
  from held_exec1 [OF _ this, of "lawful e u q rid uid s" uid e u q co] assms(3,4)
  have "lawful e u q rid uid s" by (simp add: held_def)
  then show ?thesis by (auto simp: lawful_def room_consts)
qed

text \<open>The question of the room answered right, and answered wrong.\<close>

definition demo_question :: "admin_env \<times> http_user option \<times> room_request" where
  "demo_question = (demo_admin_env 1500, demo_person ''o'', ReqJoinConfig (Some \<lparr>jc_Rid = ''x'', jc_ApprovalRequired = None,
     jc_QuestionEnabled = Some True, jc_Question = ''q'', jc_Answer = ''42'', jc_AutoApprove = Some True\<rparr>))"

definition demo_answer :: "string \<Rightarrow> room_request" where
  "demo_answer ans = ReqJoinApply (Some \<lparr>ja_Rid = ''x'', ja_Password = [], ja_Token = [], ja_Message = [], ja_Answer = ans\<rparr>)"

definition demo_asking :: admin_store where
  "demo_asking = room_exec demo_codecs [demo_create, demo_question] demo_empty"

theorem ways_into_a_room_witness:
  "\<not> is_member ''x'' ''a'' (room_exec1 demo_codecs (demo_admin_env 2000) (demo_person ''a'') (demo_answer ''41'') demo_asking) \<and>
   is_member ''x'' ''a'' (room_exec1 demo_codecs (demo_admin_env 2000) (demo_person ''a'') (demo_answer ''42'') demo_asking) \<and>
   (\<exists>r \<in> set (rooms demo_asking). r_JoinApprovalRequired r \<and>
      may_enter (demo_admin_env 2000) (demo_person ''a'') (demo_answer ''42'') r ''a'' demo_asking)"
proof -
  have "let s = demo_asking in \<not> is_member ''x'' ''a'' s \<and> hd (rooms s) \<in> set (rooms s) \<and>
      r_Rid (hd (rooms s)) = ''x'' \<and> (\<forall>r \<in> set (rooms s). r_JoinApprovalRequired r)" by code_simp
  then have out: "\<not> is_member ''x'' ''a'' demo_asking"
    and room: "hd (rooms demo_asking) \<in> set (rooms demo_asking)" "r_Rid (hd (rooms demo_asking)) = ''x''"
    and app: "\<forall>r \<in> set (rooms demo_asking). r_JoinApprovalRequired r"
    unfolding Let_def by blast+
  have rej: "\<not> is_member ''x'' ''a'' (room_exec1 demo_codecs (demo_admin_env 2000) (demo_person ''a'') (demo_answer ''41'') demo_asking)"
    by code_simp
  have acc: "is_member ''x'' ''a'' (room_exec1 demo_codecs (demo_admin_env 2000) (demo_person ''a'') (demo_answer ''42'') demo_asking)"
    by code_simp
  from ways_into_a_room [OF room out acc] app rej acc show ?thesis by blast
qed

text \<open>
  C36. When no call fails, an administrator of the room who accepts a pending request that has
  not expired succeeds: the request is settled, its applicant is a member of the room, and
  the room is in the applicant's list of sessions.
\<close>

theorem acceptance_admits:
  assumes c: "calm e" and ok: "roster_ok s" and t: "sound_tables e s" and n: "numbered (jr_Rid q) s"
    and req: "find (\<lambda>q. jr_RjrId q = j \<and> jr_DeleteTime q = 0) (join_requests s) = Some q" "j \<noteq> []"
    and pending: "jr_State q = 0" "\<not> (jr_ExpiresAt q > 0 \<and> jr_ExpiresAt q < ae_now e)"
    and admin: "a \<in> set (room_users s)" "active_user (jr_Rid q) (hu_Uid u) a"
      "ru_Role a = RoomUserRoleAdmin \<or> ru_Role a = RoomUserRoleOwner"
    and room: "r \<in> set (rooms s)" "r_Rid r = jr_Rid q" "r_State r = RoomStateActive" "r_DeleteTime r = 0"
    and outside: "\<not> is_member (jr_Rid q) (jr_ApplicantUid q) s" and known: "profiles s (jr_ApplicantUid q) = Some nick"
  shows "fst (RoomJoinRequestAccept e (Some u) (Some j) s) = Inr (jr_Rid q) \<and>
    seated (jr_Rid q) (jr_ApplicantUid q) j (snd (RoomJoinRequestAccept e (Some u) (Some j) s))"
proof -
  have q: "q \<in> set (join_requests s)" "jr_RjrId q = j" using req(1) by (auto dest!: find_member)
  obtain r' where r': "GetRoomByRid (ae_room e) (jr_Rid q) s = Inr r'" "r_Rid r' = jr_Rid q"
    using GetRoomByRid_calm [OF c room(1,2)] room(3,4) by (auto simp: room_consts)
  have user: "GetUserByUid e (jr_ApplicantUid q) s = Inr \<lparr>hu_Uid = jr_ApplicantUid q, hu_Nickname = nick\<rparr>"
    using known by (simp add: GetUserByUid_def calm_D [OF c])
  have can: "CanUserMuteInRoom (ae_room e) (jr_Rid q) (hu_Uid u) s" by (rule CanUserMute_calm [OF c ok admin])
  have "wp (RoomJoinRequestAccept e (Some u) (Some j)) (\<lambda>a s1. a = jr_Rid q \<and> seated (jr_Rid q) (jr_ApplicantUid q) j s1) (\<lambda>_. False) s"
    unfolding RoomJoinRequestAccept_def
    apply (simp add: wp_query GetRoomJoinRequestByRjrId_def calm_D [OF c] req pending can)
    apply (rule impI, rule live_outsider [OF calm_quiet [OF c] ok outside])
    apply (simp add: wp_query r' user)
    apply (rule live_decide [OF c, where q = q])
      apply (simp add: q)
     apply (rule q)
    apply (rule wp_andThenI, rule wp_orFailI, rule live_join [OF c, where j = j])
       apply (simp add: t)
      apply (simp add: n r')
     apply simp
    apply (rule wp_andThenI, rule wp_total [OF total_push seated_push], assumption)
    apply (rule wp_andThenI, rule wp_total [OF total_basic(3) seated_keep(3)], assumption)
    apply (rule wp_andThenI, rule wp_total [OF total_basic(2) seated_keep(2)], assumption)
    apply (simp add: r')
    done
  from wp_result [OF this] show ?thesis by auto
qed

lemma demo_applied_ok: "roster_ok demo_applied"
  unfolding demo_applied_def
  by (rule roster_exec) (simp_all add: demo_create_def demo_apply_def demo_quiet demo_person_def demo_empty_def roster_ok_def core_def)

lemma demo_calm: "calm (demo_admin_env now) = (now \<noteq> 0)"
  by (simp add: calm_def demo_admin_env_def calm_room_env_def)

lemma demo_sound: "sound_tables (demo_admin_env now) demo_applied"
proof -
  have "let s = demo_applied in
      (\<forall>m \<in> set (messages (chat_db s)). length (rm_Mid m) < xid_next s \<and> length (rm_ClientMid m) < xid_next s) \<and>
      (\<forall>c \<in> set (contents (chat_db s)). length (ct_Cid c) < xid_next s \<and> length (ct_ClientCid c) < xid_next s) \<and>
      message_indexes (messages (chat_db s)) \<and> content_indexes (contents (chat_db s))" by code_simp
  then have "\<forall>m \<in> set (messages (chat_db demo_applied)). length (rm_Mid m) < xid_next demo_applied \<and> length (rm_ClientMid m) < xid_next demo_applied"
    "\<forall>c \<in> set (contents (chat_db demo_applied)). length (ct_Cid c) < xid_next demo_applied \<and> length (ct_ClientCid c) < xid_next demo_applied"
    and rows: "message_indexes (messages (chat_db demo_applied))" "content_indexes (contents (chat_db demo_applied))"
    unfolding Let_def by blast+
  moreover have "inj (\<lambda>n. replicate n CHR ''x'')" by (auto intro: injI)
  ultimately have "fresh_ids (demo_admin_env now) demo_applied"
    by (auto simp: fresh_ids_def demo_admin_env_def)
  with rows show ?thesis by (simp add: sound_tables_def)
qed

theorem acceptance_admits_witness:
  "let q = hd (join_requests demo_applied);
     (r, s) = RoomJoinRequestAccept (demo_admin_env 3000) (demo_person ''o'') (Some (jr_RjrId q)) demo_applied
   in r = Inr ''x'' \<and> is_member ''x'' ''a'' s \<and> \<not> is_member ''x'' ''a'' demo_applied"
proof -
  let ?q = "hd (join_requests demo_applied)" and ?a = "hd (room_users demo_applied)" and ?r = "hd (rooms demo_applied)"
  let ?j = "jr_RjrId ?q"
  have "let s = demo_applied; q = hd (join_requests s); a = hd (room_users s); r = hd (rooms s) in
      (jr_Rid q = ''x'' \<and> jr_ApplicantUid q = ''a'' \<and> seq_keys_of s ''x'' = Some 1 \<and>
        (\<forall>m \<in> set (messages (chat_db s)). rm_SeqId m \<le> 1)) \<and>
      (find (\<lambda>p. jr_RjrId p = jr_RjrId q \<and> jr_DeleteTime p = 0) (join_requests s) = Some q \<and> jr_RjrId q \<noteq> [] \<and>
        jr_State q = 0 \<and> \<not> (jr_ExpiresAt q > 0 \<and> jr_ExpiresAt q < ae_now (demo_admin_env 3000))) \<and>
      (a \<in> set (room_users s) \<and> active_user (jr_Rid q) (hu_Uid \<lparr>hu_Uid = ''o'', hu_Nickname = ''nick''\<rparr>) a \<and>
        (ru_Role a = RoomUserRoleAdmin \<or> ru_Role a = RoomUserRoleOwner)) \<and>
      (r \<in> set (rooms s) \<and> r_Rid r = jr_Rid q \<and> r_State r = RoomStateActive \<and> r_DeleteTime r = 0) \<and>
      \<not> is_member (jr_Rid q) (jr_ApplicantUid q) s \<and> profiles s (jr_ApplicantUid q) = Some ''nick''"
    by code_simp
  then have ids: "jr_Rid ?q = ''x''" "jr_ApplicantUid ?q = ''a''"
    and seq: "seq_keys_of demo_applied ''x'' = Some 1" "\<forall>m \<in> set (messages (chat_db demo_applied)). rm_SeqId m \<le> 1"
    and req: "find (\<lambda>q. jr_RjrId q = ?j \<and> jr_DeleteTime q = 0) (join_requests demo_applied) = Some ?q" "?j \<noteq> []"
      "jr_State ?q = 0" "\<not> (jr_ExpiresAt ?q > 0 \<and> jr_ExpiresAt ?q < ae_now (demo_admin_env 3000))"
    and adm: "?a \<in> set (room_users demo_applied)" "active_user (jr_Rid ?q) (hu_Uid \<lparr>hu_Uid = ''o'', hu_Nickname = ''nick''\<rparr>) ?a"
      "ru_Role ?a = RoomUserRoleAdmin \<or> ru_Role ?a = RoomUserRoleOwner"
    and room: "?r \<in> set (rooms demo_applied)" "r_Rid ?r = jr_Rid ?q" "r_State ?r = RoomStateActive" "r_DeleteTime ?r = 0"
    and out: "\<not> is_member (jr_Rid ?q) (jr_ApplicantUid ?q) demo_applied" "profiles demo_applied (jr_ApplicantUid ?q) = Some ''nick''"
    unfolding Let_def by blast+
  have n: "numbered (jr_Rid ?q) demo_applied" using ids(1) seq by (simp add: numbered_def)
  have "calm (demo_admin_env 3000)" by (simp add: demo_calm)
  from acceptance_admits [OF this demo_applied_ok demo_sound n req adm room out] out(1) show ?thesis
    unfolding ids by (auto simp: seated_def settled_def Let_def demo_person_def split: prod.splits)
qed

end
