(* ===== verification/RoomColumns.thy ===== *)
theory RoomColumns
  imports RoomProgress
begin

text \<open>
  The values that the columns of rooms, members and mute settings can hold, whatever is
  requested and whatever fails: the ranges the handlers check, kept by every request. The
  ranges are those of all kinds of rooms, for \<open>FriendSafety\<close> to use them for rooms of two.
\<close>

section \<open>Rows\<close>

definition room_typed :: "room \<Rightarrow> bool" where
  "room_typed r \<longleftrightarrow> (r_State r = RoomStateActive \<or> r_State r = RoomStateDissolved) \<and>
     r_Type r \<in> {RoomTypePrivate, RoomTypeGroup, RoomTypeGroupPrivate, RoomTypeSelfChat} \<and> r_AllowNonFriendChat r \<and>
     (r_Type r = RoomTypeGroup \<longrightarrow> r_Name r \<noteq> []) \<and> RuneCount (r_Name r) \<le> 36 \<and> RuneCount (r_Description r) \<le> 255 \<and> r_MemberCount r \<ge> 0 \<and>
     (r_JoinQuestionEnabled r \<longrightarrow> r_JoinQuestion r \<noteq> [] \<and> r_JoinQuestionAnswer r \<noteq> []) \<and>
     RuneCount (r_JoinQuestion r) \<le> 256 \<and> RuneCount (r_JoinQuestionAnswer r) \<le> 128"

definition role_typed :: "int \<Rightarrow> bool" where
  "role_typed role \<longleftrightarrow> role = RoomUserRoleNormal \<or> role = RoomUserRoleAdmin \<or> role = RoomUserRoleOwner"

definition user_typed :: "room_user \<Rightarrow> bool" where
  "user_typed u \<longleftrightarrow> role_typed (ru_Role u) \<and> RuneCount (ru_RoomRemark u) \<le> 255"

definition mute_typed :: "mute_config \<Rightarrow> bool" where
  "mute_typed c \<longleftrightarrow> \<not> (mc_IsMuteAll c \<and> mc_IsActive c) \<and> mc_Version c \<ge> 1 \<and>
     (case mc_AllowRoles c of None \<Rightarrow> True | Some rs \<Rightarrow> distinct rs \<and> list_all role_typed rs) \<and>
     \<not> (mc_EffectiveAt c > 0 \<and> mc_ExpiresAt c > 0 \<and> mc_EffectiveAt c > mc_ExpiresAt c)"

fun typed :: "room list \<times> room_user list \<times> (rid \<rightharpoonup> uid list) \<times> mute_config list \<Rightarrow> bool" where
  "typed (rs, us, cache, mcs) \<longleftrightarrow> list_all room_typed rs \<and> list_all user_typed us \<and> list_all mute_typed mcs"

abbreviation typed_ok :: "'a admin_store_scheme \<Rightarrow> bool" where "typed_ok s \<equiv> typed (core s)"

lemma typed_ok: "typed_ok s \<longleftrightarrow> list_all room_typed (rooms s) \<and> list_all user_typed (room_users s) \<and> list_all mute_typed (mute_configs s)"
  by (simp add: core_def)

section \<open>Operations\<close>

named_theorems typed_keep \<open>operations that keep the columns typed\<close>

lemma typed_frame: "(\<And>c. keeps (core_is c) m) \<Longrightarrow> keeps typed_ok m"
  using core_frame [of m] by (auto simp: keeps_def)

lemma typed_transaction [typed_keep]: "keeps typed_ok m \<Longrightarrow> keeps typed_ok (transaction e r m)"
  by (force simp: keeps_def transaction_def split: sum.splits prod.splits)

lemma typed_upd_room: "typed_ok s \<Longrightarrow> (\<And>r. room_typed r \<Longrightarrow> room_typed (f r)) \<Longrightarrow> typed_ok (upd_room P f s)"
  and typed_upd_user: "typed_ok s \<Longrightarrow> (\<And>u. user_typed u \<Longrightarrow> user_typed (g u)) \<Longrightarrow> typed_ok (upd_user PU g s)"
  by (auto simp: typed_ok upd_room_def upd_user_def list_all_iff simp del: core_upd_user core_upd_room typed.simps)

lemma typed_write_room: "(\<And>r. room_typed r \<Longrightarrow> room_typed (f r)) \<Longrightarrow> keeps typed_ok (write_room e P f)"
  unfolding keeps_def write_room_def using typed_upd_room by auto

lemma typed_rooms [typed_keep]:
  "keeps typed_ok (write_room e P (\<lambda>r. r\<lparr>r_Password := pw\<rparr>))" "keeps typed_ok (write_room e P (\<lambda>r. r\<lparr>r_AvatarUfId := av\<rparr>))"
  "keeps typed_ok (add_member_count e rid)"
  "keeps typed_ok (write_room e P (\<lambda>v. v\<lparr>r_MemberCount := max (r_MemberCount v - 1) 0\<rparr>))"
  unfolding add_member_count_def by (rule typed_write_room, simp add: room_typed_def)+

lemma typed_DissolveRoom [typed_keep]: "keeps typed_ok (DissolveRoom re rid)"
  unfolding keeps_def DissolveRoom_def
  by (auto intro!: typed_upd_room simp: room_typed_def simp del: core_upd_room typed.simps)

lemma typed_new_user: "typed_ok s \<Longrightarrow> role_typed role \<Longrightarrow> typed_ok (s\<lparr>room_users := room_users s @ [fresh_room_user rid uid role n tm]\<rparr>)"
  by (simp add: typed_ok user_typed_def fresh_room_user_def RuneCount_def)

lemma typed_users [typed_keep]:
  "keeps typed_ok (UpdateRoomUserNickname re rid uid n)" "keeps typed_ok (MuteUserInRoom re rid t op d)"
  "keeps typed_ok (UnmuteUserInRoom re rid t)" "keeps typed_ok (write_user re P (\<lambda>u. u\<lparr>ru_DeleteTime := tm\<rparr>))"
  unfolding keeps_def UpdateRoomUserNickname_def MuteUserInRoom_def UnmuteUserInRoom_def write_user_def
  by (auto intro!: typed_upd_user simp: user_typed_def simp del: core_upd_user typed.simps split: sum.splits)

lemma typed_TransferRoomOwner [typed_keep]: "keeps typed_ok (TransferRoomOwner re rid op t)"
  unfolding keeps_def TransferRoomOwner_def
  by (auto intro!: typed_upd_user typed_upd_room simp: user_typed_def role_typed_def room_typed_def
      simp del: core_upd_user core_upd_room typed.simps split: sum.splits)

lemma typed_Upsert [typed_keep]: "keeps typed_ok (UpsertActiveRoomUserTx re rid uid n tm)"
  unfolding keeps_def UpsertActiveRoomUserTx_def write_user_def
  by (auto intro!: typed_upd_user typed_new_user simp: user_typed_def role_typed_def simp del: core_upd_user typed.simps)

lemma refresh_mutes [simp]: "mute_configs (SetRoomUserIdsCache re rid s) = mute_configs s"
  by (auto simp: SetRoomUserIdsCache_def split: sum.splits)

lemma typed_cache [typed_keep]:
  "keeps typed_ok (GetRoomUserIdsCache re rid)" "keeps typed_ok (has_room_user e rid uid)" "keeps typed_ok (refresh_members e rid)"
  by (auto simp: keeps_def typed_ok GetRoomUserIdsCache_def has_room_user_def HasRoomUser_def refresh_members_def change_def
    Let_def simp del: typed.simps split: option.splits sum.splits prod.splits)

lemma typed_collect_except [typed_keep]: "keeps typed_ok (collect_except e rid found vs)"
proof (induction vs arbitrary: found)
  case (Cons v vs)
  then show ?case by (auto intro!: keep typed_keep)
qed (simp add: keep)

lemma typed_reset: "typed_ok (ResetRoomMuteFrequencyCount re rid s) = typed_ok s"
  by (simp add: ResetRoomMuteFrequencyCount_def typed_ok del: typed.simps)

lemma typed_mute_rule:
  assumes "\<not> (rp_IsMuteAll p \<and> rp_IsActive p)" and "distinct (rp_AllowRoles p)" and "list_all role_typed (rp_AllowRoles p)"
    and "\<not> (rp_EffectiveAt p > 0 \<and> rp_ExpiresAt p > 0 \<and> rp_EffectiveAt p > rp_ExpiresAt p)"
  shows "keeps typed_ok (SetRoomMuteConfigRule re rid by' p)"
  unfolding keeps_def
proof (intro allI impI)
  fix s assume ok: "typed_ok s"
  show "typed_ok (snd (SetRoomMuteConfigRule re rid by' p s))"
  proof (cases "GetRoomMuteConfig re rid s")
    case (Inl err)
    with ok show ?thesis by (simp add: SetRoomMuteConfigRule_def)
  next
    case (Inr cfg)
    then have "cfg \<in> set (mute_configs s)" by (auto simp: GetRoomMuteConfig_def find_Some_iff split: if_splits option.splits)
    with ok have "mc_Version cfg \<ge> 1" by (auto simp: typed_ok list_all_iff mute_typed_def simp del: typed.simps)
    with assms have f: "mute_typed (c\<lparr>mc_IsMuteAll := rp_IsMuteAll p, mc_MuteAllBy := by', mc_Reason := rp_Reason p,
        mc_RuleType := rp_RuleType p, mc_RuleConfig := rc, mc_AllowRoles := Some (rp_AllowRoles p),
        mc_ExceptUsers := Some (rp_ExceptUsers p), mc_EffectiveAt := rp_EffectiveAt p, mc_ExpiresAt := rp_ExpiresAt p,
        mc_IsActive := rp_IsActive p, mc_Version := mc_Version cfg + 1\<rparr>)" for c rc
      by (simp add: mute_typed_def)
    have "typed_ok (s\<lparr>mute_configs := map (\<lambda>c. if Q c then g c else c) (mute_configs s)\<rparr>)" if "\<And>c. mute_typed (g c)" for Q g
      using ok that by (auto simp: typed_ok list_all_iff simp del: typed.simps)
    note this [OF f]
    with Inr ok show ?thesis by (simp add: SetRoomMuteConfigRule_def typed_reset Let_def del: typed.simps)
  qed
qed

lemma typed_mute_all [typed_keep]: "keeps typed_ok (SetRoomMuteAll re rid b by' t)"
  unfolding SetRoomMuteAll_def by (rule typed_mute_rule) (simp_all add: role_typed_def room_consts)

section \<open>Handlers\<close>

lemma typed_handlers [typed_keep]:
  "keeps typed_ok (RoomUserIds e user r1)" "keeps typed_ok (RoomInviteCreate e ie user b1)"
  "keeps typed_ok (RoomJoinRequestReject e user b1)"
  "keeps typed_ok (RoomBlock e user b1)" "keeps typed_ok (RoomUnblock e user b1)"
  "keeps typed_ok (RoomBlockUser e user b2)" "keeps typed_ok (RoomUnblockUser e user b2)"
  "keeps typed_ok (RoomAnnouncementCreate e dec user b3)" "keeps typed_ok (RoomAnnouncementUpdate e dec user b4)"
  "keeps typed_ok (RoomAnnouncementDelete e dec user b5)"
  "keeps typed_ok (RoomPinnedMessagePin e user b5)" "keeps typed_ok (RoomPinnedMessageUnpin e user b1)"
  "keeps typed_ok (RoomPinnedMessageGet e user r1)" "keeps typed_ok (RoomMessageWithdraw e user b5)"
  unfolding RoomUserIds_def RoomInviteCreate_def RoomJoinRequestReject_def RoomBlock_def RoomUnblock_def
    RoomBlockUser_def RoomUnblockUser_def RoomAnnouncementCreate_def RoomAnnouncementUpdate_def
    RoomAnnouncementDelete_def RoomPinnedMessagePin_def RoomPinnedMessageUnpin_def RoomPinnedMessageGet_def
    RoomMessageWithdraw_def Let_def
  by (((rule typed_frame, rule core_basic) | rule keep typed_keep | (rule typed_frame, rule core_keep))+)

lemma typed_handlers2 [typed_keep]:
  "keeps typed_ok (RoomPasswordUpdate e user b2)"
  "keeps typed_ok (RoomAvatarUpdate e user b2)" "keeps typed_ok (RoomDissolve e user b1)"
  "keeps typed_ok (RoomUserNicknameUpdate e user b2)" "keeps typed_ok (RoomMute e user b4)"
  "keeps typed_ok (RoomUnmute e user b3)" "keeps typed_ok (RoomMuteAll e user b5)"
  "keeps typed_ok (RoomOwnerTransfer e user b2)" "keeps typed_ok (RoomMemberKick e user b2)" "keeps typed_ok (RoomLeave e user b1)"
  "keeps typed_ok (RoomJoin e user b6)" "keeps typed_ok (RoomJoinApply e user b7)" "keeps typed_ok (RoomJoinInvite e user b1)"
  "keeps typed_ok (RoomJoinRequestAccept e user b1)"
  unfolding RoomPasswordUpdate_def RoomAvatarUpdate_def RoomDissolve_def RoomUserNicknameUpdate_def
    RoomMute_def RoomUnmute_def RoomMuteAll_def RoomOwnerTransfer_def RoomMemberKick_def RoomLeave_def RoomJoin_def
    RoomJoinApply_def RoomJoinInvite_def RoomJoinRequestAccept_def joinRoomCommittedAfterValidation_def join_tx_def
    validatePublicRoomJoin_def loadInviteByTokenOrBadRequest_def remove_member_tx_def after_removal_def Let_def
  by (((rule typed_frame, rule core_basic) | rule keep typed_keep | (rule typed_frame, rule core_keep) | simp)+)

lemma typed_RoomNameUpdate [typed_keep]: "keeps typed_ok (RoomNameUpdate e user b)"
  unfolding RoomNameUpdate_def
  apply (rule keepsI)
  apply (rule wp_andThenI wp_GetUserI wp_parsedI wp_prodI | assumption)+
  apply (rule wp_keeps [OF typed_frame], rule core_keep, assumption)
   apply (rule wp_andThenI wp_orFailI wp_queryI wp_checkI | assumption)+
   apply (rule wp_keeps [where I = typed_ok])
      apply (((rule typed_write_room, simp add: room_typed_def)
        | (rule typed_frame, rule core_basic) | rule keep typed_keep | (rule typed_frame, rule core_keep) | assumption)+)
    apply (assumption | rule keeps_wp, (rule keep | (rule typed_frame, rule core_keep) | assumption)+)+
  done

lemma typed_RoomUserRemarkUpdate [typed_keep]: "keeps typed_ok (RoomUserRemarkUpdate e user b)"
  unfolding RoomUserRemarkUpdate_def
  apply (rule keepsI)
  apply (rule wp_andThenI wp_GetUserI wp_parsedI wp_prodI wp_checkI | assumption)+
  apply (rule wp_keeps [OF typed_frame], rule core_keep, assumption)
   apply (rule wp_andThenI, rule wp_keeps [where I = typed_ok], rule typed_keep, assumption)
    apply (rule wp_andThenI wp_orFailI wp_readingI wp_checkI | assumption)+
    apply (rule wp_keeps [where I = typed_ok])
       apply (auto simp: keeps_def UpdateRoomUserRemark_def write_user_def user_typed_def intro!: typed_upd_user
          simp del: core_upd_user typed.simps)[1]
      apply (assumption | rule keeps_wp, (rule keep | (rule typed_frame, rule core_keep) | assumption)+)+
  done

lemma typed_RoomUserRoleUpdate [typed_keep]: "keeps typed_ok (RoomUserRoleUpdate e user b)"
  unfolding RoomUserRoleUpdate_def
  apply (rule keepsI)
  apply (rule wp_andThenI wp_GetUserI wp_parsedI wp_prodI wp_checkI | assumption)+
  apply (rule wp_keeps [OF typed_frame], rule core_keep, assumption)
   apply (rule wp_andThenI wp_orFailI wp_queryI wp_checkI | assumption)+
   apply (rule wp_keeps [where I = typed_ok], rule typed_keep, assumption)
    apply (rule wp_andThenI wp_orFailI wp_queryI wp_checkI | assumption)+
    apply (rule wp_keeps [where I = typed_ok])
       apply (auto simp: keeps_def UpdateRoomUserRole_def write_user_def user_typed_def role_typed_def room_consts intro!: typed_upd_user
          simp del: core_upd_user typed.simps split: sum.splits)[1]
      apply (assumption | rule keeps_wp, (rule keep | (rule typed_frame, rule core_keep) | assumption)+)+
  done

lemma typed_join_config:
  assumes "jc_QuestionEnabled b = Some True \<longrightarrow> TrimSpace (jc_Question b) \<noteq> []" "jc_QuestionEnabled b = Some True \<longrightarrow> TrimSpace (jc_Answer b) \<noteq> []"
    "jc_QuestionEnabled b = Some True \<longrightarrow> RuneCount (TrimSpace (jc_Question b)) \<le> 256"
    "jc_QuestionEnabled b = Some True \<longrightarrow> RuneCount (TrimSpace (jc_Answer b)) \<le> 128"
  shows "keeps typed_ok (write_room e P (join_config b))"
  by (rule typed_write_room)
    (use assms in \<open>auto simp: room_typed_def join_config_def Let_def RuneCount_def split: option.splits bool.splits\<close>)

lemma typed_RoomJoinConfigUpdate [typed_keep]: "keeps typed_ok (RoomJoinConfigUpdate e user b)"
  unfolding RoomJoinConfigUpdate_def
  apply (rule keepsI)
  apply (rule wp_andThenI wp_GetUserI wp_parsedI wp_prodI wp_checkI | assumption)+
  apply (rule wp_keeps [OF typed_frame], rule core_keep, assumption)
   apply (rule wp_andThenI wp_orFailI wp_queryI wp_checkI wp_readingI | assumption)+
   apply (rule wp_keeps [OF typed_join_config], assumption+)
    apply (assumption | rule keeps_wp, (rule keep | (rule typed_frame, rule core_keep) | assumption)+)+
  done

lemma wp_collect_roles:
  assumes "distinct found" and "list_all role_typed found"
    and "\<And>rs. distinct rs \<Longrightarrow> list_all role_typed rs \<Longrightarrow> Q rs s" and "E s"
  shows "wp (collect_roles found roles) Q E s"
  using assms(1,2)
proof (induction roles arbitrary: found)
  case Nil
  then show ?case using assms(3) by (simp add: wp_def succeed_def)
next
  case (Cons r roles)
  then show ?case using assms(4) by (simp add: role_typed_def)
qed

lemma typed_RoomMuteConfigUpdate [typed_keep]: "keeps typed_ok (RoomMuteConfigUpdate e cols pr user b)"
  unfolding RoomMuteConfigUpdate_def Let_def
  apply (rule keepsI)
  apply (rule wp_andThenI wp_GetUserI wp_parsedI wp_prodI wp_checkI | assumption)+
  apply (rule wp_keeps [OF typed_frame], rule core_keep, assumption)
   apply (rule wp_andThenI wp_orFailI wp_queryI wp_checkI wp_readingI | assumption)+
   apply (rule wp_collect_roles)
      apply simp
     apply simp
    apply (rule wp_andThenI, rule wp_keeps [where I = typed_ok], rule typed_keep, assumption)
     apply (rule wp_andThenI wp_orFailI wp_checkI | assumption)+
     apply (rule wp_keeps [OF typed_mute_rule])
           apply simp
          apply simp
         apply simp
        apply simp
       apply assumption
  apply (assumption | rule keeps_wp, (rule keep | (rule typed_frame, rule core_keep) | assumption)+)+
  done

lemma wp_typed_room_row:
  assumes "typed_ok s" and "name \<noteq> []" and "RuneCount name \<le> 36" and "RuneCount de \<le> 255"
    and Q: "\<And>r s1. typed_ok s1 \<Longrightarrow> Q r s1"
  shows "wp (create_room_row e name de av pw uid) Q typed_ok s"
  using assms(1-4)
  by (auto simp: wp_def create_room_row_def andThen_def new_xid_def Let_def typed_ok room_typed_def RuneCount_def
      simp del: typed.simps intro!: Q)

lemma typed_create_rows [typed_keep]:
  "keeps typed_ok (create_mute_config e rid)" "keeps typed_ok (create_room_user e rid v RoomUserRoleOwner n)"
  by (simp_all add: keeps_def create_mute_config_def create_room_user_def typed_new_user typed_ok mute_typed_def
      user_typed_def fresh_room_user_def role_typed_def RuneCount_def del: typed.simps)

lemma typed_create_tx: "keeps typed_ok (create_room_tx e rid u q)"
  unfolding create_room_tx_def
  by (((rule typed_frame, rule core_basic) | rule keep typed_keep | (rule typed_frame, rule core_keep) | assumption)+)

lemma typed_RoomCreate [typed_keep]: "keeps typed_ok (RoomCreate e user b)"
  unfolding RoomCreate_def Let_def
  apply (rule keepsI)
  apply (rule wp_hash wp_rules wp_typed_room_row | assumption)+
   apply (rule wp_keeps [OF typed_frame], rule core_keep, assumption)
    apply (rule keeps_wp, (rule keep typed_create_tx typed_keep | (rule typed_frame, rule core_basic) | (rule typed_frame, rule core_keep) | assumption)+)+
  done

section \<open>Every request\<close>

lemma typed_exec1: "typed_ok s \<Longrightarrow> typed_ok (room_exec1 co e u q s)"
  by (cases q) (simp_all only: room_exec1.simps, (rule keepsD [where I = typed_ok], rule typed_keep, assumption)+)

lemma typed_exec: "typed_ok s \<Longrightarrow> typed_ok (room_exec co reqs s)"
proof (induction reqs arbitrary: s)
  case (Cons r reqs)
  then show ?case by (cases r) (simp add: room_exec_def typed_exec1)
qed (simp add: room_exec_def)

text \<open>
  C37. Whatever room requests are made and whatever fails: states are active or dissolved,
  types are the four of the enumeration, every room admits chats of people who are not friends,
  names of group rooms are not empty and all are at most 36 characters, counts are not negative, a room that asks
  has a question and an answer within their lengths, roles are the three of the enumeration,
  and mute settings never have the mute of all and a strategy on together, list each role
  once, and have a time window that is not turned round.
\<close>

theorem columns_well_typed:
  assumes "rooms s = []" and "room_users s = []" and "mute_configs s = []"
  shows "let s' = room_exec co reqs s in
    (\<forall>r \<in> set (rooms s'). room_typed r) \<and> (\<forall>u \<in> set (room_users s'). user_typed u) \<and> (\<forall>c \<in> set (mute_configs s'). mute_typed c)"
proof -
  have "typed_ok s" using assms by (simp add: core_def)
  from typed_exec [OF this, of co reqs] show ?thesis by (simp add: Let_def typed_ok list_all_iff del: typed.simps)
qed

definition demo_mute_all :: "admin_env \<times> http_user option \<times> room_request" where
  "demo_mute_all = (demo_admin_env 3000, demo_person ''o'', ReqMuteAll (Some (''x'', True, ''why'')))"

theorem columns_well_typed_witness:
  "map (\<lambda>c. (mc_IsMuteAll c, mc_Version c)) (mute_configs (room_exec demo_codecs [demo_create, demo_mute_all] demo_empty)) = [(True, 2)] \<and>
   list_all mute_typed (mute_configs (room_exec demo_codecs [demo_create, demo_mute_all] demo_empty))"
proof
  show "map (\<lambda>c. (mc_IsMuteAll c, mc_Version c)) (mute_configs (room_exec demo_codecs [demo_create, demo_mute_all] demo_empty)) = [(True, 2)]"
    by code_simp
  show "list_all mute_typed (mute_configs (room_exec demo_codecs [demo_create, demo_mute_all] demo_empty))"
    using columns_well_typed [of demo_empty demo_codecs "[demo_create, demo_mute_all]"]
    by (simp add: Let_def demo_empty_def list_all_iff)
qed

end
