(* ===== verification/RoomTroubles.thy ===== *)
theory RoomTroubles
  imports RoomColumns
begin

text \<open>
  Sequences of room requests that go wrong, each evaluated from the empty store or from a
  room with one waiting request: what the properties of the other theories have to exclude,
  and what a failing call leaves behind.
\<close>

text \<open>A calm environment in which one call fails.\<close>

definition demo_broken :: "room_call \<Rightarrow> time \<Rightarrow> admin_env" where
  "demo_broken c now = (demo_admin_env now)\<lparr>ae_room := (calm_room_env now)\<lparr>re_fails := (\<lambda>d. d = c)\<rparr>\<rparr>"

text \<open>The owner takes his own role away.\<close>

theorem owner_steps_down_for_good:
  "let s = room_exec demo_codecs [demo_create, (demo_admin_env 2000, demo_person ''o'', ReqRoleUpdate (Some (''x'', ''o'', 0)))] demo_empty
   in owners_of ''x'' (room_users s) = [] \<and> mem_of ''x'' (room_users s) = [''o''] \<and>
      fst (RoomDissolve (demo_admin_env 3000) (demo_person ''o'') (Some ''x'') s) = Inl (BadRequest ''owner only'') \<and>
      fst (RoomUserRoleUpdate (demo_admin_env 3000) (demo_person ''o'') (Some (''x'', ''o'', 2)) s) = Inl (BadRequest ''bad role'')"
  by code_simp

text \<open>A member joins again while Redis is down.\<close>

definition demo_open_room :: "admin_env \<times> http_user option \<times> room_request" where
  "demo_open_room = (demo_admin_env 2000, demo_person ''o'', ReqJoinConfig (Some \<lparr>jc_Rid = ''x'', jc_ApprovalRequired = Some False,
     jc_QuestionEnabled = None, jc_Question = [], jc_Answer = [], jc_AutoApprove = None\<rparr>))"

theorem owner_joins_again:
  "let s = room_exec demo_codecs [demo_create, demo_open_room,
      (demo_broken CacheGet 3000, demo_person ''o'', ReqJoin (Some (Some ''x'', None)))] demo_empty
   in mem_of ''x'' (room_users s) = [''o''] \<and> map r_MemberCount (rooms s) = [2] \<and> owners_of ''x'' (room_users s) = []"
  by code_simp

text \<open>The acceptance is committed before the join that fails.\<close>

theorem accepted_but_outside:
  "let j = jr_RjrId (hd (join_requests demo_applied));
       s = room_exec demo_codecs [(demo_broken InsertContent 3000, demo_person ''o'', ReqAccept (Some j))] demo_applied
   in map jr_State (join_requests s) = [2] \<and> mem_of ''x'' (room_users s) = [''o''] \<and>
      fst (RoomJoinRequestAccept (demo_admin_env 4000) (demo_person ''o'') (Some j) s) = Inl (BadRequest ''already handled'')"
  by code_simp

text \<open>The room is looked up without the blanks around its name, the request is stored with them.\<close>

theorem padded_request_is_stuck:
  "let s = room_exec demo_codecs [demo_create, (demo_admin_env 2000, demo_person ''a'', ReqJoinApply (Some
       \<lparr>ja_Rid = '' x'', ja_Password = [], ja_Token = [], ja_Message = ''hi'', ja_Answer = []\<rparr>))] demo_empty
   in map jr_State (join_requests s) = [0] \<and>
      fst (RoomJoinRequestAccept (demo_admin_env 3000) (demo_person ''o'') (Some (jr_RjrId (hd (join_requests s)))) s)
        = Inl (BadRequest ''admins only'')"
  by code_simp

text \<open>A pin whose message cannot be read for a moment is deleted.\<close>

theorem unreadable_pin_is_lost:
  "let s = demo_applied\<lparr>pinned_messages := [\<lparr>pm_Rid = ''x'', pm_Mid = rm_Mid (hd (messages (chat_db demo_applied))), pm_SeqId = 1,
       pm_OperatorUid = ''o'', pm_CreateTime = 1, pm_DeleteTime = 0\<rparr>]\<rparr>
   in pinned_messages (snd (RoomPinnedMessageGet (demo_admin_env 3000) (demo_person ''o'') ''x'' s)) = pinned_messages s \<and>
      pinned_messages (snd (RoomPinnedMessageGet (demo_broken FindMessage 3000) (demo_person ''o'') ''x'' s)) = []"
  by code_simp
text \<open>A room whose creation failed is listed.\<close>

theorem failed_creation_leaves_a_room:
  "let s = room_exec demo_codecs [(demo_broken InsertMessage 1000, demo_person ''o'', ReqCreate (Some (''name'', [], [], [])))] demo_empty
   in map r_Rid (rooms s) = [''x''] \<and> room_users s = [] \<and>
      map (r_Rid \<circ> fst) (case fst (RoomList (demo_admin_env 2000) (demo_person ''a'') [] None None s) of Inl _ \<Rightarrow> [] | Inr p \<Rightarrow> fst p) = [''x'']"
  by code_simp
end
