(* ===== verification/Friends.thy ===== *)
theory Friends
  imports RoomColumns
begin

text \<open>
  Friends (\<open>db/query/friend_request.go\<close>, \<open>friend_group.go\<close>, \<open>friend_remark.go\<close>,
  \<open>friend_chat.go\<close>): requests, groups, the relation itself, and the rooms of two in which
  friends, members of a common group room, or strangers talk. The handlers are in
  \<open>FriendDesk\<close>. A relation is a pair of rows, one for each side; a row is live while its
  \<open>friend_delete_time\<close> is zero.
\<close>

section \<open>Rows\<close>

record friend_request =
  fq_FrId :: string
  fq_ReceiverUid :: uid
  fq_SenderUid :: uid
  fq_Gid :: string
  fq_Remark :: string
  fq_Message :: string
  fq_State :: int
  fq_ExpiresAt :: time
  fq_ProcessedAt :: time
  fq_CreateTime :: time
  fq_DeleteTime :: time

record friend_group =
  fg_Uid :: uid
  fg_Gid :: string
  fg_Name :: string
  fg_IsDefault :: bool
  fg_Sort :: int
  fg_CreateTime :: time
  fg_DeleteTime :: time

text \<open>Users who let strangers write to them, and the log of chats opened by strangers.\<close>

record friend_store = admin_store +
  friend_requests :: "friend_request list"
  friend_groups :: "friend_group list"
  allow_strangers :: "uid \<Rightarrow> bool"
  stranger_chats :: "(rid \<times> uid \<times> uid) list"

datatype friend_call = FindFriendRequest | WriteFriendRequest | FindFriendGroup | FindFriendRow | WriteFriendRow | WriteChatLog

record friend_env =
  fd_admin :: admin_env
  fd_fails :: "friend_call \<Rightarrow> bool"

abbreviation fd_room :: "friend_env \<Rightarrow> room_env" where "fd_room e \<equiv> ae_room (fd_admin e)"
abbreviation fd_now :: "friend_env \<Rightarrow> time" where "fd_now e \<equiv> ae_now (fd_admin e)"

datatype friend_error = FriendStoreError | NotFriend | ChatNotAllowed | InvalidChat

definition NotificationTypeFriendNotification :: int where "NotificationTypeFriendNotification = 10"
definition NotificationTypeFriendAddRequest :: int where "NotificationTypeFriendAddRequest = 11"
definition NotificationFriendStateAccepted :: int where "NotificationFriendStateAccepted = 11"
definition NotificationFriendStateRejected :: int where "NotificationFriendStateRejected = 12"

section \<open>Requests\<close>

definition GetFriendRequestBySenderAndReceiver ::
  "friend_env \<Rightarrow> uid \<Rightarrow> uid \<Rightarrow> 'a friend_store_scheme \<Rightarrow> friend_error + friend_request option" where
  "GetFriendRequestBySenderAndReceiver e senderUid receiverUid s =
     (if fd_fails e FindFriendRequest then Inl FriendStoreError
      else Inr (case sort_key (\<lambda>q. - fq_CreateTime q)
          (filter (\<lambda>q. fq_SenderUid q = senderUid \<and> fq_ReceiverUid q = receiverUid \<and> fq_DeleteTime q = 0) (friend_requests s)) of
        [] \<Rightarrow> None | q # _ \<Rightarrow> Some q))"

definition GetFriendRequestList ::
  "friend_env \<Rightarrow> uid \<Rightarrow> bool \<Rightarrow> 'a friend_store_scheme \<Rightarrow> friend_error + friend_request list" where
  "GetFriendRequestList e uid asReceiver s =
     (if fd_fails e FindFriendRequest then Inl FriendStoreError
      else Inr (sort_key (\<lambda>q. - fq_CreateTime q)
        (filter (\<lambda>q. fq_DeleteTime q = 0 \<and> (if asReceiver then fq_ReceiverUid q = uid else fq_SenderUid q = uid))
          (friend_requests s))))"

definition GetFriendRequestByFrId ::
  "friend_env \<Rightarrow> string \<Rightarrow> 'a friend_store_scheme \<Rightarrow> friend_error + friend_request option" where
  "GetFriendRequestByFrId e frId s =
     (if fd_fails e FindFriendRequest then Inl FriendStoreError
      else Inr (find (\<lambda>q. fq_FrId q = frId \<and> fq_DeleteTime q = 0) (friend_requests s)))"

text \<open>Seven days, as \<open>AddDate(0, 0, 7)\<close> gives them in a zone without clock changes.\<close>

definition friend_request_ttl :: time where "friend_request_ttl = 7 * 24 * 3600 * 1000"

text \<open>The unique index on receiver and sender covers deleted rows.\<close>

definition CreateOrUpdateFriendRequest ::
  "friend_env \<Rightarrow> uid \<Rightarrow> uid \<Rightarrow> string \<Rightarrow> string \<Rightarrow> string \<Rightarrow> time
   \<Rightarrow> ('a friend_store_scheme, friend_error, friend_request) act" where
  "CreateOrUpdateFriendRequest e senderUid receiverUid gid remark message expiresAt =
     andThen (query (GetFriendRequestBySenderAndReceiver e senderUid receiverUid)) (\<lambda>existing.
       case existing of
         Some q \<Rightarrow> (\<lambda>s.
           let q' = q\<lparr>fq_State := 0, fq_Message := message, fq_Remark := remark, fq_Gid := gid,
                      fq_ExpiresAt := expiresAt, fq_ProcessedAt := 0\<rparr> in
           if fd_fails e WriteFriendRequest then (Inl FriendStoreError, s)
           else (Inr q', s\<lparr>friend_requests := map (\<lambda>v. if fq_FrId v = fq_FrId q then q' else v) (friend_requests s)\<rparr>))
       | None \<Rightarrow> andThen (new_xid (fd_admin e)) (\<lambda>frId s.
           let q = \<lparr>fq_FrId = frId, fq_ReceiverUid = receiverUid, fq_SenderUid = senderUid, fq_Gid = gid,
                    fq_Remark = remark, fq_Message = message, fq_State = 0,
                    fq_ExpiresAt = (if expiresAt = 0 then fd_now e + friend_request_ttl else expiresAt),
                    fq_ProcessedAt = 0, fq_CreateTime = fd_now e, fq_DeleteTime = 0\<rparr> in
           if fd_fails e WriteFriendRequest \<or> frId \<in> fq_FrId ` set (friend_requests s) \<or>
              (\<exists>v \<in> set (friend_requests s). fq_SenderUid v = senderUid \<and> fq_ReceiverUid v = receiverUid)
           then (Inl FriendStoreError, s)
           else (Inr q, s\<lparr>friend_requests := friend_requests s @ [q]\<rparr>)))"

definition UpdateFriendRequestStateWithTx ::
  "friend_env \<Rightarrow> string \<Rightarrow> int \<Rightarrow> ('a friend_store_scheme, friend_error, unit) act" where
  "UpdateFriendRequestStateWithTx e frId state s =
     (if fd_fails e WriteFriendRequest then (Inl FriendStoreError, s)
      else (Inr (), s\<lparr>friend_requests := map (\<lambda>q. if fq_FrId q = frId
        then q\<lparr>fq_State := state, fq_ProcessedAt := fd_now e\<rparr> else q) (friend_requests s)\<rparr>))"

section \<open>Groups\<close>

definition GetDefaultFriendGroup ::
  "friend_env \<Rightarrow> uid \<Rightarrow> 'a friend_store_scheme \<Rightarrow> friend_error + friend_group option" where
  "GetDefaultFriendGroup e uid s =
     (if fd_fails e FindFriendGroup then Inl FriendStoreError
      else Inr (find (\<lambda>g. fg_Uid g = uid \<and> fg_IsDefault g \<and> fg_DeleteTime g = 0) (friend_groups s)))"

definition GetFriendGroupByGid ::
  "friend_env \<Rightarrow> uid \<Rightarrow> string \<Rightarrow> 'a friend_store_scheme \<Rightarrow> friend_error + friend_group option" where
  "GetFriendGroupByGid e uid gid s =
     (if fd_fails e FindFriendGroup then Inl FriendStoreError
      else Inr (find (\<lambda>g. fg_Uid g = uid \<and> fg_Gid g = gid \<and> fg_DeleteTime g = 0) (friend_groups s)))"

text \<open>The groups with the friends in each; profiles and states of the friends are left out.\<close>

definition GetFriendGroupList ::
  "friend_env \<Rightarrow> uid \<Rightarrow> 'a friend_store_scheme \<Rightarrow> friend_error + (friend_group \<times> uid list) list" where
  "GetFriendGroupList e uid s =
     (if fd_fails e FindFriendGroup then Inl FriendStoreError
      else
        let mine = filter (\<lambda>g. fg_Uid g = uid \<and> fg_DeleteTime g = 0) (friend_groups s);
            sorted = sort_key (\<lambda>g. \<not> fg_IsDefault g) (sort_key fg_Sort (sort_key fg_CreateTime mine))
        in Inr (map (\<lambda>g. (g, map fr_FriendUid (filter (\<lambda>f. fr_Uid f = fg_Uid g \<and> fr_Gid f = fg_Gid g \<and>
             fr_DeleteTime f = 0 \<and> fr_FriendUid f \<in> dom (profiles s)) (user_friends s)))) sorted))"

section \<open>The relation\<close>

definition live_friend :: "uid \<Rightarrow> uid \<Rightarrow> user_friend \<Rightarrow> bool" where
  "live_friend uid friendUid f \<longleftrightarrow> fr_Uid f = uid \<and> fr_FriendUid f = friendUid \<and> fr_DeleteTime f = 0"

definition friend_row :: "uid \<Rightarrow> uid \<Rightarrow> string \<Rightarrow> string \<Rightarrow> user_friend" where
  "friend_row uid friendUid gid remark =
     \<lparr>fr_Uid = uid, fr_FriendUid = friendUid, fr_Gid = gid, fr_Remark = remark, fr_DeleteTime = 0\<rparr>"

definition friend_pair :: "user_friend \<Rightarrow> uid \<times> uid" where "friend_pair f = (fr_Uid f, fr_FriendUid f)"

text \<open>One statement inserts all rows or none; the unique index covers deleted rows.\<close>

definition create_friends :: "friend_env \<Rightarrow> user_friend list \<Rightarrow> ('a friend_store_scheme, friend_error, unit) act" where
  "create_friends e new s =
     (if fd_fails e WriteFriendRow \<or> \<not> distinct (map friend_pair new) \<or>
         set (map friend_pair new) \<inter> set (map friend_pair (user_friends s)) \<noteq> {}
      then (Inl FriendStoreError, s)
      else (Inr (), s\<lparr>user_friends := user_friends s @ new\<rparr>))"

definition update_friends ::
  "friend_env \<Rightarrow> (user_friend \<Rightarrow> bool) \<Rightarrow> (user_friend \<Rightarrow> user_friend) \<Rightarrow> ('a friend_store_scheme, friend_error, unit) act" where
  "update_friends e P f s =
     (if fd_fails e WriteFriendRow then (Inl FriendStoreError, s)
      else (Inr (), s\<lparr>user_friends := map (\<lambda>v. if P v then f v else v) (user_friends s)\<rparr>))"

text \<open>The group the receiver chose must be his; the sender's row goes into his default group.\<close>

definition relation_group ::
  "friend_env \<Rightarrow> uid \<Rightarrow> uid \<Rightarrow> string \<Rightarrow> ('a friend_store_scheme, friend_error, friend_group) act" where
  "relation_group e receiverUid senderUid receiverGid =
     andThen (if receiverGid = [] then succeed ()
              else andThen (query (GetFriendGroupByGid e receiverUid receiverGid)) (\<lambda>g. check (g \<noteq> None) FriendStoreError)) (\<lambda>_.
     andThen (query (GetDefaultFriendGroup e senderUid)) (\<lambda>g.
       case g of None \<Rightarrow> refuse FriendStoreError | Some d \<Rightarrow> succeed d))"

definition CreateFriendRelationWithTx ::
  "friend_env \<Rightarrow> uid \<Rightarrow> uid \<Rightarrow> string \<Rightarrow> string \<Rightarrow> ('a friend_store_scheme, friend_error, unit) act" where
  "CreateFriendRelationWithTx e receiverUid senderUid receiverGid senderRemark =
     andThen (relation_group e receiverUid senderUid receiverGid) (\<lambda>senderGroup.
     andThen (reading (\<lambda>s. \<not> fd_fails e FindFriendRow \<and> (\<exists>f \<in> set (user_friends s). live_friend receiverUid senderUid f))) (\<lambda>existing.
       if existing then succeed ()
       else create_friends e [friend_row receiverUid senderUid receiverGid senderRemark,
                              friend_row senderUid receiverUid (fg_Gid senderGroup) []]))"

text \<open>One side: the row there is, brought back, or a new one. A failed look-up counts as no row.\<close>

definition restore_side ::
  "friend_env \<Rightarrow> uid \<Rightarrow> uid \<Rightarrow> string \<Rightarrow> string \<Rightarrow> ('a friend_store_scheme, friend_error, unit) act" where
  "restore_side e uid friendUid gid remark =
     andThen (reading (\<lambda>s. \<not> fd_fails e FindFriendRow \<and> (uid, friendUid) \<in> friend_pair ` set (user_friends s))) (\<lambda>found.
       if found then update_friends e (\<lambda>f. friend_pair f = (uid, friendUid))
         (\<lambda>f. f\<lparr>fr_DeleteTime := 0, fr_Gid := gid, fr_Remark := remark\<rparr>)
       else create_friends e [friend_row uid friendUid gid remark])"

definition RestoreFriendRelationWithTx ::
  "friend_env \<Rightarrow> uid \<Rightarrow> uid \<Rightarrow> string \<Rightarrow> string \<Rightarrow> ('a friend_store_scheme, friend_error, unit) act" where
  "RestoreFriendRelationWithTx e receiverUid senderUid receiverGid receiverRemark =
     andThen (relation_group e receiverUid senderUid receiverGid) (\<lambda>senderGroup.
     andThen (restore_side e receiverUid senderUid receiverGid receiverRemark) (\<lambda>_.
       restore_side e senderUid receiverUid (fg_Gid senderGroup) []))"

definition ensureFriendRelation :: "friend_env \<Rightarrow> uid \<Rightarrow> uid \<Rightarrow> 'a friend_store_scheme \<Rightarrow> friend_error + unit" where
  "ensureFriendRelation e uid friendUid s =
     (if fd_fails e FindFriendRow then Inl FriendStoreError
      else if \<exists>f \<in> set (user_friends s). live_friend uid friendUid f then Inr () else Inl NotFriend)"

text \<open>\<open>DeleteFriend\<close> of \<open>friend_chat.go\<close>: the rows that were updated are counted.\<close>

definition DeleteFriendWithTx :: "friend_env \<Rightarrow> uid \<Rightarrow> uid \<Rightarrow> ('a friend_store_scheme, friend_error, unit) act" where
  "DeleteFriendWithTx e uid friendUid =
     andThen (reading (\<lambda>s. \<exists>f \<in> set (user_friends s). live_friend uid friendUid f)) (\<lambda>some.
     andThen (update_friends e (live_friend uid friendUid) (\<lambda>f. f\<lparr>fr_DeleteTime := fd_now e\<rparr>)) (\<lambda>_.
       check some NotFriend))"

definition GetFriendRemarkBatch ::
  "friend_env \<Rightarrow> uid \<Rightarrow> uid list \<Rightarrow> 'a friend_store_scheme \<Rightarrow> friend_error + (uid \<rightharpoonup> string)" where
  "GetFriendRemarkBatch e uid friendUids s =
     (if uid = [] \<or> friendUids = [] then Inr Map.empty
      else if fd_fails e FindFriendRow then Inl FriendStoreError
      else Inr (map_of (map (\<lambda>f. (fr_FriendUid f, fr_Remark f)) (rev (filter
        (\<lambda>f. fr_Uid f = uid \<and> fr_FriendUid f \<in> set friendUids \<and> fr_DeleteTime f = 0) (user_friends s))))))"

definition UpdateFriendRemark ::
  "friend_env \<Rightarrow> uid \<Rightarrow> uid \<Rightarrow> string \<Rightarrow> ('a friend_store_scheme, friend_error, unit) act" where
  "UpdateFriendRemark e uid friendUid remark =
     andThen (check (uid \<noteq> [] \<and> friendUid \<noteq> []) InvalidChat) (\<lambda>_.
     andThen (reading (\<lambda>s. \<exists>f \<in> set (user_friends s). live_friend uid friendUid f)) (\<lambda>some.
     andThen (update_friends e (live_friend uid friendUid) (\<lambda>f. f\<lparr>fr_Remark := remark\<rparr>)) (\<lambda>_.
       check some NotFriend)))"

section \<open>Rooms of two\<close>

text \<open>The database library writes the default of a column when the program leaves it at the
  zero value: \<open>false\<close> is stored as \<open>true\<close> where the column has \<open>default:true\<close>.\<close>

definition or_default :: "bool \<Rightarrow> bool \<Rightarrow> bool" where "or_default d v = (if v then v else d)"

definition private_room :: "uid \<Rightarrow> int \<Rightarrow> nat \<Rightarrow> bool \<Rightarrow> rid \<Rightarrow> string \<Rightarrow> int \<Rightarrow> time \<Rightarrow> rid \<Rightarrow> room" where
  "private_room createUid type members allowNonFriendChat fromRid name i now rid =
     \<lparr>r_Id = i, r_Rid = rid, r_Name = name, r_Description = [], r_CreateUid = createUid, r_State = RoomStateActive,
      r_Type = type, r_MemberCount = int members, r_Password = [],
      r_AllowNonFriendChat = or_default True allowNonFriendChat, r_FromRoomRid = fromRid, r_AvatarUfId = [],
      r_CategoryId = [], r_JoinApprovalRequired = or_default True False, r_JoinQuestionEnabled = False,
      r_JoinQuestion = [], r_JoinQuestionAutoApprove = False, r_JoinQuestionAnswer = [], r_CreateTime = now,
      r_DeleteTime = 0\<rparr>"

definition create_private_row ::
  "admin_env \<Rightarrow> (int \<Rightarrow> time \<Rightarrow> rid \<Rightarrow> room) \<Rightarrow> ('a admin_store_scheme, room_error, room) act" where
  "create_private_row e mk =
     andThen (new_xid e) (\<lambda>rid s.
       let r = mk (int (length (rooms s)) + 1) (ae_now e) rid
       in if ae_fails e CreateRoomRow \<or> rid \<in> r_Rid ` set (rooms s) then (Inl RoomStoreError, s)
          else (Inr r, s\<lparr>rooms := rooms s @ [r]\<rparr>))"

definition create_room_users :: "admin_env \<Rightarrow> rid \<Rightarrow> uid list \<Rightarrow> ('a admin_store_scheme, room_error, unit) act" where
  "create_room_users e rid uids s =
     (if re_fails (ae_room e) WriteRoomUser \<or> \<not> distinct uids \<or>
         (\<exists>u \<in> set (room_users s). ru_Rid u = rid \<and> ru_Uid u \<in> set uids)
      then (Inl RoomStoreError, s)
      else (Inr (), s\<lparr>room_users := room_users s @
        map (\<lambda>uid. fresh_room_user rid uid RoomUserRoleNormal [] (ae_now e)) uids\<rparr>))"

definition createRoomWithMuteAndUsers ::
  "admin_env \<Rightarrow> (int \<Rightarrow> time \<Rightarrow> rid \<Rightarrow> room) \<Rightarrow> uid list \<Rightarrow> ('a admin_store_scheme, room_error, room) act" where
  "createRoomWithMuteAndUsers e mk uids =
     andThen (create_private_row e mk) (\<lambda>room.
     andThen (create_mute_config e (r_Rid room)) (\<lambda>_.
     andThen (create_room_users e (r_Rid room) uids) (\<lambda>_.
       succeed room)))"

definition createPrivateRoomWithConfig ::
  "admin_env \<Rightarrow> uid list \<Rightarrow> bool \<Rightarrow> ('a admin_store_scheme, room_error, room) act" where
  "createPrivateRoomWithConfig e uids allowNonFriendChat =
     andThen (check (length uids = 2) RoomStoreError) (\<lambda>_.
       createRoomWithMuteAndUsers e (private_room ''system'' RoomTypePrivate (length uids) allowNonFriendChat [] []) uids)"

definition createGroupPrivateRoomWithConfig ::
  "admin_env \<Rightarrow> uid list \<Rightarrow> rid \<Rightarrow> ('a admin_store_scheme, room_error, room) act" where
  "createGroupPrivateRoomWithConfig e uids fromRid =
     andThen (check (length uids = 2) RoomStoreError) (\<lambda>_.
     andThen (check (fromRid \<noteq> []) RoomStoreError) (\<lambda>_.
       createRoomWithMuteAndUsers e (private_room ''system'' RoomTypeGroupPrivate (length uids) True fromRid []) uids))"

definition FindPrivateRoomBetweenUsers :: "room_env \<Rightarrow> uid \<Rightarrow> uid \<Rightarrow> 'a room_store_scheme \<Rightarrow> room_error + room option" where
  "FindPrivateRoomBetweenUsers e uid friendUid s =
     (if re_fails e FindRoom then Inl RoomStoreError
      else Inr (find (\<lambda>r. is_member (r_Rid r) uid s \<and> is_member (r_Rid r) friendUid s \<and> r_Type r = RoomTypePrivate \<and>
        r_MemberCount r = 2 \<and> r_CreateUid r = ''system'' \<and> r_State r = 1 \<and> r_DeleteTime r = 0) (rooms s)))"

definition FindGroupPrivateRoomBetweenUsers ::
  "room_env \<Rightarrow> uid \<Rightarrow> uid \<Rightarrow> rid \<Rightarrow> 'a room_store_scheme \<Rightarrow> room_error + room option" where
  "FindGroupPrivateRoomBetweenUsers e uid targetUid fromRid s =
     (if fromRid = [] then Inr None
      else if re_fails e FindRoom then Inl RoomStoreError
      else Inr (find (\<lambda>r. is_member (r_Rid r) uid s \<and> is_member (r_Rid r) targetUid s \<and> r_Type r = RoomTypeGroupPrivate \<and>
        r_FromRoomRid r = fromRid \<and> r_MemberCount r = 2 \<and> r_State r = 1 \<and> r_DeleteTime r = 0) (rooms s)))"

definition FindSelfChatRoom :: "room_env \<Rightarrow> uid \<Rightarrow> 'a room_store_scheme \<Rightarrow> room_error + room option" where
  "FindSelfChatRoom e uid s =
     (if re_fails e FindRoom then Inl RoomStoreError
      else Inr (find (\<lambda>r. is_member (r_Rid r) uid s \<and> r_Type r = RoomTypeSelfChat \<and> r_CreateUid r = uid \<and>
        r_MemberCount r = 1 \<and> r_DeleteTime r = 0 \<and> r_State r = 1) (rooms s)))"

definition to_private :: "room \<Rightarrow> room" where "to_private r = r\<lparr>r_Type := RoomTypePrivate, r_FromRoomRid := []\<rparr>"

text \<open>\<open>Inr None\<close>: the room is not one of these two alone, and is left as it is.\<close>

definition TryUpgradeGroupPrivateRoomToPrivateTx ::
  "admin_env \<Rightarrow> rid \<Rightarrow> uid \<Rightarrow> uid \<Rightarrow> ('a admin_store_scheme, room_error, room option) act" where
  "TryUpgradeGroupPrivateRoomToPrivateTx e rid uid1 uid2 s =
     (if rid = [] \<or> uid1 = [] \<or> uid2 = [] \<or> uid1 = uid2 then (Inr None, s)
      else if re_fails (ae_room e) FindRoom then (Inl RoomStoreError, s)
      else case find (\<lambda>r. r_Rid r = rid \<and> r_DeleteTime r = 0 \<and> r_State r = 1) (rooms s) of
        None \<Rightarrow> (Inr None, s)
      | Some room \<Rightarrow>
          if r_Type room \<noteq> RoomTypeGroupPrivate \<or> r_MemberCount room \<noteq> 2 then (Inr None, s)
          else if re_fails (ae_room e) ListRoomUsers then (Inl RoomStoreError, s)
          else if member_uids rid s \<noteq> [uid1, uid2] \<and> member_uids rid s \<noteq> [uid2, uid1] then (Inr None, s)
          else if re_fails (ae_room e) WriteRoom then (Inl RoomStoreError, s)
          else (Inr (Some (to_private room)), upd_room (\<lambda>r. r_Rid r = rid) to_private s))"

text \<open>This one runs outside of any transaction; its only caller looks at no error.\<close>

definition UpgradeGroupPrivateToPrivate :: "admin_env \<Rightarrow> uid \<Rightarrow> uid \<Rightarrow> 'a admin_store_scheme \<Rightarrow> 'a admin_store_scheme" where
  "UpgradeGroupPrivateToPrivate e uid friendUid s =
     (if re_fails (ae_room e) FindRoom \<or> re_fails (ae_room e) WriteRoom then s
      else let rids = map r_Rid (filter (\<lambda>r. is_member (r_Rid r) uid s \<and> is_member (r_Rid r) friendUid s \<and>
                  r_Type r = RoomTypeGroupPrivate \<and> r_MemberCount r = 2) (rooms s))
           in upd_room (\<lambda>r. r_Rid r \<in> set rids) to_private s)"

section \<open>Opening a chat\<close>

text \<open>
  The session of one user in a room: his other sessions are unpinned, a live session is made
  active, and one is created where there is none. Next to a deleted session the unique index
  refuses the new one.
\<close>

definition open_session_tx :: "admin_env \<Rightarrow> uid \<Rightarrow> rid \<Rightarrow> ('a admin_store_scheme, room_error, unit) act" where
  "open_session_tx e uid rid =
     andThen (write_session (ae_room e) (\<lambda>u. us_Uid u = uid \<and> us_DeleteTime u = 0) (\<lambda>u. u\<lparr>us_IsTop := False\<rparr>)) (\<lambda>_.
     andThen (check (\<not> re_fails (ae_room e) FindSession) RoomStoreError) (\<lambda>_.
     andThen (reading (\<lambda>s. find (\<lambda>u. us_Uid u = uid \<and> us_Rid u = rid \<and> us_DeleteTime u = 0) (user_sessions s))) (\<lambda>found.
       case found of
         None \<Rightarrow> create_session e uid rid 0
       | Some v \<Rightarrow> write_session (ae_room e) (\<lambda>u. us_Id u = us_Id v) (\<lambda>u. u\<lparr>us_State := 1, us_UpdateTime := ae_now e\<rparr>))))"

definition ensureSessionForUserInPrivateRoom ::
  "friend_env \<Rightarrow> uid \<Rightarrow> rid \<Rightarrow> ('a friend_store_scheme, friend_error, session_dto option) act" where
  "ensureSessionForUserInPrivateRoom e uid rid =
     andThen (transaction (fd_admin e) FriendStoreError (orFail (open_session_tx (fd_admin e) uid rid) FriendStoreError)) (\<lambda>_.
       orFail (GetUserRoomSessionDtoByRid (fd_room e) uid rid) FriendStoreError)"

definition EnsurePrivateChatSession ::
  "friend_env \<Rightarrow> uid \<Rightarrow> uid \<Rightarrow> ('a friend_store_scheme, friend_error, session_dto option) act" where
  "EnsurePrivateChatSession e uid friendUid =
     andThen (query (ensureFriendRelation e uid friendUid)) (\<lambda>_.
     andThen (transaction (fd_admin e) FriendStoreError (orFail (
        andThen (query (FindPrivateRoomBetweenUsers (fd_room e) uid friendUid)) (\<lambda>found.
        andThen (case found of Some r \<Rightarrow> succeed r
                 | None \<Rightarrow> createPrivateRoomWithConfig (fd_admin e) [uid, friendUid] False) (\<lambda>room.
        andThen (open_session_tx (fd_admin e) uid (r_Rid room)) (\<lambda>_.
          succeed room)))) FriendStoreError)) (\<lambda>room.
       orFail (GetUserRoomSessionDtoByRid (fd_room e) uid (r_Rid room)) FriendStoreError))"

definition room_or_new ::
  "friend_env \<Rightarrow> (('a friend_store_scheme) \<Rightarrow> room_error + room option) \<Rightarrow> ('a friend_store_scheme, room_error, room) act
   \<Rightarrow> ('a friend_store_scheme, friend_error, room) act" where
  "room_or_new e look mk =
     andThen (orFail (query look) FriendStoreError) (\<lambda>found.
       case found of Some r \<Rightarrow> succeed r
       | None \<Rightarrow> transaction (fd_admin e) FriendStoreError (orFail mk FriendStoreError))"

definition EnsureSelfChatSession ::
  "friend_env \<Rightarrow> uid \<Rightarrow> ('a friend_store_scheme, friend_error, session_dto option) act" where
  "EnsureSelfChatSession e uid =
     andThen (room_or_new e (FindSelfChatRoom (fd_room e) uid)
        (createRoomWithMuteAndUsers (fd_admin e) (private_room uid RoomTypeSelfChat 1 False [] ''my notes'') [uid])) (\<lambda>room.
       ensureSessionForUserInPrivateRoom e uid (r_Rid room))"

text \<open>Any error of the look-up, not only the missing row, leads to a private chat of the group.\<close>

definition OpenGroupPrivateChat ::
  "friend_env \<Rightarrow> uid \<Rightarrow> uid \<Rightarrow> rid \<Rightarrow> ('a friend_store_scheme, friend_error, session_dto option) act" where
  "OpenGroupPrivateChat e uid targetUid fromRid =
     andThen (check (uid \<noteq> [] \<and> targetUid \<noteq> [] \<and> fromRid \<noteq> [] \<and> uid \<noteq> targetUid) InvalidChat) (\<lambda>_.
     andThen (reading (ensureFriendRelation e uid targetUid)) (\<lambda>rel.
       case rel of
         Inr _ \<Rightarrow> EnsurePrivateChatSession e uid targetUid
       | Inl _ \<Rightarrow>
           andThen (room_or_new e (FindGroupPrivateRoomBetweenUsers (fd_room e) uid targetUid fromRid)
              (createGroupPrivateRoomWithConfig (fd_admin e) [uid, targetUid] fromRid)) (\<lambda>room.
             ensureSessionForUserInPrivateRoom e uid (r_Rid room))))"

text \<open>The session, and whether the chat is one of strangers.\<close>

definition OpenPrivateChat ::
  "friend_env \<Rightarrow> uid \<Rightarrow> uid \<Rightarrow> ('a friend_store_scheme, friend_error, session_dto option \<times> bool) act" where
  "OpenPrivateChat e uid targetUid =
     andThen (check (uid \<noteq> [] \<and> targetUid \<noteq> [] \<and> uid \<noteq> targetUid) InvalidChat) (\<lambda>_.
     andThen (reading (ensureFriendRelation e uid targetUid)) (\<lambda>rel.
       case rel of
         Inr _ \<Rightarrow> andThen (EnsurePrivateChatSession e uid targetUid) (\<lambda>session. succeed (session, False))
       | Inl err \<Rightarrow>
           andThen (check (err = NotFriend) err) (\<lambda>_.
           andThen (orFail (query (GetUserByUid (fd_admin e) targetUid)) ChatNotAllowed) (\<lambda>_.
           andThen (reading (\<lambda>s. allow_strangers s targetUid)) (\<lambda>allowed.
           andThen (check allowed ChatNotAllowed) (\<lambda>_.
           andThen (room_or_new e (FindPrivateRoomBetweenUsers (fd_room e) uid targetUid)
              (createPrivateRoomWithConfig (fd_admin e) [uid, targetUid] True)) (\<lambda>room.
           andThen (check (r_AllowNonFriendChat room) ChatNotAllowed) (\<lambda>_.
           andThen (ensureSessionForUserInPrivateRoom e uid (r_Rid room)) (\<lambda>session.
             succeed (session, True))))))))))"

end
