(* ===== verification/FriendDesk.thy ===== *)
theory FriendDesk
  imports Friends
begin

text \<open>
  The handlers of \<open>http/handler/user\<close> around friends: requests and their decision
  (\<open>friend_request.go\<close>), remarks (\<open>friend_remark.go\<close>), the groups (\<open>friend_group.go\<close>) and chats
  of two (\<open>chat.go\<close>). Every handler
  has its checks in the order of the code; accepting a request is one transaction, in the
  middle of which rooms are changed outside of it.
\<close>

section \<open>Notifications of a request\<close>

definition GetMessageNotificationByRelatedIdAndType ::
  "admin_env \<Rightarrow> uid \<Rightarrow> string \<Rightarrow> int \<Rightarrow> 'a admin_store_scheme \<Rightarrow> room_error + notification option" where
  "GetMessageNotificationByRelatedIdAndType e uid relatedId type s =
     (if ae_fails e FindNotification then Inl RoomStoreError
      else Inr (find_last (\<lambda>n. nt_Uid n = uid \<and> notification_of relatedId type n) (notifications s)))"

text \<open>One notification for each side and request: reset when there is one; pushed when stored.\<close>

definition renew_notification ::
  "admin_env \<Rightarrow> uid \<Rightarrow> int \<Rightarrow> string \<Rightarrow> jmap \<Rightarrow> ('a admin_store_scheme, 'e, unit) act" where
  "renew_notification e uid type relatedId content =
     quietly (
       andThen (query (GetMessageNotificationByRelatedIdAndType e uid relatedId type)) (\<lambda>existing.
       andThen (case existing of
           None \<Rightarrow> CreateMessageNotification e uid type relatedId (ae_json e content)
         | Some n \<Rightarrow>
             andThen (write_notifications e (\<lambda>v. nt_Nid v = nt_Nid n)
               (\<lambda>v. v\<lparr>nt_Content := ae_json e content, nt_Status := 1, nt_ReadAt := 0, nt_State := NotificationStatePending,
                     nt_UpdateTime := ae_now e\<rparr>)) (\<lambda>_. succeed n)) (\<lambda>n.
         NotifyQuic e (NotificationNotify (nt_Nid n)))))"

text \<open>After a decision: the notification, when it can be read, is pushed again.\<close>

definition push_notification :: "admin_env \<Rightarrow> uid \<Rightarrow> int \<Rightarrow> string \<Rightarrow> ('a admin_store_scheme, 'e, unit) act" where
  "push_notification e uid type relatedId =
     andThen (reading (GetMessageNotificationByRelatedIdAndType e uid relatedId type)) (\<lambda>r.
       case r of Inr (Some n) \<Rightarrow> NotifyQuic e (NotificationNotify (nt_Nid n)) | _ \<Rightarrow> succeed ())"

section \<open>Making a request\<close>

text \<open>The body: receiver, group, remark, message.\<close>

definition CreateFriendRequest ::
  "friend_env \<Rightarrow> http_user option \<Rightarrow> (uid \<times> string \<times> string \<times> string) option
   \<Rightarrow> ('a friend_store_scheme, reply, friend_request) act" where
  "CreateFriendRequest e user body =
     andThen (GetUser user) (\<lambda>u.
     andThen (parsed body (BadRequest ''bad body'')) (\<lambda>(receiverUid, gid, remark, message).
     andThen (check (receiverUid \<noteq> hu_Uid u) (BadRequest ''not yourself'')) (\<lambda>_.
     andThen (orFail (query (GetUserByUid (fd_admin e) receiverUid)) (BadRequest ''no such user'')) (\<lambda>receiver.
     andThen (orFail (query (CheckFriendRelation (fd_room e) (hu_Uid u) receiverUid)) (ServerError ''relation failed'')) (\<lambda>(areFriends, _).
     andThen (check (\<not> areFriends) (BadRequest ''already friends'')) (\<lambda>_.
     andThen (orFail (CreateOrUpdateFriendRequest e (hu_Uid u) receiverUid gid remark message (fd_now e + friend_request_ttl))
        (ServerError ''create failed'')) (\<lambda>q.
     andThen (renew_notification (fd_admin e) receiverUid NotificationTypeFriendNotification (fq_FrId q)
        [(''sender_uid'', JStr (hu_Uid u)), (''sender_name'', JStr (hu_Nickname u)), (''receiver_uid'', JStr receiverUid),
         (''message'', JStr message), (''remark'', JStr remark)]) (\<lambda>_.
     andThen (renew_notification (fd_admin e) (hu_Uid u) NotificationTypeFriendAddRequest (fq_FrId q)
        [(''sender_uid'', JStr (hu_Uid u)), (''receiver_uid'', JStr receiverUid), (''receiver_name'', JStr (hu_Nickname receiver)),
         (''message'', JStr message), (''remark'', JStr remark)]) (\<lambda>_.
       succeed q)))))))))"

definition FriendRequestList ::
  "friend_env \<Rightarrow> http_user option \<Rightarrow> string \<Rightarrow> ('a friend_store_scheme, reply, friend_request list) act" where
  "FriendRequestList e user asReceiver =
     andThen (GetUser user) (\<lambda>u.
       orFail (query (GetFriendRequestList e (hu_Uid u) (asReceiver = ''true''))) (ServerError ''query failed''))"

section \<open>Deciding a request\<close>

text \<open>The checks that accepting and rejecting begin with.\<close>

definition decidable ::
  "friend_env \<Rightarrow> http_user \<Rightarrow> string \<Rightarrow> ('a friend_store_scheme, reply, friend_request) act" where
  "decidable e u frId =
     andThen (orFail (query (GetFriendRequestByFrId e frId)) (ServerError ''query failed'')) (\<lambda>found.
     andThen (parsed found (BadRequest ''no such request'')) (\<lambda>q.
     andThen (check (fq_ReceiverUid q = hu_Uid u) (BadRequest ''not yours'')) (\<lambda>_.
     andThen (check (fq_State q = 0) (BadRequest ''already handled'')) (\<lambda>_.
     andThen (check (\<not> (fq_ExpiresAt q > 0 \<and> fq_ExpiresAt q < fd_now e)) (BadRequest ''expired'')) (\<lambda>_.
       succeed q)))))"

definition decide ::
  "friend_env \<Rightarrow> http_user \<Rightarrow> friend_request \<Rightarrow> string \<Rightarrow> int \<Rightarrow> int \<Rightarrow> ('a friend_store_scheme, reply, unit) act" where
  "decide e u q frId state mark =
     (let r = ServerError ''failed'' in
     andThen (orFail (UpdateFriendRequestStateWithTx e frId state) r) (\<lambda>_.
     andThen (orFail (UpdateMessageNotificationStateWithTx (fd_admin e) (hu_Uid u) frId NotificationTypeFriendNotification mark) r) (\<lambda>_.
       orFail (UpdateMessageNotificationStateWithTx (fd_admin e) (fq_SenderUid q) frId NotificationTypeFriendAddRequest mark) r)))"

definition push_decision ::
  "friend_env \<Rightarrow> http_user \<Rightarrow> friend_request \<Rightarrow> string \<Rightarrow> ('a friend_store_scheme, reply, unit) act" where
  "push_decision e u q frId =
     andThen (push_notification (fd_admin e) (hu_Uid u) NotificationTypeFriendNotification frId) (\<lambda>_.
       push_notification (fd_admin e) (fq_SenderUid q) NotificationTypeFriendAddRequest frId)"

definition RejectFriendRequest ::
  "friend_env \<Rightarrow> http_user option \<Rightarrow> (string \<times> string \<times> string \<times> rid) option
   \<Rightarrow> ('a friend_store_scheme, reply, friend_request) act" where
  "RejectFriendRequest e user body =
     andThen (GetUser user) (\<lambda>u.
     andThen (parsed body (BadRequest ''bad body'')) (\<lambda>(frId, _, _, _).
     andThen (decidable e u frId) (\<lambda>q.
     andThen (transaction (fd_admin e) (ServerError ''failed'') (decide e u q frId 1 NotificationFriendStateRejected)) (\<lambda>_.
     andThen (push_decision e u q frId) (\<lambda>_.
     andThen (PublishUserOperationLog (fd_admin e) (hu_Uid u) ''friend_request_reject'' frId []
        [(''fr_id'', JStr frId), (''sender_uid'', JStr (fq_SenderUid q))]) (\<lambda>_.
       succeed q))))))"

text \<open>The group of the receiver: the one he names, or his default group.\<close>

definition receiver_group :: "friend_env \<Rightarrow> uid \<Rightarrow> string \<Rightarrow> ('a friend_store_scheme, reply, string) act" where
  "receiver_group e uid gid =
     andThen (if gid \<noteq> [] then succeed gid
              else andThen (orFail (query (GetDefaultFriendGroup e uid)) (ServerError ''group failed'')) (\<lambda>g.
                case g of None \<Rightarrow> refuse (BadRequest ''no default group'') | Some d \<Rightarrow> succeed (fg_Gid d))) (\<lambda>gid'.
     andThen (if gid' = [] then succeed ()
              else andThen (orFail (query (GetFriendGroupByGid e uid gid')) (ServerError ''group failed'')) (\<lambda>g.
                check (g \<noteq> None) (BadRequest ''no such group''))) (\<lambda>_.
       succeed gid'))"

definition relate ::
  "friend_env \<Rightarrow> friend_request \<Rightarrow> string \<Rightarrow> string \<Rightarrow> ('a friend_store_scheme, reply, unit) act" where
  "relate e q gid remark =
     andThen (orFail (query (CheckFriendRelation (fd_room e) (fq_ReceiverUid q) (fq_SenderUid q))) (ServerError ''relation failed''))
       (\<lambda>(areFriends, oneSideDeleted).
         if areFriends then succeed ()
         else if oneSideDeleted
         then orFail (RestoreFriendRelationWithTx e (fq_ReceiverUid q) (fq_SenderUid q) gid remark) (ServerError ''relation failed'')
         else orFail (CreateFriendRelationWithTx e (fq_ReceiverUid q) (fq_SenderUid q) gid remark) (ServerError ''relation failed''))"

text \<open>The first part of the transaction: the decision, the relation, the room that was named.\<close>

definition accept_first ::
  "friend_env \<Rightarrow> http_user \<Rightarrow> friend_request \<Rightarrow> string \<Rightarrow> string \<Rightarrow> string \<Rightarrow> rid
   \<Rightarrow> ('a friend_store_scheme, reply, room option) act" where
  "accept_first e u q frId gid remark rid =
     andThen (decide e u q frId 2 NotificationFriendStateAccepted) (\<lambda>_.
     andThen (receiver_group e (hu_Uid u) gid) (\<lambda>receiverGid.
     andThen (relate e q receiverGid (if remark = [] then fq_Remark q else remark)) (\<lambda>_.
       if rid = [] then succeed None
       else orFail (TryUpgradeGroupPrivateRoomToPrivateTx (fd_admin e) rid (fq_ReceiverUid q) (fq_SenderUid q))
         (ServerError ''room failed''))))"

text \<open>A session of one side: made active, brought back, or created.\<close>

definition friend_session :: "admin_env \<Rightarrow> uid \<Rightarrow> rid \<Rightarrow> ('a admin_store_scheme, room_error, unit) act" where
  "friend_session e uid rid =
     andThen (check (\<not> re_fails (ae_room e) FindSession) RoomStoreError) (\<lambda>_.
     andThen (reading (\<lambda>s. find (\<lambda>v. us_Uid v = uid \<and> us_Rid v = rid \<and> us_DeleteTime v = 0) (user_sessions s))) (\<lambda>live.
       case live of
         Some v \<Rightarrow> write_session (ae_room e) (\<lambda>w. us_Id w = us_Id v) (\<lambda>w. w\<lparr>us_State := 1\<rparr>)
       | None \<Rightarrow>
           andThen (reading (\<lambda>s. find (\<lambda>v. us_Uid v = uid \<and> us_Rid v = rid) (user_sessions s))) (\<lambda>some.
             case some of
               Some v \<Rightarrow> write_session (ae_room e) (\<lambda>w. us_Id w = us_Id v) (\<lambda>w. w\<lparr>us_DeleteTime := 0, us_State := 1\<rparr>)
             | None \<Rightarrow> create_session e uid rid 0)))"

definition create_verify_row ::
  "admin_env \<Rightarrow> rid \<Rightarrow> int \<Rightarrow> uid \<Rightarrow> ('a admin_store_scheme, room_error, mid) act" where
  "create_verify_row e rid seqId sender =
     andThen (new_xid e) (\<lambda>clientMid. andThen (new_xid e) (\<lambda>mid s.
       let m = (system_message e rid seqId (ae_ip e) clientMid mid)\<lparr>rm_SenderUid := sender\<rparr>; db = chat_db s in
       if re_fails (ae_room e) InsertMessage \<or> \<not> message_indexes (messages db @ [m]) then (Inl RoomStoreError, s)
       else (Inr mid, s\<lparr>chat_db := db\<lparr>messages := messages db @ [m]\<rparr>\<rparr>)))"

text \<open>The second part: the private room if none was named, the sessions, the greeting.\<close>

definition accept_second ::
  "friend_env \<Rightarrow> friend_request \<Rightarrow> room option \<Rightarrow> ('a friend_store_scheme, reply, rid \<times> mid) act" where
  "accept_second e q named =
     (let a = fd_admin e; rec = fq_ReceiverUid q; snd' = fq_SenderUid q in
     andThen (case named of
         Some r \<Rightarrow> succeed r
       | None \<Rightarrow>
           andThen (orFail (query (FindPrivateRoomBetweenUsers (fd_room e) rec snd')) (ServerError ''room failed'')) (\<lambda>found.
             case found of Some r \<Rightarrow> succeed r
             | None \<Rightarrow> orFail (createPrivateRoomWithConfig a [rec, snd'] False) (ServerError ''room failed''))) (\<lambda>room.
     andThen (orFail (write_session (ae_room a) (\<lambda>v. us_Uid v \<in> {rec, snd'} \<and> us_DeleteTime v = 0) (\<lambda>v. v\<lparr>us_IsTop := False\<rparr>))
        (ServerError ''session failed'')) (\<lambda>_.
     andThen (orFail (friend_session a rec (r_Rid room)) (ServerError ''session failed'')) (\<lambda>_.
     andThen (orFail (friend_session a snd' (r_Rid room)) (ServerError ''session failed'')) (\<lambda>_.
     andThen (orFail (next_seq a (r_Rid room)) (ServerError ''message failed'')) (\<lambda>seqId.
     andThen (orFail (create_verify_row a (r_Rid room) seqId snd') (ServerError ''message failed'')) (\<lambda>mid.
     andThen (orFail (create_content_row a mid ''friend:verify'' snd'
        (ae_json a [(''message'', JStr (fq_Message q)), (''remark'', JStr (fq_Remark q))])) (ServerError ''message failed'')) (\<lambda>_.
       succeed (r_Rid room, mid)))))))))"

text \<open>
  The whole transaction. The rooms changed outside of it stay changed, whatever becomes of
  it: they are changed in both stores.
\<close>

definition accept_tx ::
  "friend_env \<Rightarrow> http_user \<Rightarrow> friend_request \<Rightarrow> string \<Rightarrow> string \<Rightarrow> string \<Rightarrow> rid
   \<Rightarrow> ('a friend_store_scheme, reply, rid \<times> mid) act" where
  "accept_tx e u q frId gid remark rid s =
     (case accept_first e u q frId gid remark rid s of
        (Inl r, s1) \<Rightarrow> (Inl r, rolled_back s s1)
      | (Inr named, s1) \<Rightarrow>
          let up = (if named = None then UpgradeGroupPrivateToPrivate (fd_admin e) (fq_ReceiverUid q) (fq_SenderUid q) else id)
          in (case accept_second e q named (up s1) of
                (Inl r, s2) \<Rightarrow> (Inl r, rolled_back (up s) s2)
              | (Inr x, s2) \<Rightarrow>
                  if re_fails (fd_room e) CommitRoom then (Inl (ServerError ''failed''), rolled_back (up s) s2) else (Inr x, s2)))"

text \<open>The body: request, group, remark, room.\<close>

definition AcceptFriendRequest ::
  "friend_env \<Rightarrow> http_user option \<Rightarrow> (string \<times> string \<times> string \<times> rid) option
   \<Rightarrow> ('a friend_store_scheme, reply, friend_request) act" where
  "AcceptFriendRequest e user body =
     andThen (GetUser user) (\<lambda>u.
     andThen (parsed body (BadRequest ''bad body'')) (\<lambda>(frId, gid, remark, rid).
     andThen (decidable e u frId) (\<lambda>q.
     andThen (accept_tx e u q frId gid remark rid) (\<lambda>(room, mid).
     andThen (push_decision e u q frId) (\<lambda>_.
     andThen (if room = [] then succeed ()
              else andThen (refresh_members (fd_admin e) room) (\<lambda>_.
                quietly (BumpUserRoomSessionLastMessageTime (fd_room e) room (fd_now e)))) (\<lambda>_.
     andThen (if mid = [] then succeed ()
              else NotifyQuic (fd_admin e) (RoomMessageNotifyIncludeUids mid [fq_SenderUid q, fq_ReceiverUid q])) (\<lambda>_.
     andThen (PublishUserOperationLog (fd_admin e) (hu_Uid u) ''friend_request_accept'' frId []
        [(''fr_id'', JStr frId), (''sender_uid'', JStr (fq_SenderUid q))]) (\<lambda>_.
       succeed q))))))))"

section \<open>Ending and annotating a friendship\<close>

definition DeleteFriend ::
  "friend_env \<Rightarrow> http_user option \<Rightarrow> uid option \<Rightarrow> ('a friend_store_scheme, reply, uid) act" where
  "DeleteFriend e user body =
     andThen (GetUser user) (\<lambda>u.
     andThen (parsed body (BadRequest ''bad body'')) (\<lambda>friendUid.
     andThen (check (friendUid \<noteq> []) (BadRequest ''no friend'')) (\<lambda>_.
     andThen (check (friendUid \<noteq> hu_Uid u) (BadRequest ''not yourself'')) (\<lambda>_.
     andThen (attempt (DeleteFriendWithTx e (hu_Uid u) friendUid)) (\<lambda>r.
     andThen (case r of Inr _ \<Rightarrow> succeed ()
              | Inl err \<Rightarrow> refuse (if err = NotFriend then BadRequest ''not your friend'' else ServerError ''delete failed'')) (\<lambda>_.
     andThen (PublishUserOperationLog (fd_admin e) (hu_Uid u) ''friend_delete'' friendUid [] [(''friend_uid'', JStr friendUid)]) (\<lambda>_.
       succeed friendUid)))))))"

definition FriendRemarkUpdate ::
  "friend_env \<Rightarrow> http_user option \<Rightarrow> (uid \<times> string) option \<Rightarrow> ('a friend_store_scheme, reply, unit) act" where
  "FriendRemarkUpdate e user body =
     andThen (GetUser user) (\<lambda>u.
     andThen (parsed body (BadRequest ''bad body'')) (\<lambda>(friendUid, remark).
     andThen (check (RuneCount remark \<le> 255) (BadRequest ''remark too long'')) (\<lambda>_.
     andThen (orFail (query (CheckFriendRelation (fd_room e) (hu_Uid u) friendUid)) (ServerError ''relation failed'')) (\<lambda>(areFriends, _).
     andThen (check areFriends (BadRequest ''not your friend'')) (\<lambda>_.
     andThen (reading (\<lambda>s. case GetFriendRemarkBatch e (hu_Uid u) [friendUid] s of
         Inr m \<Rightarrow> (case m friendUid of Some r \<Rightarrow> r | None \<Rightarrow> []) | Inl _ \<Rightarrow> [])) (\<lambda>before.
     andThen (orFail (UpdateFriendRemark e (hu_Uid u) friendUid remark) (ServerError ''update failed'')) (\<lambda>_.
       PublishUserOperationLog (fd_admin e) (hu_Uid u) ''friend_remark'' friendUid
         [(''friend_uid'', JStr friendUid), (''remark'', JStr before)] [(''friend_uid'', JStr friendUid), (''remark'', JStr remark)])))))))"

definition FriendGroupList ::
  "friend_env \<Rightarrow> http_user option \<Rightarrow> ('a friend_store_scheme, reply, (friend_group \<times> uid list) list) act" where
  "FriendGroupList e user =
     andThen (GetUser user) (\<lambda>u. orFail (query (GetFriendGroupList e (hu_Uid u))) (ServerError ''query failed''))"

section \<open>Chats of two\<close>

definition chat_refusal :: "friend_error \<Rightarrow> reply" where
  "chat_refusal err = (case err of
       NotFriend \<Rightarrow> BadRequest ''no longer friends'' | ChatNotAllowed \<Rightarrow> BadRequest ''strangers not allowed''
     | _ \<Rightarrow> ServerError ''chat failed'')"

definition answered :: "'b option \<Rightarrow> ('s, reply, 'b) act" where "answered d = parsed d (ServerError ''no session'')"

definition StartFriendChat ::
  "friend_env \<Rightarrow> http_user option \<Rightarrow> uid option \<Rightarrow> ('a friend_store_scheme, reply, session_dto) act" where
  "StartFriendChat e user body =
     andThen (GetUser user) (\<lambda>u.
     andThen (parsed body (BadRequest ''bad body'')) (\<lambda>friendUid.
     andThen (check (friendUid \<noteq> []) (BadRequest ''no friend'')) (\<lambda>_.
     if friendUid = hu_Uid u
     then andThen (orFail (EnsureSelfChatSession e (hu_Uid u)) (ServerError ''chat failed'')) answered
     else andThen (attempt (OpenPrivateChat e (hu_Uid u) friendUid)) (\<lambda>r.
       case r of
         Inl err \<Rightarrow> refuse (chat_refusal err)
       | Inr (session, createdForNonFriend) \<Rightarrow>
           andThen (answered session) (\<lambda>d.
           andThen (if createdForNonFriend \<and> \<not> fd_fails e WriteChatLog
                    then change (\<lambda>s. s\<lparr>stranger_chats := stranger_chats s @ [(d_Rid d, hu_Uid u, friendUid)]\<rparr>)
                    else succeed ()) (\<lambda>_.
             succeed d))))))"

definition StartGroupPrivateChat ::
  "friend_env \<Rightarrow> http_user option \<Rightarrow> (uid \<times> rid) option \<Rightarrow> ('a friend_store_scheme, reply, session_dto) act" where
  "StartGroupPrivateChat e user body =
     andThen (GetUser user) (\<lambda>u.
     andThen (parsed body (BadRequest ''bad body'')) (\<lambda>(targetUid, fromRid).
     andThen (check (targetUid \<noteq> [] \<and> fromRid \<noteq> []) (BadRequest ''no target'')) (\<lambda>_.
     andThen (reading (\<lambda>s. \<not> re_fails (fd_room e) FindRoomUser \<and> is_member fromRid (hu_Uid u) s)) (\<lambda>inRoom.
     andThen (check inRoom (BadRequest ''members only'')) (\<lambda>_.
     if targetUid = hu_Uid u
     then andThen (orFail (EnsureSelfChatSession e (hu_Uid u)) (ServerError ''chat failed'')) answered
     else
       andThen (reading (\<lambda>s. \<not> re_fails (fd_room e) FindRoomUser \<and> is_member fromRid targetUid s)) (\<lambda>targetInRoom.
       andThen (check targetInRoom (BadRequest ''not in the room'')) (\<lambda>_.
       andThen (orFail (OpenGroupPrivateChat e (hu_Uid u) targetUid fromRid) (ServerError ''chat failed'')) answered)))))))"

end
