(* ===== verification/Traces.thy ===== *)
theory Traces
  imports Main
begin

text \<open>
  Runs of labelled steps, and two contracts that components promise of their steps: that a
  step keeps an invariant, and that a fact can only come about by a step with a known cause.
  What follows for whole runs is proved here once.
\<close>

inductive run_of :: "('e \<Rightarrow> 's \<Rightarrow> 's \<Rightarrow> bool) \<Rightarrow> 's \<Rightarrow> 'e list \<Rightarrow> 's \<Rightarrow> bool" for step where
  start: "run_of step s [] s"
| onward: "run_of step s tr s1 \<Longrightarrow> step ev s1 s2 \<Longrightarrow> run_of step s (tr @ [ev]) s2"

locale safe_steps =
  fixes step :: "'e \<Rightarrow> 's \<Rightarrow> 's \<Rightarrow> bool" and good :: "'s \<Rightarrow> bool"
  assumes kept: "step ev s s' \<Longrightarrow> good s \<Longrightarrow> good s'"
begin

lemma run_kept: "run_of step s tr s' \<Longrightarrow> good s \<Longrightarrow> good s'"
  by (induction rule: run_of.induct) (auto intro: kept)

end

text \<open>Whenever the fact turns true, the step and the state before it are a cause.\<close>

locale caused_steps =
  fixes step :: "'e \<Rightarrow> 's \<Rightarrow> 's \<Rightarrow> bool" and fact :: "'s \<Rightarrow> bool" and cause :: "'e \<Rightarrow> 's \<Rightarrow> bool"
  assumes caused: "step ev s s' \<Longrightarrow> \<not> fact s \<Longrightarrow> fact s' \<Longrightarrow> cause ev s"
begin

lemma run_caused:
  "run_of step s tr s' \<Longrightarrow> \<not> fact s \<Longrightarrow> fact s' \<Longrightarrow>
     \<exists>pre ev post s1. tr = pre @ ev # post \<and> run_of step s pre s1 \<and> cause ev s1"
proof (induction rule: run_of.induct)
  case (onward s tr s1 ev s2)
  show ?case
  proof (cases "fact s1")
    case True
    with onward.IH onward.prems obtain pre ev' post s0 where
      "tr = pre @ ev' # post" "run_of step s pre s0" "cause ev' s0" by blast
    then show ?thesis by (intro exI [of _ pre] exI [of _ ev'] exI [of _ "post @ [ev]"] exI [of _ s0]) simp
  next
    case False
    with onward show ?thesis by (intro exI [of _ tr] exI [of _ ev] exI [of _ "[]"] exI [of _ s1]) (auto intro: caused)
  qed
qed simp

end

end
