(* ===== verification/FriendSafety.thy ===== *)
theory FriendSafety
  imports FriendDesk Traces
begin

text \<open>
  Friend requests as steps, with whatever the rest of the program does between them, and
  how a relation can come about: nobody becomes a friend without both having agreed.
\<close>

section \<open>Requests as steps\<close>

datatype friend_action =
    ActRequest "(uid \<times> string \<times> string \<times> string) option" | ActAccept "(string \<times> string \<times> string \<times> rid) option"
  | ActReject "(string \<times> string \<times> string \<times> rid) option" | ActDelete "uid option" | ActRemark "(uid \<times> string) option"
  | ActChat "uid option" | ActGroupChat "(uid \<times> rid) option"

fun friend_exec1 :: "friend_env \<Rightarrow> http_user option \<Rightarrow> friend_action \<Rightarrow> 'a friend_store_scheme \<Rightarrow> 'a friend_store_scheme" where
  "friend_exec1 e u (ActRequest b) s = snd (CreateFriendRequest e u b s)"
| "friend_exec1 e u (ActAccept b) s = snd (AcceptFriendRequest e u b s)"
| "friend_exec1 e u (ActReject b) s = snd (RejectFriendRequest e u b s)"
| "friend_exec1 e u (ActDelete b) s = snd (DeleteFriend e u b s)"
| "friend_exec1 e u (ActRemark b) s = snd (FriendRemarkUpdate e u b s)"
| "friend_exec1 e u (ActChat b) s = snd (StartFriendChat e u b s)"
| "friend_exec1 e u (ActGroupChat b) s = snd (StartGroupPrivateChat e u b s)"

type_synonym friend_event = "(friend_env \<times> http_user option \<times> friend_action) option"

text \<open>The tables of this component; the rest of the program only adds groups, when users register.\<close>

definition ftables :: "'a friend_store_scheme \<Rightarrow> user_friend list \<times> friend_request list \<times> friend_group list" where
  "ftables s = (user_friends s, friend_requests s, friend_groups s)"

inductive friend_step :: "friend_event \<Rightarrow> 'a friend_store_scheme \<Rightarrow> 'a friend_store_scheme \<Rightarrow> bool" where
  acted: "friend_step (Some (e, u, a)) s (friend_exec1 e u a s)"
| elsewhere: "user_friends s' = user_friends s \<Longrightarrow> friend_requests s' = friend_requests s \<Longrightarrow>
    set (friend_groups s) \<subseteq> set (friend_groups s') \<Longrightarrow> friend_step None s s'"

inductive_cases friend_stepE: "friend_step ev s s'"

section \<open>Frames\<close>

abbreviation ft_is :: "user_friend list \<times> friend_request list \<times> friend_group list \<Rightarrow> 'a friend_store_scheme \<Rightarrow> bool" where
  "ft_is c s \<equiv> ftables s = c"

named_theorems ft_keep \<open>operations that leave the friend tables alone\<close>

lemma keeps_error [keep]: "keeps I (check b err)" "keeps I (refuse err)"
  by (simp_all add: keeps_def check_def refuse_def)

lemma ftI: "(\<And>s. ftables (snd (m s)) = ftables s) \<Longrightarrow> keeps (ft_is c) m"
  by (simp add: keeps_def)

lemma ft_frame: "(\<And>c. keeps (ft_is c) m) \<Longrightarrow> ftables (snd (m s)) = ftables s"
  by (simp add: keeps_def)

lemma ft_basic [ft_keep]:
  "keeps (ft_is c) (new_xid a)" "keeps (ft_is c) (NotifyQuic a msg)"
  "keeps (ft_is c) (PublishUserOperationLog a uid op r b af)"
  "keeps (ft_is c) (next_seq a rid)" "keeps (ft_is c) (BumpUserRoomSessionLastMessageTime re rid t)"
  "keeps (ft_is c) (write_session re P f)" "keeps (ft_is c) (create_session a uid rid q)"
  "keeps (ft_is c) (write_notifications a NP nf)" "keeps (ft_is c) (create_mute_config a rid)"
  "keeps (ft_is c) (create_room_users a rid uids)" "keeps (ft_is c) (refresh_members a rid)"
  "keeps (ft_is c) (TryUpgradeGroupPrivateRoomToPrivateTx a rid x y)"
  by (rule ftI, simp add: ftables_def new_xid_def NotifyQuic_def change_def PublishUserOperationLog_def emit_def next_seq_def
      BumpUserRoomSessionLastMessageTime_def InvalidateRoomLastMessageCache_def write_session_def upd_session_def
      create_session_def write_notifications_def create_mute_config_def create_room_users_def refresh_members_def
      SetRoomUserIdsCache_def TryUpgradeGroupPrivateRoomToPrivateTx_def upd_room_def split: sum.splits prod.splits option.splits)+

lemma ft_rows [ft_keep]:
  "keeps (ft_is c) (create_private_row a mk)" "keeps (ft_is c) (create_verify_row a rid q sender)"
  "keeps (ft_is c) (create_content_row a mid tc tid ct)" "keeps (ft_is c) (CreateMessageNotification a uid ty r ct)"
  by (rule ftI, simp add: ftables_def create_private_row_def create_verify_row_def create_content_row_def
      CreateMessageNotification_def andThen_def new_xid_def Let_def)+

lemma ft_transaction [ft_keep]: "keeps (ft_is c) m \<Longrightarrow> keeps (ft_is c) (transaction a r m)"
  by (force simp: keeps_def ftables_def transaction_def split: sum.splits prod.splits)

lemma ft_dto [ft_keep]: "keeps (ft_is c) (GetUserRoomSessionDtoByRid re uid rid)"
  by (rule ftI, simp add: ftables_def GetUserRoomSessionDtoByRid_def GetLastMessagesByRidList_def
      getLastMessagesForUserSessions_def store_last_messages_def Let_def split: list.splits sum.splits prod.splits option.splits)

lemma ft_rooms [ft_keep]:
  "keeps (ft_is c) (createRoomWithMuteAndUsers a mk uids)" "keeps (ft_is c) (createPrivateRoomWithConfig a uids b)"
  "keeps (ft_is c) (createGroupPrivateRoomWithConfig a uids rid)" "keeps (ft_is c) (open_session_tx a uid rid)"
  "keeps (ft_is c) (friend_session a uid rid)" "keeps (ft_is c) (renew_notification a uid ty r ct)"
  "keeps (ft_is c) (push_notification a uid ty r)" "keeps (ft_is c) (UpdateMessageNotificationStateWithTx a uid r ty st)"
  unfolding createPrivateRoomWithConfig_def createGroupPrivateRoomWithConfig_def createRoomWithMuteAndUsers_def
    open_session_tx_def friend_session_def renew_notification_def push_notification_def UpdateMessageNotificationStateWithTx_def
  by (rule keep ft_keep)+

lemma ft_push_decision [ft_keep]: "keeps (ft_is c) (push_decision e u q frId)"
  unfolding push_decision_def by (rule keep ft_keep)+

lemma ft_stranger_chat [ft_keep]: "keeps (ft_is c) (change (\<lambda>s. s\<lparr>stranger_chats := f s\<rparr>))"
  by (rule ftI) (simp add: change_def ftables_def)

lemma ft_chats [ft_keep]:
  "keeps (ft_is c) (StartFriendChat e user b1)" "keeps (ft_is c) (StartGroupPrivateChat e user b2)"
  unfolding StartFriendChat_def StartGroupPrivateChat_def OpenPrivateChat_def OpenGroupPrivateChat_def EnsureSelfChatSession_def
    EnsurePrivateChatSession_def ensureSessionForUserInPrivateRoom_def room_or_new_def answered_def
  by (rule ft_stranger_chat keep ft_keep)+

lemma ft_accept_second [ft_keep]: "keeps (ft_is c) (accept_second e q named)"
  unfolding accept_second_def Let_def by (rule keep ft_keep)+

lemma ft_upgrade [simp]: "ftables (UpgradeGroupPrivateToPrivate a x y s) = ftables s"
  by (simp add: ftables_def UpgradeGroupPrivateToPrivate_def upd_room_def Let_def)

lemma ft_rolled_back [simp]: "ftables (s\<lparr>xid_next := x, seq_keys_of := k\<rparr>) = ftables s"
  by (simp add: ftables_def)

section \<open>Properties of the tables\<close>

type_synonym friend_tables = "user_friend list \<times> friend_request list \<times> friend_group list"

abbreviation on_tables :: "(friend_tables \<Rightarrow> bool) \<Rightarrow> 'a friend_store_scheme \<Rightarrow> bool" where
  "on_tables P s \<equiv> P (ftables s)"

named_theorems table_keep \<open>operations that keep a property of the friend tables\<close>

lemma table_frame: "(\<And>c. keeps (ft_is c) m) \<Longrightarrow> keeps (on_tables P) m"
  by (simp add: keeps_def ft_frame)

lemma table_transaction [table_keep]: "keeps (on_tables P) m \<Longrightarrow> keeps (on_tables P) (transaction a r m)"
  by (force simp: keeps_def ftables_def transaction_def split: sum.splits prod.splits)

lemma accept_second_tables: "ftables (snd (accept_second e q named s)) = ftables s"
  by (rule ft_frame) (rule ft_keep)

lemma accept_tx_tables:
  "ftables (snd (accept_tx e u q frId gid remark rid s)) = ftables s \<or>
   (\<exists>named. fst (accept_first e u q frId gid remark rid s) = Inr named) \<and>
   ftables (snd (accept_tx e u q frId gid remark rid s)) = ftables (snd (accept_first e u q frId gid remark rid s))"
proof (cases "accept_first e u q frId gid remark rid s")
  case (Pair res s1)
  show ?thesis
  proof (cases res)
    case (Inl r)
    with Pair show ?thesis by (simp add: accept_tx_def)
  next
    case (Inr named)
    let ?up = "if named = None then UpgradeGroupPrivateToPrivate (fd_admin e) (fq_ReceiverUid q) (fq_SenderUid q) else id"
    obtain res2 s2 where second: "accept_second e q named (?up s1) = (res2, s2)" by fastforce
    then have "ftables s2 = ftables s1" using accept_second_tables [of e q named "?up s1"] by simp
    with Pair Inr second show ?thesis
      by (cases res2; cases "re_fails (fd_room e) CommitRoom") (auto simp: accept_tx_def Let_def)
  qed
qed

lemma table_accept_tx [table_keep]:
  assumes "keeps (on_tables P) (accept_first e u q frId gid remark rid :: ('a friend_store_scheme, reply, room option) act)"
  shows "keeps (on_tables P) (accept_tx e u q frId gid remark rid :: ('a friend_store_scheme, reply, rid \<times> mid) act)"
  unfolding keeps_def
proof (intro allI impI)
  fix s :: "'a friend_store_scheme" assume s: "on_tables P s"
  from keepsD [OF assms s] accept_tx_tables [of e u q frId gid remark rid s] s
  show "on_tables P (snd (accept_tx e u q frId gid remark rid s))" by (elim disjE conjE) simp_all
qed

text \<open>What the checks in front of a decision say of the request.\<close>

definition decidable_by :: "friend_env \<Rightarrow> uid \<Rightarrow> string \<Rightarrow> 'a friend_store_scheme \<Rightarrow> friend_request \<Rightarrow> bool" where
  "decidable_by e uid frId s q \<longleftrightarrow> q \<in> set (friend_requests s) \<and> fq_FrId q = frId \<and> fq_ReceiverUid q = uid \<and>
     fq_State q = 0 \<and> \<not> (fq_ExpiresAt q > 0 \<and> fq_ExpiresAt q < fd_now e)"

lemma wp_decidable:
  assumes "\<And>q. decidable_by e (hu_Uid u) frId s q \<Longrightarrow> Q q s" and "E s"
  shows "wp (decidable e u frId) Q E s"
  unfolding decidable_def
  by (intro wp_rules)
    (use assms in \<open>auto simp: decidable_by_def GetFriendRequestByFrId_def find_Some_iff split: if_splits\<close>)

section \<open>How a relation comes about\<close>

fun linked_in :: "uid \<Rightarrow> uid \<Rightarrow> friend_tables \<Rightarrow> bool" where
  "linked_in a b (fs, qs, gs) \<longleftrightarrow> (\<exists>f \<in> set fs. live_friend a b f)"

definition linked :: "uid \<Rightarrow> uid \<Rightarrow> 'a friend_store_scheme \<Rightarrow> bool" where "linked a b s \<longleftrightarrow> linked_in a b (ftables s)"

fun asked_in :: "uid \<Rightarrow> uid \<Rightarrow> friend_tables \<Rightarrow> bool" where
  "asked_in x y (fs, qs, gs) \<longleftrightarrow> (\<exists>q \<in> set qs. fq_SenderUid q = x \<and> fq_ReceiverUid q = y)"

definition asked :: "uid \<Rightarrow> uid \<Rightarrow> 'a friend_store_scheme \<Rightarrow> bool" where "asked x y s \<longleftrightarrow> asked_in x y (ftables s)"

text \<open>Either the fact is still false, or \<open>A\<close> holds.\<close>

abbreviation unless_linked :: "bool \<Rightarrow> uid \<Rightarrow> uid \<Rightarrow> friend_tables \<Rightarrow> bool" where
  "unless_linked A a b t \<equiv> linked_in a b t \<longrightarrow> A"

abbreviation unless_asked :: "bool \<Rightarrow> uid \<Rightarrow> uid \<Rightarrow> friend_tables \<Rightarrow> bool" where
  "unless_asked A x y t \<equiv> asked_in x y t \<longrightarrow> A"

named_theorems link_keep \<open>operations that make no friends\<close>
named_theorems ask_keep \<open>operations that make no requests\<close>

lemma link_requests [link_keep]:
  "keeps (on_tables (unless_linked A a b)) (UpdateFriendRequestStateWithTx e frId st)"
  "keeps (on_tables (unless_linked A a b)) (CreateOrUpdateFriendRequest e sd rc gid rem msg t)"
  by (auto simp: keeps_def ftables_def UpdateFriendRequestStateWithTx_def CreateOrUpdateFriendRequest_def andThen_def query_def
      new_xid_def Let_def split: sum.splits option.splits prod.splits)

lemma link_create_friends [link_keep]:
  "(a, b) \<notin> friend_pair ` set new \<Longrightarrow> keeps (on_tables (unless_linked A a b)) (create_friends e new)"
  by (auto simp: keeps_def ftables_def create_friends_def friend_pair_def live_friend_def image_iff)

lemma link_update_friends [link_keep]:
  "(\<And>f. P f \<Longrightarrow> live_friend a b (g f) \<Longrightarrow> live_friend a b f) \<Longrightarrow> keeps (on_tables (unless_linked A a b)) (update_friends e P g)"
  by (auto simp: keeps_def ftables_def update_friends_def split: if_splits)

lemma link_restore_side [link_keep]:
  "(a, b) \<noteq> (x, y) \<Longrightarrow> keeps (on_tables (unless_linked A a b)) (restore_side e x y gid rem)"
  unfolding restore_side_def
  by (rule keep link_create_friends link_update_friends | auto simp: friend_row_def friend_pair_def live_friend_def)+

lemma ft_relation_group [ft_keep]: "keeps (ft_is c) (relation_group e rc sd gid)"
  and ft_receiver_group [ft_keep]: "keeps (ft_is c) (receiver_group e uid gid')"
  unfolding relation_group_def receiver_group_def by (rule keep ft_keep)+

lemma link_relation [link_keep]:
  assumes "(a, b) \<noteq> (x, y)" and "(a, b) \<noteq> (y, x)"
  shows "keeps (on_tables (unless_linked A a b)) (CreateFriendRelationWithTx e x y gid rem)"
    and "keeps (on_tables (unless_linked A a b)) (RestoreFriendRelationWithTx e x y gid rem)"
  unfolding CreateFriendRelationWithTx_def RestoreFriendRelationWithTx_def
  by (((rule table_frame, rule ft_relation_group) | rule keep link_keep | rule assms
      | (use assms in \<open>simp add: friend_row_def friend_pair_def\<close>))+)

lemma link_accept_first [link_keep]:
  assumes "(a, b) \<noteq> (fq_ReceiverUid q, fq_SenderUid q)" and "(a, b) \<noteq> (fq_SenderUid q, fq_ReceiverUid q)"
  shows "keeps (on_tables (unless_linked A a b)) (accept_first e u q frId gid remark rid)"
  unfolding accept_first_def decide_def relate_def Let_def
  by (((rule table_frame, rule ft_receiver_group) | rule keep link_keep assms | (rule table_frame, rule ft_keep))+)

lemma ask_friends [ask_keep]:
  "keeps (on_tables (unless_asked A x y)) (create_friends e new)" "keeps (on_tables (unless_asked A x y)) (update_friends e P f)"
  "keeps (on_tables (unless_asked A x y)) (UpdateFriendRequestStateWithTx e frId st)"
  by (auto simp: keeps_def ftables_def create_friends_def update_friends_def UpdateFriendRequestStateWithTx_def split: if_splits)

lemma GetBySenderAndReceiver_D:
  assumes "GetFriendRequestBySenderAndReceiver e sd rc s = Inr (Some q)"
  shows "q \<in> set (friend_requests s)" and "fq_SenderUid q = sd" and "fq_ReceiverUid q = rc"
proof -
  let ?qs = "filter (\<lambda>q. fq_SenderUid q = sd \<and> fq_ReceiverUid q = rc \<and> fq_DeleteTime q = 0) (friend_requests s)"
  obtain qs where "sort_key (\<lambda>q. - fq_CreateTime q) ?qs = q # qs"
    using assms by (auto simp: GetFriendRequestBySenderAndReceiver_def split: if_splits list.splits)
  then have "q \<in> set (sort_key (\<lambda>q. - fq_CreateTime q) ?qs)" by (metis list.set_intros(1))
  then show "q \<in> set (friend_requests s)" and "fq_SenderUid q = sd" and "fq_ReceiverUid q = rc" by simp_all
qed

lemma ask_CreateOrUpdate [ask_keep]:
  assumes "(x, y) \<noteq> (sd, rc)"
  shows "keeps (on_tables (unless_asked A x y)) (CreateOrUpdateFriendRequest e sd rc gid rem msg t)"
  unfolding CreateOrUpdateFriendRequest_def
proof (rule keepsI, intro wp_andThenI wp_queryI)
  fix s :: "'a friend_store_scheme" and existing
  assume s: "on_tables (unless_asked A x y) s" and ex: "GetFriendRequestBySenderAndReceiver e sd rc s = Inr existing"
  show "wp (case existing of None \<Rightarrow> andThen (new_xid (fd_admin e)) (\<lambda>frId s.
           let q = \<lparr>fq_FrId = frId, fq_ReceiverUid = rc, fq_SenderUid = sd, fq_Gid = gid, fq_Remark = rem, fq_Message = msg, fq_State = 0,
                    fq_ExpiresAt = (if t = 0 then fd_now e + friend_request_ttl else t),
                    fq_ProcessedAt = 0, fq_CreateTime = fd_now e, fq_DeleteTime = 0\<rparr> in
           if fd_fails e WriteFriendRequest \<or> frId \<in> fq_FrId ` set (friend_requests s) \<or>
              (\<exists>v \<in> set (friend_requests s). fq_SenderUid v = sd \<and> fq_ReceiverUid v = rc)
           then (Inl FriendStoreError, s)
           else (Inr q, s\<lparr>friend_requests := friend_requests s @ [q]\<rparr>))
       | Some q \<Rightarrow> (\<lambda>s. let q' = q\<lparr>fq_State := 0, fq_Message := msg, fq_Remark := rem, fq_Gid := gid, fq_ExpiresAt := t, fq_ProcessedAt := 0\<rparr> in
           if fd_fails e WriteFriendRequest then (Inl FriendStoreError, s)
           else (Inr q', s\<lparr>friend_requests := map (\<lambda>v. if fq_FrId v = fq_FrId q then q' else v) (friend_requests s)\<rparr>)))
     (\<lambda>_. on_tables (unless_asked A x y)) (on_tables (unless_asked A x y)) s"
  proof (cases existing)
    case None
    with s assms show ?thesis by (auto simp: wp_def andThen_def new_xid_def Let_def ftables_def)
  next
    case (Some q)
    from GetBySenderAndReceiver_D [OF ex [unfolded Some]] s assms show ?thesis
      by (auto simp: Some wp_def Let_def ftables_def split: if_splits)
  qed
qed assumption

lemma link_others [link_keep]:
  "keeps (on_tables (unless_linked A a b)) (CreateFriendRequest e user b1)"
  "keeps (on_tables (unless_linked A a b)) (RejectFriendRequest e user b2)"
  "keeps (on_tables (unless_linked A a b)) (DeleteFriend e user b3)"
  "keeps (on_tables (unless_linked A a b)) (FriendRemarkUpdate e user b4)"
  "keeps (on_tables (unless_linked A a b)) (StartFriendChat e user b5)"
  "keeps (on_tables (unless_linked A a b)) (StartGroupPrivateChat e user b6)"
  unfolding CreateFriendRequest_def RejectFriendRequest_def DeleteFriend_def DeleteFriendWithTx_def FriendRemarkUpdate_def
    UpdateFriendRemark_def decidable_def decide_def Let_def
  by (((rule table_frame, rule ft_basic ft_rooms ft_chats ft_push_decision) | rule keep link_keep table_keep
      | (simp add: live_friend_def)[1])+)

lemma ask_accept_first [ask_keep]: "keeps (on_tables (unless_asked A x y)) (accept_first e u q frId gid remark rid)"
  unfolding accept_first_def decide_def relate_def RestoreFriendRelationWithTx_def CreateFriendRelationWithTx_def
    restore_side_def Let_def
  by (((rule table_frame, rule ft_basic ft_rooms ft_receiver_group ft_relation_group) | rule keep ask_keep)+)

lemma ask_others [ask_keep]:
  "keeps (on_tables (unless_asked A x y)) (AcceptFriendRequest e user b1)"
  "keeps (on_tables (unless_asked A x y)) (RejectFriendRequest e user b2)"
  "keeps (on_tables (unless_asked A x y)) (DeleteFriend e user b3)"
  "keeps (on_tables (unless_asked A x y)) (FriendRemarkUpdate e user b4)"
  "keeps (on_tables (unless_asked A x y)) (StartFriendChat e user b5)"
  "keeps (on_tables (unless_asked A x y)) (StartGroupPrivateChat e user b6)"
  unfolding AcceptFriendRequest_def RejectFriendRequest_def DeleteFriend_def DeleteFriendWithTx_def FriendRemarkUpdate_def
    UpdateFriendRemark_def decidable_def decide_def Let_def
  by (((rule table_frame, rule ft_basic ft_rooms ft_chats ft_push_decision)
      | rule keep ask_keep table_keep)+)

text \<open>The causes: \<open>y\<close> accepts a waiting request of \<open>x\<close>, and \<open>x\<close> makes the request.\<close>

fun accepts :: "uid \<Rightarrow> uid \<Rightarrow> friend_event \<Rightarrow> 'a friend_store_scheme \<Rightarrow> bool" where
  "accepts x y (Some (e, Some u, ActAccept (Some (frId, gid, remark, rid)))) s \<longleftrightarrow>
     hu_Uid u = y \<and> (\<exists>q. decidable_by e y frId s q \<and> fq_SenderUid q = x)"
| "accepts x y ev s \<longleftrightarrow> False"

fun asks :: "uid \<Rightarrow> uid \<Rightarrow> friend_event \<Rightarrow> bool" where
  "asks x y (Some (e, Some u, ActRequest (Some (receiver, gid, remark, message)))) \<longleftrightarrow> hu_Uid u = x \<and> receiver = y"
| "asks x y ev \<longleftrightarrow> False"

lemma link_accept:
  assumes "\<not> linked a b s"
  shows "linked a b (snd (AcceptFriendRequest e user body s)) \<Longrightarrow>
    accepts a b (Some (e, user, ActAccept body)) s \<or> accepts b a (Some (e, user, ActAccept body)) s"
proof -
  let ?A = "accepts a b (Some (e, user, ActAccept body)) s \<or> accepts b a (Some (e, user, ActAccept body)) s"
  have "wp (AcceptFriendRequest e user body) (\<lambda>_. on_tables (unless_linked ?A a b)) (on_tables (unless_linked ?A a b)) s"
    unfolding AcceptFriendRequest_def
  proof (intro wp_andThenI wp_GetUserI wp_parsedI wp_prodI wp_decidable)
    fix u b0 frId b1 gid b2 remark rid q
    assume *: "user = Some u" "body = Some b0" "b0 = (frId, b1)" "b1 = (gid, b2)" "b2 = (remark, rid)"
      and q: "decidable_by e (hu_Uid u) frId s q"
    show "wp (accept_tx e u q frId gid remark rid)
       (\<lambda>v. wp (case v of (room, mid) \<Rightarrow> andThen (push_decision e u q frId) (\<lambda>_.
          andThen (if room = [] then succeed ()
              else andThen (refresh_members (fd_admin e) room) (\<lambda>_.
                quietly (BumpUserRoomSessionLastMessageTime (fd_room e) room (fd_now e)))) (\<lambda>_.
          andThen (if mid = [] then succeed ()
              else NotifyQuic (fd_admin e) (RoomMessageNotifyIncludeUids mid [fq_SenderUid q, fq_ReceiverUid q])) (\<lambda>_.
          andThen (PublishUserOperationLog (fd_admin e) (hu_Uid u) ''friend_request_accept'' frId []
            [(''fr_id'', JStr frId), (''sender_uid'', JStr (fq_SenderUid q))]) (\<lambda>_. succeed q)))))
          (\<lambda>_. on_tables (unless_linked ?A a b)) (on_tables (unless_linked ?A a b)))
       (on_tables (unless_linked ?A a b)) s"
    proof (rule wp_keeps [where I = "on_tables (unless_linked ?A a b)"])
      show "keeps (on_tables (unless_linked ?A a b)) (accept_tx e u q frId gid remark rid)"
      proof (cases "(fq_SenderUid q, fq_ReceiverUid q) \<in> {(a, b), (b, a)}")
        case True
        with q have ?A by (auto simp: * decidable_by_def)
        then show ?thesis by (simp add: keeps_def)
      next
        case False
        then show ?thesis by (intro table_keep link_keep) auto
      qed
      show "on_tables (unless_linked ?A a b) s" using assms by (simp add: linked_def)
    qed (rule keeps_wp wp_prodI | ((rule table_frame, rule ft_basic ft_push_decision) | rule keep | assumption)+)+
  qed (use assms in \<open>simp_all add: linked_def\<close>)
  then show "linked a b (snd (AcceptFriendRequest e user body s)) \<Longrightarrow> ?A"
    by (auto simp: wp_def linked_def split: sum.splits prod.splits)
qed

lemma friend_step_link:
  assumes "friend_step ev s s'" and "\<not> linked a b s" and "linked a b s'"
  shows "accepts a b ev s \<or> accepts b a ev s"
proof -
  have other: "\<not> linked a b (snd (m s))" if "keeps (on_tables (unless_linked False a b)) m" for m :: "('a friend_store_scheme, reply, 'r) act"
    using keepsD [OF that, of s] assms(2) by (simp add: linked_def)
  from assms(1) show ?thesis
  proof (cases rule: friend_step.cases)
    case (acted e u act)
    with assms(2,3) show ?thesis
      by (cases act) (auto simp: other [OF link_others(1)] other [OF link_others(2)] other [OF link_others(3)]
        other [OF link_others(4)] other [OF link_others(5)] other [OF link_others(6)] dest: link_accept [OF assms(2)])
  next
    case elsewhere
    with assms(2,3) show ?thesis by (simp add: linked_def ftables_def)
  qed
qed

lemma ask_request:
  assumes "\<not> asked x y s" and "asked x y (snd (CreateFriendRequest e user body s))"
  shows "asks x y (Some (e, user, ActRequest body))"
proof (rule ccontr)
  assume no: "\<not> asks x y (Some (e, user, ActRequest body))"
  have "wp (CreateFriendRequest e user body) (\<lambda>_. on_tables (unless_asked False x y)) (on_tables (unless_asked False x y)) s"
    unfolding CreateFriendRequest_def
    apply (intro wp_andThenI wp_GetUserI wp_parsedI wp_prodI wp_checkI wp_orFailI wp_queryI)
              apply (rule wp_keeps [OF ask_CreateOrUpdate [where A = False and x = x and y = y]])
                 apply (use no in \<open>force\<close>)
                apply (use assms(1) in \<open>simp add: asked_def\<close>)
               apply (rule keeps_wp, ((rule table_frame, rule ft_rooms) | rule keep)+)
               apply assumption+
           apply (use assms(1) in \<open>simp_all add: asked_def\<close>)
    done
  with assms(2) show False by (auto simp: wp_def asked_def split: sum.splits prod.splits)
qed

lemma friend_step_ask:
  assumes "friend_step ev s s'" and "\<not> asked x y s" and "asked x y s'"
  shows "asks x y ev"
proof -
  have other: "\<not> asked x y (snd (m s))" if "keeps (on_tables (unless_asked False x y)) m" for m :: "('a friend_store_scheme, reply, 'r) act"
    using keepsD [OF that, of s] assms(2) by (simp add: asked_def)
  from assms(1) show ?thesis
  proof (cases rule: friend_step.cases)
    case (acted e u act)
    with assms(2,3) show ?thesis
      by (cases act) (auto simp: other [OF ask_others(1)] other [OF ask_others(2)] other [OF ask_others(3)]
        other [OF ask_others(4)] other [OF ask_others(5)] other [OF ask_others(6)] dest: ask_request [OF assms(2)])
  next
    case elsewhere
    with assms(2,3) show ?thesis by (auto simp: asked_def ftables_def)
  qed
qed

interpretation link: caused_steps friend_step "linked a b" "\<lambda>ev s. accepts a b ev s \<or> accepts b a ev s" for a b
  by unfold_locales (rule friend_step_link)

interpretation ask: caused_steps friend_step "asked x y" "\<lambda>ev s. asks x y ev" for x y
  by unfold_locales (rule friend_step_ask)

lemma accepts_asked: "accepts x y ev s \<Longrightarrow> asked x y s"
  by (cases "(x, y, ev, s)" rule: accepts.cases) (auto simp: asked_def ftables_def decidable_by_def)

text \<open>
  C3. Nobody becomes a friend without both having agreed: if, in a run that begins without
  requests, \<open>b\<close> comes to stand among the friends of \<open>a\<close>, then one of the two made a request to
  the other, and later the other accepted it while it was pending and not expired. This
  holds whatever else is requested, whatever fails, and whatever the rest of the program does
  to its own tables in between.
\<close>

theorem friendship_by_consent:
  assumes "run_of friend_step s tr s'" and "friend_requests s = []" and "\<not> linked a b s" and "linked a b s'"
  shows "\<exists>before ev1 between ev2 after x y s1. tr = before @ ev1 # between @ ev2 # after \<and> (x, y) \<in> {(a, b), (b, a)} \<and>
     asks x y ev1 \<and> run_of friend_step s (before @ ev1 # between) s1 \<and> accepts x y ev2 s1"
proof -
  from link.run_caused [OF assms(1,3,4)] obtain pre ev2 after s1 x y where
    2: "tr = pre @ ev2 # after" "run_of friend_step s pre s1" "accepts x y ev2 s1" "(x, y) \<in> {(a, b), (b, a)}" by blast
  have "\<not> asked x y s" using assms(2) by (simp add: asked_def ftables_def)
  from ask.run_caused [OF 2(2) this accepts_asked [OF 2(3)]] obtain before ev1 between where
    "pre = before @ ev1 # between" "asks x y ev1" by blast
  with 2 show ?thesis
    by (intro exI [of _ before] exI [of _ ev1] exI [of _ between] exI [of _ ev2] exI [of _ after]
      exI [of _ x] exI [of _ y] exI [of _ s1]) simp
qed

section \<open>Two users at work\<close>

definition demo_friend_env :: "time \<Rightarrow> friend_env" where
  "demo_friend_env now = \<lparr>fd_admin = demo_admin_env now, fd_fails = (\<lambda>_. False)\<rparr>"

definition demo_friend_group :: "uid \<Rightarrow> friend_group" where
  "demo_friend_group uid = \<lparr>fg_Uid = uid, fg_Gid = ''g'' @ uid, fg_Name = ''mine'', fg_IsDefault = True, fg_Sort = 0,
     fg_CreateTime = 1, fg_DeleteTime = 0\<rparr>"

definition demo_friends :: friend_store where
  "demo_friends = admin_store.extend demo_empty
     (friend_store.fields [] [demo_friend_group ''a'', demo_friend_group ''b''] (\<lambda>_. True) [])"

definition friend_exec ::
  "(friend_env \<times> http_user option \<times> friend_action) list \<Rightarrow> 'a friend_store_scheme \<Rightarrow> 'a friend_store_scheme" where
  "friend_exec acts s = fold (\<lambda>(e, u, a). friend_exec1 e u a) acts s"

lemma run_acted: "run_of friend_step s (map Some acts) (friend_exec acts s)"
proof (induction acts rule: rev_induct)
  case (snoc x acts)
  obtain e u a where x: "x = (e, u, a)" by (cases x)
  have "run_of friend_step s (map Some acts @ [Some (e, u, a)]) (friend_exec1 e u a (friend_exec acts s))"
    by (rule run_of.onward [OF snoc.IH]) (rule acted)
  then show ?case by (simp add: friend_exec_def x)
qed (simp add: friend_exec_def run_of.start)

definition demo_ask :: "friend_env \<times> http_user option \<times> friend_action" where
  "demo_ask = (demo_friend_env 1000, demo_person ''a'', ActRequest (Some (''b'', ''ga'', ''my dear b'', ''hello'')))"

definition demo_agree :: "friend_env \<times> http_user option \<times> friend_action" where
  "demo_agree = (demo_friend_env 2000, demo_person ''b'', ActAccept (Some (''x'', [], [], [])))"

theorem friendship_by_consent_witness:
  "linked ''a'' ''b'' (friend_exec [demo_ask, demo_agree] demo_friends) \<and> \<not> linked ''a'' ''b'' (friend_exec [demo_agree, demo_ask] demo_friends) \<and>
   (\<exists>before ev1 between ev2 after x y s1. map Some [demo_ask, demo_agree] = before @ ev1 # between @ ev2 # after \<and>
     (x, y) \<in> {(''a'', ''b''), (''b'', ''a'')} \<and> asks x y ev1 \<and>
     run_of friend_step demo_friends (before @ ev1 # between) s1 \<and> accepts x y ev2 s1)"
proof (intro conjI)
  show l: "linked ''a'' ''b'' (friend_exec [demo_ask, demo_agree] demo_friends)" by code_simp
  show "\<not> linked ''a'' ''b'' (friend_exec [demo_agree, demo_ask] demo_friends)" by code_simp
  have "friend_requests demo_friends = []" "\<not> linked ''a'' ''b'' demo_friends" by code_simp+
  from friendship_by_consent [OF run_acted this l]
  show "\<exists>before ev1 between ev2 after x y s1. map Some [demo_ask, demo_agree] = before @ ev1 # between @ ev2 # after \<and>
     (x, y) \<in> {(''a'', ''b''), (''b'', ''a'')} \<and> asks x y ev1 \<and>
     run_of friend_step demo_friends (before @ ev1 # between) s1 \<and> accepts x y ev2 s1" .
qed

end
