(* ===== verification/FriendTables.thy ===== *)
theory FriendTables
  imports FriendSafety
begin

text \<open>
  The tables of friends and requests stay consistent, whatever is requested, whatever fails,
  and whatever the rest of the program does in between.
\<close>

section \<open>Consistent tables\<close>

definition own_group :: "uid \<Rightarrow> string \<Rightarrow> friend_group \<Rightarrow> bool" where
  "own_group uid gid g \<longleftrightarrow> fg_Uid g = uid \<and> fg_Gid g = gid \<and> fg_DeleteTime g = 0"

abbreviation pairs :: "user_friend list \<Rightarrow> (uid \<times> uid) set" where "pairs fs \<equiv> friend_pair ` set fs"

text \<open>The rows taken one by one, and both sides of each relation.\<close>

definition rows_ok :: "user_friend list \<Rightarrow> friend_group list \<Rightarrow> bool" where
  "rows_ok fs gs \<longleftrightarrow> distinct (map friend_pair fs) \<and>
     (\<forall>f \<in> set fs. fr_Uid f \<noteq> fr_FriendUid f \<and> (\<exists>g \<in> set gs. own_group (fr_Uid f) (fr_Gid f) g))"

definition two_sided :: "(uid \<times> uid) set \<Rightarrow> bool" where "two_sided P \<longleftrightarrow> (\<forall>(a, b) \<in> P. (b, a) \<in> P)"

definition request_ok :: "(uid \<times> uid) set \<Rightarrow> friend_request \<Rightarrow> bool" where
  "request_ok P q \<longleftrightarrow> fq_SenderUid q \<noteq> fq_ReceiverUid q \<and> fq_DeleteTime q = 0 \<and> fq_State q \<in> {0, 1, 2} \<and>
     (fq_State q = 2 \<longrightarrow> (fq_SenderUid q, fq_ReceiverUid q) \<in> P)"

definition request_pair :: "friend_request \<Rightarrow> uid \<times> uid" where "request_pair q = (fq_SenderUid q, fq_ReceiverUid q)"

definition keys_ok :: "friend_request list \<Rightarrow> bool" where
  "keys_ok qs \<longleftrightarrow> distinct (map fq_FrId qs) \<and> distinct (map request_pair qs)"

fun friends_ok :: "friend_tables \<Rightarrow> bool" where
  "friends_ok (fs, qs, gs) \<longleftrightarrow> rows_ok fs gs \<and> two_sided (pairs fs) \<and> keys_ok qs \<and> (\<forall>q \<in> set qs. request_ok (pairs fs) q)"

named_theorems ok_keep \<open>operations that keep the friend tables consistent\<close>

lemma rows_ok_map:
  assumes p: "\<And>f. friend_pair (m f) = friend_pair f" and gid: "\<And>f. fr_Gid (m f) = fr_Gid f"
  shows "rows_ok (map m fs) gs = rows_ok fs gs" and "pairs (map m fs) = pairs fs"
proof -
  have u: "fr_Uid (m f) = fr_Uid f" "fr_FriendUid (m f) = fr_FriendUid f" for f
    using p [of f] by (simp_all add: friend_pair_def)
  show "rows_ok (map m fs) gs = rows_ok fs gs" by (simp add: rows_ok_def o_def p u gid)
  show "pairs (map m fs) = pairs fs" by (simp add: image_image p)
qed

lemma keys_ok_map:
  assumes "\<And>q. q \<in> set qs \<Longrightarrow> fq_FrId (m q) = fq_FrId q" and "\<And>q. q \<in> set qs \<Longrightarrow> request_pair (m q) = request_pair q"
  shows "keys_ok (map m qs) = keys_ok qs"
proof -
  have "map fq_FrId (map m qs) = map fq_FrId qs" "map request_pair (map m qs) = map request_pair qs"
    using assms by simp_all
  then show ?thesis by (simp only: keys_ok_def)
qed

lemma ok_update_friends [ok_keep]:
  assumes "\<And>f. friend_pair (g f) = friend_pair f" and "\<And>f. fr_Gid (g f) = fr_Gid f"
  shows "keeps (on_tables friends_ok) (update_friends e P g)"
proof -
  let ?m = "\<lambda>f. if P f then g f else f"
  have "friend_pair (?m f) = friend_pair f" "fr_Gid (?m f) = fr_Gid f" for f using assms by simp_all
  from rows_ok_map [OF this] show ?thesis by (simp add: keeps_def ftables_def update_friends_def)
qed

lemma ok_UpdateState [ok_keep]:
  assumes "st = 0 \<or> st = 1"
  shows "keeps (on_tables friends_ok) (UpdateFriendRequestStateWithTx e frId st)"
proof -
  let ?m = "\<lambda>tm q. if fq_FrId q = frId then q\<lparr>fq_State := st, fq_ProcessedAt := tm\<rparr> else q"
  have "keys_ok (map (?m tm) qs) = keys_ok qs" for tm qs by (rule keys_ok_map) (simp_all add: request_pair_def)
  moreover have "request_ok P (q\<lparr>fq_State := st, fq_ProcessedAt := tm\<rparr>)" if "request_ok P q" for P tm q
    using that assms by (auto simp: request_ok_def)
  ultimately show ?thesis by (auto simp: keeps_def ftables_def UpdateFriendRequestStateWithTx_def)
qed

lemma ok_CreateOrUpdate:
  assumes ne: "sd \<noteq> rc"
  shows "keeps (on_tables friends_ok) (CreateOrUpdateFriendRequest e sd rc gid rem msg t)"
  unfolding CreateOrUpdateFriendRequest_def
proof (rule keepsI, intro wp_andThenI wp_queryI)
  fix s :: "'a friend_store_scheme" and existing
  assume s: "on_tables friends_ok s" and ex: "GetFriendRequestBySenderAndReceiver e sd rc s = Inr existing"
  show "wp (case existing of None \<Rightarrow> andThen (new_xid (fd_admin e)) (\<lambda>frId s.
           let q = \<lparr>fq_FrId = frId, fq_ReceiverUid = rc, fq_SenderUid = sd, fq_Gid = gid, fq_Remark = rem, fq_Message = msg, fq_State = 0,
                    fq_ExpiresAt = (if t = 0 then fd_now e + friend_request_ttl else t),
                    fq_ProcessedAt = 0, fq_CreateTime = fd_now e, fq_DeleteTime = 0\<rparr> in
           if fd_fails e WriteFriendRequest \<or> frId \<in> fq_FrId ` set (friend_requests s) \<or>
              (\<exists>v \<in> set (friend_requests s). fq_SenderUid v = sd \<and> fq_ReceiverUid v = rc)
           then (Inl FriendStoreError, s)
           else (Inr q, s\<lparr>friend_requests := friend_requests s @ [q]\<rparr>))
       | Some q \<Rightarrow> (\<lambda>s. let q' = q\<lparr>fq_State := 0, fq_Message := msg, fq_Remark := rem, fq_Gid := gid, fq_ExpiresAt := t, fq_ProcessedAt := 0\<rparr> in
           if fd_fails e WriteFriendRequest then (Inl FriendStoreError, s)
           else (Inr q', s\<lparr>friend_requests := map (\<lambda>v. if fq_FrId v = fq_FrId q then q' else v) (friend_requests s)\<rparr>)))
     (\<lambda>_. on_tables friends_ok) (on_tables friends_ok) s"
  proof (cases existing)
    case None
    with s ne show ?thesis
      by (auto simp: wp_def andThen_def new_xid_def Let_def ftables_def keys_ok_def request_ok_def request_pair_def)
  next
    case (Some q)
    let ?q = "q\<lparr>fq_State := 0, fq_Message := msg, fq_Remark := rem, fq_Gid := gid, fq_ExpiresAt := t, fq_ProcessedAt := 0\<rparr>"
    let ?qs = "map (\<lambda>v. if fq_FrId v = fq_FrId q then ?q else v) (friend_requests s)"
    have q: "q \<in> set (friend_requests s)" by (rule GetBySenderAndReceiver_D [OF ex [unfolded Some]])
    have "v = q" if "v \<in> set (friend_requests s)" "fq_FrId v = fq_FrId q" for v
      using s q that by (auto simp: ftables_def keys_ok_def distinct_map inj_on_def)
    then have "keys_ok ?qs = keys_ok (friend_requests s)" by (intro keys_ok_map) (auto simp: request_pair_def)
    then have "keys_ok ?qs" using s by (simp add: ftables_def)
    moreover have "\<forall>v \<in> set ?qs. request_ok (pairs (user_friends s)) v"
      using s q by (auto simp: ftables_def request_ok_def)
    ultimately show ?thesis using s by (simp add: Some wp_def Let_def ftables_def)
  qed
qed assumption

text \<open>Accepting: one side after the other, each in a group of its owner.\<close>

lemma friend_pair_row [simp]: "friend_pair (friend_row x y gid rem) = (x, y)"
  by (simp add: friend_row_def friend_pair_def)

lemma rows_ok_new:
  assumes "rows_ok fs gs" and "x \<noteq> y" and "(x, y) \<notin> pairs fs" and "\<exists>g \<in> set gs. own_group x gid g"
  shows "rows_ok (fs @ [friend_row x y gid rem]) gs" and "pairs (fs @ [friend_row x y gid rem]) = insert (x, y) (pairs fs)"
  using assms by (auto simp: rows_ok_def friend_row_def friend_pair_def)

lemma rows_ok_restored:
  assumes "rows_ok fs gs" and "(x, y) \<in> pairs fs" and g: "\<exists>g \<in> set gs. own_group x gid g"
  shows "rows_ok (map (\<lambda>f. if friend_pair f = (x, y) then f\<lparr>fr_DeleteTime := 0, fr_Gid := gid, fr_Remark := rem\<rparr> else f) fs) gs"
    and "pairs (map (\<lambda>f. if friend_pair f = (x, y) then f\<lparr>fr_DeleteTime := 0, fr_Gid := gid, fr_Remark := rem\<rparr> else f) fs) =
      insert (x, y) (pairs fs)"
proof -
  let ?m = "\<lambda>f. if friend_pair f = (x, y) then f\<lparr>fr_DeleteTime := 0, fr_Gid := gid, fr_Remark := rem\<rparr> else f"
  have p: "friend_pair (?m f) = friend_pair f" for f by (simp add: friend_pair_def)
  have "map friend_pair (map ?m fs) = map friend_pair fs" by (simp only: map_map o_def p)
  moreover have "fr_Uid h \<noteq> fr_FriendUid h \<and> (\<exists>g \<in> set gs. own_group (fr_Uid h) (fr_Gid h) g)" if "h \<in> set (map ?m fs)" for h
    using that assms by (auto simp: rows_ok_def friend_pair_def split: if_splits)
  ultimately show "rows_ok (map ?m fs) gs" using assms(1) by (simp only: rows_ok_def) blast
  have "pairs (map ?m fs) = pairs fs" by (simp only: set_map image_image p)
  then show "pairs (map ?m fs) = insert (x, y) (pairs fs)" using assms(2) by (simp only: insert_absorb)
qed

lemma wp_restore_side:
  assumes "rows_ok (user_friends s) (friend_groups s)" and "x \<noteq> y" and "\<exists>g \<in> set (friend_groups s). own_group x gid g"
    and Q: "\<And>fs. rows_ok fs (friend_groups s) \<Longrightarrow> pairs fs = insert (x, y) (pairs (user_friends s)) \<Longrightarrow> Q () (s\<lparr>user_friends := fs\<rparr>)"
  shows "wp (restore_side e x y gid rem) Q (\<lambda>_. True) s"
proof -
  show ?thesis
  proof (cases "(x, y) \<in> pairs (user_friends s)")
    case True
    let ?fs = "map (\<lambda>f. if friend_pair f = (x, y) then f\<lparr>fr_DeleteTime := 0, fr_Gid := gid, fr_Remark := rem\<rparr> else f) (user_friends s)"
    have "Q () (s\<lparr>user_friends := ?fs\<rparr>)" by (rule Q) (rule rows_ok_restored [OF assms(1) True assms(3)])+
    moreover have "restore_side e x y gid rem s =
        (if fd_fails e FindFriendRow \<or> fd_fails e WriteFriendRow then (Inl FriendStoreError, s) else (Inr (), s\<lparr>user_friends := ?fs\<rparr>))"
      using True by (simp add: restore_side_def andThen_def reading_def update_friends_def create_friends_def)
    ultimately show ?thesis by (simp add: wp_def)
  next
    case False
    have "Q () (s\<lparr>user_friends := user_friends s @ [friend_row x y gid rem]\<rparr>)"
      by (rule Q) (rule rows_ok_new [OF assms(1,2) False assms(3)])+
    with False show ?thesis by (simp add: restore_side_def wp_def andThen_def reading_def create_friends_def)
  qed
qed

lemma wp_relation_group:
  assumes "\<And>d. own_group sd (fg_Gid d) d \<Longrightarrow> d \<in> set (friend_groups s) \<Longrightarrow> Q d s"
  shows "wp (relation_group e rc sd gid) Q (\<lambda>_. True) s"
proof -
  have "wp (case g of None \<Rightarrow> refuse FriendStoreError | Some d \<Rightarrow> succeed d) Q (\<lambda>_. True) s"
    if "GetDefaultFriendGroup e sd s = Inr g" for g
    using that assms by (cases g) (auto simp: GetDefaultFriendGroup_def own_group_def find_Some_iff split: if_splits)
  then show ?thesis
    unfolding relation_group_def by (intro wp_andThenI wp_ifI wp_succeedI wp_queryI wp_checkI) simp_all
qed

text \<open>The two are related after it, and the table stays consistent.\<close>

definition related :: "uid \<Rightarrow> uid \<Rightarrow> friend_request list \<Rightarrow> friend_group list \<Rightarrow> (uid \<times> uid) set \<Rightarrow> 'a friend_store_scheme \<Rightarrow> bool" where
  "related x y qs gs P s \<longleftrightarrow> rows_ok (user_friends s) gs \<and> two_sided (pairs (user_friends s)) \<and>
     P \<subseteq> pairs (user_friends s) \<and> (y, x) \<in> pairs (user_friends s) \<and> friend_requests s = qs \<and> friend_groups s = gs"

lemma two_sided_insert: "two_sided P \<Longrightarrow> two_sided (insert (b, a) (insert (a, b) P))"
  by (auto simp: two_sided_def)

lemma wp_relate:
  assumes ok: "rows_ok (user_friends s) (friend_groups s)" "two_sided (pairs (user_friends s))"
    and ne: "fq_ReceiverUid q \<noteq> fq_SenderUid q" and g: "\<exists>g \<in> set (friend_groups s). own_group (fq_ReceiverUid q) gid g"
    and Q: "\<And>s1. related (fq_ReceiverUid q) (fq_SenderUid q) (friend_requests s) (friend_groups s) (pairs (user_friends s)) s1 \<Longrightarrow> Q () s1"
  shows "wp (relate e q gid rem) Q (\<lambda>_. True) s"
proof -
  let ?x = "fq_ReceiverUid q" and ?y = "fq_SenderUid q"
  have friends: "Q () s" if "(?x, ?y) \<in> pairs (user_friends s) \<or> (?y, ?x) \<in> pairs (user_friends s)"
    by (rule Q) (use ok that in \<open>auto simp: related_def two_sided_def\<close>)
  have checked: "(?x, ?y) \<in> pairs (user_friends s)" if "CheckFriendRelation re ?x ?y s = Inr (True, b)" for re b
    using that by (force simp: CheckFriendRelation_def Let_def friend_pair_def filter_empty_conv split: if_splits)
  have restore: "wp (RestoreFriendRelationWithTx e ?x ?y gid rem) Q (\<lambda>_. True) s"
    unfolding RestoreFriendRelationWithTx_def
    apply (intro wp_andThenI wp_relation_group)
    apply (rule wp_restore_side [OF ok(1) ne g])
    apply (rule wp_restore_side)
       apply simp
      apply (simp add: ne [symmetric])
     apply auto[1]
    apply (rule Q)
    apply (use ok(2) in \<open>auto simp: related_def two_sided_def\<close>)
    done
  have create: "wp (CreateFriendRelationWithTx e ?x ?y gid rem) Q (\<lambda>_. True) s"
    unfolding CreateFriendRelationWithTx_def
  proof (intro wp_andThenI wp_relation_group wp_readingI wp_ifI wp_succeedI)
    fix d assume d: "own_group ?y (fg_Gid d) d" "d \<in> set (friend_groups s)"
    {
      assume "\<not> fd_fails e FindFriendRow \<and> (\<exists>f \<in> set (user_friends s). live_friend ?x ?y f)"
      then have "(?x, ?y) \<in> pairs (user_friends s)" by (force simp: live_friend_def friend_pair_def)
      then show "Q () s" using friends by blast
    next
      let ?r1 = "friend_row ?x ?y gid rem" and ?r2 = "friend_row ?y ?x (fg_Gid d) []"
      have "Q () (s\<lparr>user_friends := user_friends s @ [?r1, ?r2]\<rparr>)"
        if new: "(?x, ?y) \<notin> pairs (user_friends s)" "(?y, ?x) \<notin> pairs (user_friends s)"
      proof (rule Q)
        note 1 = rows_ok_new [OF ok(1) ne new(1) g, of rem]
        have "\<exists>g \<in> set (friend_groups s). own_group ?y (fg_Gid d) g" using d by blast
        moreover have "(?y, ?x) \<notin> pairs (user_friends s @ [?r1])" using new ne by (simp add: 1(2))
        ultimately have "rows_ok ((user_friends s @ [?r1]) @ [?r2]) (friend_groups s)"
          using rows_ok_new(1) [OF 1(1), of ?y ?x "fg_Gid d" "[]"] ne [symmetric] by blast
        then have rows: "rows_ok (user_friends s @ [?r1, ?r2]) (friend_groups s)" by (simp only: append_assoc append_Cons append_Nil)
        have "pairs (user_friends s @ [?r1, ?r2]) = insert (?y, ?x) (insert (?x, ?y) (pairs (user_friends s)))" by auto
        with rows two_sided_insert [OF ok(2)]
        show "related ?x ?y (friend_requests s) (friend_groups s) (pairs (user_friends s)) (s\<lparr>user_friends := user_friends s @ [?r1, ?r2]\<rparr>)"
          unfolding related_def by auto
      qed
      then show "wp (create_friends e [?r1, ?r2]) Q (\<lambda>_. True) s"
        by (auto simp: wp_def create_friends_def friend_row_def friend_pair_def)
    }
  qed
  show ?thesis
    unfolding relate_def
    apply (intro wp_andThenI wp_orFailI wp_queryI wp_prodI wp_ifI wp_succeedI restore create TrueI)
    apply (rule friends, rule disjI1, rule checked)
    apply simp
    done
qed

lemma wp_receiver_group:
  assumes "\<And>gid'. \<exists>g \<in> set (friend_groups s). own_group uid gid' g \<Longrightarrow> Q gid' s"
  shows "wp (receiver_group e uid gid) Q (\<lambda>_. True) s"
proof -
  have d: "own_group uid (fg_Gid d) d \<and> d \<in> set (friend_groups s)" if "GetDefaultFriendGroup e uid s = Inr (Some d)" for d
    using that by (auto simp: GetDefaultFriendGroup_def own_group_def find_Some_iff split: if_splits)
  have n: "own_group uid gid' d \<and> d \<in> set (friend_groups s)" if "GetFriendGroupByGid e uid gid' s = Inr (Some d)" for d gid'
    using that by (auto simp: GetFriendGroupByGid_def own_group_def find_Some_iff split: if_splits)
  have rest: "wp (andThen (if gid' = [] then succeed ()
              else andThen (orFail (query (GetFriendGroupByGid e uid gid')) (ServerError ''group failed'')) (\<lambda>g.
                check (g \<noteq> None) (BadRequest ''no such group''))) (\<lambda>_. succeed gid')) Q (\<lambda>_. True) s"
    if "gid' = [] \<Longrightarrow> \<exists>g \<in> set (friend_groups s). own_group uid gid' g" for gid'
    by (intro wp_andThenI wp_ifI wp_succeedI wp_orFailI wp_queryI wp_checkI TrueI assms) (use that n in auto)
  show ?thesis
    unfolding receiver_group_def
    apply (rule wp_andThenI, rule wp_ifI)
     apply (rule wp_succeedI, rule rest, simp)
    apply (rule wp_andThenI, rule wp_orFailI, rule wp_queryI)
     apply (split option.split, intro conjI impI allI)
      apply (rule wp_refuseI, rule TrueI)
     apply (rule wp_succeedI, rule rest)
     apply (use d in blast)
    apply (rule TrueI)
    done
qed

text \<open>The decision itself: the request is marked, which the relation then justifies.\<close>

lemma wp_decide:
  assumes "\<And>ns. Q () (s\<lparr>friend_requests := map (\<lambda>v. if fq_FrId v = frId then v\<lparr>fq_State := st, fq_ProcessedAt := fd_now e\<rparr> else v)
      (friend_requests s), notifications := ns\<rparr>)"
  shows "wp (decide e u q frId st mark) Q (\<lambda>_. True) s"
proof -
  have n: "wp (UpdateMessageNotificationStateWithTx a uid r ty m) Q' (\<lambda>_. True) t"
    if "\<And>ns. Q' () (t\<lparr>notifications := ns\<rparr>)" for a uid r ty m Q' and t :: "'a friend_store_scheme"
    using that by (simp add: wp_def UpdateMessageNotificationStateWithTx_def write_notifications_def)
  have u: "wp (UpdateFriendRequestStateWithTx e frId st) Q' (\<lambda>_. True) t"
    if "Q' () (t\<lparr>friend_requests := map (\<lambda>v. if fq_FrId v = frId then v\<lparr>fq_State := st, fq_ProcessedAt := fd_now e\<rparr> else v)
      (friend_requests t)\<rparr>)" for Q' and t :: "'a friend_store_scheme"
    using that by (simp add: wp_def UpdateFriendRequestStateWithTx_def)
  show ?thesis
    unfolding decide_def Let_def
    by (intro wp_andThenI wp_orFailI u n) (use assms in simp)
qed

lemma map_all: "(\<And>v. v \<in> set xs \<Longrightarrow> R (m v)) \<Longrightarrow> \<forall>v \<in> set (map m xs). R v"
  by auto

lemma ok_accept_first:
  assumes s: "on_tables friends_ok s" and q: "decidable_by e (hu_Uid u) frId s q"
  shows "wp (accept_first e u q frId gid remark rid) (\<lambda>_. on_tables friends_ok) (\<lambda>_. True) s"
proof -
  let ?qs = "map (\<lambda>v. if fq_FrId v = frId then v\<lparr>fq_State := 2, fq_ProcessedAt := fd_now e\<rparr> else v) (friend_requests s)"
  let ?P = "pairs (user_friends s)"
  have q': "q \<in> set (friend_requests s)" "fq_FrId q = frId" "fq_ReceiverUid q = hu_Uid u" using q by (auto simp: decidable_by_def)
  have ok: "rows_ok (user_friends s) (friend_groups s)" "two_sided ?P" "keys_ok (friend_requests s)"
      "\<And>v. v \<in> set (friend_requests s) \<Longrightarrow> request_ok ?P v"
    using s by (auto simp: ftables_def)
  have only: "v = q" if "v \<in> set (friend_requests s)" "fq_FrId v = frId" for v
    using ok(3) q' that by (auto simp: keys_ok_def distinct_map inj_on_def)
  have keys: "keys_ok ?qs" using ok(3) by (subst keys_ok_map) (auto simp: request_pair_def)
  have done': "on_tables friends_ok s1"
    if "related (fq_ReceiverUid q) (fq_SenderUid q) ?qs (friend_groups s) ?P s1" for s1
  proof -
    have P: "?P \<subseteq> pairs (user_friends s1)" "(fq_SenderUid q, fq_ReceiverUid q) \<in> pairs (user_friends s1)"
      using that by (simp_all add: related_def)
    have "request_ok (pairs (user_friends s1)) (if fq_FrId v = frId then v\<lparr>fq_State := 2, fq_ProcessedAt := fd_now e\<rparr> else v)"
      if v: "v \<in> set (friend_requests s)" for v
      using ok(4) [OF v] P only [OF v] by (auto simp: request_ok_def)
    then have "\<forall>v \<in> set ?qs. request_ok (pairs (user_friends s1)) v" by (rule map_all)
    with that keys show ?thesis by (auto simp: related_def ftables_def)
  qed
  have up: "keeps (on_tables friends_ok) (TryUpgradeGroupPrivateRoomToPrivateTx a rid x y)" for a x y
    by (rule table_frame) (rule ft_keep)
  show ?thesis
    unfolding accept_first_def
  proof (intro wp_andThenI wp_decide wp_receiver_group)
    fix ns gid' assume g: "\<exists>g \<in> set (friend_groups (s\<lparr>friend_requests := ?qs, notifications := ns\<rparr>)). own_group (hu_Uid u) gid' g"
    show "wp (relate e q gid' (if remark = [] then fq_Remark q else remark))
      (\<lambda>_. wp (if rid = [] then succeed None
               else orFail (TryUpgradeGroupPrivateRoomToPrivateTx (fd_admin e) rid (fq_ReceiverUid q) (fq_SenderUid q))
                 (ServerError ''room failed'')) (\<lambda>_. on_tables friends_ok) (\<lambda>_. True)) (\<lambda>_. True)
      (s\<lparr>friend_requests := ?qs, notifications := ns\<rparr>)"
    proof (rule wp_relate)
      show "fq_ReceiverUid q \<noteq> fq_SenderUid q" using ok(4) [OF q'(1)] by (auto simp: request_ok_def)
      fix s1 assume "related (fq_ReceiverUid q) (fq_SenderUid q) (friend_requests (s\<lparr>friend_requests := ?qs, notifications := ns\<rparr>))
          (friend_groups (s\<lparr>friend_requests := ?qs, notifications := ns\<rparr>)) (pairs (user_friends (s\<lparr>friend_requests := ?qs, notifications := ns\<rparr>))) s1"
      then have "on_tables friends_ok s1" by (intro done') simp
      then show "wp (if rid = [] then succeed None
               else orFail (TryUpgradeGroupPrivateRoomToPrivateTx (fd_admin e) rid (fq_ReceiverUid q) (fq_SenderUid q))
                 (ServerError ''room failed'')) (\<lambda>_. on_tables friends_ok) (\<lambda>_. True) s1"
        by (intro wp_ifI wp_succeedI wp_orFailI wp_keeps [OF up]) simp_all
    qed (use ok g q'(3) in simp_all)
  qed
qed

lemma ok_accept_tx:
  assumes "on_tables friends_ok s" and "decidable_by e (hu_Uid u) frId s q"
  shows "on_tables friends_ok (snd (accept_tx e u q frId gid remark rid s))"
  using accept_tx_tables [of e u q frId gid remark rid s] assms(1) ok_accept_first [OF assms, of gid remark rid]
  by (auto simp: wp_def split: sum.splits prod.splits)

lemma wp_snd: "I (snd (m s)) \<Longrightarrow> (\<And>a s1. I s1 \<Longrightarrow> Q a s1) \<Longrightarrow> (\<And>s1. I s1 \<Longrightarrow> E s1) \<Longrightarrow> wp m Q E s"
  by (auto simp: wp_def split: sum.splits prod.splits)

lemma ok_accept [ok_keep]: "keeps (on_tables friends_ok) (AcceptFriendRequest e user body)"
  unfolding AcceptFriendRequest_def
  apply (rule keepsI)
  apply (rule wp_andThenI wp_GetUserI wp_parsedI wp_prodI wp_decidable | assumption)+
     apply (rule wp_snd [where I = "on_tables friends_ok"], rule ok_accept_tx, assumption, assumption)
      apply (rule wp_prodI)
      apply (rule keeps_wp, ((rule table_frame, rule ft_basic ft_push_decision) | rule keep | assumption)+)+
  done

lemma ok_request [ok_keep]: "keeps (on_tables friends_ok) (CreateFriendRequest e user body)"
  unfolding CreateFriendRequest_def
  apply (rule keepsI)
  apply (rule wp_andThenI wp_GetUserI wp_parsedI wp_prodI wp_checkI wp_orFailI wp_queryI | assumption)+
         apply (rule wp_keeps [OF ok_CreateOrUpdate], simp, assumption)
          apply (rule keeps_wp, ((rule table_frame, rule ft_rooms) | rule keep | assumption)+)+
  done

lemma ok_others [ok_keep]:
  "keeps (on_tables friends_ok) (RejectFriendRequest e user b2)" "keeps (on_tables friends_ok) (DeleteFriend e user b3)"
  "keeps (on_tables friends_ok) (FriendRemarkUpdate e user b4)" "keeps (on_tables friends_ok) (StartFriendChat e user b5)"
  "keeps (on_tables friends_ok) (StartGroupPrivateChat e user b6)"
  unfolding RejectFriendRequest_def DeleteFriend_def DeleteFriendWithTx_def FriendRemarkUpdate_def
    UpdateFriendRemark_def decidable_def decide_def Let_def
  by (((rule table_frame, rule ft_basic ft_rooms ft_chats ft_push_decision) | rule keep ok_keep table_keep
      | (simp add: friend_pair_def)[1])+)

lemma rows_ok_mono: "rows_ok fs gs \<Longrightarrow> set gs \<subseteq> set gs' \<Longrightarrow> rows_ok fs gs'"
  unfolding rows_ok_def by (metis subsetD)

lemma friend_step_ok:
  assumes "friend_step ev s s'" and "on_tables friends_ok s"
  shows "on_tables friends_ok s'"
  using assms(1)
proof (cases rule: friend_step.cases)
  case (acted e u act)
  have "on_tables friends_ok (friend_exec1 e u act s)"
    by (cases act) (simp_all only: friend_exec1.simps, (rule keepsD [where I = "on_tables friends_ok"], rule ok_keep, rule assms(2))+)
  with acted show ?thesis by simp
next
  case elsewhere
  with assms(2) rows_ok_mono [OF _ elsewhere(4)] show ?thesis by (simp add: ftables_def)
qed

interpretation friend_tables: safe_steps friend_step "on_tables friends_ok"
  by unfold_locales (rule friend_step_ok)

text \<open>
  C11. In every run that begins with empty tables of friends and requests: two users are related by at most one
  row on each side, and by a row on both sides or none; nobody is related to himself or asks
  himself; every row is in a group that exists and belongs to its owner; there is at most one
  request from one user to another, whose state is waiting, rejected or accepted, and an
  accepted one belongs to a relation.
\<close>

theorem friend_tables_invariant:
  assumes "run_of friend_step s tr s'" and "user_friends s = []" and "friend_requests s = []"
  shows "distinct (map friend_pair (user_friends s')) \<and>
    (\<forall>f \<in> set (user_friends s'). fr_Uid f \<noteq> fr_FriendUid f \<and> (fr_FriendUid f, fr_Uid f) \<in> pairs (user_friends s') \<and>
       (\<exists>g \<in> set (friend_groups s'). fg_Uid g = fr_Uid f \<and> fg_Gid g = fr_Gid f \<and> fg_DeleteTime g = 0)) \<and>
    distinct (map request_pair (friend_requests s')) \<and>
    (\<forall>q \<in> set (friend_requests s'). fq_SenderUid q \<noteq> fq_ReceiverUid q \<and> fq_State q \<in> {0, 1, 2} \<and>
       (fq_State q = 2 \<longrightarrow> request_pair q \<in> pairs (user_friends s')))"
proof -
  have "on_tables friends_ok s"
    using assms(2,3) by (simp add: ftables_def rows_ok_def two_sided_def keys_ok_def)
  from friend_tables.run_kept [OF assms(1) this] show ?thesis
    by (force simp: ftables_def rows_ok_def two_sided_def keys_ok_def request_ok_def own_group_def request_pair_def friend_pair_def)
qed

theorem friend_tables_invariant_witness:
  "map friend_pair (user_friends (friend_exec [demo_ask, demo_agree] demo_friends)) = [(''b'', ''a''), (''a'', ''b'')] \<and>
   distinct (map friend_pair (user_friends (friend_exec [demo_ask, demo_agree] demo_friends)))"
proof
  show "map friend_pair (user_friends (friend_exec [demo_ask, demo_agree] demo_friends)) = [(''b'', ''a''), (''a'', ''b'')]" by code_simp
  have "user_friends demo_friends = []" "friend_requests demo_friends = []" by code_simp+
  from friend_tables_invariant [OF run_acted this]
  show "distinct (map friend_pair (user_friends (friend_exec [demo_ask, demo_agree] demo_friends)))" by blast
qed

end
