(* ===== verification/FriendChats.thy ===== *)
theory FriendChats
  imports FriendTables
begin

text \<open>
  Rooms of two next to all other rooms: friend requests and room requests taken together, the
  columns they keep typed, and what that means for who may write to whom.
\<close>

section \<open>Both kinds of requests\<close>

datatype desk_request = FriendReq friend_action | RoomReq room_request

fun desk_exec1 :: "codecs \<Rightarrow> friend_env \<Rightarrow> http_user option \<Rightarrow> desk_request \<Rightarrow> 'a friend_store_scheme \<Rightarrow> 'a friend_store_scheme" where
  "desk_exec1 co e u (FriendReq a) s = friend_exec1 e u a s"
| "desk_exec1 co e u (RoomReq q) s = room_exec1 co (fd_admin e) u q s"

definition desk_exec ::
  "codecs \<Rightarrow> (friend_env \<times> http_user option \<times> desk_request) list \<Rightarrow> 'a friend_store_scheme \<Rightarrow> 'a friend_store_scheme" where
  "desk_exec co reqs s = fold (\<lambda>(e, u, q). desk_exec1 co e u q) reqs s"

inductive desk_step :: "codecs \<Rightarrow> friend_env \<times> http_user option \<times> desk_request \<Rightarrow> 'a friend_store_scheme \<Rightarrow> 'a friend_store_scheme \<Rightarrow> bool"
  for co where
  "desk_step co (e, u, q) s (desk_exec1 co e u q s)"

inductive_simps desk_step_iff: "desk_step co ev s s'"

lemma run_desk: "run_of (desk_step co) s reqs (desk_exec co reqs s)"
proof (induction reqs rule: rev_induct)
  case (snoc x reqs)
  obtain e u q where x: "x = (e, u, q)" by (cases x)
  have "run_of (desk_step co) s (reqs @ [(e, u, q)]) (desk_exec1 co e u q (desk_exec co reqs s))"
    by (rule run_of.onward [OF snoc.IH]) (rule desk_step.intros)
  then show ?case by (simp add: desk_exec_def x)
qed (simp add: desk_exec_def run_of.start)

section \<open>Friend requests and the tables of rooms\<close>

lemma core_friends [simp]:
  "core (s\<lparr>user_friends := fs\<rparr>) = core s" "core (s\<lparr>friend_requests := qs\<rparr>) = core s"
  "core (s\<lparr>stranger_chats := cs\<rparr>) = core s"
  by (simp_all add: core_def)

lemma core_friend_rows [core_keep]:
  "keeps (core_is c) (create_friends e new)" "keeps (core_is c) (update_friends e P f)"
  "keeps (core_is c) (UpdateFriendRequestStateWithTx e frId st)"
  by (rule keepsI_eq, simp add: create_friends_def update_friends_def UpdateFriendRequestStateWithTx_def)+

lemma core_CreateOrUpdateFriendRequest [core_keep]:
  "keeps (core_is c) (CreateOrUpdateFriendRequest e sd rc gid rem msg t)"
  unfolding CreateOrUpdateFriendRequest_def by (intro keep core_keep) (simp_all add: keeps_def Let_def)

lemma core_verify_row [core_keep]: "keeps (core_is c) (create_verify_row a rid q sender)"
  unfolding create_verify_row_def by (intro keep core_keep) (simp add: keeps_def Let_def)

lemma core_dto [core_keep]: "keeps (core_is c) (GetUserRoomSessionDtoByRid re uid rid)"
  by (rule keepsI_eq) (simp add: GetUserRoomSessionDtoByRid_def GetLastMessagesByRidList_def
      getLastMessagesForUserSessions_def store_last_messages_def Let_def split: list.splits sum.splits prod.splits option.splits)

lemma core_stranger_chat [core_keep]: "keeps (core_is c) (change (\<lambda>s. s\<lparr>stranger_chats := f s\<rparr>))"
  by (rule keepsI_eq) (simp add: change_def)

lemma core_friend_ops [core_keep]:
  "keeps (core_is c) (relation_group e rc sd gid)" "keeps (core_is c) (receiver_group e uid gid)"
  "keeps (core_is c) (restore_side e uid fuid gid rem)"
  "keeps (core_is c) (friend_session a uid rid)" "keeps (core_is c) (open_session_tx a uid rid)"
  "keeps (core_is c) (renew_notification a uid ty r ct)" "keeps (core_is c) (push_notification a uid ty r)"
  unfolding relation_group_def receiver_group_def restore_side_def friend_session_def open_session_tx_def
    renew_notification_def push_notification_def
  by ((rule core_basic | rule keep core_keep)+)

lemma core_friend_ops2 [core_keep]:
  "keeps (core_is c) (CreateFriendRelationWithTx e rc sd gid rem)" "keeps (core_is c) (RestoreFriendRelationWithTx e rc sd gid rem)"
  "keeps (core_is c) (relate e q gid rem)" "keeps (core_is c) (decide e u q frId st mk)"
  "keeps (core_is c) (push_decision e u q frId)" "keeps (core_is c) (decidable e u frId)"
  unfolding CreateFriendRelationWithTx_def RestoreFriendRelationWithTx_def relate_def decide_def push_decision_def decidable_def Let_def
  by ((rule core_basic | rule keep core_keep)+)

lemma core_friend_handlers [core_keep]:
  "keeps (core_is c) (CreateFriendRequest e user b1)" "keeps (core_is c) (RejectFriendRequest e user b2)"
  "keeps (core_is c) (DeleteFriend e user b3)" "keeps (core_is c) (FriendRemarkUpdate e user b4)"
  unfolding CreateFriendRequest_def RejectFriendRequest_def DeleteFriend_def DeleteFriendWithTx_def FriendRemarkUpdate_def
    UpdateFriendRemark_def
  by ((rule core_basic | rule keep core_keep)+)

section \<open>Typed columns\<close>

lemma typed_private_row:
  assumes "type \<in> {RoomTypePrivate, RoomTypeGroupPrivate, RoomTypeSelfChat}" and "RuneCount name \<le> 36"
  shows "keeps typed_ok (create_private_row a (private_room uid type n allow from name))"
proof -
  have "room_typed (private_room uid type n allow from name i tm rid)" for i tm rid
    using assms by (auto simp: room_typed_def private_room_def or_default_def room_consts RuneCount_def)
  then show ?thesis
    by (auto simp: keeps_def create_private_row_def andThen_def new_xid_def Let_def typed_ok simp del: typed.simps)
qed

lemma typed_room_users [typed_keep]: "keeps typed_ok (create_room_users a rid uids)"
  by (auto simp: keeps_def create_room_users_def typed_ok list_all_iff user_typed_def fresh_room_user_def role_typed_def RuneCount_def
      simp del: typed.simps)

lemma typed_new_rooms [typed_keep]:
  "keeps typed_ok (createPrivateRoomWithConfig a uids allow)" "keeps typed_ok (createGroupPrivateRoomWithConfig a uids from)"
  "keeps typed_ok (createRoomWithMuteAndUsers a (private_room uid RoomTypeSelfChat 1 False [] ''my notes'') uids)"
  unfolding createPrivateRoomWithConfig_def createGroupPrivateRoomWithConfig_def createRoomWithMuteAndUsers_def
  by ((rule keep typed_keep typed_private_row | simp add: RuneCount_def)+)

lemma typed_to_private: "room_typed r \<Longrightarrow> room_typed (to_private r)"
  by (auto simp: room_typed_def to_private_def room_consts)

lemma typed_upgrades [typed_keep]: "keeps typed_ok (TryUpgradeGroupPrivateRoomToPrivateTx a rid x y)"
  unfolding keeps_def TryUpgradeGroupPrivateRoomToPrivateTx_def
  by (auto intro!: typed_upd_room typed_to_private simp del: core_upd_room typed.simps split: option.splits)

lemma typed_Upgrade: "typed_ok s \<Longrightarrow> typed_ok (UpgradeGroupPrivateToPrivate a x y s)"
  unfolding UpgradeGroupPrivateToPrivate_def Let_def
  by (auto intro!: typed_upd_room typed_to_private simp del: core_upd_room typed.simps)

lemma typed_chats [typed_keep]:
  "keeps typed_ok (StartFriendChat e user b1)" "keeps typed_ok (StartGroupPrivateChat e user b2)"
  unfolding StartFriendChat_def StartGroupPrivateChat_def OpenPrivateChat_def OpenGroupPrivateChat_def EnsureSelfChatSession_def
    EnsurePrivateChatSession_def ensureSessionForUserInPrivateRoom_def room_or_new_def answered_def
  by (((rule typed_frame, rule core_basic core_stranger_chat core_dto core_friend_ops) | rule keep typed_keep)+)

lemma core_rolled_back [simp]: "core (s\<lparr>xid_next := x, seq_keys_of := k\<rparr>) = core s"
  by (simp add: core_def)

text \<open>A property of the rooms that both parts of an acceptance and the upgrade between them keep.\<close>

lemma keeps_accept_tx:
  assumes first: "keeps (\<lambda>s. C (core s)) (accept_first e u q frId gid remark rid :: ('a friend_store_scheme, reply, room option) act)"
    and second: "\<And>named. keeps (\<lambda>s. C (core s)) (accept_second e q named :: ('a friend_store_scheme, reply, rid \<times> mid) act)"
    and up: "\<And>a x y s. C (core s) \<Longrightarrow> C (core (UpgradeGroupPrivateToPrivate a x y (s :: 'a friend_store_scheme)))"
  shows "keeps (\<lambda>s. C (core s)) (accept_tx e u q frId gid remark rid :: ('a friend_store_scheme, reply, rid \<times> mid) act)"
  unfolding keeps_def
proof (intro allI impI)
  fix s :: "'a friend_store_scheme" assume s: "C (core s)"
  obtain res s1 where 1: "accept_first e u q frId gid remark rid s = (res, s1)" by fastforce
  with keepsD [OF first s] have c1: "C (core s1)" by simp
  show "C (core (snd (accept_tx e u q frId gid remark rid s)))"
  proof (cases res)
    case (Inl r)
    with 1 s show ?thesis by (simp add: accept_tx_def)
  next
    case (Inr named)
    let ?up = "if named = None then UpgradeGroupPrivateToPrivate (fd_admin e) (fq_ReceiverUid q) (fq_SenderUid q) else id"
    have cup: "C (core (?up t))" if "C (core t)" for t :: "'a friend_store_scheme" using that up by simp
    obtain res2 s2 where 2: "accept_second e q named (?up s1) = (res2, s2)" by fastforce
    with keepsD [OF second cup [OF c1], of named] have "C (core s2)" by simp
    with 1 2 Inr cup [OF s] show ?thesis
      by (cases res2; cases "re_fails (fd_room e) CommitRoom") (simp_all add: accept_tx_def Let_def)
  qed
qed

lemma typed_accept [typed_keep]: "keeps typed_ok (AcceptFriendRequest e user b)"
proof -
  have first: "keeps typed_ok (accept_first e u q frId gid remark rid)" for u q frId gid remark rid
    unfolding accept_first_def Let_def
    by (((rule typed_frame, rule core_friend_ops core_friend_ops2) | rule keep typed_keep)+)
  have second: "keeps typed_ok (accept_second e q named)" for q named
    unfolding accept_second_def Let_def
    by (((rule typed_frame, rule core_basic core_friend_ops core_verify_row core_create_content_row) | rule keep typed_keep)+)
  have tx: "keeps typed_ok (accept_tx e u q frId gid remark rid)" for u q frId gid remark rid
    by (rule keeps_accept_tx [OF first second typed_Upgrade])
  show ?thesis
    unfolding AcceptFriendRequest_def
    by (((rule typed_frame, rule core_basic core_friend_ops2) | rule keep tx typed_keep)+)
qed

lemma typed_friend_exec1: "typed_ok s \<Longrightarrow> typed_ok (friend_exec1 e u a s)"
  by (cases a) (simp_all only: friend_exec1.simps,
    (rule keepsD [where I = typed_ok], (rule typed_keep | (rule typed_frame, rule core_friend_handlers)), assumption)+)

lemma typed_desk_step: "desk_step co ev s s' \<Longrightarrow> typed_ok s \<Longrightarrow> typed_ok s'"
  unfolding desk_step_iff by (metis desk_exec1.simps desk_request.exhaust typed_friend_exec1 typed_exec1)

interpretation typed_desk: safe_steps "desk_step co" typed_ok for co
  by unfold_locales (rule typed_desk_step)

section \<open>Who may write to whom\<close>


text \<open>Friends, until one of them ends it; the other writes on.\<close>

definition as_desk :: "friend_env \<times> http_user option \<times> friend_action \<Rightarrow> friend_env \<times> http_user option \<times> desk_request" where
  "as_desk x = (case x of (e, u, a) \<Rightarrow> (e, u, FriendReq a))"

definition demo_part :: "friend_env \<times> http_user option \<times> friend_action" where
  "demo_part = (demo_friend_env 3000, demo_person ''b'', ActDelete (Some ''a''))"

definition demo_parted :: friend_store where
  "demo_parted = desk_exec demo_codecs (map as_desk [demo_ask, demo_agree, demo_part]) demo_friends"

definition demo_private_rid :: rid where "demo_private_rid = r_Rid (hd (rooms demo_parted))"


end
