(* ===== verification/Paths.thy ===== *)
theory Paths
  imports Handlers
begin

text \<open>
  File names as \<open>path/filepath\<close> of Go treats them on Unix, and the texts around them: the
  components of a path with \<open>.\<close> and \<open>..\<close> resolved, \<open>Join\<close>, \<open>Base\<close>, \<open>Ext\<close>, and numbers in
  decimal.
\<close>

section \<open>Splitting and joining\<close>

fun split_at :: "char \<Rightarrow> string \<Rightarrow> string list" where
  "split_at c [] = [[]]"
| "split_at c (x # xs) = (if x = c then [] # split_at c xs
     else case split_at c xs of [] \<Rightarrow> [[x]] | y # ys \<Rightarrow> (x # y) # ys)"

fun joined :: "string \<Rightarrow> string list \<Rightarrow> string" where
  "joined sep [] = []"
| "joined sep [x] = x"
| "joined sep (x # y # zs) = x @ sep @ joined sep (y # zs)"

lemma split_at_last: "c \<notin> set x \<Longrightarrow> split_at c x = [x]"
  by (induction x) auto

lemma split_at_append: "c \<notin> set x \<Longrightarrow> split_at c (x @ c # rest) = x # split_at c rest"
  by (induction x) auto

lemma split_at_joined: "xs \<noteq> [] \<Longrightarrow> \<forall>x \<in> set xs. c \<notin> set x \<Longrightarrow> split_at c (joined [c] xs) = xs"
  by (induction "[c]" xs rule: joined.induct) (simp_all add: split_at_last split_at_append)

lemma split_at_free: "x \<in> set (split_at c s) \<Longrightarrow> c \<notin> set x"
  by (induction s arbitrary: x) (auto split: if_splits list.splits)

section \<open>Paths\<close>

text \<open>Whether it begins at the root, and the components.\<close>

type_synonym path = "bool \<times> string list"

fun resolve :: "bool \<Rightarrow> string list \<Rightarrow> string list \<Rightarrow> string list" where
  "resolve r st [] = rev st"
| "resolve r st (p # ps) =
     (if p = [] \<or> p = ''.'' then resolve r st ps
      else if p = ''..''
      then (case st of
              [] \<Rightarrow> if r then resolve r [] ps else resolve r [p] ps
            | q # st' \<Rightarrow> if q = ''..'' then resolve r (p # st) ps else resolve r st' ps)
      else resolve r (p # st) ps)"

definition rooted :: "string \<Rightarrow> bool" where "rooted s \<longleftrightarrow> take 1 s = ''/''"

definition Clean :: "string \<Rightarrow> path" where "Clean s = (rooted s, resolve (rooted s) [] (split_at CHR ''/'' s))"

definition Join :: "string list \<Rightarrow> path" where "Join xs = Clean (joined ''/'' (filter (\<lambda>x. x \<noteq> []) xs))"

definition show_path :: "path \<Rightarrow> string" where
  "show_path p = (if fst p then ''/'' else if snd p = [] then ''.'' else []) @ joined ''/'' (snd p)"

definition under :: "path \<Rightarrow> string \<Rightarrow> path" where "under p x = (fst p, snd p @ [x])"

definition Base :: "string \<Rightarrow> string" where
  "Base s = (if s = [] then ''.''
     else let t = rev (dropWhile (\<lambda>c. c = CHR ''/'') (rev s));
              u = rev (takeWhile (\<lambda>c. c \<noteq> CHR ''/'') (rev t))
          in if u = [] then ''/'' else u)"

definition Ext :: "string \<Rightarrow> string" where
  "Ext s = (let u = rev (takeWhile (\<lambda>c. c \<noteq> CHR ''/'') (rev s))
     in if CHR ''.'' \<in> set u then CHR ''.'' # rev (takeWhile (\<lambda>c. c \<noteq> CHR ''.'') (rev u)) else [])"

text \<open>A name that is one component of a path.\<close>

definition plain :: "string \<Rightarrow> bool" where
  "plain x \<longleftrightarrow> x \<noteq> [] \<and> x \<noteq> ''.'' \<and> x \<noteq> ''..'' \<and> CHR ''/'' \<notin> set x"

lemma resolve_plain: "\<forall>p \<in> set ps. plain p \<Longrightarrow> resolve r st ps = rev st @ ps"
  by (induction ps arbitrary: st) (simp_all add: plain_def)

lemma resolve_append: "\<forall>p \<in> set qs. plain p \<Longrightarrow> resolve r st (ps @ qs) = resolve r st ps @ qs"
  by (induction r st ps rule: resolve.induct) (auto simp: resolve_plain split: list.splits)

lemma split_at_snoc: "c \<notin> set y \<Longrightarrow> split_at c (x @ c # y) = split_at c x @ [y]"
proof (induction x)
  case (Cons a x)
  have "split_at c x \<noteq> []" by (cases x) (auto split: list.splits)
  with Cons show ?case by (cases "split_at c x") simp_all
qed (simp add: split_at_last)

lemma rooted_append: "x \<noteq> [] \<Longrightarrow> rooted (x @ y) = rooted x"
  by (cases x) (simp_all add: rooted_def)

lemma Clean_snoc:
  assumes "x \<noteq> []" and "plain y"
  shows "Clean (x @ CHR ''/'' # y) = under (Clean x) y"
  using assms split_at_snoc [of "CHR ''/''" y x] resolve_append [of "[y]" "rooted x" "[]" "split_at CHR ''/'' x"]
  by (simp add: Clean_def under_def rooted_append plain_def)

lemma joined_snoc: "xs \<noteq> [] \<Longrightarrow> joined sep (xs @ [y]) = joined sep xs @ sep @ y"
  by (induction sep xs rule: joined.induct) simp_all

lemma joined_ne: "x \<noteq> [] \<Longrightarrow> joined sep (x # xs) \<noteq> []"
  by (cases xs) simp_all

lemma Join_plain:
  assumes "d \<noteq> []" and "\<forall>y \<in> set ys. plain y"
  shows "Join (d # ys) = (fst (Clean d), snd (Clean d) @ ys)"
  using assms(2)
proof (induction ys rule: rev_induct)
  case (snoc y ys)
  have ne: "filter (\<lambda>x. x \<noteq> []) (ys @ [y]) = filter (\<lambda>x. x \<noteq> []) ys @ [y]" using snoc.prems by (simp add: plain_def)
  have "Join (d # ys @ [y]) = Clean (joined ''/'' ((d # filter (\<lambda>x. x \<noteq> []) ys) @ [y]))"
    using assms(1) ne by (simp only: Join_def) simp
  also have "\<dots> = under (Join (d # ys)) y"
    using assms(1) snoc.prems by (subst joined_snoc) (simp_all add: Clean_snoc joined_ne Join_def)
  finally show ?case using snoc by (simp add: under_def)
qed (use assms(1) in \<open>simp add: Join_def\<close>)

section \<open>Nothing above the root\<close>

lemma resolve_subset: "set (resolve r st ps) \<subseteq> set st \<union> {p \<in> set ps. p \<noteq> [] \<and> p \<noteq> ''.''}"
proof (induction r st ps rule: resolve.induct)
  case (2 r st p ps)
  consider "p = [] \<or> p = ''.''" | "p = ''..''" | "\<not> (p = [] \<or> p = ''.'')" "p \<noteq> ''..''" by blast
  then show ?case
  proof cases
    case 2
    with "2.IH" show ?thesis by (cases st; cases r) (auto split: if_splits)
  qed (use "2.IH" in auto)
qed simp

lemma Clean_components: "p \<in> set (snd (Clean s)) \<Longrightarrow> CHR ''/'' \<notin> set p \<and> p \<noteq> [] \<and> p \<noteq> ''.''"
  using resolve_subset [of "rooted s" "[]" "split_at CHR ''/'' s"] split_at_free [of p "CHR ''/''" s]
  by (auto simp: Clean_def)

text \<open>A rooted path has no \<open>..\<close> left, and reads back as it was written.\<close>

lemma resolve_rooted: "''..'' \<notin> set st \<Longrightarrow> ''..'' \<notin> set (resolve True st ps)"
proof (induction True st ps rule: resolve.induct)
  case (2 st p ps)
  then show ?case by (cases st) auto
qed simp

lemma Clean_rooted: "rooted s \<Longrightarrow> \<forall>p \<in> set (snd (Clean s)). plain p"
  using Clean_components [of _ s] resolve_rooted [of "[]" "split_at CHR ''/'' s"] by (auto simp: plain_def Clean_def)

lemma split_at_sep: "split_at c (x @ c # y) = split_at c x @ split_at c y"
proof (induction x)
  case (Cons a x)
  have "split_at c x \<noteq> []" by (cases x) (auto split: list.splits)
  with Cons show ?case by (cases "split_at c x") simp_all
qed simp

lemma resolve_drop: "\<forall>p \<in> set qs. plain p \<or> p = [] \<or> p = ''.'' \<Longrightarrow> resolve r st (ps @ qs) = resolve r st ps @ filter plain qs"
proof (induction r st ps rule: resolve.induct)
  case (1 r st)
  then show ?case by (induction qs arbitrary: st) (auto simp: plain_def)
next
  case (2 r st p ps)
  consider "p = [] \<or> p = ''.''" | "p = ''..''" | "\<not> (p = [] \<or> p = ''.'')" "p \<noteq> ''..''" by blast
  then show ?case
  proof cases
    case 2
    with "2.IH" "2.prems" show ?thesis by (cases st; cases r) auto
  qed (use "2.IH" "2.prems" in auto)
qed

lemma split_show:
  assumes "\<forall>p \<in> set cs. plain p"
  shows "\<forall>q \<in> set (split_at CHR ''/'' (show_path (r, cs))). plain q \<or> q = [] \<or> q = ''.''"
    and "filter plain (split_at CHR ''/'' (show_path (r, cs))) = cs"
proof -
  have "cs \<noteq> [] \<Longrightarrow> split_at CHR ''/'' (joined ''/'' cs) = cs"
    using assms by (intro split_at_joined) (auto simp: plain_def)
  then show "\<forall>q \<in> set (split_at CHR ''/'' (show_path (r, cs))). plain q \<or> q = [] \<or> q = ''.''"
    and "filter plain (split_at CHR ''/'' (show_path (r, cs))) = cs"
    using assms by (cases "cs = []"; cases r; auto simp: show_path_def plain_def)+
qed

lemma show_path_ne: "\<forall>p \<in> set (snd p). plain p \<Longrightarrow> show_path p \<noteq> []"
  by (cases "snd p"; cases "fst p") (auto simp: show_path_def plain_def dest: joined_ne)

lemma rooted_show: "\<forall>p \<in> set cs. plain p \<Longrightarrow> rooted (show_path (r, cs)) = r"
proof (cases cs)
  case (Cons x xs)
  assume "\<forall>p \<in> set cs. plain p"
  with Cons obtain a y where "x = a # y" "a \<noteq> CHR ''/''" by (cases x) (auto simp: plain_def)
  with Cons show ?thesis by (cases xs) (simp_all add: show_path_def rooted_def)
qed (simp add: show_path_def rooted_def)

lemma Clean_show: "\<forall>p \<in> set cs. plain p \<Longrightarrow> Clean (show_path (r, cs)) = (r, cs)"
  using resolve_drop [of "split_at CHR ''/'' (show_path (r, cs))" r "[]" "[]"]
  by (simp add: Clean_def rooted_show split_show)

lemma Join_show:
  assumes "\<forall>p \<in> set cs. plain p" and "\<forall>p \<in> set ds. plain p"
  shows "Join [show_path (r, cs), show_path (r', ds)] = (r, cs @ ds)"
proof -
  let ?a = "show_path (r, cs)" and ?b = "show_path (r', ds)"
  have ne: "?a \<noteq> []" "?b \<noteq> []" using assms by (simp_all add: show_path_ne)
  then have "Join [?a, ?b] = Clean (?a @ CHR ''/'' # ?b)" by (simp add: Join_def)
  also have "\<dots> = (r, resolve r [] (split_at CHR ''/'' ?a @ split_at CHR ''/'' ?b))"
    using ne assms by (simp add: Clean_def rooted_append rooted_show split_at_sep)
  also have "\<dots> = (r, cs @ ds)"
    using resolve_drop [OF split_show(1) [OF assms(2)]] Clean_show [OF assms(1), of r] assms
    by (simp add: split_show Clean_def rooted_show)
  finally show ?thesis .
qed

section \<open>Text\<close>

fun has_part :: "string \<Rightarrow> string \<Rightarrow> bool" where
  "has_part p [] = (p = [])"
| "has_part p (c # cs) = (take (length p) (c # cs) = p \<or> has_part p cs)"

lemma has_part_append: "has_part p (x @ p @ y)"
proof (induction x)
  case Nil
  show ?case by (cases p; cases y) (simp_all)
qed simp

definition TrimPrefix :: "string \<Rightarrow> string \<Rightarrow> string" where
  "TrimPrefix s p = (if take (length p) s = p then drop (length p) s else s)"

text \<open>\<open>strings.ToLower\<close> on ASCII; hashes are written in hexadecimal digits.\<close>

definition lower :: "char \<Rightarrow> char" where
  "lower c = (let n = of_char c :: nat in if 65 \<le> n \<and> n \<le> 90 then char_of (n + 32) else c)"

definition ToLower :: "string \<Rightarrow> string" where "ToLower s = map lower s"

text \<open>\<open>strconv.ParseUint\<close> in base ten.\<close>

definition ParseUint :: "nat \<Rightarrow> string \<Rightarrow> nat option" where
  "ParseUint bits s = (if s = [] then None else case digits_value 0 s of
     None \<Rightarrow> None | Some n \<Rightarrow> if n < 2 ^ bits then Some (nat n) else None)"

definition digit :: "nat \<Rightarrow> char" where "digit n = char_of (48 + n)"

fun decimal :: "nat \<Rightarrow> string" where
  "decimal n = (if n < 10 then [digit n] else decimal (n div 10) @ [digit (n mod 10)])"

declare decimal.simps [simp del]

definition pad8 :: "nat \<Rightarrow> string" where
  "pad8 n = (let d = decimal n in replicate (8 - length d) CHR ''0'' @ d)"

lemma digits_all: "list_all (\<lambda>n. digit_value (digit n) = Some (int n) \<and> digit n \<noteq> CHR ''/'' \<and> \<not> is_space (digit n) \<and>
    digit n \<noteq> CHR ''.'') [0..<10]"
  by code_simp

lemma digit_value_digit: "n < 10 \<Longrightarrow> digit_value (digit n) = Some (int n)"
  and digit_plain: "n < 10 \<Longrightarrow> digit n \<noteq> CHR ''/'' \<and> \<not> is_space (digit n) \<and> digit n \<noteq> CHR ''.''"
  using digits_all by (auto simp: list_all_iff)

lemma digits_value_append:
  "digits_value a (xs @ ys) = (case digits_value a xs of None \<Rightarrow> None | Some b \<Rightarrow> digits_value b ys)"
  by (induction xs arbitrary: a) (auto split: option.splits)

lemma digits_value_decimal: "digits_value 0 (decimal n) = Some (int n)"
proof (induction n rule: decimal.induct)
  case (1 n)
  show ?case
  proof (cases "n < 10")
    case True
    then show ?thesis by (subst decimal.simps) (simp add: digit_value_digit)
  next
    case False
    have "n div 10 * 10 + n mod 10 = n" by simp
    then have "int (n div 10 * 10 + n mod 10) = int n" by (simp only:)
    then have "int (n div 10) * 10 + int (n mod 10) = int n" by (simp only: of_nat_add of_nat_mult of_nat_numeral)
    with False 1 show ?thesis by (subst decimal.simps) (simp add: digits_value_append digit_value_digit)
  qed
qed

lemma digits_value_zeros: "digits_value 0 (replicate k CHR ''0'' @ d) = digits_value 0 d"
  by (induction k) (simp_all add: digit_value_def)

lemma pad8_inj: "pad8 m = pad8 n \<Longrightarrow> m = n"
proof -
  assume "pad8 m = pad8 n"
  then have "digits_value 0 (pad8 m) = digits_value 0 (pad8 n)" by simp
  then show ?thesis by (simp add: pad8_def Let_def digits_value_zeros digits_value_decimal)
qed

lemma decimal_ne: "decimal n \<noteq> []"
  by (subst decimal.simps) simp

lemma ParseUint_decimal: "n < 2 ^ bits \<Longrightarrow> ParseUint bits (decimal n) = Some n"
  by (simp add: ParseUint_def decimal_ne digits_value_decimal)

lemma decimal_chars: "c \<in> set (decimal n) \<Longrightarrow> c \<noteq> CHR ''/'' \<and> \<not> is_space c \<and> c \<noteq> CHR ''.''"
proof (induction n rule: decimal.induct)
  case (1 n)
  have "set (decimal n) = (if n < 10 then {digit n} else insert (digit (n mod 10)) (set (decimal (n div 10))))"
    by (subst decimal.simps) simp
  moreover have "n mod 10 < 10" by simp
  ultimately show ?case using 1 digit_plain [of n] digit_plain [of "n mod 10"] by (cases "n < 10") auto
qed

lemma TrimSpace_none: "\<forall>c \<in> set s. \<not> is_space c \<Longrightarrow> TrimSpace s = s"
proof -
  assume s: "\<forall>c \<in> set s. \<not> is_space c"
  have "dropWhile is_space t = t" if "set t = set s" for t
    using s that by (cases t) auto
  from this [of s] this [of "rev s"] show ?thesis by (simp add: TrimSpace_def)
qed

end
