(* ===== verification/Files.thy ===== *)
theory Files
  imports Paths RoomProgress
begin

text \<open>
  Files (\<open>oss/handler/file/upload.go\<close>, \<open>download.go\<close>, \<open>db/query/file.go\<close>): files come in chunks,
  are put together and stored under their BLAKE3 hash; who may read one is decided by its
  scene or by the messages that carry it. One request is one step. BLAKE3, SHA-1, the
  detection of types, the image decoder and the frame of a video are parameters; the disk is
  a map from resolved paths to contents, directories are not represented.
\<close>

section \<open>Rows and stores\<close>

record upload_file =
  uf_Fid :: string
  uf_Hash :: string
  uf_Ext :: string
  uf_TypeMain :: string
  uf_TypeSub :: string
  uf_Path :: string
  uf_TotalSize :: nat
  uf_ChunkSize :: nat
  uf_ChunkCount :: nat
  uf_Width :: nat
  uf_Height :: nat
  uf_Thumb :: string
  uf_State :: nat
  uf_DeleteTime :: time

record user_file =
  uu_UfId :: string
  uu_Filename :: string
  uu_Uid :: uid
  uu_Fid :: string
  uu_Scene :: string
  uu_DeleteTime :: time

record file_chunk =
  fc_Hash :: string
  fc_Size :: nat
  fc_FileHash :: string
  fc_Fid :: string
  fc_ChunkIdx :: nat

text \<open>The sets of uploaded chunks and the locks of chunks are in Redis.\<close>

record file_store = admin_store +
  upload_files :: "upload_file list"
  user_files :: "user_file list"
  file_chunks :: "file_chunk list"
  chunk_sets :: "string \<Rightarrow> nat set"
  chunk_locks :: "(string \<times> nat) set"
  disk :: "path \<rightharpoonup> string"

datatype file_call =
    FindUpload | CreateUpload | SaveUpload | FindUserFile | CreateUserFile | BeginUpload | CommitUpload | CleanupRecords
  | ListChunks | CreateChunk | ChunkMembers | ChunkAdd | ChunkHas | ChunkCount | ChunkDel | ChunkLock | ChunkUnlock
  | ReadBody | MkChunkDir | WriteChunk | MkUploadDir | CreateMerged | CopyPart nat | CloseMerged | OpenMerged
  | MkTypeDir | RenameMerged | FindMessageFile | OpenFile

text \<open>The thumbnail of a video: the decoder panics, reports an error, or gives a picture.\<close>

datatype video_result = VideoPanics | VideoFails | VideoFrame string

record file_env =
  fl_admin :: admin_env
  fl_fails :: "file_call \<Rightarrow> bool"
  fl_dir :: string
  fl_max_size :: nat
  fl_chunk_size :: nat
  fl_hash :: "string \<Rightarrow> string"
  fl_kind :: "string \<Rightarrow> (string \<times> string \<times> string) option"
  fl_image :: "string \<Rightarrow> (nat \<times> nat) option"
  fl_video :: "string \<Rightarrow> video_result"
  fl_sha1 :: "string \<Rightarrow> string"

definition UploadSceneRoomAnnouncement :: string where "UploadSceneRoomAnnouncement = ''room_announcement''"

definition IsPublicUploadScene :: "string \<Rightarrow> bool" where
  "IsPublicUploadScene scene \<longleftrightarrow> scene \<in> {''user_avatar'', ''room_avatar'', UploadSceneRoomAnnouncement, ''room_info''}"

section \<open>Rows of uploads\<close>

definition new_upload :: "string \<Rightarrow> nat \<Rightarrow> nat \<Rightarrow> nat \<Rightarrow> string \<Rightarrow> upload_file" where
  "new_upload hash fileSize chunk chunkTotal fid =
     \<lparr>uf_Fid = fid, uf_Hash = hash, uf_Ext = [], uf_TypeMain = [], uf_TypeSub = [], uf_Path = [], uf_TotalSize = fileSize,
      uf_ChunkSize = chunk mod 2 ^ 32, uf_ChunkCount = chunkTotal mod 2 ^ 32, uf_Width = 0, uf_Height = 0, uf_Thumb = [],
      uf_State = 1, uf_DeleteTime = 0\<rparr>"

definition find_upload :: "file_env \<Rightarrow> string \<Rightarrow> 'a file_store_scheme \<Rightarrow> unit + upload_file option" where
  "find_upload e hash s =
     (if fl_fails e FindUpload then Inl () else Inr (find (\<lambda>f. uf_Hash f = hash) (upload_files s)))"

text \<open>The file id is drawn before the row is inserted; both it and the hash are unique.\<close>

definition create_upload :: "file_env \<Rightarrow> string \<Rightarrow> nat \<Rightarrow> nat \<Rightarrow> nat \<Rightarrow> ('a file_store_scheme, string, upload_file) act" where
  "create_upload e hash fileSize chunk chunkTotal =
     andThen (new_xid (fl_admin e)) (\<lambda>fid s.
       let f = new_upload hash fileSize chunk chunkTotal fid in
       if fl_fails e CreateUpload \<or> fid \<in> uf_Fid ` set (upload_files s) \<or> hash \<in> uf_Hash ` set (upload_files s)
       then (Inl fid, s) else (Inr f, s\<lparr>upload_files := upload_files s @ [f]\<rparr>))"

definition create_user_file ::
  "file_env \<Rightarrow> string \<Rightarrow> uid \<Rightarrow> string \<Rightarrow> string \<Rightarrow> ('a file_store_scheme, unit, string) act" where
  "create_user_file e name uid fid scene =
     andThen (new_xid (fl_admin e)) (\<lambda>ufId s.
       if fl_fails e CreateUserFile \<or> ufId \<in> uu_UfId ` set (user_files s) then (Inl (), s)
       else (Inr ufId, s\<lparr>user_files := user_files s @ [\<lparr>uu_UfId = ufId, uu_Filename = name, uu_Uid = uid, uu_Fid = fid,
         uu_Scene = scene, uu_DeleteTime = 0\<rparr>]\<rparr>))"

definition ensureRoomAnnouncementUploadAllowed ::
  "file_env \<Rightarrow> http_user option \<Rightarrow> string \<Rightarrow> rid \<Rightarrow> ('a file_store_scheme, reply, unit) act" where
  "ensureRoomAnnouncementUploadAllowed e user scene rid0 =
     (if TrimSpace scene \<noteq> UploadSceneRoomAnnouncement then succeed ()
      else
        andThen (GetUser user) (\<lambda>u.
        let rid = TrimSpace rid0 in
        andThen (check (rid \<noteq> []) (BadRequest ''no room'')) (\<lambda>_.
        andThen (has_room_user (fl_admin e) rid (hu_Uid u)) (\<lambda>inRoom.
        andThen (check inRoom (BadRequest ''not in the room'')) (\<lambda>_.
        andThen (reading (CanUserMuteInRoom (ae_room (fl_admin e)) rid (hu_Uid u))) (\<lambda>admin.
          check admin (BadRequest ''admins only'')))))))"

section \<open>Before an upload\<close>

text \<open>The chunks that are there, by the file id: from Redis, or from the table when Redis fails.\<close>

definition getUploadedFromRedis :: "file_env \<Rightarrow> string \<Rightarrow> 'a file_store_scheme \<Rightarrow> unit + nat list" where
  "getUploadedFromRedis e key s =
     (if fl_fails e ChunkMembers then Inl ()
      else Inr (sorted_list_of_set (Set.filter (\<lambda>i. i < 2 ^ 32) (chunk_sets s key))))"

definition getUploadedFromDB :: "file_env \<Rightarrow> string \<Rightarrow> 'a file_store_scheme \<Rightarrow> unit + nat list" where
  "getUploadedFromDB e key s =
     (if fl_fails e ListChunks then Inl ()
      else Inr (map fc_ChunkIdx (filter (\<lambda>c. fc_FileHash c = key) (file_chunks s))))"

definition uploaded_chunks :: "file_env \<Rightarrow> string \<Rightarrow> 'a file_store_scheme \<Rightarrow> nat list" where
  "uploaded_chunks e key s =
     (case getUploadedFromRedis e key s of Inr xs \<Rightarrow> xs
      | Inl _ \<Rightarrow> (case getUploadedFromDB e key s of Inr xs \<Rightarrow> xs | Inl _ \<Rightarrow> []))"

record precheck_body =
  pc_FileHash :: string
  pc_FileSize :: nat
  pc_ChunkSize :: nat
  pc_ChunkTotal :: nat
  pc_FileName :: string
  pc_Scene :: string

datatype precheck_answer = AlreadyStored string | Resume upload_file "nat list" bool

definition UploadPrecheck ::
  "file_env \<Rightarrow> http_user option \<Rightarrow> rid \<Rightarrow> precheck_body option \<Rightarrow> ('a file_store_scheme, reply, precheck_answer) act" where
  "UploadPrecheck e user rid body =
     andThen (GetUser user) (\<lambda>u.
     andThen (parsed body (BadRequest ''bad body'')) (\<lambda>b.
     andThen (ensureRoomAnnouncementUploadAllowed e user (TrimSpace (pc_Scene b)) rid) (\<lambda>_.
     andThen (check (pc_FileHash b \<noteq> [] \<and> pc_ChunkSize b \<noteq> 0 \<and> pc_ChunkTotal b \<noteq> 0 \<and> pc_FileSize b \<noteq> 0)
        (BadRequest ''no file'')) (\<lambda>_.
     let hash = ToLower (pc_FileHash b) in
     andThen (check (pc_FileSize b \<le> fl_max_size e) (BadRequest ''file too large'')) (\<lambda>_.
     andThen (check (pc_ChunkSize b \<le> fl_chunk_size e) (BadRequest ''chunk too large'')) (\<lambda>_.
     andThen (orFail (query (find_upload e hash)) (ServerError ''query failed'')) (\<lambda>found.
     andThen (case found of
         Some f \<Rightarrow> succeed f
       | None \<Rightarrow> orFail (create_upload e hash (pc_FileSize b) (pc_ChunkSize b) (pc_ChunkTotal b)) (ServerError ''create failed'')) (\<lambda>f.
     if found \<noteq> None \<and> uf_State f = 2
     then andThen (orFail (create_user_file e (pc_FileName b) (hu_Uid u) (uf_Fid f) (TrimSpace (pc_Scene b))) (ServerError ''save failed''))
       (\<lambda>ufId. succeed (AlreadyStored ufId))
     else andThen (reading (uploaded_chunks e (uf_Fid f))) (\<lambda>uploaded.
       succeed (Resume f uploaded (length uploaded \<ge> uf_ChunkCount f \<and> uf_State f = 2)))))))))))"

section \<open>Where chunks and files lie\<close>

definition chunk_dir :: "file_env \<Rightarrow> string \<Rightarrow> path" where "chunk_dir e hash = Join [fl_dir e, hash, ''chunks'']"

definition part_path :: "file_env \<Rightarrow> string \<Rightarrow> nat \<Rightarrow> path" where
  "part_path e hash i = under (chunk_dir e hash) (pad8 i @ ''.part'')"

definition temp_path :: "file_env \<Rightarrow> string \<Rightarrow> path" where "temp_path e hash = Join [fl_dir e, hash @ ''.ing'']"

definition stored_path :: "file_env \<Rightarrow> string \<Rightarrow> path" where "stored_path e rel = Join [fl_dir e, rel]"

definition write_disk :: "path \<Rightarrow> string \<Rightarrow> 'a file_store_scheme \<Rightarrow> 'a file_store_scheme" where
  "write_disk p b s = s\<lparr>disk := (disk s)(p \<mapsto> b)\<rparr>"

text \<open>\<open>os.RemoveAll\<close>: the path and everything below it.\<close>

definition remove_all :: "path \<Rightarrow> 'a file_store_scheme \<Rightarrow> 'a file_store_scheme" where
  "remove_all p s = s\<lparr>disk := (\<lambda>q. if fst q = fst p \<and> take (length (snd p)) (snd q) = snd p then None else disk s q)\<rparr>"

definition remove_file :: "path \<Rightarrow> 'a file_store_scheme \<Rightarrow> 'a file_store_scheme" where
  "remove_file p s = s\<lparr>disk := (disk s)(p := None)\<rparr>"

definition rename_file :: "path \<Rightarrow> path \<Rightarrow> string \<Rightarrow> 'a file_store_scheme \<Rightarrow> 'a file_store_scheme" where
  "rename_file from to b s = s\<lparr>disk := (disk s)(from := None, to \<mapsto> b)\<rparr>"

section \<open>A chunk\<close>

text \<open>Ways out of the transaction: everything about the upload is cleaned up, the transaction is
  only rolled back, or it is rolled back and the progress is reported.\<close>

datatype chunk_stop = CleanUp string reply | GiveUp reply | Stay nat bool

datatype chunk_answer = Known string | Partial nat bool | Merged string string

record chunk_request =
  cq_Name :: string
  cq_Hash :: string
  cq_Index :: string
  cq_Total :: string
  cq_Size :: string
  cq_FileSize :: string
  cq_Scene :: string
  cq_Rid :: rid
  cq_Data :: string

definition parseUintHeader :: "string \<Rightarrow> nat option" where
  "parseUintHeader h = (let v = TrimSpace h in if v = [] then None else ParseUint 64 v)"

text \<open>The checks before the transaction: name, hash, index, number and size of chunks, size of the file, data.\<close>

definition chunk_checks ::
  "file_env \<Rightarrow> chunk_request \<Rightarrow> ('a file_store_scheme, reply, string \<times> string \<times> nat \<times> nat \<times> nat \<times> nat \<times> string) act" where
  "chunk_checks e q =
     (let fileName = Base (TrimSpace (cq_Name q)); hash = ToLower (TrimSpace (cq_Hash q)) in
     andThen (check (fileName \<noteq> []) (BadRequest ''no file name'')) (\<lambda>_.
     andThen (parsed (parseUintHeader (cq_Index q)) (BadRequest ''chunk index'')) (\<lambda>i.
     andThen (parsed (parseUintHeader (cq_Total q)) (BadRequest ''chunk total'')) (\<lambda>chunkTotal.
     andThen (parsed (parseUintHeader (cq_Size q)) (BadRequest ''chunk size'')) (\<lambda>chunkSize.
     andThen (parsed (parseUintHeader (cq_FileSize q)) (BadRequest ''file size'')) (\<lambda>fileSize.
     andThen (check (chunkTotal \<noteq> 0 \<and> i < chunkTotal) (BadRequest ''chunk index'')) (\<lambda>_.
     andThen (check (chunkSize \<noteq> 0) (BadRequest ''chunk size'')) (\<lambda>_.
     andThen (check (fileSize \<le> fl_max_size e) (BadRequest ''file too large'')) (\<lambda>_.
     andThen (check (chunkSize \<le> fl_chunk_size e) (BadRequest ''chunk too large'')) (\<lambda>_.
     andThen (check (\<not> fl_fails e ReadBody) (ServerError ''read failed'')) (\<lambda>_.
     let data = take (Suc (fl_chunk_size e)) (cq_Data q) in
     andThen (check (data \<noteq> []) (BadRequest ''empty chunk'')) (\<lambda>_.
     andThen (check (length data \<le> fl_chunk_size e) (BadRequest ''chunk too large'')) (\<lambda>_.
     andThen (check (length data = chunkSize) (BadRequest ''chunk size'')) (\<lambda>_.
       succeed (fileName, hash, i, chunkTotal, chunkSize, fileSize, data)))))))))))))))"

definition find_or_create_upload ::
  "file_env \<Rightarrow> string \<Rightarrow> nat \<Rightarrow> nat \<Rightarrow> nat \<Rightarrow> ('a file_store_scheme, chunk_stop, upload_file) act" where
  "find_or_create_upload e hash fileSize chunkSize chunkTotal =
     andThen (orFail (query (find_upload e hash)) (CleanUp [] (ServerError ''query failed''))) (\<lambda>found.
       case found of Some f \<Rightarrow> succeed f
       | None \<Rightarrow> andThen (attempt (create_upload e hash fileSize chunkSize chunkTotal)) (\<lambda>r.
           case r of Inl fid \<Rightarrow> refuse (CleanUp fid (ServerError ''create failed'')) | Inr f \<Rightarrow> succeed f))"

definition uploaded_count :: "file_env \<Rightarrow> string \<Rightarrow> 'a file_store_scheme \<Rightarrow> nat" where
  "uploaded_count e hash s = (if fl_fails e ChunkCount then 0 else card (chunk_sets s hash))"

definition cacheUploaded :: "file_env \<Rightarrow> string \<Rightarrow> nat \<Rightarrow> 'a file_store_scheme \<Rightarrow> 'a file_store_scheme" where
  "cacheUploaded e hash i s = (if fl_fails e ChunkAdd then s
     else s\<lparr>chunk_sets := (chunk_sets s)(hash := insert i (chunk_sets s hash))\<rparr>)"

text \<open>A second row for the same chunk of a file is not inserted, and that is no error.\<close>

definition create_chunk :: "file_env \<Rightarrow> file_chunk \<Rightarrow> ('a file_store_scheme, unit, unit) act" where
  "create_chunk e c s =
     (if fl_fails e CreateChunk then (Inl (), s)
      else if \<exists>v \<in> set (file_chunks s). fc_Fid v = fc_Fid c \<and> fc_ChunkIdx v = fc_ChunkIdx c then (Inr (), s)
      else (Inr (), s\<lparr>file_chunks := file_chunks s @ [c]\<rparr>))"

definition store_chunk ::
  "file_env \<Rightarrow> upload_file \<Rightarrow> string \<Rightarrow> nat \<Rightarrow> string \<Rightarrow> ('a file_store_scheme, chunk_stop, nat) act" where
  "store_chunk e f hash i data =
     (let stop = (\<lambda>msg. CleanUp (uf_Fid f) (ServerError msg)) in
     andThen (check (\<not> fl_fails e MkChunkDir) (stop ''chunk directory'')) (\<lambda>_.
     andThen (check (\<not> fl_fails e WriteChunk) (stop ''chunk file'')) (\<lambda>_.
     andThen (change (write_disk (part_path e hash i) data)) (\<lambda>_.
     andThen (orFail (create_chunk e \<lparr>fc_Hash = fl_hash e data, fc_Size = length data, fc_FileHash = hash,
        fc_Fid = uf_Fid f, fc_ChunkIdx = i mod 2 ^ 32\<rparr>) (stop ''chunk row'')) (\<lambda>_.
     andThen (change (cacheUploaded e hash i)) (\<lambda>_.
       reading (uploaded_count e hash)))))))"

section \<open>Putting a file together\<close>

text \<open>A part is appended to the merged file, and goes through the hash on the way.\<close>

definition copy_part :: "file_env \<Rightarrow> string \<Rightarrow> string \<Rightarrow> nat \<Rightarrow> ('a file_store_scheme, chunk_stop, string) act" where
  "copy_part e fid hash i s =
     (case disk s (part_path e hash i) of
        None \<Rightarrow> (Inl (CleanUp fid (ServerError ''no such chunk'')), s)
      | Some b \<Rightarrow>
          if fl_fails e (CopyPart i) then (Inl (CleanUp fid (ServerError ''copy failed'')), s)
          else (Inr b, write_disk (temp_path e hash)
            ((case disk s (temp_path e hash) of None \<Rightarrow> [] | Some old \<Rightarrow> old) @ b) s))"

primrec copy_parts :: "file_env \<Rightarrow> string \<Rightarrow> string \<Rightarrow> nat list \<Rightarrow> ('a file_store_scheme, chunk_stop, string) act" where
  "copy_parts e fid hash [] = succeed []"
| "copy_parts e fid hash (i # is) =
     andThen (copy_part e fid hash i) (\<lambda>b. andThen (copy_parts e fid hash is) (\<lambda>bs. succeed (b @ bs)))"

definition merge_chunks ::
  "file_env \<Rightarrow> string \<Rightarrow> string \<Rightarrow> nat \<Rightarrow> ('a file_store_scheme, chunk_stop, string) act" where
  "merge_chunks e fid hash chunkTotal =
     (let stop = (\<lambda>msg. CleanUp fid (ServerError msg)) in
     andThen (check (\<not> fl_fails e MkUploadDir) (stop ''upload directory'')) (\<lambda>_.
     andThen (check (\<not> fl_fails e CreateMerged) (stop ''merged file'')) (\<lambda>_.
     andThen (change (write_disk (temp_path e hash) [])) (\<lambda>_.
     andThen (copy_parts e fid hash [0..<chunkTotal]) (\<lambda>bytes.
     andThen (check (\<not> fl_fails e CloseMerged) (stop ''merged file'')) (\<lambda>_.
       succeed bytes))))))"

text \<open>The type of the contents, the size of a picture, and the place.\<close>

definition typed_upload :: "file_env \<Rightarrow> string \<Rightarrow> string \<Rightarrow> upload_file \<Rightarrow> upload_file" where
  "typed_upload e fileName bytes f =
     (let ext0 = TrimPrefix (Ext fileName) ''.'';
          (main, sub, ext) = (case fl_kind e (take 262 bytes) of
              None \<Rightarrow> (''application'', ''octet-stream'', ext0)
            | Some (m, t, x) \<Rightarrow> (m, t, if x \<noteq> [] then x else ext0));
          (w, h) = (if main = ''image'' then case fl_image e bytes of Some d \<Rightarrow> d | None \<Rightarrow> (uf_Width f, uf_Height f)
                    else (uf_Width f, uf_Height f))
      in f\<lparr>uf_TypeMain := if main = [] then ''file'' else main, uf_TypeSub := sub, uf_Ext := if ext = [] then ''bin'' else ext,
           uf_Width := w, uf_Height := h\<rparr>)"

definition stored_rel :: "upload_file \<Rightarrow> string \<Rightarrow> string" where
  "stored_rel f computed = show_path (Join [uf_TypeMain f, computed @ ''.'' @ uf_Ext f])"

definition thumb_rel :: "upload_file \<Rightarrow> string" where "thumb_rel f = ''thumbs/video/'' @ uf_Hash f @ ''.jpeg''"

text \<open>\<open>processVideoFile\<close>: the thumbnail of a video; an error is logged, a panic ends the request.\<close>

definition processVideoFile ::
  "file_env \<Rightarrow> upload_file \<Rightarrow> string \<Rightarrow> ('a file_store_scheme, chunk_stop, upload_file) act" where
  "processVideoFile e f bytes =
     (if uf_TypeMain f \<noteq> ''video'' then succeed f
      else case fl_video e bytes of
        VideoPanics \<Rightarrow> refuse (GiveUp (ServerError ''panic''))
      | VideoFails \<Rightarrow> succeed f
      | VideoFrame picture \<Rightarrow>
          andThen (change (write_disk (Clean (fl_dir e @ ''/'' @ thumb_rel f)) picture)) (\<lambda>_.
            let (w, h) = (case fl_image e picture of Some d \<Rightarrow> d | None \<Rightarrow> (0, 0)) in
            succeed (f\<lparr>uf_Thumb := thumb_rel f, uf_Width := if uf_Width f = 0 then w else uf_Width f,
              uf_Height := if uf_Height f = 0 then h else uf_Height f\<rparr>)))"

definition save_upload :: "file_env \<Rightarrow> upload_file \<Rightarrow> ('a file_store_scheme, unit, unit) act" where
  "save_upload e f s =
     (if fl_fails e SaveUpload then (Inl (), s)
      else (Inr (), s\<lparr>upload_files := map (\<lambda>v. if uf_Fid v = uf_Fid f then f else v) (upload_files s)\<rparr>))"

text \<open>The merged file is accepted when it has the hash it was announced with; then it is moved
  to its place and its row is completed. A row marked as damaged is rolled back with the rest.\<close>

definition finish_upload ::
  "file_env \<Rightarrow> http_user \<Rightarrow> upload_file \<Rightarrow> string \<Rightarrow> string \<Rightarrow> string \<Rightarrow> string
   \<Rightarrow> ('a file_store_scheme, chunk_stop, chunk_answer) act" where
  "finish_upload e u f0 fileName hash scene bytes =
     (let fid = uf_Fid f0; stop = (\<lambda>msg. CleanUp fid (ServerError msg)); computed = fl_hash e bytes; temp = temp_path e hash in
     if hash \<noteq> [] \<and> computed \<noteq> hash
     then andThen (change (\<lambda>s. remove_all (chunk_dir e hash) (remove_file temp s))) (\<lambda>_.
            refuse (CleanUp fid (BadRequest ''wrong hash'')))
     else
       andThen (check (\<not> fl_fails e OpenMerged) (stop ''merged file'')) (\<lambda>_.
       let f = typed_upload e fileName bytes f0; rel = stored_rel f computed in
       andThen (check (\<not> fl_fails e MkTypeDir) (stop ''type directory'')) (\<lambda>_.
       andThen (check (\<not> fl_fails e RenameMerged) (stop ''rename'')) (\<lambda>_.
       andThen (change (\<lambda>s. remove_all (chunk_dir e hash) (rename_file temp (stored_path e rel) bytes s))) (\<lambda>_.
       andThen (processVideoFile e f bytes) (\<lambda>f'.
       andThen (orFail (save_upload e (f'\<lparr>uf_State := 2, uf_Path := rel\<rparr>)) (stop ''save failed'')) (\<lambda>_.
       andThen (orFail (create_user_file e fileName (hu_Uid u) fid scene) (stop ''save failed'')) (\<lambda>ufId.
         succeed (Merged fid ufId)))))))))"

section \<open>Uploading a chunk\<close>

text \<open>What follows once the chunk is locked, and the release of the lock at the end.\<close>

definition locked_chunk ::
  "file_env \<Rightarrow> http_user \<Rightarrow> upload_file \<Rightarrow> string \<Rightarrow> string \<Rightarrow> string \<Rightarrow> nat \<Rightarrow> nat \<Rightarrow> string
   \<Rightarrow> ('a file_store_scheme, chunk_stop, chunk_answer) act" where
  "locked_chunk e u f fileName hash scene i chunkTotal data =
     andThen (store_chunk e f hash i data) (\<lambda>n.
       if n < chunkTotal then succeed (Partial n False)
       else andThen (merge_chunks e (uf_Fid f) hash chunkTotal) (finish_upload e u f fileName hash scene))"

definition with_chunk_lock ::
  "file_env \<Rightarrow> string \<Rightarrow> nat \<Rightarrow> ('a file_store_scheme, chunk_stop, 'r) act \<Rightarrow> ('a file_store_scheme, chunk_stop, 'r) act" where
  "with_chunk_lock e hash i m s =
     (if fl_fails e ChunkLock \<or> (hash, i) \<in> chunk_locks s then (Inl (Stay (uploaded_count e hash s) True), s)
      else case m (s\<lparr>chunk_locks := insert (hash, i) (chunk_locks s)\<rparr>) of (r, s1) \<Rightarrow>
        (r, if fl_fails e ChunkUnlock then s1 else s1\<lparr>chunk_locks := chunk_locks s1 - {(hash, i)}\<rparr>))"

definition chunk_body ::
  "file_env \<Rightarrow> http_user \<Rightarrow> string \<Rightarrow> string \<times> string \<times> nat \<times> nat \<times> nat \<times> nat \<times> string
   \<Rightarrow> ('a file_store_scheme, chunk_stop, chunk_answer) act" where
  "chunk_body e u scene x =
     (case x of (fileName, hash, i, chunkTotal, chunkSize, fileSize, data) \<Rightarrow>
     andThen (find_or_create_upload e hash fileSize chunkSize chunkTotal) (\<lambda>f.
     if uf_State f = 2
     then andThen (orFail (create_user_file e fileName (hu_Uid u) (uf_Fid f) scene) (GiveUp (ServerError ''save failed''))) (\<lambda>ufId.
            succeed (Known ufId))
     else
       let stop = CleanUp (uf_Fid f) (BadRequest ''other chunks''); isLast = (i + 1 = chunkTotal) in
       andThen (check (uf_ChunkCount f = chunkTotal) stop) (\<lambda>_.
       andThen (check (\<not> ((\<not> isLast \<and> uf_ChunkSize f \<noteq> chunkSize) \<or> (isLast \<and> chunkSize > uf_ChunkSize f))) stop) (\<lambda>_.
       andThen (reading (\<lambda>s. \<not> fl_fails e ChunkHas \<and> i \<in> chunk_sets s hash)) (\<lambda>there.
       if there then andThen (reading (uploaded_count e hash)) (\<lambda>n. refuse (Stay n False))
       else with_chunk_lock e hash i (locked_chunk e u f fileName hash scene i chunkTotal data))))))"

text \<open>The database is rolled back; Redis and the disk are not.\<close>

definition db_back :: "'a file_store_scheme \<Rightarrow> 'a file_store_scheme \<Rightarrow> 'a file_store_scheme" where
  "db_back before s = before\<lparr>xid_next := xid_next s, chunk_sets := chunk_sets s, chunk_locks := chunk_locks s, disk := disk s\<rparr>"

definition cleanupUploadRecords :: "file_env \<Rightarrow> string \<Rightarrow> 'a file_store_scheme \<Rightarrow> 'a file_store_scheme" where
  "cleanupUploadRecords e fileHash s =
     (if fileHash = [] \<or> fl_fails e CleanupRecords then s
      else s\<lparr>file_chunks := filter (\<lambda>c. fc_FileHash c \<noteq> fileHash) (file_chunks s),
             upload_files := filter (\<lambda>f. uf_Hash f \<noteq> fileHash) (upload_files s)\<rparr>)"

definition cleanupUploadCache :: "file_env \<Rightarrow> string \<Rightarrow> 'a file_store_scheme \<Rightarrow> 'a file_store_scheme" where
  "cleanupUploadCache e fileHash s =
     (if fileHash = [] \<or> fl_fails e ChunkDel then s else s\<lparr>chunk_sets := (chunk_sets s)(fileHash := {})\<rparr>)"

text \<open>The end of the transaction. The records are cleaned up by the file id, as the code does it;
  the progress has been written when the commit of its chunk fails.\<close>

definition chunk_tx ::
  "file_env \<Rightarrow> http_user \<Rightarrow> string \<Rightarrow> string \<times> string \<times> nat \<times> nat \<times> nat \<times> nat \<times> string
   \<Rightarrow> ('a file_store_scheme, reply, chunk_answer) act" where
  "chunk_tx e u scene x s =
     (let hash = fst (snd x);
          cleaned = (\<lambda>fid s1. cleanupUploadCache e hash (cleanupUploadRecords e fid (db_back s s1)));
          lost = fl_fails e CommitUpload
      in if fl_fails e BeginUpload then (Inl (ServerError ''begin failed''), s)
      else case chunk_body e u scene x s of
        (Inl (CleanUp fid r), s1) \<Rightarrow> (Inl r, cleaned fid s1)
      | (Inl (GiveUp r), s1) \<Rightarrow> (Inl r, db_back s s1)
      | (Inl (Stay n busy), s1) \<Rightarrow> (Inr (Partial n busy), db_back s s1)
      | (Inr (Known ufId), s1) \<Rightarrow> if lost then (Inl (ServerError ''commit failed''), db_back s s1) else (Inr (Known ufId), s1)
      | (Inr (Partial n busy), s1) \<Rightarrow> (Inr (Partial n busy), if lost then db_back s s1 else s1)
      | (Inr (Merged fid ufId), s1) \<Rightarrow>
          if lost then (Inl (ServerError ''commit failed''), cleaned fid s1)
          else (Inr (Merged fid ufId), cleanupUploadCache e hash s1))"

definition ChunkUpload ::
  "file_env \<Rightarrow> http_user option \<Rightarrow> chunk_request \<Rightarrow> ('a file_store_scheme, reply, chunk_answer) act" where
  "ChunkUpload e user q =
     andThen (GetUser user) (\<lambda>u.
     andThen (ensureRoomAnnouncementUploadAllowed e user (TrimSpace (cq_Scene q)) (cq_Rid q)) (\<lambda>_.
     andThen (chunk_checks e q) (\<lambda>x.
       chunk_tx e u (TrimSpace (cq_Scene q)) x)))"

end
