(* ===== verification/Downloads.thy ===== *)
theory Downloads
  imports Files "HOL-Library.Code_Target_Nat"
begin

text \<open>
  Reading files (\<open>db/query/file.go\<close>, \<open>oss/handler/file/download.go\<close>, \<open>oss/router/router.go\<close>): the
  look-ups that decide who may have a file, the handlers that send it, and the static files
  of the public directory.
\<close>

section \<open>Looking a file up\<close>

record msg_content_file =
  mf_Hash :: string
  mf_TypeMain :: string
  mf_Ext :: string
  mf_TypeSub :: string
  mf_Path :: string
  mf_Width :: nat
  mf_Height :: nat
  mf_Thumb :: string
  mf_FileSize :: nat
  mf_Filename :: string

record uf_file_row =
  ur_UfId :: string
  ur_Scene :: string
  ur_Hash :: string
  ur_TypeMain :: string
  ur_TypeSub :: string
  ur_Ext :: string
  ur_Path :: string
  ur_Width :: nat
  ur_Height :: nat
  ur_Thumb :: string
  ur_FileSize :: nat
  ur_Filename :: string

datatype file_error = FileStoreError | FileNotFound

text \<open>The join of a live user file with its completed upload.\<close>

definition uf_pairs :: "string \<Rightarrow> 'a file_store_scheme \<Rightarrow> (user_file \<times> upload_file) list" where
  "uf_pairs ufId s = filter (\<lambda>(x, f). uu_UfId x = ufId \<and> uu_DeleteTime x = 0 \<and> uf_Fid f = uu_Fid x \<and>
     uf_DeleteTime f = 0 \<and> uf_State f = 2) (List.product (user_files s) (upload_files s))"

definition uf_row :: "user_file \<times> upload_file \<Rightarrow> uf_file_row" where
  "uf_row p = (case p of (x, f) \<Rightarrow>
     \<lparr>ur_UfId = uu_UfId x, ur_Scene = uu_Scene x, ur_Hash = uf_Hash f, ur_TypeMain = uf_TypeMain f, ur_TypeSub = uf_TypeSub f,
      ur_Ext = uf_Ext f, ur_Path = uf_Path f, ur_Width = uf_Width f, ur_Height = uf_Height f, ur_Thumb = uf_Thumb f,
      ur_FileSize = uf_TotalSize f, ur_Filename = uu_Filename x\<rparr>)"

definition ufRowToMsgContentFile :: "uf_file_row \<Rightarrow> msg_content_file" where
  "ufRowToMsgContentFile r =
     \<lparr>mf_Hash = ur_Hash r, mf_TypeMain = ur_TypeMain r, mf_Ext = ur_Ext r, mf_TypeSub = ur_TypeSub r, mf_Path = ur_Path r,
      mf_Width = ur_Width r, mf_Height = ur_Height r, mf_Thumb = ur_Thumb r, mf_FileSize = ur_FileSize r,
      mf_Filename = ur_Filename r\<rparr>"

definition GetUfFileByUfId :: "file_env \<Rightarrow> string \<Rightarrow> 'a file_store_scheme \<Rightarrow> file_error + uf_file_row" where
  "GetUfFileByUfId e ufId s =
     (if fl_fails e FindUserFile then Inl FileStoreError
      else case uf_pairs ufId s of [] \<Rightarrow> Inl FileNotFound | p # _ \<Rightarrow> Inr (uf_row p))"

text \<open>Some message of an open room carries the file, and the user has a row in that room. Whether the
  row is that of a present member is not asked.\<close>

definition carried_to :: "uid \<Rightarrow> string \<Rightarrow> 'a file_store_scheme \<Rightarrow> bool" where
  "carried_to uid ufId s \<longleftrightarrow> profiles s uid \<noteq> None \<and>
     (\<exists>c \<in> set (contents (chat_db s)). ct_TypeId c = ufId \<and> ct_Type c \<in> {''file'', ''image'', ''video'', ''audio''} \<and> ct_DeleteTime c = 0 \<and>
       (\<exists>m \<in> set (messages (chat_db s)). rm_Mid m = ct_Mid c \<and> rm_State m = 1 \<and> rm_DeleteTime m = 0 \<and>
         (\<exists>u \<in> set (room_users s). ru_Rid u = rm_Rid m \<and> ru_Uid u = uid \<and>
           (\<exists>r \<in> set (rooms s). r_Rid r = ru_Rid u \<and> r_State r = 1 \<and> r_DeleteTime r = 0))))"

definition GetMsgContentFile :: "file_env \<Rightarrow> string \<Rightarrow> uid \<Rightarrow> 'a file_store_scheme \<Rightarrow> file_error + msg_content_file" where
  "GetMsgContentFile e ufId uid s =
     (if fl_fails e FindMessageFile then Inl FileStoreError
      else case uf_pairs ufId s of [] \<Rightarrow> Inl FileNotFound
        | p # _ \<Rightarrow> if carried_to uid ufId s then Inr (ufRowToMsgContentFile (uf_row p)) else Inl FileNotFound)"

definition ResolveDownloadByUfId :: "file_env \<Rightarrow> string \<Rightarrow> uid \<Rightarrow> 'a file_store_scheme \<Rightarrow> file_error + msg_content_file" where
  "ResolveDownloadByUfId e ufId uid s =
     (case GetUfFileByUfId e ufId s of
        Inr row \<Rightarrow> if IsPublicUploadScene (ur_Scene row) then Inr (ufRowToMsgContentFile row) else GetMsgContentFile e ufId uid s
      | Inl FileNotFound \<Rightarrow> GetMsgContentFile e ufId uid s
      | Inl err \<Rightarrow> Inl err)"

section \<open>Opening it\<close>

definition getUploadFilePath :: "string \<Rightarrow> string \<Rightarrow> string \<Rightarrow> string" where
  "getUploadFilePath fileHash mainType ext =
     (let ext' = (if mainType = [] \<and> ext = [] then ''unknown'' else ext);
          main = (if mainType = [] then ext' else mainType)
      in TrimPrefix main ''.'' @ ''/'' @ fileHash @ ''.'' @ ext')"

definition getUploadFileFullPath :: "file_env \<Rightarrow> string \<Rightarrow> string \<Rightarrow> string \<Rightarrow> path" where
  "getUploadFileFullPath e hash mainType ext = Join [fl_dir e, getUploadFilePath hash mainType ext]"

definition getUploadFileThumbFullPath :: "file_env \<Rightarrow> string \<Rightarrow> path" where
  "getUploadFileThumbFullPath e name = Clean (fl_dir e @ ''/'' @ name)"

definition open_file :: "file_env \<Rightarrow> path \<Rightarrow> 'a file_store_scheme \<Rightarrow> string option" where
  "open_file e p s = (if fl_fails e OpenFile then None else disk s p)"

fun open_first :: "file_env \<Rightarrow> path list \<Rightarrow> 'a file_store_scheme \<Rightarrow> string option" where
  "open_first e [] s = None"
| "open_first e (p # ps) s = (case open_file e p s of Some b \<Rightarrow> Some b | None \<Rightarrow> open_first e ps s)"

text \<open>The path of the row first, then the one that hash, type and extension give.\<close>

definition candidate_paths :: "file_env \<Rightarrow> msg_content_file \<Rightarrow> path list" where
  "candidate_paths e f = (if TrimSpace (mf_Path f) \<noteq> [] then [stored_path e (mf_Path f)] else []) @
     [getUploadFileFullPath e (mf_Hash f) (mf_TypeMain f) (mf_Ext f)]"

definition openMsgContentFile :: "file_env \<Rightarrow> msg_content_file \<Rightarrow> 'a file_store_scheme \<Rightarrow> string option" where
  "openMsgContentFile e f s = open_first e (candidate_paths e f) s"

section \<open>The handlers\<close>

type_synonym download_info = "string \<times> nat \<times> string \<times> string \<times> string"

definition download_info :: "msg_content_file \<Rightarrow> download_info" where
  "download_info f = (mf_Hash f, mf_FileSize f, mf_TypeMain f, mf_Ext f, mf_Filename f)"

definition DownloadPrecheck ::
  "file_env \<Rightarrow> http_user option \<Rightarrow> string \<Rightarrow> ('a file_store_scheme, reply, download_info) act" where
  "DownloadPrecheck e user ufId =
     andThen (GetUser user) (\<lambda>u.
     andThen (check (ufId \<noteq> []) (BadRequest ''no file id'')) (\<lambda>_.
     andThen (orFail (query (ResolveDownloadByUfId e ufId (hu_Uid u))) (BadRequest ''no such file'')) (\<lambda>f.
       succeed (download_info f))))"

text \<open>The hash goes into a header, the contents are sent.\<close>

definition DownloadFile ::
  "file_env \<Rightarrow> http_user option \<Rightarrow> string \<Rightarrow> string \<Rightarrow> ('a file_store_scheme, reply, string \<times> string) act" where
  "DownloadFile e user ufId view =
     andThen (GetUser user) (\<lambda>u.
     andThen (check (ufId \<noteq> []) (BadRequest ''no file id'')) (\<lambda>_.
     andThen (orFail (query (ResolveDownloadByUfId e ufId (hu_Uid u))) (BadRequest ''no such file'')) (\<lambda>f.
     andThen (check (view = ''thumb'' \<longrightarrow> mf_TypeMain f = ''video'') (BadRequest ''thumbnails of videos only'')) (\<lambda>_.
     andThen (reading (open_first e (if view = ''thumb'' then [getUploadFileThumbFullPath e (mf_Thumb f)] else candidate_paths e f))) (\<lambda>b.
     andThen (parsed b (BadRequest ''download failed'')) (\<lambda>bytes.
       succeed (mf_Hash f, bytes)))))))"

datatype file_answer = Contents string string | NotModified

text \<open>The cache headers: a request that names the tag is answered without the contents.\<close>

definition setFileCacheHeaders :: "file_env \<Rightarrow> string \<Rightarrow> string \<Rightarrow> bool" where
  "setFileCacheHeaders e seed ifNoneMatch =
     (let etag = [CHR ''W'', CHR ''/'', CHR 34] @ fl_sha1 e seed @ [CHR 34]; inm = TrimSpace ifNoneMatch in
      inm \<noteq> [] \<and> list_ex (\<lambda>tag. TrimSpace tag = etag) (split_at CHR '','' inm))"

definition GetFileURL ::
  "file_env \<Rightarrow> http_user option \<Rightarrow> string \<Rightarrow> string \<Rightarrow> ('a file_store_scheme, reply, file_answer) act" where
  "GetFileURL e user ufId0 ifNoneMatch =
     (let ufId = TrimSpace ufId0; answer = (\<lambda>hash seed bytes.
            succeed (if setFileCacheHeaders e seed ifNoneMatch then NotModified else Contents hash bytes)) in
     andThen (check (ufId \<noteq> []) (BadRequest ''no file id'')) (\<lambda>_.
     andThen (orFail (query (GetUfFileByUfId e ufId)) (BadRequest ''no such file'')) (\<lambda>row.
     if IsPublicUploadScene (ur_Scene row)
     then andThen (reading (open_file e (stored_path e (ur_Path row)))) (\<lambda>b.
          andThen (parsed b (BadRequest ''no such file'')) (answer (ur_Hash row) (ur_Hash row @ '':'' @ ur_Path row)))
     else andThen (GetUser user) (\<lambda>u.
          andThen (orFail (query (GetMsgContentFile e ufId (hu_Uid u))) (BadRequest ''no such file'')) (\<lambda>f.
          andThen (reading (open_file e (getUploadFileFullPath e (mf_Hash f) (mf_TypeMain f) (mf_Ext f)))) (\<lambda>b.
          andThen (parsed b (BadRequest ''download failed'')) (answer (mf_Hash f) (mf_Hash f @ '':'' @ mf_Ext f))))))))"

section \<open>Static files\<close>

datatype static_answer = StaticStatus nat | StaticFile path

text \<open>\<open>cwd\<close> is the directory the process runs in; \<open>filepath.Abs\<close> fails when it cannot be told.\<close>

definition servePublicStatic :: "string option \<Rightarrow> (path \<rightharpoonup> string) \<Rightarrow> string \<Rightarrow> string \<Rightarrow> static_answer" where
  "servePublicStatic cwd files method path =
     (if take 5 path = ''/api/'' then StaticStatus 404
      else if method \<noteq> ''GET'' \<and> method \<noteq> ''HEAD'' then StaticStatus 404
      else let rel0 = TrimPrefix path ''/'' in
      if rel0 = [] then StaticStatus 404
      else let rel = show_path (Clean rel0) in
      if has_part ''..'' rel then StaticStatus 404
      else case cwd of None \<Rightarrow> StaticStatus 500
      | Some d \<Rightarrow>
          let root = Join [d, ''public'']; full = Join [show_path root, rel];
              inside = (take (length (show_path root) + 1) (show_path full @ ''/'') = show_path root @ ''/'')
          in if full \<noteq> root \<and> \<not> inside then StaticStatus 404
             else if files full = None then StaticStatus 404 else StaticFile full)"

section \<open>Properties\<close>

lemma no_dots:
  assumes "\<not> has_part ''..'' (show_path (r, cs))"
  shows "''..'' \<notin> set cs"
proof
  assume "''..'' \<in> set cs"
  then have "\<exists>x y. joined ''/'' cs = x @ ''..'' @ y"
  proof (induction "''/''" cs rule: joined.induct)
    case (2 x)
    then show ?case by (intro exI [of _ "[]"]) simp
  next
    case (3 x y zs)
    show ?case
    proof (cases "x = ''..''")
      case True
      show ?thesis by (rule exI [of _ "[]"]) (simp add: True)
    next
      case False
      with 3 obtain a b where "joined ''/'' (y # zs) = a @ ''..'' @ b" by auto
      then show ?thesis by (intro exI [of _ "x @ ''/'' @ a"] exI [of _ b]) simp
    qed
  qed simp
  then obtain x y where "joined ''/'' cs = x @ ''..'' @ y" by blast
  then have "show_path (r, cs) = ((if r then ''/'' else if cs = [] then ''.'' else []) @ x) @ ''..'' @ y"
    by (simp add: show_path_def)
  with assms has_part_append [of "''..''"] show False by metis
qed

text \<open>
  C39. Static files stay in the public directory: whatever the path of a request, a file that is
  served lies in the directory \<open>public\<close> of the process or below it, reached without \<open>..\<close>, and
  exists; other paths are answered with a status.
\<close>

theorem static_files_stay_inside:
  assumes "rooted d" and "servePublicStatic (Some d) files method path = StaticFile f"
  shows "\<exists>cs. f = (True, snd (Clean d) @ ''public'' # cs) \<and> (\<forall>c \<in> set cs. plain c) \<and> files f \<noteq> None"
proof -
  let ?rel = "Clean (TrimPrefix path ''/'')"
  obtain r cs where rel: "?rel = (r, cs)" by fastforce
  from assms(1) have d: "d \<noteq> []" "fst (Clean d) = True" by (auto simp: rooted_def Clean_def)
  have root: "Join [d, ''public''] = (True, snd (Clean d) @ [''public''])"
    using Join_plain [OF d(1), of "[''public'']"] d(2) by (simp add: plain_def)
  have f: "f = Join [show_path (Join [d, ''public'']), show_path ?rel]" "files f \<noteq> None"
    and dots: "\<not> has_part ''..'' (show_path ?rel)"
    using assms(2) by (auto simp: servePublicStatic_def Let_def split: if_splits)
  from dots have "''..'' \<notin> set cs" unfolding rel by (rule no_dots)
  with Clean_components [of _ "TrimPrefix path ''/''"] rel have cs: "\<forall>c \<in> set cs. plain c" by (auto simp: plain_def)
  have "Join [show_path (Join [d, ''public'']), show_path (r, cs)] = (True, (snd (Clean d) @ [''public'']) @ cs)"
    unfolding root by (rule Join_show) (use cs Clean_rooted [OF assms(1)] in \<open>auto simp: plain_def\<close>)
  with f cs rel show ?thesis by (intro exI [of _ cs]) simp
qed

theorem static_files_stay_inside_witness:
  "servePublicStatic (Some ''/srv'') (\<lambda>p. Some ''text'') ''GET'' ''/a/../b.txt'' = StaticFile (True, [''srv'', ''public'', ''b.txt'']) \<and>
   servePublicStatic (Some ''/srv'') (\<lambda>p. Some ''text'') ''GET'' ''/../secret'' = StaticStatus 404 \<and>
   (\<exists>cs. (True, [''srv'', ''public'', ''b.txt'']) = (True, snd (Clean ''/srv'') @ ''public'' # cs))"
proof (intro conjI)
  show 1: "servePublicStatic (Some ''/srv'') (\<lambda>p. Some ''text'') ''GET'' ''/a/../b.txt'' = StaticFile (True, [''srv'', ''public'', ''b.txt''])"
    by code_simp
  show "servePublicStatic (Some ''/srv'') (\<lambda>p. Some ''text'') ''GET'' ''/../secret'' = StaticStatus 404" by code_simp
  have "rooted ''/srv''" by code_simp
  from static_files_stay_inside [OF this 1]
  show "\<exists>cs. (True, [''srv'', ''public'', ''b.txt'']) = (True, snd (Clean ''/srv'') @ ''public'' # cs)" by blast
qed

text \<open>A server with a hash that knows one file.\<close>

definition demo_hash :: "string \<Rightarrow> string" where "demo_hash b = (if b = ''hello world'' then ''d7'' else ''00'')"

definition demo_file_env :: file_env where
  "demo_file_env = \<lparr>fl_admin = demo_admin_env 1000, fl_fails = (\<lambda>_. False), fl_dir = ''/data'', fl_max_size = 1000,
     fl_chunk_size = 6, fl_hash = demo_hash, fl_kind = (\<lambda>_. None), fl_image = (\<lambda>_. None), fl_video = (\<lambda>_. VideoFails),
     fl_sha1 = id\<rparr>"

section \<open>Who may read\<close>

lemma row_image:
  "(\<exists>u \<in> U. ru_Rid u = k \<and> ru_Uid u = uid \<and> (\<exists>r \<in> R. r_Rid r = ru_Rid u \<and> r_State r = 1 \<and> r_DeleteTime r = 0)) \<longleftrightarrow>
     (k, uid) \<in> (\<lambda>u. (ru_Rid u, ru_Uid u)) ` U \<and> (k, 1, 0) \<in> (\<lambda>r. (r_Rid r, r_State r, r_DeleteTime r)) ` R"
proof -
  have "(k, uid) \<in> (\<lambda>u. (ru_Rid u, ru_Uid u)) ` U \<longleftrightarrow> (\<exists>u \<in> U. ru_Rid u = k \<and> ru_Uid u = uid)" by (auto simp: image_iff)
  moreover have "(k, 1, 0) \<in> (\<lambda>r. (r_Rid r, r_State r, r_DeleteTime r)) ` R \<longleftrightarrow>
      (\<exists>r \<in> R. r_Rid r = k \<and> r_State r = 1 \<and> r_DeleteTime r = 0)" by (auto simp: image_iff)
  ultimately show ?thesis by auto
qed

lemma carried_to_iff:
  "carried_to uid ufId s \<longleftrightarrow> profiles s uid \<noteq> None \<and>
     (\<exists>c \<in> set (contents (chat_db s)). ct_TypeId c = ufId \<and> ct_Type c \<in> {''file'', ''image'', ''video'', ''audio''} \<and> ct_DeleteTime c = 0 \<and>
       (\<exists>m \<in> set (messages (chat_db s)). rm_Mid m = ct_Mid c \<and> rm_State m = 1 \<and> rm_DeleteTime m = 0 \<and>
         (rm_Rid m, uid) \<in> (\<lambda>u. (ru_Rid u, ru_Uid u)) ` set (room_users s) \<and>
         (rm_Rid m, 1, 0) \<in> (\<lambda>r. (r_Rid r, r_State r, r_DeleteTime r)) ` set (rooms s)))"
  by (simp only: carried_to_def row_image)

lemma resolve_same:
  assumes "user_files s' = user_files s" "upload_files s' = upload_files s" "profiles s' = profiles s" "chat_db s' = chat_db s"
    "(\<lambda>u. (ru_Rid u, ru_Uid u)) ` set (room_users s') = (\<lambda>u. (ru_Rid u, ru_Uid u)) ` set (room_users s)"
    "(\<lambda>r. (r_Rid r, r_State r, r_DeleteTime r)) ` set (rooms s') = (\<lambda>r. (r_Rid r, r_State r, r_DeleteTime r)) ` set (rooms s)"
  shows "ResolveDownloadByUfId e ufId x s' = ResolveDownloadByUfId e ufId x s"
  unfolding ResolveDownloadByUfId_def GetUfFileByUfId_def GetMsgContentFile_def uf_pairs_def carried_to_iff assms ..

lemma image_map_same: "(\<And>x. g (f x) = g x) \<Longrightarrow> g ` set (map (\<lambda>x. if P x then f x else x) xs) = g ` set xs"
proof -
  assume g: "\<And>x. g (f x) = g x"
  have "map g (map (\<lambda>x. if P x then f x else x) xs) = map g xs" using g by simp
  then have "set (map g (map (\<lambda>x. if P x then f x else x) xs)) = set (map g xs)" by (simp only:)
  then show ?thesis by (simp only: set_map)
qed

lemma wp_write_session: "Q () (upd_session P f s) \<Longrightarrow> E s \<Longrightarrow> wp (write_session re P f) Q E s"
  by (simp add: wp_def write_session_def)

lemma removed_state:
  assumes "remove_member_tx a rid uid r s = (Inr (), s1)"
  shows "s1 = upd_session (\<lambda>u. us_Uid u = uid \<and> us_Rid u = rid \<and> us_DeleteTime u = 0)
      (\<lambda>u. u\<lparr>us_State := 0, us_DeleteTime := ae_now a\<rparr>)
      (upd_room (\<lambda>v. r_Rid v = rid) (\<lambda>v. v\<lparr>r_MemberCount := max (r_MemberCount v - 1) 0\<rparr>)
        (upd_user (active_user rid uid) (\<lambda>u. u\<lparr>ru_DeleteTime := ae_now a\<rparr>) s))" (is "s1 = ?s")
proof -
  have "wp (remove_member_tx a rid uid r) (\<lambda>_ t. t = ?s) (\<lambda>_. True) s"
    unfolding remove_member_tx_def
    by (rule wp_transaction wp_andThenI wp_orFailI wp_write_userI wp_write_roomI wp_write_session refl TrueI)+
  then show ?thesis by (simp add: wp_def assms)
qed


text \<open>A room with its creator, and a message of the room that carries a file.\<close>

definition demo_shared :: file_store where
  "demo_shared = admin_store.extend (room_exec demo_codecs [demo_create] demo_empty)
     (file_store.fields [(new_upload ''d7'' 11 6 2 ''fid'')\<lparr>uf_State := 2, uf_Path := ''file/d7.bin''\<rparr>]
       [\<lparr>uu_UfId = ''uf'', uu_Filename = ''a.txt'', uu_Uid = ''o'', uu_Fid = ''fid'', uu_Scene = ''message'', uu_DeleteTime = 0\<rparr>]
       [] (\<lambda>_. {}) {} Map.empty)"

definition demo_carrier :: message_db where
  "demo_carrier = empty_db\<lparr>messages := [(demo_message 1 ''m'')\<lparr>rm_Rid := ''x''\<rparr>],
     contents := [\<lparr>ct_Type = ''file'', ct_TypeId = ''uf'', ct_Content = [], ct_Mid = ''m'', ct_ClientCid = [], ct_Cid = ''c'',
       ct_CreateTime = 100, ct_DeleteTime = 0\<rparr>]\<rparr>"


end
