(* ===== verification/Uploads.thy ===== *)
theory Uploads
  imports Downloads Traces
begin

text \<open>
  What uploads guarantee: whatever is uploaded, a completed file has the hash it is known
  by; and the chunks of a file, sent in any order and more than once, make the file.
\<close>

section \<open>Where things lie\<close>

text \<open>What \<open>%x\<close> prints.\<close>

definition hexadecimal :: "string \<Rightarrow> bool" where
  "hexadecimal h \<longleftrightarrow> h \<noteq> [] \<and> list_all (\<lambda>c. c \<in> set ''0123456789abcdef'') h"

lemma hex_chars: "list_all (\<lambda>c. c \<noteq> CHR ''/'' \<and> c \<noteq> CHR ''.'' \<and> \<not> is_space c \<and> lower c = c) ''0123456789abcdef''"
  by code_simp

lemma hexadecimal_D:
  assumes "hexadecimal h"
  shows "plain h" and "CHR ''.'' \<notin> set h" and "ToLower h = h" and "TrimSpace h = h"
proof -
  from assms have c: "c \<noteq> CHR ''/'' \<and> c \<noteq> CHR ''.'' \<and> \<not> is_space c \<and> lower c = c" if "c \<in> set h" for c
    using that hex_chars by (auto simp: hexadecimal_def list_all_iff simp del: list.set)
  then show dot: "CHR ''.'' \<notin> set h" and "TrimSpace h = h" by (auto intro: TrimSpace_none)
  show "plain h" using c dot assms by (auto simp: plain_def hexadecimal_def)
  have "map lower h = h" by (rule map_idI) (use c in blast)
  then show "ToLower h = h" by (simp only: ToLower_def)
qed

abbreviation root_of :: "file_env \<Rightarrow> path" where "root_of e \<equiv> Clean (fl_dir e)"

definition below :: "file_env \<Rightarrow> string list \<Rightarrow> path" where
  "below e cs = (fst (root_of e), snd (root_of e) @ cs)"

lemma below_eq [simp]: "below e cs = below e ds \<longleftrightarrow> cs = ds"
  by (simp add: below_def)

lemma joined_Cons: "ys \<noteq> [] \<Longrightarrow> joined sep (x # ys) = x @ sep @ joined sep ys"
  by (cases ys) simp_all

lemma joined_plain_ne: "cs \<noteq> [] \<Longrightarrow> \<forall>c \<in> set cs. plain c \<Longrightarrow> joined sep cs \<noteq> []"
  by (cases cs) (auto simp: plain_def dest: joined_ne)

lemma filter_plain: "\<forall>c \<in> set cs. plain c \<Longrightarrow> filter (\<lambda>x. x \<noteq> []) cs = cs"
  by (simp add: filter_id_conv plain_def)

lemma Join_below: "fl_dir e \<noteq> [] \<Longrightarrow> \<forall>c \<in> set cs. plain c \<Longrightarrow> Join (fl_dir e # cs) = below e cs"
  by (simp add: Join_plain below_def)

lemma Clean_below:
  assumes "fl_dir e \<noteq> []" and "\<forall>c \<in> set cs. plain c" and "cs \<noteq> []"
  shows "Clean (fl_dir e @ CHR ''/'' # joined ''/'' cs) = below e cs"
  using Join_below [OF assms(1,2)] assms by (simp add: Join_def filter_plain joined_Cons)

lemma plain_append: "plain h \<Longrightarrow> CHR ''/'' \<notin> set x \<Longrightarrow> length x > 2 \<Longrightarrow> plain (h @ x)"
  by (auto simp: plain_def append_eq_Cons_conv)

lemma chunk_dir_below: "fl_dir e \<noteq> [] \<Longrightarrow> plain h \<Longrightarrow> chunk_dir e h = below e [h, ''chunks'']"
  unfolding chunk_dir_def by (rule Join_below) (simp_all add: plain_def)

lemma part_path_below: "fl_dir e \<noteq> [] \<Longrightarrow> plain h \<Longrightarrow> part_path e h i = below e [h, ''chunks'', pad8 i @ ''.part'']"
  by (simp add: part_path_def chunk_dir_below under_def below_def)

lemma temp_path_below: "fl_dir e \<noteq> [] \<Longrightarrow> plain h \<Longrightarrow> temp_path e h = below e [h @ ''.ing'']"
  unfolding temp_path_def by (rule Join_below) (simp_all add: plain_append)

text \<open>The relative path of a stored file: main type, hash, extension.\<close>

definition rel_path :: "string \<Rightarrow> string \<Rightarrow> string \<Rightarrow> string" where
  "rel_path main hash ext = joined ''/'' [main, hash @ ''.'' @ ext]"

lemma plain_dotted: "plain h \<Longrightarrow> h \<noteq> [] \<Longrightarrow> CHR ''.'' \<notin> set h \<Longrightarrow> CHR ''/'' \<notin> set x \<Longrightarrow> plain (h @ CHR ''.'' # x)"
  by (auto simp: plain_def append_eq_Cons_conv)

lemma hex_dotted: "hexadecimal h \<Longrightarrow> CHR ''/'' \<notin> set x \<Longrightarrow> plain (h @ CHR ''.'' # x)"
  using hexadecimal_D [of h] by (intro plain_dotted) (auto simp: plain_def)

lemma Clean_plain: "plain x \<Longrightarrow> Clean x = (False, [x])"
  by (cases x) (auto simp: Clean_def plain_def rooted_def split_at_last)

lemma stored_rel_eq:
  assumes "plain (uf_TypeMain f)" and "hexadecimal c" and "CHR ''/'' \<notin> set (uf_Ext f)"
  shows "stored_rel f c = rel_path (uf_TypeMain f) c (uf_Ext f)"
proof -
  have p: "plain (c @ CHR ''.'' # uf_Ext f)" using assms by (simp add: hex_dotted)
  have "uf_TypeMain f \<noteq> []" using assms(1) by (simp add: plain_def)
  from Join_plain [OF this, of "[c @ CHR ''.'' # uf_Ext f]"] p Clean_plain [OF assms(1)]
  have "Join [uf_TypeMain f, c @ CHR ''.'' # uf_Ext f] = (False, [uf_TypeMain f, c @ CHR ''.'' # uf_Ext f])" by simp
  then show ?thesis by (simp add: stored_rel_def rel_path_def show_path_def)
qed

lemma stored_path_below:
  assumes "fl_dir e \<noteq> []" and "plain main" and "hexadecimal c" and "CHR ''/'' \<notin> set ext"
  shows "stored_path e (rel_path main c ext) = below e [main, c @ ''.'' @ ext]"
proof -
  have p: "\<forall>x \<in> set [main, c @ CHR ''.'' # ext]. plain x"
    using assms by (simp add: hex_dotted)
  have "rel_path main c ext \<noteq> []" using assms(2) by (simp add: rel_path_def plain_def)
  with Clean_below [OF assms(1) p] assms(1) show ?thesis
    by (simp add: stored_path_def Join_def rel_path_def)
qed

lemma thumb_below:
  assumes "fl_dir e \<noteq> []" and "plain (uf_Hash f)"
  shows "Clean (fl_dir e @ ''/'' @ thumb_rel f) = below e [''thumbs'', ''video'', uf_Hash f @ ''.jpeg'']"
proof -
  have "\<forall>x \<in> set [''thumbs'', ''video'', uf_Hash f @ ''.jpeg'']. plain x"
    using plain_append [OF assms(2), of "''.jpeg''"] by (simp add: plain_def)
  from Clean_below [OF assms(1) this] show ?thesis by (simp add: thumb_rel_def)
qed

text \<open>A hash does not contain the dot before the extension.\<close>

lemma dotted_eq:
  "CHR ''.'' \<notin> set a \<Longrightarrow> CHR ''.'' \<notin> set b \<Longrightarrow> a @ CHR ''.'' # x = b @ CHR ''.'' # y \<longleftrightarrow> a = b \<and> x = y"
proof (induction a arbitrary: b)
  case Nil
  then show ?case by (cases b) auto
next
  case (Cons c a)
  then show ?case by (cases b) auto
qed

lemma dotted_not_chunks: "h @ CHR ''.'' # x \<noteq> ''chunks''"
proof
  assume "h @ CHR ''.'' # x = ''chunks''"
  then have "CHR ''.'' \<in> set ''chunks''" by (metis in_set_conv_decomp)
  then show False by simp
qed

section \<open>Contents and hashes\<close>

text \<open>What is known of the parameters: hashes are hexadecimal, detected types are names.\<close>

definition sound_files :: "file_env \<Rightarrow> bool" where
  "sound_files e \<longleftrightarrow> fl_dir e \<noteq> [] \<and> (\<forall>b. hexadecimal (fl_hash e b)) \<and>
     (\<forall>b m t x. fl_kind e b = Some (m, t, x) \<longrightarrow> (m = [] \<or> plain m) \<and> CHR ''/'' \<notin> set x)"

definition intact :: "file_env \<Rightarrow> string \<Rightarrow> string \<Rightarrow> 'a file_store_scheme \<Rightarrow> bool" where
  "intact e rel h s \<longleftrightarrow> (\<exists>b. disk s (stored_path e rel) = Some b \<and> fl_hash e b = h)"

definition placed :: "string \<Rightarrow> string \<Rightarrow> bool" where
  "placed rel h \<longleftrightarrow> hexadecimal h \<and> (\<exists>main ext. plain main \<and> CHR ''/'' \<notin> set ext \<and> rel = rel_path main h ext)"

definition row_sound :: "file_env \<Rightarrow> 'a file_store_scheme \<Rightarrow> upload_file \<Rightarrow> bool" where
  "row_sound e s f \<longleftrightarrow> plain (uf_Hash f) \<and>
     (uf_State f = 2 \<longrightarrow> placed (uf_Path f) (uf_Hash f) \<and> intact e (uf_Path f) (uf_Hash f) s)"

text \<open>All rows are sound, and so are the files of \<open>P\<close>.\<close>

definition files_ok :: "file_env \<Rightarrow> (string \<times> string) set \<Rightarrow> 'a file_store_scheme \<Rightarrow> bool" where
  "files_ok e P s \<longleftrightarrow> (\<forall>x \<in> P. placed (fst x) (snd x) \<and> intact e (fst x) (snd x) s) \<and> (\<forall>f \<in> set (upload_files s). row_sound e s f)"

named_theorems file_keep \<open>operations that keep the stored files\<close>

lemma files_ok_same: "upload_files s' = upload_files s \<Longrightarrow> disk s' = disk s \<Longrightarrow> files_ok e P s' = files_ok e P s"
  by (simp add: files_ok_def row_sound_def intact_def)

text \<open>A change of the disk that spares the places of stored files.\<close>

definition spares :: "file_env \<Rightarrow> ('a file_store_scheme \<Rightarrow> 'a file_store_scheme) \<Rightarrow> bool" where
  "spares e g \<longleftrightarrow> (\<forall>s. upload_files (g s) = upload_files s \<and> (\<forall>rel h. placed rel h \<longrightarrow> intact e rel h s \<longrightarrow> intact e rel h (g s)))"

lemma files_ok_spares: "spares e g \<Longrightarrow> files_ok e P s \<Longrightarrow> files_ok e P (g s)"
  by (simp add: spares_def files_ok_def row_sound_def)

lemma keeps_spares [file_keep]: "spares e g \<Longrightarrow> keeps (files_ok e P) (change g)"
  by (rule keeps_change) (rule files_ok_spares)

lemma placed_path: "fl_dir e \<noteq> [] \<Longrightarrow> placed rel h \<Longrightarrow> \<exists>main ext. stored_path e rel = below e [main, h @ ''.'' @ ext] \<and> hexadecimal h"
  unfolding placed_def using stored_path_below by blast

lemma spares_write:
  assumes "fl_dir e \<noteq> []" and "length cs \<noteq> 2"
  shows "spares e (write_disk (below e cs) b)"
  unfolding spares_def
proof (intro allI impI conjI)
  fix s :: "'a file_store_scheme" and rel h
  assume "placed rel h" "intact e rel h s"
  moreover obtain main ext where "stored_path e rel = below e [main, h @ ''.'' @ ext]" using placed_path [OF assms(1) \<open>placed rel h\<close>] by blast
  ultimately show "intact e rel h (write_disk (below e cs) b s)" using assms(2) by (auto simp: intact_def write_disk_def)
qed (simp add: write_disk_def)

lemma spares_chunk_dir:
  assumes "fl_dir e \<noteq> []" and "plain k"
  shows "spares e (remove_all (chunk_dir e k))"
  unfolding spares_def
proof (intro allI impI conjI)
  fix s :: "'a file_store_scheme" and rel h
  assume "placed rel h" "intact e rel h s"
  moreover obtain main ext where "stored_path e rel = below e [main, h @ ''.'' @ ext]" using placed_path [OF assms(1) \<open>placed rel h\<close>] by blast
  ultimately show "intact e rel h (remove_all (chunk_dir e k) s)"
    using dotted_not_chunks [of h ext] by (auto simp: intact_def remove_all_def chunk_dir_below [OF assms] below_def)
qed (simp add: remove_all_def)

lemma spares_remove_temp:
  assumes "fl_dir e \<noteq> []" and "plain k"
  shows "spares e (remove_file (temp_path e k))"
  unfolding spares_def
proof (intro allI impI conjI)
  fix s :: "'a file_store_scheme" and rel h
  assume "placed rel h" "intact e rel h s"
  moreover obtain main ext where "stored_path e rel = below e [main, h @ ''.'' @ ext]" using placed_path [OF assms(1) \<open>placed rel h\<close>] by blast
  ultimately show "intact e rel h (remove_file (temp_path e k) s)"
    by (auto simp: intact_def remove_file_def temp_path_below [OF assms])
qed (simp add: remove_file_def)

text \<open>A file that moves to its place replaces only a file with the same hash.\<close>

lemma spares_rename:
  assumes "fl_dir e \<noteq> []" and "plain k" and "placed rel0 (fl_hash e b)"
  shows "spares e (rename_file (temp_path e k) (stored_path e rel0) b)"
    and "intact e rel0 (fl_hash e b) (rename_file (temp_path e k) (stored_path e rel0) b s)"
proof -
  from placed_path [OF assms(1,3)] obtain m0 x0 where
    0: "stored_path e rel0 = below e [m0, fl_hash e b @ ''.'' @ x0]" "hexadecimal (fl_hash e b)" by blast
  show "intact e rel0 (fl_hash e b) (rename_file (temp_path e k) (stored_path e rel0) b s)"
    by (simp add: intact_def rename_file_def)
  show "spares e (rename_file (temp_path e k) (stored_path e rel0) b)"
    unfolding spares_def
  proof (intro allI impI conjI)
    fix s rel h
    assume "placed rel h" "intact e rel h s"
    moreover obtain main ext where 1: "stored_path e rel = below e [main, h @ ''.'' @ ext]" "hexadecimal h"
      using placed_path [OF assms(1) \<open>placed rel h\<close>] by blast
    moreover have "h = fl_hash e b" if "stored_path e rel = stored_path e rel0"
      using that 0 1 dotted_eq [of h "fl_hash e b" ext x0] hexadecimal_D(2) by simp
    moreover have "stored_path e rel \<noteq> temp_path e k" using 1 by (simp add: temp_path_below [OF assms(1,2)])
    ultimately show "intact e rel h (rename_file (temp_path e k) (stored_path e rel0) b s)"
      by (auto simp: intact_def rename_file_def)
  qed (simp add: rename_file_def)
qed

text \<open>What leaves both the rows and the disk alone.\<close>

lemma file_same [file_keep]:
  "keeps (files_ok e P) (create_user_file e' n uid fid sc)" "keeps (files_ok e P) (create_chunk e' c)"
  "keeps (files_ok e P) (has_room_user a rid uid)" "keeps (files_ok e P) (change (cacheUploaded e' k i))"
  by (auto simp: keeps_def create_user_file_def create_chunk_def has_room_user_def HasRoomUser_def GetRoomUserIdsCache_def
      cacheUploaded_def change_def andThen_def new_xid_def SetRoomUserIdsCache_def files_ok_def row_sound_def intact_def
      split: sum.splits prod.splits option.splits list.splits if_splits)

lemma file_create_upload [file_keep]: "plain k \<Longrightarrow> keeps (files_ok e P) (create_upload e' k n c t)"
  by (auto simp: keeps_def create_upload_def andThen_def new_xid_def Let_def new_upload_def files_ok_def row_sound_def intact_def)

lemma file_ensure [file_keep]: "keeps (files_ok e P) (ensureRoomAnnouncementUploadAllowed e' user sc rid)"
  unfolding ensureRoomAnnouncementUploadAllowed_def Let_def by (rule keep file_keep)+

lemma keeps_halt [file_keep]: "keeps I (check b err)" "keeps I (refuse err)"
  by (simp_all add: keeps_def check_def refuse_def)

lemma file_precheck:
  assumes "\<And>b. body = Some b \<Longrightarrow> plain (ToLower (pc_FileHash b))"
  shows "keeps (files_ok e P) (UploadPrecheck e' user rid body)"
  unfolding UploadPrecheck_def Let_def
  apply (rule keepsI, rule wp_andThenI, rule wp_GetUserI, rule wp_andThenI, rule wp_parsedI)
    apply (drule assms, rule keeps_wp, (rule keep file_keep | assumption)+)
  done

lemma Ext_free: "CHR ''/'' \<notin> set (Ext s)"
  by (auto simp: Ext_def Let_def dest!: set_takeWhileD)

lemma TrimPrefix_free: "c \<notin> set s \<Longrightarrow> c \<notin> set (TrimPrefix s p)"
  by (auto simp: TrimPrefix_def dest: in_set_dropD)

lemma typed_upload_sound:
  assumes "sound_files e"
  shows "plain (uf_TypeMain (typed_upload e n b f))" and "CHR ''/'' \<notin> set (uf_Ext (typed_upload e n b f))"
    and "uf_Hash (typed_upload e n b f) = uf_Hash f" and "uf_Fid (typed_upload e n b f) = uf_Fid f"
proof -
  have kind: "(m = [] \<or> plain m) \<and> CHR ''/'' \<notin> set x" if "fl_kind e (take 262 b) = Some (m, t, x)" for m t x
    using assms that unfolding sound_files_def by blast
  have c: "plain ''file''" "plain ''application''" by (simp_all add: plain_def)
  note ext = TrimPrefix_free [OF Ext_free, of n "''.''"]
  show "plain (uf_TypeMain (typed_upload e n b f))" "CHR ''/'' \<notin> set (uf_Ext (typed_upload e n b f))"
    using ext by (auto simp: typed_upload_def Let_def c split: option.splits prod.splits dest!: kind)
  show "uf_Hash (typed_upload e n b f) = uf_Hash f" "uf_Fid (typed_upload e n b f) = uf_Fid f"
    by (simp_all add: typed_upload_def Let_def split: option.splits prod.splits)
qed

lemma file_store_chunk [file_keep]:
  "sound_files e \<Longrightarrow> plain k \<Longrightarrow> keeps (files_ok e P) (store_chunk e f k i b)"
  unfolding store_chunk_def Let_def
  by (rule keeps_andThen file_keep keeps_orFail keeps_pure | simp add: part_path_below sound_files_def spares_write)+

lemma file_copy_parts [file_keep]:
  assumes "sound_files e" and "plain k"
  shows "keeps (files_ok e P) (copy_parts e fid k is)"
proof (induction "is")
  case (Cons i "is")
  have g: "spares e (write_disk (temp_path e k) b)" for b :: string
    using assms by (simp add: temp_path_below sound_files_def spares_write)
  have "keeps (files_ok e P) (copy_part e fid k i)"
    by (simp add: keeps_def copy_part_def files_ok_spares [OF g] split: option.splits)
  with Cons show ?case by (simp only: copy_parts.simps) (rule keep | assumption)+
qed (simp add: keep)

lemma file_merge [file_keep]:
  "sound_files e \<Longrightarrow> plain k \<Longrightarrow> keeps (files_ok e P) (merge_chunks e fid k n)"
  unfolding merge_chunks_def Let_def
  by (rule keeps_andThen file_keep keeps_pure | simp add: temp_path_below sound_files_def spares_write)+

section \<open>The end of an upload\<close>

lemma wp_video:
  assumes "sound_files e" and "plain (uf_Hash f)" and "files_ok e P s"
    and "\<And>f' s1. uf_Hash f' = uf_Hash f \<Longrightarrow> files_ok e P s1 \<Longrightarrow> Q f' s1" and "\<And>s1. files_ok e P s1 \<Longrightarrow> E s1"
  shows "wp (processVideoFile e f bytes) Q E s"
proof -
  have "spares e (write_disk (Clean (fl_dir e @ ''/'' @ thumb_rel f)) p)" for p :: string
    using assms(1,2) by (subst thumb_below) (auto simp: sound_files_def intro!: spares_write)
  then have "files_ok e P (write_disk (Clean (fl_dir e @ ''/'' @ thumb_rel f)) p s)" for p
    by (rule files_ok_spares) (rule assms(3))
  then show ?thesis
    using assms(3) unfolding processVideoFile_def Let_def
    by (auto intro!: assms(4,5) split: video_result.splits prod.splits)
qed

lemma files_ok_insert: "files_ok e P s \<Longrightarrow> placed rel h \<Longrightarrow> intact e rel h s \<Longrightarrow> files_ok e (insert (rel, h) P) s"
  by (simp add: files_ok_def)

lemma files_ok_weaken: "files_ok e P s \<Longrightarrow> Q \<subseteq> P \<Longrightarrow> files_ok e Q s"
  by (auto simp: files_ok_def)

lemma spares_after: "spares e g \<Longrightarrow> spares e g' \<Longrightarrow> spares e (\<lambda>s. g' (g s))"
  by (simp add: spares_def)

lemma spares_intact: "spares e g \<Longrightarrow> placed rel h \<Longrightarrow> intact e rel h s \<Longrightarrow> intact e rel h (g s)"
  by (simp add: spares_def)

lemma wp_changeI: "Q () (f s) \<Longrightarrow> wp (change f) Q E s" by simp

lemma wp_save_upload:
  assumes "files_ok e P s" and "row_sound e s f" and "\<And>s1. files_ok e P s1 \<Longrightarrow> Q () s1" and "E s"
  shows "wp (save_upload e' f) Q E s"
proof -
  have "files_ok e P (s\<lparr>upload_files := map (\<lambda>v. if uf_Fid v = uf_Fid f then f else v) (upload_files s)\<rparr>)"
    using assms(1,2) by (auto simp: files_ok_def row_sound_def intact_def)
  with assms(3,4) show ?thesis by (simp add: wp_def save_upload_def)
qed

lemma file_finish [file_keep]:
  assumes "sound_files e" and "plain hash" and "uf_Hash f0 = hash"
  shows "keeps (files_ok e P) (finish_upload e u f0 n hash sc bytes)"
proof (rule keepsI)
  fix s assume s: "files_ok e P s"
  have e: "fl_dir e \<noteq> []" "\<And>b. hexadecimal (fl_hash e b)" using assms(1) by (simp_all add: sound_files_def)
  note gone = spares_chunk_dir [OF e(1) assms(2)]
  let ?f = "typed_upload e n bytes f0"
  let ?rel = "stored_rel ?f (fl_hash e bytes)"
  note ty = typed_upload_sound [OF assms(1), of n bytes f0]
  have pl: "placed ?rel (fl_hash e bytes)"
    unfolding placed_def stored_rel_eq [OF ty(1) e(2) ty(2)] using ty e(2) by blast
  let ?g = "\<lambda>s. remove_all (chunk_dir e hash) (rename_file (temp_path e hash) (stored_path e ?rel) bytes s)"
  have moved: "files_ok e (insert (?rel, fl_hash e bytes) P) (?g s)"
    by (intro files_ok_insert files_ok_spares [where g = ?g] spares_after [OF spares_rename(1) gone]
      spares_intact [OF gone pl] spares_rename(2) e(1) assms(2) pl s)
  have bad: "files_ok e P (remove_all (chunk_dir e hash) (remove_file (temp_path e hash) s))"
    by (rule files_ok_spares [OF spares_after [OF spares_remove_temp [OF e(1) assms(2)] gone] s])
  show "wp (finish_upload e u f0 n hash sc bytes) (\<lambda>_. files_ok e P) (files_ok e P) s"
  proof (cases "fl_hash e bytes = hash")
    case False
    with assms(2) bad show ?thesis by (simp add: finish_upload_def Let_def plain_def)
  next
    case True
    have weak: "files_ok e P s1" if "files_ok e (insert (?rel, fl_hash e bytes) P) s1" for s1
      using that by (rule files_ok_weaken) blast
    have row: "row_sound e s1 (f'\<lparr>uf_State := 2, uf_Path := ?rel\<rparr>)"
      if "uf_Hash f' = uf_Hash ?f" "files_ok e (insert (?rel, fl_hash e bytes) P) s1" for f' s1
      using that assms(2,3) ty(3) True by (simp add: row_sound_def files_ok_def)
    have neg: "\<not> (hash \<noteq> [] \<and> fl_hash e bytes \<noteq> hash)" using True by simp
    note to_end = file_same(1) [of e "insert (?rel, fl_hash e bytes) P" e n "hu_Uid u" "uf_Fid f0" sc]
    show ?thesis
      unfolding finish_upload_def Let_def if_not_P [OF neg]
      apply (rule wp_andThenI, rule wp_checkI)+
         apply (rule wp_andThenI, rule wp_changeI)
         apply (rule wp_andThenI, rule wp_video [OF assms(1) _ moved])
           apply (simp add: ty(3) assms(2,3))
          apply (rule wp_andThenI, rule wp_orFailI, rule wp_save_upload, assumption)
             apply (rule row; assumption)
            apply (rule wp_andThenI, rule wp_orFailI, rule wp_keeps [OF to_end], assumption, rule wp_succeedI)
             apply (rule weak s, assumption)+
         apply (rule s)+
      done
  qed
qed

section \<open>A chunk\<close>

lemma file_locked [file_keep]:
  assumes "sound_files e" and "plain hash" and "uf_Hash f = hash"
  shows "keeps (files_ok e P) (locked_chunk e u f n hash sc i c d)"
  unfolding locked_chunk_def by (rule keeps_andThen keeps_if keeps_pure file_store_chunk file_merge file_finish assms)+

lemma file_lock [file_keep]:
  assumes "keeps (files_ok e P) m"
  shows "keeps (files_ok e P) (with_chunk_lock e hash i m)"
proof -
  have lock: "files_ok e P (s\<lparr>chunk_locks := L\<rparr>) = files_ok e P s" for s :: "'a file_store_scheme" and L
    by (rule files_ok_same) simp_all
  show ?thesis
    using assms by (simp add: keeps_def with_chunk_lock_def lock split: prod.splits) (metis lock snd_conv)
qed

lemma wp_find_or_create:
  assumes "files_ok e P s" and "plain hash"
    and "\<And>f s1. uf_Hash f = hash \<Longrightarrow> files_ok e P s1 \<Longrightarrow> Q f s1" and "\<And>s1. files_ok e P s1 \<Longrightarrow> E s1"
  shows "wp (find_or_create_upload e' hash a b c) Q E s"
proof -
  have new: "wp (create_upload e' hash a b c) (\<lambda>f s1. uf_Hash f = hash \<and> files_ok e P s1) (files_ok e P) s"
    using keepsD [OF file_create_upload [OF assms(2)] assms(1), of e' a b c]
    by (auto simp: wp_def create_upload_def andThen_def new_xid_def Let_def new_upload_def split: if_splits)
  have old: "uf_Hash f = hash" if "find_upload e' hash s = Inr (Some f)" for f
    using that by (auto simp: find_upload_def find_Some_iff split: if_splits)
  show ?thesis
    using new old assms unfolding find_or_create_upload_def
    by (auto simp: wp_query wp_attempt wp_def [of "create_upload e' hash a b c"] split: sum.splits prod.splits option.splits)
qed

lemma file_body [file_keep]:
  assumes "sound_files e" and "plain (fst (snd x))"
  shows "keeps (files_ok e P) (chunk_body e u sc x)"
proof -
  obtain n hash i ct cs fs d where x: "x = (n, hash, i, ct, cs, fs, d)" by (cases x) auto
  with assms(2) have h: "plain hash" by simp
  show ?thesis
    unfolding chunk_body_def x prod.case Let_def
    apply (rule keepsI, rule wp_andThenI, rule wp_find_or_create, assumption, rule h)
     apply (rule keeps_wp, (rule keep file_keep assms h | assumption)+)
    done
qed

text \<open>The rows that a rollback brings back are completed by files that are still in place.\<close>

definition stored_here :: "'a file_store_scheme \<Rightarrow> (string \<times> string) set" where
  "stored_here s = (\<lambda>f. (uf_Path f, uf_Hash f)) ` {f \<in> set (upload_files s). uf_State f = 2}"

lemma files_ok_stored: "files_ok e {} s \<Longrightarrow> files_ok e (stored_here s) s"
  by (auto simp: files_ok_def stored_here_def row_sound_def)

lemma files_ok_back: "files_ok e {} s \<Longrightarrow> files_ok e (stored_here s) s1 \<Longrightarrow> files_ok e {} (db_back s s1)"
  by (auto simp: files_ok_def stored_here_def row_sound_def intact_def db_back_def)

lemma files_ok_clean: "files_ok e P s \<Longrightarrow> files_ok e P (cleanupUploadRecords e' h s)"
  "files_ok e P (cleanupUploadCache e' h s) = files_ok e P s"
  by (auto simp: files_ok_def row_sound_def intact_def cleanupUploadRecords_def cleanupUploadCache_def)

lemma file_tx [file_keep]:
  assumes "sound_files e" and "plain (fst (snd x))"
  shows "keeps (files_ok e {}) (chunk_tx e u sc x)"
  unfolding keeps_def
proof (intro allI impI)
  fix s assume s: "files_ok e {} s"
  let ?s = "snd (chunk_body e u sc x s)"
  have "files_ok e (stored_here s) ?s" by (rule keepsD [OF file_body [OF assms] files_ok_stored [OF s]])
  from this files_ok_weaken [OF this, of "{}"] files_ok_back [OF s this] s
  show "files_ok e {} (snd (chunk_tx e u sc x s))"
    by (auto simp: chunk_tx_def Let_def files_ok_clean split: prod.splits sum.splits chunk_stop.splits chunk_answer.splits)
qed

lemma wp_chunk_checks:
  assumes "\<And>x. fst (snd x) = ToLower (TrimSpace (cq_Hash q)) \<Longrightarrow> Q x s" and "E s"
  shows "wp (chunk_checks e q) Q E s"
  unfolding chunk_checks_def Let_def by (rule wp_rules)+ (rule assms(1), simp, (rule assms(2))+)

lemma file_chunk_upload:
  assumes "sound_files e" and "plain (ToLower (TrimSpace (cq_Hash q)))"
  shows "keeps (files_ok e {}) (ChunkUpload e user q)"
  unfolding ChunkUpload_def
  apply (rule keepsI, rule wp_andThenI, rule wp_GetUserI)
   apply (rule wp_andThenI, rule wp_keeps [OF file_ensure], assumption)
    apply (rule wp_andThenI, rule wp_chunk_checks)
     apply (rule keeps_wp, rule file_tx, rule assms(1), simp add: assms(2), assumption+)
  done

section \<open>Runs of requests\<close>

datatype file_request = ReqPrecheck rid "precheck_body option" | ReqChunk chunk_request

definition file_exec1 :: "file_env \<Rightarrow> http_user option \<Rightarrow> file_request \<Rightarrow> 'a file_store_scheme \<Rightarrow> 'a file_store_scheme" where
  "file_exec1 e user r s = (case r of ReqPrecheck rid b \<Rightarrow> snd (UploadPrecheck e user rid b s) | ReqChunk q \<Rightarrow> snd (ChunkUpload e user q s))"

text \<open>The hash that a request announces is the name of a file, not a path.\<close>

definition plain_request :: "file_request \<Rightarrow> bool" where
  "plain_request r = (case r of ReqPrecheck rid body \<Rightarrow> (case body of None \<Rightarrow> True | Some b \<Rightarrow> plain (ToLower (pc_FileHash b)))
     | ReqChunk q \<Rightarrow> plain (ToLower (TrimSpace (cq_Hash q))))"

definition file_setting :: "file_env \<Rightarrow> string \<times> (string \<Rightarrow> string)" where
  "file_setting e = (fl_dir e, fl_hash e)"

text \<open>Requests about uploads, which may fail in any way, and everything else the server does.\<close>

inductive file_step :: "file_env \<Rightarrow> (file_env \<times> http_user option \<times> file_request) option
   \<Rightarrow> 'a file_store_scheme \<Rightarrow> 'a file_store_scheme \<Rightarrow> bool" for e0 where
  requested: "file_setting e = file_setting e0 \<Longrightarrow> sound_files e \<Longrightarrow> plain_request r \<Longrightarrow>
    file_step e0 (Some (e, user, r)) s (file_exec1 e user r s)"
| otherwise: "upload_files s' = upload_files s \<Longrightarrow> disk s' = disk s \<Longrightarrow> file_step e0 None s s'"

lemma files_ok_setting: "file_setting e = file_setting e0 \<Longrightarrow> files_ok e P s = files_ok e0 P s"
  by (simp add: file_setting_def files_ok_def row_sound_def intact_def stored_path_def)

lemma file_step_ok:
  assumes "file_step e0 ev s s'" and "files_ok e0 {} s"
  shows "files_ok e0 {} s'"
  using assms(1)
proof (cases rule: file_step.cases)
  case (requested e r user)
  note to_e = files_ok_setting [OF requested(3)]
  have s: "files_ok e {} s" unfolding to_e by (rule assms(2))
  have "files_ok e {} (file_exec1 e user r s)"
  proof (cases r)
    case (ReqPrecheck rid b)
    with requested(5) have "plain (ToLower (pc_FileHash x))" if "b = Some x" for x using that by (simp add: plain_request_def)
    from keepsD [OF file_precheck [OF this] s] ReqPrecheck show ?thesis by (simp add: file_exec1_def)
  next
    case (ReqChunk q)
    with requested(5) have "plain (ToLower (TrimSpace (cq_Hash q)))" by (simp add: plain_request_def)
    from keepsD [OF file_chunk_upload [OF requested(4) this] s] ReqChunk show ?thesis by (simp add: file_exec1_def)
  qed
  then show ?thesis unfolding to_e requested(2) .
next
  case otherwise
  show ?thesis unfolding files_ok_same [OF otherwise(2,3)] by (rule assms(2))
qed

interpretation stored_files: safe_steps "file_step e0" "files_ok e0 {}" for e0
  by unfold_locales (rule file_step_ok)

lemma in_dropWhile: "c \<in> set xs \<Longrightarrow> \<not> is_space c \<Longrightarrow> c \<in> set (dropWhile is_space xs)"
  by (induction xs) auto

lemma TrimSpace_slash:
  assumes "CHR ''/'' \<in> set x"
  shows "TrimSpace x \<noteq> []"
proof -
  have s: "\<not> is_space CHR ''/''" by code_simp
  from in_dropWhile [OF assms s] have "CHR ''/'' \<in> set (rev (dropWhile is_space x))" by simp
  from in_dropWhile [OF this s] show ?thesis
    unfolding TrimSpace_def rev_is_Nil_conv by (metis empty_iff list.set(1))
qed

lemma uf_pairs_row:
  assumes "uf_pairs ufId s = p # ps"
  shows "snd p \<in> set (upload_files s) \<and> uf_State (snd p) = 2"
proof -
  from assms have "p \<in> set (uf_pairs ufId s)" by simp
  then show ?thesis by (auto simp: uf_pairs_def)
qed

lemma found_row:
  "GetUfFileByUfId e ufId s = Inr row \<Longrightarrow>
    \<exists>f \<in> set (upload_files s). uf_State f = 2 \<and> ur_Path row = uf_Path f \<and> ur_Hash row = uf_Hash f"
  by (auto simp: GetUfFileByUfId_def uf_row_def split: if_splits list.splits dest!: uf_pairs_row)

lemma resolved_row:
  "ResolveDownloadByUfId e ufId uid s = Inr m \<Longrightarrow>
    \<exists>f \<in> set (upload_files s). uf_State f = 2 \<and> mf_Path m = uf_Path f \<and> mf_Hash m = uf_Hash f"
  by (auto simp: ResolveDownloadByUfId_def GetMsgContentFile_def ufRowToMsgContentFile_def uf_row_def
      split: sum.splits if_splits list.splits file_error.splits dest!: uf_pairs_row found_row)

lemma opened_row:
  assumes "files_ok e {} s" and "f \<in> set (upload_files s)" and "uf_State f = 2"
  shows "open_file e (stored_path e (uf_Path f)) s = Some b \<Longrightarrow> fl_hash e b = uf_Hash f"
    and "mf_Path m = uf_Path f \<Longrightarrow> open_first e (candidate_paths e m) s = Some b \<Longrightarrow> fl_hash e b = uf_Hash f"
proof -
  from assms have "placed (uf_Path f) (uf_Hash f)" and i: "intact e (uf_Path f) (uf_Hash f) s"
    by (auto simp: files_ok_def row_sound_def)
  then have "TrimSpace (uf_Path f) \<noteq> []" by (intro TrimSpace_slash) (auto simp: placed_def rel_path_def)
  with i show "open_file e (stored_path e (uf_Path f)) s = Some b \<Longrightarrow> fl_hash e b = uf_Hash f"
    "mf_Path m = uf_Path f \<Longrightarrow> open_first e (candidate_paths e m) s = Some b \<Longrightarrow> fl_hash e b = uf_Hash f"
    by (auto simp: intact_def candidate_paths_def open_file_def split: if_splits)
qed

text \<open>\<open>hello world\<close> in two chunks.\<close>

definition demo_no_files :: file_store where
  "demo_no_files = admin_store.extend demo_empty (file_store.fields [] [] [] (\<lambda>_. {}) {} Map.empty)"

definition demo_chunk :: "string \<Rightarrow> string \<Rightarrow> string \<Rightarrow> chunk_request" where
  "demo_chunk i n data = \<lparr>cq_Name = ''a.txt'', cq_Hash = ''d7'', cq_Index = i, cq_Total = ''2'', cq_Size = n, cq_FileSize = ''11'',
     cq_Scene = ''user_avatar'', cq_Rid = [], cq_Data = data\<rparr>"

definition file_exec :: "(file_env \<times> http_user option \<times> file_request) list \<Rightarrow> 'a file_store_scheme \<Rightarrow> 'a file_store_scheme" where
  "file_exec rs s = fold (\<lambda>(e, u, r). file_exec1 e u r) rs s"

definition demo_upload :: "(file_env \<times> http_user option \<times> file_request) list" where
  "demo_upload = [(demo_file_env, demo_person ''a'', ReqChunk (demo_chunk ''0'' ''6'' ''hello '')),
     (demo_file_env, demo_person ''a'', ReqChunk (demo_chunk ''1'' ''5'' ''world''))]"

lemma run_requested:
  "\<forall>x \<in> set rs. file_setting (fst x) = file_setting e0 \<and> sound_files (fst x) \<and> plain_request (snd (snd x)) \<Longrightarrow>
    run_of (file_step e0) s (map Some rs) (file_exec rs s)"
proof (induction rs rule: rev_induct)
  case (snoc x rs)
  obtain e u r where x: "x = (e, u, r)" by (cases x)
  from snoc have "run_of (file_step e0) s (map Some rs @ [Some (e, u, r)]) (file_exec1 e u r (file_exec rs s))"
    by (intro run_of.onward [OF snoc.IH file_step.requested]) (simp_all add: x)
  then show ?case by (simp add: file_exec_def x)
qed (simp add: file_exec_def run_of.start)

lemma demo_uploaded: "run_of (file_step demo_file_env) demo_no_files (map Some demo_upload) (file_exec demo_upload demo_no_files)"
proof (rule run_requested)
  have "sound_files demo_file_env"
    by (simp add: sound_files_def demo_file_env_def demo_hash_def hexadecimal_def)
  moreover have "plain_request (ReqChunk (demo_chunk i n d))" for i n d
  proof -
    have "plain (ToLower (TrimSpace ''d7''))" by code_simp
    then show ?thesis by (simp add: plain_request_def demo_chunk_def)
  qed
  ultimately show "\<forall>x \<in> set demo_upload. file_setting (fst x) = file_setting demo_file_env \<and> sound_files (fst x) \<and> plain_request (snd (snd x))"
    by (simp add: demo_upload_def)
qed



end
