(* ===== verification/Reassembly.thy ===== *)
theory Reassembly
  imports Uploads
begin

text \<open>
  The way of a file through the server: announced by a precheck, sent in chunks in any order,
  some of them more than once and by several users, put together by the request that
  completes it, and downloaded whole.
\<close>

section \<open>The plan of an upload\<close>

definition calm_files :: "file_env \<Rightarrow> bool" where
  "calm_files e \<longleftrightarrow> (\<forall>x. \<not> fl_fails e x) \<and> inj (ae_xid (fl_admin e)) \<and> (\<forall>k. ae_xid (fl_admin e) k \<noteq> [])"

text \<open>Chunks of one length, the last one at most as long, within the limits.\<close>

definition upload_plan :: "file_env \<Rightarrow> string list \<Rightarrow> nat \<Rightarrow> bool" where
  "upload_plan e ds c \<longleftrightarrow> ds \<noteq> [] \<and> length ds < 2 ^ 32 \<and> 0 < c \<and> c < 2 ^ 32 \<and> c \<le> fl_chunk_size e \<and>
     0 < length (concat ds) \<and> length (concat ds) < 2 ^ 64 \<and> length (concat ds) \<le> fl_max_size e \<and>
     (\<forall>i < length ds. ds ! i \<noteq> [] \<and> (if Suc i = length ds then length (ds ! i) \<le> c else length (ds ! i) = c))"

definition plan_hash :: "file_env \<Rightarrow> string list \<Rightarrow> string" where "plan_hash e ds = fl_hash e (concat ds)"

definition plan_precheck :: "file_env \<Rightarrow> string list \<Rightarrow> nat \<Rightarrow> string \<Rightarrow> string \<Rightarrow> precheck_body" where
  "plan_precheck e ds c n sc = \<lparr>pc_FileHash = plan_hash e ds, pc_FileSize = length (concat ds), pc_ChunkSize = c,
     pc_ChunkTotal = length ds, pc_FileName = n, pc_Scene = sc\<rparr>"

definition plan_chunk :: "file_env \<Rightarrow> string list \<Rightarrow> string \<Rightarrow> string \<Rightarrow> nat \<Rightarrow> chunk_request" where
  "plan_chunk e ds n sc i = \<lparr>cq_Name = n, cq_Hash = plan_hash e ds, cq_Index = decimal i, cq_Total = decimal (length ds),
     cq_Size = decimal (length (ds ! i)), cq_FileSize = decimal (length (concat ds)), cq_Scene = sc, cq_Rid = [], cq_Data = ds ! i\<rparr>"

fun send_all ::
  "file_env \<Rightarrow> (http_user \<times> chunk_request) list \<Rightarrow> 'a file_store_scheme \<Rightarrow> (reply + chunk_answer) list \<times> 'a file_store_scheme" where
  "send_all e [] s = ([], s)"
| "send_all e ((u, q) # qs) s =
     (case ChunkUpload e (Some u) q s of (r, s1) \<Rightarrow> case send_all e qs s1 of (rs, s2) \<Rightarrow> (r # rs, s2))"

definition is_partial :: "reply + chunk_answer \<Rightarrow> bool" where
  "is_partial r = (case r of Inr (Partial n busy) \<Rightarrow> \<not> busy | _ \<Rightarrow> False)"

section \<open>On the way\<close>

text \<open>\<open>underway\<close>: the row waits, and the parts in \<open>D\<close> are there.\<close>

definition ids_fresh :: "file_env \<Rightarrow> 'a file_store_scheme \<Rightarrow> bool" where
  "ids_fresh e s \<longleftrightarrow> (\<forall>k \<ge> xid_next s. ae_xid (fl_admin e) k \<notin> uf_Fid ` set (upload_files s) \<and>
     ae_xid (fl_admin e) k \<notin> uu_UfId ` set (user_files s))"

definition underway ::
  "file_env \<Rightarrow> string list \<Rightarrow> upload_file list \<Rightarrow> upload_file \<Rightarrow> nat set \<Rightarrow> 'a file_store_scheme \<Rightarrow> bool" where
  "underway e ds old f D s \<longleftrightarrow> upload_files s = old @ [f] \<and> plan_hash e ds \<notin> uf_Hash ` set old \<and> uf_Fid f \<notin> uf_Fid ` set old \<and>
     chunk_sets s (plan_hash e ds) = D \<and> D \<subseteq> {..<length ds} \<and> (\<forall>i \<in> D. disk s (part_path e (plan_hash e ds) i) = Some (ds ! i)) \<and>
     (\<forall>i. (plan_hash e ds, i) \<notin> chunk_locks s) \<and> ids_fresh e s"

definition waiting :: "file_env \<Rightarrow> string list \<Rightarrow> nat \<Rightarrow> upload_file \<Rightarrow> bool" where
  "waiting e ds c f \<longleftrightarrow> uf_Hash f = plan_hash e ds \<and> uf_State f = 1 \<and> uf_ChunkCount f = length ds \<and> uf_ChunkSize f = c \<and> uf_DeleteTime f = 0"

lemma find_underway:
  assumes "calm_files e" and "underway e ds old f D s" and "uf_Hash f = plan_hash e ds"
  shows "find_upload e (plan_hash e ds) s = Inr (Some f)"
proof -
  have "find (\<lambda>f. uf_Hash f = plan_hash e ds) old = None" using assms(2) by (simp add: underway_def find_None_iff) (metis imageI)
  then have "find (\<lambda>f. uf_Hash f = plan_hash e ds) (old @ [f]) = Some f" using assms(3) by (induction old) (auto split: if_splits)
  with assms(1,2) show ?thesis by (simp add: find_upload_def underway_def calm_files_def)
qed

lemma decimal_trim [simp]: "TrimSpace (decimal n) = decimal n"
  by (rule TrimSpace_none) (use decimal_chars in blast)

lemma parse_decimal: "n < 2 ^ 64 \<Longrightarrow> parseUintHeader (decimal n) = Some n"
  by (simp add: parseUintHeader_def decimal_ne ParseUint_decimal)

lemma Base_ne: "Base s \<noteq> []"
  by (simp add: Base_def Let_def)

lemma plan_checks:
  assumes "calm_files e" and "sound_files e" and "upload_plan e ds c" and "i < length ds"
  shows "chunk_checks e (plan_chunk e ds n sc i) s =
    (Inr (Base (TrimSpace n), plan_hash e ds, i, length ds, length (ds ! i), length (concat ds), ds ! i), s)"
proof -
  have h: "hexadecimal (plan_hash e ds)" using assms(2) by (simp add: sound_files_def plan_hash_def)
  note h = hexadecimal_D(3,4) [OF h]
  have l: "ds ! i \<noteq> []" "length (ds ! i) \<le> c" using assms(3,4) by (auto simp: upload_plan_def split: if_splits)
  have n: "length ds < 2 ^ 64" "i < 2 ^ 64" "length (ds ! i) < 2 ^ 64" "length (concat ds) < 2 ^ 64"
    using assms(3,4) l by (auto simp: upload_plan_def)
  show ?thesis
    using assms l n h by (simp add: chunk_checks_def plan_chunk_def andThen_def check_def parsed_def succeed_def parse_decimal
        Base_ne upload_plan_def calm_files_def Let_def)
qed

lemma plan_scene:
  assumes "sc \<in> {''user_avatar'', ''room_avatar'', ''room_info''}"
  shows "TrimSpace sc = sc" and "IsPublicUploadScene sc" and "sc \<noteq> UploadSceneRoomAnnouncement"
proof -
  have "list_all (\<lambda>sc. TrimSpace sc = sc \<and> IsPublicUploadScene sc \<and> sc \<noteq> UploadSceneRoomAnnouncement)
      [''user_avatar'', ''room_avatar'', ''room_info'']" by code_simp
  with assms show "TrimSpace sc = sc" "IsPublicUploadScene sc" "sc \<noteq> UploadSceneRoomAnnouncement" by auto
qed

text \<open>A chunk that is there already changes nothing.\<close>

abbreviation plan_args :: "file_env \<Rightarrow> string list \<Rightarrow> string \<Rightarrow> nat \<Rightarrow> string \<times> string \<times> nat \<times> nat \<times> nat \<times> nat \<times> string" where
  "plan_args e ds n i \<equiv> (Base (TrimSpace n), plan_hash e ds, i, length ds, length (ds ! i), length (concat ds), ds ! i)"

lemma plan_send:
  assumes "calm_files e" and "sound_files e" and "upload_plan e ds c" and "i < length ds"
    and "sc \<in> {''user_avatar'', ''room_avatar'', ''room_info''}"
  shows "ChunkUpload e (Some u) (plan_chunk e ds n sc i) s = chunk_tx e u sc (plan_args e ds n i) s"
proof -
  note sc = plan_scene [OF assms(5)]
  have "cq_Scene (plan_chunk e ds n sc i) = sc" by (simp add: plan_chunk_def)
  then show ?thesis
    by (simp add: ChunkUpload_def ensureRoomAnnouncementUploadAllowed_def sc andThen_def GetUser_def succeed_def plan_checks [OF assms(1-4)])
qed

lemma body_found:
  assumes "calm_files e" and "upload_plan e ds c" and "underway e ds old f D s" and "waiting e ds c f" and "i < length ds"
  shows "chunk_body e u sc (plan_args e ds n i) s =
    (if i \<in> D then (Inl (Stay (card D) False), s)
     else with_chunk_lock e (plan_hash e ds) i
       (locked_chunk e u f (Base (TrimSpace n)) (plan_hash e ds) sc i (length ds) (ds ! i)) s)"
proof -
  have "find_or_create_upload e (plan_hash e ds) k l m s = (Inr f, s)" for k l m
    using find_underway [OF assms(1,3)] assms(4) by (simp add: find_or_create_upload_def andThen_def orFail_def query_def succeed_def waiting_def)
  moreover have "length (ds ! i) \<le> c" "Suc i \<noteq> length ds \<Longrightarrow> length (ds ! i) = c"
    using assms(2,5) by (auto simp: upload_plan_def split: if_splits)
  moreover have "chunk_sets s (plan_hash e ds) = D" using assms(3) by (simp add: underway_def)
  moreover have "\<not> fl_fails e x" for x using assms(1) by (simp add: calm_files_def)
  ultimately show ?thesis
    using assms(4) by (auto simp: chunk_body_def andThen_def check_def reading_def refuse_def waiting_def uploaded_count_def Let_def)
qed

lemma db_back_same [simp]: "db_back s s = s"
  by (simp add: db_back_def)

lemma chunk_repeated:
  assumes "calm_files e" and "upload_plan e ds c" and "underway e ds old f D s" and "waiting e ds c f" and "i < length ds" and "i \<in> D"
  shows "chunk_tx e u sc (plan_args e ds n i) s = (Inr (Partial (card D) False), s)"
proof -
  have "\<not> fl_fails e x" for x using assms(1) by (simp add: calm_files_def)
  with body_found [OF assms(1-5)] assms(6) show ?thesis by (simp add: chunk_tx_def Let_def)
qed

text \<open>The part of the store that matters; and operations that must succeed.\<close>

definition file_fields :: "'a file_store_scheme \<Rightarrow> upload_file list \<times> user_file list \<times> nat \<times> (string \<Rightarrow> nat set) \<times>
    (string \<times> nat) set \<times> (path \<rightharpoonup> string)" where
  "file_fields s = (upload_files s, user_files s, xid_next s, chunk_sets s, chunk_locks s, disk s)"

abbreviation sure :: "('s, 'e, 'a) act \<Rightarrow> ('a \<Rightarrow> 's \<Rightarrow> bool) \<Rightarrow> 's \<Rightarrow> bool" where
  "sure m Q s \<equiv> wp m Q (\<lambda>_. False) s"

lemma sure_iff: "sure m Q s \<longleftrightarrow> (\<exists>a s1. m s = (Inr a, s1) \<and> Q a s1)"
  by (cases "m s"; cases "fst (m s)") (simp_all add: wp_def)

lemma sure_eq: "m s = (Inr a, s1) \<Longrightarrow> sure m Q s = Q a s1"
  by (simp add: wp_def)

lemma sure_post: "sure m Q s \<Longrightarrow> (\<And>a s1. Q a s1 \<Longrightarrow> R a s1) \<Longrightarrow> sure m R s"
  unfolding sure_iff by blast

lemma sure_mono: "sure m Q s \<Longrightarrow> (\<And>a s1. Q a s1 \<Longrightarrow> sure (g a) R s1) \<Longrightarrow> sure (andThen m g) R s"
  unfolding wp_andThen by (rule sure_post)

lemma sure_create_chunk: "calm_files e \<Longrightarrow> sure (create_chunk e x) (\<lambda>_ s1. file_fields s1 = file_fields s) s"
  by (simp add: wp_def create_chunk_def calm_files_def file_fields_def)

lemma sure_store_chunk:
  assumes "calm_files e" and "file_fields s = (us, uu, x, C, L, d)"
  shows "sure (store_chunk e f h i b) (\<lambda>n s1. n = card (insert i (C h)) \<and>
    file_fields s1 = (us, uu, x, C(h := insert i (C h)), L, d(part_path e h i \<mapsto> b))) s"
proof -
  have calm: "\<not> fl_fails e y" for y using assms(1) by (simp add: calm_files_def)
  show ?thesis
    unfolding store_chunk_def Let_def
    apply (simp add: calm)
    apply (rule sure_post [OF sure_create_chunk [OF assms(1)]])
    apply (use assms(2) in \<open>simp add: file_fields_def write_disk_def cacheUploaded_def uploaded_count_def calm\<close>)
    done
qed

text \<open>A new chunk that leaves others to come.\<close>

lemma part_paths:
  assumes "sound_files e"
  shows "part_path e (plan_hash e ds) i = part_path e (plan_hash e ds) j \<longleftrightarrow> i = j"
    and "part_path e (plan_hash e ds) i \<noteq> temp_path e (plan_hash e ds)"
proof -
  have "hexadecimal (plan_hash e ds)" "fl_dir e \<noteq> []" using assms by (simp_all add: sound_files_def plan_hash_def)
  with hexadecimal_D(1) pad8_inj [of i j]
  show "part_path e (plan_hash e ds) i = part_path e (plan_hash e ds) j \<longleftrightarrow> i = j"
    "part_path e (plan_hash e ds) i \<noteq> temp_path e (plan_hash e ds)"
    by (auto simp: part_path_below temp_path_below)
qed

lemma locked_calm:
  assumes "calm_files e" and "sure m (\<lambda>r s1. Q r (s1\<lparr>chunk_locks := chunk_locks s1 - {(h, i)}\<rparr>))
      (s\<lparr>chunk_locks := insert (h, i) (chunk_locks s)\<rparr>)"
    and "(h, i) \<notin> chunk_locks s"
  shows "sure (with_chunk_lock e h i m) Q s"
  using assms by (auto simp: wp_def with_chunk_lock_def calm_files_def split: sum.splits prod.splits)

lemma underway_fields:
  "underway e ds old f D s \<longleftrightarrow> (\<exists>uu x C L d. file_fields s = (old @ [f], uu, x, C, L, d) \<and>
     plan_hash e ds \<notin> uf_Hash ` set old \<and> uf_Fid f \<notin> uf_Fid ` set old \<and> C (plan_hash e ds) = D \<and> D \<subseteq> {..<length ds} \<and>
     (\<forall>i \<in> D. d (part_path e (plan_hash e ds) i) = Some (ds ! i)) \<and> (\<forall>i. (plan_hash e ds, i) \<notin> L) \<and>
     (\<forall>k \<ge> x. ae_xid (fl_admin e) k \<notin> uf_Fid ` set (old @ [f]) \<and> ae_xid (fl_admin e) k \<notin> uu_UfId ` set uu))"
  by (simp add: underway_def file_fields_def ids_fresh_def cong: conj_cong)

lemma chunk_more:
  assumes "calm_files e" and "sound_files e" and "upload_plan e ds c" and "underway e ds old f D s" and "waiting e ds c f"
    and "i < length ds" and "i \<notin> D" and "insert i D \<noteq> {..<length ds}"
  shows "sure (chunk_tx e u sc (plan_args e ds n i)) (\<lambda>r s1. is_partial (Inr r) \<and> underway e ds old f (insert i D) s1) s"
proof -
  let ?h = "plan_hash e ds"
  obtain uu x C L d where fs: "file_fields s = (old @ [f], uu, x, C, L, d)"
      "?h \<notin> uf_Hash ` set old \<and> uf_Fid f \<notin> uf_Fid ` set old" "C ?h = D" "D \<subseteq> {..<length ds}"
      "\<forall>i \<in> D. d (part_path e ?h i) = Some (ds ! i)" "\<forall>i. (?h, i) \<notin> L"
      "\<forall>k \<ge> x. ae_xid (fl_admin e) k \<notin> uf_Fid ` set (old @ [f]) \<and> ae_xid (fl_admin e) k \<notin> uu_UfId ` set uu"
    using assms(4) unfolding underway_fields by blast
  have card: "card (insert i D) < length ds"
    using psubset_card_mono [of "{..<length ds}" "insert i D"] fs(4) assms(6,8) by auto
  have new: "\<forall>j \<in> insert i D. (d(part_path e ?h i \<mapsto> ds ! i)) (part_path e ?h j) = Some (ds ! j)"
    using fs(5) part_paths(1) [OF assms(2)] assms(7) by auto
  have fs': "file_fields (s\<lparr>chunk_locks := insert (?h, i) (chunk_locks s)\<rparr>) = (old @ [f], uu, x, C, insert (?h, i) L, d)"
    using fs(1) by (simp add: file_fields_def)
  have "sure (locked_chunk e u f (Base (TrimSpace n)) ?h sc i (length ds) (ds ! i))
      (\<lambda>r s1. is_partial (Inr r) \<and> underway e ds old f (insert i D) (s1\<lparr>chunk_locks := chunk_locks s1 - {(?h, i)}\<rparr>))
      (s\<lparr>chunk_locks := insert (?h, i) (chunk_locks s)\<rparr>)"
    unfolding locked_chunk_def
  proof (rule sure_mono [OF sure_store_chunk [OF assms(1) fs']], elim conjE)
    fix k s1
    assume k: "k = card (insert i (C ?h))"
      and s1: "file_fields s1 = (old @ [f], uu, x, C(?h := insert i (C ?h)), insert (?h, i) L, d(part_path e ?h i \<mapsto> ds ! i))"
    have "underway e ds old f (insert i D) (s1\<lparr>chunk_locks := chunk_locks s1 - {(?h, i)}\<rparr>)"
      using s1 fs(2-4,6,7) new assms(6) by (auto simp: underway_def file_fields_def ids_fresh_def)
    then show "sure (if k < length ds then succeed (Partial k False)
        else andThen (merge_chunks e (uf_Fid f) ?h (length ds)) (finish_upload e u f (Base (TrimSpace n)) ?h sc))
      (\<lambda>r s1. is_partial (Inr r) \<and> underway e ds old f (insert i D) (s1\<lparr>chunk_locks := chunk_locks s1 - {(?h, i)}\<rparr>)) s1"
      using card by (simp add: k fs(3) is_partial_def)
  qed
  moreover have "(?h, i) \<notin> chunk_locks s" using assms(4) by (simp add: underway_def)
  ultimately have "sure (chunk_body e u sc (plan_args e ds n i)) (\<lambda>r s1. is_partial (Inr r) \<and> underway e ds old f (insert i D) s1) s"
    using locked_calm [OF assms(1)] body_found [OF assms(1,3-6), of u sc n] assms(7) by (simp add: sure_iff)
  then obtain r s1 where r: "chunk_body e u sc (plan_args e ds n i) s = (Inr r, s1)" "is_partial (Inr r)"
      "underway e ds old f (insert i D) s1"
    unfolding sure_iff by blast
  from r(2) obtain k where "r = Partial k False" by (auto simp: is_partial_def split: chunk_answer.splits)
  with r assms(1) show ?thesis by (simp add: wp_def chunk_tx_def calm_files_def Let_def)
qed

section \<open>The last chunk\<close>

lemma sure_copy_part:
  assumes "calm_files e" and "file_fields s = (us, uu, x, C, L, d)" and "d (part_path e h i) = Some b" and "d (temp_path e h) = Some old"
  shows "sure (copy_part e fid h i) (\<lambda>r s1. r = b \<and> file_fields s1 = (us, uu, x, C, L, d(temp_path e h \<mapsto> old @ b))) s"
  using assms by (auto simp: wp_def copy_part_def calm_files_def file_fields_def write_disk_def)

lemma sure_copy_parts:
  assumes "calm_files e" and "\<And>i. part_path e h i \<noteq> temp_path e h"
  shows "file_fields s = (us, uu, x, C, L, d) \<Longrightarrow> \<forall>i \<in> set is. d (part_path e h i) = Some (b i) \<Longrightarrow> d (temp_path e h) = Some old \<Longrightarrow>
    sure (copy_parts e fid h is) (\<lambda>r s1. r = concat (map b is) \<and>
      file_fields s1 = (us, uu, x, C, L, d(temp_path e h \<mapsto> old @ concat (map b is)))) s"
proof (induction "is" arbitrary: s d old)
  case Nil
  then show ?case by (simp add: fun_upd_idem)
next
  case (Cons i "is")
  have 1: "d (part_path e h i) = Some (b i)" using Cons.prems(2) by simp
  show ?case
    unfolding copy_parts.simps
  proof (rule sure_mono [OF sure_copy_part [OF assms(1) Cons.prems(1) 1 Cons.prems(3)]], elim conjE)
    fix r and s1 :: "'a file_store_scheme" assume r: "r = b i" "file_fields s1 = (us, uu, x, C, L, d(temp_path e h \<mapsto> old @ b i))"
    have "\<forall>j \<in> set is. (d(temp_path e h \<mapsto> old @ b i)) (part_path e h j) = Some (b j)"
      using Cons.prems(2) assms(2) by auto
    moreover have t: "(d(temp_path e h \<mapsto> old @ b i)) (temp_path e h) = Some (old @ b i)" by simp
    ultimately have "sure (copy_parts e fid h is) (\<lambda>r s1. r = concat (map b is) \<and>
      file_fields s1 = (us, uu, x, C, L, d(temp_path e h \<mapsto> old @ b i @ concat (map b is)))) s1"
      using Cons.IH [OF r(2) _ t] by (simp only: fun_upd_upd append_assoc)
    then show "sure (andThen (copy_parts e fid h is) (\<lambda>bs. succeed (r @ bs)))
      (\<lambda>r s1. r = concat (map b (i # is)) \<and> file_fields s1 = (us, uu, x, C, L, d(temp_path e h \<mapsto> old @ concat (map b (i # is))))) s1"
      by (rule sure_mono) (simp add: r(1))
  qed
qed

lemma sure_merge:
  assumes "calm_files e" and "\<And>i. part_path e h i \<noteq> temp_path e h" and "file_fields s = (us, uu, x, C, L, d)"
    and "\<forall>i < n. d (part_path e h i) = Some (b i)"
  shows "sure (merge_chunks e fid h n) (\<lambda>r s1. r = concat (map b [0..<n]) \<and>
    file_fields s1 = (us, uu, x, C, L, d(temp_path e h \<mapsto> concat (map b [0..<n])))) s"
proof -
  have calm: "\<not> fl_fails e y" for y using assms(1) by (simp add: calm_files_def)
  have f: "file_fields (write_disk (temp_path e h) [] s) = (us, uu, x, C, L, d(temp_path e h \<mapsto> []))"
    using assms(3) by (simp add: file_fields_def write_disk_def)
  have p: "\<forall>i \<in> set [0..<n]. (d(temp_path e h \<mapsto> [])) (part_path e h i) = Some (b i)" using assms(2,4) by simp
  have t: "(d(temp_path e h \<mapsto> [])) (temp_path e h) = Some []" by simp
  note copied = sure_copy_parts [OF assms(1,2) f p t, of fid, unfolded fun_upd_upd append_Nil]
  show ?thesis
    unfolding merge_chunks_def Let_def
    by (simp only: wp_andThen wp_check calm not_False_eq_True if_True wp_change) (rule sure_post [OF copied], simp add: calm)
qed

text \<open>What the thumbnail and the removal of the parts leave where it is.\<close>

lemma video_disk:
  assumes "sound_files e" and "plain (uf_Hash f)" and "placed rel h"
  shows "stored_path e rel \<noteq> Clean (fl_dir e @ ''/'' @ thumb_rel f)"
proof -
  have "fl_dir e \<noteq> []" using assms(1) by (simp add: sound_files_def)
  with placed_path [OF this assms(3)] thumb_below [OF this assms(2)] show ?thesis by auto
qed

lemma gone_disk:
  assumes "sound_files e" and "plain k" and "placed rel h"
  shows "disk (remove_all (chunk_dir e k) s) (stored_path e rel) = disk s (stored_path e rel)"
proof -
  have d: "fl_dir e \<noteq> []" using assms(1) by (simp add: sound_files_def)
  from placed_path [OF d assms(3)] obtain main ext where "stored_path e rel = below e [main, h @ ''.'' @ ext]" by blast
  then show ?thesis using dotted_not_chunks [of h ext] by (simp add: remove_all_def chunk_dir_below [OF d assms(2)] below_def)
qed

lemma sure_video:
  assumes "sound_files e" and "plain (uf_Hash f)" and "fl_video e bytes \<noteq> VideoPanics" and "file_fields s = (us, uu, x, C, L, d)"
    and "placed rel h" and "d (stored_path e rel) = Some b"
  shows "sure (processVideoFile e f bytes) (\<lambda>f' s1. uf_Hash f' = uf_Hash f \<and> uf_Fid f' = uf_Fid f \<and> uf_DeleteTime f' = uf_DeleteTime f \<and>
    (\<exists>d'. file_fields s1 = (us, uu, x, C, L, d') \<and> d' (stored_path e rel) = Some b)) s"
  using assms(3,4,6) video_disk [OF assms(1,2,5)]
  by (auto simp: processVideoFile_def file_fields_def write_disk_def Let_def split: video_result.splits prod.splits)

definition new_user_file :: "string \<Rightarrow> uid \<Rightarrow> string \<Rightarrow> string \<Rightarrow> string \<Rightarrow> user_file" where
  "new_user_file ufId uid n fid sc = \<lparr>uu_UfId = ufId, uu_Filename = n, uu_Uid = uid, uu_Fid = fid, uu_Scene = sc, uu_DeleteTime = 0\<rparr>"

lemma sure_user_file:
  assumes "calm_files e" and "file_fields s = (us, uu, x, C, L, d)" and "ae_xid (fl_admin e) x \<notin> uu_UfId ` set uu"
  shows "sure (create_user_file e n uid fid sc) (\<lambda>r s1. r = ae_xid (fl_admin e) x \<and>
    file_fields s1 = (us, uu @ [new_user_file (ae_xid (fl_admin e) x) uid n fid sc], Suc x, C, L, d)) s"
  using assms by (simp add: wp_def create_user_file_def andThen_def new_xid_def calm_files_def file_fields_def new_user_file_def)

lemma sure_save:
  assumes "calm_files e" and "file_fields s = (old @ [f], uu, x, C, L, d)" and "uf_Fid f \<notin> uf_Fid ` set old" and "uf_Fid f' = uf_Fid f"
  shows "sure (save_upload e f') (\<lambda>_ s1. file_fields s1 = (old @ [f'], uu, x, C, L, d)) s"
proof -
  have "map (\<lambda>v. if uf_Fid v = uf_Fid f then f' else v) old = old"
    by (rule map_idI) (use assms(3) in \<open>simp, metis imageI\<close>)
  with assms show ?thesis by (simp add: wp_def save_upload_def calm_files_def file_fields_def)
qed

definition completed :: "file_env \<Rightarrow> upload_file list \<Rightarrow> user_file list \<Rightarrow> string \<Rightarrow> string \<Rightarrow> uid \<Rightarrow> string \<Rightarrow> string \<Rightarrow> string
   \<Rightarrow> 'a file_store_scheme \<Rightarrow> bool" where
  "completed e old uu fid ufId uid n sc bytes s \<longleftrightarrow> (\<exists>f'.
     upload_files s = old @ [f'] \<and> user_files s = uu @ [new_user_file ufId uid n fid sc] \<and>
     uf_Fid f' = fid \<and> uf_Hash f' = fl_hash e bytes \<and> uf_State f' = 2 \<and> uf_DeleteTime f' = 0 \<and>
     TrimSpace (uf_Path f') \<noteq> [] \<and> disk s (stored_path e (uf_Path f')) = Some bytes)"

lemma sure_finish:
  assumes "calm_files e" and "sound_files e" and "uf_Hash f0 = fl_hash e bytes" and "uf_DeleteTime f0 = 0"
    and "fl_video e bytes \<noteq> VideoPanics" and "file_fields s = (old @ [f0], uu, x, C, L, d)" and "uf_Fid f0 \<notin> uf_Fid ` set old"
    and "ae_xid (fl_admin e) x \<notin> uu_UfId ` set uu"
  shows "sure (finish_upload e u f0 n (fl_hash e bytes) sc bytes) (\<lambda>r s1. r = Merged (uf_Fid f0) (ae_xid (fl_admin e) x) \<and>
    completed e old uu (uf_Fid f0) (ae_xid (fl_admin e) x) (hu_Uid u) n sc bytes s1) s"
proof -
  let ?h = "fl_hash e bytes" and ?f = "typed_upload e n bytes f0"
  let ?rel = "stored_rel ?f ?h"
  have calm: "\<not> fl_fails e y" for y using assms(1) by (simp add: calm_files_def)
  have h: "hexadecimal ?h" using assms(2) by (simp add: sound_files_def)
  note ty = typed_upload_sound [OF assms(2), of n bytes f0]
  have pl: "placed ?rel ?h"
    unfolding placed_def stored_rel_eq [OF ty(1) h ty(2)] using ty h by blast
  have rel: "TrimSpace ?rel \<noteq> []" by (rule TrimSpace_slash) (use pl in \<open>auto simp: placed_def rel_path_def\<close>)
  let ?s = "remove_all (chunk_dir e ?h) (rename_file (temp_path e ?h) (stored_path e ?rel) bytes s)"
  have moved: "disk ?s (stored_path e ?rel) = Some bytes"
    unfolding gone_disk [OF assms(2) hexadecimal_D(1) [OF h] pl] by (simp add: rename_file_def)
  have fs: "file_fields ?s = (old @ [f0], uu, x, C, L, disk ?s)"
    using assms(6) by (simp add: file_fields_def remove_all_def rename_file_def)
  have typed: "uf_DeleteTime ?f = 0"
    using assms(4) by (simp add: typed_upload_def Let_def split: option.splits prod.splits)
  have neg: "\<not> (?h \<noteq> [] \<and> ?h \<noteq> ?h)" by simp
  have ph: "plain (uf_Hash ?f)" using assms(3) ty(3) hexadecimal_D(1) [OF h] by simp
  show ?thesis
    unfolding finish_upload_def Let_def if_not_P [OF neg]
    apply (simp only: wp_andThen wp_check calm not_False_eq_True if_True wp_change wp_orFail)
    apply (rule sure_post [OF sure_video [OF assms(2) ph assms(5) fs pl moved]], elim conjE exE)
    apply (simp only: wp_andThen wp_orFail)
    apply (rule sure_post, rule sure_save [OF assms(1) _ assms(7)], assumption, simp add: ty(4))
    apply (simp only: wp_andThen wp_orFail)
    apply (rule sure_post, rule sure_user_file [OF assms(1) _ assms(8)], assumption)
    apply (auto simp: completed_def file_fields_def ty typed rel assms(3))
    done
qed

text \<open>The chunk that completes the file.\<close>

lemma chunk_completes:
  assumes "calm_files e" and "sound_files e" and "upload_plan e ds c" and "underway e ds old f D s" and "waiting e ds c f"
    and "i < length ds" and "i \<notin> D" and "insert i D = {..<length ds}" and "fl_video e (concat ds) \<noteq> VideoPanics"
  shows "sure (chunk_tx e u sc (plan_args e ds n i)) (\<lambda>r s1. \<exists>ufId uu. r = Merged (uf_Fid f) ufId \<and> ufId \<noteq> [] \<and> ufId \<notin> uu_UfId ` set uu \<and>
    completed e old uu (uf_Fid f) ufId (hu_Uid u) (Base (TrimSpace n)) sc (concat ds) s1) s"
proof -
  let ?h = "plan_hash e ds" and ?n = "Base (TrimSpace n)" and ?xid = "ae_xid (fl_admin e)"
  obtain uu x C L d where fs: "file_fields s = (old @ [f], uu, x, C, L, d)"
      "?h \<notin> uf_Hash ` set old \<and> uf_Fid f \<notin> uf_Fid ` set old" "C ?h = D" "D \<subseteq> {..<length ds}"
      "\<forall>i \<in> D. d (part_path e ?h i) = Some (ds ! i)" "\<forall>i. (?h, i) \<notin> L"
      "\<forall>k \<ge> x. ?xid k \<notin> uf_Fid ` set (old @ [f]) \<and> ?xid k \<notin> uu_UfId ` set uu"
    using assms(4) unfolding underway_fields by blast
  let ?done = "\<lambda>r s1. r = Merged (uf_Fid f) (?xid x) \<and> completed e old uu (uf_Fid f) (?xid x) (hu_Uid u) ?n sc (concat ds) s1"
  have new: "\<forall>j < length ds. (d(part_path e ?h i \<mapsto> ds ! i)) (part_path e ?h j) = Some (ds ! j)"
    using fs(5) part_paths(1) [OF assms(2)] assms(8) by (metis fun_upd_apply insertE lessThan_iff)
  have fs': "file_fields (s\<lparr>chunk_locks := insert (?h, i) (chunk_locks s)\<rparr>) = (old @ [f], uu, x, C, insert (?h, i) L, d)"
    using fs(1) by (simp add: file_fields_def)
  have bytes: "concat (map ((!) ds) [0..<length ds]) = concat ds" by (simp add: map_nth)
  have w: "uf_Hash f = fl_hash e (concat ds)" "uf_DeleteTime f = 0" using assms(5) by (simp_all add: waiting_def plan_hash_def)
  have fin: "uf_Fid f \<notin> uf_Fid ` set old" "?xid x \<notin> uu_UfId ` set uu" using fs(2,7) by simp_all
  have "sure (locked_chunk e u f ?n ?h sc i (length ds) (ds ! i)) ?done (s\<lparr>chunk_locks := insert (?h, i) (chunk_locks s)\<rparr>)"
    unfolding locked_chunk_def
  proof (rule sure_mono [OF sure_store_chunk [OF assms(1) fs']], elim conjE)
    fix k and s1 :: "'a file_store_scheme"
    assume k: "k = card (insert i (C ?h))"
      and s1: "file_fields s1 = (old @ [f], uu, x, C(?h := insert i (C ?h)), insert (?h, i) L, d(part_path e ?h i \<mapsto> ds ! i))"
    have "sure (andThen (merge_chunks e (uf_Fid f) ?h (length ds)) (finish_upload e u f ?n ?h sc)) ?done s1"
    proof (rule sure_mono [OF sure_merge [OF assms(1) part_paths(2) [OF assms(2)] s1 new]], elim conjE)
      fix r and s2 :: "'a file_store_scheme"
      assume r: "r = concat (map ((!) ds) [0..<length ds])"
        and s2: "file_fields s2 = (old @ [f], uu, x, C(?h := insert i (C ?h)), insert (?h, i) L,
          d(part_path e ?h i \<mapsto> ds ! i, temp_path e ?h \<mapsto> concat (map ((!) ds) [0..<length ds])))"
      from sure_finish [OF assms(1,2) w assms(9) s2 fin, of u ?n sc]
      show "sure (finish_upload e u f ?n ?h sc r) ?done s2" unfolding r bytes plan_hash_def .
    qed
    then show "sure (if k < length ds then succeed (Partial k False)
        else andThen (merge_chunks e (uf_Fid f) ?h (length ds)) (finish_upload e u f ?n ?h sc)) ?done s1"
      by (simp add: k fs(3) assms(8))
  qed
  then have "sure (locked_chunk e u f ?n ?h sc i (length ds) (ds ! i)) (\<lambda>r s1. ?done r (s1\<lparr>chunk_locks := chunk_locks s1 - {(?h, i)}\<rparr>))
      (s\<lparr>chunk_locks := insert (?h, i) (chunk_locks s)\<rparr>)"
    by (rule sure_post) (simp add: completed_def)
  moreover have "(?h, i) \<notin> chunk_locks s" using assms(4) by (simp add: underway_def)
  ultimately have "sure (with_chunk_lock e ?h i (locked_chunk e u f ?n ?h sc i (length ds) (ds ! i))) ?done s"
    by (rule locked_calm [OF assms(1)])
  then have "sure (chunk_body e u sc (plan_args e ds n i)) ?done s"
    using body_found [OF assms(1,3-6), of u sc n] assms(7) by (simp add: wp_def)
  then obtain s1 where r: "chunk_body e u sc (plan_args e ds n i) s = (Inr (Merged (uf_Fid f) (?xid x)), s1)"
      "completed e old uu (uf_Fid f) (?xid x) (hu_Uid u) ?n sc (concat ds) s1"
    unfolding sure_iff by blast
  from r(2) have "completed e old uu (uf_Fid f) (?xid x) (hu_Uid u) ?n sc (concat ds) (cleanupUploadCache e ?h s1)"
    by (simp add: completed_def cleanupUploadCache_def)
  with r(1) assms(1) fin(2) show ?thesis by (auto simp: wp_def chunk_tx_def calm_files_def Let_def)
qed

section \<open>The whole way\<close>

lemma send_parts:
  assumes "calm_files e" and "sound_files e" and "upload_plan e ds c" and "waiting e ds c f"
    and "sc \<in> {''user_avatar'', ''room_avatar'', ''room_info''}"
  shows "underway e ds old f D s \<Longrightarrow> D \<union> snd ` set us \<subset> {..<length ds} \<Longrightarrow>
    list_all is_partial (fst (send_all e (map (\<lambda>(u, i). (u, plan_chunk e ds n sc i)) us) s)) \<and>
    underway e ds old f (D \<union> snd ` set us) (snd (send_all e (map (\<lambda>(u, i). (u, plan_chunk e ds n sc i)) us) s))"
proof (induction us arbitrary: D s)
  case (Cons x us)
  obtain u i where x: "x = (u, i)" by (cases x)
  with Cons.prems(2) have i: "i < length ds" "insert i D \<noteq> {..<length ds}" "insert i D \<union> snd ` set us \<subset> {..<length ds}" by auto
  have "\<exists>r s1. ChunkUpload e (Some u) (plan_chunk e ds n sc i) s = (Inr r, s1) \<and> is_partial (Inr r) \<and> underway e ds old f (insert i D) s1"
  proof (cases "i \<in> D")
    case True
    from chunk_repeated [OF assms(1,3) Cons.prems(1) assms(4) i(1) True, of u sc n] True Cons.prems(1)
    show ?thesis by (simp add: plan_send [OF assms(1-3) i(1) assms(5)] is_partial_def insert_absorb)
  next
    case False
    from chunk_more [OF assms(1-3) Cons.prems(1) assms(4) i(1) False i(2), of u sc n]
    show ?thesis by (auto simp: plan_send [OF assms(1-3) i(1) assms(5)] sure_iff)
  qed
  then obtain r s1 where "ChunkUpload e (Some u) (plan_chunk e ds n sc i) s = (Inr r, s1)" "is_partial (Inr r)"
    "underway e ds old f (insert i D) s1" by blast
  with Cons.IH [OF this(3) i(3)] show ?case by (auto simp: x split: prod.splits)
qed simp

lemma precheck_underway:
  assumes "calm_files e" and "sound_files e" and "upload_plan e ds c" and "sc \<in> {''user_avatar'', ''room_avatar'', ''room_info''}"
    and "plan_hash e ds \<notin> uf_Hash ` set (upload_files s)" and "ids_fresh e s"
    and "chunk_sets s (plan_hash e ds) = {}" and "\<forall>i. (plan_hash e ds, i) \<notin> chunk_locks s"
  shows "sure (UploadPrecheck e (Some u) rid (Some (plan_precheck e ds c n sc)))
    (\<lambda>r s1. \<exists>f xs b. r = Resume f xs b \<and> waiting e ds c f \<and> underway e ds (upload_files s) f {} s1) s"
proof -
  let ?xid = "ae_xid (fl_admin e)" and ?f = "new_upload (plan_hash e ds) (length (concat ds)) c (length ds) (ae_xid (fl_admin e) (xid_next s))"
  have calm: "\<not> fl_fails e y" for y using assms(1) by (simp add: calm_files_def)
  have h: "hexadecimal (plan_hash e ds)" using assms(2) by (simp add: sound_files_def plan_hash_def)
  note sc = plan_scene [OF assms(4)]
  have none: "find (\<lambda>f. uf_Hash f = plan_hash e ds) (upload_files s) = None"
    using assms(5) by (simp add: find_None_iff) (metis imageI)
  have w: "waiting e ds c ?f" using assms(3) by (simp add: waiting_def new_upload_def upload_plan_def)
  have new: "?xid (xid_next s) \<notin> uf_Fid ` set (upload_files s)" using assms(6) by (simp add: ids_fresh_def)
  have inj: "?xid k \<noteq> ?xid (xid_next s)" if "Suc (xid_next s) \<le> k" for k
    using assms(1) that by (simp add: calm_files_def inj_eq)
  have "underway e ds (upload_files s) ?f {} (s\<lparr>xid_next := Suc (xid_next s), upload_files := upload_files s @ [?f]\<rparr>)"
    using assms(5-8) new inj by (auto simp: underway_def ids_fresh_def new_upload_def)
  moreover have "create_upload e (plan_hash e ds) (length (concat ds)) c (length ds) s =
      (Inr ?f, s\<lparr>xid_next := Suc (xid_next s), upload_files := upload_files s @ [?f]\<rparr>)"
    using new assms(5) by (simp add: create_upload_def andThen_def new_xid_def calm Let_def)
  moreover have "plan_hash e ds \<noteq> []" "uf_State ?f = 1" using h by (simp_all add: hexadecimal_def new_upload_def)
  moreover have "0 < length (concat ds)" "0 < c" "c \<le> fl_chunk_size e" "length (concat ds) \<le> fl_max_size e" "ds \<noteq> []"
    using assms(3) by (simp_all add: upload_plan_def del: length_concat)
  ultimately show ?thesis
    using w none sc(1,3) hexadecimal_D(3) [OF h]
    by (auto simp: UploadPrecheck_def plan_precheck_def ensureRoomAnnouncementUploadAllowed_def wp_query find_upload_def calm sure_eq Let_def
        simp del: length_concat)
qed

lemma completed_pairs:
  assumes "completed e old uu fid ufId uid n sc bytes s" and "ufId \<notin> uu_UfId ` set uu" and "fid \<notin> uf_Fid ` set old"
  shows "\<exists>f'. uf_Path f' \<noteq> [] \<and> TrimSpace (uf_Path f') \<noteq> [] \<and> uf_Hash f' = fl_hash e bytes \<and> disk s (stored_path e (uf_Path f')) = Some bytes \<and>
    (\<exists>ps. uf_pairs ufId s = (new_user_file ufId uid n fid sc, f') # ps)"
proof -
  let ?row = "new_user_file ufId uid n fid sc"
  from assms(1) obtain f' where f': "upload_files s = old @ [f']" "user_files s = uu @ [?row]" "uf_Fid f' = fid"
      "uf_Hash f' = fl_hash e bytes" "uf_State f' = 2" "uf_DeleteTime f' = 0"
      "TrimSpace (uf_Path f') \<noteq> []" "disk s (stored_path e (uf_Path f')) = Some bytes"
    unfolding completed_def by blast
  have no: "uu_UfId x \<noteq> ufId" if "x \<in> set uu" for x using assms(2) that by auto
  have no': "uf_Fid g \<noteq> fid" if "g \<in> set old" for g using assms(3) that by auto
  have row: "uu_UfId ?row = ufId" "uu_Fid ?row = fid" "uu_DeleteTime ?row = 0" by (simp_all add: new_user_file_def)
  have "set (uf_pairs ufId s) = {(?row, f')}"
  proof (intro equalityI subsetI)
    fix p assume "p \<in> set (uf_pairs ufId s)"
    then obtain x g where p: "p = (x, g)" "x \<in> set uu \<or> x = ?row" "g \<in> set old \<or> g = f'" "uu_UfId x = ufId" "uf_Fid g = uu_Fid x"
      by (auto simp: uf_pairs_def f'(1,2))
    from p(2,4) no have "x = ?row" by blast
    moreover from this p(3,5) no' row(2) have "g = f'" by auto
    ultimately show "p \<in> {(?row, f')}" using p(1) by simp
  next
    fix p assume "p \<in> {(?row, f')}"
    then show "p \<in> set (uf_pairs ufId s)" using f' row by (simp add: uf_pairs_def)
  qed
  then obtain ps where "uf_pairs ufId s = (?row, f') # ps" by (cases "uf_pairs ufId s") auto
  moreover have "uf_Path f' \<noteq> []" using f'(7) by auto
  ultimately show ?thesis using f' by blast
qed

lemma completed_download:
  assumes "calm_files e" and "IsPublicUploadScene sc" and "ufId \<noteq> []"
    and "completed e old uu fid ufId uid n sc bytes s" and "ufId \<notin> uu_UfId ` set uu" and "fid \<notin> uf_Fid ` set old"
  shows "fst (DownloadFile e (Some v) ufId [] s) = Inr (fl_hash e bytes, bytes)"
proof -
  have calm: "\<not> fl_fails e y" for y using assms(1) by (simp add: calm_files_def)
  from completed_pairs [OF assms(4-6)] obtain f' ps where f: "TrimSpace (uf_Path f') \<noteq> []" "uf_Hash f' = fl_hash e bytes"
      "disk s (stored_path e (uf_Path f')) = Some bytes" "uf_pairs ufId s = (new_user_file ufId uid n fid sc, f') # ps"
    by blast
  have "ResolveDownloadByUfId e ufId k s = Inr (ufRowToMsgContentFile (uf_row (new_user_file ufId uid n fid sc, f')))" for k
    using f(4) assms(2) calm by (simp add: ResolveDownloadByUfId_def GetUfFileByUfId_def uf_row_def new_user_file_def)
  then show ?thesis
    using f(1-3) assms(3) calm
    by (simp add: DownloadFile_def andThen_def GetUser_def check_def orFail_def query_def reading_def parsed_def succeed_def
        candidate_paths_def open_file_def ufRowToMsgContentFile_def uf_row_def)
qed

lemma send_all_snoc:
  "send_all e (qs @ [(u, q)]) s = (case send_all e qs s of (rs, s1) \<Rightarrow> case ChunkUpload e (Some u) q s1 of (r, s2) \<Rightarrow> (rs @ [r], s2))"
  by (induction qs arbitrary: s) (auto split: prod.splits)

text \<open>
  C13. Uploads arrive whole: in a calm server, a file in a public scene is announced by a precheck and sent in
  chunks of one length, the last one no longer, in any order, repeated at will, by any users;
  then every request before all chunks are there reports progress, the one that brings
  the missing chunk answers with the identifier of the merged file, and a download by that
  identifier gives the chunks in their order, with their hash.
\<close>

theorem upload_reassembles:
  assumes "calm_files e" and "sound_files e" and "upload_plan e ds c" and "fl_video e (concat ds) \<noteq> VideoPanics"
    and "sc \<in> {''user_avatar'', ''room_avatar'', ''room_info''}"
    and "plan_hash e ds \<notin> uf_Hash ` set (upload_files s)" and "ids_fresh e s"
    and "chunk_sets s (plan_hash e ds) = {}" and "\<forall>i. (plan_hash e ds, i) \<notin> chunk_locks s"
    and "snd ` set us \<subset> {..<length ds}" and "insert j (snd ` set us) = {..<length ds}"
  shows "\<exists>r s1 rs fid ufId s2. UploadPrecheck e (Some u) rid (Some (plan_precheck e ds c n sc)) s = (Inr r, s1) \<and>
    send_all e (map (\<lambda>(u, i). (u, plan_chunk e ds n sc i)) (us @ [(w, j)])) s1 = (rs @ [Inr (Merged fid ufId)], s2) \<and>
    list_all is_partial rs \<and> fst (DownloadFile e (Some v) ufId [] s2) = Inr (plan_hash e ds, concat ds)"
proof -
  from precheck_underway [OF assms(1-3,5-9), of u rid n] obtain r s1 f where
    pre: "UploadPrecheck e (Some u) rid (Some (plan_precheck e ds c n sc)) s = (Inr r, s1)"
      "waiting e ds c f" "underway e ds (upload_files s) f {} s1" unfolding sure_iff by blast
  obtain rs s2 where sent: "send_all e (map (\<lambda>(u, i). (u, plan_chunk e ds n sc i)) us) s1 = (rs, s2)" by fastforce
  from send_parts [OF assms(1-3) pre(2) assms(5) pre(3), of us n] assms(10) sent
  have more: "list_all is_partial rs" "underway e ds (upload_files s) f (snd ` set us) s2" by simp_all
  have j: "j < length ds" "j \<notin> snd ` set us" using assms(10,11) by auto
  from chunk_completes [OF assms(1-3) more(2) pre(2) j assms(11,4), of w sc n] obtain ufId uu s3 where
    l: "ChunkUpload e (Some w) (plan_chunk e ds n sc j) s2 = (Inr (Merged (uf_Fid f) ufId), s3)" "ufId \<noteq> []" "ufId \<notin> uu_UfId ` set uu"
      "completed e (upload_files s) uu (uf_Fid f) ufId (hu_Uid w) (Base (TrimSpace n)) sc (concat ds) s3"
    unfolding sure_iff plan_send [OF assms(1-3) j(1) assms(5)] by blast
  have "uf_Fid f \<notin> uf_Fid ` set (upload_files s)" using pre(3) by (simp add: underway_def)
  from completed_download [OF assms(1) plan_scene(2) [OF assms(5)] l(2,4,3) this]
  have "fst (DownloadFile e (Some v) ufId [] s3) = Inr (plan_hash e ds, concat ds)" by (simp add: plan_hash_def)
  with pre(1) sent more(1) l(1) show ?thesis by (auto simp: send_all_snoc)
qed

definition demo_plan_env :: file_env where
  "demo_plan_env = demo_file_env\<lparr>fl_admin := (demo_admin_env 1000)\<lparr>ae_xid := (\<lambda>n. CHR ''f'' # replicate n CHR ''x'')\<rparr>\<rparr>"

definition demo_sender :: "string \<Rightarrow> http_user" where "demo_sender uid = \<lparr>hu_Uid = uid, hu_Nickname = ''nick''\<rparr>"

definition demo_parts :: "string list" where "demo_parts = [''hello '', ''world'']"

theorem upload_reassembles_witness:
  "\<exists>r s1 rs fid ufId s2.
    UploadPrecheck demo_plan_env (Some (demo_sender ''a'')) [] (Some (plan_precheck demo_plan_env demo_parts 6 ''a.txt'' ''user_avatar'')) demo_no_files = (Inr r, s1) \<and>
    send_all demo_plan_env (map (\<lambda>(u, i). (u, plan_chunk demo_plan_env demo_parts ''a.txt'' ''user_avatar'' i))
      ([(demo_sender ''a'', 1), (demo_sender ''b'', 1)] @ [(demo_sender ''a'', 0)])) s1 = (rs @ [Inr (Merged fid ufId)], s2) \<and>
    list_all is_partial rs \<and> fst (DownloadFile demo_plan_env (Some (demo_sender ''c'')) ufId [] s2) = Inr (plan_hash demo_plan_env demo_parts, concat demo_parts)"
proof (rule upload_reassembles)
  show "calm_files demo_plan_env"
    by (auto simp: calm_files_def demo_plan_env_def demo_file_env_def demo_admin_env_def inj_def dest: arg_cong [of _ _ length])
  show "sound_files demo_plan_env"
    by (simp add: sound_files_def demo_plan_env_def demo_file_env_def demo_hash_def hexadecimal_def)
  show "upload_plan demo_plan_env demo_parts 6"
    by (auto simp: upload_plan_def demo_plan_env_def demo_file_env_def demo_parts_def nth_Cons' less_Suc_eq)
  show "fl_video demo_plan_env (concat demo_parts) \<noteq> VideoPanics" by (simp add: demo_plan_env_def demo_file_env_def)
  show "plan_hash demo_plan_env demo_parts \<notin> uf_Hash ` set (upload_files demo_no_files)" "ids_fresh demo_plan_env demo_no_files"
    "chunk_sets demo_no_files (plan_hash demo_plan_env demo_parts) = {}"
    "\<forall>i. (plan_hash demo_plan_env demo_parts, i) \<notin> chunk_locks demo_no_files"
    by (simp_all add: demo_no_files_def ids_fresh_def file_store.defs admin_store.defs demo_empty_def)
  show "snd ` set [(demo_sender ''a'', 1), (demo_sender ''b'', 1)] \<subset> {..<length demo_parts}"
    "insert 0 (snd ` set [(demo_sender ''a'', 1), (demo_sender ''b'', 1)]) = {..<length demo_parts}"
    by (auto simp: demo_parts_def)
qed simp

section \<open>What goes wrong\<close>

text \<open>The hash of a request names a directory, so it can name one outside the upload directory.\<close>

theorem chunks_can_escape:
  "fl_dir demo_file_env = ''/data'' \<and>
   disk (snd (ChunkUpload demo_file_env (demo_person ''a'') ((demo_chunk ''0'' ''5'' ''stray'')\<lparr>cq_Hash := ''../etc''\<rparr>) demo_no_files))
     (True, [''etc'', ''chunks'', ''00000000.part'']) = Some ''stray''"
  by code_simp

text \<open>The precheck looks for chunks under the identifier of the file, and they are kept under its hash: it reports none.\<close>

theorem resume_forgets_chunks:
  "(case fst (UploadPrecheck demo_file_env (demo_person ''a'') [] (Some (plan_precheck demo_file_env demo_parts 6 ''a.txt'' ''user_avatar''))
      (file_exec [hd demo_upload] demo_no_files)) of Inr (Resume f xs b) \<Rightarrow> xs = [] | _ \<Rightarrow> False) \<and>
   chunk_sets (file_exec [hd demo_upload] demo_no_files) ''d7'' = {0}"
  by code_simp

text \<open>Without a precheck the first chunk to arrive sets the length of all: after the short last one, the others are refused.\<close>

theorem last_chunk_first_is_stuck:
  "fst (ChunkUpload demo_file_env (demo_person ''a'') (demo_chunk ''0'' ''6'' ''hello '') (file_exec [last demo_upload] demo_no_files)) =
   Inl (BadRequest ''other chunks'')"
  by code_simp

end
