(* ===== verification/Calls.thy ===== *)
theory Calls
  imports Downloads
begin

text \<open>
  Calls with voice and video (\<open>http/handler/media/stream.go\<close>, \<open>pkg/publishermedia\<close>,
  \<open>media_call_record\<close> in \<open>db/entity/entity.go\<close>): what a call keeps in Redis, the permits for the
  media server, and the handlers that open, accept, join, leave, reject and end a call.
\<close>

section \<open>What a call keeps\<close>

record publisher_media =
  pb_Width :: nat
  pb_Height :: nat
  pb_Fps :: nat
  pb_Bitrate :: nat

definition Valid :: "publisher_media \<Rightarrow> bool" where
  "Valid p \<longleftrightarrow> 160 \<le> pb_Width p \<and> pb_Width p \<le> 3840 \<and> 120 \<le> pb_Height p \<and> pb_Height p \<le> 2160 \<and>
     1 \<le> pb_Fps p \<and> pb_Fps p \<le> 60 \<and> 100000 \<le> pb_Bitrate p \<and> pb_Bitrate p \<le> 12000000"

record join_sign =
  js_UID :: uid
  js_SID :: sid
  js_RID :: rid
  js_Role :: string
  js_Nonce :: string
  js_ExpireAt :: time
  js_Sign :: string

record call_invite =
  ci_CallID :: string
  ci_Rid :: rid
  ci_CallType :: string
  ci_CallScene :: string
  ci_InviterUID :: uid
  ci_InviteeUIDs :: "uid list"
  ci_CreateTime :: time
  ci_ExpireAt :: time
  ci_Media :: publisher_media

record call_state =
  cs_CallID :: string
  cs_Rid :: rid
  cs_CallType :: string
  cs_CallScene :: string
  cs_InviterUID :: uid
  cs_InviteeUIDs :: "uid list"
  cs_ActiveUIDs :: "uid list"
  cs_RejectedUIDs :: "uid list"
  cs_Ended :: bool
  cs_CreateTime :: time
  cs_ExpireAt :: time
  cs_Media :: publisher_media

record call_record =
  mc_CallID :: string
  mc_Rid :: rid
  mc_CallType :: string
  mc_CallScene :: string
  mc_InviterUID :: uid
  mc_InviteeUIDs :: "uid list"
  mc_StartedAt :: time
  mc_EndedAt :: time
  mc_DurationSec :: int
  mc_EndReason :: string
  mc_OperatorUID :: uid

text \<open>A value in Redis and the time it expires at, if it does.\<close>

type_synonym 'v cell = "'v \<times> time option"

definition rget :: "time \<Rightarrow> (string \<rightharpoonup> 'v cell) \<Rightarrow> string \<Rightarrow> 'v option" where
  "rget now m k =
     (case m k of
        None \<Rightarrow> None
      | Some (v, None) \<Rightarrow> Some v
      | Some (v, Some t) \<Rightarrow> if now < t then Some v else None)"

text \<open>A time to live that is not positive means that the key stays.\<close>

definition rset :: "time \<Rightarrow> string \<Rightarrow> 'v \<Rightarrow> time \<Rightarrow> (string \<rightharpoonup> 'v cell) \<Rightarrow> (string \<rightharpoonup> 'v cell)" where
  "rset now k v ttl m = m(k \<mapsto> (v, if ttl \<le> 0 then None else Some (now + ttl)))"

record call_redis =
  call_invites :: "string \<rightharpoonup> call_invite cell"
  call_states :: "string \<rightharpoonup> call_state cell"
  room_calls :: "rid \<rightharpoonup> string cell"
  user_calls :: "uid \<rightharpoonup> string cell"
  join_signs :: "string \<rightharpoonup> join_sign cell"

record call_store = admin_store +
  calls :: call_redis
  call_records :: "call_record list"
  uuid_next :: nat

datatype call_call =
    GetInvite | GetState | GetRoomCall | GetUserCall | SetInvite | SetState | SetRoomCall | SetUserCall | SetSign
  | DelInvite | DelState | DelRoomCall | DelUserCall | TakeSign | InsertRecord

text \<open>
  One request: the failing calls, the random identifiers, HMAC-SHA256 in hexadecimal digits and
  its key, the address of a media server that the registry picks.
\<close>

record call_env =
  cl_admin :: admin_env
  cl_fails :: "call_call \<Rightarrow> bool"
  cl_uuid :: "nat \<Rightarrow> string"
  cl_hmac :: "string \<Rightarrow> string \<Rightarrow> string"
  cl_key :: string
  cl_addr :: string

abbreviation cl_now :: "call_env \<Rightarrow> time" where "cl_now e \<equiv> ae_now (cl_admin e)"
abbreviation cl_sid :: "call_env \<Rightarrow> sid" where "cl_sid e \<equiv> ae_sid (cl_admin e)"

definition mediaJoinSignTTLDefault :: time where "mediaJoinSignTTLDefault = 45000"
definition mediaALPN :: string where "mediaALPN = ''cc-media-v1''"

datatype leave_status = LeaveExpired | LeaveUnauthorized | LeaveOK

section \<open>Lists of users\<close>

definition allowCallMember :: "call_invite \<Rightarrow> uid \<Rightarrow> bool" where
  "allowCallMember d uid \<longleftrightarrow> uid = ci_InviterUID d \<or> uid \<in> set (ci_InviteeUIDs d)"

definition appendUniqueUid :: "uid list \<Rightarrow> uid \<Rightarrow> uid list" where
  "appendUniqueUid xs uid = (if uid \<in> set xs then xs else xs @ [uid])"

definition removeUid :: "uid list \<Rightarrow> uid \<Rightarrow> uid list" where
  "removeUid xs uid = filter (\<lambda>v. v \<noteq> uid) xs"

definition uniqueUids :: "uid list \<Rightarrow> uid list" where
  "uniqueUids xs = dedup_seen {} (filter (\<lambda>u. u \<noteq> []) xs)"

definition call_members :: "call_invite \<Rightarrow> uid list" where
  "call_members d = uniqueUids (ci_InviterUID d # ci_InviteeUIDs d)"

section \<open>Keys in Redis\<close>

definition isCallExpired :: "call_env \<Rightarrow> time \<Rightarrow> bool" where
  "isCallExpired e expireAt \<longleftrightarrow> 0 < expireAt \<and> expireAt < cl_now e"

definition callStateTTL :: "call_env \<Rightarrow> time \<Rightarrow> time" where
  "callStateTTL e expireAt = (if expireAt \<le> 0 then 0 else let ttl = expireAt - cl_now e in if ttl \<le> 0 then 0 else ttl)"

definition callDurationSeconds :: "call_env \<Rightarrow> call_invite \<Rightarrow> int" where
  "callDurationSeconds e d =
     (if ci_CreateTime d \<le> 0 then 0 else if cl_now e < ci_CreateTime d then 0 else (cl_now e - ci_CreateTime d) div 1000)"

text \<open>The call that a key holds; one whose \<open>CallID\<close> is empty counts as absent everywhere.\<close>

definition get_invite :: "call_env \<Rightarrow> string \<Rightarrow> call_redis \<Rightarrow> call_invite option" where
  "get_invite e callId c =
     (if cl_fails e GetInvite then None
      else case rget (cl_now e) (call_invites c) callId of
        None \<Rightarrow> None | Some d \<Rightarrow> if ci_CallID d = [] then None else Some d)"

definition get_state :: "call_env \<Rightarrow> string \<Rightarrow> call_redis \<Rightarrow> call_state option" where
  "get_state e callId c =
     (if cl_fails e GetState then None
      else case rget (cl_now e) (call_states c) callId of
        None \<Rightarrow> None | Some st \<Rightarrow> if cs_CallID st = [] then None else Some st)"

definition get_room_call :: "call_env \<Rightarrow> rid \<Rightarrow> call_redis \<Rightarrow> string option" where
  "get_room_call e rid c = (if cl_fails e GetRoomCall then None else rget (cl_now e) (room_calls c) rid)"

definition get_user_call :: "call_env \<Rightarrow> uid \<Rightarrow> call_redis \<Rightarrow> string option" where
  "get_user_call e uid c = (if cl_fails e GetUserCall then None else rget (cl_now e) (user_calls c) uid)"

definition set_state :: "call_env \<Rightarrow> string \<Rightarrow> call_state \<Rightarrow> time \<Rightarrow> call_redis \<Rightarrow> call_redis" where
  "set_state e callId st ttl c =
     (if cl_fails e SetState then c else c\<lparr>call_states := rset (cl_now e) callId st ttl (call_states c)\<rparr>)"

definition del_room_call :: "call_env \<Rightarrow> rid \<Rightarrow> call_redis \<Rightarrow> call_redis" where
  "del_room_call e rid c = (if cl_fails e DelRoomCall then c else c\<lparr>room_calls := (room_calls c)(rid := None)\<rparr>)"

definition setUserActiveCallMapping :: "call_env \<Rightarrow> uid \<Rightarrow> string \<Rightarrow> time \<Rightarrow> call_redis \<Rightarrow> call_redis" where
  "setUserActiveCallMapping e uid0 callId0 expireAt c =
     (let uid = TrimSpace uid0; callId = TrimSpace callId0 in
      if uid = [] \<or> callId = [] \<or> cl_fails e SetUserCall then c
      else c\<lparr>user_calls := rset (cl_now e) uid callId (callStateTTL e expireAt) (user_calls c)\<rparr>)"

definition clearUserActiveCallMapping :: "call_env \<Rightarrow> uid \<Rightarrow> call_redis \<Rightarrow> call_redis" where
  "clearUserActiveCallMapping e uid0 c =
     (let uid = TrimSpace uid0 in
      if uid = [] \<or> cl_fails e DelUserCall then c else c\<lparr>user_calls := (user_calls c)(uid := None)\<rparr>)"

text \<open>The state is absent when its \<open>CallID\<close> is empty.\<close>

definition clearAllUserActiveCallMappingsForCall ::
  "call_env \<Rightarrow> call_invite \<Rightarrow> call_state \<Rightarrow> call_redis \<Rightarrow> call_redis" where
  "clearAllUserActiveCallMappingsForCall e d st c =
     fold (clearUserActiveCallMapping e)
       (uniqueUids (ci_InviterUID d # ci_InviteeUIDs d @ (if cs_CallID st \<noteq> [] then cs_ActiveUIDs st @ cs_RejectedUIDs st else []))) c"

definition destroyMediaCallSessionKeys :: "call_env \<Rightarrow> string \<Rightarrow> rid \<Rightarrow> call_redis \<Rightarrow> call_redis" where
  "destroyMediaCallSessionKeys e callId0 rid0 c =
     (let callId = TrimSpace callId0; rid = TrimSpace rid0;
          c1 = (if callId \<noteq> [] \<and> \<not> cl_fails e DelInvite then c\<lparr>call_invites := (call_invites c)(callId := None)\<rparr> else c);
          c2 = (if callId \<noteq> [] \<and> \<not> cl_fails e DelState then c1\<lparr>call_states := (call_states c1)(callId := None)\<rparr> else c1)
      in if rid \<noteq> [] then del_room_call e rid c2 else c2)"

definition on_calls :: "(call_redis \<Rightarrow> call_redis) \<Rightarrow> 'a call_store_scheme \<Rightarrow> 'a call_store_scheme" where
  "on_calls f s = s\<lparr>calls := f (calls s)\<rparr>"

text \<open>The state of a call when its key is missing.\<close>

definition fresh_state :: "call_invite \<Rightarrow> call_state" where
  "fresh_state d =
     \<lparr>cs_CallID = ci_CallID d, cs_Rid = ci_Rid d, cs_CallType = ci_CallType d, cs_CallScene = ci_CallScene d,
      cs_InviterUID = ci_InviterUID d, cs_InviteeUIDs = ci_InviteeUIDs d, cs_ActiveUIDs = [], cs_RejectedUIDs = [],
      cs_Ended = False, cs_CreateTime = ci_CreateTime d, cs_ExpireAt = ci_ExpireAt d, cs_Media = ci_Media d\<rparr>"

definition zero_state :: call_state where
  "zero_state =
     \<lparr>cs_CallID = [], cs_Rid = [], cs_CallType = [], cs_CallScene = [], cs_InviterUID = [], cs_InviteeUIDs = [],
      cs_ActiveUIDs = [], cs_RejectedUIDs = [], cs_Ended = False, cs_CreateTime = 0, cs_ExpireAt = 0,
      cs_Media = \<lparr>pb_Width = 0, pb_Height = 0, pb_Fps = 0, pb_Bitrate = 0\<rparr>\<rparr>"

definition state_of :: "call_env \<Rightarrow> string \<Rightarrow> call_invite \<Rightarrow> call_redis \<Rightarrow> call_state" where
  "state_of e callId d c = (case get_state e callId c of None \<Rightarrow> fresh_state d | Some st \<Rightarrow> st)"

section \<open>Telling the members, the end of a call\<close>

text \<open>\<open>helper.NotifyQuic\<close>, whose error nobody looks at.\<close>

definition tell :: "call_env \<Rightarrow> notify_message \<Rightarrow> 'a call_store_scheme \<Rightarrow> 'a call_store_scheme" where
  "tell e msg s = (if ae_fails (cl_admin e) PushNotify then s else emit (Pushed msg) s)"

definition broadcastStreamCallMemberSync :: "call_env \<Rightarrow> string \<Rightarrow> 'a call_store_scheme \<Rightarrow> 'a call_store_scheme" where
  "broadcastStreamCallMemberSync e callId s =
     (case get_invite e callId (calls s) of
        None \<Rightarrow> s
      | Some d \<Rightarrow>
          let active = (case get_state e callId (calls s) of None \<Rightarrow> [] | Some st \<Rightarrow> cs_ActiveUIDs st) in
          tell e (StreamCallSyncNotify (ci_CallID d) (int (length active))
            (uniqueUids (ci_InviterUID d # ci_InviteeUIDs d @ active))) s)"

text \<open>One record per call: the column has a unique index, and a failing insert is logged only.\<close>

definition saveMediaCallRecord :: "call_env \<Rightarrow> call_invite \<Rightarrow> string \<Rightarrow> uid \<Rightarrow> 'a call_store_scheme \<Rightarrow> 'a call_store_scheme" where
  "saveMediaCallRecord e d reason operator s =
     (if cl_fails e InsertRecord \<or> ci_CallID d \<in> mc_CallID ` set (call_records s) then s
      else s\<lparr>call_records := call_records s @
        [\<lparr>mc_CallID = ci_CallID d, mc_Rid = ci_Rid d, mc_CallType = ci_CallType d, mc_CallScene = ci_CallScene d,
          mc_InviterUID = ci_InviterUID d, mc_InviteeUIDs = ci_InviteeUIDs d, mc_StartedAt = ci_CreateTime d,
          mc_EndedAt = cl_now e, mc_DurationSec = callDurationSeconds e d, mc_EndReason = reason,
          mc_OperatorUID = operator\<rparr>]\<rparr>)"

definition finalizeMediaCallSessionNoActive ::
  "call_env \<Rightarrow> call_invite \<Rightarrow> call_state \<Rightarrow> uid \<Rightarrow> 'a call_store_scheme \<Rightarrow> 'a call_store_scheme" where
  "finalizeMediaCallSessionNoActive e d st0 operator s =
     (if cs_Ended st0 then s
      else
        let st = st0\<lparr>cs_Ended := True\<rparr>;
            s1 = on_calls (set_state e (ci_CallID d) st (callStateTTL e (ci_ExpireAt d))) s;
            s2 = on_calls (clearAllUserActiveCallMappingsForCall e d st) s1;
            s3 = broadcastStreamCallMemberSync e (ci_CallID d) s2;
            s4 = tell e (StreamCallEndNotify (ci_CallID d) (call_members d)) s3;
            s5 = saveMediaCallRecord e d ''ended'' operator s4
        in on_calls (destroyMediaCallSessionKeys e (ci_CallID d) (ci_Rid d)) s5)"

section \<open>Leaving\<close>

definition leaveCallByUID ::
  "call_env \<Rightarrow> uid \<Rightarrow> string \<Rightarrow> 'a call_store_scheme \<Rightarrow> leave_status \<times> 'a call_store_scheme" where
  "leaveCallByUID e uid0 callId0 s =
     (let uid = TrimSpace uid0; callId = TrimSpace callId0 in
      if uid = [] \<or> callId = [] then (LeaveExpired, s)
      else case get_invite e callId (calls s) of
        None \<Rightarrow> (LeaveExpired, on_calls (clearUserActiveCallMapping e uid) s)
      | Some d \<Rightarrow>
          if isCallExpired e (ci_ExpireAt d) then (LeaveExpired, on_calls (clearUserActiveCallMapping e uid) s)
          else if \<not> allowCallMember d uid then (LeaveUnauthorized, s)
          else
            let st0 = state_of e callId d (calls s);
                st = st0\<lparr>cs_ActiveUIDs := removeUid (cs_ActiveUIDs st0) uid\<rparr>;
                s1 = on_calls (set_state e callId st (callStateTTL e (ci_ExpireAt d))) s;
                s2 = on_calls (clearUserActiveCallMapping e uid) s1
            in if cs_ActiveUIDs st = [] \<and> \<not> cs_Ended st
               then (LeaveOK, finalizeMediaCallSessionNoActive e d st uid s2)
               else (LeaveOK, broadcastStreamCallMemberSync e (ci_CallID d) s2))"

definition OnUserMessageQuicOffline :: "call_env \<Rightarrow> uid \<Rightarrow> 'a call_store_scheme \<Rightarrow> 'a call_store_scheme" where
  "OnUserMessageQuicOffline e uid0 s =
     (let uid = TrimSpace uid0 in
      if uid = [] then s
      else case get_user_call e uid (calls s) of
        None \<Rightarrow> s
      | Some callId \<Rightarrow> if TrimSpace callId = [] then s else snd (leaveCallByUID e uid callId s))"

text \<open>The active members whose own entry still names the call; the others' entries are removed on the way.\<close>

fun still_active :: "call_env \<Rightarrow> string \<Rightarrow> uid list \<Rightarrow> call_redis \<Rightarrow> uid list \<times> call_redis" where
  "still_active e callId [] c = ([], c)"
| "still_active e callId (u # us) c =
     (let uid = TrimSpace u in
      if uid = [] then still_active e callId us c
      else
        let mapped = (case get_user_call e uid c of None \<Rightarrow> [] | Some k \<Rightarrow> k) in
        if TrimSpace mapped = callId then apfst (Cons uid) (still_active e callId us c)
        else still_active e callId us (clearUserActiveCallMapping e uid c))"

definition OnMediaRoomEmpty :: "call_env \<Rightarrow> rid \<Rightarrow> uid \<Rightarrow> 'a call_store_scheme \<Rightarrow> 'a call_store_scheme" where
  "OnMediaRoomEmpty e rid0 operator0 s =
     (let rid = TrimSpace rid0; operator = TrimSpace operator0 in
      if rid = [] then s
      else case get_room_call e rid (calls s) of
        None \<Rightarrow> s
      | Some callId \<Rightarrow>
          if TrimSpace callId = [] then s
          else case get_invite e callId (calls s) of
            None \<Rightarrow> on_calls (\<lambda>c. destroyMediaCallSessionKeys e callId rid (del_room_call e rid c)) s
          | Some d \<Rightarrow>
              if isCallExpired e (ci_ExpireAt d)
              then on_calls (\<lambda>c. destroyMediaCallSessionKeys e (ci_CallID d) (ci_Rid d) (del_room_call e rid c)) s
              else
                let st = state_of e callId d (calls s) in
                if cs_Ended st then on_calls (del_room_call e rid) s
                else if cs_ActiveUIDs st = [] then finalizeMediaCallSessionNoActive e d st operator s
                else
                  let (alive, c) = still_active e (ci_CallID d) (cs_ActiveUIDs st) (calls s);
                      st1 = st\<lparr>cs_ActiveUIDs := alive\<rparr>;
                      s1 = on_calls (\<lambda>_. set_state e (ci_CallID d) st1 (callStateTTL e (ci_ExpireAt d)) c) s
                  in if alive \<noteq> [] then s1 else finalizeMediaCallSessionNoActive e d st1 operator s1)"

section \<open>Permits for the media server\<close>

definition FormatInt :: "int \<Rightarrow> string" where
  "FormatInt i = (if i < 0 then CHR ''-'' # decimal (nat (- i)) else decimal (nat i))"

definition makeMediaJoinSign :: "call_env \<Rightarrow> uid \<Rightarrow> sid \<Rightarrow> rid \<Rightarrow> string \<Rightarrow> string \<Rightarrow> time \<Rightarrow> string" where
  "makeMediaJoinSign e uid sid rid role nonce expireAt =
     cl_hmac e (cl_key e) (uid @ ''|'' @ sid @ ''|'' @ rid @ ''|'' @ role @ ''|'' @ nonce @ ''|'' @ FormatInt expireAt)"

definition new_uuid :: "call_env \<Rightarrow> ('a call_store_scheme, 'e, string) act" where
  "new_uuid e s = (Inr (cl_uuid e (uuid_next s)), s\<lparr>uuid_next := Suc (uuid_next s)\<rparr>)"

definition issueJoinSignData ::
  "call_env \<Rightarrow> uid \<Rightarrow> sid \<Rightarrow> rid \<Rightarrow> string \<Rightarrow> time \<Rightarrow> ('a call_store_scheme, unit, join_sign) act" where
  "issueJoinSignData e uid sid rid role ttl =
     andThen (new_uuid e) (\<lambda>nonce s.
       let expireAt = cl_now e + ttl;
           js = \<lparr>js_UID = uid, js_SID = sid, js_RID = rid, js_Role = role, js_Nonce = nonce, js_ExpireAt = expireAt,
                 js_Sign = makeMediaJoinSign e uid sid rid role nonce expireAt\<rparr>
       in if cl_fails e SetSign then (Inl (), s)
          else (Inr js, on_calls (\<lambda>c. c\<lparr>join_signs := rset (cl_now e) nonce js ttl (join_signs c)\<rparr>) s))"

text \<open>A call needs a session besides the user (\<open>GetSid\<close>).\<close>

definition signed_in :: "call_env \<Rightarrow> http_user option \<Rightarrow> ('a call_store_scheme, reply, http_user) act" where
  "signed_in e user =
     andThen (GetUser user) (\<lambda>u. andThen (check (cl_sid e \<noteq> []) (Unauthorized ''no session'')) (\<lambda>_. succeed u))"

text \<open>\<open>time.Duration(req.TTL) * time.Second\<close>: nanoseconds in 64 bits.\<close>

definition ttl_nanos :: "int \<Rightarrow> int" where "ttl_nanos secs = sint (of_int (secs * 1000000000) :: 64 word)"

record join_body =
  jb_Rid :: rid
  jb_Role :: string
  jb_TTL :: int

definition IssueJoinSign :: "call_env \<Rightarrow> http_user option \<Rightarrow> join_body option
    \<Rightarrow> ('a call_store_scheme, reply, join_sign \<times> string \<times> string \<times> int) act" where
  "IssueJoinSign e user body =
     andThen (signed_in e user) (\<lambda>u.
     andThen (parsed body (BadRequest ''bad request'')) (\<lambda>b.
     let rid = TrimSpace (jb_Rid b); role = TrimSpace (jb_Role b); ttl = ttl_nanos (jb_TTL b) in
     andThen (check (rid \<noteq> []) (BadRequest ''no room'')) (\<lambda>_.
     andThen (check (role \<noteq> []) (BadRequest ''no role'')) (\<lambda>_.
     andThen (check (role = ''publisher'' \<or> role = ''subscriber'') (BadRequest ''role'')) (\<lambda>_.
     andThen (check (0 < jb_TTL b) (BadRequest ''ttl'')) (\<lambda>_.
     andThen (check (10000000000 \<le> ttl \<and> ttl \<le> 120000000000) (BadRequest ''ttl range'')) (\<lambda>_.
     andThen (orFail (issueJoinSignData e (hu_Uid u) (cl_sid e) rid role (ttl div 1000000)) (ServerError ''sign'')) (\<lambda>js.
       succeed (js, cl_addr e, mediaALPN, ttl div 1000000)))))))))"

section \<open>Opening a call\<close>

record create_body =
  cb_Rid :: rid
  cb_CallType :: string
  cb_TTL :: int
  cb_Media :: publisher_media

text \<open>Who is invited: the members of the room, two friends in a chat of two.\<close>

definition call_invitees ::
  "call_env \<Rightarrow> uid \<Rightarrow> rid \<Rightarrow> ('a call_store_scheme, reply, string \<times> uid list) act" where
  "call_invitees e uid rid =
     andThen (orFail (query (GetRoomByRid (ae_room (cl_admin e)) rid)) (BadRequest ''no such room'')) (\<lambda>room.
     andThen (orFail (GetRoomUserIdsCache (ae_room (cl_admin e)) rid) (BadRequest ''no members'')) (\<lambda>roomUserIds.
     andThen (check (roomUserIds \<noteq> []) (BadRequest ''no members'')) (\<lambda>_.
     let invitees = filter (\<lambda>v. v \<noteq> [] \<and> v \<noteq> uid) roomUserIds in
     andThen (check (invitees \<noteq> []) (BadRequest ''nobody to invite'')) (\<lambda>_.
       if r_Type room = RoomTypeGroup then succeed (''room'', invitees)
       else if r_Type room = RoomTypePrivate then
         andThen (check (length invitees = 1) (BadRequest ''two people'')) (\<lambda>_.
         andThen (orFail (query (CheckFriendRelation (ae_room (cl_admin e)) uid (hd invitees))) (ServerError ''friends'')) (\<lambda>rel.
         andThen (check (fst rel) (BadRequest ''friends only'')) (\<lambda>_.
           succeed (''friend'', invitees))))
       else refuse (BadRequest ''rooms and friends only'')))))"

text \<open>One call per room: a call with active members blocks, any other is ended.\<close>

definition make_way ::
  "call_env \<Rightarrow> uid \<Rightarrow> rid \<Rightarrow> ('a call_store_scheme, reply, unit) act" where
  "make_way e uid rid s =
     (case get_room_call e rid (calls s) of
        None \<Rightarrow> (Inr (), s)
      | Some callId \<Rightarrow>
          if TrimSpace callId = [] then (Inr (), s)
          else
            let st = (if cl_fails e GetState then zero_state
                      else case rget (cl_now e) (call_states (calls s)) callId of None \<Rightarrow> zero_state | Some st \<Rightarrow> st) in
            if cs_CallID st \<noteq> [] \<and> \<not> cs_Ended st \<and> cs_ActiveUIDs st \<noteq> [] then (Inl (BadRequest ''a call is under way''), s)
            else (case get_invite e callId (calls s) of
                Some d \<Rightarrow> (Inr (), finalizeMediaCallSessionNoActive e d st uid s)
              | None \<Rightarrow> (Inr (), on_calls (destroyMediaCallSessionKeys e callId rid) s)))"

definition store_call :: "call_env \<Rightarrow> call_invite \<Rightarrow> ('a call_store_scheme, reply, unit) act" where
  "store_call e d s =
     (if cl_fails e SetInvite then (Inl (ServerError ''invite''), s)
      else
        (Inr (), on_calls (\<lambda>c.
           let c1 = c\<lparr>call_invites := rset (cl_now e) (ci_CallID d) d 0 (call_invites c)\<rparr>;
               c2 = set_state e (ci_CallID d) (fresh_state d) 0 c1
           in if cl_fails e SetRoomCall then c2
              else c2\<lparr>room_calls := rset (cl_now e) (ci_Rid d) (ci_CallID d) 0 (room_calls c2)\<rparr>) s))"

definition CreateCallInvite :: "call_env \<Rightarrow> http_user option \<Rightarrow> create_body option
    \<Rightarrow> ('a call_store_scheme, reply, string) act" where
  "CreateCallInvite e user body =
     andThen (signed_in e user) (\<lambda>u.
     andThen (parsed body (BadRequest ''bad request'')) (\<lambda>b.
     let rid = TrimSpace (cb_Rid b); callType = TrimSpace (cb_CallType b); uid = hu_Uid u in
     andThen (check (rid \<noteq> []) (BadRequest ''no room'')) (\<lambda>_.
     andThen (check (callType = ''audio'' \<or> callType = ''video'') (BadRequest ''call type'')) (\<lambda>_.
     andThen (check (0 < cb_TTL b) (BadRequest ''ttl'')) (\<lambda>_.
     andThen (check (Valid (cb_Media b)) (BadRequest ''publisher media'')) (\<lambda>_.
     andThen (call_invitees e uid rid) (\<lambda>(scene, invitees).
     andThen (make_way e uid rid) (\<lambda>_.
     andThen (new_uuid e) (\<lambda>callId.
     let d = \<lparr>ci_CallID = callId, ci_Rid = rid, ci_CallType = callType, ci_CallScene = scene, ci_InviterUID = uid,
              ci_InviteeUIDs = invitees, ci_CreateTime = cl_now e, ci_ExpireAt = 0, ci_Media = cb_Media b\<rparr> in
     andThen (store_call e d) (\<lambda>_.
     andThen (orFail (issueJoinSignData e uid (cl_sid e) rid ''publisher'' mediaJoinSignTTLDefault) (ServerError ''sign'')) (\<lambda>_.
     andThen (change (tell e (StreamCallJoinNotify callId uid))) (\<lambda>_.
     andThen (change (tell e (StreamCallInviteNotify callId invitees))) (\<lambda>_.
       succeed callId)))))))))))))"

section \<open>Accepting, joining, leaving\<close>

text \<open>The body of most requests names a call; the name is used as it was sent.\<close>

definition named_call :: "string option \<Rightarrow> ('a call_store_scheme, reply, string) act" where
  "named_call body =
     andThen (parsed body (BadRequest ''call id'')) (\<lambda>callId.
     andThen (check (TrimSpace callId \<noteq> []) (BadRequest ''call id'')) (\<lambda>_. succeed callId))"

definition find_call :: "call_env \<Rightarrow> string \<Rightarrow> ('a call_store_scheme, reply, call_invite) act" where
  "find_call e callId s =
     (case get_invite e callId (calls s) of None \<Rightarrow> (Inl (BadRequest ''no such call''), s) | Some d \<Rightarrow> (Inr d, s))"

definition AcceptCallInvite :: "call_env \<Rightarrow> http_user option \<Rightarrow> string option
    \<Rightarrow> ('a call_store_scheme, reply, string) act" where
  "AcceptCallInvite e user body =
     andThen (signed_in e user) (\<lambda>u.
     andThen (named_call body) (\<lambda>callId.
     andThen (find_call e callId) (\<lambda>d.
     andThen (check (\<not> isCallExpired e (ci_ExpireAt d)) (BadRequest ''expired'')) (\<lambda>_.
     andThen (check (hu_Uid u \<in> set (ci_InviteeUIDs d)) (Unauthorized ''not invited'')) (\<lambda>_.
     andThen (reading (\<lambda>s. get_state e callId (calls s))) (\<lambda>st.
     andThen (check (case st of None \<Rightarrow> True | Some t \<Rightarrow> \<not> cs_Ended t) (BadRequest ''call ended'')) (\<lambda>_.
     andThen (reading (\<lambda>s. case get_room_call e (ci_Rid d) (calls s) of None \<Rightarrow> [] | Some k \<Rightarrow> k)) (\<lambda>current.
     andThen (check (TrimSpace current = ci_CallID d) (BadRequest ''call gone'')) (\<lambda>_.
     andThen (orFail (issueJoinSignData e (hu_Uid u) (cl_sid e) (ci_Rid d) ''subscriber'' mediaJoinSignTTLDefault)
        (ServerError ''sign'')) (\<lambda>_.
     andThen (change (tell e (StreamCallJoinNotify (ci_CallID d) (hu_Uid u)))) (\<lambda>_.
       succeed (ci_CallID d))))))))))))"

definition MarkCallMemberJoined :: "call_env \<Rightarrow> http_user option \<Rightarrow> string option
    \<Rightarrow> ('a call_store_scheme, reply, string) act" where
  "MarkCallMemberJoined e user body =
     andThen (GetUser user) (\<lambda>u.
     andThen (named_call body) (\<lambda>callId.
     andThen (find_call e callId) (\<lambda>d.
     andThen (check (\<not> isCallExpired e (ci_ExpireAt d)) (BadRequest ''call gone'')) (\<lambda>_.
     andThen (check (allowCallMember d (hu_Uid u)) (Unauthorized ''not a member'')) (\<lambda>_.
     andThen (change (on_calls (\<lambda>c.
        let st = state_of e callId d c in
        setUserActiveCallMapping e (hu_Uid u) (ci_CallID d) (ci_ExpireAt d)
          (set_state e callId (st\<lparr>cs_ActiveUIDs := appendUniqueUid (cs_ActiveUIDs st) (hu_Uid u)\<rparr>)
             (callStateTTL e (ci_ExpireAt d)) c)))) (\<lambda>_.
     andThen (change (broadcastStreamCallMemberSync e (ci_CallID d))) (\<lambda>_.
       succeed (ci_CallID d))))))))"

definition LeaveCall :: "call_env \<Rightarrow> http_user option \<Rightarrow> string option \<Rightarrow> ('a call_store_scheme, reply, leave_status) act" where
  "LeaveCall e user body =
     andThen (GetUser user) (\<lambda>u.
     andThen (named_call body) (\<lambda>callId s.
       case leaveCallByUID e (hu_Uid u) callId s of (st, s1) \<Rightarrow>
         if st = LeaveUnauthorized then (Inl (Unauthorized ''not a member''), s1) else (Inr st, s1)))"

text \<open>What ends a call by hand: everybody is told, a record is kept, the keys go.\<close>

definition end_call :: "call_env \<Rightarrow> call_invite \<Rightarrow> call_state \<Rightarrow> string \<Rightarrow> uid list \<Rightarrow> uid \<Rightarrow> 'a call_store_scheme \<Rightarrow> 'a call_store_scheme" where
  "end_call e d st reason targets operator s =
     (let s1 = on_calls (clearAllUserActiveCallMappingsForCall e d st) s;
          s2 = tell e (StreamCallEndNotify (ci_CallID d) targets) s1;
          s3 = saveMediaCallRecord e d reason operator s2
      in on_calls (destroyMediaCallSessionKeys e (ci_CallID d) (ci_Rid d)) s3)"

text \<open>The answer is whether the call has ended.\<close>

definition reject_invited :: "call_env \<Rightarrow> uid \<Rightarrow> string \<Rightarrow> call_invite \<Rightarrow> ('a call_store_scheme, reply, bool) act" where
  "reject_invited e uid callId d s =
     (let st0 = state_of e callId d (calls s) in
      if cs_Ended st0 then (Inr True, s)
      else
        let rejected = appendUniqueUid (cs_RejectedUIDs st0) uid;
            allRejected = (length (ci_InviteeUIDs d) \<le> length rejected);
            st = st0\<lparr>cs_RejectedUIDs := rejected, cs_Ended := allRejected\<rparr>;
            s1 = on_calls (set_state e callId st (callStateTTL e (ci_ExpireAt d))) s
        in (Inr allRejected, if allRejected then end_call e d st ''all_rejected'' [ci_InviterUID d] uid s1 else s1))"

definition RejectCallInvite :: "call_env \<Rightarrow> http_user option \<Rightarrow> string option \<Rightarrow> ('a call_store_scheme, reply, bool) act" where
  "RejectCallInvite e user body =
     andThen (GetUser user) (\<lambda>u.
     andThen (named_call body) (\<lambda>callId.
     andThen (find_call e callId) (\<lambda>d.
     andThen (check (\<not> isCallExpired e (ci_ExpireAt d)) (BadRequest ''call gone'')) (\<lambda>_.
     andThen (check (hu_Uid u \<in> set (ci_InviteeUIDs d)) (Unauthorized ''not invited'')) (\<lambda>_.
       reject_invited e (hu_Uid u) callId d)))))"

text \<open>A call between friends ends when either hangs up, a call in a room when its creator does; any
  other member hangs up for himself.\<close>

definition hangup_for_all :: "call_env \<Rightarrow> uid \<Rightarrow> string \<Rightarrow> call_invite \<Rightarrow> call_state \<Rightarrow> 'a call_store_scheme \<Rightarrow> 'a call_store_scheme" where
  "hangup_for_all e uid callId d st0 s =
     (let st = st0\<lparr>cs_Ended := True\<rparr>;
          s1 = on_calls (set_state e callId st (callStateTTL e (ci_ExpireAt d))) s;
          s2 = broadcastStreamCallMemberSync e (ci_CallID d) s1
      in end_call e d st (if ci_CallScene d = ''friend'' then ''hangup'' else ''ended'') (call_members d) uid s2)"

definition hangup_for_one :: "call_env \<Rightarrow> uid \<Rightarrow> string \<Rightarrow> call_invite \<Rightarrow> call_state \<Rightarrow> ('a call_store_scheme, reply, bool) act" where
  "hangup_for_one e uid callId d st0 s =
     (let rejected = appendUniqueUid (cs_RejectedUIDs st0) uid;
          allHungup = (length (call_members d) \<le> length rejected);
          st = st0\<lparr>cs_ActiveUIDs := removeUid (cs_ActiveUIDs st0) uid, cs_RejectedUIDs := rejected, cs_Ended := allHungup\<rparr>;
          s1 = on_calls (clearUserActiveCallMapping e uid) s;
          s2 = on_calls (set_state e callId st (callStateTTL e (ci_ExpireAt d))) s1;
          s3 = broadcastStreamCallMemberSync e (ci_CallID d) s2;
          s4 = (if \<not> allHungup then s3
                else
                  let t1 = on_calls (clearAllUserActiveCallMappingsForCall e d st) s3;
                      t2 = on_calls (del_room_call e (ci_Rid d)) t1;
                      t3 = tell e (StreamCallEndNotify (ci_CallID d) (call_members d)) t2
                  in saveMediaCallRecord e d ''ended'' uid t3)
      in (Inr allHungup, s4))"

definition hangup_named :: "call_env \<Rightarrow> uid \<Rightarrow> string \<Rightarrow> ('a call_store_scheme, reply, bool) act" where
  "hangup_named e uid callId s =
     (case get_invite e callId (calls s) of
        None \<Rightarrow> (Inr True, s)
      | Some d \<Rightarrow>
          if \<not> allowCallMember d uid then (Inl (Unauthorized ''not a member''), s)
          else
            let st0 = state_of e callId d (calls s) in
            if cs_Ended st0 then (Inr True, s)
            else if ci_CallScene d = ''friend'' \<or> uid = ci_InviterUID d then (Inr True, hangup_for_all e uid callId d st0 s)
            else hangup_for_one e uid callId d st0 s)"

definition HangupCall :: "call_env \<Rightarrow> http_user option \<Rightarrow> string option \<Rightarrow> ('a call_store_scheme, reply, bool) act" where
  "HangupCall e user body = andThen (GetUser user) (\<lambda>u. andThen (named_call body) (hangup_named e (hu_Uid u)))"

text \<open>Open to every signed-in user: the call, how long it lasts and how many take part.\<close>

definition current_of ::
  "call_env \<Rightarrow> rid \<Rightarrow> ('a call_store_scheme, reply, (call_invite \<times> int \<times> nat) option) act" where
  "current_of e rid s =
     (case get_room_call e rid (calls s) of
        None \<Rightarrow> (Inr None, s)
      | Some callId \<Rightarrow>
          if TrimSpace callId = [] then (Inr None, s)
          else
            let forget = on_calls (del_room_call e rid) s; st = get_state e callId (calls s) in
            (case get_invite e callId (calls s) of
               None \<Rightarrow> (Inr None, forget)
             | Some d \<Rightarrow>
                 if isCallExpired e (ci_ExpireAt d) then (Inr None, forget)
                 else case st of
                   None \<Rightarrow> (Inr (Some (d, callDurationSeconds e d, 0)), s)
                 | Some t \<Rightarrow> if cs_Ended t then (Inr None, forget)
                             else (Inr (Some (d, callDurationSeconds e d, length (cs_ActiveUIDs t))), s)))"

definition CurrentCall :: "call_env \<Rightarrow> rid option \<Rightarrow> ('a call_store_scheme, reply, (call_invite \<times> int \<times> nat) option) act" where
  "CurrentCall e body =
     andThen (parsed body (BadRequest ''no room'')) (\<lambda>rid.
     andThen (check (TrimSpace rid \<noteq> []) (BadRequest ''no room'')) (\<lambda>_. current_of e rid))"

end
