(* ===== verification/MediaRelay.thy ===== *)
theory MediaRelay
  imports Calls "HOL-Library.AList"
begin

text \<open>
  The media server (\<open>media/streaming/server.go\<close>): a connection shows a permit that
  \<open>Calls\<close> issued, joins the hub of its room, and every frame it sends goes to the other
  connections of the hub; when it closes, the call is told.
\<close>

section \<open>Frames\<close>

definition readFrame :: "io \<Rightarrow> (io_error + byte list) \<times> io" where
  "readFrame s =
     (case ReadFull 4 s of
        (Inl err, s1) \<Rightarrow> (Inl err, s1)
      | (Inr lenBuf, s1) \<Rightarrow> let n = unat (Uint32 lenBuf) in if n = 0 then (Inr [], s1) else ReadFull n s1)"

definition writeFrame :: "byte list \<Rightarrow> io \<Rightarrow> (io_error + unit) \<times> io" where
  "writeFrame data s =
     (case Write (PutUint32 (of_nat (length data))) s of
        (Inl err, s1) \<Rightarrow> (Inl err, s1)
      | (Inr _, s1) \<Rightarrow> if data = [] then (Inr (), s1) else Write data s1)"

text \<open>What a frame of a sender is turned into: the length of his identifier in two bytes, the
  identifier, the payload.\<close>

definition relayed :: "uid \<Rightarrow> byte list \<Rightarrow> byte list" where
  "relayed sender payload =
     (let u = bytes_of_string sender in [of_nat (length u div 256), of_nat (length u)] @ u @ payload)"

definition mediaHeartbeatFrame :: "byte list" where "mediaHeartbeatFrame = bytes_of_string ''__cc_media_hb__''"

section \<open>The server\<close>

record media_client =
  md_Uid :: uid
  md_Rid :: rid
  md_Role :: string
  md_Stream :: nat

text \<open>A room points to its hub, a map from users to connections; each connection has its stream.\<close>

record media_server =
  media_rooms :: "rid \<rightharpoonup> nat"
  hubs :: "nat \<Rightarrow> (uid \<times> media_client) list"
  hub_next :: nat
  streams :: "nat \<Rightarrow> io"

definition NewServer :: "(nat \<Rightarrow> io) \<Rightarrow> media_server" where
  "NewServer st = \<lparr>media_rooms = Map.empty, hubs = (\<lambda>_. []), hub_next = 0, streams = st\<rparr>"

text \<open>The decoder of the request that a connection opens with and the encoder of the answer.\<close>

record media_codec =
  mx_request :: "byte list \<Rightarrow> join_sign option"
  mx_answer :: "bool \<Rightarrow> string \<Rightarrow> byte list"

text \<open>The script reads and deletes the key in one step.\<close>

definition consumeAndVerifyJoinSign :: "call_env \<Rightarrow> join_sign \<Rightarrow> ('a call_store_scheme, string, unit) act" where
  "consumeAndVerifyJoinSign e req s =
     (if js_UID req = [] \<or> js_SID req = [] \<or> js_RID req = [] \<or> js_Nonce req = [] \<or> js_Sign req = []
      then (Inl ''incomplete'', s)
      else if js_ExpireAt req < cl_now e then (Inl ''expired'', s)
      else if makeMediaJoinSign e (js_UID req) (js_SID req) (js_RID req) (js_Role req) (js_Nonce req) (js_ExpireAt req)
              \<noteq> js_Sign req then (Inl ''bad signature'', s)
      else if cl_fails e TakeSign then (Inl ''failed'', s)
      else case rget (cl_now e) (join_signs (calls s)) (js_Nonce req) of
        None \<Rightarrow> (Inl ''unknown or used'', s)
      | Some js \<Rightarrow>
          let s1 = on_calls (\<lambda>c. c\<lparr>join_signs := (join_signs c)(js_Nonce req := None)\<rparr>) s in
          if js_UID js \<noteq> js_UID req \<or> js_SID js \<noteq> js_SID req \<or> js_RID js \<noteq> js_RID req \<or> js_Sign js \<noteq> js_Sign req \<or>
             js_ExpireAt js \<noteq> js_ExpireAt req then (Inl ''does not match'', s1)
          else if js_ExpireAt js < cl_now e then (Inl ''expired'', s1)
          else (Inr (), s1))"

definition getOrCreateRoom :: "rid \<Rightarrow> media_server \<Rightarrow> nat \<times> media_server" where
  "getOrCreateRoom rid m =
     (case media_rooms m rid of
        Some h \<Rightarrow> (h, m)
      | None \<Rightarrow> (hub_next m, m\<lparr>media_rooms := (media_rooms m)(rid \<mapsto> hub_next m), hubs := (hubs m)(hub_next m := []),
                    hub_next := Suc (hub_next m)\<rparr>))"

definition enter_hub :: "nat \<Rightarrow> media_client \<Rightarrow> media_server \<Rightarrow> media_server" where
  "enter_hub h c m = m\<lparr>hubs := (hubs m)(h := AList.update (md_Uid c) c (hubs m h))\<rparr>"

definition addClient :: "media_client \<Rightarrow> media_server \<Rightarrow> media_server" where
  "addClient c m = (case getOrCreateRoom (md_Rid c) m of (h, m1) \<Rightarrow> enter_hub h c m1)"

text \<open>The entry goes by the user; whether the hub is empty is known before the room is deleted.\<close>

definition leave_hub :: "nat \<Rightarrow> media_client \<Rightarrow> media_server \<Rightarrow> bool \<times> media_server" where
  "leave_hub h c m =
     (let m1 = m\<lparr>hubs := (hubs m)(h := AList.delete (md_Uid c) (hubs m h))\<rparr> in (hubs m1 h = [], m1))"

definition delete_room :: "rid \<Rightarrow> media_server \<Rightarrow> media_server" where
  "delete_room rid m = m\<lparr>media_rooms := (media_rooms m)(rid := None)\<rparr>"

definition removeClient :: "media_client \<Rightarrow> media_server \<Rightarrow> bool \<times> media_server" where
  "removeClient c m =
     (case media_rooms m (md_Rid c) of
        None \<Rightarrow> (True, m)
      | Some h \<Rightarrow> (case leave_hub h c m of (none_left, m1) \<Rightarrow> (none_left, if none_left then delete_room (md_Rid c) m1 else m1)))"

definition on_stream :: "nat \<Rightarrow> (io \<Rightarrow> io) \<Rightarrow> media_server \<Rightarrow> media_server" where
  "on_stream k f m = m\<lparr>streams := (streams m)(k := f (streams m k))\<rparr>"

text \<open>A write that fails is logged, and the others are served.\<close>

definition broadcast :: "rid \<Rightarrow> uid \<Rightarrow> byte list \<Rightarrow> media_server \<Rightarrow> media_server" where
  "broadcast rid sender payload m =
     (case media_rooms m rid of
        None \<Rightarrow> m
      | Some h \<Rightarrow> fold (\<lambda>(uid, c) m. if uid = sender then m
                            else on_stream (md_Stream c) (\<lambda>s. snd (writeFrame (relayed sender payload) s)) m) (hubs m h) m)"

text \<open>One round of the read loop; an error ends the loop.\<close>

definition readLoop_round :: "media_client \<Rightarrow> media_server \<Rightarrow> bool \<times> media_server" where
  "readLoop_round c m =
     (case readFrame (streams m (md_Stream c)) of
        (Inl _, s1) \<Rightarrow> (False, on_stream (md_Stream c) (\<lambda>_. s1) m)
      | (Inr payload, s1) \<Rightarrow>
          let m1 = on_stream (md_Stream c) (\<lambda>_. s1) m in
          (True, if payload = mediaHeartbeatFrame then m1 else broadcast (md_Rid c) (md_Uid c) payload m1))"

text \<open>The connection up to its entry into the hub, and its end (\<open>handleConn\<close>).\<close>

definition writeJSON :: "media_codec \<Rightarrow> bool \<Rightarrow> string \<Rightarrow> io \<Rightarrow> (io_error + unit) \<times> io" where
  "writeJSON x ok text s = writeFrame (mx_answer x ok text) s"

definition admit :: "call_env \<Rightarrow> media_codec \<Rightarrow> nat \<Rightarrow> 'a call_store_scheme \<times> media_server
    \<Rightarrow> media_client option \<times> 'a call_store_scheme \<times> media_server" where
  "admit e x k w =
     (case w of (s, m) \<Rightarrow>
      case readFrame (streams m k) of
        (Inl _, io) \<Rightarrow> (None, s, on_stream k (\<lambda>_. io) m)
      | (Inr bytes, io) \<Rightarrow>
          (case mx_request x bytes of
             None \<Rightarrow> (None, s, on_stream k (\<lambda>_. snd (writeJSON x False ''not readable'' io)) m)
           | Some req \<Rightarrow>
               (case consumeAndVerifyJoinSign e req s of
                  (Inl err, s1) \<Rightarrow> (None, s1, on_stream k (\<lambda>_. snd (writeJSON x False err io)) m)
                | (Inr _, s1) \<Rightarrow>
                    (case writeJSON x True ''ok'' io of
                       (Inl _, io1) \<Rightarrow> (None, s1, on_stream k (\<lambda>_. io1) m)
                     | (Inr _, io1) \<Rightarrow>
                         let c = \<lparr>md_Uid = js_UID req, md_Rid = js_RID req, md_Role = js_Role req, md_Stream = k\<rparr>
                         in (Some c, s1, addClient c (on_stream k (\<lambda>_. io1) m))))))"

definition dismiss :: "call_env \<Rightarrow> media_client \<Rightarrow> 'a call_store_scheme \<times> media_server \<Rightarrow> 'a call_store_scheme \<times> media_server" where
  "dismiss e c w =
     (case w of (s, m) \<Rightarrow>
      case removeClient c m of (none_left, m1) \<Rightarrow>
        let s1 = OnUserMessageQuicOffline e (md_Uid c) s in
        (if none_left then OnMediaRoomEmpty e (md_Rid c) (md_Uid c) s1 else s1, m1))"

section \<open>Delivery\<close>

lemma readFrame_frame:
  assumes "length d < 2 ^ 32"
  shows "readFrame \<lparr>inp = PutUint32 (of_nat (length d)) @ d @ rest, out = o1, room_left = r\<rparr> =
    (Inr d, \<lparr>inp = rest, out = o1, room_left = r\<rparr>)"
proof -
  have n: "unat (of_nat (length d) :: u32) = length d" using assms by (simp add: unat_of_nat)
  have "Uint32 (PutUint32 v) = v" for v using Uint32_PutUint32 [of v "[]"] by simp
  then show ?thesis by (auto simp: readFrame_def ReadFull_def n Let_def)
qed

lemma writeFrame_room:
  "4 + length d \<le> room_left s \<Longrightarrow>
     writeFrame d s = (Inr (), s\<lparr>out := out s @ PutUint32 (of_nat (length d)) @ d, room_left := room_left s - (4 + length d)\<rparr>)"
  by (auto simp: writeFrame_def Write_def)

lemma length_relayed [simp]: "length (relayed u p) = 2 + length u + length p"
  by (simp add: relayed_def Let_def bytes_of_string_def)

text \<open>How a client reads what it is sent.\<close>

definition sender_and_payload :: "byte list \<Rightarrow> string \<times> byte list" where
  "sender_and_payload d =
     (let n = unat (d ! 0) * 256 + unat (d ! 1) in (string_of_bytes (take n (drop 2 d)), drop (2 + n) d))"

lemma byte_of_char: "char_of (unat (word_of_int (of_char c) :: byte)) = c"
proof -
  have "(word_of_int (of_char c) :: byte) = of_nat (of_char c)" by (metis of_int_of_nat_eq of_nat_of_char)
  moreover have "(of_char c :: nat) < 256" by (rule nat_of_char_less_256)
  ultimately show ?thesis by (simp add: unat_of_nat)
qed

lemma string_bytes [simp]: "string_of_bytes (bytes_of_string u) = u"
  by (induction u) (simp_all add: string_of_bytes_def bytes_of_string_def byte_of_char)

lemma relayed_inverse:
  assumes "length u < 65536"
  shows "sender_and_payload (relayed u p) = (u, p)"
proof -
  let ?n = "length u"
  have "unat (of_nat (?n div 256) :: byte) = ?n div 256" "unat (of_nat ?n :: byte) = ?n mod 256"
    using assms by (simp_all add: unat_of_nat)
  moreover have "length (bytes_of_string u) = ?n" by (simp add: bytes_of_string_def)
  ultimately show ?thesis by (simp add: sender_and_payload_def relayed_def Let_def)
qed

lemma fold_streams:
  assumes "distinct (map (md_Stream \<circ> snd) cs)"
  shows "streams (fold (\<lambda>(uid, c) m. if uid = sender then m else on_stream (md_Stream c) f m) cs m) k =
    (if \<exists>(uid, c) \<in> set cs. md_Stream c = k \<and> uid \<noteq> sender then f (streams m k) else streams m k)"
  using assms
proof (induction cs arbitrary: m)
  case (Cons x cs)
  obtain uid c where x: "x = (uid, c)" by (cases x)
  from Cons.prems have d: "distinct (map (md_Stream \<circ> snd) cs)" and
    n: "\<And>u' c'. (u', c') \<in> set cs \<Longrightarrow> md_Stream c' \<noteq> md_Stream c" by (auto simp: x image_iff comp_def)
  show ?case by (auto simp: x Cons.IH [OF d] on_stream_def dest: n)
qed simp

lemma fold_hubs [simp]:
  "hubs (fold (\<lambda>(uid, c) m. if uid = sender then m else on_stream (md_Stream c) f m) cs m) = hubs m"
  "media_rooms (fold (\<lambda>(uid, c) m. if uid = sender then m else on_stream (md_Stream c) f m) cs m) = media_rooms m"
  "hub_next (fold (\<lambda>(uid, c) m. if uid = sender then m else on_stream (md_Stream c) f m) cs m) = hub_next m"
  by (induction cs arbitrary: m) (auto simp: on_stream_def split: prod.splits)

section \<open>Hubs in order\<close>

text \<open>
  Rooms point to hubs of their own; a hub holds at most one connection of a user, under his
  identifier, each with its stream, and the hub of a room only connections admitted to that room.
\<close>

definition hub_ok :: "(uid \<times> media_client) list \<Rightarrow> bool" where
  "hub_ok xs \<longleftrightarrow> (\<forall>(uid, c) \<in> set xs. md_Uid c = uid) \<and> distinct (map fst xs) \<and> distinct (map (md_Stream \<circ> snd) xs)"

definition relay_ok :: "media_server \<Rightarrow> bool" where
  "relay_ok m \<longleftrightarrow>
     (\<forall>h. hub_ok (hubs m h)) \<and>
     (\<forall>rid h. media_rooms m rid = Some h \<longrightarrow> h < hub_next m \<and> md_Rid ` snd ` set (hubs m h) \<subseteq> {rid}) \<and>
     (\<forall>rid rid' h. media_rooms m rid = Some h \<longrightarrow> media_rooms m rid' = Some h \<longrightarrow> rid = rid')"

lemma relay_NewServer: "relay_ok (NewServer st)"
  by (simp add: relay_ok_def NewServer_def hub_ok_def)

lemma relay_on_stream [simp]: "relay_ok (on_stream k f m) = relay_ok m"
  by (simp add: relay_ok_def on_stream_def)

lemma on_stream_fields [simp]:
  "hubs (on_stream k f m) = hubs m" "media_rooms (on_stream k f m) = media_rooms m" "hub_next (on_stream k f m) = hub_next m"
  by (simp_all add: on_stream_def)

lemma relay_cong:
  "hubs m = hubs m' \<Longrightarrow> media_rooms m = media_rooms m' \<Longrightarrow> hub_next m = hub_next m' \<Longrightarrow> relay_ok m = relay_ok m'"
  by (simp add: relay_ok_def)

lemma broadcast_fields [simp]:
  "hubs (broadcast rid sender p m) = hubs m" "media_rooms (broadcast rid sender p m) = media_rooms m"
  "hub_next (broadcast rid sender p m) = hub_next m"
  by (simp_all add: broadcast_def split: option.split)

lemma round_fields [simp]:
  "hubs (snd (readLoop_round c m)) = hubs m" "media_rooms (snd (readLoop_round c m)) = media_rooms m"
  "hub_next (snd (readLoop_round c m)) = hub_next m"
  by (auto simp: readLoop_round_def Let_def split: sum.split prod.split)

lemma relay_round: "relay_ok m \<Longrightarrow> relay_ok (snd (readLoop_round c m))"
  by (simp add: relay_ok_def)

lemma update_entries: "(v, d) \<in> set (AList.update u c xs) \<Longrightarrow> (v, d) = (u, c) \<or> (v, d) \<in> set xs"
  by (induction xs) (auto split: if_splits)

lemma delete_entries: "(v, d) \<in> set (AList.delete u xs) \<Longrightarrow> (v, d) \<in> set xs"
  by (induction xs) (auto split: if_splits)

lemma distinct_streams_update:
  "distinct (map (md_Stream \<circ> snd) xs) \<Longrightarrow> (\<And>v d. (v, d) \<in> set xs \<Longrightarrow> md_Stream d \<noteq> md_Stream c) \<Longrightarrow>
     distinct (map (md_Stream \<circ> snd) (AList.update u c xs))"
proof (induction xs)
  case (Cons x xs)
  obtain v d where x: "x = (v, d)" by (cases x)
  have "(md_Stream \<circ> snd) ` set (AList.update u c xs) \<subseteq> insert (md_Stream c) ((md_Stream \<circ> snd) ` set xs)"
    by (auto dest: update_entries)
  moreover have "md_Stream c \<notin> (md_Stream \<circ> snd) ` set (x # xs)" using Cons.prems(2) by force
  moreover have "distinct (map (md_Stream \<circ> snd) (AList.update u c xs))" using Cons by (auto simp: comp_def)
  ultimately show ?case using Cons.prems(1) by (auto simp: x comp_def)
qed simp

lemma distinct_streams_delete: "distinct (map (md_Stream \<circ> snd) xs) \<Longrightarrow> distinct (map (md_Stream \<circ> snd) (AList.delete u xs))"
  by (simp add: AList.delete_eq distinct_map_filter comp_def)

lemma hub_update:
  assumes "hub_ok xs" and "\<And>v d. (v, d) \<in> set xs \<Longrightarrow> md_Stream d \<noteq> md_Stream c"
  shows "hub_ok (AList.update (md_Uid c) c xs)"
  using assms by (auto simp: hub_ok_def distinct_update intro!: distinct_streams_update dest!: update_entries)

lemma hub_delete: "hub_ok xs \<Longrightarrow> hub_ok (AList.delete u xs)"
  by (auto simp: hub_ok_def distinct_delete intro!: distinct_streams_delete dest!: delete_entries)

lemma relay_hub: "relay_ok m \<Longrightarrow> hub_ok (hubs m h)"
  by (simp add: relay_ok_def)

lemma relay_getOrCreateRoom:
  assumes "relay_ok m" and "getOrCreateRoom rid m = (h, m1)"
  shows "relay_ok m1 \<and> media_rooms m1 rid = Some h \<and> set (hubs m1 h) \<subseteq> set (hubs m h)"
proof (cases "media_rooms m rid")
  case None
  have new: "media_rooms m rid' \<noteq> Some (hub_next m)" for rid' using assms(1) by (auto simp: relay_ok_def)
  have m1: "h = hub_next m" "m1 = m\<lparr>media_rooms := (media_rooms m)(rid \<mapsto> hub_next m), hubs := (hubs m)(hub_next m := []),
      hub_next := Suc (hub_next m)\<rparr>" using assms(2) None by (auto simp: getOrCreateRoom_def)
  have "relay_ok m1"
    unfolding relay_ok_def
  proof (intro conjI allI impI)
    show "hub_ok (hubs m1 k)" for k using relay_hub [OF assms(1), of k] by (simp add: m1 hub_ok_def)
  next
    fix r k assume "media_rooms m1 r = Some k"
    with assms(1) new [of r] show "k < hub_next m1" "md_Rid ` snd ` set (hubs m1 k) \<subseteq> {r}"
      by (auto simp: m1 relay_ok_def less_Suc_eq split: if_splits)
  next
    fix r r' k assume "media_rooms m1 r = Some k" "media_rooms m1 r' = Some k"
    with assms(1) new show "r = r'" by (auto simp: m1 relay_ok_def split: if_splits)
  qed
  then show ?thesis by (simp add: m1)
qed (use assms in \<open>simp add: getOrCreateRoom_def\<close>)

lemma relay_setting:
  assumes "relay_ok m" and "hub_ok xs" and "\<And>rid. media_rooms m rid = Some h \<Longrightarrow> md_Rid ` snd ` set xs \<subseteq> {rid}"
  shows "relay_ok (m\<lparr>hubs := (hubs m)(h := xs)\<rparr>)"
  using assms by (simp add: relay_ok_def)

lemma relay_enter:
  assumes "relay_ok m" and "media_rooms m (md_Rid c) = Some h"
    and "\<And>v d. (v, d) \<in> set (hubs m h) \<Longrightarrow> md_Stream d \<noteq> md_Stream c"
  shows "relay_ok (enter_hub h c m)"
  unfolding enter_hub_def
proof (rule relay_setting [OF assms(1) hub_update [OF relay_hub [OF assms(1)] assms(3)]])
  fix rid assume r: "media_rooms m rid = Some h"
  with assms(1,2) have "rid = md_Rid c" "md_Rid ` snd ` set (hubs m h) \<subseteq> {rid}" by (auto simp: relay_ok_def)
  then show "md_Rid ` snd ` set (AList.update (md_Uid c) c (hubs m h)) \<subseteq> {rid}"
    by (force dest!: update_entries)
qed

lemma relay_addClient:
  assumes "relay_ok m" and "\<And>h v d. (v, d) \<in> set (hubs m h) \<Longrightarrow> md_Stream d \<noteq> md_Stream c"
  shows "relay_ok (addClient c m)"
proof -
  obtain h m1 where g: "getOrCreateRoom (md_Rid c) m = (h, m1)" by fastforce
  from relay_getOrCreateRoom [OF assms(1) g] assms(2) have "relay_ok (enter_hub h c m1)" by (auto intro!: relay_enter)
  then show ?thesis by (simp add: addClient_def g)
qed

lemma relay_removeClient:
  assumes "relay_ok m" shows "relay_ok (snd (removeClient c m))"
proof (cases "media_rooms m (md_Rid c)")
  case (Some h)
  let ?m = "m\<lparr>hubs := (hubs m)(h := AList.delete (md_Uid c) (hubs m h))\<rparr>"
  have sub: "set (AList.delete u xs) \<subseteq> set xs" for u :: uid and xs :: "(uid \<times> media_client) list"
    by (auto dest: delete_entries)
  have ok: "relay_ok ?m"
  proof (rule relay_setting [OF assms hub_delete [OF relay_hub [OF assms]]])
    fix rid assume "media_rooms m rid = Some h"
    with assms have "md_Rid ` snd ` set (hubs m h) \<subseteq> {rid}" by (auto simp: relay_ok_def)
    with sub [of "md_Uid c" "hubs m h"] show "md_Rid ` snd ` set (AList.delete (md_Uid c) (hubs m h)) \<subseteq> {rid}" by blast
  qed
  have "relay_ok (delete_room rid n)" if "relay_ok n" for rid n
    using that by (auto simp: relay_ok_def delete_room_def split: if_splits)
  from this [OF ok] ok Some show ?thesis by (cases "AList.delete (md_Uid c) (hubs m h) = []") (simp_all add: removeClient_def leave_hub_def Let_def)
qed (use assms in \<open>simp add: removeClient_def\<close>)


definition demo_caller :: media_client where
  "demo_caller = \<lparr>md_Uid = ''a'', md_Rid = ''x'', md_Role = ''publisher'', md_Stream = 0\<rparr>"

definition demo_listener :: media_client where
  "demo_listener = \<lparr>md_Uid = ''b'', md_Rid = ''x'', md_Role = ''subscriber'', md_Stream = 1\<rparr>"

definition demo_relay :: media_server where
  "demo_relay = addClient demo_listener (addClient demo_caller (NewServer (\<lambda>k.
     \<lparr>inp = (if k = 0 then [0, 0, 0, 2, 104, 105] else []), out = [], room_left = 100\<rparr>)))"

lemma demo_hub: "media_rooms demo_relay ''x'' = Some 0" "hubs demo_relay 0 = [(''a'', demo_caller), (''b'', demo_listener)]"
  "streams demo_relay k = \<lparr>inp = (if k = 0 then [0, 0, 0, 2, 104, 105] else []), out = [], room_left = 100\<rparr>"
  by (simp_all add: demo_relay_def addClient_def getOrCreateRoom_def enter_hub_def NewServer_def demo_caller_def demo_listener_def)

lemma demo_relay_ok: "relay_ok demo_relay"
  unfolding demo_relay_def
  by (intro relay_addClient relay_NewServer)
    (auto simp: addClient_def getOrCreateRoom_def enter_hub_def NewServer_def demo_caller_def demo_listener_def split: if_splits)


end
