(* ===== verification/CallSafety.thy ===== *)
theory CallSafety
  imports MediaRelay Traces
begin

text \<open>
  Who gets to hear a call: the runs of the call handlers beside the media server, and what
  must have happened before a connection sits in the hub of a room. A permit comes only from
  a request of its holder; it opens one connection.
\<close>

section \<open>Runs\<close>

datatype call_request =
    ReqIssue "join_body option" | ReqOpen "create_body option" | ReqAnswer "string option" | ReqJoined "string option"
  | ReqLeaveCall "string option" | ReqReject "string option" | ReqHangup "string option" | ReqCurrent "rid option"

fun call_exec1 :: "call_env \<Rightarrow> http_user option \<Rightarrow> call_request \<Rightarrow> 'a call_store_scheme \<Rightarrow> 'a call_store_scheme" where
  "call_exec1 e u (ReqIssue b) s = snd (IssueJoinSign e u b s)"
| "call_exec1 e u (ReqOpen b) s = snd (CreateCallInvite e u b s)"
| "call_exec1 e u (ReqAnswer b) s = snd (AcceptCallInvite e u b s)"
| "call_exec1 e u (ReqJoined b) s = snd (MarkCallMemberJoined e u b s)"
| "call_exec1 e u (ReqLeaveCall b) s = snd (LeaveCall e u b s)"
| "call_exec1 e u (ReqReject b) s = snd (RejectCallInvite e u b s)"
| "call_exec1 e u (ReqHangup b) s = snd (HangupCall e u b s)"
| "call_exec1 e u (ReqCurrent b) s = snd (CurrentCall e b s)"

text \<open>
  A request, a user who goes offline, a connection that asks for admission, a round of a read
  loop, the end of a connection, and whatever the rest of the program does to its own tables.
\<close>

datatype media_event =
    EvRequest call_env "http_user option" call_request | EvOffline call_env uid | EvAdmit call_env media_codec nat
  | EvRound media_client | EvDismiss call_env media_client | EvElse

inductive media_step :: "(nat \<Rightarrow> string) \<Rightarrow> media_event \<Rightarrow> 'a call_store_scheme \<times> media_server
    \<Rightarrow> 'a call_store_scheme \<times> media_server \<Rightarrow> bool" for uuid where
  requested: "cl_uuid e = uuid \<Longrightarrow> media_step uuid (EvRequest e u q) (s, m) (call_exec1 e u q s, m)"
| offline: "media_step uuid (EvOffline e uid) (s, m) (OnUserMessageQuicOffline e uid s, m)"
| admitted: "(\<And>h v d. (v, d) \<in> set (hubs m h) \<Longrightarrow> md_Stream d \<noteq> k) \<Longrightarrow>
    media_step uuid (EvAdmit e x k) (s, m) (snd (admit e x k (s, m)))"
| round: "media_step uuid (EvRound c) (s, m) (s, snd (readLoop_round c m))"
| dismissed: "media_step uuid (EvDismiss e c) (s, m) (dismiss e c (s, m))"
| elsewhere: "calls s' = calls s \<Longrightarrow> uuid_next s \<le> uuid_next s' \<Longrightarrow> media_step uuid EvElse (s, m) (s', m)"

section \<open>The permits in the store\<close>

lemma on_calls_fields [simp]:
  "calls (on_calls f s) = f (calls s)" "uuid_next (on_calls f s) = uuid_next s" "call_records (on_calls f s) = call_records s"
  by (simp_all add: on_calls_def)

lemma tell_fields [simp]:
  "calls (tell e msg s) = calls s" "uuid_next (tell e msg s) = uuid_next s" "call_records (tell e msg s) = call_records s"
  by (simp_all add: tell_def emit_def)

lemma sync_fields [simp]:
  "calls (broadcastStreamCallMemberSync e k s) = calls s" "uuid_next (broadcastStreamCallMemberSync e k s) = uuid_next s"
  "call_records (broadcastStreamCallMemberSync e k s) = call_records s"
  by (simp_all add: broadcastStreamCallMemberSync_def Let_def split: option.split)

lemma save_fields [simp]:
  "calls (saveMediaCallRecord e d r u s) = calls s" "uuid_next (saveMediaCallRecord e d r u s) = uuid_next s"
  by (simp_all add: saveMediaCallRecord_def)

lemma cache_fields [simp]:
  "calls (snd (GetRoomUserIdsCache re rid s)) = calls s" "uuid_next (snd (GetRoomUserIdsCache re rid s)) = uuid_next s"
  "call_records (snd (GetRoomUserIdsCache re rid s)) = call_records s"
  by (auto simp: GetRoomUserIdsCache_def SetRoomUserIdsCache_def Let_def split: option.split sum.split)

lemma signs_redis [simp]:
  "join_signs (set_state e k st ttl c) = join_signs c" "join_signs (del_room_call e rid c) = join_signs c"
  "join_signs (setUserActiveCallMapping e u k t c) = join_signs c"
  "join_signs (clearUserActiveCallMapping e u c) = join_signs c"
  by (simp_all add: set_state_def del_room_call_def setUserActiveCallMapping_def clearUserActiveCallMapping_def Let_def)

lemma signs_clear_fold [simp]: "join_signs (fold (clearUserActiveCallMapping e) us c) = join_signs c"
  by (induction us arbitrary: c) simp_all

lemma signs_redis2 [simp]:
  "join_signs (clearAllUserActiveCallMappingsForCall e d st c) = join_signs c"
  "join_signs (destroyMediaCallSessionKeys e k rid c) = join_signs c"
  by (simp_all add: clearAllUserActiveCallMappingsForCall_def destroyMediaCallSessionKeys_def Let_def)

lemma signs_still_active [simp]: "join_signs (snd (still_active e k us c)) = join_signs c"
  by (induction us arbitrary: c) (simp_all add: Let_def)

lemma still_activeD: "still_active e k us c = (alive, c1) \<Longrightarrow> join_signs c1 = join_signs c"
  by (metis signs_still_active snd_conv)

text \<open>The permits and the identifiers drawn so far.\<close>

definition permits_of :: "'a call_store_scheme \<Rightarrow> (string \<rightharpoonup> join_sign cell) \<times> nat" where
  "permits_of s = (join_signs (calls s), uuid_next s)"

lemma permits_store [simp]:
  "permits_of (on_calls f s) = (join_signs (f (calls s)), uuid_next s)" "permits_of (tell e msg s) = permits_of s"
  "permits_of (broadcastStreamCallMemberSync e k s) = permits_of s" "permits_of (saveMediaCallRecord e d r u s) = permits_of s"
  "permits_of (snd (GetRoomUserIdsCache re rid s)) = permits_of s"
  by (simp_all add: permits_of_def)

lemma permits_ended [simp]:
  "permits_of (finalizeMediaCallSessionNoActive e d st u s) = permits_of s"
  "permits_of (end_call e d st r us u s) = permits_of s"
  by (simp_all add: finalizeMediaCallSessionNoActive_def end_call_def Let_def permits_of_def)

lemma permits_left [simp]:
  "permits_of (snd (leaveCallByUID e u k s)) = permits_of s" "permits_of (OnUserMessageQuicOffline e u s) = permits_of s"
proof -
  show l: "permits_of (snd (leaveCallByUID e u k s)) = permits_of s" for u k
    by (simp add: leaveCallByUID_def Let_def split: option.split) (simp add: permits_of_def)
  show "permits_of (OnUserMessageQuicOffline e u s) = permits_of s"
    by (simp add: OnUserMessageQuicOffline_def Let_def l split: option.split)
qed

lemma permits_emptied [simp]: "permits_of (OnMediaRoomEmpty e rid u s) = permits_of s"
  by (auto simp: OnMediaRoomEmpty_def Let_def permits_of_def [of s] dest!: still_activeD split: option.split prod.split)

abbreviation on_permits :: "((string \<rightharpoonup> join_sign cell) \<times> nat \<Rightarrow> bool) \<Rightarrow> 'a call_store_scheme \<Rightarrow> bool" where
  "on_permits P s \<equiv> P (permits_of s)"

lemma permits_same: "(\<And>s. permits_of (snd (m s)) = permits_of s) \<Longrightarrow> keeps (on_permits P) m"
  by (simp add: keeps_def)

lemma permits_readers [keep]:
  "keeps (on_permits P) (signed_in e user)" "keeps (on_permits P) (named_call body)" "keeps (on_permits P) (find_call e k)"
  by (simp_all add: keeps_def signed_in_def named_call_def find_call_def andThen_def GetUser_def check_def succeed_def
    parsed_def split: option.split)

lemma permits_fold: "(join_signs (calls s), uuid_next s) = permits_of s"
  by (simp add: permits_of_def)

lemma permits_simple [keep]:
  "keeps (on_permits P) (change (tell e msg))" "keeps (on_permits P) (change (broadcastStreamCallMemberSync e k))"
  "keeps (on_permits P) (orFail (GetRoomUserIdsCache re rid) r)" "keeps (on_permits P) (make_way e u rid)"
  "keeps (on_permits P) (store_call e d)"
  by (intro keep permits_same; simp add: make_way_def store_call_def Let_def set_state_def permits_fold split: option.split)+

lemma permits_handlers [keep]:
  "keeps (on_permits P) (MarkCallMemberJoined e user b1)" "keeps (on_permits P) (LeaveCall e user b1)"
  "keeps (on_permits P) (RejectCallInvite e user b1)" "keeps (on_permits P) (HangupCall e user b1)"
  "keeps (on_permits P) (CurrentCall e b2)"
proof -
  have left: "permits_of s1 = permits_of s" if "leaveCallByUID e u k s = (st, s1)" for u k s st s1
    using permits_left(1) [of e u k s] that by simp
  show "keeps (on_permits P) (MarkCallMemberJoined e user b1)"
    unfolding MarkCallMemberJoined_def by (rule keep | (simp add: Let_def permits_fold; fail))+
  show "keeps (on_permits P) (LeaveCall e user b1)"
    unfolding LeaveCall_def
    by (rule keep permits_same)+ (auto split: prod.split dest: left)
  show "keeps (on_permits P) (RejectCallInvite e user b1)"
    unfolding RejectCallInvite_def by (rule keep permits_same)+ (simp add: reject_invited_def Let_def permits_fold)
  show "keeps (on_permits P) (HangupCall e user b1)"
    unfolding HangupCall_def by (rule keep permits_same)+
      (simp add: hangup_named_def hangup_for_all_def hangup_for_one_def Let_def permits_fold split: option.split)
  show "keeps (on_permits P) (CurrentCall e b2)"
    unfolding CurrentCall_def by (rule keep permits_same)+ (simp add: current_of_def Let_def permits_fold split: option.split)
qed

lemma permits_invitees [keep]: "keeps (on_permits P) (call_invitees e u rid)"
  unfolding call_invitees_def Let_def by (rule keep permits_simple)+

section \<open>Where permits come from\<close>

text \<open>No permit of that user for that room.\<close>

definition unpermitted :: "uid \<Rightarrow> rid \<Rightarrow> (string \<rightharpoonup> join_sign cell) \<times> nat \<Rightarrow> bool" where
  "unpermitted uid rid p \<longleftrightarrow> (\<forall>k js t. fst p k = Some (js, t) \<longrightarrow> \<not> (js_UID js = uid \<and> js_RID js = rid))"

lemma unpermitted_uuid: "keeps (on_permits (unpermitted uid rid)) (new_uuid e)"
  by (simp add: keeps_def new_uuid_def unpermitted_def permits_of_def)

lemma unpermitted_issue:
  "\<not> (u = uid \<and> r = rid) \<Longrightarrow> keeps (on_permits (unpermitted uid rid)) (issueJoinSignData e u sid r role ttl)"
  unfolding issueJoinSignData_def
  by (rule keeps_andThen [OF unpermitted_uuid])
    (auto simp: keeps_def Let_def unpermitted_def permits_of_def rset_def split: if_splits)

lemma wp_unpermitted_issue:
  assumes "\<not> (u = uid \<and> r = rid)" and "on_permits (unpermitted uid rid) s"
    and "\<And>a s1. on_permits (unpermitted uid rid) s1 \<Longrightarrow> Q a s1" and "\<And>s1. on_permits (unpermitted uid rid) s1 \<Longrightarrow> E s1"
  shows "wp (issueJoinSignData e u sid r role ttl) Q E s"
  by (rule wp_keeps [OF unpermitted_issue]) (fact assms)+

text \<open>
  What gives a user a permit: his own request for one, a call he opens, or his answer to a call
  he is invited to, which is not over and still the call of its room.
\<close>

fun permits :: "uid \<Rightarrow> rid \<Rightarrow> media_event \<Rightarrow> 'a call_store_scheme \<Rightarrow> bool" where
  "permits uid rid (EvRequest e (Some u) (ReqIssue (Some b))) s \<longleftrightarrow>
     hu_Uid u = uid \<and> TrimSpace (jb_Rid b) = rid \<and> cl_sid e \<noteq> []"
| "permits uid rid (EvRequest e (Some u) (ReqOpen (Some b))) s \<longleftrightarrow>
     hu_Uid u = uid \<and> TrimSpace (cb_Rid b) = rid \<and> cl_sid e \<noteq> []"
| "permits uid rid (EvRequest e (Some u) (ReqAnswer (Some k))) s \<longleftrightarrow>
     hu_Uid u = uid \<and> cl_sid e \<noteq> [] \<and>
     (\<exists>d current. get_invite e k (calls s) = Some d \<and> ci_Rid d = rid \<and> uid \<in> set (ci_InviteeUIDs d) \<and>
        (case get_state e k (calls s) of None \<Rightarrow> True | Some st \<Rightarrow> \<not> cs_Ended st) \<and>
        get_room_call e rid (calls s) = Some current \<and> TrimSpace current = ci_CallID d)"
| "permits uid rid ev s \<longleftrightarrow> False"

lemma wp_signed_in:
  "wp (signed_in e user) Q E s = (case user of None \<Rightarrow> E s | Some u \<Rightarrow> if cl_sid e \<noteq> [] then Q u s else E s)"
  by (simp add: signed_in_def split: option.split)

lemma wp_named_call:
  "wp (named_call body) Q E s = (case body of None \<Rightarrow> E s | Some k \<Rightarrow> if TrimSpace k \<noteq> [] then Q k s else E s)"
  by (simp add: named_call_def split: option.split)

lemma wp_find_call:
  "wp (find_call e k) Q E s = (case get_invite e k (calls s) of None \<Rightarrow> E s | Some d \<Rightarrow> Q d s)"
  by (simp add: wp_def find_call_def split: option.split)

lemma get_invite_ne: "get_invite e k c = Some d \<Longrightarrow> ci_CallID d \<noteq> []"
  by (auto simp: get_invite_def split: if_splits option.splits)

lemmas wp_entry = wp_signed_in wp_named_call wp_find_call

lemma keeps_signed_in:
  assumes "\<And>u. user = Some u \<Longrightarrow> cl_sid e \<noteq> [] \<Longrightarrow> keeps I (f u)" shows "keeps I (andThen (signed_in e user) f)"
  using assms by (auto simp: keeps_def signed_in_def andThen_def GetUser_def check_def succeed_def split: option.split)

lemma keeps_parsed:
  assumes "\<And>b. body = Some b \<Longrightarrow> keeps I (f b)" shows "keeps I (andThen (parsed body r) f)"
  using assms by (auto simp: keeps_def andThen_def parsed_def split: option.split)

lemma permit_IssueJoinSign:
  assumes "\<not> permits uid rid (EvRequest e user (ReqIssue body)) s"
  shows "keeps (on_permits (unpermitted uid rid)) (IssueJoinSign e user body)"
  unfolding IssueJoinSign_def Let_def
  apply (rule keeps_signed_in, rule keeps_parsed)
  apply (rule keep unpermitted_issue | (use assms in \<open>force\<close>))+
  done

lemma permit_CreateCallInvite:
  assumes "\<not> permits uid rid (EvRequest e user (ReqOpen body)) s"
  shows "keeps (on_permits (unpermitted uid rid)) (CreateCallInvite e user body)"
  unfolding CreateCallInvite_def Let_def
  apply (rule keeps_signed_in, rule keeps_parsed)
  apply (rule keep unpermitted_issue unpermitted_uuid | (use assms in \<open>force\<close>))+
  done

lemma permit_AcceptCallInvite:
  assumes "on_permits (unpermitted uid rid) s" and "\<not> permits uid rid (EvRequest e user (ReqAnswer body)) s"
  shows "wp (AcceptCallInvite e user body) (\<lambda>_. on_permits (unpermitted uid rid)) (on_permits (unpermitted uid rid)) s"
  using assms
  by (auto simp: AcceptCallInvite_def wp_entry intro!: wp_unpermitted_issue [where uid = uid and rid = rid]
    dest: get_invite_ne split: option.split)

section \<open>Who is connected\<close>

definition permitted :: "uid \<Rightarrow> rid \<Rightarrow> 'a call_store_scheme \<times> media_server \<Rightarrow> bool" where
  "permitted uid rid w \<longleftrightarrow> \<not> unpermitted uid rid (permits_of (fst w))"

definition connected :: "uid \<Rightarrow> rid \<Rightarrow> 'a call_store_scheme \<times> media_server \<Rightarrow> bool" where
  "connected uid rid w \<longleftrightarrow> (\<exists>h v c. (v, c) \<in> set (hubs (snd w) h) \<and> md_Uid c = uid \<and> md_Rid c = rid)"

lemma unpermitted_less: "join_signs c \<subseteq>\<^sub>m js \<Longrightarrow> unpermitted uid rid (js, n) \<Longrightarrow> unpermitted uid rid (join_signs c, k)"
  unfolding unpermitted_def map_le_def by (metis domI fst_conv)

lemma consume_result:
  "consumeAndVerifyJoinSign e req s = (r, s1) \<Longrightarrow>
     s1 = s \<and> r \<noteq> Inr () \<or>
     js_Nonce req \<in> dom (join_signs (calls s)) \<and> s1 = on_calls (\<lambda>c. c\<lparr>join_signs := (join_signs c)(js_Nonce req := None)\<rparr>) s \<and>
     (r = Inr () \<longrightarrow> permitted (js_UID req) (js_RID req) (s, m))"
  unfolding consumeAndVerifyJoinSign_def
  by (auto simp: Let_def rget_def permitted_def unpermitted_def permits_of_def split: if_splits option.splits; blast)

lemma consume_permits:
  assumes "consumeAndVerifyJoinSign e req s = (r, s1)" and "unpermitted uid rid (permits_of s)"
  shows "unpermitted uid rid (permits_of s1)"
  using consume_result [OF assms(1), of undefined] assms(2)
  by (auto simp: unpermitted_def permits_of_def split: if_splits; blast)

lemma admit_cases:
  assumes "admit e x k (s, m) = (r, s1, m1)"
  shows "(\<exists>req r1. consumeAndVerifyJoinSign e req s = (r1, s1)) \<or> s1 = s"
    and "r = None \<Longrightarrow> hubs m1 = hubs m \<and> media_rooms m1 = media_rooms m \<and> hub_next m1 = hub_next m"
    and "r = Some c \<Longrightarrow> (\<exists>f. m1 = addClient c (on_stream k f m)) \<and> md_Stream c = k \<and> permitted (md_Uid c) (md_Rid c) (s, m)"
  using assms
  by (auto simp: admit_def Let_def split: prod.splits sum.splits option.splits dest: consume_result [where m = m])

lemma permitted_request:
  assumes "on_permits (unpermitted uid rid) s" and "\<not> permits uid rid (EvRequest e u q) s"
  shows "on_permits (unpermitted uid rid) (call_exec1 e u q s)"
proof (cases q)
  case (ReqAnswer b)
  with assms permit_AcceptCallInvite [of uid rid s e u b] show ?thesis
    by (auto simp: wp_def split: prod.splits sum.splits)
qed (use assms in \<open>simp_all add: keepsD [OF permits_handlers(1)] keepsD [OF permits_handlers(2)] keepsD [OF permits_handlers(3)]
    keepsD [OF permits_handlers(4)] keepsD [OF permits_handlers(5)] keepsD [OF permit_IssueJoinSign] keepsD [OF permit_CreateCallInvite]\<close>)

lemma permitted_step:
  assumes "media_step uuid ev w w'" and "\<not> permitted uid rid w" and "permitted uid rid w'"
  shows "permits uid rid ev (fst w)"
  using assms(1)
proof cases
  case (requested e u q s m)
  with assms(2,3) permitted_request [of uid rid s e u q] show ?thesis by (auto simp: permitted_def)
next
  case (admitted m k e x s)
  obtain r s1 m1 where a: "admit e x k (s, m) = (r, s1, m1)" by (metis prod_cases3)
  with admit_cases(1) [OF a] admitted assms(2,3) show ?thesis by (auto simp: permitted_def dest: consume_permits)
next
  case (dismissed e c s m)
  with assms(2,3) show ?thesis by (auto simp: permitted_def dismiss_def Let_def split: prod.splits if_splits)
next
  case (elsewhere s' s m)
  then have "unpermitted uid rid (permits_of s') = unpermitted uid rid (permits_of s)"
    by (simp add: unpermitted_def permits_of_def)
  with elsewhere assms(2,3) show ?thesis by (simp add: permitted_def)
qed (use assms(2,3) in \<open>auto simp: permitted_def\<close>)

lemma connected_addClient:
  assumes "connected uid rid (s, addClient c m)"
  shows "connected uid rid (s, m) \<or> md_Uid c = uid \<and> md_Rid c = rid"
proof -
  obtain h1 m1 where g: "getOrCreateRoom (md_Rid c) m = (h1, m1)" by fastforce
  have sub: "set (hubs m1 h) \<subseteq> set (hubs m h)" for h
    using g by (auto simp: getOrCreateRoom_def split: option.splits if_splits)
  from assms obtain h v d where d: "(v, d) \<in> set (hubs (addClient c m) h)" "md_Uid d = uid" "md_Rid d = rid"
    by (auto simp: connected_def)
  then have "(v, d) = (md_Uid c, c) \<or> (v, d) \<in> set (hubs m h)"
    using sub by (auto simp: addClient_def g enter_hub_def dest!: update_entries split: if_splits)
  with d show ?thesis by (auto simp: connected_def)
qed

lemma connected_removeClient:
  "connected uid rid (s, snd (removeClient c m)) \<Longrightarrow> connected uid rid (s, m)"
  by (auto simp: connected_def removeClient_def leave_hub_def delete_room_def Let_def dest!: delete_entries
    split: option.splits if_splits)

definition enters :: "uid \<Rightarrow> rid \<Rightarrow> media_event \<Rightarrow> 'a call_store_scheme \<times> media_server \<Rightarrow> bool" where
  "enters uid rid ev w \<longleftrightarrow> (\<exists>e x k c w1. ev = EvAdmit e x k \<and> admit e x k w = (Some c, w1) \<and> md_Uid c = uid \<and> md_Rid c = rid) \<and>
     permitted uid rid w"

lemma connected_step:
  assumes "media_step uuid ev w w'" and "\<not> connected uid rid w" and "connected uid rid w'"
  shows "enters uid rid ev w"
  using assms(1)
proof cases
  case (admitted m k e x s)
  obtain r s1 m1 where a: "admit e x k (s, m) = (r, s1, m1)" by (metis prod_cases3)
  show ?thesis
  proof (cases r)
    case None
    from admit_cases(2) [OF a this] have "connected uid rid w' = connected uid rid w"
      by (simp add: connected_def admitted a)
    with assms(2,3) show ?thesis by simp
  next
    case (Some c)
    from admit_cases(3) [OF a Some] obtain f where c: "m1 = addClient c (on_stream k f m)"
      "permitted (md_Uid c) (md_Rid c) (s, m)" by blast
    have "connected uid rid (s, addClient c (on_stream k f m))" using assms(3) admitted a c(1) by (simp add: connected_def)
    from connected_addClient [OF this] assms(2) admitted have "md_Uid c = uid" "md_Rid c = rid" by (auto simp: connected_def)
    with c a Some admitted show ?thesis by (auto simp: enters_def)
  qed
next
  case (dismissed e c s m)
  have "connected uid rid (s, snd (removeClient c m))" using assms(3) dismissed
    by (auto simp: connected_def dismiss_def Let_def split: prod.splits)
  from connected_removeClient [OF this] assms(2) dismissed show ?thesis by simp
qed (use assms(2,3) in \<open>auto simp: connected_def\<close>)

lemma relay_dismiss: "relay_ok (snd w) \<Longrightarrow> relay_ok (snd (dismiss e c w))"
  by (cases w) (simp add: dismiss_def Let_def case_prod_beta relay_removeClient)

lemma relay_entry:
  assumes "relay_ok m" and "media_rooms m rid = Some h" and "(v, c) \<in> set (hubs m h)"
  shows "md_Uid c = v \<and> md_Rid c = rid"
proof -
  have "hub_ok (hubs m h)" "md_Rid ` snd ` set (hubs m h) \<subseteq> {rid}" using assms(1,2) by (auto simp: relay_ok_def)
  moreover have "md_Rid c \<in> md_Rid ` snd ` set (hubs m h)" using assms(3) by force
  ultimately show ?thesis using assms(3) by (auto simp: hub_ok_def)
qed

lemma relay_step: "media_step uuid ev w w' \<Longrightarrow> relay_ok (snd w) \<Longrightarrow> relay_ok (snd w')"
proof (cases rule: media_step.cases, assumption)
  fix m k e x and s :: "'a call_store_scheme"
  assume ok: "relay_ok (snd w)" and w: "w = (s, m)" "w' = snd (admit e x k (s, m))"
    and k: "\<And>h v d. (v, d) \<in> set (hubs m h) \<Longrightarrow> md_Stream d \<noteq> k"
  obtain r s1 m1 where a: "admit e x k (s, m) = (r, s1, m1)" by (metis prod_cases3)
  show "relay_ok (snd w')"
  proof (cases r)
    case None
    with admit_cases(2) [OF a] ok w a show ?thesis by (simp add: relay_ok_def)
  next
    case (Some c)
    from admit_cases(3) [OF a Some] obtain f where c: "m1 = addClient c (on_stream k f m)" "md_Stream c = k" by blast
    have "relay_ok m1" unfolding c(1) by (rule relay_addClient) (use ok w k c(2) in auto)
    with w a show ?thesis by simp
  qed
qed (use relay_dismiss in \<open>auto simp: relay_round\<close>)

interpretation relay: safe_steps "media_step uuid" "\<lambda>w. relay_ok (snd w)" for uuid
  by unfold_locales (rule relay_step)

interpretation permit: caused_steps "media_step uuid" "permitted uid rid" "\<lambda>ev w. permits uid rid ev (fst w)" for uuid uid rid
  by unfold_locales (rule permitted_step)

interpretation seat: caused_steps "media_step uuid" "connected uid rid" "enters uid rid" for uuid uid rid
  by unfold_locales (rule connected_step)

text \<open>
  C8. Nobody hears a call without a permit of his own: if, in a run that begins with an empty
  server and no permits, a connection of \<open>uid\<close> comes to sit in the hub of a room, it is
  registered for just that user and room, and before it was admitted \<open>uid\<close> himself had asked for
  a permit of that room, had opened a call there, or had accepted a call of the room to which he
  was invited and which was not over. This holds whatever fails, whoever goes offline, and
  whatever requests the connections send.
\<close>

theorem media_only_with_a_permit:
  assumes "run_of (media_step uuid) (s, NewServer st) tr (s', m)" and "join_signs (calls s) = Map.empty"
    and "media_rooms m rid = Some h" and "(uid, c) \<in> set (hubs m h)"
  shows "md_Uid c = uid \<and> md_Rid c = rid \<and>
    (\<exists>before ev1 between ev2 after w1 w2. tr = before @ ev1 # between @ ev2 # after \<and>
       run_of (media_step uuid) (s, NewServer st) before w1 \<and> permits uid rid ev1 (fst w1) \<and>
       run_of (media_step uuid) (s, NewServer st) (before @ ev1 # between) w2 \<and> enters uid rid ev2 w2)"
proof -
  have "relay_ok m" using relay.run_kept [OF assms(1)] by (simp add: relay_NewServer)
  from relay_entry [OF this assms(3,4)] have c: "md_Uid c = uid" "md_Rid c = rid" by simp_all
  then have "connected uid rid (s', m)" using assms(4) by (auto simp: connected_def)
  moreover have "\<not> connected uid rid (s, NewServer st)" by (simp add: connected_def NewServer_def)
  ultimately obtain pre ev2 after w2 where 2: "tr = pre @ ev2 # after" "run_of (media_step uuid) (s, NewServer st) pre w2"
      "enters uid rid ev2 w2" using seat.run_caused [OF assms(1)] by blast
  then have "permitted uid rid w2" by (simp add: enters_def)
  moreover have "\<not> permitted uid rid (s, NewServer st)"
    using assms(2) by (simp add: permitted_def unpermitted_def permits_of_def)
  ultimately obtain before ev1 between w1 where "pre = before @ ev1 # between"
      "run_of (media_step uuid) (s, NewServer st) before w1" "permits uid rid ev1 (fst w1)"
    using permit.run_caused [OF 2(2)] by blast
  with 2 c show ?thesis
    by (intro conjI exI [of _ before] exI [of _ ev1] exI [of _ between] exI [of _ ev2] exI [of _ after]
      exI [of _ w1] exI [of _ w2]) simp_all
qed

section \<open>A permit opens one connection\<close>

text \<open>What a fresh identifier, a permit under it, and the end of a permit leave true.\<close>

definition lasting :: "(nat \<Rightarrow> string) \<Rightarrow> ((string \<rightharpoonup> join_sign cell) \<times> nat \<Rightarrow> bool) \<Rightarrow> bool" where
  "lasting uuid P \<longleftrightarrow> (\<forall>js k. P (js, k) \<longrightarrow>
     P (js, Suc k) \<and> (\<forall>v. P (js(uuid k \<mapsto> v), Suc k)) \<and> (\<forall>n. P (js(n := None), k)))"

lemma stable_uuid:
  assumes "lasting uuid P" and "cl_uuid e = uuid" shows "keeps (on_permits P) (new_uuid e)"
  using assms by (simp add: lasting_def keeps_def new_uuid_def permits_of_def)

lemma stable_issue:
  assumes "lasting uuid P" and "cl_uuid e = uuid" shows "keeps (on_permits P) (issueJoinSignData e u sid r role ttl)"
  using assms by (auto simp: lasting_def keeps_def issueJoinSignData_def andThen_def new_uuid_def Let_def permits_of_def rset_def)

lemma stable_exec:
  assumes "lasting uuid P" and "cl_uuid e = uuid" and "on_permits P s"
  shows "on_permits P (call_exec1 e u q s)"
proof -
  note k = stable_uuid [OF assms(1,2)] stable_issue [OF assms(1,2)]
  have 1: "keeps (on_permits P) (IssueJoinSign e u b)" for b
    unfolding IssueJoinSign_def Let_def by (rule keep k)+
  have 2: "keeps (on_permits P) (CreateCallInvite e u b)" for b
    unfolding CreateCallInvite_def Let_def by (rule keep k)+
  have 3: "keeps (on_permits P) (AcceptCallInvite e u b)" for b
    unfolding AcceptCallInvite_def by (rule keep k)+
  show ?thesis
    using assms(3) by (cases q) (simp_all add: keepsD [OF 1] keepsD [OF 2] keepsD [OF 3] keepsD [OF permits_handlers(1)]
      keepsD [OF permits_handlers(2)] keepsD [OF permits_handlers(3)] keepsD [OF permits_handlers(4)] keepsD [OF permits_handlers(5)])
qed

lemma stable_consume:
  assumes "lasting uuid P" and "consumeAndVerifyJoinSign e req s = (r, s1)" and "on_permits P s" shows "on_permits P s1"
  using consume_result [OF assms(2), of undefined] assms(1,3) by (auto simp: lasting_def permits_of_def)

lemma stable_more:
  assumes "lasting uuid P" and "P (js, n)" and "n \<le> k" shows "P (js, k)"
  using assms(3,2) by (induction rule: dec_induct) (use assms(1) in \<open>auto simp: lasting_def\<close>)

lemma stable_step:
  assumes "media_step uuid ev w w'" and "lasting uuid P \<and> on_permits P (fst w)" shows "lasting uuid P \<and> on_permits P (fst w')"
  using assms(1)
proof cases
  case (admitted m k e x s)
  obtain r s1 m1 where a: "admit e x k (s, m) = (r, s1, m1)" by (metis prod_cases3)
  with admit_cases(1) [OF a] admitted assms(2) show ?thesis by (auto dest: stable_consume)
next
  case (requested e u q s m)
  with assms(2) stable_exec [of uuid P e s u q] show ?thesis by simp
next
  case (dismissed e c s m)
  with assms(2) show ?thesis by (auto simp: dismiss_def Let_def split: prod.splits)
next
  case (elsewhere s' s m)
  with assms(2) stable_more [of uuid P "join_signs (calls s)" "uuid_next s" "uuid_next s'"] show ?thesis
    by (simp add: permits_of_def)
qed (use assms(2) in \<open>auto\<close>)

interpretation permits_kept: safe_steps "media_step uuid" "\<lambda>w. lasting uuid P \<and> on_permits P (fst w)" for uuid P
  by unfold_locales (rule stable_step)

text \<open>Every permit is under an identifier that was drawn; one that was drawn is not drawn again.\<close>

definition drawn :: "(nat \<Rightarrow> string) \<Rightarrow> (string \<rightharpoonup> join_sign cell) \<times> nat \<Rightarrow> bool" where
  "drawn uuid p \<longleftrightarrow> dom (fst p) \<subseteq> uuid ` {..<snd p}"

definition spent :: "(nat \<Rightarrow> string) \<Rightarrow> string \<Rightarrow> (string \<rightharpoonup> join_sign cell) \<times> nat \<Rightarrow> bool" where
  "spent uuid n p \<longleftrightarrow> fst p n = None \<and> n \<in> uuid ` {..<snd p}"

lemma stable_drawn: "lasting uuid (drawn uuid)"
  by (auto simp: lasting_def drawn_def lessThan_Suc split: if_splits)

lemma stable_spent: "inj uuid \<Longrightarrow> lasting uuid (spent uuid n)"
  by (auto simp: lasting_def spent_def lessThan_Suc dest: injD)

text \<open>
  C10. A permit opens one connection at most: once a connection was admitted on it, no other is
  ever admitted on its nonce again, whatever happens in between and whatever the later
  connection claims besides (the identifiers drawn being different from each other).
\<close>

theorem permits_are_single_use:
  assumes "inj uuid" and "join_signs (calls s0) = Map.empty" and "run_of (media_step uuid) (s0, m0) tr (s, m)"
    and "consumeAndVerifyJoinSign e req s = (Inr (), s1)" and "run_of (media_step uuid) (s1, m1) tr2 (s2, m2)"
    and "js_Nonce req2 = js_Nonce req"
  shows "fst (consumeAndVerifyJoinSign e2 req2 s2) \<noteq> Inr ()"
proof -
  have "drawn uuid (permits_of s)"
    using permits_kept.run_kept [OF assms(3), of "drawn uuid"] assms(2) stable_drawn by (simp add: drawn_def permits_of_def)
  with consume_result [OF assms(4), of undefined] have "spent uuid (js_Nonce req) (permits_of s1)"
    by (auto simp: drawn_def spent_def permits_of_def)
  then have "spent uuid (js_Nonce req) (permits_of s2)"
    using permits_kept.run_kept [OF assms(5), of "spent uuid (js_Nonce req)"] stable_spent [OF assms(1)] by simp
  then show ?thesis
    using consume_result [of e2 req2 s2 "fst (consumeAndVerifyJoinSign e2 req2 s2)" "snd (consumeAndVerifyJoinSign e2 req2 s2)" undefined]
      assms(6) by (auto simp: spent_def permits_of_def)
qed

section \<open>A caller connects\<close>

definition demo_uuid :: "nat \<Rightarrow> string" where "demo_uuid n = CHR ''u'' # replicate n CHR ''x''"

definition demo_call_env :: "time \<Rightarrow> call_env" where
  "demo_call_env now = \<lparr>cl_admin = demo_admin_env now, cl_fails = (\<lambda>_. False),
     cl_uuid = demo_uuid, cl_hmac = (\<lambda>k text. text), cl_key = ''key'', cl_addr = ''addr''\<rparr>"

definition no_calls :: call_redis where
  "no_calls = \<lparr>call_invites = Map.empty, call_states = Map.empty, room_calls = Map.empty, user_calls = Map.empty,
     join_signs = Map.empty\<rparr>"

definition demo_calls :: call_store where
  "demo_calls = admin_store.extend demo_empty (call_store.fields no_calls [] 0)"

definition demo_permit :: join_sign where
  "demo_permit = \<lparr>js_UID = ''a'', js_SID = ''s'', js_RID = ''x'', js_Role = ''publisher'', js_Nonce = ''u'', js_ExpireAt = 31000,
     js_Sign = ''a|s|x|publisher|u|31000''\<rparr>"

definition demo_asked :: media_event where
  "demo_asked = EvRequest (demo_call_env 1000) (demo_person ''a'')
     (ReqIssue (Some \<lparr>jb_Rid = ''x'', jb_Role = ''publisher'', jb_TTL = 30\<rparr>))"

definition demo_codec :: media_codec where
  "demo_codec = \<lparr>mx_request = (\<lambda>_. Some demo_permit), mx_answer = (\<lambda>ok text. [])\<rparr>"

definition demo_streams :: "nat \<Rightarrow> io" where
  "demo_streams k = \<lparr>inp = [0, 0, 0, 0], out = [], room_left = 100\<rparr>"

definition demo_issued :: call_store where
  "demo_issued = call_exec1 (demo_call_env 1000) (demo_person ''a'')
     (ReqIssue (Some \<lparr>jb_Rid = ''x'', jb_Role = ''publisher'', jb_TTL = 30\<rparr>)) demo_calls"

definition demo_seated :: "call_store \<times> media_server" where
  "demo_seated = snd (admit (demo_call_env 2000) demo_codec 0 (demo_issued, NewServer demo_streams))"

lemma run_onward: "run_of step s tr s1 \<Longrightarrow> step ev s1 s2 \<Longrightarrow> tr' = tr @ [ev] \<Longrightarrow> run_of step s tr' s2"
  by (simp add: run_of.onward)

lemma demo_no_permits: "join_signs (calls demo_calls) = Map.empty"
  by (simp add: demo_calls_def no_calls_def call_store.defs admin_store.defs)

lemma demo_run1: "run_of (media_step demo_uuid) (demo_calls, NewServer demo_streams) [demo_asked] (demo_issued, NewServer demo_streams)"
proof -
  have "media_step demo_uuid demo_asked (demo_calls, NewServer demo_streams) (demo_issued, NewServer demo_streams)"
    unfolding demo_asked_def demo_issued_def by (rule requested) (simp add: demo_call_env_def)
  then show ?thesis by (rule run_onward [OF run_of.start]) simp
qed

lemma demo_run2:
  "run_of (media_step demo_uuid) (demo_calls, NewServer demo_streams) [demo_asked, EvAdmit (demo_call_env 2000) demo_codec 0] demo_seated"
proof -
  have "media_step demo_uuid (EvAdmit (demo_call_env 2000) demo_codec 0) (demo_issued, NewServer demo_streams) demo_seated"
    unfolding demo_seated_def by (rule admitted) (simp add: NewServer_def)
  then show ?thesis by (rule run_onward [OF demo_run1]) simp
qed

theorem media_only_with_a_permit_witness:
  "map_option (\<lambda>h. map fst (hubs (snd demo_seated) h)) (media_rooms (snd demo_seated) ''x'') = Some [''a''] \<and>
   (\<exists>before ev1 between ev2 after w1 w2.
      [demo_asked, EvAdmit (demo_call_env 2000) demo_codec 0] = before @ ev1 # between @ ev2 # after \<and>
      run_of (media_step demo_uuid) (demo_calls, NewServer demo_streams) before w1 \<and> permits ''a'' ''x'' ev1 (fst w1) \<and>
      run_of (media_step demo_uuid) (demo_calls, NewServer demo_streams) (before @ ev1 # between) w2 \<and> enters ''a'' ''x'' ev2 w2)"
proof
  show h: "map_option (\<lambda>h. map fst (hubs (snd demo_seated) h)) (media_rooms (snd demo_seated) ''x'') = Some [''a'']" by code_simp
  then obtain h c where hc: "media_rooms (snd demo_seated) ''x'' = Some h" "(''a'', c) \<in> set (hubs (snd demo_seated) h)" by auto
  have "run_of (media_step demo_uuid) (demo_calls, NewServer demo_streams)
      [demo_asked, EvAdmit (demo_call_env 2000) demo_codec 0] (fst demo_seated, snd demo_seated)" using demo_run2 by simp
  from media_only_with_a_permit [OF this demo_no_permits hc]
  show "\<exists>before ev1 between ev2 after w1 w2.
      [demo_asked, EvAdmit (demo_call_env 2000) demo_codec 0] = before @ ev1 # between @ ev2 # after \<and>
      run_of (media_step demo_uuid) (demo_calls, NewServer demo_streams) before w1 \<and> permits ''a'' ''x'' ev1 (fst w1) \<and>
      run_of (media_step demo_uuid) (demo_calls, NewServer demo_streams) (before @ ev1 # between) w2 \<and> enters ''a'' ''x'' ev2 w2"
    by blast
qed

theorem permits_are_single_use_witness:
  "fst (consumeAndVerifyJoinSign (demo_call_env 2000) demo_permit demo_issued) = Inr () \<and>
   fst (consumeAndVerifyJoinSign (demo_call_env 3000) demo_permit
     (snd (consumeAndVerifyJoinSign (demo_call_env 2000) demo_permit demo_issued))) \<noteq> Inr ()"
proof
  show c: "fst (consumeAndVerifyJoinSign (demo_call_env 2000) demo_permit demo_issued) = Inr ()" by code_simp
  let ?s1 = "snd (consumeAndVerifyJoinSign (demo_call_env 2000) demo_permit demo_issued)"
  have "inj demo_uuid" by (rule injI) (metis demo_uuid_def length_replicate list.inject)
  moreover have "consumeAndVerifyJoinSign (demo_call_env 2000) demo_permit demo_issued = (Inr (), ?s1)"
    using c by (metis prod.collapse)
  ultimately show "fst (consumeAndVerifyJoinSign (demo_call_env 3000) demo_permit ?s1) \<noteq> Inr ()"
    by (rule permits_are_single_use [OF _ demo_no_permits demo_run1 _ run_of.start [of _ "(?s1, NewServer demo_streams)"] refl])
qed

end
