(* ===== verification/CallRules.thy ===== *)
theory CallRules
  imports CallSafety
begin

text \<open>
  The tables of the calls: while Redis works, a room has at most one call, the pointer of the
  room, the invitation and the state of the call go together, and whoever may end a call ends
  it for good. What goes wrong beside that is at the end.
\<close>

section \<open>Tables in order\<close>

type_synonym call_tables = "(string \<rightharpoonup> call_invite cell) \<times> (string \<rightharpoonup> call_state cell) \<times> (rid \<rightharpoonup> string cell)"

definition call_tables :: "call_redis \<Rightarrow> call_tables" where
  "call_tables c = (call_invites c, call_states c, room_calls c)"

text \<open>The media server's clean-up compares identifiers without their surrounding blanks.\<close>

definition state_ok :: "call_invite \<Rightarrow> call_state \<Rightarrow> bool" where
  "state_ok d st \<longleftrightarrow> cs_CallID st = ci_CallID d \<and> \<not> cs_Ended st \<and> distinct (cs_RejectedUIDs st) \<and>
     TrimSpace ` set (cs_ActiveUIDs st) \<subseteq> TrimSpace ` insert (ci_InviterUID d) (set (ci_InviteeUIDs d)) \<and>
     set (cs_RejectedUIDs st) \<subseteq> set (ci_InviteeUIDs d)"

definition invite_ok :: "string \<Rightarrow> call_invite \<Rightarrow> bool" where
  "invite_ok k d \<longleftrightarrow> ci_CallID d = k \<and> ci_ExpireAt d = 0 \<and> ci_Rid d \<noteq> [] \<and> TrimSpace (ci_Rid d) = ci_Rid d \<and>
     ci_InviterUID d \<noteq> [] \<and> ci_InviterUID d \<notin> set (ci_InviteeUIDs d) \<and> [] \<notin> set (ci_InviteeUIDs d)"

definition calls_ok :: "(nat \<Rightarrow> string) \<Rightarrow> nat \<Rightarrow> call_tables \<Rightarrow> bool" where
  "calls_ok uuid n t \<longleftrightarrow> (case t of (I, S, R) \<Rightarrow>
     (\<forall>k d x. I k = Some (d, x) \<longrightarrow> x = None \<and> invite_ok k d \<and> k \<in> uuid ` {..<n} \<and> R (ci_Rid d) = Some (k, None) \<and>
        (\<exists>st. S k = Some (st, None) \<and> state_ok d st)) \<and>
     (\<forall>rid k x. R rid = Some (k, x) \<longrightarrow> x = None \<and> (\<exists>d. I k = Some (d, None) \<and> ci_Rid d = rid)))"

lemma ok_invite:
  assumes "calls_ok uuid n (I, S, R)" and "I k = Some (d, x)"
  obtains st where "x = None" "invite_ok k d" "k \<in> uuid ` {..<n}" "R (ci_Rid d) = Some (k, None)" "S k = Some (st, None)" "state_ok d st"
  using assms unfolding calls_ok_def by fastforce

lemma ok_room:
  assumes "calls_ok uuid n (I, S, R)" and "R rid = Some (k, x)"
  obtains d where "x = None" "I k = Some (d, None)" "ci_Rid d = rid"
  using assms unfolding calls_ok_def by fastforce

lemma ok_drop:
  assumes "calls_ok uuid n (I, S, R)" and "I k = Some (d, x)"
  shows "calls_ok uuid n (I(k := None), S(k := None), R(ci_Rid d := None))"
  unfolding calls_ok_def prod.case
proof (intro conjI allI impI)
  fix k' d' x' assume "(I(k := None)) k' = Some (d', x')"
  then have k': "k' \<noteq> k" "I k' = Some (d', x')" by (auto split: if_splits)
  from ok_invite [OF assms(1) k'(2)] obtain st where d': "x' = None" "invite_ok k' d'" "k' \<in> uuid ` {..<n}"
    "R (ci_Rid d') = Some (k', None)" "S k' = Some (st, None)" "state_ok d' st" .
  moreover from ok_invite [OF assms] have "R (ci_Rid d) = Some (k, None)" by metis
  with d'(4) k'(1) have "ci_Rid d' \<noteq> ci_Rid d" by auto
  ultimately show "x' = None" "invite_ok k' d'" "k' \<in> uuid ` {..<n}" "(R(ci_Rid d := None)) (ci_Rid d') = Some (k', None)"
    "\<exists>st. (S(k := None)) k' = Some (st, None) \<and> state_ok d' st" using k' by simp_all
next
  fix rid k' x' assume "(R(ci_Rid d := None)) rid = Some (k', x')"
  then have r: "rid \<noteq> ci_Rid d" "R rid = Some (k', x')" by (auto split: if_splits)
  from ok_room [OF assms(1) r(2)] obtain d' where "x' = None" "I k' = Some (d', None)" "ci_Rid d' = rid" .
  with r assms(2) show "x' = None" "\<exists>d'. (I(k := None)) k' = Some (d', None) \<and> ci_Rid d' = rid" by auto
qed

lemma ok_state:
  assumes "calls_ok uuid n (I, S, R)" and "I k = Some (d, x)" and "state_ok d st"
  shows "calls_ok uuid n (I, S(k \<mapsto> (st, None)), R)"
  using assms unfolding calls_ok_def by auto

lemma ok_more: "calls_ok uuid n t \<Longrightarrow> n \<le> m \<Longrightarrow> calls_ok uuid m t"
  unfolding calls_ok_def by (cases t) (fastforce simp: image_iff)

lemma ok_new:
  assumes "calls_ok uuid n (I, S, R)" and "inj uuid" and "R (ci_Rid d) = None" and "invite_ok (uuid n) d" and "state_ok d st"
  shows "calls_ok uuid (Suc n) (I(uuid n \<mapsto> (d, None)), S(uuid n \<mapsto> (st, None)), R(ci_Rid d \<mapsto> (uuid n, None)))"
proof -
  have new: "uuid n \<notin> uuid ` {..<n}" using assms(2) by (auto dest: injD)
  then have none: "I (uuid n) = None" using ok_invite [OF assms(1), of "uuid n"] by (cases "I (uuid n)") auto
  show ?thesis
    unfolding calls_ok_def prod.case
  proof (intro conjI allI impI)
    fix k d' x assume k: "(I(uuid n \<mapsto> (d, None))) k = Some (d', x)"
    have "x = None \<and> invite_ok k d' \<and> k \<in> uuid ` {..<Suc n} \<and>
        (R(ci_Rid d \<mapsto> (uuid n, None))) (ci_Rid d') = Some (k, None) \<and>
        (\<exists>st'. (S(uuid n \<mapsto> (st, None))) k = Some (st', None) \<and> state_ok d' st')"
    proof (cases "k = uuid n")
      case False
      with k have "I k = Some (d', x)" by simp
      from ok_invite [OF assms(1) this] obtain st' where "x = None" "invite_ok k d'" "k \<in> uuid ` {..<n}"
        "R (ci_Rid d') = Some (k, None)" "S k = Some (st', None)" "state_ok d' st'" .
      with False assms(3) show ?thesis by (auto simp: lessThan_Suc)
    qed (use k assms(4,5) in auto)
    then show "x = None" "invite_ok k d'" "k \<in> uuid ` {..<Suc n}" "(R(ci_Rid d \<mapsto> (uuid n, None))) (ci_Rid d') = Some (k, None)"
      "\<exists>st'. (S(uuid n \<mapsto> (st, None))) k = Some (st', None) \<and> state_ok d' st'" by blast+
  next
    fix rid k x assume r: "(R(ci_Rid d \<mapsto> (uuid n, None))) rid = Some (k, x)"
    have "x = None \<and> (\<exists>d'. (I(uuid n \<mapsto> (d, None))) k = Some (d', None) \<and> ci_Rid d' = rid)"
    proof (cases "rid = ci_Rid d")
      case False
      with r have "R rid = Some (k, x)" by simp
      from ok_room [OF assms(1) this] obtain d' where "x = None" "I k = Some (d', None)" "ci_Rid d' = rid" .
      with none show ?thesis by auto
    qed (use r in auto)
    then show "x = None" "\<exists>d'. (I(uuid n \<mapsto> (d, None))) k = Some (d', None) \<and> ci_Rid d' = rid" by blast+
  qed
qed

section \<open>When Redis works\<close>

definition redis_up :: "call_env \<Rightarrow> bool" where
  "redis_up e \<longleftrightarrow> (\<forall>c. cl_fails e c \<longrightarrow> c = InsertRecord)"

lemma redis_upD [simp]:
  assumes "redis_up e"
  shows "\<not> cl_fails e GetInvite" "\<not> cl_fails e GetState" "\<not> cl_fails e GetRoomCall" "\<not> cl_fails e GetUserCall"
    "\<not> cl_fails e SetInvite" "\<not> cl_fails e SetState" "\<not> cl_fails e SetRoomCall" "\<not> cl_fails e SetUserCall"
    "\<not> cl_fails e SetSign" "\<not> cl_fails e DelInvite" "\<not> cl_fails e DelState" "\<not> cl_fails e DelRoomCall" "\<not> cl_fails e DelUserCall"
    "\<not> cl_fails e TakeSign"
  using assms by (auto simp: redis_up_def)

text \<open>Identifiers as \<open>uuid\<close> makes them.\<close>

definition uuids :: "(nat \<Rightarrow> string) \<Rightarrow> bool" where
  "uuids uuid \<longleftrightarrow> inj uuid \<and> (\<forall>n. uuid n \<noteq> [] \<and> TrimSpace (uuid n) = uuid n)"

lemma tables_redis [simp]:
  "call_tables (clearUserActiveCallMapping e u c) = call_tables c"
  "call_tables (setUserActiveCallMapping e u k t c) = call_tables c"
  by (simp_all add: call_tables_def clearUserActiveCallMapping_def setUserActiveCallMapping_def Let_def)

lemma tables_clear_fold [simp]: "call_tables (fold (clearUserActiveCallMapping e) us c) = call_tables c"
  by (induction us arbitrary: c) simp_all

lemma tables_clearAll [simp]: "call_tables (clearAllUserActiveCallMappingsForCall e d st c) = call_tables c"
  by (simp add: clearAllUserActiveCallMappingsForCall_def)

lemma tables_set_state:
  "redis_up e \<Longrightarrow> ttl \<le> 0 \<Longrightarrow> call_tables (set_state e k st ttl c) =
     (call_invites c, (call_states c)(k \<mapsto> (st, None)), room_calls c)"
  by (simp add: call_tables_def set_state_def rset_def)

lemma tables_still_active [simp]: "call_tables (snd (still_active e k us c)) = call_tables c"
  by (induction us arbitrary: c) (simp_all add: Let_def)

lemma still_active_subset: "set (fst (still_active e k us c)) \<subseteq> TrimSpace ` set us"
  by (induction us arbitrary: c) (auto simp: Let_def)

lemma tables_destroy:
  "redis_up e \<Longrightarrow> TrimSpace k \<noteq> [] \<Longrightarrow> TrimSpace rid \<noteq> [] \<Longrightarrow> call_tables (destroyMediaCallSessionKeys e k rid c) =
     ((call_invites c)(TrimSpace k := None), (call_states c)(TrimSpace k := None), (room_calls c)(TrimSpace rid := None))"
  by (simp add: call_tables_def destroyMediaCallSessionKeys_def del_room_call_def Let_def)

lemma tables_eq: "call_tables c = (I, S, R) \<Longrightarrow> call_invites c = I \<and> call_states c = S \<and> room_calls c = R"
  by (simp add: call_tables_def)

section \<open>Every handler keeps the tables\<close>

abbreviation tables_ok :: "(nat \<Rightarrow> string) \<Rightarrow> 'a call_store_scheme \<Rightarrow> bool" where
  "tables_ok uuid s \<equiv> calls_ok uuid (uuid_next s) (call_tables (calls s))"

text \<open>A call that is there, as the handlers read it.\<close>

lemma found_call:
  assumes "tables_ok uuid s" and "uuids uuid" and "get_invite e k (calls s) = Some d" and "redis_up e"
  obtains st where "call_invites (calls s) k = Some (d, None)" "invite_ok k d" "TrimSpace k = k" "k \<noteq> []"
    "room_calls (calls s) (ci_Rid d) = Some (k, None)" "get_state e k (calls s) = Some st" "state_of e k d (calls s) = st"
    "state_ok d st"
proof -
  from assms(3) obtain x where i: "call_invites (calls s) k = Some (d, x)"
    by (auto simp: get_invite_def rget_def split: if_splits option.splits)
  from ok_invite [OF assms(1) [unfolded call_tables_def] i] obtain st where *: "x = None" "invite_ok k d"
    "k \<in> uuid ` {..<uuid_next s}" "room_calls (calls s) (ci_Rid d) = Some (k, None)"
    "call_states (calls s) k = Some (st, None)" "state_ok d st" .
  from * assms(2) have k: "TrimSpace k = k" "k \<noteq> []" by (auto simp: uuids_def)
  with * assms(4) have "get_state e k (calls s) = Some st" by (simp add: get_state_def rget_def state_ok_def invite_ok_def)
  with * i k that show thesis by (simp add: state_of_def)
qed

lemma no_expiry: "invite_ok k d \<Longrightarrow> \<not> isCallExpired e (ci_ExpireAt d) \<and> callStateTTL e (ci_ExpireAt d) = 0"
  by (simp add: invite_ok_def isCallExpired_def callStateTTL_def)

lemma tables_ended:
  assumes "redis_up e" and "invite_ok k d" and "TrimSpace k = k" and "k \<noteq> []"
  shows "call_tables (calls (end_call e d st r us u s)) =
     ((call_invites (calls s))(k := None), (call_states (calls s))(k := None), (room_calls (calls s))(ci_Rid d := None))"
    and "\<not> cs_Ended st \<Longrightarrow> call_tables (calls (finalizeMediaCallSessionNoActive e d st u s)) =
     ((call_invites (calls s))(k := None), (call_states (calls s))(k := None), (room_calls (calls s))(ci_Rid d := None))"
proof -
  have ck: "ci_CallID d = k" "TrimSpace (ci_Rid d) = ci_Rid d" "ci_Rid d \<noteq> []" using assms(2) by (simp_all add: invite_ok_def)
  have cl: "call_invites (clearAllUserActiveCallMappingsForCall e d st c) = call_invites c"
    "call_states (clearAllUserActiveCallMappingsForCall e d st c) = call_states c"
    "room_calls (clearAllUserActiveCallMappingsForCall e d st c) = room_calls c" for st c
    using tables_clearAll [of e d st c] by (simp_all add: call_tables_def)
  show "call_tables (calls (end_call e d st r us u s)) =
     ((call_invites (calls s))(k := None), (call_states (calls s))(k := None), (room_calls (calls s))(ci_Rid d := None))"
    using assms ck by (simp add: end_call_def Let_def tables_destroy cl)
  show "call_tables (calls (finalizeMediaCallSessionNoActive e d st u s)) =
     ((call_invites (calls s))(k := None), (call_states (calls s))(k := None), (room_calls (calls s))(ci_Rid d := None))" if "\<not> cs_Ended st"
    using assms ck that by (simp add: finalizeMediaCallSessionNoActive_def Let_def tables_destroy cl set_state_def)
      (simp add: rset_def)
qed

lemma uuid_ended [simp]:
  "uuid_next (finalizeMediaCallSessionNoActive e d st u s) = uuid_next s" "uuid_next (end_call e d st r us u s) = uuid_next s"
  by (simp_all add: finalizeMediaCallSessionNoActive_def end_call_def Let_def)

text \<open>A call that is there is either ended, and gone, or its state is replaced by a good one.\<close>

lemma ok_ended:
  assumes "tables_ok uuid s" and "call_invites (calls s) k = Some (d, None)"
    and "call_tables (calls s') = ((call_invites (calls s))(k := None), (call_states (calls s))(k := None), (room_calls (calls s))(ci_Rid d := None))"
    and "uuid_next s' = uuid_next s"
  shows "tables_ok uuid s'"
  using ok_drop [OF assms(1) [unfolded call_tables_def] assms(2)] by (simp add: assms(3,4))

lemma ok_replaced:
  assumes "tables_ok uuid s" and "call_invites (calls s) k = Some (d, None)" and "state_ok d st"
    and "call_tables (calls s') = (call_invites (calls s), (call_states (calls s))(k \<mapsto> (st, None)), room_calls (calls s))"
    and "uuid_next s' = uuid_next s"
  shows "tables_ok uuid s'"
  using ok_state [OF assms(1) [unfolded call_tables_def] assms(2,3)] by (simp add: assms(4,5))

lemma ok_set_state:
  assumes "tables_ok uuid s" and "call_invites (calls s) k = Some (d, None)" and "state_ok d st" and "redis_up e"
  shows "tables_ok uuid (on_calls (set_state e k st 0) s)"
  using ok_replaced [OF assms(1,2,3), of "on_calls (set_state e k st 0) s"] assms(4) by (simp add: tables_set_state)

lemma leave_keeps:
  assumes "uuids uuid" and "redis_up e" and "tables_ok uuid s"
  shows "tables_ok uuid (snd (leaveCallByUID e u0 k0 s))"
proof -
  let ?u = "TrimSpace u0" and ?k = "TrimSpace k0"
  show ?thesis
  proof (cases "get_invite e ?k (calls s)")
    case None
    with assms(3) show ?thesis by (simp add: leaveCallByUID_def Let_def)
  next
    case (Some d)
    from found_call [OF assms(3,1) Some assms(2)] obtain st where f: "call_invites (calls s) ?k = Some (d, None)" "invite_ok ?k d"
      "TrimSpace ?k = ?k" "?k \<noteq> []" "state_of e ?k d (calls s) = st" "state_ok d st" by metis
    let ?st = "st\<lparr>cs_ActiveUIDs := removeUid (cs_ActiveUIDs st) ?u\<rparr>"
    let ?s2 = "on_calls (clearUserActiveCallMapping e ?u) (on_calls (set_state e ?k ?st 0) s)"
    have "state_ok d ?st" using f(6) by (auto simp: state_ok_def removeUid_def)
    from ok_set_state [OF assms(3) f(1) this assms(2)] have 2: "tables_ok uuid ?s2" by simp
    have i2: "call_invites (calls ?s2) ?k = Some (d, None)"
      using f(1) by (simp add: clearUserActiveCallMapping_def set_state_def Let_def)
    from f(6) have "\<not> cs_Ended ?st" by (simp add: state_ok_def)
    from ok_ended [OF 2 i2 tables_ended(2) [OF assms(2) f(2,3,4) this]]
    have "tables_ok uuid (finalizeMediaCallSessionNoActive e d ?st ?u ?s2)" by simp
    with Some f 2 no_expiry [OF f(2)] assms(3) show ?thesis
      by (cases "removeUid (cs_ActiveUIDs st) ?u = []") (simp_all add: leaveCallByUID_def Let_def)
  qed
qed

lemma offline_keeps:
  "uuids uuid \<Longrightarrow> redis_up e \<Longrightarrow> tables_ok uuid s \<Longrightarrow> tables_ok uuid (OnUserMessageQuicOffline e u s)"
  by (simp add: OnUserMessageQuicOffline_def Let_def leave_keeps split: option.split)

lemma room_call_found:
  assumes "tables_ok uuid s" and "uuids uuid" and "get_room_call e rid (calls s) = Some k" and "redis_up e"
  obtains d where "get_invite e k (calls s) = Some d" "ci_Rid d = rid"
proof -
  from assms(3) obtain x where "room_calls (calls s) rid = Some (k, x)"
    by (auto simp: get_room_call_def rget_def split: if_splits option.splits)
  from ok_room [OF assms(1) [unfolded call_tables_def] this] obtain d where d: "call_invites (calls s) k = Some (d, None)" "ci_Rid d = rid"
    by metis
  from ok_invite [OF assms(1) [unfolded call_tables_def] d(1)] have "invite_ok k d" "k \<in> uuid ` {..<uuid_next s}" by metis+
  with d assms(2,4) have "get_invite e k (calls s) = Some d" by (auto simp: get_invite_def rget_def invite_ok_def uuids_def)
  with d that show thesis by blast
qed

lemma empty_keeps:
  assumes "uuids uuid" and "redis_up e" and "tables_ok uuid s"
  shows "tables_ok uuid (OnMediaRoomEmpty e rid0 u0 s)"
proof (cases "get_room_call e (TrimSpace rid0) (calls s)")
  case None
  with assms(3) show ?thesis by (simp add: OnMediaRoomEmpty_def Let_def)
next
  case (Some k)
  from room_call_found [OF assms(3,1) Some assms(2)] obtain d where d: "get_invite e k (calls s) = Some d" "ci_Rid d = TrimSpace rid0" .
  from found_call [OF assms(3,1) d(1) assms(2)] obtain st where f: "call_invites (calls s) k = Some (d, None)" "invite_ok k d"
    "TrimSpace k = k" "k \<noteq> []" "state_of e k d (calls s) = st" "state_ok d st" by metis
  have run: "\<not> cs_Ended st" "ci_CallID d = k" using f(2,6) by (simp_all add: state_ok_def invite_ok_def)
  have fin: "tables_ok uuid (finalizeMediaCallSessionNoActive e d t u s')"
    if "tables_ok uuid s'" "call_invites (calls s') k = Some (d, None)" "\<not> cs_Ended t" for t u s'
    using ok_ended [OF that(1,2) tables_ended(2) [OF assms(2) f(2,3,4) that(3)]] by simp
  obtain alive c where sa: "still_active e k (cs_ActiveUIDs st) (calls s) = (alive, c)" by fastforce
  let ?st = "st\<lparr>cs_ActiveUIDs := alive\<rparr>"
  let ?s1 = "on_calls (\<lambda>_. set_state e k ?st 0 c) s"
  have c: "call_invites c = call_invites (calls s)" "call_states c = call_states (calls s)" "room_calls c = room_calls (calls s)"
    using tables_still_active [of e k "cs_ActiveUIDs st" "calls s"] by (simp_all add: sa call_tables_def)
  have "set alive \<subseteq> TrimSpace ` set (cs_ActiveUIDs st)"
    using still_active_subset [of e k "cs_ActiveUIDs st" "calls s"] by (simp add: sa)
  then have "TrimSpace ` set alive \<subseteq> TrimSpace ` set (cs_ActiveUIDs st)" by fastforce
  then have "state_ok d ?st" using f(6) unfolding state_ok_def by force
  then have 1: "tables_ok uuid ?s1"
    by (rule ok_replaced [OF assms(3) f(1)]) (simp_all add: tables_set_state assms(2) c)
  have "call_invites (calls ?s1) k = Some (d, None)" using f(1) by (simp add: set_state_def c)
  from fin [OF 1 this, of ?st] fin [OF assms(3) f(1) run(1)] 1 d f run no_expiry [OF f(2)] assms(3) Some sa show ?thesis
    by (cases "alive = []") (simp_all add: OnMediaRoomEmpty_def Let_def)
qed

lemma wp_fst: "wp m Q E s = (case fst (m s) of Inl _ \<Rightarrow> E (snd (m s)) | Inr a \<Rightarrow> Q a (snd (m s)))"
  by (simp add: wp_def case_prod_beta)

lemma wp_const: "wp m (\<lambda>_. I) I s = I (snd (m s))"
  by (simp add: wp_fst split: sum.split)

abbreviation keeps_tables :: "(nat \<Rightarrow> string) \<Rightarrow> ('a call_store_scheme, 'e, 'r) act \<Rightarrow> bool" where
  "keeps_tables uuid m \<equiv> keeps (tables_ok uuid) m"

lemma tables_same:
  "(\<And>s. call_tables (calls (snd (m s))) = call_tables (calls s) \<and> uuid_next (snd (m s)) = uuid_next s) \<Longrightarrow> keeps_tables uuid m"
  by (simp add: keeps_def)

lemma tables_simple [keep]:
  "keeps_tables uuid (signed_in e user)" "keeps_tables uuid (named_call body)" "keeps_tables uuid (find_call e k)"
  "keeps_tables uuid (change (tell e msg))" "keeps_tables uuid (change (broadcastStreamCallMemberSync e k))"
  "keeps_tables uuid (GetRoomUserIdsCache re rid)"
  by (rule tables_same; simp add: signed_in_def named_call_def find_call_def andThen_def GetUser_def check_def succeed_def
    parsed_def change_def split: option.split)+

lemma tables_invitees [keep]: "keeps_tables uuid (call_invitees e u rid)"
  unfolding call_invitees_def Let_def by (rule keep)+

lemma tables_issue [keep]: "keeps_tables uuid (issueJoinSignData e u sid r role ttl)"
  by (auto simp: keeps_def issueJoinSignData_def andThen_def new_uuid_def Let_def call_tables_def intro: ok_more)

lemma tables_IssueJoinSign: "keeps_tables uuid (IssueJoinSign e user body)"
  unfolding IssueJoinSign_def Let_def by (rule keep)+

lemma tables_AcceptCallInvite: "keeps_tables uuid (AcceptCallInvite e user body)"
  unfolding AcceptCallInvite_def by (rule keep)+

lemma tables_LeaveCall:
  assumes "uuids uuid" and "redis_up e" shows "keeps_tables uuid (LeaveCall e user body)"
proof -
  have "tables_ok uuid s1" if "leaveCallByUID e u k s = (st, s1)" "tables_ok uuid s" for u k st and s s1 :: "'a call_store_scheme"
    using leave_keeps [OF assms that(2), of u k] that(1) by simp
  then show ?thesis
    unfolding LeaveCall_def by (intro keep) (auto simp: keeps_def split: prod.split)
qed

lemma tables_CurrentCall:
  assumes "uuids uuid" and "redis_up e" shows "keeps_tables uuid (CurrentCall e body)"
proof -
  have "tables_ok uuid (snd (current_of e rid s))" if ok: "tables_ok uuid s" for rid and s :: "'a call_store_scheme"
  proof (cases "get_room_call e rid (calls s)")
    case (Some k)
    from room_call_found [OF ok assms(1) Some assms(2)] obtain d where d: "get_invite e k (calls s) = Some d" by metis
    from found_call [OF ok assms(1) d assms(2)] obtain st where "invite_ok k d" "get_state e k (calls s) = Some st" "state_ok d st"
      by metis
    with Some d ok no_expiry show ?thesis by (simp add: current_of_def Let_def state_ok_def)
  qed (use ok in \<open>simp add: current_of_def\<close>)
  then have "keeps_tables uuid (current_of e rid :: ('a call_store_scheme, _, _) act)" for rid by (simp add: keeps_def)
  then show ?thesis unfolding CurrentCall_def by (intro keep)
qed

lemma tables_MarkCallMemberJoined:
  assumes "uuids uuid" and "redis_up e" shows "keeps_tables uuid (MarkCallMemberJoined e user body)"
proof (rule keepsI)
  fix s :: "'a call_store_scheme" assume ok: "tables_ok uuid s"
  have joined: "tables_ok uuid (on_calls (\<lambda>c. let st = state_of e k d c in setUserActiveCallMapping e u (ci_CallID d) (ci_ExpireAt d)
      (set_state e k (st\<lparr>cs_ActiveUIDs := appendUniqueUid (cs_ActiveUIDs st) u\<rparr>) (callStateTTL e (ci_ExpireAt d)) c)) s)"
    if d: "get_invite e k (calls s) = Some d" "allowCallMember d u" for k d u
  proof -
    from found_call [OF ok assms(1) d(1) assms(2)] obtain st where f: "call_invites (calls s) k = Some (d, None)" "invite_ok k d"
      "state_of e k d (calls s) = st" "state_ok d st" by metis
    have "state_ok d (st\<lparr>cs_ActiveUIDs := appendUniqueUid (cs_ActiveUIDs st) u\<rparr>)"
      using f(4) d(2) by (auto simp: state_ok_def appendUniqueUid_def allowCallMember_def)
    from ok_set_state [OF ok f(1) this assms(2)] f no_expiry show ?thesis by (simp add: Let_def)
  qed
  show "wp (MarkCallMemberJoined e user body) (\<lambda>_. tables_ok uuid) (tables_ok uuid) s"
    using ok joined by (auto simp: MarkCallMemberJoined_def wp_entry split: option.split)
qed

lemma length_subset: "distinct xs \<Longrightarrow> set xs \<subseteq> set ys \<Longrightarrow> length xs \<le> length ys"
  by (metis card_length card_mono distinct_card List.finite_set le_trans)

lemma tables_RejectCallInvite:
  assumes "uuids uuid" and "redis_up e" shows "keeps_tables uuid (RejectCallInvite e user body)"
proof (rule keepsI)
  fix s :: "'a call_store_scheme" assume ok: "tables_ok uuid s"
  have rejected: "tables_ok uuid (snd (reject_invited e u k d s))"
    if d: "get_invite e k (calls s) = Some d" "u \<in> set (ci_InviteeUIDs d)" for k d u
  proof -
    from found_call [OF ok assms(1) d(1) assms(2)] obtain st where f: "call_invites (calls s) k = Some (d, None)" "invite_ok k d"
      "TrimSpace k = k" "k \<noteq> []" "state_of e k d (calls s) = st" "state_ok d st" by metis
    let ?r = "appendUniqueUid (cs_RejectedUIDs st) u"
    let ?st = "\<lambda>b. st\<lparr>cs_RejectedUIDs := ?r, cs_Ended := b\<rparr>"
    let ?s1 = "\<lambda>b. on_calls (set_state e k (?st b) 0) s"
    have "state_ok d (?st False)" using f(6) d(2) by (auto simp: state_ok_def appendUniqueUid_def)
    from ok_set_state [OF ok f(1) this assms(2)] have on: "tables_ok uuid (?s1 False)" .
    have "tables_ok uuid (end_call e d (?st True) r us u (?s1 True))" for r us
      by (rule ok_ended [OF ok f(1)]) (simp_all add: tables_ended(1) [OF assms(2) f(2-4)] set_state_def assms(2) rset_def)
    with on f no_expiry [OF f(2)] show ?thesis
      by (cases "length (ci_InviteeUIDs d) \<le> length ?r") (simp_all add: reject_invited_def Let_def state_ok_def)
  qed
  show "wp (RejectCallInvite e user body) (\<lambda>_. tables_ok uuid) (tables_ok uuid) s"
    using ok rejected
    by (auto simp: RejectCallInvite_def wp_entry wp_const [of "reject_invited e u k d" for u k d] split: option.split)
qed

text \<open>The creator never rejects his call, so the branch where all members have hung up is not reached.\<close>

lemma not_all_hung_up:
  assumes "invite_ok k d" and "set xs \<subseteq> set (ci_InviteeUIDs d)" and "distinct xs"
  shows "length xs < length (call_members d)"
proof -
  have "set (call_members d) = insert (ci_InviterUID d) (set (ci_InviteeUIDs d))" "distinct (call_members d)"
    using assms(1) by (auto simp: call_members_def uniqueUids_def invite_ok_def)
  then have "length (call_members d) = Suc (card (set (ci_InviteeUIDs d)))"
    using assms(1) by (metis List.finite_set card_insert_disjoint distinct_card invite_ok_def)
  moreover have "length xs \<le> card (set (ci_InviteeUIDs d))"
    using assms(2,3) by (metis List.finite_set card_mono distinct_card)
  ultimately show ?thesis by simp
qed

lemma clear_invites: "call_invites (clearUserActiveCallMapping e u c) = call_invites c"
  by (simp add: clearUserActiveCallMapping_def Let_def)

lemma tables_HangupCall:
  assumes "uuids uuid" and "redis_up e" shows "keeps_tables uuid (HangupCall e user body)"
proof -
  have "tables_ok uuid (snd (hangup_named e u k s))" if ok: "tables_ok uuid s" for u k and s :: "'a call_store_scheme"
  proof (cases "get_invite e k (calls s)")
    case (Some d)
    from found_call [OF ok assms(1) Some assms(2)] obtain st where f: "call_invites (calls s) k = Some (d, None)" "invite_ok k d"
      "TrimSpace k = k" "k \<noteq> []" "state_of e k d (calls s) = st" "state_ok d st" by metis
    have all: "tables_ok uuid (hangup_for_all e u k d st s)"
      by (rule ok_ended [OF ok f(1)])
        (simp_all add: hangup_for_all_def Let_def no_expiry [OF f(2)] tables_ended(1) [OF assms(2) f(2-4)] set_state_def assms(2) rset_def)
    show ?thesis
    proof (cases "allowCallMember d u \<and> \<not> (ci_CallScene d = ''friend'' \<or> u = ci_InviterUID d)")
      case True
      then have u: "u \<in> set (ci_InviteeUIDs d)" by (auto simp: allowCallMember_def)
      let ?r = "appendUniqueUid (cs_RejectedUIDs st) u"
      have r: "set ?r \<subseteq> set (ci_InviteeUIDs d)" "distinct ?r"
        using f(6) u by (auto simp: state_ok_def appendUniqueUid_def)
      let ?st = "st\<lparr>cs_ActiveUIDs := removeUid (cs_ActiveUIDs st) u, cs_RejectedUIDs := ?r, cs_Ended := False\<rparr>"
      have "state_ok d ?st" using f(6) r by (auto simp: state_ok_def removeUid_def)
      then have "tables_ok uuid (on_calls (set_state e k ?st 0) (on_calls (clearUserActiveCallMapping e u) s))"
        by (intro ok_set_state [OF _ _ _ assms(2)]) (use ok f(1) in \<open>simp_all add: clear_invites\<close>)
      with True Some f not_all_hung_up [OF f(2) r] no_expiry [OF f(2)] show ?thesis
        by (simp add: hangup_named_def hangup_for_one_def Let_def state_ok_def)
    next
      case False
      with Some f all ok show ?thesis by (auto simp: hangup_named_def Let_def state_ok_def)
    qed
  qed (use ok in \<open>simp add: hangup_named_def\<close>)
  then have "keeps_tables uuid (hangup_named e u k :: ('a call_store_scheme, _, _) act)" for u k
    by (simp add: keeps_def)
  then show ?thesis unfolding HangupCall_def by (intro keep)
qed

lemma call_invitees_D:
  assumes "call_invitees e u rid s = (Inr (scene, vs), s1)" shows "u \<notin> set vs \<and> [] \<notin> set vs"
  using assms
  by (auto simp: call_invitees_def Let_def andThen_def orFail_def query_def check_def succeed_def refuse_def
    split: sum.splits prod.splits if_splits)

lemma wp_call_invitees:
  assumes "tables_ok uuid s" and "\<And>s1. tables_ok uuid s1 \<Longrightarrow> E s1"
    and "\<And>scene vs s1. tables_ok uuid s1 \<Longrightarrow> u \<notin> set vs \<Longrightarrow> [] \<notin> set vs \<Longrightarrow> Q (scene, vs) s1"
  shows "wp (call_invitees e u rid) Q E s"
proof -
  obtain r s1 where c: "call_invitees e u rid s = (r, s1)" by fastforce
  have "tables_ok uuid s1" using keepsD [OF tables_invitees assms(1), of e u rid] by (simp add: c)
  with assms(2,3) call_invitees_D [of e u rid s _ _ s1] c show ?thesis by (auto simp: wp_def split: sum.split)
qed

lemma wp_make_way:
  assumes "uuids uuid" and "redis_up e" and "tables_ok uuid s" and "\<And>s1. tables_ok uuid s1 \<Longrightarrow> E s1"
    and "\<And>s1. tables_ok uuid s1 \<Longrightarrow> room_calls (calls s1) rid = None \<Longrightarrow> Q () s1"
  shows "wp (make_way e u rid) Q E s"
proof (cases "get_room_call e rid (calls s)")
  case None
  have "room_calls (calls s) rid = None"
  proof (rule ccontr)
    assume "room_calls (calls s) rid \<noteq> None"
    then obtain k x where r: "room_calls (calls s) rid = Some (k, x)" by auto
    from ok_room [OF assms(3) [unfolded call_tables_def] r] have "x = None" by metis
    with None r assms(2) show False by (simp add: get_room_call_def rget_def)
  qed
  with None assms(3,5) show ?thesis by (simp add: make_way_def wp_def)
next
  case (Some k)
  from room_call_found [OF assms(3,1) Some assms(2)] obtain d where d: "get_invite e k (calls s) = Some d" "ci_Rid d = rid" .
  from found_call [OF assms(3,1) d(1) assms(2)] obtain st where f: "call_invites (calls s) k = Some (d, None)" "invite_ok k d"
    "TrimSpace k = k" "k \<noteq> []" "get_state e k (calls s) = Some st" "state_ok d st" by metis
  from f(5) assms(2) have g: "rget (cl_now e) (call_states (calls s)) k = Some st"
    by (auto simp: get_state_def split: option.splits if_splits)
  have run: "\<not> cs_Ended st" "cs_CallID st \<noteq> []" using f(2,4,6) by (simp_all add: state_ok_def invite_ok_def)
  let ?s1 = "finalizeMediaCallSessionNoActive e d st u s"
  note t = tables_ended(2) [OF assms(2) f(2-4) run(1), of u s]
  have "tables_ok uuid ?s1" by (rule ok_ended [OF assms(3) f(1) t]) simp
  moreover have "room_calls (calls ?s1) rid = None" using t d(2) by (simp add: call_tables_def)
  ultimately show ?thesis using Some f(3,4) d run g assms(2-5) by (simp add: make_way_def wp_def Let_def)
qed

lemma tables_new_call:
  assumes "uuids uuid" and "redis_up e" and "cl_uuid e = uuid" and "tables_ok uuid s" and "room_calls (calls s) (ci_Rid (d (uuid (uuid_next s)))) = None"
    and "invite_ok (uuid (uuid_next s)) (d (uuid (uuid_next s)))"
    and "\<And>k s1. tables_ok uuid s1 \<Longrightarrow> wp (f k) (\<lambda>_. tables_ok uuid) (tables_ok uuid) s1"
  shows "wp (new_uuid e) (\<lambda>k. wp (andThen (store_call e (d k)) (\<lambda>_. f k)) (\<lambda>_. tables_ok uuid) (tables_ok uuid)) (tables_ok uuid) s"
proof -
  let ?k = "uuid (uuid_next s)"
  let ?d = "d ?k"
  have k: "ci_CallID ?d = ?k" using assms(6) by (simp add: invite_ok_def)
  have st: "state_ok ?d (fresh_state ?d)" by (simp add: state_ok_def fresh_state_def)
  from ok_new [OF assms(4) [unfolded call_tables_def] _ assms(5,6) st] assms(1)
  have new: "calls_ok uuid (Suc (uuid_next s)) ((call_invites (calls s))(?k \<mapsto> (?d, None)),
      (call_states (calls s))(?k \<mapsto> (fresh_state ?d, None)), (room_calls (calls s))(ci_Rid ?d \<mapsto> (?k, None)))" by (simp add: uuids_def)
  let ?s = "snd (store_call e ?d (s\<lparr>uuid_next := Suc (uuid_next s)\<rparr>))"
  have "call_tables (calls ?s) = ((call_invites (calls s))(?k \<mapsto> (?d, None)),
      (call_states (calls s))(?k \<mapsto> (fresh_state ?d, None)), (room_calls (calls s))(ci_Rid ?d \<mapsto> (?k, None)))"
    "uuid_next ?s = Suc (uuid_next s)" "fst (store_call e ?d (s\<lparr>uuid_next := Suc (uuid_next s)\<rparr>)) = Inr ()"
    using assms(2) by (simp_all add: store_call_def set_state_def rset_def call_tables_def k Let_def)
  with new assms(7) [of ?s ?k] show ?thesis
    by (simp add: wp_def [of "new_uuid e"] new_uuid_def assms(3) wp_fst [of "store_call e ?d"])
qed

lemma tables_CreateCallInvite:
  assumes "uuids uuid" and "redis_up e" and "cl_uuid e = uuid" and "\<And>u. user = Some u \<Longrightarrow> hu_Uid u \<noteq> []"
  shows "keeps_tables uuid (CreateCallInvite e user body)"
  unfolding CreateCallInvite_def Let_def
  apply (rule keeps_signed_in, rule keeps_parsed)
  apply (rule keepsI)
  apply (rule wp_andThenI wp_checkI wp_prodI wp_call_invitees wp_make_way [OF assms(1,2)] tables_new_call [OF assms(1-3)] | assumption)+
       apply simp
      apply (simp add: invite_ok_def assms(4))
     apply (rule keeps_wp | (rule keep tables_simple(4)) | assumption | simp)+
  done

section \<open>One call per room\<close>

text \<open>What is asked of an event: Redis works, the identifiers are those of the run, users have names.\<close>

fun undisturbed :: "(nat \<Rightarrow> string) \<Rightarrow> media_event \<Rightarrow> bool" where
  "undisturbed uuid (EvRequest e u q) \<longleftrightarrow> redis_up e \<and> (case u of None \<Rightarrow> True | Some v \<Rightarrow> hu_Uid v \<noteq> [])"
| "undisturbed uuid (EvOffline e uid) \<longleftrightarrow> redis_up e"
| "undisturbed uuid (EvDismiss e c) \<longleftrightarrow> redis_up e"
| "undisturbed uuid ev \<longleftrightarrow> True"

definition quiet_step :: "(nat \<Rightarrow> string) \<Rightarrow> media_event \<Rightarrow> 'a call_store_scheme \<times> media_server
    \<Rightarrow> 'a call_store_scheme \<times> media_server \<Rightarrow> bool" where
  "quiet_step uuid ev w w' \<longleftrightarrow> uuids uuid \<and> undisturbed uuid ev \<and> media_step uuid ev w w'"

lemma tables_exec:
  assumes "uuids uuid" and "undisturbed uuid (EvRequest e u q)" and "cl_uuid e = uuid" and "tables_ok uuid s"
  shows "tables_ok uuid (call_exec1 e u q s)"
proof -
  have up: "redis_up e" and named: "\<And>v. u = Some v \<Longrightarrow> hu_Uid v \<noteq> []" using assms(2) by simp_all
  show ?thesis
    using assms(4) by (cases q) (simp_all add: keepsD [OF tables_IssueJoinSign] keepsD [OF tables_AcceptCallInvite]
      keepsD [OF tables_CreateCallInvite [OF assms(1) up assms(3) named]] keepsD [OF tables_MarkCallMemberJoined [OF assms(1) up]]
      keepsD [OF tables_LeaveCall [OF assms(1) up]] keepsD [OF tables_RejectCallInvite [OF assms(1) up]]
      keepsD [OF tables_HangupCall [OF assms(1) up]] keepsD [OF tables_CurrentCall [OF assms(1) up]])
qed

lemma consume_tables:
  assumes "consumeAndVerifyJoinSign e req s = (r, s1)"
  shows "call_tables (calls s1) = call_tables (calls s) \<and> uuid_next s1 = uuid_next s"
  using consume_result [OF assms, of undefined] by (auto simp: call_tables_def)

lemma tables_step:
  assumes "quiet_step uuid ev w w'" and "tables_ok uuid (fst w)" shows "tables_ok uuid (fst w')"
proof -
  from assms(1) have u: "uuids uuid" and q: "undisturbed uuid ev" and st: "media_step uuid ev w w'" by (simp_all add: quiet_step_def)
  from st show ?thesis
  proof cases
    case (requested e v r s m)
    with q assms(2) show ?thesis by (simp add: tables_exec [OF u])
  next
    case (offline e uid s m)
    with q assms(2) show ?thesis by (simp add: offline_keeps [OF u])
  next
    case (admitted m k e x s)
    obtain r s1 m1 where a: "admit e x k (s, m) = (r, s1, m1)" by (metis prod_cases3)
    with admit_cases(1) [OF a] admitted assms(2) show ?thesis by (auto dest: consume_tables)
  next
    case (dismissed e c s m)
    with q assms(2) show ?thesis
      by (auto simp: dismiss_def Let_def intro!: empty_keeps [OF u] offline_keeps [OF u] split: prod.splits)
  next
    case (elsewhere s' s m)
    with assms(2) show ?thesis by (auto intro: ok_more)
  qed (use assms(2) in auto)
qed

interpretation call_tables: safe_steps "quiet_step uuid" "\<lambda>w. tables_ok uuid (fst w)" for uuid
  by unfold_locales (rule tables_step)

text \<open>
  C9. A room has at most one call, and its three keys agree. In any run that begins without
  calls, while Redis works: every invitation stands under its own identifier and is the call its
  room points to, so two live calls are in different rooms; its state is there, is not over,
  and counts as active only people the call was for and as rejected only people it invited; and a room
  points to nothing but a live call of its own.
\<close>

theorem one_call_per_room:
  assumes "run_of (quiet_step uuid) (s, m) tr (s', m')" and "calls s = no_calls"
  shows "(\<forall>k d x. call_invites (calls s') k = Some (d, x) \<longrightarrow>
      ci_CallID d = k \<and> room_calls (calls s') (ci_Rid d) = Some (k, None) \<and>
      (\<exists>st. call_states (calls s') k = Some (st, None) \<and> \<not> cs_Ended st \<and>
         (\<forall>u \<in> set (cs_ActiveUIDs st). \<exists>v. allowCallMember d v \<and> TrimSpace u = TrimSpace v) \<and>
         set (cs_RejectedUIDs st) \<subseteq> set (ci_InviteeUIDs d))) \<and>
    (\<forall>rid k x. room_calls (calls s') rid = Some (k, x) \<longrightarrow>
      (\<exists>d. call_invites (calls s') k = Some (d, None) \<and> ci_Rid d = rid))"
proof -
  have "tables_ok uuid s" using assms(2) by (simp add: no_calls_def call_tables_def calls_ok_def)
  with call_tables.run_kept [OF assms(1)]
  have ok: "calls_ok uuid (uuid_next s') (call_invites (calls s'), call_states (calls s'), room_calls (calls s'))"
    by (simp add: call_tables_def)
  have active: "\<exists>v. allowCallMember d v \<and> TrimSpace u = TrimSpace v" if "state_ok d st" "u \<in> set (cs_ActiveUIDs st)" for d st u
  proof -
    have "TrimSpace u \<in> TrimSpace ` insert (ci_InviterUID d) (set (ci_InviteeUIDs d))" using that by (auto simp: state_ok_def)
    then show ?thesis by (auto simp: allowCallMember_def)
  qed
  show ?thesis
  proof (intro conjI allI impI)
    fix k d x assume "call_invites (calls s') k = Some (d, x)"
    from ok_invite [OF ok this] obtain st where *: "invite_ok k d" "room_calls (calls s') (ci_Rid d) = Some (k, None)"
      "call_states (calls s') k = Some (st, None)" "state_ok d st" by metis
    then show "ci_CallID d = k" "room_calls (calls s') (ci_Rid d) = Some (k, None)" by (simp_all add: invite_ok_def)
    from * active show "\<exists>st. call_states (calls s') k = Some (st, None) \<and> \<not> cs_Ended st \<and>
         (\<forall>u \<in> set (cs_ActiveUIDs st). \<exists>v. allowCallMember d v \<and> TrimSpace u = TrimSpace v) \<and>
         set (cs_RejectedUIDs st) \<subseteq> set (ci_InviteeUIDs d)" by (auto simp: state_ok_def)
  next
    fix rid k x assume "room_calls (calls s') rid = Some (k, x)"
    from ok_room [OF ok this] show "\<exists>d. call_invites (calls s') k = Some (d, None) \<and> ci_Rid d = rid" by metis
  qed
qed

section \<open>A call that ends\<close>

lemma effects_fields [simp]:
  "effects (on_calls f s) = effects s" "effects (saveMediaCallRecord e d r u s) = effects s"
  by (simp_all add: on_calls_def saveMediaCallRecord_def)

lemma cleared_fold:
  assumes "redis_up e" and "v \<in> set us" and "TrimSpace v \<noteq> []"
  shows "user_calls (fold (clearUserActiveCallMapping e) us c) (TrimSpace v) = None"
proof -
  have stays: "user_calls (fold (clearUserActiveCallMapping e) us c) w = None" if "user_calls c w = None" for us c w
    using that by (induction us arbitrary: c) (simp_all add: clearUserActiveCallMapping_def Let_def assms(1))
  from assms(2) show ?thesis
  proof (induction us arbitrary: c)
    case (Cons u us)
    show ?case
    proof (cases "u = v")
      case True
      have "user_calls (clearUserActiveCallMapping e v c) (TrimSpace v) = None"
        using assms(1,3) by (simp add: clearUserActiveCallMapping_def Let_def)
      with True show ?thesis by (simp add: stays)
    qed (use Cons in simp)
  qed simp
qed

lemma destroy_user_calls [simp]: "user_calls (destroyMediaCallSessionKeys e k rid c) = user_calls c"
  by (simp add: destroyMediaCallSessionKeys_def del_room_call_def Let_def)

text \<open>
  C40. Hanging up ends a call for good: when a friend, or the creator of a call in a room, hangs up a live
  call, its invitation, its state and the pointer of the room are gone, none of its members is
  bound to a call any more, every member is told, one record of it is kept, and from
  then on nobody can accept it or join it.
\<close>

theorem hanging_up_ends_the_call:
  assumes "uuids uuid" and "redis_up e" and "\<not> cl_fails e InsertRecord" and "\<not> ae_fails (cl_admin e) PushNotify"
    and "tables_ok uuid s" and "call_invites (calls s) k = Some (d, None)" and "k \<notin> mc_CallID ` set (call_records s)"
    and "allowCallMember d (hu_Uid u)" and "ci_CallScene d = ''friend'' \<or> hu_Uid u = ci_InviterUID d"
    and "HangupCall e (Some u) (Some k) s = (r, s1)"
  shows "r = Inr True \<and> call_invites (calls s1) k = None \<and> call_states (calls s1) k = None \<and>
    room_calls (calls s1) (ci_Rid d) = None \<and>
    (\<forall>v \<in> set (call_members d). TrimSpace v \<noteq> [] \<longrightarrow> user_calls (calls s1) (TrimSpace v) = None) \<and>
    Pushed (StreamCallEndNotify k (call_members d)) \<in> set (effects s1) \<and>
    map mc_CallID (call_records s1) = map mc_CallID (call_records s) @ [k] \<and>
    (\<forall>e2 u2. (\<exists>err. fst (AcceptCallInvite e2 u2 (Some k) s1) = Inl err) \<and> (\<exists>err. fst (MarkCallMemberJoined e2 u2 (Some k) s1) = Inl err))"
proof -
  from ok_invite [OF assms(5) [unfolded call_tables_def] assms(6)] have i: "invite_ok k d" by metis
  have g: "get_invite e k (calls s) = Some d"
  proof -
    from ok_invite [OF assms(5) [unfolded call_tables_def] assms(6)] have "k \<in> uuid ` {..<uuid_next s}" by metis
    with i assms(1,2,6) show ?thesis by (auto simp: get_invite_def rget_def invite_ok_def uuids_def)
  qed
  from found_call [OF assms(5,1) g assms(2)] obtain st where f: "TrimSpace k = k" "k \<noteq> []" "state_of e k d (calls s) = st" "state_ok d st"
    by metis
  have k: "ci_CallID d = k" using i by (simp add: invite_ok_def)
  have h: "r = Inr True" "s1 = hangup_for_all e (hu_Uid u) k d st s"
    using assms(8-10) g f by (auto simp: HangupCall_def named_call_def andThen_def GetUser_def parsed_def check_def succeed_def
      hangup_named_def Let_def state_ok_def)
  have t: "call_tables (calls s1) = ((call_invites (calls s))(k := None), (call_states (calls s))(k := None), (room_calls (calls s))(ci_Rid d := None))"
    using assms(2)
    by (simp add: h(2) hangup_for_all_def Let_def set_state_def rset_def tables_ended(1) [OF assms(2) i f(1,2)] no_expiry [OF i])
  have gone: "get_invite e2 k (calls s1) = None" for e2 using t by (simp add: get_invite_def rget_def call_tables_def)
  have "fst (AcceptCallInvite e2 u2 (Some k) s1) \<noteq> Inr x" "fst (MarkCallMemberJoined e2 u2 (Some k) s1) \<noteq> Inr x" for e2 u2 x
    using gone by (auto simp: AcceptCallInvite_def MarkCallMemberJoined_def signed_in_def named_call_def find_call_def andThen_def GetUser_def
      parsed_def check_def succeed_def split: option.splits if_splits)
  then have refused: "(\<exists>err. fst (AcceptCallInvite e2 u2 (Some k) s1) = Inl err) \<and> (\<exists>err. fst (MarkCallMemberJoined e2 u2 (Some k) s1) = Inl err)"
    for e2 u2 by (metis sum.exhaust)
  have "call_members d = uniqueUids (ci_InviterUID d # ci_InviteeUIDs d)" by (simp add: call_members_def)
  then have members: "set (call_members d) \<subseteq> set (uniqueUids (ci_InviterUID d # ci_InviteeUIDs d @ us))" for us by (auto simp: uniqueUids_def)
  have users: "user_calls (calls s1) (TrimSpace v) = None" if v: "v \<in> set (call_members d)" "TrimSpace v \<noteq> []" for v
    unfolding h(2) hangup_for_all_def end_call_def Let_def clearAllUserActiveCallMappingsForCall_def
    by (simp only: on_calls_fields save_fields tell_fields sync_fields destroy_user_calls)
      (rule cleared_fold [OF assms(2) subsetD [OF members v(1)] v(2)])
  have told: "Pushed (StreamCallEndNotify k (call_members d)) \<in> set (effects s1)"
    using assms(4) by (simp add: h(2) hangup_for_all_def end_call_def Let_def k tell_def emit_def)
  have kept: "map mc_CallID (call_records s1) = map mc_CallID (call_records s) @ [k]"
    using assms(3,7) by (simp add: h(2) hangup_for_all_def end_call_def Let_def k saveMediaCallRecord_def)
  from t h(1) users told kept refused show ?thesis by (simp add: call_tables_def)
qed

section \<open>A call in a room\<close>

text \<open>The group room \<open>x\<close>, of \<open>o\<close> and \<open>a\<close>: \<open>a\<close> opens a call, and \<open>o\<close> joins it.\<close>

definition demo_group :: room where
  "demo_group = \<lparr>r_Id = 1, r_Rid = ''x'', r_Name = ''name'', r_Description = [], r_CreateUid = ''o'', r_State = 1, r_Type = 1,
     r_MemberCount = 2, r_Password = [], r_AllowNonFriendChat = True, r_FromRoomRid = [], r_AvatarUfId = [], r_CategoryId = [],
     r_JoinApprovalRequired = False, r_JoinQuestionEnabled = False, r_JoinQuestion = [], r_JoinQuestionAutoApprove = False,
     r_JoinQuestionAnswer = [], r_CreateTime = 1, r_DeleteTime = 0\<rparr>"

definition demo_room_calls :: call_store where
  "demo_room_calls = admin_store.extend (demo_empty\<lparr>rooms := [demo_group], room_ids_cache := [''x'' \<mapsto> [''o'', ''a'']]\<rparr>)
     (call_store.fields no_calls [] 0)"

definition demo_open :: call_request where
  "demo_open = ReqOpen (Some \<lparr>cb_Rid = ''x'', cb_CallType = ''audio'', cb_TTL = 30,
     cb_Media = \<lparr>pb_Width = 640, pb_Height = 480, pb_Fps = 30, pb_Bitrate = 500000\<rparr>\<rparr>)"

definition demo_opened :: call_store where
  "demo_opened = call_exec1 (demo_call_env 4000) (demo_person ''a'') demo_open demo_room_calls"

definition demo_joined :: call_store where
  "demo_joined = call_exec1 (demo_call_env 5000) (demo_person ''o'') (ReqJoined (Some ''u'')) demo_opened"

lemma demo_call_uuids: "uuids demo_uuid"
proof -
  have "TrimSpace (demo_uuid n) = demo_uuid n" for n
    by (rule TrimSpace_none) (auto simp: demo_uuid_def is_space_def Let_def)
  moreover have "inj demo_uuid" by (rule injI) (metis demo_uuid_def length_replicate list.inject)
  ultimately show ?thesis by (simp add: uuids_def demo_uuid_def)
qed

lemma demo_call_run:
  "run_of (quiet_step demo_uuid) (demo_room_calls, m)
     [EvRequest (demo_call_env 4000) (demo_person ''a'') demo_open, EvRequest (demo_call_env 5000) (demo_person ''o'') (ReqJoined (Some ''u''))]
     (demo_joined, m)"
proof -
  note u = demo_call_uuids
  have "quiet_step demo_uuid (EvRequest (demo_call_env 4000) (demo_person ''a'') demo_open) (demo_room_calls, m) (demo_opened, m)"
    unfolding quiet_step_def demo_opened_def
    by (intro conjI u requested) (simp_all add: demo_call_env_def redis_up_def demo_person_def)
  then have 1: "run_of (quiet_step demo_uuid) (demo_room_calls, m) [EvRequest (demo_call_env 4000) (demo_person ''a'') demo_open] (demo_opened, m)"
    by (rule run_onward [OF run_of.start]) simp
  have "quiet_step demo_uuid (EvRequest (demo_call_env 5000) (demo_person ''o'') (ReqJoined (Some ''u''))) (demo_opened, m) (demo_joined, m)"
    unfolding quiet_step_def demo_joined_def
    by (intro conjI u requested) (simp_all add: demo_call_env_def redis_up_def demo_person_def)
  then show ?thesis by (rule run_onward [OF 1]) simp
qed

lemma demo_call_tables:
  "map_option (\<lambda>(d, x). (ci_InviterUID d, ci_InviteeUIDs d, ci_Rid d)) (call_invites (calls demo_joined) ''u'') = Some (''a'', [''o''], ''x'')"
  "map_option (\<lambda>(st, x). cs_ActiveUIDs st) (call_states (calls demo_joined) ''u'') = Some [''o'']"
  "call_records demo_joined = []"
  by code_simp+

lemma demo_room_none: "calls demo_room_calls = no_calls"
  by (simp add: demo_room_calls_def call_store.defs admin_store.defs)

theorem one_call_per_room_witness:
  "\<exists>d x. call_invites (calls demo_joined) ''u'' = Some (d, x) \<and> room_calls (calls demo_joined) (ci_Rid d) = Some (''u'', None) \<and>
     ci_Rid d = ''x'' \<and> map_option (\<lambda>(st, x). cs_ActiveUIDs st) (call_states (calls demo_joined) ''u'') = Some [''o'']"
proof -
  from demo_call_tables(1) obtain d x where d: "call_invites (calls demo_joined) ''u'' = Some (d, x)" "ci_Rid d = ''x''" by auto
  from one_call_per_room [OF demo_call_run demo_room_none] d(1)
  have "room_calls (calls demo_joined) (ci_Rid d) = Some (''u'', None)" by blast
  with d demo_call_tables(2) show ?thesis by blast
qed

lemma demo_tables_ok: "tables_ok demo_uuid demo_joined"
proof -
  have "tables_ok demo_uuid demo_room_calls" by (simp add: demo_room_none no_calls_def call_tables_def calls_ok_def)
  with call_tables.run_kept [OF demo_call_run] show ?thesis by simp
qed

theorem hanging_up_ends_the_call_witness:
  "\<exists>r s1. HangupCall (demo_call_env 9000) (demo_person ''a'') (Some ''u'') demo_joined = (r, s1) \<and> r = Inr True \<and>
     call_invites (calls s1) ''u'' = None \<and> room_calls (calls s1) ''x'' = None \<and> user_calls (calls s1) ''o'' = None \<and>
     map mc_CallID (call_records s1) = [''u'']"
proof -
  from demo_call_tables(1) obtain d x where d: "call_invites (calls demo_joined) ''u'' = Some (d, x)" "ci_Rid d = ''x''"
    "ci_InviterUID d = ''a''" "ci_InviteeUIDs d = [''o'']" by auto
  from ok_invite [OF demo_tables_ok [unfolded call_tables_def] d(1)] have "x = None" by metis
  with d have i: "call_invites (calls demo_joined) ''u'' = Some (d, None)" by simp
  obtain r s1 where h: "HangupCall (demo_call_env 9000) (Some \<lparr>hu_Uid = ''a'', hu_Nickname = ''nick''\<rparr>) (Some ''u'') demo_joined = (r, s1)"
    by fastforce
  have "uuids demo_uuid" using demo_call_uuids .
  moreover have "redis_up (demo_call_env 9000)" "\<not> cl_fails (demo_call_env 9000) InsertRecord"
    "\<not> ae_fails (cl_admin (demo_call_env 9000)) PushNotify"
    by (simp_all add: redis_up_def demo_call_env_def demo_admin_env_def)
  moreover have "''u'' \<notin> mc_CallID ` set (call_records demo_joined)" by (simp add: demo_call_tables(3))
  moreover have "allowCallMember d (hu_Uid \<lparr>hu_Uid = ''a'', hu_Nickname = ''nick''\<rparr>)"
    "ci_CallScene d = ''friend'' \<or> hu_Uid \<lparr>hu_Uid = ''a'', hu_Nickname = ''nick''\<rparr> = ci_InviterUID d" using d by (simp_all add: allowCallMember_def)
  moreover have "''o'' \<in> set (call_members d)" "TrimSpace ''o'' = ''o''" using d by (simp_all add: call_members_def uniqueUids_def) code_simp
  ultimately show ?thesis
    using hanging_up_ends_the_call [of demo_uuid _ demo_joined, OF _ _ _ _ demo_tables_ok i _ _ _ h] d h
    by (intro exI [of _ r] exI [of _ s1]) (auto simp: demo_person_def demo_call_tables(3))
qed

section \<open>What goes wrong\<close>

text \<open>A permit is given to anybody: neither the handler nor the media server asks whether the user is
  in the room, or whether there is a call.\<close>

theorem outsiders_get_permits:
  assumes "cl_sid e \<noteq> []" and "\<not> cl_fails e SetSign"
  shows "\<exists>out. fst (IssueJoinSign e (Some u) (Some \<lparr>jb_Rid = ''x'', jb_Role = ''subscriber'', jb_TTL = 60\<rparr>) s) = Inr out"
proof -
  have t: "TrimSpace ''x'' = ''x''" "TrimSpace ''subscriber'' = ''subscriber''" "ttl_nanos 60 = 60000000000" by code_simp+
  show ?thesis
    using assms by (simp add: IssueJoinSign_def signed_in_def andThen_def GetUser_def check_def succeed_def parsed_def Let_def t
      orFail_def issueJoinSignData_def new_uuid_def)
qed

text \<open>A user who is not in a group room opens a call there, and all of its members are rung.\<close>

theorem outsiders_ring_the_room:
  "map_option (\<lambda>(d, x). (ci_InviterUID d, ci_InviteeUIDs d))
     (call_invites (calls (call_exec1 (demo_call_env 4000) (demo_person ''stranger'') demo_open demo_room_calls)) ''u'') =
   Some (''stranger'', [''o'', ''a''])"
  by code_simp

text \<open>To leave a call that is gone unbinds the user from the call he is in, and nothing will end his part
  in it when he goes offline.\<close>

theorem leaving_a_stale_call_unbinds:
  assumes "redis_up e" and "TrimSpace uid = uid" and "uid \<noteq> []" and "TrimSpace k \<noteq> []"
    and "get_invite e (TrimSpace k) (calls s) = None" and "snd (leaveCallByUID e uid k s) = s1"
  shows "user_calls (calls s1) uid = None \<and> OnUserMessageQuicOffline e uid s1 = s1"
proof -
  have "user_calls (calls s1) uid = None"
    using assms by (auto simp: leaveCallByUID_def Let_def clearUserActiveCallMapping_def)
  then show ?thesis using assms(2) by (simp add: OnUserMessageQuicOffline_def Let_def get_user_call_def rget_def)
qed

text \<open>A connection leaves the hub by its user: when the user has reconnected, the end of his old
  connection throws out the new one.\<close>

theorem old_connection_throws_out_the_new:
  assumes "media_rooms m (md_Rid old) = Some h" and "relay_ok m" and "(md_Uid old, new) \<in> set (hubs m h)"
  shows "md_Uid old \<notin> fst ` set (hubs (snd (removeClient old m)) h)"
  using assms(1) by (auto simp: removeClient_def leave_hub_def Let_def delete_room_def AList.delete_eq split: if_splits)

text \<open>
  The last connection of a room leaves the hub and finds it empty; before it deletes the room,
  another enters the hub it still points to. The newcomer sits in a hub no room points to:
  the next to come is alone in a new one, and the two never hear each other.
\<close>

theorem newcomer_in_an_orphan_hub:
  "let m0 = addClient demo_caller (NewServer demo_streams);
       (h, m1) = getOrCreateRoom ''x'' m0;
       (none_left, m2) = leave_hub h demo_caller m1;
       m3 = enter_hub h demo_listener m2;
       m4 = delete_room ''x'' m3;
       m5 = addClient demo_caller m4
   in none_left \<and> (''b'', demo_listener) \<in> set (hubs m5 h) \<and> media_rooms m5 ''x'' = Some 1 \<and> hubs m5 1 = [(''a'', demo_caller)] \<and> h = 0"
  by code_simp

text \<open>Joining does not count against rejecting: when the last of the invited rejects, the call ends under
  those who talk, himself included, and only its creator is told.\<close>

theorem rejecting_ends_a_call_under_way:
  "let s1 = call_exec1 (demo_call_env 6000) (demo_person ''o'') (ReqReject (Some ''u'')) demo_joined in
   call_invites (calls s1) ''u'' = None \<and> map mc_EndReason (call_records s1) = [''all_rejected''] \<and>
   last (effects s1) = Pushed (StreamCallEndNotify ''u'' [''a''])"
  by code_simp

end
