(* ===== verification/Spec2Isabelle.thy ===== *)
theory Spec2Isabelle
  imports Prelude Wire EventBus Heartbeat UserStatus Tokens Paging Messages Registry Connections
    Rooms RoomMute Sessions MsgStream ChatMessages Fanout AckQueue
    Handlers RoomAdmin RoomEntry RoomMuting RoomNotices
    Roster RoomSafety RoomAccess RoomProgress RoomColumns RoomTroubles
    Friends FriendDesk Traces FriendSafety FriendTables FriendChats
    Paths Files Downloads Uploads Reassembly
    Calls MediaRelay CallSafety CallRules
begin

text \<open>
  A chat server in Go. Clients hold one QUIC connection to one of several nodes; HTTP
  handlers change users, rooms and sessions; a queue process checks that messages were
  received. The database holds what lasts, Redis what the nodes share, and the nodes tell
  each other of messages by Redis publish and subscribe. This development follows the Go
  code function by function and keeps its names.

  \<^bold>\<open>The transport\<close> (\<open>src/pkg/protocol\<close>, \<open>src/quic\<close>)

  \<^item> \<open>Wire\<close>: \<open>protocol/stream.go\<close>, \<open>handler/handler.go\<close>, \<open>four-yte_protocol.go\<close>. The stream
    type header with its acknowledgement, and the frames (length, nonce, ciphertext) with
    the read loop. A stream is the bytes to come, the bytes written and the room left.
    Round trips, independence of the chunks, isolation of a bad frame.
  \<^item> \<open>MsgStream\<close>: \<open>handler/message_handler.go\<close>, the part that opens packets: versions,
    tokens, the notice of expiry, and which handler a message starts.
  \<^item> \<open>Registry\<close>, \<open>Connections\<close>: \<open>server/client_registry.go\<close>, \<open>server/server.go\<close>. The map of live
    clients, and connect, heartbeat, timeout, close and shutdown as steps on the store that
    \<open>UserStatus\<close> and \<open>Messages\<close> define; what a client has missed is sent on connect.
    Takeover by a later connection, the invariant that binds registry and open connections,
    and the interleaving of two connects that breaks it.
  \<^item> \<open>Heartbeat\<close>: \<open>heartbeat/manager.go\<close>. A map and a binary heap share entries, so the
    entries live in a store of cells; the sift loops of \<open>container/heap\<close> are modelled. The
    manager refines a table of times; a sweep reports the overdue clients, oldest first.
  \<^item> \<open>EventBus\<close>: \<open>event/bus.go\<close>, typed topics.

  \<^bold>\<open>Users\<close> (\<open>src/jwt\<close>, \<open>src/db/query\<close>, \<open>src/http\<close>)

  \<^item> \<open>Tokens\<close>: \<open>jwt/jwt.go\<close>, \<open>handler/auth/auth.go\<close> (login and refresh), \<open>token_issue.go\<close>,
    \<open>middleware/auth.go\<close>, \<open>quic/auth/authenticator.go\<close>. One store of rows and of refresh
    identifiers; refreshes are also cut into steps, to let them overlap.
  \<^item> \<open>UserStatus\<close>: \<open>user_session.go\<close>. Sessions, current status as a row and as a Redis copy, and
    what of the two agrees after any operations.
  \<^item> \<open>Paging\<close>, \<open>Sessions\<close>: \<open>room_session.go\<close>, \<open>handler/session/session.go\<close>. The session list with
    its cursor, last messages, read positions and pins.

  \<^bold>\<open>Messages\<close> (\<open>src/db/query\<close>, \<open>src/quic/handler\<close>, \<open>src/notifycoord\<close>, \<open>src/push\<close>, \<open>src/queue\<close>)

  \<^item> \<open>Messages\<close>: \<open>room_message.go\<close>, \<open>room_message_mention.go\<close>, \<open>room_block.go\<close>,
    \<open>room_user_block_user.go\<close>, sequence numbers of \<open>room.go\<close>.
  \<^item> \<open>ChatMessages\<close>: the handlers of \<open>message_handler.go\<close>: send, confirm, update a file,
    withdraw. A send is a check and a transaction with other handlers between the two.
  \<^item> \<open>Fanout\<close>: \<open>notifycoord\<close>, \<open>push\<close>, \<open>notify/dispatch.go\<close>, \<open>server/event.go\<close>. Recipients, presence,
    channels of the nodes, delivery to the connections.
  \<^item> \<open>AckQueue\<close>: \<open>queue/handlers.go\<close>, \<open>tasks.go\<close>. Checks and resends as a step relation of workers.

  \<^bold>\<open>Rooms\<close> (\<open>src/db/query\<close>, \<open>src/http/handler/room\<close>)

  \<^item> \<open>Rooms\<close>, \<open>RoomMute\<close>: \<open>room.go\<close>, \<open>room_owner.go\<close>, \<open>room_user_*.go\<close>, \<open>room_mute.go\<close>: rooms, members
    with the cached member list, and who may speak when.
  \<^item> \<open>Handlers\<close>: what every HTTP handler shares (\<open>handler/helper.go\<close>, \<open>response.go\<close>, \<open>guard.go\<close>,
    \<open>roommsg.go\<close>, \<open>message_notification.go\<close>): a handler is a function on the store that ends
    with a reply or goes on with a value, \<open>('s, 'e, 'a) act\<close>; \<open>transaction\<close> undoes a part.
  \<^item> \<open>RoomAdmin\<close>, \<open>RoomEntry\<close>, \<open>RoomMuting\<close>, \<open>RoomNotices\<close>: the handlers of \<open>room.go\<close>,
    \<open>join_request.go\<close>, \<open>invite.go\<close>, \<open>room_message.go\<close>, \<open>room_pinned_message.go\<close> with their queries.
  \<^item> \<open>Roster\<close>: the requests as a datatype and one step each, in the order a server carries them
    out; \<open>RoomSafety\<close>: one owner, a right count and a truthful cache after any requests;
    \<open>RoomAccess\<close>: who can become a member, and how; \<open>RoomProgress\<close>: an accepted request
    admits; \<open>RoomColumns\<close>: the values the columns can hold; \<open>RoomTroubles\<close>: what goes wrong.

  \<^bold>\<open>Friends\<close> (\<open>src/db/query\<close>, \<open>src/http/handler/user\<close>)

  \<^item> \<open>Friends\<close>, \<open>FriendDesk\<close>: \<open>friend_request.go\<close>, \<open>friend_remark.go\<close>, \<open>friend_group.go\<close>, \<open>friend_chat.go\<close>
    and the handlers of \<open>friend_request.go\<close>, \<open>friend_remark.go\<close>, \<open>chat.go\<close>: requests and their
    decision, the relation as two rows, and rooms of two.
  \<^item> \<open>Traces\<close>: runs of steps and two contracts of steps. \<open>FriendSafety\<close>: nobody becomes a friend
    unasked; \<open>FriendTables\<close>: what the tables can hold; \<open>FriendChats\<close>: who may write in a room of two.

  \<^bold>\<open>Files\<close> (\<open>src/oss\<close>, \<open>src/db/query/file.go\<close>)

  \<^item> \<open>Paths\<close>: the paths and numbers of Go's library that the handlers use; a path is resolved
    to its components. \<open>Files\<close>: \<open>upload.go\<close>, from the precheck to the completed file. The disk is a map
    from paths to contents; Redis holds the sets of chunks and their locks; a request
    ends its transaction in one of five ways. \<open>Downloads\<close>: \<open>download.go\<close>, \<open>router.go\<close>.
  \<^item> \<open>Uploads\<close>: completed files are what their hash says, whatever happens; \<open>Reassembly\<close>: the way of
    a file through the server, chunk by chunk, and what goes wrong on it.

  \<^bold>\<open>Calls\<close> (\<open>src/http/handler/media/stream.go\<close>, \<open>src/media/streaming/server.go\<close>)

  \<^item> \<open>Calls\<close>: what a call keeps in Redis (invitation, state, pointer of the room, bindings of users, permits,
    each with its expiry) and every handler of calls; \<open>MediaRelay\<close>: the media server, its frames, its
    hubs, and delivery to the others of a room.
  \<^item> \<open>CallSafety\<close>: the two together as a step relation, with connections that may send anything:
    nobody hears a room without a permit of his own, and a permit opens one connection;
    \<open>CallRules\<close>: one call per room, an ended call stays ended, and what goes wrong.

  \<^bold>\<open>Interfaces.\<close> Six contracts are locales. \<open>heartbeat_table\<close> (what a heartbeat manager
  promises of its table of times) is interpreted on the manager as \<open>hb\<close>; \<open>live_registry\<close> (one live
  connection per user, removed only by its own identity) on the registry as \<open>lr\<close>, and
  \<open>Connections\<close> rests on it; \<open>keyset\<close> (reading a listing page by page loses and repeats nothing)
  on the message history as \<open>history\<close> and on the session list as \<open>session_list\<close>; \<open>safe_steps\<close> (steps
  that keep an invariant) on the friend requests as \<open>friend_tables\<close> and \<open>typed_desk\<close>, and on the uploads
  as \<open>stored_files\<close>, on the media server as \<open>relay\<close>, \<open>permits_kept\<close> and \<open>call_tables\<close>; \<open>caused_steps\<close> (a fact that
  only a known step brings about) on the friend requests as \<open>link\<close> and \<open>ask\<close>, and on calls as \<open>permit\<close> and \<open>seat\<close>. The handlers share
  \<open>keeps\<close>, \<open>ends\<close> and the rules collected in \<open>keep\<close>: a property of the store that every
  operation of a handler keeps, the handler keeps.

  \<^bold>\<open>Conventions.\<close> A string is its bytes, as in Go; \<open>runes\<close> counts code points where the code does.
  Times, sequence numbers and durations are integers, except where wrap-around is within reach
  (the end of a mute, message versions, frame lengths, counters): those are words or are
  wrapped explicitly. A table is the list of its rows, or a map where the code only looks keys up;
  unique indexes are checked where rows are inserted. The records of the stores are extensible, so
  that an operation of an early theory acts on the stores of all later ones. A call that can
  fail asks the environment record of its operation whether it does; theorems hold for all
  environments unless they say otherwise. JSON, bcrypt, BLAKE3, HMAC, AES-GCM, X25519, HKDF, the JWT library,
  random identifiers and the address of the landing page are parameters of the definitions
  that use them. Texts shown to users are given in English, logs are left out.

  \<^bold>\<open>Bounds.\<close> Loops over pages recurse on a number of pages; \<open>scroll_back\<close> is complete
  with as many requests as there are messages, since every page but the last is not empty. A page of
  sessions, a batch of withdrawals (50), a chunk of presence (350) and a sweep of
  heartbeats (100) have the sizes of the code. A run of the queue workers is bounded by the
  weight of its tasks, each of which is tried at most \<open>max_attempts\<close> = 25 times. The parts of a
  file are copied by recursion over the list of their indexes.

  \<^bold>\<open>Not modelled.\<close> Registration, e-mail codes and profiles (forms and single-row writes around
  an e-mail service); configuration, service registry, address lookups, the Redis and database
  clients (input and output); commands, seeding, emoji and themes. Within one step of the model
  goroutines do not interleave, except in the definitions that cut a handler into
  its steps (\<open>connect_step\<close>, \<open>refresh\<close> in steps, the two parts of a send). Columns that are
  only copied into replies, and the joins that decorate rows with names and avatars, are left out.
\<close>

end
